(* ===== verification/Prelude.thy ===== *)
theory Prelude
  imports Main "HOL-Library.State_Monad"
begin

text \<open>
  Shared material. The daemon talks to services that are not part of the repository (Home
  Assistant, the Supervisor, the Datum API, the identity provider). A conversation with such a
  service is a computation over a \<open>world\<close>: a monotone clock in milliseconds, the trace of the
  requests made so far with their replies, and an environment, an arbitrary function that decides
  every reply and how long it takes. Nothing is assumed of the environment, so a theorem about a
  computation holds whatever the service does.

  Below: the world and its primitive steps, a Hoare triple with its rules, the bounded loop that
  every polling loop of the daemon is an instance of, a locale for polling loops with a deadline,
  and small lemmas on lists and options.
\<close>

named_theorems hoare_rules \<open>rules that decompose a Hoare triple\<close>
named_theorems io_defs \<open>definitions of world computations\<close>

section \<open>The world\<close>

text \<open>An event is a request, when it was sent, and its reply; None when the caller gave up.\<close>

datatype ('q, 'r) event = Event (sent_at: nat) (request: 'q) (reply: "'r option")

record ('q, 'r) world =
  environment :: "nat \<Rightarrow> ('q, 'r) event list \<Rightarrow> 'q \<Rightarrow> 'r \<times> nat"
  clock :: nat
  trace :: "('q, 'r) event list"

type_synonym ('q, 'r, 'a) io = "(('q, 'r) world, 'a) state"

text \<open>\<open>ask q\<close> awaits the reply; \<open>ask_within d q\<close> is \<^verbatim>\<open>tokio::time::timeout(d, ...)\<close>.\<close>

definition ask :: "'q \<Rightarrow> ('q, 'r, 'r) io" where
  "ask q = State (\<lambda>w.
     let (r, d) = environment w (clock w) (trace w) q
     in (r, w\<lparr>clock := clock w + d, trace := trace w @ [Event (clock w) q (Some r)]\<rparr>))"

definition ask_within :: "nat \<Rightarrow> 'q \<Rightarrow> ('q, 'r, 'r option) io" where
  "ask_within limit q = State (\<lambda>w.
     let (r, d) = environment w (clock w) (trace w) q
     in if d \<le> limit
        then (Some r, w\<lparr>clock := clock w + d, trace := trace w @ [Event (clock w) q (Some r)]\<rparr>)
        else (None, w\<lparr>clock := clock w + limit, trace := trace w @ [Event (clock w) q None]\<rparr>))"

text \<open>The same with the reply read as what the request is for.\<close>

definition ask_as :: "('r \<Rightarrow> 'a) \<Rightarrow> 'q \<Rightarrow> ('q, 'r, 'a) io" where
  "ask_as f q = do { r \<leftarrow> ask q; State_Monad.return (f r) }"

definition ask_within_as :: "('r \<Rightarrow> 'a) \<Rightarrow> nat \<Rightarrow> 'q \<Rightarrow> ('q, 'r, 'a option) io" where
  "ask_within_as f l q = do { r \<leftarrow> ask_within l q; State_Monad.return (map_option f r) }"

text \<open>A callback of the caller's, kept in the trace; it takes no time and gives nothing back.\<close>

definition signal :: "'q \<Rightarrow> ('q, 'r, unit) io" where
  "signal q = State (\<lambda>w. ((), w\<lparr>trace := trace w @ [Event (clock w) q None]\<rparr>))"

definition now :: "('q, 'r, nat) io" where
  "now = State (\<lambda>w. (clock w, w))"

definition sleep :: "nat \<Rightarrow> ('q, 'r, unit) io" where
  "sleep d = State (\<lambda>w. ((), w\<lparr>clock := clock w + d\<rparr>))"

definition skip :: "('q, 'r, unit) io" where
  "skip = State_Monad.return ()"

section \<open>Hoare triples\<close>

definition hoare :: "(('q, 'r) world \<Rightarrow> bool) \<Rightarrow> ('q, 'r, 'a) io \<Rightarrow>
    ('a \<Rightarrow> ('q, 'r) world \<Rightarrow> bool) \<Rightarrow> bool" where
  "hoare P m Q \<longleftrightarrow> (\<forall>w. P w \<longrightarrow> Q (fst (run_state m w)) (snd (run_state m w)))"

lemma hoareI: "(\<And>w a w'. P w \<Longrightarrow> run_state m w = (a, w') \<Longrightarrow> Q a w') \<Longrightarrow> hoare P m Q"
  by (simp add: hoare_def)

lemma hoareD: "hoare P m Q \<Longrightarrow> P w \<Longrightarrow> run_state m w = (a, w') \<Longrightarrow> Q a w'"
  by (metis fst_conv hoare_def snd_conv)

lemma hoare_bind [hoare_rules]:
  "hoare P m R \<Longrightarrow> (\<And>a. hoare (R a) (f a) Q) \<Longrightarrow> hoare P (State_Monad.bind m f) Q"
  by (auto simp: hoare_def split: prod.split)

lemma hoare_return [hoare_rules]: "(\<And>w. P w \<Longrightarrow> Q a w) \<Longrightarrow> hoare P (State_Monad.return a) Q"
  by (simp add: hoare_def)

lemma hoare_skip [hoare_rules]: "(\<And>w. P w \<Longrightarrow> Q () w) \<Longrightarrow> hoare P skip Q"
  by (simp add: hoare_def skip_def)

lemma hoare_pre: "hoare P' m Q \<Longrightarrow> (\<And>w. P w \<Longrightarrow> P' w) \<Longrightarrow> hoare P m Q"
  by (simp add: hoare_def)

lemma hoare_post: "hoare P m Q' \<Longrightarrow> (\<And>a w. Q' a w \<Longrightarrow> Q a w) \<Longrightarrow> hoare P m Q"
  by (simp add: hoare_def)

lemma hoare_conj: "hoare P m Q \<Longrightarrow> hoare P m R \<Longrightarrow> hoare P m (\<lambda>a w. Q a w \<and> R a w)"
  by (simp add: hoare_def)

lemma hoare_if [hoare_rules]:
  "(b \<Longrightarrow> hoare P m Q) \<Longrightarrow> (\<not> b \<Longrightarrow> hoare P n Q) \<Longrightarrow> hoare P (if b then m else n) Q"
  by simp

lemma hoare_case_option [hoare_rules]:
  "(x = None \<Longrightarrow> hoare P m Q) \<Longrightarrow> (\<And>y. x = Some y \<Longrightarrow> hoare P (f y) Q) \<Longrightarrow>
   hoare P (case x of None \<Rightarrow> m | Some y \<Rightarrow> f y) Q"
  by (cases x) auto

lemma hoare_case_sum [hoare_rules]:
  "(\<And>e. x = Inl e \<Longrightarrow> hoare P (f e) Q) \<Longrightarrow> (\<And>y. x = Inr y \<Longrightarrow> hoare P (g y) Q) \<Longrightarrow>
   hoare P (case x of Inl e \<Rightarrow> f e | Inr y \<Rightarrow> g y) Q"
  by (cases x) auto

lemma hoare_case_prod [hoare_rules]:
  "(\<And>a b. x = (a, b) \<Longrightarrow> hoare P (f a b) Q) \<Longrightarrow> hoare P (case x of (a, b) \<Rightarrow> f a b) Q"
  by (cases x) auto

lemma hoare_pull: "(C \<Longrightarrow> hoare P m Q) \<Longrightarrow> hoare (\<lambda>w. C \<and> P w) m Q"
  by (auto simp: hoare_def)

lemma hoare_pull2: "(C \<Longrightarrow> hoare P m Q) \<Longrightarrow> hoare (\<lambda>w. P w \<and> C) m Q"
  by (auto simp: hoare_def)

lemma hoare_or: "hoare P m Q \<Longrightarrow> hoare R m Q \<Longrightarrow> hoare (\<lambda>w. P w \<or> R w) m Q"
  by (auto simp: hoare_def)

lemma hoare_ex: "(\<And>x. hoare (P x) m Q) \<Longrightarrow> hoare (\<lambda>w. \<exists>x. P x w) m Q"
  by (auto simp: hoare_def)

text \<open>The primitive steps, with the strongest facts the proofs need about the new world.\<close>

lemma run_ask: "run_state (ask q) w = (r, w') \<Longrightarrow>
    \<exists>d. w' = w\<lparr>clock := clock w + d, trace := trace w @ [Event (clock w) q (Some r)]\<rparr>"
  by (auto simp: ask_def Let_def split: prod.splits)

lemma run_ask_within: "run_state (ask_within l q) w = (r, w') \<Longrightarrow>
    \<exists>d. d \<le> l \<and> w' = w\<lparr>clock := clock w + d, trace := trace w @ [Event (clock w) q r]\<rparr>"
  by (auto simp: ask_within_def Let_def split: prod.splits if_splits)

lemma run_now [simp]: "run_state now w = (clock w, w)"
  by (simp add: now_def)

lemma run_sleep [simp]: "run_state (sleep d) w = ((), w\<lparr>clock := clock w + d\<rparr>)"
  by (simp add: sleep_def)

lemma run_skip [simp]: "run_state skip w = ((), w)"
  by (simp add: skip_def)

lemma hoare_ask: "hoare P (ask q) (\<lambda>r w'. \<exists>w d. P w \<and>
    w' = w\<lparr>clock := clock w + d, trace := trace w @ [Event (clock w) q (Some r)]\<rparr>)"
  by (rule hoareI, drule run_ask) blast

lemma hoare_ask_as: "hoare P (ask_as f q) (\<lambda>a w'. \<exists>w d r. P w \<and> a = f r \<and>
    w' = w\<lparr>clock := clock w + d, trace := trace w @ [Event (clock w) q (Some r)]\<rparr>)"
  unfolding ask_as_def by (rule hoareI) (fastforce dest: run_ask split: prod.splits)

lemma hoare_ask_within_as: "hoare P (ask_within_as f l q) (\<lambda>a w'. \<exists>w d r. P w \<and> d \<le> l \<and>
    a = map_option f r \<and>
    w' = w\<lparr>clock := clock w + d, trace := trace w @ [Event (clock w) q r]\<rparr>)"
  unfolding ask_within_as_def by (rule hoareI) (fastforce dest: run_ask_within split: prod.splits)

lemma ask_as_run: "run_state (State_Monad.bind (ask_as f q) g) w = (r, v) \<Longrightarrow>
    \<exists>x w1. trace w1 = trace w @ [Event (clock w) q (Some x)] \<and> run_state (g (f x)) w1 = (r, v)"
  by (auto simp: ask_as_def ask_def Let_def split: prod.splits) (metis world.select_convs(3) world.surjective world.update_convs(3))

lemma run_signal [simp]:
  "run_state (signal q) w = ((), w\<lparr>trace := trace w @ [Event (clock w) q None]\<rparr>)"
  by (simp add: signal_def)

lemma hoare_signal: "hoare P (signal q) (\<lambda>_ w'. \<exists>w. P w \<and>
    w' = w\<lparr>trace := trace w @ [Event (clock w) q None]\<rparr>)"
  by (auto simp: hoare_def)

lemma hoare_sleep: "hoare P (sleep d) (\<lambda>_ w'. \<exists>w. P w \<and> w' = w\<lparr>clock := clock w + d\<rparr>)"
  by (auto simp: hoare_def)

lemma hoare_now: "hoare P now (\<lambda>t w. P w \<and> t = clock w)"
  by (simp add: hoare_def)

lemmas hoare_steps = hoare_bind [OF hoare_ask_as] hoare_bind [OF hoare_ask_within_as]
  hoare_bind [OF hoare_now] hoare_bind [OF hoare_signal] hoare_bind [OF hoare_sleep]

text \<open>Forward symbolic execution: \<open>(intro sp_rules)\<close> leaves one goal for each path.\<close>

lemmas sp_rules = hoare_steps hoare_return hoare_skip hoare_if hoare_case_option hoare_case_sum

section \<open>Facts every computation keeps: time passes, the trace only grows\<close>

definition extends :: "('q, 'r) world \<Rightarrow> ('q, 'r) world \<Rightarrow> bool" where
  "extends w w' \<longleftrightarrow> clock w \<le> clock w' \<and> environment w' = environment w \<and>
     (\<exists>es. trace w' = trace w @ es \<and> (\<forall>e \<in> set es. clock w \<le> sent_at e \<and> sent_at e \<le> clock w'))"

lemma extends_refl [simp, intro]: "extends w w"
  by (simp add: extends_def)

lemma extends_trans [trans]:
  assumes "extends w v" "extends v u" shows "extends w u"
proof -
  from assms obtain es fs where
    "trace v = trace w @ es" "\<forall>e \<in> set es. clock w \<le> sent_at e \<and> sent_at e \<le> clock v"
    "trace u = trace v @ fs" "\<forall>e \<in> set fs. clock v \<le> sent_at e \<and> sent_at e \<le> clock u"
    and c: "clock w \<le> clock v" "clock v \<le> clock u" "environment v = environment w"
      "environment u = environment v"
    by (auto simp: extends_def)
  then have "trace u = trace w @ (es @ fs)"
    "\<forall>e \<in> set (es @ fs). clock w \<le> sent_at e \<and> sent_at e \<le> clock u"
    by (auto intro: order_trans)
  with c show ?thesis unfolding extends_def by (metis order_trans)
qed

definition forward :: "('q, 'r, 'a) io \<Rightarrow> bool" where
  "forward m \<longleftrightarrow> (\<forall>w. extends w (snd (run_state m w)))"

named_theorems forward_intros \<open>computations that only move forward\<close>

lemma forwardD: "forward m \<Longrightarrow> run_state m w = (a, w') \<Longrightarrow> extends w w'"
  by (metis forward_def snd_conv)

lemma forward_clock: "forward m \<Longrightarrow> run_state m w = (a, w') \<Longrightarrow> clock w \<le> clock w'"
  by (auto dest: forwardD simp: extends_def)

lemma forward_bind [forward_intros]:
  "forward m \<Longrightarrow> (\<And>a. forward (f a)) \<Longrightarrow> forward (State_Monad.bind m f)"
  by (fastforce simp: forward_def split: prod.split intro: extends_trans dest: forwardD)

lemma forward_return [forward_intros]: "forward (State_Monad.return a)"
  by (simp add: forward_def)

lemma forward_skip [forward_intros]: "forward skip"
  by (simp add: forward_def)

lemma forward_now [forward_intros]: "forward now"
  by (simp add: forward_def)

lemma forward_sleep [forward_intros]: "forward (sleep d)"
  by (simp add: forward_def extends_def)

lemma forward_signal [forward_intros]: "forward (signal q)"
  by (simp add: forward_def extends_def)

lemma forward_ask [forward_intros]: "forward (ask q)"
  unfolding forward_def by (auto simp: ask_def Let_def extends_def split: prod.split)

lemma forward_ask_within [forward_intros]: "forward (ask_within l q)"
  unfolding forward_def by (auto simp: ask_within_def Let_def extends_def split: prod.split)

lemma forward_if [forward_intros]: "forward m \<Longrightarrow> forward n \<Longrightarrow> forward (if b then m else n)"
  by simp

lemma forward_case_option [forward_intros]:
  "forward m \<Longrightarrow> (\<And>y. forward (f y)) \<Longrightarrow> forward (case x of None \<Rightarrow> m | Some y \<Rightarrow> f y)"
  by (cases x) auto

lemma forward_case_sum [forward_intros]:
  "(\<And>e. forward (f e)) \<Longrightarrow> (\<And>y. forward (g y)) \<Longrightarrow>
   forward (case x of Inl e \<Rightarrow> f e | Inr y \<Rightarrow> g y)"
  by (cases x) auto

lemma forward_case_prod [forward_intros]:
  "(\<And>a b. forward (f a b)) \<Longrightarrow> forward (case x of (a, b) \<Rightarrow> f a b)"
  by (cases x) auto

lemma forward_ask_as [forward_intros]: "forward (ask_as f q)"
  unfolding ask_as_def by (intro forward_intros)

lemma forward_ask_within_as [forward_intros]: "forward (ask_within_as f l q)"
  unfolding ask_within_as_def by (intro forward_intros)

lemma sleep_progress:
  assumes "run_state (State_Monad.bind (sleep d) f) w = (r, v)" "forward (f ())"
  shows "clock w + d \<le> clock v"
proof -
  from assms(1) have "run_state (f ()) (w\<lparr>clock := clock w + d\<rparr>) = (r, v)" by simp
  from forward_clock [OF assms(2) this] show ?thesis by simp
qed

lemma extends_clock: "extends w v \<Longrightarrow> clock w \<le> clock v"
  by (simp add: extends_def)

text \<open>Every request a computation makes is one of \<open>P\<close>.\<close>

definition asks_only :: "('q \<Rightarrow> bool) \<Rightarrow> ('q, 'r, 'a) io \<Rightarrow> bool" where
  "asks_only P m \<longleftrightarrow> (\<forall>w. \<exists>es. trace (snd (run_state m w)) = trace w @ es \<and> (\<forall>e \<in> set es. P (request e)))"

named_theorems asks_intros \<open>which requests a computation makes\<close>

lemma asks_onlyD: "asks_only P m \<Longrightarrow> run_state m w = (a, w') \<Longrightarrow>
    \<exists>es. trace w' = trace w @ es \<and> (\<forall>e \<in> set es. P (request e))"
  by (metis asks_only_def snd_conv)

lemma asks_bind [asks_intros]:
  assumes "asks_only P m" "\<And>a. asks_only P (f a)" shows "asks_only P (State_Monad.bind m f)"
  unfolding asks_only_def
proof
  fix w
  obtain a v where v: "run_state m w = (a, v)" by fastforce
  obtain b u where u: "run_state (f a) v = (b, u)" by fastforce
  from asks_onlyD [OF assms(1) v] asks_onlyD [OF assms(2) u] obtain es fs where
    "trace v = trace w @ es" "\<forall>e \<in> set es. P (request e)"
    "trace u = trace v @ fs" "\<forall>e \<in> set fs. P (request e)" by blast
  then have "trace u = trace w @ (es @ fs) \<and> (\<forall>e \<in> set (es @ fs). P (request e))" by auto
  then show "\<exists>es. trace (snd (run_state (State_Monad.bind m f) w)) = trace w @ es \<and>
      (\<forall>e \<in> set es. P (request e))"
    using v u by (auto split: prod.split)
qed

lemma asks_return [asks_intros]: "asks_only P (State_Monad.return a)"
  by (simp add: asks_only_def)

lemma asks_skip [asks_intros]: "asks_only P skip"
  by (simp add: asks_only_def)

lemma asks_now [asks_intros]: "asks_only P now"
  by (simp add: asks_only_def)

lemma asks_signal [asks_intros]: "P q \<Longrightarrow> asks_only P (signal q)"
  by (simp add: asks_only_def)

lemma asks_sleep [asks_intros]: "asks_only P (sleep d)"
  by (simp add: asks_only_def)

lemma asks_ask [asks_intros]: "P q \<Longrightarrow> asks_only P (ask q)"
  unfolding asks_only_def by (auto simp: ask_def Let_def split: prod.split)

lemma asks_ask_within [asks_intros]: "P q \<Longrightarrow> asks_only P (ask_within l q)"
  unfolding asks_only_def by (auto simp: ask_within_def Let_def split: prod.split)

lemma asks_ask_as [asks_intros]: "P q \<Longrightarrow> asks_only P (ask_as f q)"
  unfolding ask_as_def by (intro asks_intros)

lemma asks_ask_within_as [asks_intros]: "P q \<Longrightarrow> asks_only P (ask_within_as f l q)"
  unfolding ask_within_as_def by (intro asks_intros)

lemma asks_if [asks_intros]: "asks_only P m \<Longrightarrow> asks_only P n \<Longrightarrow> asks_only P (if b then m else n)"
  by simp

lemma asks_case_option [asks_intros]:
  "asks_only P m \<Longrightarrow> (\<And>y. asks_only P (f y)) \<Longrightarrow> asks_only P (case x of None \<Rightarrow> m | Some y \<Rightarrow> f y)"
  by (cases x) auto

lemma asks_case_sum [asks_intros]:
  "(\<And>e. asks_only P (f e)) \<Longrightarrow> (\<And>y. asks_only P (g y)) \<Longrightarrow>
   asks_only P (case x of Inl e \<Rightarrow> f e | Inr y \<Rightarrow> g y)"
  by (cases x) auto

lemma asks_case_prod [asks_intros]:
  "(\<And>a b. asks_only P (f a b)) \<Longrightarrow> asks_only P (case x of (a, b) \<Rightarrow> f a b)"
  by (cases x) auto

lemma asks_weaken: "asks_only P m \<Longrightarrow> (\<And>q. P q \<Longrightarrow> Q q) \<Longrightarrow> asks_only Q m"
  unfolding asks_only_def by blast

lemma hoare_asks_only:
  "asks_only P m \<Longrightarrow> hoare (\<lambda>w. w = w0) m
     (\<lambda>a w'. \<exists>es. trace w' = trace w0 @ es \<and> (\<forall>e \<in> set es. P (request e)))"
  by (rule hoareI) (simp, drule (1) asks_onlyD)

section \<open>Failing computations\<close>

text \<open>The question mark of the source: go on with the value, or return the error.\<close>

definition try_bind :: "('q, 'r, 'e + 'a) io \<Rightarrow> ('a \<Rightarrow> ('q, 'r, 'e + 'b) io) \<Rightarrow> ('q, 'r, 'e + 'b) io" where
  "try_bind m f = do { r \<leftarrow> m; (case r of Inl e \<Rightarrow> State_Monad.return (Inl e) | Inr a \<Rightarrow> f a) }"

lemma forward_try [forward_intros]: "forward m \<Longrightarrow> (\<And>a. forward (f a)) \<Longrightarrow> forward (try_bind m f)"
  unfolding try_bind_def by (intro forward_intros)

lemma asks_try [asks_intros]: "asks_only P m \<Longrightarrow> (\<And>a. asks_only P (f a)) \<Longrightarrow> asks_only P (try_bind m f)"
  unfolding try_bind_def by (intro asks_intros)

lemma hoare_try [hoare_rules]:
  "hoare P m (\<lambda>r w. case r of Inl e \<Rightarrow> Q (Inl e) w | Inr a \<Rightarrow> R a w) \<Longrightarrow>
   (\<And>a. hoare (R a) (f a) Q) \<Longrightarrow> hoare P (try_bind m f) Q"
  unfolding try_bind_def
  by (rule hoare_bind, assumption) (auto simp: hoare_def split: sum.splits)

lemma run_try: "run_state (try_bind m f) w =
    (case run_state m w of (Inl e, v) \<Rightarrow> (Inl e, v) | (Inr a, v) \<Rightarrow> run_state (f a) v)"
  by (auto simp: try_bind_def split: prod.split sum.split)

section \<open>Loops\<close>

text \<open>
  \<open>repeat_io n body s\<close> is \<^verbatim>\<open>loop { ... }\<close> for at most \<open>n\<close> rounds: the body continues with a
  new loop state (Inl) or leaves the loop with a result (Inr). None means the rounds ran out.
\<close>

fun repeat_io :: "nat \<Rightarrow> ('s \<Rightarrow> ('q, 'r, 's + 'a) io) \<Rightarrow> 's \<Rightarrow> ('q, 'r, 'a option) io" where
  "repeat_io 0 body s = State_Monad.return None"
| "repeat_io (Suc n) body s = do {
     r \<leftarrow> body s;
     (case r of Inl s' \<Rightarrow> repeat_io n body s' | Inr a \<Rightarrow> State_Monad.return (Some a))
   }"

lemma forward_repeat [forward_intros]:
  "(\<And>s. forward (body s)) \<Longrightarrow> forward (repeat_io n body s)"
  by (induction n arbitrary: s) (auto intro!: forward_intros)

lemma asks_repeat [asks_intros]:
  "(\<And>s. asks_only P (body s)) \<Longrightarrow> asks_only P (repeat_io n body s)"
  by (induction n arbitrary: s) (auto intro!: asks_intros)

lemma hoare_repeat:
  assumes body: "\<And>s. hoare (I s) (body s) (\<lambda>r w. case r of Inl s' \<Rightarrow> I s' w | Inr a \<Rightarrow> Q a w)"
  shows "hoare (I s) (repeat_io n body s) (\<lambda>r w. \<forall>a. r = Some a \<longrightarrow> Q a w)"
proof (induction n arbitrary: s)
  case 0
  show ?case by (simp add: hoare_def)
next
  case (Suc n)
  have "hoare (\<lambda>w. case r of Inl s' \<Rightarrow> I s' w | Inr a \<Rightarrow> Q a w)
      (case r of Inl s' \<Rightarrow> repeat_io n body s' | Inr a \<Rightarrow> State_Monad.return (Some a))
      (\<lambda>r w. \<forall>a. r = Some a \<longrightarrow> Q a w)" for r
    using Suc by (cases r) (auto simp: hoare_def)
  with body show ?case unfolding repeat_io.simps by (rule hoare_bind)
qed

lemma hoare_repeat_always:
  assumes body: "\<And>s. hoare (I s) (body s) (\<lambda>r w. case r of Inl s' \<Rightarrow> I s' w | Inr _ \<Rightarrow> J w)"
    and J: "\<And>s w. I s w \<Longrightarrow> J w"
  shows "hoare (I s) (repeat_io n body s) (\<lambda>_. J)"
proof (induction n arbitrary: s)
  case 0
  with J show ?case by (auto intro: hoare_return)
next
  case (Suc n)
  have "hoare (\<lambda>w. case r of Inl s' \<Rightarrow> I s' w | Inr a \<Rightarrow> J w)
      (case r of Inl s' \<Rightarrow> repeat_io n body s' | Inr a \<Rightarrow> State_Monad.return (Some a)) (\<lambda>_. J)" for r
    using Suc by (cases r) (auto intro: hoare_return)
  with body show ?case unfolding repeat_io.simps by (rule hoare_bind)
qed

text \<open>
  A polling loop: every round that goes on takes at least \<open>step\<close> or reaches the deadline, and a
  round that begins at or after the deadline leaves the loop. Such a loop ends, and within a known number of rounds.
\<close>

locale polling =
  fixes body :: "'s \<Rightarrow> ('q, 'r, 's + 'a) io" and deadline :: nat and step :: nat
  assumes step_pos: "0 < step"
    and progress: "run_state (body s) w = (Inl s', w') \<Longrightarrow> clock w + step \<le> clock w' \<or> deadline \<le> clock w'"
    and stops: "deadline \<le> clock w \<Longrightarrow> \<exists>a w'. run_state (body s) w = (Inr a, w')"
begin

lemma ends:
  "deadline < clock w + n * step \<Longrightarrow> \<exists>a w'. run_state (repeat_io (Suc n) body s) w = (Some a, w')"
proof (induction n arbitrary: s w)
  case 0
  then have "deadline \<le> clock w" by simp
  from stops [OF this, of s] show ?case by auto
next
  case (Suc n)
  obtain r v where r: "run_state (body s) w = (r, v)" by fastforce
  show ?case
  proof (cases r)
    case (Inl s')
    have "\<exists>a w'. run_state (repeat_io (Suc n) body s') v = (Some a, w')"
    proof (cases "deadline \<le> clock v")
      case True
      from stops [OF this, of s'] show ?thesis by auto
    next
      case False
      with r Inl progress have "clock w + step \<le> clock v" by blast
      with Suc.prems have "deadline < clock v + n * step" by simp
      from Suc.IH [OF this] show ?thesis .
    qed
    with r Inl show ?thesis by simp
  next
    case (Inr a)
    with r show ?thesis by simp
  qed
qed

lemma enough_rounds:
  assumes "deadline - clock w < n"
  shows "\<exists>a w'. run_state (repeat_io (Suc n) body s) w = (Some a, w')"
proof (rule ends)
  from step_pos have "n \<le> n * step" by simp
  moreover from assms have "deadline < clock w + n" by linarith
  ultimately show "deadline < clock w + n * step" by linarith
qed

end

section \<open>Properties of the events a computation adds\<close>

definition leaves :: "(('q, 'r) event list \<Rightarrow> bool) \<Rightarrow> ('q, 'r, 'a) io \<Rightarrow> bool" where
  "leaves R m \<longleftrightarrow> (\<forall>w. \<exists>es. trace (snd (run_state m w)) = trace w @ es \<and> R es)"

lemma leavesD: "leaves R m \<Longrightarrow> run_state m w = (a, w') \<Longrightarrow> \<exists>es. trace w' = trace w @ es \<and> R es"
  by (metis leaves_def snd_conv)

lemma leavesI: "(\<And>w a w'. run_state m w = (a, w') \<Longrightarrow> \<exists>es. trace w' = trace w @ es \<and> R es) \<Longrightarrow> leaves R m"
  unfolding leaves_def by (metis prod.collapse)

lemma asks_leaves: "asks_only P m \<Longrightarrow> leaves (\<lambda>es. \<forall>e \<in> set es. P (request e)) m"
  by (simp add: leaves_def asks_only_def)

lemma leaves_weaken: "leaves R m \<Longrightarrow> (\<And>es. R es \<Longrightarrow> Q es) \<Longrightarrow> leaves Q m"
  unfolding leaves_def by blast

text \<open>A property of event lists that survives putting lists together.\<close>

locale trace_property =
  fixes R :: "('q, 'r) event list \<Rightarrow> bool"
  assumes none_added: "R []" and join: "R es \<Longrightarrow> R fs \<Longrightarrow> R (es @ fs)"
begin

lemma return: "leaves R (State_Monad.return a)"
  by (simp add: leaves_def none_added)

lemma skip: "leaves R skip"
  by (simp add: leaves_def none_added)

lemma now: "leaves R now"
  by (simp add: leaves_def none_added)

lemma sleep: "leaves R (sleep d)"
  by (simp add: leaves_def none_added)

lemma bind: "leaves R m \<Longrightarrow> (\<And>a. leaves R (f a)) \<Longrightarrow> leaves R (State_Monad.bind m f)"
proof (rule leavesI)
  fix w b u
  assume l: "leaves R m" "\<And>a. leaves R (f a)" and run: "run_state (State_Monad.bind m f) w = (b, u)"
  obtain a v where v: "run_state m w = (a, v)" by fastforce
  with run have fu: "run_state (f a) v = (b, u)" by simp
  from leavesD [OF l(1) v] leavesD [OF l(2) fu] show "\<exists>es. trace u = trace w @ es \<and> R es"
    using join by force
qed

lemma case_option: "leaves R m \<Longrightarrow> (\<And>y. leaves R (f y)) \<Longrightarrow> leaves R (case x of None \<Rightarrow> m | Some y \<Rightarrow> f y)"
  by (cases x) auto

lemma case_sum: "(\<And>e. leaves R (f e)) \<Longrightarrow> (\<And>y. leaves R (g y)) \<Longrightarrow>
    leaves R (case x of Inl e \<Rightarrow> f e | Inr y \<Rightarrow> g y)"
  by (cases x) auto

lemma branch: "leaves R m \<Longrightarrow> leaves R n \<Longrightarrow> leaves R (if b then m else n)"
  by simp

lemma try_each: "leaves R m \<Longrightarrow> (\<And>a. leaves R (f a)) \<Longrightarrow> leaves R (try_bind m f)"
  unfolding try_bind_def by (intro bind case_sum return)

lemma repeated: "(\<And>s. leaves R (body s)) \<Longrightarrow> leaves R (repeat_io n body s)"
  by (induction n arbitrary: s) (auto intro!: bind case_sum return)

lemma only: "asks_only P m \<Longrightarrow> (\<And>es. \<forall>e \<in> set es. P (request e) \<Longrightarrow> R es) \<Longrightarrow> leaves R m"
  using asks_leaves leaves_weaken by blast

lemmas intros = bind return skip now sleep case_option case_sum branch try_each repeated

end

text \<open>Every event that needs one is preceded by an event that allows it.\<close>

definition preceded :: "(('q, 'r) event \<Rightarrow> bool) \<Rightarrow> (('q, 'r) event \<Rightarrow> ('q, 'r) event \<Rightarrow> bool) \<Rightarrow>
    ('q, 'r) event list \<Rightarrow> bool" where
  "preceded needs allows es \<longleftrightarrow>
     (\<forall>us e vs. es = us @ e # vs \<longrightarrow> needs e \<longrightarrow> (\<exists>d \<in> set us. allows d e))"

interpretation before: trace_property "preceded needs allows" for needs allows
proof unfold_locales
  show "preceded needs allows []" by (simp add: preceded_def)
next
  fix es fs assume a: "preceded needs allows es" "preceded needs allows fs"
  show "preceded needs allows (es @ fs)" unfolding preceded_def
  proof (intro allI impI)
    fix us e vs assume eq: "es @ fs = us @ e # vs" and n: "needs e"
    then obtain xs where "es = us @ xs \<and> xs @ fs = e # vs \<or> us = es @ xs \<and> fs = xs @ e # vs"
      by (auto simp: append_eq_append_conv2)
    then show "\<exists>d \<in> set us. allows d e"
    proof
      assume x: "es = us @ xs \<and> xs @ fs = e # vs"
      show ?thesis
      proof (cases xs)
        case Nil
        with x a(2) n have "fs = [] @ e # vs" by simp
        with a(2) n have "\<exists>d \<in> set []. allows d e" unfolding preceded_def by blast
        then show ?thesis by simp
      next
        case (Cons y ys)
        with x have "es = us @ e # ys" by simp
        with a(1) n show ?thesis unfolding preceded_def by blast
      qed
    next
      assume "us = es @ xs \<and> fs = xs @ e # vs"
      with a(2) n show ?thesis unfolding preceded_def by fastforce
    qed
  qed
qed

lemma precededD: "preceded needs allows (us @ e # vs) \<Longrightarrow> needs e \<Longrightarrow> \<exists>d \<in> set us. allows d e"
  unfolding preceded_def by blast

lemma preceded_snoc: "preceded needs allows es \<Longrightarrow> (needs e \<Longrightarrow> \<exists>d \<in> set es. allows d e) \<Longrightarrow> preceded needs allows (es @ [e])"
  unfolding preceded_def
proof (intro allI impI)
  fix us x vs
  assume p: "\<forall>us e vs. es = us @ e # vs \<longrightarrow> needs e \<longrightarrow> (\<exists>d\<in>set us. allows d e)"
    and l: "needs e \<Longrightarrow> \<exists>d\<in>set es. allows d e" and eq: "es @ [e] = us @ x # vs" and x: "needs x"
  show "\<exists>d\<in>set us. allows d x"
  proof (cases vs rule: rev_cases)
    case Nil
    with eq l x show ?thesis by simp
  next
    case (snoc ys y)
    with eq have "es = us @ x # ys" by simp
    with p x show ?thesis by blast
  qed
qed

lemma preceded_none: "\<forall>e \<in> set es. \<not> needs e \<Longrightarrow> preceded needs allows es"
  by (auto simp: preceded_def)

lemma preceded_lead:
  assumes "\<forall>e \<in> set es. \<not> needs e" "\<And>e. e \<in> set fs \<Longrightarrow> needs e \<Longrightarrow> \<exists>d \<in> set es. allows d e"
  shows "preceded needs allows (es @ fs)"
  unfolding preceded_def
proof (intro allI impI)
  fix us e vs assume eq: "es @ fs = us @ e # vs" and n: "needs e"
  then obtain xs where "es = us @ xs \<and> xs @ fs = e # vs \<or> us = es @ xs \<and> fs = xs @ e # vs"
    by (auto simp: append_eq_append_conv2)
  moreover have "e \<notin> set es" using assms(1) n by blast
  ultimately have "e \<in> set fs \<and> set es \<subseteq> set us" by (cases xs) auto
  with assms(2) n show "\<exists>d \<in> set us. allows d e" by blast
qed

text \<open>A step that succeeds only after an allowing event clears the way for what follows.\<close>

lemma leaves_after:
  assumes m: "leaves (\<lambda>es. \<forall>e \<in> set es. \<not> needs e) m"
    and ok: "\<And>w a v. run_state m w = (Inr a, v) \<Longrightarrow>
      \<exists>es. trace v = trace w @ es \<and> (\<forall>e \<in> set es. \<not> needs e) \<and>
        (\<forall>u x. run_state (f a) v = (x, u) \<longrightarrow> (\<exists>fs. trace u = trace v @ fs \<and>
          (\<forall>e \<in> set fs. needs e \<longrightarrow> (\<exists>d \<in> set es. allows d e))))"
  shows "leaves (preceded needs allows) (try_bind m f)"
proof (rule leavesI)
  fix w x u
  assume run: "run_state (try_bind m f) w = (x, u)"
  obtain r v where v: "run_state m w = (r, v)" by fastforce
  show "\<exists>es. trace u = trace w @ es \<and> preceded needs allows es"
  proof (cases r)
    case (Inl e)
    with run v have "u = v" by (simp add: run_try)
    with leavesD [OF m v] show ?thesis by (auto intro: preceded_none)
  next
    case (Inr a)
    with run v have fu: "run_state (f a) v = (x, u)" by (simp add: run_try)
    from ok [OF v [unfolded Inr]] fu obtain es fs where
      "trace v = trace w @ es" "\<forall>e \<in> set es. \<not> needs e" "trace u = trace v @ fs"
      "\<forall>e \<in> set fs. needs e \<longrightarrow> (\<exists>d \<in> set es. allows d e)" by blast
    then show ?thesis by (intro exI [of _ "es @ fs"]) (auto intro: preceded_lead)
  qed
qed

abbreviation any_requests :: "('q, 'r, 'a) io \<Rightarrow> bool" where
  "any_requests m \<equiv> asks_only (\<lambda>_. True) m"

lemma leaves_lead:
  assumes m: "leaves (\<lambda>es. (\<forall>e \<in> set es. \<not> needs e) \<and> (\<exists>d \<in> set es. \<forall>e. needs e \<longrightarrow> allows d e)) m"
    and f: "\<And>a. any_requests (f a)"
  shows "leaves (preceded needs allows) (State_Monad.bind m f)"
proof (rule leavesI)
  fix w x u
  assume run: "run_state (State_Monad.bind m f) w = (x, u)"
  obtain a v where v: "run_state m w = (a, v)" by fastforce
  with run have fu: "run_state (f a) v = (x, u)" by simp
  from leavesD [OF m v] obtain es where "trace v = trace w @ es" "\<forall>e \<in> set es. \<not> needs e"
    "\<exists>d \<in> set es. \<forall>e. needs e \<longrightarrow> allows d e" by blast
  moreover from asks_onlyD [OF f fu] obtain fs where "trace u = trace v @ fs" by blast
  ultimately show "\<exists>es. trace u = trace w @ es \<and> preceded needs allows es"
    by (intro exI [of _ "es @ fs"]) (auto intro!: preceded_lead)
qed

section \<open>Machines that keep an invariant\<close>

text \<open>
  A component with a state and a list of events that reach it in any order: what every allowed event
  keeps holds after any sequence of them.
\<close>

locale guarded_machine =
  fixes step :: "'e \<Rightarrow> 's \<Rightarrow> 's" and allowed :: "'e \<Rightarrow> bool" and inv :: "'s \<Rightarrow> bool"
  assumes keeps: "inv s \<Longrightarrow> allowed e \<Longrightarrow> inv (step e s)"
begin

lemma run: "inv s \<Longrightarrow> list_all allowed es \<Longrightarrow> inv (fold step es s)"
  by (induction es arbitrary: s) (auto intro: keeps)

lemma run_prefix: "inv s \<Longrightarrow> list_all allowed (es @ fs) \<Longrightarrow> inv (fold step es s)"
  by (rule run) auto

end

section \<open>Evaluating against a fixed answerer\<close>

text \<open>
  To run a computation on a concrete case: an environment that answers every request the same way each
  time, after a millisecond.
\<close>

definition answering :: "('q \<Rightarrow> 'r) \<Rightarrow> ('q, 'r) world \<Rightarrow> bool" where
  "answering answer w \<longleftrightarrow> environment w = (\<lambda>t es q. (answer q, 1))"

definition answerer :: "('q \<Rightarrow> 'r) \<Rightarrow> ('q, 'r) world" where
  "answerer answer = \<lparr>environment = (\<lambda>t es q. (answer q, 1)), clock = 0, trace = []\<rparr>"

definition gives :: "('q \<Rightarrow> 'r) \<Rightarrow> ('q, 'r, 'a) io \<Rightarrow> 'a \<Rightarrow> bool" where
  "gives answer m x \<longleftrightarrow> (\<forall>w. answering answer w \<longrightarrow> (\<exists>v. run_state m w = (x, v) \<and> answering answer v))"

named_theorems gives_intros \<open>evaluating a computation against a fixed answerer\<close>

lemma givesD: "gives answer m x \<Longrightarrow> \<exists>v. run_state m (answerer answer) = (x, v) \<and> answering answer v"
  by (simp add: gives_def answering_def answerer_def)

lemma gives_return [gives_intros]: "gives answer (State_Monad.return a) a"
  by (simp add: gives_def)

lemma gives_skip [gives_intros]: "gives answer skip ()"
  by (simp add: gives_def)

lemma gives_sleep [gives_intros]: "gives answer (sleep d) ()"
  by (simp add: gives_def answering_def)

lemma gives_signal [gives_intros]: "gives answer (signal q) ()"
  by (simp add: gives_def answering_def)

lemma gives_ask_as [gives_intros]: "gives answer (ask_as f q) (f (answer q))"
  by (auto simp: gives_def answering_def ask_as_def ask_def)

lemma gives_bind [gives_intros]:
  "gives answer m x \<Longrightarrow> gives answer (f x) y \<Longrightarrow> gives answer (State_Monad.bind m f) y"
  unfolding gives_def by fastforce

lemma gives_now [gives_intros]: "(\<And>t. gives answer (f t) y) \<Longrightarrow> gives answer (State_Monad.bind now f) y"
  unfolding gives_def by fastforce

lemma gives_try [gives_intros]:
  "gives answer m (Inr x) \<Longrightarrow> gives answer (f x) y \<Longrightarrow> gives answer (try_bind m f) y"
  unfolding gives_def by (fastforce simp: run_try)

lemma gives_eq: "gives answer m x \<Longrightarrow> x = y \<Longrightarrow> gives answer m y"
  by simp

section \<open>Lists and options\<close>

lemma map_filter_append: "List.map_filter f (xs @ ys) = List.map_filter f xs @ List.map_filter f ys"
  by (simp add: List.map_filter_def)

lemma Some_eq_map_option: "Some y = map_option f x \<longleftrightarrow> (\<exists>z. x = Some z \<and> y = f z)"
  by (cases x) auto

lemma map_of_filter_key: "map_of (filter (\<lambda>p. Q (fst p)) xs) k = (if Q k then map_of xs k else None)"
  by (induction xs) auto

lemma find_Some_iff2: "(find P xs = Some x) \<Longrightarrow> P x \<and> x \<in> set xs"
  by (metis find_Some_iff nth_mem)

lemma find_None_iff2: "(find P xs = None) \<longleftrightarrow> (\<forall>x \<in> set xs. \<not> P x)"
  by (auto simp: find_None_iff)

lemma single_split:
  assumes "es0 @ es1 @ es2 = us @ e # vs" "length (filter P es1) \<le> 1" "P e"
    "\<forall>x \<in> set es0 \<union> set es2. \<not> P x"
  shows "\<exists>zs. us = es0 @ zs \<and> (\<forall>x \<in> set (us @ vs). \<not> P x)"
proof -
  from assms(1) obtain zs where "es0 = us @ zs \<and> zs @ es1 @ es2 = e # vs \<or> us = es0 @ zs \<and> es1 @ es2 = zs @ e # vs"
    by (auto simp: append_eq_append_conv2)
  with assms(3,4) have z: "us = es0 @ zs" "es1 @ es2 = zs @ e # vs" by (cases zs; auto)+
  have "length (filter P (es0 @ es1 @ es2)) \<le> 1" using assms(2,4) by (auto simp: filter_False)
  then have "filter P us = []" "filter P vs = []" unfolding assms(1) using assms(3) by auto
  with z(1) show ?thesis by (auto simp: filter_empty_conv)
qed

end
