(* ===== verification/Text.thy ===== *)
theory Text
  imports Prelude "HOL-Library.Char_ord" "HOL-Library.List_Lexorder"
begin

text \<open>
  The string operations of Rust's standard library that the daemon uses. A text is a list of
  characters in the range U+0000 to U+00FF, which is what HOL's \<open>char\<close> holds; the predicates
  \<open>is_whitespace\<close> and \<open>is_control\<close> are Unicode's, restricted to that range.
\<close>

type_synonym str = string

abbreviation code :: "char \<Rightarrow> nat" where
  "code c \<equiv> of_char c"

definition is_whitespace :: "char \<Rightarrow> bool" where
  "is_whitespace c \<longleftrightarrow> (9 \<le> code c \<and> code c \<le> 13) \<or> code c \<in> {32, 133, 160}"

definition is_control :: "char \<Rightarrow> bool" where
  "is_control c \<longleftrightarrow> code c < 32 \<or> (127 \<le> code c \<and> code c < 160)"

definition is_digit :: "char \<Rightarrow> bool" where
  "is_digit c \<longleftrightarrow> 48 \<le> code c \<and> code c \<le> 57"

definition is_upper :: "char \<Rightarrow> bool" where
  "is_upper c \<longleftrightarrow> 65 \<le> code c \<and> code c \<le> 90"

definition is_lower :: "char \<Rightarrow> bool" where
  "is_lower c \<longleftrightarrow> 97 \<le> code c \<and> code c \<le> 122"

definition is_alnum :: "char \<Rightarrow> bool" where
  "is_alnum c \<longleftrightarrow> is_digit c \<or> is_upper c \<or> is_lower c"

lemmas char_class_defs = is_whitespace_def is_control_def is_digit_def is_upper_def is_lower_def
  is_alnum_def

section \<open>Case\<close>

definition lower_char :: "char \<Rightarrow> char" where
  "lower_char c = (if is_upper c then char_of (code c + 32) else c)"

definition lowercase :: "str \<Rightarrow> str" where
  "lowercase s = map lower_char s"

definition eq_ignore_case :: "str \<Rightarrow> str \<Rightarrow> bool" where
  "eq_ignore_case a b \<longleftrightarrow> lowercase a = lowercase b"

lemma code_lower_char: "code (lower_char c) = (if is_upper c then code c + 32 else code c)"
  by (auto simp: lower_char_def is_upper_def take_bit_eq_mod)

lemma lower_char_idem [simp]: "lower_char (lower_char c) = lower_char c"
proof (cases "is_upper c")
  case True
  then have "code (lower_char c) = code c + 32" by (simp add: code_lower_char)
  with True have "\<not> is_upper (lower_char c)" by (simp add: is_upper_def)
  then show ?thesis by (simp add: lower_char_def)
qed (simp add: lower_char_def)

lemma lower_char_space [simp]: "is_whitespace (lower_char c) = is_whitespace c"
  by (auto simp: is_whitespace_def code_lower_char is_upper_def)

lemma lower_char_alnum [simp]: "is_alnum (lower_char c) = is_alnum c"
  by (auto simp: char_class_defs code_lower_char)

lemma lowercase_idem [simp]: "lowercase (lowercase s) = lowercase s"
  by (simp add: lowercase_def)

lemma lowercase_Nil [simp]: "lowercase s = [] \<longleftrightarrow> s = []" "lowercase [] = []"
  by (simp_all add: lowercase_def)

lemma length_lowercase [simp]: "length (lowercase s) = length s"
  by (simp add: lowercase_def)

lemma eq_ignore_case_refl [simp]: "eq_ignore_case s s"
  by (simp add: eq_ignore_case_def)

lemma eq_ignore_case_lower [simp]: "eq_ignore_case s (lowercase t) = eq_ignore_case s t"
  by (simp add: eq_ignore_case_def)

section \<open>Trimming\<close>

definition trim_start :: "str \<Rightarrow> str" where
  "trim_start s = dropWhile is_whitespace s"

definition trim_end_with :: "(char \<Rightarrow> bool) \<Rightarrow> str \<Rightarrow> str" where
  "trim_end_with P s = rev (dropWhile P (rev s))"

definition trim :: "str \<Rightarrow> str" where
  "trim s = trim_end_with is_whitespace (trim_start s)"

definition trim_start_char :: "char \<Rightarrow> str \<Rightarrow> str" where
  "trim_start_char c s = dropWhile (\<lambda>x. x = c) s"

definition trim_end_char :: "char \<Rightarrow> str \<Rightarrow> str" where
  "trim_end_char c s = trim_end_with (\<lambda>x. x = c) s"

text \<open>A text is trimmed when it neither begins nor ends with whitespace.\<close>

definition trimmed :: "str \<Rightarrow> bool" where
  "trimmed s \<longleftrightarrow> s = [] \<or> (\<not> is_whitespace (hd s) \<and> \<not> is_whitespace (last s))"

lemma trim_end_with_last: "trim_end_with P s \<noteq> [] \<Longrightarrow> \<not> P (last (trim_end_with P s))"
  unfolding trim_end_with_def by (simp add: last_rev hd_dropWhile)

lemma trim_end_with_prefix: "\<exists>t. s = trim_end_with P s @ t \<and> (\<forall>c \<in> set t. P c)"
proof -
  have "rev s = takeWhile P (rev s) @ dropWhile P (rev s)" by simp
  then have "s = rev (dropWhile P (rev s)) @ rev (takeWhile P (rev s))"
    by (metis rev_append rev_rev_ident)
  moreover have "\<forall>c \<in> set (rev (takeWhile P (rev s))). P c" by (auto dest: set_takeWhileD)
  ultimately show ?thesis unfolding trim_end_with_def by blast
qed

lemma trimmed_trim [simp]: "trimmed (trim s)"
proof (cases "trim s = []")
  case True
  then show ?thesis by (simp add: trimmed_def)
next
  case False
  let ?d = "dropWhile is_whitespace s"
  from trim_end_with_prefix [of ?d is_whitespace] obtain t where t: "?d = trim s @ t"
    unfolding trim_def trim_start_def by metis
  with False have "?d \<noteq> []" "hd ?d = hd (trim s)" by auto
  then have "\<not> is_whitespace (hd (trim s))" by (metis hd_dropWhile)
  moreover have "\<not> is_whitespace (last (trim s))"
    using False trim_end_with_last unfolding trim_def by blast
  ultimately show ?thesis by (simp add: trimmed_def)
qed

lemma trim_trimmed: "trimmed s \<Longrightarrow> trim s = s"
proof (cases "s = []")
  case True
  then show ?thesis by (simp add: trim_def trim_start_def trim_end_with_def)
next
  case False
  assume "trimmed s"
  with False have h: "\<not> is_whitespace (hd s)" and l: "\<not> is_whitespace (last s)"
    by (auto simp: trimmed_def)
  from False h have "trim_start s = s" by (cases s) (auto simp: trim_start_def)
  moreover from False l have "dropWhile is_whitespace (rev s) = rev s"
    by (cases s rule: rev_cases) auto
  ultimately show ?thesis by (simp add: trim_def trim_end_with_def)
qed

lemma trim_idem [simp]: "trim (trim s) = trim s"
  by (rule trim_trimmed) simp

lemma set_trim: "set (trim s) \<subseteq> set s"
proof
  fix x assume "x \<in> set (trim s)"
  then have "x \<in> set (rev (dropWhile is_whitespace s))"
    unfolding trim_def trim_start_def trim_end_with_def by (metis set_dropWhileD set_rev)
  then show "x \<in> set s" by (metis set_dropWhileD set_rev)
qed

lemma trimmed_lowercase [simp]: "trimmed (lowercase s) = trimmed s"
  by (cases "s = []") (auto simp: trimmed_def lowercase_def hd_map last_map)

lemma trim_lowercase: "trim (lowercase s) = lowercase (trim s)"
proof -
  have "is_whitespace \<circ> lower_char = is_whitespace" by (rule ext) simp
  then show ?thesis
    by (simp add: trim_def trim_start_def trim_end_with_def lowercase_def dropWhile_map rev_map)
qed

section \<open>Prefixes, searching, splitting\<close>

fun strip_prefix :: "str \<Rightarrow> str \<Rightarrow> str option" where
  "strip_prefix [] s = Some s"
| "strip_prefix (p # ps) [] = None"
| "strip_prefix (p # ps) (c # s) = (if p = c then strip_prefix ps s else None)"

definition starts_with :: "str \<Rightarrow> str \<Rightarrow> bool" where
  "starts_with p s \<longleftrightarrow> strip_prefix p s \<noteq> None"

definition strip_suffix :: "str \<Rightarrow> str \<Rightarrow> str option" where
  "strip_suffix p s = map_option rev (strip_prefix (rev p) (rev s))"

definition ends_with :: "str \<Rightarrow> str \<Rightarrow> bool" where
  "ends_with p s \<longleftrightarrow> strip_suffix p s \<noteq> None"

lemma strip_prefix_Some: "strip_prefix p s = Some r \<longleftrightarrow> s = p @ r"
  by (induction p s rule: strip_prefix.induct) auto

lemma strip_suffix_Some: "strip_suffix p s = Some r \<longleftrightarrow> s = r @ p"
  by (auto simp: strip_suffix_def strip_prefix_Some) (metis rev_append rev_rev_ident)+

lemma starts_with_iff: "starts_with p s \<longleftrightarrow> (\<exists>r. s = p @ r)"
  by (auto simp: starts_with_def strip_prefix_Some)

text \<open>\<open>split_once\<close> at the first occurrence of a pattern; \<open>None\<close> when it does not occur.\<close>

fun split_once :: "str \<Rightarrow> str \<Rightarrow> (str \<times> str) option" where
  "split_once p [] = (if p = [] then Some ([], []) else None)"
| "split_once p (c # s) = (case strip_prefix p (c # s) of
     Some r \<Rightarrow> Some ([], r)
   | None \<Rightarrow> map_option (\<lambda>(a, b). (c # a, b)) (split_once p s))"

definition has_sub :: "str \<Rightarrow> str \<Rightarrow> bool" where
  "has_sub p s \<longleftrightarrow> split_once p s \<noteq> None"

lemma split_once_Some: "split_once p s = Some (a, b) \<Longrightarrow> s = a @ p @ b"
  by (induction p s arbitrary: a b rule: split_once.induct)
    (auto simp: strip_prefix_Some split: option.splits if_splits)

lemma split_once_None: "split_once p s = None \<Longrightarrow> s \<noteq> a @ p @ b"
proof (induction p s arbitrary: a rule: split_once.induct)
  case (1 p)
  then show ?case by (auto split: if_splits)
next
  case (2 p c s)
  from "2.prems" have n: "strip_prefix p (c # s) = None" and r: "split_once p s = None"
    by (auto split: option.splits)
  show ?case
  proof (cases a)
    case Nil
    with n show ?thesis using strip_prefix_Some [of p "c # s"] by auto
  next
    case (Cons x xs)
    with "2.IH" [OF n r] show ?thesis by auto
  qed
qed

lemma has_sub_iff: "has_sub p s \<longleftrightarrow> (\<exists>a b. s = a @ p @ b)"
proof
  assume "has_sub p s"
  then obtain a b where "split_once p s = Some (a, b)" unfolding has_sub_def by auto
  then show "\<exists>a b. s = a @ p @ b" using split_once_Some by blast
next
  assume "\<exists>a b. s = a @ p @ b"
  then show "has_sub p s" unfolding has_sub_def using split_once_None by blast
qed

lemma split_once_char_Some:
  "split_once [c] s = Some (a, b) \<longleftrightarrow> s = a @ c # b \<and> c \<notin> set a"
  by (induction s arbitrary: a b) (auto simp: Cons_eq_append_conv split: option.splits)

lemma has_sub_char [simp]: "has_sub [c] s \<longleftrightarrow> c \<in> set s"
  by (auto simp: has_sub_iff in_set_conv_decomp)

text \<open>\<open>rsplit_once\<close> at the last occurrence of a character.\<close>

definition rsplit_once :: "char \<Rightarrow> str \<Rightarrow> (str \<times> str) option" where
  "rsplit_once c s = map_option (\<lambda>(a, b). (rev b, rev a)) (split_once [c] (rev s))"

lemma rsplit_once_Some: "rsplit_once c s = Some (a, b) \<longleftrightarrow> s = a @ c # b \<and> c \<notin> set b"
proof -
  have "rsplit_once c s = Some (a, b) \<longleftrightarrow> split_once [c] (rev s) = Some (rev b, rev a)"
    by (auto simp: rsplit_once_def)
  also have "\<dots> \<longleftrightarrow> s = a @ c # b \<and> c \<notin> set b"
    by (simp add: split_once_char_Some rev_swap)
  finally show ?thesis .
qed

text \<open>\<open>split\<close> at every occurrence of a character: always at least one part.\<close>

fun split_on :: "char \<Rightarrow> str \<Rightarrow> str list" where
  "split_on c [] = [[]]"
| "split_on c (x # s) = (if x = c then [] # split_on c s
     else (case split_on c s of [] \<Rightarrow> [[x]] | p # ps \<Rightarrow> (x # p) # ps))"

text \<open>\<open>str::lines\<close>: without the line ends, and without an empty line after the last one.\<close>

definition strip_cr :: "str \<Rightarrow> str" where
  "strip_cr s = (if s \<noteq> [] \<and> last s = CHR 0x0D then butlast s else s)"

definition lines :: "str \<Rightarrow> str list" where
  "lines s = (let ps = split_on (CHR 0x0A) s
     in map strip_cr (butlast ps) @ (if last ps = [] then [] else [last ps]))"

text \<open>\<open>str::replace\<close> of a non-empty pattern, left to right, without overlaps.\<close>

function replace_all :: "str \<Rightarrow> str \<Rightarrow> str \<Rightarrow> str" where
  "replace_all p r [] = []"
| "replace_all p r (c # s) =
     (if p \<noteq> [] \<and> starts_with p (c # s) then r @ replace_all p r (drop (length p) (c # s))
      else c # replace_all p r s)"
  by pat_completeness auto
termination
  by (relation "measure (\<lambda>(p, r, s). length s)") auto

section \<open>Numbers\<close>

definition digit_value :: "char \<Rightarrow> nat" where
  "digit_value c = code c - 48"

definition digits_value :: "str \<Rightarrow> nat" where
  "digits_value s = foldl (\<lambda>n c. 10 * n + digit_value c) 0 s"

text \<open>\<open>uN::from_str\<close>: an optional plus sign, then at least one digit, no larger than the type.\<close>

definition parse_uint :: "nat \<Rightarrow> str \<Rightarrow> nat option" where
  "parse_uint largest s = (let d = (if s \<noteq> [] \<and> hd s = CHR ''+'' then tl s else s)
     in if d \<noteq> [] \<and> list_all is_digit d \<and> digits_value d \<le> largest then Some (digits_value d) else None)"

fun show_nat :: "nat \<Rightarrow> str" where
  "show_nat n = (if n < 10 then [char_of (48 + n)] else show_nat (n div 10) @ [char_of (48 + n mod 10)])"

declare show_nat.simps [simp del]

lemma code_digit: "n < 10 \<Longrightarrow> code (char_of (48 + n) :: char) = 48 + n"
  by (simp add: take_bit_eq_mod)

lemma digits_value_append [simp]:
  "digits_value (s @ [c]) = 10 * digits_value s + digit_value c"
  by (simp add: digits_value_def)

lemma show_nat_digits: "list_all is_digit (show_nat n) \<and> show_nat n \<noteq> []"
proof (induction n rule: show_nat.induct)
  case (1 n)
  show ?case
  proof (cases "n < 10")
    case True
    then show ?thesis
      by (subst (1 2) show_nat.simps) (simp add: is_digit_def take_bit_eq_mod)
  next
    case False
    have "n mod 10 < 10" by simp
    then have "is_digit (char_of (48 + n mod 10))" by (simp add: is_digit_def take_bit_eq_mod)
    with 1 False show ?thesis by (subst (1 2) show_nat.simps) simp
  qed
qed

lemma digits_value_show [simp]: "digits_value (show_nat n) = n"
proof (induction n rule: show_nat.induct)
  case (1 n)
  show ?case
  proof (cases "n < 10")
    case True
    then show ?thesis
      by (subst show_nat.simps) (simp add: digits_value_def digit_value_def take_bit_eq_mod)
  next
    case False
    with 1 show ?thesis
      by (subst show_nat.simps) (simp add: digit_value_def take_bit_eq_mod)
  qed
qed

text \<open>What is printed is read back, when it fits.\<close>

lemma parse_show_nat: "parse_uint m (show_nat n) = (if n \<le> m then Some n else None)"
proof -
  obtain c t where s: "show_nat n = c # t" using show_nat_digits [of n] by (cases "show_nat n") auto
  with show_nat_digits [of n] have "c \<noteq> CHR ''+''" by (auto simp: is_digit_def)
  with s have "(if show_nat n \<noteq> [] \<and> hd (show_nat n) = CHR ''+'' then tl (show_nat n) else show_nat n)
      = show_nat n" by simp
  with show_nat_digits [of n] show ?thesis by (simp add: parse_uint_def)
qed

end
