(* ===== verification/Json.thy ===== *)
theory Json
  imports Text
begin

text \<open>
  JSON values as the daemon handles them (\<^verbatim>\<open>serde_json::Value\<close>). Objects are association lists
  in key order: the crate is built without its \<open>preserve_order\<close> feature (\<open>Cargo.lock\<close> lists no
  \<open>indexmap\<close> below it), so its map is a \<open>BTreeMap\<close>, and equality of values is equality here.
  Integers carry their value; a number with a fraction or an exponent, which no code looks into,
  keeps its text.
\<close>

datatype json =
    JNull
  | JBool bool
  | JNum int
  | JReal str
  | JStr str
  | JArr "json list"
  | JObj "(str \<times> json) list"

type_synonym obj = "(str \<times> json) list"

section \<open>Objects\<close>

definition obj_get :: "obj \<Rightarrow> str \<Rightarrow> json option" where
  "obj_get o1 k = map_of o1 k"

fun obj_put :: "str \<Rightarrow> json \<Rightarrow> obj \<Rightarrow> obj" where
  "obj_put k v [] = [(k, v)]"
| "obj_put k v ((k', v') # r) =
     (if k < k' then (k, v) # (k', v') # r
      else if k = k' then (k, v) # r
      else (k', v') # obj_put k v r)"

definition obj_remove :: "str \<Rightarrow> obj \<Rightarrow> obj" where
  "obj_remove k o1 = filter (\<lambda>(k', v). k' \<noteq> k) o1"

definition obj_of :: "(str \<times> json) list \<Rightarrow> obj" where
  "obj_of kvs = fold (\<lambda>(k, v). obj_put k v) kvs []"

text \<open>Key order, which is what a \<open>BTreeMap\<close> keeps.\<close>

definition ordered :: "obj \<Rightarrow> bool" where
  "ordered o1 \<longleftrightarrow> sorted_wrt (<) (map fst o1)"

lemma ordered_Cons [simp]:
  "ordered ((k, v) # r) \<longleftrightarrow> (\<forall>k' \<in> set (map fst r). k < k') \<and> ordered r"
  by (simp add: ordered_def)

lemma ordered_Nil [simp]: "ordered []"
  by (simp add: ordered_def)

lemma set_obj_put [simp]: "set (map fst (obj_put k v o1)) = insert k (set (map fst o1))"
  by (induction k v o1 rule: obj_put.induct) auto

lemma set_obj_put' [simp]: "fst ` set (obj_put k v o1) = insert k (fst ` set o1)"
  using set_obj_put [of k v o1] by (simp only: set_map)

lemma ordered_put [simp]: "ordered o1 \<Longrightarrow> ordered (obj_put k v o1)"
  by (induction k v o1 rule: obj_put.induct) auto

lemma ordered_remove [simp]: "ordered o1 \<Longrightarrow> ordered (obj_remove k o1)"
  by (induction o1) (auto simp: obj_remove_def)

lemma ordered_obj_of [simp]: "ordered (obj_of kvs)"
proof -
  have "ordered a \<Longrightarrow> ordered (fold (\<lambda>(k, v). obj_put k v) kvs a)" for a
    by (induction kvs arbitrary: a) auto
  then show ?thesis by (simp add: obj_of_def)
qed

lemma get_put [simp]: "obj_get (obj_put k v o1) k' = (if k' = k then Some v else obj_get o1 k')"
  by (induction k v o1 rule: obj_put.induct) (auto simp: obj_get_def)

lemma get_remove [simp]: "obj_get (obj_remove k o1) k' = (if k' = k then None else obj_get o1 k')"
  by (induction o1) (auto simp: obj_get_def obj_remove_def)

lemma get_Nil [simp]: "obj_get [] k = None"
  by (simp add: obj_get_def)

lemma get_Cons [simp]: "obj_get ((k, v) # r) k' = (if k' = k then Some v else obj_get r k')"
  by (simp add: obj_get_def)

lemma get_None_iff: "obj_get o1 k = None \<longleftrightarrow> k \<notin> fst ` set o1"
  by (simp add: obj_get_def map_of_eq_None_iff)

text \<open>Two objects in key order with the same entries are the same object.\<close>

lemma ordered_ext:
  assumes "ordered a" "ordered b" "\<And>k. obj_get a k = obj_get b k"
  shows "a = b"
  using assms
proof (induction a arbitrary: b)
  case Nil
  show ?case
  proof (cases b)
    case (Cons p r)
    with Nil.prems(3) [of "fst p"] show ?thesis by (cases p) simp
  qed simp
next
  case (Cons p r)
  obtain k v where p: "p = (k, v)" by (cases p)
  obtain k' v' r' where b: "b = (k', v') # r'"
  proof (cases b)
    case Nil
    with Cons.prems(3) [of k] p show ?thesis by simp
  next
    case (Cons q r')
    then show ?thesis using that by (cases q) auto
  qed
  have le: "k \<in> fst ` set b" "k' \<in> fst ` set (p # r)"
    using Cons.prems(3) [of k] Cons.prems(3) [of k'] p b
      get_None_iff [of b k] get_None_iff [of "p # r" k'] by auto
  with Cons.prems(1,2) p b have kk: "k' = k" by (auto dest: less_asym)
  with Cons.prems(3) [of k] p b have vv: "v' = v" by simp
  have "obj_get r x = obj_get r' x" for x
  proof (cases "x = k")
    case True
    with Cons.prems(1,2) p b kk have "x \<notin> fst ` set r" "x \<notin> fst ` set r'" by auto
    then show ?thesis by (simp flip: get_None_iff)
  next
    case False
    with Cons.prems(3) [of x] p b kk show ?thesis by simp
  qed
  with Cons.prems(1,2) p b have "r = r'" by (intro Cons.IH) auto
  with p b kk vv show ?case by simp
qed

lemma put_same: "ordered o1 \<Longrightarrow> obj_get o1 k = Some v \<Longrightarrow> obj_put k v o1 = o1"
  by (rule ordered_ext) auto

lemma remove_absent: "obj_get o1 k = None \<Longrightarrow> obj_remove k o1 = o1"
  unfolding obj_remove_def by (rule filter_True) (auto simp: get_None_iff image_iff)

section \<open>Values\<close>

fun is_object :: "json \<Rightarrow> bool" where
  "is_object (JObj _) = True"
| "is_object _ = False"

fun as_object :: "json \<Rightarrow> obj option" where
  "as_object (JObj o1) = Some o1"
| "as_object _ = None"

fun as_str :: "json \<Rightarrow> str option" where
  "as_str (JStr s) = Some s"
| "as_str _ = None"

fun as_bool :: "json \<Rightarrow> bool option" where
  "as_bool (JBool b) = Some b"
| "as_bool _ = None"

fun as_array :: "json \<Rightarrow> json list option" where
  "as_array (JArr xs) = Some xs"
| "as_array _ = None"

fun as_uint :: "json \<Rightarrow> nat option" where
  "as_uint (JNum n) = (if 0 \<le> n \<and> n < 2 ^ 64 then Some (nat n) else None)"
| "as_uint _ = None"

text \<open>\<^verbatim>\<open>v.get(k)\<close>, and \<^verbatim>\<open>v[k]\<close>, which is null where there is nothing.\<close>

fun get :: "json \<Rightarrow> str \<Rightarrow> json option" where
  "get (JObj o1) k = obj_get o1 k"
| "get _ k = None"

definition at :: "json \<Rightarrow> str \<Rightarrow> json" where
  "at v k = (case get v k of Some x \<Rightarrow> x | None \<Rightarrow> JNull)"

text \<open>\<^verbatim>\<open>v.pointer(\"/a/b\")\<close>, on the decoded segments. An array is entered by a decimal index.\<close>

definition array_index :: "str \<Rightarrow> nat option" where
  "array_index s = (if s \<noteq> [] \<and> (hd s = CHR ''+'' \<or> (hd s = CHR ''0'' \<and> length s \<noteq> 1)) then None
     else parse_uint (2 ^ 64 - 1) s)"

fun pointer :: "str list \<Rightarrow> json \<Rightarrow> json option" where
  "pointer [] v = Some v"
| "pointer (k # ks) (JObj o1) = (case obj_get o1 k of Some v \<Rightarrow> pointer ks v | None \<Rightarrow> None)"
| "pointer (k # ks) (JArr xs) = (case array_index k of
     Some i \<Rightarrow> if i < length xs then pointer ks (xs ! i) else None
   | None \<Rightarrow> None)"
| "pointer (k # ks) v = None"

abbreviation str_at :: "str list \<Rightarrow> json \<Rightarrow> str option" where
  "str_at p v \<equiv> Option.bind (pointer p v) as_str"

text \<open>Every object inside a value is in key order: what parsing and the operations produce.\<close>

fun well_ordered :: "json \<Rightarrow> bool" where
  "well_ordered (JObj o1) = (ordered o1 \<and> list_all (\<lambda>p. well_ordered (snd p)) o1)"
| "well_ordered (JArr xs) = list_all well_ordered xs"
| "well_ordered _ = True"

lemma well_ordered_get: "well_ordered (JObj o1) \<Longrightarrow> obj_get o1 k = Some v \<Longrightarrow> well_ordered v"
  by (auto simp: obj_get_def list_all_iff dest!: map_of_SomeD)

lemma set_obj_put_sub: "set (obj_put k v o1) \<subseteq> insert (k, v) (set o1)"
  by (induction k v o1 rule: obj_put.induct) auto

lemma well_ordered_put:
  "well_ordered (JObj o1) \<Longrightarrow> well_ordered v \<Longrightarrow> well_ordered (JObj (obj_put k v o1))"
  using set_obj_put_sub [of k v o1] by (auto simp: list_all_iff)

lemma well_ordered_remove: "well_ordered (JObj o1) \<Longrightarrow> well_ordered (JObj (obj_remove k o1))"
  by (auto simp: list_all_iff obj_remove_def) (use ordered_remove obj_remove_def in metis)

lemma is_object_iff: "is_object v \<longleftrightarrow> (\<exists>o1. v = JObj o1)"
  by (cases v) auto

lemma as_object_Some [simp]: "as_object v = Some o1 \<longleftrightarrow> v = JObj o1"
  by (cases v) auto

lemma as_str_Some [simp]: "as_str v = Some s \<longleftrightarrow> v = JStr s"
  by (cases v) auto

lemma as_bool_Some [simp]: "as_bool v = Some b \<longleftrightarrow> v = JBool b"
  by (cases v) auto

end
