(* ===== verification/Ip_Net.thy ===== *)
theory Ip_Net
  imports Text "HOL-Library.Word"
begin

unbundle bit_operations_syntax

text \<open>
  IP addresses and networks: \<^verbatim>\<open>std::net::IpAddr\<close> with its textual form, as the standard library
  reads it, and the network arithmetic of \<open>ha_core.rs\<close> (\<open>parse_network\<close>, \<open>network_contains\<close>,
  \<open>covers\<close>) and \<open>ha_supervisor.rs\<close> (\<open>nth_host\<close>). Addresses are machine words, so masks and
  carries are the code's.
\<close>

datatype ip_addr = V4 "32 word" | V6 "128 word"

section \<open>Reading an address\<close>

text \<open>A reader consumes a prefix of the text, or fails.\<close>

type_synonym 'a reader = "str \<Rightarrow> ('a \<times> str) option"

definition hex_value :: "char \<Rightarrow> nat option" where
  "hex_value c =
     (if is_digit c then Some (code c - 48)
      else if 97 \<le> code c \<and> code c \<le> 102 then Some (code c - 87)
      else if 65 \<le> code c \<and> code c \<le> 70 then Some (code c - 55)
      else None)"

definition digit_in :: "nat \<Rightarrow> char \<Rightarrow> bool" where
  "digit_in radix c = (case hex_value c of Some v \<Rightarrow> v < radix | None \<Rightarrow> False)"

definition number_value :: "nat \<Rightarrow> str \<Rightarrow> nat" where
  "number_value radix s = foldl (\<lambda>n c. radix * n + the (hex_value c)) 0 s"

definition read_number :: "nat \<Rightarrow> nat \<Rightarrow> bool \<Rightarrow> nat \<Rightarrow> nat reader" where
  "read_number radix max_digits allow_zero_prefix largest s =
     (let ds = takeWhile (digit_in radix) s; r = dropWhile (digit_in radix) s
      in if ds = [] \<or> length ds > max_digits
           \<or> (\<not> allow_zero_prefix \<and> hd ds = CHR ''0'' \<and> length ds > 1)
           \<or> number_value radix ds > largest
         then None else Some (number_value radix ds, r))"

definition read_sep :: "char \<Rightarrow> nat \<Rightarrow> 'a reader \<Rightarrow> 'a reader" where
  "read_sep sep i inner s =
     (if i = 0 then inner s
      else case s of [] \<Rightarrow> None | c # r \<Rightarrow> if c = sep then inner r else None)"

definition read_octet :: "nat \<Rightarrow> nat reader" where
  "read_octet i = read_sep (CHR ''.'') i (read_number 10 3 False 255)"

definition read_ipv4 :: "(nat \<times> nat \<times> nat \<times> nat) reader" where
  "read_ipv4 s =
     (case read_octet 0 s of None \<Rightarrow> None | Some (a, s1) \<Rightarrow>
      case read_octet 1 s1 of None \<Rightarrow> None | Some (b, s2) \<Rightarrow>
      case read_octet 2 s2 of None \<Rightarrow> None | Some (c, s3) \<Rightarrow>
      case read_octet 3 s3 of None \<Rightarrow> None | Some (d, s4) \<Rightarrow> Some ((a, b, c, d), s4))"

text \<open>
  \<open>read_groups n i s\<close> reads up to \<open>n\<close> colon-separated groups, the first being number \<open>i\<close>; with
  room for two, an embedded IPv4 address ends them (the flag).
\<close>

fun read_groups :: "nat \<Rightarrow> nat \<Rightarrow> str \<Rightarrow> nat list \<times> bool \<times> str" where
  "read_groups 0 i s = ([], False, s)"
| "read_groups (Suc n) i s =
     (case (if n > 0 then read_sep (CHR '':'') i read_ipv4 s else None) of
        Some ((a, b, c, d), r) \<Rightarrow> ([256 * a + b, 256 * c + d], True, r)
      | None \<Rightarrow>
         (case read_sep (CHR '':'') i (read_number 16 4 True 65535) s of
            Some (g, r) \<Rightarrow> (let (gs, v4, r') = read_groups n (Suc i) r in (g # gs, v4, r'))
          | None \<Rightarrow> ([], False, s)))"

definition read_ipv6 :: "nat list reader" where
  "read_ipv6 s =
     (let (head, head_v4, r) = read_groups 8 0 s
      in if length head = 8 then Some (head, r)
         else if head_v4 then None
         else case strip_prefix ''::'' r of None \<Rightarrow> None
              | Some r' \<Rightarrow>
                 (let (tail, v4, r'') = read_groups (8 - (length head + 1)) 0 r'
                  in Some (head @ replicate (8 - length head - length tail) 0 @ tail, r'')))"

definition word_of_octets :: "nat \<times> nat \<times> nat \<times> nat \<Rightarrow> 32 word" where
  "word_of_octets o4 = (case o4 of (a, b, c, d) \<Rightarrow> of_nat (((a * 256 + b) * 256 + c) * 256 + d))"

definition word_of_groups :: "nat list \<Rightarrow> 128 word" where
  "word_of_groups gs = of_nat (foldl (\<lambda>n g. 65536 * n + g) 0 gs)"

definition parse_ipv4 :: "str \<Rightarrow> 32 word option" where
  "parse_ipv4 s = (case read_ipv4 s of
     Some (o4, []) \<Rightarrow> Some (word_of_octets o4) | _ \<Rightarrow> None)"

definition parse_ip :: "str \<Rightarrow> ip_addr option" where
  "parse_ip s = (case read_ipv4 s of
     Some (o4, r) \<Rightarrow> if r = [] then Some (V4 (word_of_octets o4)) else None
   | None \<Rightarrow> (case read_ipv6 s of
       Some (gs, r) \<Rightarrow> if r = [] then Some (V6 (word_of_groups gs)) else None
     | None \<Rightarrow> None))"

text \<open>\<^verbatim>\<open>IpAddr::to_canonical\<close>: an IPv4-mapped IPv6 address is the IPv4 one.\<close>

definition to_canonical :: "ip_addr \<Rightarrow> ip_addr" where
  "to_canonical ip = (case ip of V4 a \<Rightarrow> V4 a
     | V6 a \<Rightarrow> if drop_bit 32 a = 0xFFFF then V4 (ucast a) else V6 a)"

definition is_unspecified :: "ip_addr \<Rightarrow> bool" where
  "is_unspecified ip = (case ip of V4 a \<Rightarrow> a = 0 | V6 a \<Rightarrow> a = 0)"

lemma to_canonical_idem [simp]: "to_canonical (to_canonical ip) = to_canonical ip"
  by (cases ip) (auto simp: to_canonical_def)

section \<open>Networks\<close>

definition max_prefix :: "ip_addr \<Rightarrow> nat" where
  "max_prefix ip = (case ip of V4 _ \<Rightarrow> 32 | V6 _ \<Rightarrow> 128)"

definition parse_network :: "str \<Rightarrow> (ip_addr \<times> nat) option" where
  "parse_network s =
     (let t = trim s;
          (a, l) = (case split_once ''/'' t of Some (a, l) \<Rightarrow> (a, Some l) | None \<Rightarrow> (t, None))
      in case parse_ip a of None \<Rightarrow> None
         | Some addr \<Rightarrow>
             (case l of
                Some l \<Rightarrow>
                  (case parse_uint 255 l of
                     Some n \<Rightarrow> if n \<le> max_prefix addr then Some (addr, n) else None
                   | None \<Rightarrow> None)
              | None \<Rightarrow> Some (addr, max_prefix addr)))"

definition network_contains :: "ip_addr \<Rightarrow> nat \<Rightarrow> ip_addr \<Rightarrow> bool" where
  "network_contains net len ip =
     (case (net, ip) of
        (V4 n, V4 i) \<Rightarrow>
          (let mask = (if len = 0 then 0 else push_bit (32 - len) (- 1 :: 32 word))
           in n AND mask = i AND mask)
      | (V6 n, V6 i) \<Rightarrow>
          (let mask = (if len = 0 then 0 else push_bit (128 - len) (- 1 :: 128 word))
           in n AND mask = i AND mask)
      | _ \<Rightarrow> False)"

definition covers :: "str list \<Rightarrow> ip_addr \<Rightarrow> bool" where
  "covers proxies ip \<longleftrightarrow>
     (\<exists>(net, len) \<in> set (List.map_filter parse_network proxies). network_contains net len ip)"

text \<open>Host \<open>n\<close> of an IPv4 network: \<^verbatim>\<open>checked_add\<close> fails past the last address.\<close>

definition nth_host :: "str \<Rightarrow> 32 word \<Rightarrow> ip_addr option" where
  "nth_host cidr n =
     (case split_once ''/'' (trim cidr) of None \<Rightarrow> None
      | Some (a, l) \<Rightarrow>
         (case parse_ipv4 a of None \<Rightarrow> None
          | Some addr \<Rightarrow>
             (case parse_uint (2 ^ 32 - 1) l of None \<Rightarrow> None
              | Some len \<Rightarrow>
                 if len > 30 then None
                 else (let mask = (if len = 0 then 0 else push_bit (32 - len) (- 1 :: 32 word));
                           base = addr AND mask
                       in if unat base + unat n < 2 ^ 32 then Some (V4 (base + n)) else None))))"

section \<open>What membership means\<close>

text \<open>The address agrees with the network on its first \<open>len\<close> bits.\<close>

lemma masked_eq_iff:
  fixes n i :: "'a::len word"
  assumes "len \<le> LENGTH('a)"
  shows "n AND push_bit (LENGTH('a) - len) (- 1) = i AND push_bit (LENGTH('a) - len) (- 1) \<longleftrightarrow>
    drop_bit (LENGTH('a) - len) n = drop_bit (LENGTH('a) - len) i"
    (is "?l \<longleftrightarrow> ?r")
proof
  assume ?l
  show ?r
  proof (rule bit_eqI)
    fix b assume "possible_bit TYPE('a word) b"
    then have b: "b < LENGTH('a)" by simp
    from \<open>?l\<close> have "bit (n AND push_bit (LENGTH('a) - len) (- 1)) (b + (LENGTH('a) - len)) =
      bit (i AND push_bit (LENGTH('a) - len) (- 1)) (b + (LENGTH('a) - len))" by simp
    then show "bit (drop_bit (LENGTH('a) - len) n) b = bit (drop_bit (LENGTH('a) - len) i) b"
      by (auto simp: bit_simps add.commute dest: bit_imp_le_length)
  qed
next
  assume ?r
  show ?l
  proof (rule bit_eqI)
    fix b assume "possible_bit TYPE('a word) b"
    then have b: "b < LENGTH('a)" by simp
    show "bit (n AND push_bit (LENGTH('a) - len) (- 1)) b = bit (i AND push_bit (LENGTH('a) - len) (- 1)) b"
    proof (cases "LENGTH('a) - len \<le> b")
      case True
      from \<open>?r\<close> have "bit (drop_bit (LENGTH('a) - len) n) (b - (LENGTH('a) - len)) =
        bit (drop_bit (LENGTH('a) - len) i) (b - (LENGTH('a) - len))" by simp
      with True have "bit n b = bit i b" by (simp add: bit_simps)
      then show ?thesis by (simp add: bit_simps)
    next
      case False
      then show ?thesis by (simp add: bit_simps)
    qed
  qed
qed

definition same_prefix :: "nat \<Rightarrow> 'a::len word \<Rightarrow> 'a word \<Rightarrow> bool" where
  "same_prefix len a b \<longleftrightarrow> drop_bit (LENGTH('a) - len) a = drop_bit (LENGTH('a) - len) b"

lemma drop_all_bits: "drop_bit LENGTH('a) (a :: 'a::len word) = 0"
  by (rule bit_eqI) (auto simp: bit_simps dest: bit_imp_le_length)

lemma network_contains_V4:
  "len \<le> 32 \<Longrightarrow> network_contains (V4 n) len (V4 i) \<longleftrightarrow> same_prefix len n i"
  using masked_eq_iff [of len n i] drop_all_bits [of n] drop_all_bits [of i]
  by (auto simp: network_contains_def same_prefix_def)

lemma network_contains_V6:
  "len \<le> 128 \<Longrightarrow> network_contains (V6 n) len (V6 i) \<longleftrightarrow> same_prefix len n i"
  using masked_eq_iff [of len n i] drop_all_bits [of n] drop_all_bits [of i]
  by (auto simp: network_contains_def same_prefix_def)

lemma network_contains_family:
  "\<not> network_contains (V4 n) len (V6 j)" "\<not> network_contains (V6 m) len (V4 i)"
  by (simp_all add: network_contains_def)

lemma network_contains_self: "network_contains ip len ip"
  by (cases ip) (auto simp: network_contains_def)

lemma parse_network_bound: "parse_network s = Some (ip, len) \<Longrightarrow> len \<le> max_prefix ip"
  by (auto simp: parse_network_def Let_def split: option.splits prod.splits if_splits)

lemma covers_append: "covers (xs @ ys) ip \<longleftrightarrow> covers xs ip \<or> covers ys ip"
  by (auto simp: covers_def map_filter_append)

lemma covers_Nil [simp]: "\<not> covers [] ip"
  by (simp add: covers_def List.map_filter_def)

lemma covers_single: "parse_network p = Some (net, len) \<Longrightarrow> covers [p] ip = network_contains net len ip"
  by (simp add: covers_def List.map_filter_def)

lemma covers_mono: "set xs \<subseteq> set ys \<Longrightarrow> covers xs ip \<Longrightarrow> covers ys ip"
  unfolding covers_def List.map_filter_def by fastforce

text \<open>The addresses the daemon's code names.\<close>

definition loopback_v4 :: ip_addr where "loopback_v4 = V4 0x7F000001"
definition loopback_v6 :: ip_addr where "loopback_v6 = V6 1"

lemmas ip_eval = read_octet_def read_sep_def read_number_def 
  digit_in_def hex_value_def number_value_def is_digit_def Let_def

lemma loopback_v4_octets:
  "read_octet 0 ''127.0.0.1'' = Some (127, ''.0.0.1'')"
  "read_octet (Suc 0) ''.0.0.1'' = Some (0, ''.0.1'')"
  "read_octet 2 ''.0.1'' = Some (0, ''.1'')"
  "read_octet 3 ''.1'' = Some (1, [])"
  by (simp_all add: ip_eval)

lemma parse_loopback_v4: "parse_ip ''127.0.0.1'' = Some loopback_v4"
  by (simp add: parse_ip_def read_ipv4_def loopback_v4_octets loopback_v4_def word_of_octets_def)

lemma loopback_v6_pieces:
  "read_octet 0 ''::1'' = None" "read_octet 0 ''1'' = Some (1, [])" "read_octet (Suc 0) [] = None"
  "read_number 16 4 True 65535 ''::1'' = None" "read_number 16 4 True 65535 ''1'' = Some (1, [])"
  by (simp_all add: ip_eval)

lemma loopback_v6_groups:
  "read_groups 8 0 ''::1'' = ([], False, ''::1'')"
  "read_groups 7 0 ''1'' = ([1], False, [])"
proof -
  have "read_groups (Suc 7) 0 ''::1'' = ([], False, ''::1'')"
    by (subst read_groups.simps(2)) (simp add: read_sep_def read_ipv4_def loopback_v6_pieces)
  moreover have "Suc 7 = (8 :: nat)" by simp
  ultimately show "read_groups 8 0 ''::1'' = ([], False, ''::1'')" by (simp only:)
  have "read_groups (Suc 5) (Suc 0) [] = ([], False, [])"
    by (subst read_groups.simps(2)) (simp add: read_sep_def)
  then have "read_groups (Suc (Suc 5)) 0 ''1'' = ([1], False, [])"
    by (subst read_groups.simps(2)) (simp add: read_sep_def read_ipv4_def loopback_v6_pieces)
  moreover have "Suc (Suc 5) = (7 :: nat)" by simp
  ultimately show "read_groups 7 0 ''1'' = ([1], False, [])" by (simp only:)
qed

lemma zero_groups: "foldl (\<lambda>n g. 65536 * n + g) (0 :: nat) (replicate k 0) = 0"
  by (induction k) auto

lemma parse_loopback_v6: "parse_ip ''::1'' = Some loopback_v6"
  by (simp add: parse_ip_def read_ipv6_def read_ipv4_def loopback_v6_pieces loopback_v6_groups
      loopback_v6_def word_of_groups_def zero_groups)

lemma parse_loopback_networks:
  "parse_network ''127.0.0.1/32'' = Some (loopback_v4, 32)"
  "parse_network ''::1/128'' = Some (loopback_v6, 128)"
  by (simp_all add: parse_network_def trim_trimmed trimmed_def is_whitespace_def Let_def
      parse_loopback_v4 parse_loopback_v6 max_prefix_def loopback_v6_def loopback_v4_def parse_uint_def is_digit_def digits_value_def digit_value_def)

end
