(* ===== verification/Ha_Core.thy ===== *)
theory Ha_Core
  imports Json Ip_Net
begin

text \<open>
  \<open>ha_core.rs\<close>, the settings part: whether Home Assistant's HTTP settings (\<open>http/config\<close>, a
  stable and a pending slot) accept requests that arrive through the add-on's local hop, and the
  configuration that \<^verbatim>\<open>Allow\<close> sends to make them do so.
\<close>

section \<open>Reading the settings\<close>

datatype proxy_setup =
    Ready
  | Needed json
  | Pending
  | Ours bool

text \<open>Why the settings could not be used; each case is one message of the source.\<close>

datatype settings_error =
    NoStableConfig
  | NotAnObject
  | ProxyNotText json
  | ProxiesNotList json
  | NotANetwork str
  | NoTrustedProxy
  | StoreMetadata str

definition LOOPBACK_PROXIES :: "ip_addr list" where
  "LOOPBACK_PROXIES = [loopback_v4, loopback_v6]"

definition META_KEYS :: "str list" where
  "META_KEYS = [''created_at'', ''error'', ''error_message'']"

definition USE_X_FORWARDED_FOR :: str where
  "USE_X_FORWARDED_FOR = ''use_x_forwarded_for''"

definition TRUSTED_PROXIES :: str where
  "TRUSTED_PROXIES = ''trusted_proxies''"

lemmas key_defs = META_KEYS_def USE_X_FORWARDED_FOR_def TRUSTED_PROXIES_def

text \<open>Collecting stops at the first entry that is not text.\<close>

fun collect_texts :: "json list \<Rightarrow> settings_error + str list" where
  "collect_texts [] = Inr []"
| "collect_texts (v # vs) =
     (case as_str v of None \<Rightarrow> Inl (ProxyNotText v)
      | Some s \<Rightarrow> (case collect_texts vs of Inl e \<Rightarrow> Inl e | Inr ss \<Rightarrow> Inr (s # ss)))"

definition trusted_proxies :: "json \<Rightarrow> settings_error + str list" where
  "trusted_proxies config =
     (case get config TRUSTED_PROXIES of
        None \<Rightarrow> Inr []
      | Some JNull \<Rightarrow> Inr []
      | Some (JStr s) \<Rightarrow> Inr [s]
      | Some (JArr a) \<Rightarrow> collect_texts a
      | Some other \<Rightarrow> Inl (ProxiesNotList other))"

definition forwarding_on :: "json \<Rightarrow> bool" where
  "forwarding_on config \<longleftrightarrow> Option.bind (get config USE_X_FORWARDED_FOR) as_bool = Some True"

definition accepts_forwarded :: "json \<Rightarrow> bool" where
  "accepts_forwarded config \<longleftrightarrow>
     (let on = forwarding_on config;
          proxies = (case trusted_proxies config of Inl _ \<Rightarrow> [] | Inr ps \<Rightarrow> ps)
      in on \<and> list_all (covers proxies) LOOPBACK_PROXIES)"

section \<open>The configuration Allow sends\<close>

fun first_bad :: "str list \<Rightarrow> str option" where
  "first_bad [] = None"
| "first_bad (p # ps) = (if parse_network p = None then Some p else first_bad ps)"

definition validate :: "json \<Rightarrow> settings_error + unit" where
  "validate config =
     (case trusted_proxies config of Inl e \<Rightarrow> Inl e
      | Inr proxies \<Rightarrow>
         (case first_bad proxies of Some p \<Rightarrow> Inl (NotANetwork p)
          | None \<Rightarrow>
             (let on = forwarding_on config
              in if on \<and> proxies = [] then Inl NoTrustedProxy
                 else case find (\<lambda>k. get config k \<noteq> None) META_KEYS of
                        Some key \<Rightarrow> Inl (StoreMetadata key)
                      | None \<Rightarrow> Inr ())))"

fun add_missing :: "(ip_addr \<times> str) list \<Rightarrow> str list \<Rightarrow> str list" where
  "add_missing [] proxies = proxies"
| "add_missing ((ip, network) # rest) proxies =
     add_missing rest (if covers proxies ip then proxies else proxies @ [network])"

definition wanted_networks :: "(ip_addr \<times> str) list" where
  "wanted_networks = [(loopback_v4, ''127.0.0.1/32''), (loopback_v6, ''::1/128'')]"

definition merged :: "json \<Rightarrow> settings_error + json" where
  "merged base =
     (case as_object base of None \<Rightarrow> Inl NotAnObject
      | Some o1 \<Rightarrow>
         (let config = fold obj_remove META_KEYS o1
          in case trusted_proxies base of Inl e \<Rightarrow> Inl e
             | Inr proxies \<Rightarrow>
                (let proxies = add_missing wanted_networks proxies;
                     config = obj_put USE_X_FORWARDED_FOR (JBool True) config;
                     config = JObj (obj_put TRUSTED_PROXIES (JArr (map JStr proxies)) config)
                 in case validate config of Inl e \<Rightarrow> Inl e | Inr _ \<Rightarrow> Inr config)))"

section \<open>Judging the two slots\<close>

definition slot :: "json \<Rightarrow> str \<Rightarrow> json option" where
  "slot http_config name =
     (case get http_config name of Some s \<Rightarrow> if is_object s then Some s else None | None \<Rightarrow> None)"

definition live_pending :: "json \<Rightarrow> json option" where
  "live_pending http_config =
     (case slot http_config ''pending'' of
        Some p \<Rightarrow> if get p ''error'' \<in> {None, Some JNull} then Some p else None
      | None \<Rightarrow> None)"

definition without_meta :: "json \<Rightarrow> json" where
  "without_meta config =
     (case config of JObj o1 \<Rightarrow> JObj (fold obj_remove META_KEYS o1) | _ \<Rightarrow> config)"

definition pending_is :: "json \<Rightarrow> json \<Rightarrow> bool" where
  "pending_is http_config wanted \<longleftrightarrow>
     (case slot http_config ''pending'' of Some p \<Rightarrow> without_meta p = wanted | None \<Rightarrow> False)"

definition on_trial_with :: "json \<Rightarrow> json \<Rightarrow> bool" where
  "on_trial_with http_config wanted \<longleftrightarrow>
     at http_config ''active_config_type'' = JStr ''pending''
     \<and> live_pending http_config \<noteq> None \<and> pending_is http_config wanted"

definition assess :: "json \<Rightarrow> settings_error + proxy_setup" where
  "assess http_config =
     (case slot http_config ''stable'' of None \<Rightarrow> Inl NoStableConfig
      | Some stable1 \<Rightarrow>
         if accepts_forwarded stable1 then Inr Ready
         else (let wanted = merged stable1
               in if live_pending http_config \<noteq> None
                  then Inr (case wanted of
                         Inr w \<Rightarrow> if pending_is http_config w then Ours (on_trial_with http_config w) else Pending
                       | Inl _ \<Rightarrow> Pending)
                  else case wanted of Inl e \<Rightarrow> Inl e | Inr w \<Rightarrow> Inr (Needed w)))"

section \<open>Facts about the pieces\<close>

lemma collect_texts_JStr [simp]: "collect_texts (map JStr ss) = Inr ss"
  by (induction ss) auto

lemma collect_texts_Inr: "collect_texts vs = Inr ss \<Longrightarrow> vs = map JStr ss"
  by (induction vs arbitrary: ss) (auto split: option.splits sum.splits)

lemma first_bad_None: "first_bad ps = None \<longleftrightarrow> (\<forall>p \<in> set ps. parse_network p \<noteq> None)"
  by (induction ps) auto

lemma add_missing_keeps: "\<exists>added. add_missing ws ps = ps @ added \<and> set added \<subseteq> snd ` set ws"
proof (induction ws arbitrary: ps)
  case (Cons w ws)
  obtain ip n where w: "w = (ip, n)" by (cases w)
  from Cons.IH [of ps] Cons.IH [of "ps @ [n]"] w show ?case by auto
qed auto

lemma add_missing_covers:
  assumes "(ip, n) \<in> set ws" "parse_network n = Some (net, len)" "network_contains net len ip"
  shows "covers (add_missing ws ps) ip"
  using assms(1)
proof (induction ws arbitrary: ps)
  case (Cons w ws)
  show ?case
  proof (cases "w = (ip, n)")
    case True
    let ?ps = "if covers ps ip then ps else ps @ [n]"
    have "covers ?ps ip" using assms(2,3) by (auto simp: covers_append covers_single)
    moreover obtain added where "add_missing ws ?ps = ?ps @ added" using add_missing_keeps by blast
    ultimately have "covers (add_missing ws ?ps) ip" by (simp only: covers_append simp_thms)
    with True show ?thesis by simp
  next
    case False
    with Cons.prems have "(ip, n) \<in> set ws" by simp
    with Cons.IH show ?thesis by (cases w) auto
  qed
qed simp

lemma wanted_covered:
  "list_all (covers (add_missing wanted_networks ps)) LOOPBACK_PROXIES"
proof -
  have "covers (add_missing wanted_networks ps) loopback_v4"
    by (rule add_missing_covers [OF _ parse_loopback_networks(1) network_contains_self])
      (simp add: wanted_networks_def)
  moreover have "covers (add_missing wanted_networks ps) loopback_v6"
    by (rule add_missing_covers [OF _ parse_loopback_networks(2) network_contains_self])
      (simp add: wanted_networks_def)
  ultimately show ?thesis by (simp add: LOOPBACK_PROXIES_def)
qed

lemma add_missing_covered: "list_all (\<lambda>(ip, n). covers ps ip) ws \<Longrightarrow> add_missing ws ps = ps"
  by (induction ws) auto

lemma get_fold_remove [simp]:
  "obj_get (fold obj_remove ks o1) k = (if k \<in> set ks then None else obj_get o1 k)"
  by (induction ks arbitrary: o1) auto

lemma ordered_fold_remove [simp]: "ordered o1 \<Longrightarrow> ordered (fold obj_remove ks o1)"
  by (induction ks arbitrary: o1) auto

text \<open>The configuration \<open>merged\<close> builds, before it is validated.\<close>

definition merged_obj :: "obj \<Rightarrow> str list \<Rightarrow> obj" where
  "merged_obj o1 ps =
     obj_put TRUSTED_PROXIES (JArr (map JStr (add_missing wanted_networks ps)))
       (obj_put USE_X_FORWARDED_FOR (JBool True) (fold obj_remove META_KEYS o1))"

lemma get_merged_obj:
  "obj_get (merged_obj o1 ps) k =
     (if k = TRUSTED_PROXIES then Some (JArr (map JStr (add_missing wanted_networks ps)))
      else if k = USE_X_FORWARDED_FOR then Some (JBool True)
      else if k \<in> set META_KEYS then None else obj_get o1 k)"
  by (simp add: merged_obj_def)

lemma merged_Inr:
  "merged base = Inr c \<longleftrightarrow>
     (\<exists>o1 ps. base = JObj o1 \<and> trusted_proxies base = Inr ps \<and> c = JObj (merged_obj o1 ps) \<and>
        validate c = Inr ())"
  by (auto simp: merged_def merged_obj_def Let_def split: option.splits sum.splits)

lemma trusted_proxies_merged [simp]:
  "trusted_proxies (JObj (merged_obj o1 ps)) = Inr (add_missing wanted_networks ps)"
  by (simp add: trusted_proxies_def get_merged_obj)

lemma forwarding_on_merged [simp]: "forwarding_on (JObj (merged_obj o1 ps))"
  by (simp add: forwarding_on_def get_merged_obj key_defs)

lemma validate_merged:
  "validate (JObj (merged_obj o1 ps)) = Inr () \<longleftrightarrow> (\<forall>p \<in> set ps. parse_network p \<noteq> None)"
proof -
  obtain added where a: "add_missing wanted_networks ps = ps @ added"
    "set added \<subseteq> snd ` set wanted_networks" using add_missing_keeps by blast
  have ok: "\<forall>p \<in> set added. parse_network p \<noteq> None"
    using a(2) parse_loopback_networks by (auto simp: wanted_networks_def)
  have ne: "add_missing wanted_networks ps \<noteq> []"
    using wanted_covered [of ps] by (auto simp: LOOPBACK_PROXIES_def)
  have m: "find (\<lambda>k. get (JObj (merged_obj o1 ps)) k \<noteq> None) META_KEYS = None"
    by (simp add: get_merged_obj key_defs)
  have "validate (JObj (merged_obj o1 ps)) = Inr () \<longleftrightarrow> first_bad (ps @ added) = None"
    using ne a(1) m by (simp add: validate_def split: option.split)
  with ok show ?thesis unfolding first_bad_None by auto
qed

lemma accepts_forwarded_merged: "accepts_forwarded (JObj (merged_obj o1 ps))"
  using wanted_covered [of ps] by (simp add: accepts_forwarded_def)

text \<open>Store metadata does not bear on what a configuration accepts.\<close>

lemma without_meta_get:
  "k \<notin> set META_KEYS \<Longrightarrow> get (without_meta c) k = get c k"
  by (cases c) (auto simp: without_meta_def)

lemma accepts_without_meta [simp]: "accepts_forwarded (without_meta c) = accepts_forwarded c"
proof -
  have "USE_X_FORWARDED_FOR \<notin> set META_KEYS" "TRUSTED_PROXIES \<notin> set META_KEYS"
    by (simp_all add: key_defs)
  then show ?thesis
    by (simp add: accepts_forwarded_def trusted_proxies_def forwarding_on_def without_meta_get)
qed

lemma merged_total:
  "base = JObj o1 \<Longrightarrow> trusted_proxies base = Inr ps \<Longrightarrow> \<forall>p \<in> set ps. parse_network p \<noteq> None \<Longrightarrow>
   merged base = Inr (JObj (merged_obj o1 ps))"
  by (simp add: merged_Inr validate_merged)

section \<open>Settings to evaluate the definitions on\<close>

definition sample_wanted :: json where
  "sample_wanted = JObj (merged_obj [] [])"

definition sample_before :: json where
  "sample_before = JObj [(''active_config_type'', JStr ''stable''), (''pending'', JNull), (''stable'', JObj [])]"

definition sample_trial :: json where
  "sample_trial = JObj [(''active_config_type'', JStr ''pending''), (''pending'', sample_wanted), (''stable'', JObj [])]"

lemma sample_merged: "merged (JObj []) = Inr sample_wanted"
  unfolding sample_wanted_def
  by (rule merged_total) (auto simp: trusted_proxies_def)

lemma sample_not_accepted: "\<not> accepts_forwarded (JObj [])"
  by (simp add: accepts_forwarded_def forwarding_on_def)

lemma sample_without_meta: "without_meta sample_wanted = sample_wanted"
  by (simp add: sample_wanted_def merged_obj_def without_meta_def key_defs obj_remove_def)

lemma sample_no_error: "get sample_wanted ''error'' = None"
  by (simp add: sample_wanted_def get_merged_obj key_defs)

lemma sample_is_object: "is_object sample_wanted"
  by (simp add: sample_wanted_def)

lemma sample_assess: "assess sample_before = Inr (Needed sample_wanted)"
  "at sample_before ''stable'' = JObj []"
  using sample_merged sample_not_accepted
  by (simp_all add: sample_before_def assess_def slot_def live_pending_def at_def)

lemma sample_on_trial: "on_trial_with sample_trial sample_wanted"
  by (simp add: on_trial_with_def sample_trial_def at_def live_pending_def slot_def pending_is_def
      sample_without_meta sample_no_error sample_is_object)

lemma sample_assess_trial: "assess sample_trial = Inr (Ours True)"
proof -
  have "slot sample_trial ''stable'' = Some (JObj [])" "live_pending sample_trial = Some sample_wanted"
    "pending_is sample_trial sample_wanted"
    using sample_no_error sample_is_object sample_without_meta
    by (simp_all add: slot_def sample_trial_def live_pending_def pending_is_def)
  then show ?thesis
    using sample_on_trial sample_merged sample_not_accepted by (simp add: assess_def)
qed

section \<open>Properties\<close>

text \<open>
  what Allow sends is accepted by Home Assistant's own checks and lets Datum's requests in; it
  differs from the stable configuration in the two forwarding settings and the store's metadata
  only, and keeps every proxy that was trusted, in order, adding at most the two loopback networks.
\<close>

theorem merged_changes_only_forwarding:
  assumes "merged base = Inr c"
  shows "validate c = Inr () \<and> accepts_forwarded c \<and>
    (\<forall>k. k \<notin> {USE_X_FORWARDED_FOR, TRUSTED_PROXIES} \<union> set META_KEYS \<longrightarrow> get c k = get base k) \<and>
    (\<forall>k \<in> set META_KEYS. get c k = None) \<and>
    (\<exists>ps added. trusted_proxies base = Inr ps \<and> trusted_proxies c = Inr (ps @ added) \<and>
       set added \<subseteq> {''127.0.0.1/32'', ''::1/128''})"
proof -
  from assms obtain o1 ps where m: "base = JObj o1" "trusted_proxies base = Inr ps"
    "c = JObj (merged_obj o1 ps)" "validate c = Inr ()" by (auto simp: merged_Inr)
  have meta: "USE_X_FORWARDED_FOR \<notin> set META_KEYS" "TRUSTED_PROXIES \<notin> set META_KEYS"
    by (simp_all add: key_defs)
  obtain added where "add_missing wanted_networks ps = ps @ added"
    "set added \<subseteq> {''127.0.0.1/32'', ''::1/128''}"
    using add_missing_keeps [of wanted_networks ps] by (auto simp: wanted_networks_def)
  with m have "\<exists>ps added. trusted_proxies base = Inr ps \<and> trusted_proxies c = Inr (ps @ added) \<and>
       set added \<subseteq> {''127.0.0.1/32'', ''::1/128''}" by auto
  with m meta show ?thesis by (auto simp: accepts_forwarded_merged get_merged_obj)
qed

definition sample_stable :: json where
  "sample_stable = JObj [(''created_at'', JStr ''2026''), (''server_port'', JNum 8123),
     (''trusted_proxies'', JStr ''127.0.0.1/32'')]"

lemma sample_stable_merged:
  "merged sample_stable = Inr (JObj (merged_obj [(''created_at'', JStr ''2026''), (''server_port'', JNum 8123),
     (''trusted_proxies'', JStr ''127.0.0.1/32'')] [''127.0.0.1/32'']))"
  by (rule merged_total)
    (auto simp: sample_stable_def trusted_proxies_def TRUSTED_PROXIES_def obj_get_def parse_loopback_networks)

theorem merged_changes_only_forwarding_witness:
  "\<exists>c. merged sample_stable = Inr c \<and> accepts_forwarded c \<and> get c ''server_port'' = Some (JNum 8123)"
proof -
  have "get sample_stable ''server_port'' = Some (JNum 8123)"
    by (simp add: sample_stable_def obj_get_def)
  moreover have "''server_port'' \<notin> {USE_X_FORWARDED_FOR, TRUSTED_PROXIES} \<union> set META_KEYS"
    by (simp add: key_defs)
  ultimately show ?thesis
    using merged_changes_only_forwarding [OF sample_stable_merged] sample_stable_merged by metis
qed

lemma ordered_merged_obj: "ordered o1 \<Longrightarrow> ordered (merged_obj o1 ps)"
  by (simp add: merged_obj_def)

text \<open>merging what was merged already changes nothing.\<close>

theorem merged_idempotent:
  assumes "merged (JObj o1) = Inr c" and "ordered o1"
  shows "merged c = Inr c"
proof -
  from assms(1) obtain ps where m: "c = JObj (merged_obj o1 ps)" "validate c = Inr ()" 
    "\<forall>p \<in> set ps. parse_network p \<noteq> None"
    by (auto simp: merged_Inr validate_merged)
  let ?ps = "add_missing wanted_networks ps"
  have same: "add_missing wanted_networks ?ps = ?ps"
    using wanted_covered [of ps]
    by (intro add_missing_covered) (auto simp: LOOPBACK_PROXIES_def wanted_networks_def)
  have "merged_obj (merged_obj o1 ps) ?ps = merged_obj o1 ps"
    using assms(2) by (intro ordered_ext) (auto simp: ordered_merged_obj get_merged_obj same)
  with m show ?thesis by (auto simp: merged_Inr)
qed

theorem merged_idempotent_witness:
  "\<exists>c. merged sample_stable = Inr c \<and> merged c = Inr c"
  using merged_idempotent [OF sample_stable_merged [unfolded sample_stable_def]] sample_stable_merged
  by (auto simp: sample_stable_def)

text \<open>
  \<open>assess\<close> decides exactly: ready when the stable configuration lets Datum's requests in;
  Allow's own change when the live pending configuration is, metadata apart, the one Allow sends,
  running on trial when Home Assistant says so; anyone else's change when another one is pending.
\<close>

theorem assess_decides:
  "(assess http = Inr Ready \<longleftrightarrow> (\<exists>s. slot http ''stable'' = Some s \<and> accepts_forwarded s)) \<and>
   (assess http = Inr (Ours trial) \<longleftrightarrow> (\<exists>s w p. slot http ''stable'' = Some s \<and> \<not> accepts_forwarded s \<and>
      merged s = Inr w \<and> live_pending http = Some p \<and> without_meta p = w \<and>
      trial = (at http ''active_config_type'' = JStr ''pending''))) \<and>
   (assess http = Inr Pending \<longleftrightarrow> (\<exists>s p. slot http ''stable'' = Some s \<and> \<not> accepts_forwarded s \<and>
      live_pending http = Some p \<and> merged s \<noteq> Inr (without_meta p))) \<and>
   (assess http = Inr (Needed w) \<longleftrightarrow> (\<exists>s. slot http ''stable'' = Some s \<and> \<not> accepts_forwarded s \<and>
      live_pending http = None \<and> merged s = Inr w))"
proof -
  have p: "live_pending http = Some p \<Longrightarrow> slot http ''pending'' = Some p" for p
    by (auto simp: live_pending_def split: option.splits if_splits)
  show ?thesis
    by (cases "slot http ''stable''"; cases "live_pending http")
      (auto simp: assess_def Let_def pending_is_def on_trial_with_def dest: p split: sum.splits)
qed

text \<open>
  the loop closes. Once Home Assistant holds what Allow sent, whatever metadata its store adds,
  the change is recognised as Allow's own while it is pending, and the setting is ready once it is
  stable.
\<close>

theorem needed_then_ours_then_ready:
  assumes "assess http = Inr (Needed w)" and "without_meta s = w" and "is_object s"
  shows "(slot http1 ''stable'' = slot http ''stable'' \<and> live_pending http1 = Some s \<longrightarrow>
       assess http1 = Inr (Ours (at http1 ''active_config_type'' = JStr ''pending''))) \<and>
    (get http2 ''stable'' = Some s \<longrightarrow> assess http2 = Inr Ready)"
proof -
  from assms(1) obtain b where b: "slot http ''stable'' = Some b" "\<not> accepts_forwarded b" "merged b = Inr w"
    by (auto simp: assess_def Let_def split: option.splits sum.splits if_splits)
  have "assess http1 = Inr (Ours (at http1 ''active_config_type'' = JStr ''pending''))"
    if "slot http1 ''stable'' = slot http ''stable'' \<and> live_pending http1 = Some s"
  proof -
    from that have "slot http1 ''pending'' = Some s"
      by (auto simp: live_pending_def split: option.splits if_splits)
    with that b assms show ?thesis
      by (simp add: assess_def pending_is_def on_trial_with_def)
  qed
  moreover from b(3) have "accepts_forwarded w" by (auto simp: merged_Inr accepts_forwarded_merged)
  with assms(2) have "accepts_forwarded s" by auto
  then have "assess http2 = Inr Ready" if "get http2 ''stable'' = Some s"
    using that assms(3) by (simp add: assess_def slot_def)
  ultimately show ?thesis by blast
qed

theorem needed_then_ours_then_ready_witness:
  "assess sample_trial = Inr (Ours True) \<and> assess (JObj [(''stable'', sample_wanted)]) = Inr Ready"
  using needed_then_ours_then_ready [OF sample_assess(1) sample_without_meta sample_is_object,
      of sample_trial "JObj [(''stable'', sample_wanted)]"] sample_no_error sample_is_object
  by (simp add: slot_def sample_trial_def sample_before_def live_pending_def at_def)

end
