(* ===== verification/Ha_Websocket.thy ===== *)
theory Ha_Websocket
  imports Json
begin

text \<open>
  \<open>ha_core.rs\<close>, Home Assistant's websocket: the frames a connection receives, the authentication
  handshake, and a command waiting for its own result among other traffic. The frames that will
  arrive are a list; where it ends, nothing more arrives before the call's timeout. Parsing JSON
  (\<open>serde_json\<close>) and hiding the token in a message are parameters.
\<close>

datatype protocol_error = NotJson | ExpectedAuthRequired json | ExpectedAuthOk "str option"

datatype ws_error =
    WsConnect str
  | WsAuth str
  | WsClosed
  | WsTimeout
  | WsCommand str str
  | WsProtocol protocol_error

datatype frame = TextFrame str | OtherFrame | CloseFrame | FrameError | StreamEnd

type_synonym json_parser = "str \<Rightarrow> json option"

definition core_websocket_url :: "str \<Rightarrow> str" where
  "core_websocket_url base =
     (let rest = (case strip_prefix ''https://'' base of
                    Some r \<Rightarrow> ''wss://'' @ r
                  | None \<Rightarrow> (case strip_prefix ''http://'' base of
                      Some r \<Rightarrow> ''ws://'' @ r
                    | None \<Rightarrow> base))
      in trim_end_char (CHR ''/'') rest @ ''/core/websocket'')"

section \<open>Receiving\<close>

fun recv :: "json_parser \<Rightarrow> frame list \<Rightarrow> (ws_error + json) \<times> frame list" where
  "recv parse [] = (Inl WsTimeout, [])"
| "recv parse (StreamEnd # fs) = (Inl WsClosed, fs)"
| "recv parse (FrameError # fs) = (Inl WsClosed, fs)"
| "recv parse (CloseFrame # fs) = (Inl WsClosed, fs)"
| "recv parse (OtherFrame # fs) = recv parse fs"
| "recv parse (TextFrame t # fs) =
     ((case parse t of Some v \<Rightarrow> Inr v | None \<Rightarrow> Inl (WsProtocol NotJson)), fs)"

lemma recv_shorter: "recv parse fs = (Inr v, r) \<Longrightarrow> length r < length fs"
  by (induction parse fs rule: recv.induct) auto

text \<open>The result of command \<open>i\<close>: events and other replies before it are passed over.\<close>

definition is_result_of :: "nat \<Rightarrow> json \<Rightarrow> bool" where
  "is_result_of i reply1 \<longleftrightarrow> at reply1 ''id'' = JNum (int i) \<and> at reply1 ''type'' = JStr ''result''"

definition command_outcome :: "json \<Rightarrow> ws_error + json" where
  "command_outcome reply1 =
     (if at reply1 ''success'' = JBool True
      then Inr (case get reply1 ''result'' of Some v \<Rightarrow> v | None \<Rightarrow> JNull)
      else Inl (WsCommand
        (case as_str (at (at reply1 ''error'') ''code'') of Some c \<Rightarrow> c | None \<Rightarrow> ''unknown_error'')
        (case as_str (at (at reply1 ''error'') ''message'') of Some m \<Rightarrow> m | None \<Rightarrow> ''no message'')))"

function await_result :: "json_parser \<Rightarrow> nat \<Rightarrow> frame list \<Rightarrow> (ws_error + json) \<times> frame list" where
  "await_result parse i fs =
     (case recv parse fs of
        (Inl e, r) \<Rightarrow> (Inl e, r)
      | (Inr reply1, r) \<Rightarrow>
          if \<not> is_result_of i reply1 then await_result parse i r
          else (command_outcome reply1, r))"
  by pat_completeness auto
termination
  by (relation "measure (\<lambda>(p, i, fs). length fs)") (auto dest: recv_shorter [OF sym])

declare await_result.simps [simp del]

text \<open>
  A connection counts its commands; each is sent under the next number. \<open>send_error\<close> is how
  sending ended, if it failed (the timeout, or a connection that is gone).
\<close>

record connection =
  next_id :: nat
  incoming :: "frame list"

definition command :: "json_parser \<Rightarrow> ws_error option \<Rightarrow> json \<Rightarrow> connection \<Rightarrow> (json \<times> (ws_error + json)) \<times> connection" where
  "command parse send_error msg c =
     (let i = next_id c;
          sent = (case msg of JObj o1 \<Rightarrow> JObj (obj_put ''id'' (JNum (int i)) o1) | _ \<Rightarrow> msg);
          (res, rest) = await_result parse i (incoming c)
      in case send_error of
           Some e \<Rightarrow> ((sent, Inl e), c\<lparr>next_id := i + 1\<rparr>)
         | None \<Rightarrow> ((sent, res), c\<lparr>next_id := i + 1, incoming := rest\<rparr>))"

section \<open>The handshake\<close>

definition auth_message :: "str \<Rightarrow> json" where
  "auth_message token = JObj (obj_of [(''type'', JStr ''auth''), (''access_token'', JStr token)])"

text \<open>The messages sent, and how connecting ended.\<close>

definition handshake :: "json_parser \<Rightarrow> ws_error option \<Rightarrow> (str \<Rightarrow> str) \<Rightarrow> str \<Rightarrow> frame list \<Rightarrow>
    json list \<times> (ws_error + connection)" where
  "handshake parse send_error redact token frames =
     (case recv parse frames of
        (Inl e, _) \<Rightarrow> ([], Inl e)
      | (Inr hello, r) \<Rightarrow>
          if at hello ''type'' \<noteq> JStr ''auth_required''
          then ([], Inl (WsProtocol (ExpectedAuthRequired (at hello ''type''))))
          else ([auth_message token],
            case send_error of Some e \<Rightarrow> Inl e | None \<Rightarrow>
            (case recv parse r of
               (Inl e, _) \<Rightarrow> Inl e
             | (Inr reply1, r') \<Rightarrow>
                 (case as_str (at reply1 ''type'') of
                    Some t \<Rightarrow>
                      if t = ''auth_ok'' then Inr \<lparr>next_id = 1, incoming = r'\<rparr>
                      else if t = ''auth_invalid'' then
                        Inl (WsAuth (redact (case as_str (at reply1 ''message'') of
                               Some m \<Rightarrow> m | None \<Rightarrow> ''invalid access'')))
                      else Inl (WsProtocol (ExpectedAuthOk (Some t)))
                  | None \<Rightarrow> Inl (WsProtocol (ExpectedAuthOk None))))))"

text \<open>Frames with their arrival times: whether the connection closed within a time.\<close>

fun wait_closed :: "nat \<Rightarrow> (nat \<times> frame) list \<Rightarrow> bool" where
  "wait_closed deadline [] = False"
| "wait_closed deadline ((t, f) # fs) =
     (if deadline < t then False
      else if f \<in> {StreamEnd, FrameError, CloseFrame} then True
      else wait_closed deadline fs)"

section \<open>Waiting past other traffic\<close>

definition noise :: "json_parser \<Rightarrow> nat \<Rightarrow> frame \<Rightarrow> bool" where
  "noise parse i f \<longleftrightarrow> (case f of
     OtherFrame \<Rightarrow> True
   | TextFrame t \<Rightarrow> (case parse t of Some v \<Rightarrow> \<not> is_result_of i v | None \<Rightarrow> False)
   | _ \<Rightarrow> False)"

lemma await_result_noise: "noise parse i f \<Longrightarrow> await_result parse i (f # fs) = await_result parse i fs"
  by (subst (1 2) await_result.simps) (auto simp: noise_def await_result.simps
      split: frame.splits option.splits)

lemma await_result_noises:
  "list_all (noise parse i) ns \<Longrightarrow> await_result parse i (ns @ fs) = await_result parse i fs"
  by (induction ns) (auto simp: await_result_noise)

text \<open>
  a command's result is the reply that carries the command's own number, however many events,
  pings and replies to other commands arrive before it; what follows it stays on the connection.
\<close>

theorem command_finds_its_result:
  assumes "list_all (noise parse (next_id c)) ns"
    and "incoming c = ns @ TextFrame t # rest" and "parse t = Some v" and "is_result_of (next_id c) v"
  shows "\<exists>sent. command parse None msg c =
    ((sent, command_outcome v), c\<lparr>next_id := next_id c + 1, incoming := rest\<rparr>)"
proof -
  have "await_result parse (next_id c) (TextFrame t # rest) = (command_outcome v, rest)"
    using assms(3,4) by (simp add: await_result.simps)
  with assms show ?thesis by (auto simp: command_def await_result_noises Let_def split: prod.splits)
qed

definition sample_parse :: json_parser where
  "sample_parse t = (if t = ''event'' then Some (JObj [(''id'', JNum 1), (''type'', JStr ''event'')])
     else if t = ''reply'' then Some (JObj [(''id'', JNum 2), (''success'', JBool True), (''type'', JStr ''result'')])
     else None)"

theorem command_finds_its_result_witness:
  "\<exists>sent. command sample_parse None (JObj []) \<lparr>next_id = 2, incoming =
      [TextFrame ''event'', OtherFrame, TextFrame ''reply'', CloseFrame]\<rparr> =
    ((sent, Inr JNull), \<lparr>next_id = 3, incoming = [CloseFrame]\<rparr>)"
  using command_finds_its_result [of sample_parse "\<lparr>next_id = 2, incoming =
      [TextFrame ''event'', OtherFrame, TextFrame ''reply'', CloseFrame]\<rparr>"
      "[TextFrame ''event'', OtherFrame]" "''reply''" "[CloseFrame]"
      "JObj [(''id'', JNum 2), (''success'', JBool True), (''type'', JStr ''result'')]" "JObj []"]
  by (simp add: noise_def sample_parse_def is_result_of_def at_def command_outcome_def)

text \<open>
  the add-on's token is sent to a peer that asked for authentication and to no other, and a
  connection exists only after the peer accepted it.
\<close>

theorem token_only_on_request:
  "handshake parse send_error redact token frames = (sent, result) \<Longrightarrow>
     (sent \<noteq> [] \<longrightarrow> sent = [auth_message token] \<and>
        (\<exists>hello r. recv parse frames = (Inr hello, r) \<and> at hello ''type'' = JStr ''auth_required'')) \<and>
     (\<forall>c. result = Inr c \<longrightarrow>
        (\<exists>hello r ok r'. recv parse frames = (Inr hello, r) \<and> at hello ''type'' = JStr ''auth_required'' \<and>
           recv parse r = (Inr ok, r') \<and> at ok ''type'' = JStr ''auth_ok'' \<and> incoming c = r'))"
  by (fastforce simp: handshake_def split: prod.splits sum.splits if_splits option.splits)

theorem token_only_on_request_witness:
  "fst (handshake (\<lambda>t. Some (JObj [(''type'', JStr t)])) None id ''secret'' [TextFrame ''hi'']) = []"
  using token_only_on_request [of "\<lambda>t. Some (JObj [(''type'', JStr t)])" None id "''secret''"
      "[TextFrame ''hi'']" "[]" "Inl (WsProtocol (ExpectedAuthRequired (JStr ''hi'')))"]
  by (simp add: handshake_def at_def)

end
