(* ===== verification/Ha_Allow.thy ===== *)
theory Ha_Allow
  imports Ha_Core Ha_Websocket
begin

text \<open>
  \<open>ha_core.rs\<close>, Allow: the conversation that turns the setting on, waits for Home Assistant to
  restart on it, checks a request the way Datum sends it, and only then confirms it. Home
  Assistant, the Supervisor and the checked request are the environment of the world. Times are
  milliseconds on the daemon's monotone clock; Home Assistant's \<open>revert_at\<close> is read by a
  parameter, the wall clock is the monotone one plus an offset.
\<close>

datatype allow_step = Saving | Restarting | Verifying | Confirming

datatype ha_request =
    Connect
  | ReadConfig
  | Configure json
  | Promote
  | WaitClosed nat
  | CloseWs
  | CoreUp
  | Verify
  | Step allow_step

datatype ha_reply =
    RConnected "ws_error + unit"
  | RResult "ws_error + json"
  | RBool bool
  | RStatus "str + nat"
  | RDone

type_synonym 'a ha = "(ha_request, ha_reply, 'a) io"

text \<open>A reply of another kind than the request's reads as no connection, no answer or no.\<close>

fun as_connected :: "ha_reply \<Rightarrow> ws_error + unit" where
  "as_connected (RConnected x) = x" | "as_connected _ = Inl WsClosed"

fun as_result :: "ha_reply \<Rightarrow> ws_error + json" where
  "as_result (RResult x) = x" | "as_result _ = Inl WsClosed"

fun as_flag :: "ha_reply \<Rightarrow> bool" where
  "as_flag (RBool b) = b" | "as_flag _ = False"

fun as_status :: "ha_reply \<Rightarrow> str + nat" where
  "as_status (RStatus x) = x" | "as_status _ = Inl []"

definition connect :: "(ws_error + unit) ha" where "connect = ask_as as_connected Connect"
definition read_config :: "(ws_error + json) ha" where "read_config = ask_as as_result ReadConfig"
definition configure :: "json \<Rightarrow> (ws_error + json) ha" where
  "configure c = ask_as as_result (Configure c)"
definition wait_ws_closed :: "nat \<Rightarrow> bool ha" where "wait_ws_closed d = ask_as as_flag (WaitClosed d)"
definition close_ws :: "unit ha" where "close_ws = ask_as (\<lambda>_. ()) CloseWs"
definition core_up :: "bool ha" where "core_up = ask_as as_flag CoreUp"
definition step :: "allow_step \<Rightarrow> unit ha" where "step s = signal (Step s)"
definition verify_within :: "nat \<Rightarrow> (str + nat) option ha" where
  "verify_within d = ask_within_as as_status d Verify"
definition promote_within :: "nat \<Rightarrow> (ws_error + json) option ha" where
  "promote_within d = ask_within_as as_result d Promote"

lemmas ha_ops = connect_def read_config_def configure_def wait_ws_closed_def close_ws_def core_up_def
  step_def verify_within_def promote_within_def

section \<open>Timing\<close>

record allow_timing =
  restart_begins :: nat
  restart_ends :: nat
  confirm_margin :: nat
  revert_after :: nat
  poll :: nat

definition default_timing :: allow_timing where
  "default_timing = \<lparr>restart_begins = 90 * 1000, restart_ends = 15 * 60 * 1000,
     confirm_margin = 45 * 1000, revert_after = 5 * 60 * 1000, poll = 3 * 1000\<rparr>"

text \<open>Reading an RFC 3339 time (\<open>chrono\<close>), and the wall clock's lead over the monotone one.\<close>

record clock_view =
  parse_time :: "str \<Rightarrow> int option"
  wall_offset :: int

definition revert_instant :: "clock_view \<Rightarrow> json \<Rightarrow> nat \<Rightarrow> nat option" where
  "revert_instant cv http_config t =
     (case Option.bind (get http_config ''revert_at'') as_str of None \<Rightarrow> None
      | Some s \<Rightarrow> (case parse_time cv s of None \<Rightarrow> None
         | Some at1 \<Rightarrow> (let left = at1 - (int t + wall_offset cv)
             in Some (if 0 \<le> left then t + nat left else t))))"

section \<open>Outcomes\<close>

datatype trial_failure =
    NotBack nat
  | WentBackFirst
  | CouldNotUse str
  | NoLongerWaiting
  | DidNotRestart

datatype allow_failure =
    NotReached ws_error
  | NotRead ws_error
  | Unreadable settings_error
  | NotTaken
  | StillStarting
  | TakeError ws_error
  | NotReachedAgain ws_error
  | NoTrial trial_failure
  | TooCloseToRevert nat
  | StillRefused
  | CheckFailed str
  | CheckTooSlow
  | ConfirmError ws_error
  | ConfirmTooSlow

datatype allow_outcome = AlreadyAllowed | PendingByOther | Allowed | Failed allow_failure

section \<open>Waiting for the restart\<close>

definition pending_error :: "json \<Rightarrow> json option" where
  "pending_error c = pointer [''pending'', ''error''] c"

definition text_or_empty :: "str option \<Rightarrow> str" where
  "text_or_empty s = (case s of Some x \<Rightarrow> x | None \<Rightarrow> [])"

definition div_ceil :: "nat \<Rightarrow> nat \<Rightarrow> nat" where
  "div_ceil a b = (a + b - 1) div b"

text \<open>What a round of the wait decides from a configuration it read.\<close>

definition judge_trial :: "allow_timing \<Rightarrow> json \<Rightarrow> nat \<Rightarrow> bool \<Rightarrow> json \<Rightarrow> (bool + (trial_failure + json)) ha" where
  "judge_trial tm wanted started seen_down c =
     (if on_trial_with c wanted then State_Monad.return (Inr (Inr c))
      else if pending_is c wanted \<and> pending_error c \<notin> {None, Some JNull} then do {
        close_ws;
        (let error = text_or_empty (str_at [''pending'', ''error''] c)
         in if error = ''not_promoted'' then State_Monad.return (Inr (Inl WentBackFirst))
            else State_Monad.return (Inr (Inl (CouldNotUse
                   (text_or_empty (str_at [''pending'', ''error_message''] c))))))
      } else do {
        close_ws;
        if \<not> pending_is c wanted then State_Monad.return (Inr (Inl NoLongerWaiting))
        else do {
          t \<leftarrow> now;
          if \<not> seen_down \<and> started + restart_begins tm * 2 \<le> t
          then State_Monad.return (Inr (Inl DidNotRestart))
          else State_Monad.return (Inl seen_down)
        }
      })"

text \<open>One look at Home Assistant: whether to go on, and having seen it down or not.\<close>

definition look_for_trial :: "allow_timing \<Rightarrow> json \<Rightarrow> nat \<Rightarrow> bool \<Rightarrow> (bool + (trial_failure + json)) ha" where
  "look_for_trial tm wanted started seen_down = do {
     up \<leftarrow> core_up;
     if \<not> up then State_Monad.return (Inl True)
     else do {
       conn \<leftarrow> connect;
       (case conn of Inl _ \<Rightarrow> State_Monad.return (Inl True)
        | Inr _ \<Rightarrow> do {
            cfg \<leftarrow> read_config;
            (case cfg of Inl _ \<Rightarrow> do { close_ws; State_Monad.return (Inl True) }
             | Inr c \<Rightarrow> judge_trial tm wanted started seen_down c)
          })
     }
   }"

definition trial_round :: "allow_timing \<Rightarrow> json \<Rightarrow> nat \<Rightarrow> bool \<Rightarrow> (bool + (trial_failure + json)) ha" where
  "trial_round tm wanted started seen_down = do {
     t \<leftarrow> now;
     if started + restart_ends tm \<le> t
     then State_Monad.return (Inr (Inl (NotBack (div_ceil (restart_ends tm div 1000) 60))))
     else do {
       r \<leftarrow> look_for_trial tm wanted started seen_down;
       (case r of Inl seen \<Rightarrow> do { sleep (poll tm); State_Monad.return (Inl seen) }
        | Inr x \<Rightarrow> State_Monad.return (Inr x))
     }
   }"

definition wait_for_trial :: "nat \<Rightarrow> allow_timing \<Rightarrow> json \<Rightarrow> bool \<Rightarrow> nat \<Rightarrow> (trial_failure + json) option ha" where
  "wait_for_trial rounds tm wanted seen_down started =
     repeat_io rounds (trial_round tm wanted started) seen_down"

section \<open>Checking and confirming\<close>

definition revert_deadline :: "clock_view \<Rightarrow> allow_timing \<Rightarrow> json \<Rightarrow> nat \<Rightarrow> nat" where
  "revert_deadline cv tm trial seen_back =
     (case revert_instant cv trial seen_back of Some t \<Rightarrow> t | None \<Rightarrow> seen_back + revert_after tm)"

definition check_and_confirm :: "clock_view \<Rightarrow> allow_timing \<Rightarrow> json \<Rightarrow> allow_outcome ha" where
  "check_and_confirm cv tm trial = do {
     seen_back \<leftarrow> now;
     (let revert_at = revert_deadline cv tm trial seen_back;
          left = revert_at - seen_back
      in if left < confirm_margin tm then do {
           close_ws;
           State_Monad.return (Failed (TooCloseToRevert (left div 1000)))
         } else (let verify_by = revert_at - confirm_margin tm div 2 in do {
           step Verifying;
           t \<leftarrow> now;
           checked \<leftarrow> verify_within (verify_by - t);
           (case checked of
              None \<Rightarrow> do { close_ws; State_Monad.return (Failed CheckTooSlow) }
            | Some (Inl e) \<Rightarrow> do { close_ws; State_Monad.return (Failed (CheckFailed e)) }
            | Some (Inr status) \<Rightarrow>
                if status = 400 then do { close_ws; State_Monad.return (Failed StillRefused) }
                else do {
                  step Confirming;
                  t \<leftarrow> now;
                  promoted \<leftarrow> promote_within (revert_at - t);
                  close_ws;
                  State_Monad.return (case promoted of
                      None \<Rightarrow> Failed ConfirmTooSlow
                    | Some (Inl e) \<Rightarrow> Failed (ConfirmError e)
                    | Some (Inr _) \<Rightarrow> Allowed)
                })
         }))
   }"

section \<open>Allow\<close>

text \<open>
  Saving, if there is something to save: an outcome when Allow ends here, else whether to wait for
  the restart (and having seen it begin) or, as \<open>None\<close>, to go straight to the check.
\<close>

definition save_setting :: "allow_timing \<Rightarrow> proxy_setup \<Rightarrow> (allow_outcome + bool option) ha" where
  "save_setting tm setup =
     (case setup of
        Ready \<Rightarrow> State_Monad.return (Inl AlreadyAllowed)
      | Ours on_trial \<Rightarrow>
          if on_trial then do { close_ws; State_Monad.return (Inr None) }
          else do { step Restarting; close_ws; State_Monad.return (Inr (Some False)) }
      | Pending \<Rightarrow> State_Monad.return (Inl PendingByOther)
      | Needed config \<Rightarrow> do {
          step Saving;
          r \<leftarrow> configure config;
          (case r of
             Inr v \<Rightarrow>
               if at v ''restart'' = JBool True then do {
                 step Restarting;
                 closed \<leftarrow> wait_ws_closed (restart_begins tm);
                 close_ws;
                 State_Monad.return (Inr (Some closed))
               } else State_Monad.return (Inl (Failed NotTaken))
           | Inl e \<Rightarrow> State_Monad.return (Inl (Failed
               (case e of WsCommand code1 _ \<Rightarrow> if code1 = ''not_running'' then StillStarting else TakeError e
                | _ \<Rightarrow> TakeError e))))
        })"

definition carry_on :: "nat \<Rightarrow> clock_view \<Rightarrow> allow_timing \<Rightarrow> json \<Rightarrow> json \<Rightarrow> nat \<Rightarrow> bool option \<Rightarrow>
    allow_outcome option ha" where
  "carry_on rounds cv tm current wanted started restarted =
     (case restarted of
        None \<Rightarrow> do {
          conn \<leftarrow> connect;
          (case conn of
             Inl e \<Rightarrow> State_Monad.return (Some (Failed (NotReachedAgain e)))
           | Inr _ \<Rightarrow> do { o1 \<leftarrow> check_and_confirm cv tm current; State_Monad.return (Some o1) })
        }
      | Some seen_down \<Rightarrow> do {
          back \<leftarrow> wait_for_trial rounds tm wanted seen_down started;
          (case back of
             None \<Rightarrow> State_Monad.return None
           | Some (Inl why) \<Rightarrow> State_Monad.return (Some (Failed (NoTrial why)))
           | Some (Inr trial) \<Rightarrow> do {
               o1 \<leftarrow> check_and_confirm cv tm trial; State_Monad.return (Some o1) })
        })"

definition allow_forwarded_requests :: "nat \<Rightarrow> clock_view \<Rightarrow> allow_timing \<Rightarrow> allow_outcome option ha" where
  "allow_forwarded_requests rounds cv tm = do {
     conn \<leftarrow> connect;
     (case conn of Inl e \<Rightarrow> State_Monad.return (Some (Failed (NotReached e)))
      | Inr _ \<Rightarrow> do {
          cfg \<leftarrow> read_config;
          (case cfg of Inl e \<Rightarrow> State_Monad.return (Some (Failed (NotRead e)))
           | Inr current \<Rightarrow>
              (case assess current of
                 Inl e \<Rightarrow> State_Monad.return (Some (Failed (Unreadable e)))
               | Inr Ready \<Rightarrow> State_Monad.return (Some AlreadyAllowed)
               | Inr setup \<Rightarrow>
                  (case merged (at current ''stable'') of
                     Inl e \<Rightarrow> State_Monad.return (Some (Failed (Unreadable e)))
                   | Inr wanted \<Rightarrow> do {
                       started \<leftarrow> now;
                       saved \<leftarrow> save_setting tm setup;
                       (case saved of
                          Inl o1 \<Rightarrow> State_Monad.return (Some o1)
                        | Inr restarted \<Rightarrow> carry_on rounds cv tm current wanted started restarted)
                     })))
        })
   }"

text \<open>
  At start: confirm Allow's own change if it is found on trial. The outer None is running out of
  rounds; the inner one is "nothing to do".
\<close>

definition read_http_config :: "(ws_error + json) ha" where
  "read_http_config = do {
     conn \<leftarrow> connect;
     (case conn of Inl e \<Rightarrow> State_Monad.return (Inl e)
      | Inr _ \<Rightarrow> do { r \<leftarrow> read_config; close_ws; State_Monad.return r })
   }"

definition confirm_ours_on_trial :: "nat \<Rightarrow> clock_view \<Rightarrow> allow_timing \<Rightarrow> allow_outcome option option ha" where
  "confirm_ours_on_trial rounds cv tm = do {
     cfg \<leftarrow> read_http_config;
     (case cfg of Inl _ \<Rightarrow> State_Monad.return (Some None)
      | Inr current \<Rightarrow>
          if assess current \<noteq> Inr (Ours True) then State_Monad.return (Some None)
          else do {
            o1 \<leftarrow> allow_forwarded_requests rounds cv tm;
            State_Monad.return (map_option Some o1)
          })
   }"

end
