(* ===== verification/Ha_Allow_Facts.thy ===== *)
theory Ha_Allow_Facts
  imports Ha_Allow
begin

text \<open>
  What Allow does to Home Assistant, whatever Home Assistant does: postconditions of its steps over
  the trace of requests, composed along the code, and the properties they give. The wait for the
  restart is an instance of the polling loop of the prelude.
\<close>

section \<open>What the steps do to the trace\<close>

lemma as_inject [simp]:
  "as_status x = Inr s \<longleftrightarrow> x = RStatus (Inr s)" "as_result x = Inr v \<longleftrightarrow> x = RResult (Inr v)"
  "as_connected x = Inr u \<longleftrightarrow> x = RConnected (Inr u)"
  by (cases x; auto)+

lemma as_inject_sym [simp]:
  "Inr s = as_status x \<longleftrightarrow> x = RStatus (Inr s)" "Inr v = as_result x \<longleftrightarrow> x = RResult (Inr v)"
  "Inr u = as_connected x \<longleftrightarrow> x = RConnected (Inr u)"
  using as_inject by metis+

lemma revert_deadline_later: "t \<le> revert_deadline cv tm trial t"
  by (auto simp: revert_deadline_def revert_instant_def Let_def split: option.split)

definition checked_before :: "(ha_request, ha_reply) event list \<Rightarrow> bool" where
  "checked_before es \<longleftrightarrow> (\<exists>t s. Event t Verify (Some (RStatus (Inr s))) \<in> set es \<and> s \<noteq> 400)"

definition confirm_post where
  "confirm_post cv tm trial w0 o1 w' \<longleftrightarrow> (\<exists>es. trace w' = trace w0 @ es \<and>
     (\<forall>e \<in> set es. request e \<notin> range Configure) \<and>
     (\<forall>es1 t r es2. es = es1 @ Event t Promote r # es2 \<longrightarrow> checked_before es1 \<and> clock w0 \<le> t \<and>
        t + confirm_margin tm div 2 \<le> revert_deadline cv tm trial (clock w0) \<and>
        Promote \<notin> request ` set (es1 @ es2)) \<and>
     (o1 = Allowed \<longrightarrow> (\<exists>t v. Event t Promote (Some (RResult (Inr v))) \<in> set es)))"

lemma check_and_confirm_post:
  "hoare (\<lambda>w. w = w0) (check_and_confirm cv tm trial) (confirm_post cv tm trial w0)"
  unfolding check_and_confirm_def ha_ops Let_def
  using revert_deadline_later [of "clock w0" cv tm trial]
  by (intro sp_rules) (auto simp: confirm_post_def checked_before_def Cons_eq_append_conv
      Some_eq_map_option split: option.splits sum.splits)

abbreviation quiet :: "ha_request \<Rightarrow> bool" where
  "quiet q \<equiv> q \<notin> range Configure \<and> q \<noteq> Promote"

lemma wait_quiet: "asks_only quiet (wait_for_trial rounds tm wanted seen started)"
  unfolding wait_for_trial_def trial_round_def look_for_trial_def judge_trial_def ha_ops Let_def
  by (intro asks_intros) auto

lemma wait_forward: "forward (wait_for_trial rounds tm wanted seen started)"
  unfolding wait_for_trial_def trial_round_def look_for_trial_def judge_trial_def ha_ops Let_def
  by (intro forward_intros)

definition trial_found :: "json \<Rightarrow> (ha_request, ha_reply) world \<Rightarrow> (trial_failure + json) \<Rightarrow>
    (ha_request, ha_reply) world \<Rightarrow> bool" where
  "trial_found wanted w0 r w' \<longleftrightarrow> (\<forall>c. r = Inr c \<longrightarrow> on_trial_with c wanted \<and>
     (\<exists>es t. trace w' = trace w0 @ es \<and> t \<le> clock w' \<and> Event t ReadConfig (Some (RResult (Inr c))) \<in> set es))"

definition trial_round_post where
  "trial_round_post wanted w0 r w' \<longleftrightarrow>
     (case r of Inl s \<Rightarrow> \<exists>es. trace w' = trace w0 @ es | Inr a \<Rightarrow> trial_found wanted w0 a w')"

lemma ex_le_eq: "(b :: nat) \<le> a \<Longrightarrow> \<exists>t\<le>a. t = b \<or> P t"
  by blast

lemma look_for_trial_post:
  "hoare (\<lambda>w. \<exists>es. trace w = trace w0 @ es) (look_for_trial tm wanted started seen)
     (trial_round_post wanted w0)"
  unfolding look_for_trial_def judge_trial_def ha_ops Let_def
  by (intro sp_rules) (auto simp: trial_round_post_def trial_found_def intro!: ex_le_eq)

lemma trial_round_post:
  "hoare (\<lambda>w. \<exists>es. trace w = trace w0 @ es) (trial_round tm wanted started seen)
     (trial_round_post wanted w0)"
  unfolding trial_round_def
  by (intro hoare_bind [OF hoare_now] hoare_bind [OF hoare_pre [OF look_for_trial_post]] sp_rules)
   (auto simp: trial_round_post_def trial_found_def)

lemma wait_for_trial_post:
  "hoare (\<lambda>w. \<exists>es. trace w = trace w0 @ es) (wait_for_trial rounds tm wanted seen started)
     (\<lambda>r w'. \<forall>a. r = Some a \<longrightarrow> trial_found wanted w0 a w')"
  unfolding wait_for_trial_def
  by (rule hoare_repeat, rule hoare_post [OF trial_round_post]) (simp add: trial_round_post_def)

definition save_post where
  "save_post ps w0 r w' \<longleftrightarrow> (\<exists>es. trace w' = trace w0 @ es \<and> Promote \<notin> request ` set es \<and>
     (\<forall>c. Configure c \<in> request ` set es \<longrightarrow> ps = Needed c) \<and>
     length (filter (\<lambda>e. request e \<in> range Configure) es) \<le> 1 \<and>
     (r = Inr None \<longrightarrow> ps = Ours True) \<and> (ps = Pending \<longrightarrow> es = [] \<and> r = Inl PendingByOther) \<and>
     r \<noteq> Inl Allowed)"

lemma save_setting_post: "hoare (\<lambda>w. w = w0) (save_setting tm ps) (save_post ps w0)"
  unfolding save_setting_def ha_ops Let_def
  by (cases ps; simp del: hoare_if; intro conjI impI sp_rules; auto simp: save_post_def split: ws_error.splits if_splits)

definition carry_post where
  "carry_post cv tm current wanted w0 o1 w' \<longleftrightarrow> (\<exists>es. trace w' = trace w0 @ es \<and>
     (\<forall>e \<in> set es. request e \<notin> range Configure) \<and>
     (\<forall>es1 t r es2. es = es1 @ Event t Promote r # es2 \<longrightarrow> checked_before es1 \<and>
        (\<exists>trial tb. on_trial_with trial wanted \<and> clock w0 \<le> tb \<and> tb \<le> t \<and>
           (trial = current \<or> (\<exists>tr \<le> tb. Event tr ReadConfig (Some (RResult (Inr trial))) \<in> set es1)) \<and>
           t + confirm_margin tm div 2 \<le> revert_deadline cv tm trial tb) \<and>
        Promote \<notin> request ` set (es1 @ es2)) \<and>
     (o1 = Some Allowed \<longrightarrow> (\<exists>t v. Event t Promote (Some (RResult (Inr v))) \<in> set es)))"

lemma carry_from_confirm:
  assumes "confirm_post cv tm trial w1 o1 w'" "trace w1 = trace w0 @ es0"
    "\<forall>e \<in> set es0. quiet (request e)" "on_trial_with trial wanted"
    "trial = current \<or> (\<exists>tr \<le> clock w1. Event tr ReadConfig (Some (RResult (Inr trial))) \<in> set es0)"
    "clock w0 \<le> clock w1"
  shows "carry_post cv tm current wanted w0 (Some o1) w'"
proof -
  from assms(1) obtain es where es: "trace w' = trace w1 @ es"
    "\<forall>e \<in> set es. request e \<notin> range Configure"
    "\<And>es1 t r es2. es = es1 @ Event t Promote r # es2 \<Longrightarrow> checked_before es1 \<and> clock w1 \<le> t \<and>
        t + confirm_margin tm div 2 \<le> revert_deadline cv tm trial (clock w1) \<and>
        Promote \<notin> request ` set (es1 @ es2)"
    "o1 = Allowed \<longrightarrow> (\<exists>t v. Event t Promote (Some (RResult (Inr v))) \<in> set es)"
    unfolding confirm_post_def by blast
  have split: "checked_before es1 \<and>
        (\<exists>trial tb. on_trial_with trial wanted \<and> clock w0 \<le> tb \<and> tb \<le> t \<and>
           (trial = current \<or> (\<exists>tr \<le> tb. Event tr ReadConfig (Some (RResult (Inr trial))) \<in> set es1)) \<and>
           t + confirm_margin tm div 2 \<le> revert_deadline cv tm trial tb) \<and>
        Promote \<notin> request ` set (es1 @ es2)"
    if e: "es0 @ es = es1 @ Event t Promote r # es2" for es1 t r es2
  proof -
    from e obtain us where "es0 = es1 @ us \<and> us @ es = Event t Promote r # es2 \<or>
        es1 = es0 @ us \<and> es = us @ Event t Promote r # es2"
      by (auto simp: append_eq_append_conv2)
    with assms(3) have us: "es1 = es0 @ us" "es = us @ Event t Promote r # es2"
      by (cases us; auto)+
    from es(3) [OF us(2)] assms(3,4,5,6) us show ?thesis by (auto simp: checked_before_def image_iff)
  qed
  show ?thesis unfolding carry_post_def
    by (rule exI [of _ "es0 @ es"]) (use es assms(2,3) split in auto)
qed


lemma carry_on_post:
  assumes "restarted = None \<Longrightarrow> on_trial_with current wanted"
  shows "hoare (\<lambda>w. w = w0) (carry_on rounds cv tm current wanted started restarted)
     (carry_post cv tm current wanted w0)"
proof (rule hoareI)
  fix w o1 w'
  assume w: "w = w0" and run: "run_state (carry_on rounds cv tm current wanted started restarted) w = (o1, w')"
  show "carry_post cv tm current wanted w0 o1 w'"
  proof (cases restarted)
    case None
    obtain conn w1 where c: "run_state connect w0 = (conn, w1)" by fastforce
    have cl: "clock w0 \<le> clock w1"
      by (rule forward_clock [OF _ c]) (simp add: ha_ops forward_ask_as)
    have q: "asks_only quiet connect" unfolding ha_ops by (intro asks_intros) auto
    from asks_onlyD [OF q c] obtain es0 where
      e: "trace w1 = trace w0 @ es0" "\<forall>e \<in> set es0. quiet (request e)" by blast
    show ?thesis
    proof (cases conn)
      case (Inl x)
      with None run c w have "o1 = Some (Failed (NotReachedAgain x))" "w' = w1"
        by (auto simp: carry_on_def)
      with e show ?thesis by (auto simp: carry_post_def image_iff)
    next
      case (Inr u)
      with None run c w obtain o2 where "o1 = Some o2"
        "run_state (check_and_confirm cv tm current) w1 = (o2, w')"
        by (auto simp: carry_on_def split: prod.splits)
      with e cl assms [OF None] show ?thesis
        by (auto intro: carry_from_confirm hoareD [OF check_and_confirm_post [of w1]])
    qed
  next
    case (Some seen)
    obtain bk w1 where b: "run_state (wait_for_trial rounds tm wanted seen started) w0 = (bk, w1)"
      by fastforce
    from asks_onlyD [OF wait_quiet b] obtain es0 where
      e: "trace w1 = trace w0 @ es0" "\<forall>e \<in> set es0. quiet (request e)" by blast
    have cl: "clock w0 \<le> clock w1" by (rule forward_clock [OF wait_forward b])
    have t: "\<forall>a. bk = Some a \<longrightarrow> trial_found wanted w0 a w1"
      by (rule hoareD [OF wait_for_trial_post _ b]) simp
    show ?thesis
    proof (cases "\<exists>trial. bk = Some (Inr trial)")
      case True
      then obtain trial where tr: "bk = Some (Inr trial)" by blast
      with t e have f: "on_trial_with trial wanted"
        "\<exists>tr \<le> clock w1. Event tr ReadConfig (Some (RResult (Inr trial))) \<in> set es0"
        by (auto simp: trial_found_def)
      from tr Some run b w obtain o2 where "o1 = Some o2"
        "run_state (check_and_confirm cv tm trial) w1 = (o2, w')"
        by (auto simp: carry_on_def split: prod.splits)
      with e f cl show ?thesis
        by (auto intro: carry_from_confirm hoareD [OF check_and_confirm_post [of w1]])
    next
      case False
      with Some run b w have "o1 \<noteq> Some Allowed" "w' = w1"
        by (auto simp: carry_on_def split: option.splits sum.splits)
      with e show ?thesis by (auto simp: carry_post_def image_iff)
    qed
  qed
qed

definition allow_post where
  "allow_post cv tm w0 o1 w' \<longleftrightarrow> (\<exists>es. trace w' = trace w0 @ es \<and>
     (\<forall>es1 t c r es2. es = es1 @ Event t (Configure c) r # es2 \<longrightarrow>
        (\<exists>tr cur. Event tr ReadConfig (Some (RResult (Inr cur))) \<in> set es1 \<and> assess cur = Inr (Needed c)) \<and>
        (\<forall>e \<in> set (es1 @ es2). request e \<notin> range Configure)) \<and>
     (\<forall>es1 t r es2. es = es1 @ Event t Promote r # es2 \<longrightarrow> checked_before es1 \<and>
        (\<exists>tr cur wanted trial tr' tb. Event tr ReadConfig (Some (RResult (Inr cur))) \<in> set es1 \<and>
           merged (at cur ''stable'') = Inr wanted \<and> 
           Event tr' ReadConfig (Some (RResult (Inr trial))) \<in> set es1 \<and> on_trial_with trial wanted \<and> tr' \<le> tb \<and> tb \<le> t \<and>
           t + confirm_margin tm div 2 \<le> revert_deadline cv tm trial tb) \<and>
        Promote \<notin> request ` set (es1 @ es2)) \<and>
     (o1 = Some Allowed \<longrightarrow> (\<exists>t v. Event t Promote (Some (RResult (Inr v))) \<in> set es)))"

lemma assess_Ours_trial: "assess cur = Inr (Ours True) \<Longrightarrow>
    \<exists>w. merged (at cur ''stable'') = Inr w \<and> on_trial_with cur w"
  by (auto simp: assess_def Let_def slot_def at_def split: option.splits sum.splits if_splits)

lemma allow_compose:
  assumes save: "save_post ps w1 r w2" and carry: "carry_post cv tm cur wanted w2 o1 w3"
    and w1: "trace w1 = trace w0 @ [Event t0 Connect c0, Event t1 ReadConfig (Some (RResult (Inr cur)))]"
    and times: "t1 \<le> clock w2"
    and cur: "assess cur = Inr ps" "merged (at cur ''stable'') = Inr wanted"
  shows "allow_post cv tm w0 o1 w3"
proof -
  let ?es0 = "[Event t0 Connect c0, Event t1 ReadConfig (Some (RResult (Inr cur)))]"
  from save obtain es1 where s: "trace w2 = trace w1 @ es1" "Promote \<notin> request ` set es1"
    "\<And>c. Configure c \<in> request ` set es1 \<Longrightarrow> ps = Needed c"
    "length (filter (\<lambda>e. request e \<in> range Configure) es1) \<le> 1"
    by (auto simp: save_post_def)
  from carry obtain es2 where c: "trace w3 = trace w2 @ es2" "\<forall>e \<in> set es2. request e \<notin> range Configure"
    "\<And>es1 t r es3. es2 = es1 @ Event t Promote r # es3 \<Longrightarrow> checked_before es1 \<and>
        (\<exists>trial tb. on_trial_with trial wanted \<and> clock w2 \<le> tb \<and> tb \<le> t \<and>
           (trial = cur \<or> (\<exists>tr\<le>tb. Event tr ReadConfig (Some (RResult (Inr trial))) \<in> set es1)) \<and>
           t + confirm_margin tm div 2 \<le> revert_deadline cv tm trial tb) \<and>
        Promote \<notin> request ` set (es1 @ es3)"
    "o1 = Some Allowed \<longrightarrow> (\<exists>t v. Event t Promote (Some (RResult (Inr v))) \<in> set es2)"
    unfolding carry_post_def by blast
  have conf: "(\<exists>tr cur. Event tr ReadConfig (Some (RResult (Inr cur))) \<in> set us \<and> assess cur = Inr (Needed d)) \<and>
        (\<forall>e \<in> set (us @ vs). request e \<notin> range Configure)"
    if e: "?es0 @ es1 @ es2 = us @ Event t (Configure d) r # vs" for us t d r vs
  proof -
    have "\<forall>e \<in> set ?es0 \<union> set es2. request e \<notin> range Configure" using c(2) by auto
    from single_split [OF e s(4) _ this] obtain zs where
      z: "us = ?es0 @ zs" "\<forall>e \<in> set (us @ vs). request e \<notin> range Configure" by auto
    from e have "Event t (Configure d) r \<in> set (?es0 @ es1 @ es2)" by auto
    with c(2) have "Configure d \<in> request ` set es1" by force
    with s(3) cur(1) z show ?thesis by (metis list.set_intros(1,2) Un_iff set_append)
  qed
  have prom: "checked_before us \<and>
        (\<exists>tr cur wanted trial tr' tb. Event tr ReadConfig (Some (RResult (Inr cur))) \<in> set us \<and>
           merged (at cur ''stable'') = Inr wanted \<and>
           Event tr' ReadConfig (Some (RResult (Inr trial))) \<in> set us \<and> on_trial_with trial wanted \<and> tr' \<le> tb \<and> tb \<le> t \<and>
           t + confirm_margin tm div 2 \<le> revert_deadline cv tm trial tb) \<and>
        Promote \<notin> request ` set (us @ vs)"
    if e: "?es0 @ es1 @ es2 = us @ Event t Promote r # vs" for us t r vs
  proof -
    have "(?es0 @ es1) @ es2 = us @ Event t Promote r # vs" using e by simp
    then obtain zs where "?es0 @ es1 = us @ zs \<and> zs @ es2 = Event t Promote r # vs \<or>
        us = (?es0 @ es1) @ zs \<and> es2 = zs @ Event t Promote r # vs"
      unfolding append_eq_append_conv2 by auto
    moreover have "Event t Promote r \<notin> set (?es0 @ es1)" using s(2) by force
    ultimately have z: "us = (?es0 @ es1) @ zs" "es2 = zs @ Event t Promote r # vs"
      by (cases zs; auto)+
    from c(3) [OF z(2)] obtain trial tb where p: "checked_before zs" "on_trial_with trial wanted"
      "clock w2 \<le> tb" "tb \<le> t" "trial = cur \<or> (\<exists>tr\<le>tb. Event tr ReadConfig (Some (RResult (Inr trial))) \<in> set zs)"
      "t + confirm_margin tm div 2 \<le> revert_deadline cv tm trial tb"
      "Promote \<notin> request ` set (zs @ vs)" by blast
    have "checked_before us" using p(1) z(1) by (auto simp: checked_before_def)
    moreover have "Event t1 ReadConfig (Some (RResult (Inr cur))) \<in> set us" using z(1) by simp
    moreover have "\<exists>tr' \<le> tb. Event tr' ReadConfig (Some (RResult (Inr trial))) \<in> set us"
    proof (cases "trial = cur")
      case True
      have "t1 \<le> tb" using p(3) times by simp
      with True z(1) show ?thesis by auto
    next
      case False
      with p(5) z(1) show ?thesis by auto
    qed
    moreover have "Promote \<notin> request ` set (us @ vs)" using p(7) z(1) s(2) by auto
    ultimately show ?thesis using p(2,4,6) cur(2) by blast
  qed
  have tr: "trace w3 = trace w0 @ ?es0 @ es1 @ es2" using w1 s(1) c(1) by simp
  have done1: "o1 = Some Allowed \<longrightarrow> (\<exists>t v. Event t Promote (Some (RResult (Inr v))) \<in> set (?es0 @ es1 @ es2))"
    using c(4) by auto
  show ?thesis unfolding allow_post_def using tr conf prom done1 by blast
qed

lemma save_forward: "forward (save_setting tm ps)"
  unfolding save_setting_def ha_ops
  by (cases ps; simp del: forward_if; intro conjI impI forward_intros)

lemma save_endings:
  "save_post ps w1 (Inl o1) w2 \<Longrightarrow> carry_post cv tm cur wanted w2 (Some o1) w2"
  by (auto simp: save_post_def carry_post_def)

lemma allow_forwarded_post:
  "hoare (\<lambda>w. w = w0) (allow_forwarded_requests rounds cv tm) (allow_post cv tm w0)"
proof (rule hoareI)
  fix w o1 w'
  assume "w = w0" and "run_state (allow_forwarded_requests rounds cv tm) w = (o1, w')"
  then have run: "run_state (allow_forwarded_requests rounds cv tm) w0 = (o1, w')" by simp
  have quick: "allow_post cv tm w0 o1 v" if "o1 \<noteq> Some Allowed" "trace v = trace w0 @ es"
    "\<forall>e \<in> set es. quiet (request e)" for v es
    using that by (auto simp: allow_post_def image_iff)
  obtain conn v where v: "run_state connect w0 = (conn, v)" by fastforce
  then obtain c0 t0 where tv: "trace v = trace w0 @ [Event t0 Connect c0]"
    by (auto simp: connect_def ask_as_def split: prod.splits dest!: run_ask)
  obtain cfg u where u: "run_state read_config v = (cfg, u)" by fastforce
  then obtain t1 rr where tu: "trace u = trace v @ [Event t1 ReadConfig (Some rr)]" "cfg = as_result rr"
      "t1 \<le> clock u"
    by (auto simp: read_config_def ask_as_def split: prod.splits dest!: run_ask)
  show "allow_post cv tm w0 o1 w'"
  proof (cases "\<exists>cur ps wanted. conn = Inr () \<and> cfg = Inr cur \<and> assess cur = Inr ps \<and> ps \<noteq> Ready \<and>
      merged (at cur ''stable'') = Inr wanted")
    case True
    then obtain cur ps wanted where c: "conn = Inr ()" "cfg = Inr cur" "assess cur = Inr ps" "ps \<noteq> Ready"
      "merged (at cur ''stable'') = Inr wanted" by blast
    have rr: "rr = RResult (Inr cur)" using c(2) tu(2) by simp
    obtain r v2 where s: "run_state (save_setting tm ps) u = (r, v2)" by fastforce
    have times: "t1 \<le> clock v2" using tu(3) forward_clock [OF save_forward s] by simp
    have sp: "save_post ps u r v2" using hoareD [OF save_setting_post _ s] by simp
    have rest: "(case r of Inl o2 \<Rightarrow> (Some o2, v2)
        | Inr restarted \<Rightarrow> run_state (carry_on rounds cv tm cur wanted (clock u) restarted) v2) = (o1, w')"
      using run v u s c by (cases ps; cases r) (auto simp: allow_forwarded_requests_def)
    have t: "trace u = trace w0 @ [Event t0 Connect c0, Event t1 ReadConfig (Some (RResult (Inr cur)))]"
      using tu tv rr by simp
    have "carry_post cv tm cur wanted v2 o1 w'"
    proof (cases r)
      case (Inl o2)
      with rest sp show ?thesis by (auto intro: save_endings)
    next
      case (Inr restarted)
      have "on_trial_with cur wanted" if "restarted = None"
        using that Inr sp assess_Ours_trial [of cur] c(3,5) by (force simp: save_post_def)
      from hoareD [OF carry_on_post [OF this, where ?w0.0 = v2]] show ?thesis using rest Inr by auto
    qed
    from allow_compose [OF sp this t times c(3,5)] show ?thesis .
  next
    case False
    then have "(o1 \<noteq> Some Allowed) \<and> w' \<in> {v, u}"
      using run v u by (auto simp: allow_forwarded_requests_def split: sum.splits proxy_setup.splits)
    with tu tv show ?thesis
      using quick [of v "[Event t0 Connect c0]"]
        quick [of u "[Event t0 Connect c0, Event t1 ReadConfig (Some rr)]"] by auto
  qed
qed

lemma trial_round_progress:
  assumes "run_state (trial_round tm wanted started s) w = (Inl s', w')"
  shows "clock w + poll tm \<le> clock w'"
proof -
  have f: "forward (look_for_trial tm wanted started s)"
    unfolding look_for_trial_def judge_trial_def ha_ops Let_def by (intro forward_intros)
  obtain r v where r: "run_state (look_for_trial tm wanted started s) w = (r, v)" by fastforce
  have "w' = v\<lparr>clock := clock v + poll tm\<rparr>"
    using assms r by (auto simp: trial_round_def split: if_splits sum.splits)
  with forward_clock [OF f r] show ?thesis by simp
qed

interpretation trial: polling "trial_round default_timing wanted started"
    "started + restart_ends default_timing" "poll default_timing" for wanted started
proof unfold_locales
  fix s s' w w'
  assume "run_state (trial_round default_timing wanted started s) w = (Inl s', w')"
  then show "clock w + poll default_timing \<le> clock w' \<or> started + restart_ends default_timing \<le> clock w'"
    using trial_round_progress by blast
qed (auto simp: default_timing_def trial_round_def)

definition allow_rounds :: nat where "allow_rounds = 302"

lemma wait_ends:
  "started \<le> clock w \<Longrightarrow>
   \<exists>a w'. run_state (wait_for_trial allow_rounds default_timing wanted seen started) w = (Some a, w')"
  unfolding wait_for_trial_def
  using trial.ends [of started w 301 wanted seen] by (simp add: default_timing_def allow_rounds_def)

lemma carry_on_ends:
  "started \<le> clock w \<Longrightarrow>
   \<exists>a w'. run_state (carry_on allow_rounds cv default_timing cur wanted started restarted) w = (Some a, w')"
proof (cases restarted)
  case None
  then show ?thesis by (auto simp: carry_on_def split: prod.splits sum.splits)
next
  case (Some seen)
  assume "started \<le> clock w"
  from wait_ends [OF this, of wanted seen] obtain a w' where
    "run_state (wait_for_trial allow_rounds default_timing wanted seen started) w = (Some a, w')" by blast
  with Some show ?thesis by (auto simp: carry_on_def split: prod.splits sum.splits)
qed

text \<open>
  Allow ends: 302 rounds of its wait are enough, whatever Home Assistant does.\<close>

theorem allow_always_ends:
  "\<exists>o1 w'. run_state (allow_forwarded_requests allow_rounds cv default_timing) w = (Some o1, w')"
proof -
  obtain conn v where v: "run_state connect w = (conn, v)" by fastforce
  obtain cfg u where u: "run_state read_config v = (cfg, u)" by fastforce
  have rest: "\<exists>o1 w'. run_state (do {
        saved \<leftarrow> save_setting default_timing ps;
        (case saved of Inl o1 \<Rightarrow> State_Monad.return (Some o1)
         | Inr restarted \<Rightarrow> carry_on allow_rounds cv default_timing cur wanted (clock u) restarted) }) u
      = (Some o1, w')" for ps cur wanted
  proof -
    obtain r x where r: "run_state (save_setting default_timing ps) u = (r, x)" by fastforce
    with carry_on_ends [OF forward_clock [OF save_forward r], of cv cur wanted] show ?thesis by (cases r) auto
  qed
  show ?thesis using v u rest
    by (auto simp: allow_forwarded_requests_def split: sum.splits proxy_setup.splits)
qed

text \<open>
  C1: the setting is confirmed only after a request sent the way Datum sends it was answered, and
  not with 400, with Home Assistant running on trial exactly the configuration Allow wants, half the
  confirm margin or more before Home Assistant would revert it; and at most once.
\<close>

theorem promoted_only_when_checked:
  assumes "run_state (allow_forwarded_requests rounds cv tm) w = (o1, w')"
  shows "\<exists>es. trace w' = trace w @ es \<and>
     (\<forall>es1 t r es2. es = es1 @ Event t Promote r # es2 \<longrightarrow>
        (\<exists>tv s. Event tv Verify (Some (RStatus (Inr s))) \<in> set es1 \<and> s \<noteq> 400) \<and>
        (\<exists>tr cur wanted trial tr' tb. Event tr ReadConfig (Some (RResult (Inr cur))) \<in> set es1 \<and>
           merged (at cur ''stable'') = Inr wanted \<and>
           Event tr' ReadConfig (Some (RResult (Inr trial))) \<in> set es1 \<and> on_trial_with trial wanted \<and> tr' \<le> tb \<and> tb \<le> t \<and>
           t + confirm_margin tm div 2 \<le> revert_deadline cv tm trial tb) \<and>
        Promote \<notin> request ` set (es1 @ es2))"
proof -
  from hoareD [OF allow_forwarded_post _ assms] have "allow_post cv tm w o1 w'" by simp
  then show ?thesis unfolding allow_post_def checked_before_def by (elim exE conjE) (rule exI, rule conjI)
qed

text \<open>
  C24: Allow saves nothing but the configuration that the settings it read call for: never over
  another change that waits for confirmation, never an already accepted one, and at most once.
\<close>

theorem saved_only_when_needed:
  assumes "run_state (allow_forwarded_requests rounds cv tm) w = (o1, w')"
  shows "\<exists>es. trace w' = trace w @ es \<and>
     (\<forall>es1 t c r es2. es = es1 @ Event t (Configure c) r # es2 \<longrightarrow>
        (\<exists>tr cur. Event tr ReadConfig (Some (RResult (Inr cur))) \<in> set es1 \<and> assess cur = Inr (Needed c)) \<and>
        (\<forall>e \<in> set (es1 @ es2). request e \<notin> range Configure))"
proof -
  from hoareD [OF allow_forwarded_post _ assms] have "allow_post cv tm w o1 w'" by simp
  then show ?thesis unfolding allow_post_def by (elim exE conjE) (rule exI, rule conjI)
qed

text \<open>Allow reports success only when Home Assistant answered the confirmation with success.\<close>

theorem allowed_means_promoted:
  assumes "run_state (allow_forwarded_requests rounds cv tm) w = (Some Allowed, w')"
  shows "\<exists>es t v. trace w' = trace w @ es \<and> Event t Promote (Some (RResult (Inr v))) \<in> set es"
proof -
  from hoareD [OF allow_forwarded_post _ assms] have "allow_post cv tm w (Some Allowed) w'" by simp
  then show ?thesis unfolding allow_post_def by blast
qed

section \<open>A Home Assistant to run Allow against\<close>

text \<open>It restarts on what it is given at once, and answers the check with 404.\<close>

definition sample_ha :: "json \<Rightarrow> nat \<Rightarrow> (ha_request, ha_reply) event list \<Rightarrow> ha_request \<Rightarrow> ha_reply \<times> nat" where
  "sample_ha before t es q = (case q of
     Connect \<Rightarrow> (RConnected (Inr ()), 10)
   | ReadConfig \<Rightarrow> (RResult (Inr (if list_ex (\<lambda>e. request e \<in> range Configure) es then sample_trial else before)), 10)
   | Configure c \<Rightarrow> (RResult (Inr (JObj [(''restart'', JBool True)])), 10)
   | Promote \<Rightarrow> (RResult (Inr JNull), 10)
   | WaitClosed d \<Rightarrow> (RBool True, 500)
   | CloseWs \<Rightarrow> (RDone, 0)
   | CoreUp \<Rightarrow> (RBool True, 20)
   | Verify \<Rightarrow> (RStatus (Inr 404), 30)
   | Step _ \<Rightarrow> (RDone, 0))"

definition sample_world :: "(nat \<Rightarrow> (ha_request, ha_reply) event list \<Rightarrow> ha_request \<Rightarrow> ha_reply \<times> nat) \<Rightarrow>
    (ha_request, ha_reply) world" where
  "sample_world env = \<lparr>environment = env, clock = 0, trace = []\<rparr>"

definition sample_view :: clock_view where
  "sample_view = \<lparr>parse_time = (\<lambda>_. None), wall_offset = 0\<rparr>"

lemma sample_revert: "revert_deadline sample_view default_timing sample_trial t = t + 300000"
  by (simp add: revert_deadline_def revert_instant_def sample_trial_def default_timing_def)

lemmas run_defs = ask_as_def ask_within_as_def ask_def ask_within_def signal_def ha_ops


lemma default_timing_simps [simp]:
  "restart_begins default_timing = 90000" "restart_ends default_timing = 900000"
  "confirm_margin default_timing = 45000" "poll default_timing = 3000"
  by (simp_all add: default_timing_def)

lemma sample_restart: "at (JObj [(''restart'', JBool True)]) ''restart'' = JBool True"
  by (simp add: at_def)

lemmas sample_run_simps = sample_world_def run_defs sample_ha_def sample_assess sample_merged
  sample_on_trial sample_revert sample_restart Let_def image_iff

abbreviation sample_allow :: "allow_outcome option \<times> (ha_request, ha_reply) world" where
  "sample_allow \<equiv> run_state (allow_forwarded_requests 1 sample_view default_timing)
     (sample_world (sample_ha sample_before))"

lemma sample_run:
  "fst sample_allow = Some Allowed"
  "map request (trace (snd sample_allow)) = [Connect, ReadConfig, Step Saving, Configure sample_wanted,
     Step Restarting, WaitClosed 90000, CloseWs, CoreUp, Connect, ReadConfig, Step Verifying, Verify,
     Step Confirming, Promote, CloseWs]"
  by (simp_all add: sample_run_simps allow_forwarded_requests_def save_setting_def carry_on_def
     wait_for_trial_def trial_round_def look_for_trial_def judge_trial_def check_and_confirm_def)

lemma sample_run_pair: "sample_allow = (Some Allowed, snd sample_allow)"
  using sample_run(1) by (metis prod.collapse)

theorem promoted_only_when_checked_witness:
  "let es = trace (snd sample_allow) in Promote \<in> request ` set es \<and>
     (\<forall>es1 t r es2. es = es1 @ Event t Promote r # es2 \<longrightarrow>
        (\<exists>tv s. Event tv Verify (Some (RStatus (Inr s))) \<in> set es1 \<and> s \<noteq> 400))"
proof -
  obtain es where "trace (snd sample_allow) = trace (sample_world (sample_ha sample_before)) @ es"
    "\<forall>es1 t r es2. es = es1 @ Event t Promote r # es2 \<longrightarrow>
        (\<exists>tv s. Event tv Verify (Some (RStatus (Inr s))) \<in> set es1 \<and> s \<noteq> 400)"
    using promoted_only_when_checked [OF sample_run_pair] by blast
  moreover from this(1) have "trace (snd sample_allow) = es" by (simp add: sample_world_def)
  moreover have "Promote \<in> set (map request (trace (snd sample_allow)))"
    unfolding sample_run(2) by simp
  ultimately show ?thesis by (simp add: Let_def)
qed

theorem saved_only_when_needed_witness:
  "let es = trace (snd sample_allow) in Configure sample_wanted \<in> request ` set es \<and>
     (\<forall>es1 t c r es2. es = es1 @ Event t (Configure c) r # es2 \<longrightarrow>
        (\<exists>tr cur. Event tr ReadConfig (Some (RResult (Inr cur))) \<in> set es1 \<and> assess cur = Inr (Needed c)))"
proof -
  obtain es where "trace (snd sample_allow) = trace (sample_world (sample_ha sample_before)) @ es"
    "\<forall>es1 t c r es2. es = es1 @ Event t (Configure c) r # es2 \<longrightarrow>
        (\<exists>tr cur. Event tr ReadConfig (Some (RResult (Inr cur))) \<in> set es1 \<and> assess cur = Inr (Needed c))"
    using saved_only_when_needed [OF sample_run_pair] by blast
  moreover from this(1) have "trace (snd sample_allow) = es" by (simp add: sample_world_def)
  moreover have "Configure sample_wanted \<in> set (map request (trace (snd sample_allow)))"
    unfolding sample_run(2) by simp
  ultimately show ?thesis by (simp add: Let_def)
qed

theorem allowed_means_promoted_witness:
  "\<exists>t v. Event t Promote (Some (RResult (Inr v))) \<in> set (trace (snd sample_allow))"
  using allowed_means_promoted [OF sample_run_pair] by (auto simp: sample_world_def)

text \<open>
  at start, settings that do not hold Allow's own change on trial are read and nothing else is
  done.
\<close>

theorem start_only_reads_other_settings:
  assumes "run_state (confirm_ours_on_trial rounds cv tm) w = (Some None, w')"
  shows "\<exists>es. trace w' = trace w @ es \<and> (\<forall>e \<in> set es. request e \<in> {Connect, ReadConfig, CloseWs})"
proof -
  obtain cfg v where v: "run_state read_http_config w = (cfg, v)" by fastforce
  have "asks_only (\<lambda>q. q \<in> {Connect, ReadConfig, CloseWs}) read_http_config"
    unfolding read_http_config_def ha_ops by (intro asks_intros) auto
  from asks_onlyD [OF this v] show ?thesis using assms v
    by (auto simp: confirm_ours_on_trial_def split: sum.splits if_splits prod.splits option.splits)
qed

theorem start_only_reads_other_settings_witness:
  "\<exists>w'. run_state (confirm_ours_on_trial 1 sample_view default_timing)
      (sample_world (sample_ha sample_before)) = (Some None, w') \<and>
    (\<forall>e \<in> set (trace w'). request e \<in> {Connect, ReadConfig, CloseWs})"
proof -
  obtain w' where "run_state (confirm_ours_on_trial 1 sample_view default_timing)
      (sample_world (sample_ha sample_before)) = (Some None, w')"
    by (simp add: sample_run_simps confirm_ours_on_trial_def read_http_config_def)
  with start_only_reads_other_settings [OF this] show ?thesis by (auto simp: sample_world_def)
qed

text \<open>
  Home Assistant reverts the change on trial between the first look at the settings and the second.
\<close>

definition reverting_ha :: "nat \<Rightarrow> (ha_request, ha_reply) event list \<Rightarrow> ha_request \<Rightarrow> ha_reply \<times> nat" where
  "reverting_ha t es q =
     (if q = ReadConfig \<and> \<not> list_ex (\<lambda>e. request e = ReadConfig) es
      then (RResult (Inr sample_trial), 10) else sample_ha sample_before t es q)"

text \<open>
 the confirmation at start can save the setting and restart Home Assistant although nobody
  clicked Allow, when the change it found on trial is reverted before Allow reads the settings again.
\<close>

theorem start_can_save_unasked:
  "Configure sample_wanted \<in> request ` set (trace (snd (run_state
      (confirm_ours_on_trial 1 sample_view default_timing) (sample_world reverting_ha))))"
  by (simp add: reverting_ha_def sample_run_simps allow_forwarded_requests_def sample_assess_trial
     confirm_ours_on_trial_def read_http_config_def
     save_setting_def carry_on_def wait_for_trial_def trial_round_def look_for_trial_def judge_trial_def
     check_and_confirm_def)

end
