(* ===== verification/Disk.thy ===== *)
theory Disk
  imports Text "HOL-Library.AList"
begin

text \<open>
  The file system as the daemon uses it: whole files by path, and paths the operating system
  refuses (\<open>denied\<close>: permissions, a full disk, a directory in the way). A path is a string; joining
  an absolute path replaces the base, as \<^verbatim>\<open>PathBuf::join\<close> does. A directory is the
  files whose path goes through it.
\<close>

type_synonym path = str

definition join :: "path \<Rightarrow> path \<Rightarrow> path" where
  "join base p = (if starts_with ''/'' p then p
     else if ends_with ''/'' base \<or> base = [] then base @ p else base @ ''/'' @ p)"

datatype io_error = NotFound | AlreadyExists | InvalidData | OtherIo

record disk =
  files :: "(path \<times> str) list"
  denied :: "path \<Rightarrow> bool"

definition read_file :: "disk \<Rightarrow> path \<Rightarrow> io_error + str" where
  "read_file d p = (if denied d p then Inl OtherIo
     else (case map_of (files d) p of Some c \<Rightarrow> Inr c | None \<Rightarrow> Inl NotFound))"

definition put_file :: "path \<Rightarrow> str \<Rightarrow> disk \<Rightarrow> (io_error + unit) \<times> disk" where
  "put_file p c d = (if denied d p then (Inl OtherIo, d) else (Inr (), d\<lparr>files := AList.update p c (files d)\<rparr>))"

definition remove_file :: "path \<Rightarrow> disk \<Rightarrow> (io_error + unit) \<times> disk" where
  "remove_file p d = (if denied d p then (Inl OtherIo, d)
     else if map_of (files d) p = None then (Inl NotFound, d)
     else (Inr (), d\<lparr>files := AList.delete p (files d)\<rparr>))"

text \<open>\<open>rename\<close> of an existing file over another path.\<close>

definition rename_file :: "path \<Rightarrow> path \<Rightarrow> disk \<Rightarrow> (io_error + unit) \<times> disk" where
  "rename_file p q d = (if denied d p \<or> denied d q then (Inl OtherIo, d)
     else (case map_of (files d) p of None \<Rightarrow> (Inl NotFound, d)
       | Some c \<Rightarrow> (Inr (), d\<lparr>files := AList.update q c (AList.delete p (files d))\<rparr>)))"

definition append_file :: "path \<Rightarrow> str \<Rightarrow> disk \<Rightarrow> (io_error + unit) \<times> disk" where
  "append_file p c d = (case read_file d p of
       Inl NotFound \<Rightarrow> put_file p c d
     | Inl e \<Rightarrow> (Inl e, d)
     | Inr old \<Rightarrow> put_file p (old @ c) d)"

definition create_dir :: "path \<Rightarrow> disk \<Rightarrow> io_error + unit" where
  "create_dir p d = (if denied d p then Inl OtherIo else Inr ())"

text \<open>The paths directly in a directory, and removing it with all it holds.\<close>

definition in_dir :: "path \<Rightarrow> path \<Rightarrow> bool" where
  "in_dir dir p \<longleftrightarrow> (case strip_prefix (dir @ ''/'') p of Some r \<Rightarrow> r \<noteq> [] \<and> CHR ''/'' \<notin> set r | None \<Rightarrow> False)"

definition read_dir :: "disk \<Rightarrow> path \<Rightarrow> io_error + path list" where
  "read_dir d dir = (if denied d dir then Inl OtherIo
     else if \<not> list_ex (\<lambda>(p, c). starts_with (dir @ ''/'') p) (files d) then Inl NotFound
     else Inr (map fst (filter (\<lambda>(p, c). in_dir dir p) (files d))))"

definition remove_dir :: "path \<Rightarrow> disk \<Rightarrow> disk" where
  "remove_dir dir d = (if denied d dir then d
     else d\<lparr>files := filter (\<lambda>(p, c). \<not> starts_with (dir @ ''/'') p) (files d)\<rparr>)"

text \<open>Writing a whole file beside the old one and renaming it over it.\<close>

definition write_atomic :: "path \<Rightarrow> str \<Rightarrow> disk \<Rightarrow> (io_error + unit) \<times> disk" where
  "write_atomic p c d = (let tmp = p @ ''.tmp'' in
     case put_file tmp c d of (Inl e, d') \<Rightarrow> (Inl e, d') | (Inr _, d') \<Rightarrow> rename_file tmp p d')"

section \<open>Laws\<close>

lemma map_of_files_update [simp]: "map_of (AList.update p c fs) q = (if q = p then Some c else map_of fs q)"
  by (simp add: update_conv' fun_upd_apply)

lemma map_of_files_delete [simp]: "map_of (AList.delete p fs) q = (if q = p then None else map_of fs q)"
  by (simp add: delete_conv')

lemma write_atomic_denied [simp]: "denied (snd (write_atomic p c d)) = denied d"
  by (simp add: write_atomic_def put_file_def rename_file_def Let_def split: option.split)

lemma write_atomic_ok: "\<not> denied d p \<Longrightarrow> \<not> denied d (p @ ''.tmp'') \<Longrightarrow> fst (write_atomic p c d) = Inr ()"
  by (simp add: write_atomic_def put_file_def rename_file_def Let_def)

lemma write_atomic_read:
  "write_atomic p c d = (Inr u, d') \<Longrightarrow> q \<noteq> p @ ''.tmp'' \<Longrightarrow>
   read_file d' q = (if q = p then Inr c else read_file d q)"
  by (auto simp: write_atomic_def put_file_def rename_file_def read_file_def Let_def
      split: if_splits option.splits)

text \<open>Even when it fails, no other file changes: a reader sees the old file or the new one.\<close>

lemma write_atomic_others:
  "write_atomic p c d = (r, d') \<Longrightarrow> q \<noteq> p @ ''.tmp'' \<Longrightarrow> q \<noteq> p \<or> (\<exists>e. r = Inl e) \<Longrightarrow>
   read_file d' q = read_file d q"
  by (auto simp: write_atomic_def put_file_def rename_file_def read_file_def Let_def
      split: if_splits option.splits)

lemma read_file_ok: "read_file d p = Inr c \<longleftrightarrow> \<not> denied d p \<and> map_of (files d) p = Some c"
  by (auto simp: read_file_def split: option.splits)

lemma append_file_read:
  "append_file p c d = (r, d') \<Longrightarrow> q \<noteq> p \<Longrightarrow> read_file d' q = read_file d q"
  by (auto simp: append_file_def put_file_def read_file_def split: if_splits option.splits)

lemma remove_dir_read:
  "read_file (remove_dir dir d) q =
     (if \<not> denied d dir \<and> \<not> denied d q \<and> starts_with (dir @ ''/'') q then Inl NotFound else read_file d q)"
proof -
  have "map_of (filter (\<lambda>(p, c). \<not> starts_with (dir @ ''/'') p) fs) q =
      (if starts_with (dir @ ''/'') q then None else map_of fs q)" for fs :: "(path \<times> str) list"
    by (induction fs) auto
  then show ?thesis by (auto simp: remove_dir_def read_file_def split: option.split)
qed

lemma remove_dir_denied [simp]: "denied (remove_dir dir d) = denied d"
  by (simp add: remove_dir_def)

lemma append_file_denied [simp]: "append_file p c d = (r, d') \<Longrightarrow> denied d' = denied d"
  by (auto simp: append_file_def put_file_def split: if_splits sum.splits io_error.splits)

end
