(* ===== verification/Auth.thy ===== *)
theory Auth
  imports Disk Json Prelude "HOL-Library.Word"
begin

unbundle bit_operations_syntax

text \<open>
  \<open>daemon/src/auth.rs\<close>: the local API's three kinds of token, the files they live in, the gates
  in front of the routes, and the audit log. Hashing, base64 and JSON text come from other packages
  and are the fields of a record of functions; randomness and the time are arguments. The daemon
  runs as released: arithmetic on \<open>u64\<close> wraps.
\<close>

type_synonym bytes = "8 word list"

record codec =
  sha256 :: "bytes \<Rightarrow> bytes"
  b64 :: "bytes \<Rightarrow> str"
  unb64 :: "str \<Rightarrow> bytes option"
  json_text :: "json \<Rightarrow> str"
  json_parse :: "str \<Rightarrow> json option"

text \<open>What the packages document: decoding undoes encoding, into a text without separators.\<close>

definition b64_char :: "char \<Rightarrow> bool" where
  "b64_char c \<longleftrightarrow> is_alnum c \<or> c \<in> {CHR ''-'', CHR ''_''}"

definition good_codec :: "codec \<Rightarrow> bool" where
  "good_codec k \<longleftrightarrow> (\<forall>bs. unb64 k (b64 k bs) = Some bs) \<and> (\<forall>bs. list_all b64_char (b64 k bs)) \<and>
     (\<forall>j. json_parse k (json_text k j) = Some j) \<and> (\<forall>j. CHR 0x0A \<notin> set (json_text k j))
     \<and> (\<forall>j. json_text k j \<noteq> [] \<and> last (json_text k j) \<noteq> CHR 0x0D)"

definition as_bytes :: "str \<Rightarrow> bytes" where
  "as_bytes s = map (\<lambda>c. word_of_nat (code c)) s"

section \<open>Paths\<close>

datatype actor = Setup | Operate str | Viewer

definition audit_label :: "actor \<Rightarrow> str" where
  "audit_label a = (case a of Setup \<Rightarrow> ''setup'' | Operate token_id \<Rightarrow> ''operate:'' @ token_id | Viewer \<Rightarrow> ''viewer'')"

definition auth_dir :: "path \<Rightarrow> path" where "auth_dir base = join base ''daemon_auth''"
definition setup_token_path :: "path \<Rightarrow> path" where "setup_token_path base = join (auth_dir base) ''setup.token''"
definition viewer_token_path :: "path \<Rightarrow> path" where "viewer_token_path base = join (auth_dir base) ''viewer.token''"
definition operate_tokens_dir :: "path \<Rightarrow> str \<Rightarrow> path" where
  "operate_tokens_dir base tunnel_id = join (join (auth_dir base) ''operate_tokens'') tunnel_id"
definition operate_token_path :: "path \<Rightarrow> str \<Rightarrow> str \<Rightarrow> path" where
  "operate_token_path base tunnel_id token_id = join (operate_tokens_dir base tunnel_id) (token_id @ ''.json'')"
definition audit_log_path :: "path \<Rightarrow> path" where "audit_log_path base = join (auth_dir base) ''audit.jsonl''"

section \<open>Secrets\<close>

definition hash_secret :: "codec \<Rightarrow> bytes \<Rightarrow> str \<Rightarrow> bytes" where
  "hash_secret k salt secret = sha256 k (salt @ as_bytes secret)"

definition constant_time_eq :: "bytes \<Rightarrow> bytes \<Rightarrow> bool" where
  "constant_time_eq a b = (if length a \<noteq> length b then False
     else fold (\<lambda>(x, y) diff. diff OR (x XOR y)) (zip a b) 0 = 0)"

text \<open>Never regenerates an existing token.\<close>

definition load_or_create_setup_token :: "codec \<Rightarrow> path \<Rightarrow> bytes \<Rightarrow> disk \<Rightarrow> (io_error + str) \<times> disk" where
  "load_or_create_setup_token k base random d =
     (case create_dir (auth_dir base) d of Inl e \<Rightarrow> (Inl e, d)
      | Inr _ \<Rightarrow> (let p = setup_token_path base in
          case read_file d p of
            Inr content \<Rightarrow> (Inr content, d)
          | Inl NotFound \<Rightarrow> (case put_file p (b64 k random) d of
              (Inl e, d') \<Rightarrow> (Inl e, d') | (Inr _, d') \<Rightarrow> (Inr (b64 k random), d'))
          | Inl e \<Rightarrow> (Inl e, d)))"

definition load_viewer_token :: "path \<Rightarrow> disk \<Rightarrow> io_error + str option" where
  "load_viewer_token base d = (case read_file d (viewer_token_path base) of
     Inr s \<Rightarrow> Inr (Some s) | Inl NotFound \<Rightarrow> Inr None | Inl e \<Rightarrow> Inl e)"

definition create_viewer_token_on_disk :: "codec \<Rightarrow> path \<Rightarrow> bytes \<Rightarrow> disk \<Rightarrow> (io_error + str) \<times> disk" where
  "create_viewer_token_on_disk k base random d =
     (case create_dir (auth_dir base) d of Inl e \<Rightarrow> (Inl e, d)
      | Inr _ \<Rightarrow> (case write_atomic (viewer_token_path base) (b64 k random) d of
          (Inl e, d') \<Rightarrow> (Inl e, d') | (Inr _, d') \<Rightarrow> (Inr (b64 k random), d')))"

definition revoke_viewer_token_on_disk :: "path \<Rightarrow> disk \<Rightarrow> (io_error + bool) \<times> disk" where
  "revoke_viewer_token_on_disk base d = (case remove_file (viewer_token_path base) d of
     (Inr _, d') \<Rightarrow> (Inr True, d') | (Inl NotFound, d') \<Rightarrow> (Inr False, d') | (Inl e, d') \<Rightarrow> (Inl e, d'))"

section \<open>Operate tokens\<close>

record token_record =
  token_id :: str
  tunnel_id :: str
  salt_b64 :: str
  hash_b64 :: str
  created_at :: "64 word"
  expires_at :: "64 word option"
  revoked :: bool

definition json_u64 :: "64 word \<Rightarrow> json" where "json_u64 w = JNum (uint w)"

definition record_json :: "token_record \<Rightarrow> json" where
  "record_json r = JObj (obj_of [(''token_id'', JStr (token_id r)), (''tunnel_id'', JStr (tunnel_id r)),
     (''salt_b64'', JStr (salt_b64 r)), (''hash_b64'', JStr (hash_b64 r)),
     (''created_at_unix_ms'', json_u64 (created_at r)),
     (''expires_at_unix_ms'', case expires_at r of Some e \<Rightarrow> json_u64 e | None \<Rightarrow> JNull),
     (''revoked'', JBool (revoked r))])"

definition u64_field :: "json \<Rightarrow> str \<Rightarrow> 64 word option" where
  "u64_field j key = map_option word_of_nat (Option.bind (get j key) as_uint)"

definition json_record :: "json \<Rightarrow> token_record option" where
  "json_record j = Option.bind (Option.bind (get j ''token_id'') as_str) (\<lambda>tok.
     Option.bind (Option.bind (get j ''tunnel_id'') as_str) (\<lambda>tun.
     Option.bind (Option.bind (get j ''salt_b64'') as_str) (\<lambda>salt.
     Option.bind (Option.bind (get j ''hash_b64'') as_str) (\<lambda>hash.
     Option.bind (u64_field j ''created_at_unix_ms'') (\<lambda>created.
     Option.bind (case get j ''expires_at_unix_ms'' of None \<Rightarrow> Some None | Some JNull \<Rightarrow> Some None
                  | Some _ \<Rightarrow> map_option Some (u64_field j ''expires_at_unix_ms'')) (\<lambda>expires.
     Option.bind (Option.bind (get j ''revoked'') as_bool) (\<lambda>rev1.
       Some \<lparr>token_id = tok, tunnel_id = tun, salt_b64 = salt, hash_b64 = hash, created_at = created,
         expires_at = expires, revoked = rev1\<rparr>)))))))"

definition parse_record :: "codec \<Rightarrow> str \<Rightarrow> token_record option" where
  "parse_record k content = Option.bind (json_parse k content) json_record"

definition saturating_mul :: "64 word \<Rightarrow> 64 word \<Rightarrow> 64 word" where
  "saturating_mul a b = (if unat a * unat b < 2 ^ 64 then a * b else - 1)"

record minted_token =
  minted_id :: str
  bearer :: str
  minted_tunnel :: str
  minted_at :: "64 word"
  minted_expires :: "64 word option"

text \<open>The random bytes: the id's, the secret's, the salt.\<close>

record mint_random =
  id_bytes :: bytes
  secret_bytes :: bytes
  salt_bytes :: bytes

definition mint_operate_token :: "codec \<Rightarrow> path \<Rightarrow> str \<Rightarrow> 64 word option \<Rightarrow> mint_random \<Rightarrow> 64 word \<Rightarrow> disk \<Rightarrow>
    (io_error + minted_token) \<times> disk" where
  "mint_operate_token k base tun ttl_seconds rnd now_ms d =
     (case create_dir (operate_tokens_dir base tun) d of Inl e \<Rightarrow> (Inl e, d)
      | Inr _ \<Rightarrow>
         (let tid = b64 k (id_bytes rnd);
              secret = b64 k (secret_bytes rnd);
              hash = hash_secret k (salt_bytes rnd) secret;
              expires = map_option (\<lambda>s. now_ms + saturating_mul s 1000) ttl_seconds;
              r = \<lparr>token_id = tid, tunnel_id = tun, salt_b64 = b64 k (salt_bytes rnd), hash_b64 = b64 k hash,
                   created_at = now_ms, expires_at = expires, revoked = False\<rparr>
          in case write_atomic (operate_token_path base tun tid) (json_text k (record_json r)) d of
               (Inl e, d') \<Rightarrow> (Inl e, d')
             | (Inr _, d') \<Rightarrow> (Inr \<lparr>minted_id = tid, bearer = tid @ ''.'' @ secret, minted_tunnel = tun,
                 minted_at = now_ms, minted_expires = expires\<rparr>, d')))"

record token_meta =
  meta_id :: str
  meta_created :: "64 word"
  meta_expires :: "64 word option"
  meta_revoked :: bool

definition meta_of :: "token_record \<Rightarrow> token_meta" where
  "meta_of r = \<lparr>meta_id = token_id r, meta_created = created_at r, meta_expires = expires_at r,
     meta_revoked = revoked r\<rparr>"

definition list_operate_tokens :: "codec \<Rightarrow> path \<Rightarrow> str \<Rightarrow> disk \<Rightarrow> io_error + token_meta list" where
  "list_operate_tokens k base tun d =
     (case read_dir d (operate_tokens_dir base tun) of
        Inl NotFound \<Rightarrow> Inr []
      | Inl e \<Rightarrow> Inl e
      | Inr ps \<Rightarrow> Inr (sort_key meta_created (List.map_filter (\<lambda>p.
          case read_file d p of Inl _ \<Rightarrow> None | Inr content \<Rightarrow> map_option meta_of (parse_record k content)) ps)))"

definition revoke_operate_token :: "codec \<Rightarrow> path \<Rightarrow> str \<Rightarrow> str \<Rightarrow> disk \<Rightarrow> (io_error + bool) \<times> disk" where
  "revoke_operate_token k base tun tid d =
     (let p = operate_token_path base tun tid in
      case read_file d p of
        Inl NotFound \<Rightarrow> (Inr False, d)
      | Inl e \<Rightarrow> (Inl e, d)
      | Inr content \<Rightarrow>
          (case parse_record k content of None \<Rightarrow> (Inl InvalidData, d)
           | Some r \<Rightarrow> (case write_atomic p (json_text k (record_json (r\<lparr>revoked := True\<rparr>))) d of
               (Inl e, d') \<Rightarrow> (Inl e, d') | (Inr _, d') \<Rightarrow> (Inr True, d'))))"

definition delete_tokens_for_tunnel :: "path \<Rightarrow> str \<Rightarrow> disk \<Rightarrow> disk" where
  "delete_tokens_for_tunnel base tun d = remove_dir (operate_tokens_dir base tun) d"

definition validate_operate_secret :: "codec \<Rightarrow> path \<Rightarrow> str \<Rightarrow> str \<Rightarrow> str \<Rightarrow> 64 word \<Rightarrow> disk \<Rightarrow> bool" where
  "validate_operate_secret k base tun tid secret now_ms d =
     (case read_file d (operate_token_path base tun tid) of Inl _ \<Rightarrow> False
      | Inr content \<Rightarrow>
         (case parse_record k content of None \<Rightarrow> False
          | Some r \<Rightarrow>
             if tunnel_id r \<noteq> tun \<or> revoked r then False
             else if (case expires_at r of Some e \<Rightarrow> now_ms > e | None \<Rightarrow> False) then False
             else (case (unb64 k (salt_b64 r), unb64 k (hash_b64 r)) of
                 (Some salt, Some expected) \<Rightarrow> constant_time_eq (hash_secret k salt secret) expected
               | _ \<Rightarrow> False)))"

section \<open>The gates\<close>

datatype refusal = Unauthorized str | Forbidden str

record app_state =
  connect_dir :: path
  setup_token :: str
  viewer_token :: "str option"
  app_disk :: disk

definition extract_bearer :: "str option \<Rightarrow> str option" where
  "extract_bearer authorization = map_option trim (Option.bind authorization (strip_prefix ''Bearer ''))"

definition matches_viewer_token :: "app_state \<Rightarrow> str \<Rightarrow> bool" where
  "matches_viewer_token st bearer1 = (case viewer_token st of
     Some token \<Rightarrow> constant_time_eq (as_bytes bearer1) (as_bytes token) | None \<Rightarrow> False)"

definition require_setup :: "app_state \<Rightarrow> str option \<Rightarrow> refusal + actor" where
  "require_setup st authorization =
     (case extract_bearer authorization of None \<Rightarrow> Inl (Unauthorized ''missing Authorization: Bearer header'')
      | Some bearer1 \<Rightarrow>
         if constant_time_eq (as_bytes bearer1) (as_bytes (setup_token st)) then Inr Setup
         else if CHR ''.'' \<in> set bearer1 \<or> matches_viewer_token st bearer1
         then Inl (Forbidden ''this endpoint requires setup-tier access'')
         else Inl (Unauthorized ''invalid credential''))"

definition operate_or_refuse :: "codec \<Rightarrow> app_state \<Rightarrow> str \<Rightarrow> 64 word \<Rightarrow> str \<Rightarrow> refusal + actor" where
  "operate_or_refuse k st tun now_ms bearer1 =
     (case split_once ''.'' bearer1 of None \<Rightarrow> Inl (Unauthorized ''invalid credential'')
      | Some (tid, secret) \<Rightarrow>
         if validate_operate_secret k (connect_dir st) tun tid secret now_ms (app_disk st)
         then Inr (Operate tid)
         else Inl (Unauthorized ''invalid, expired, or revoked credential for this tunnel''))"

definition require_operate_or_setup :: "codec \<Rightarrow> app_state \<Rightarrow> str \<Rightarrow> 64 word \<Rightarrow> str option \<Rightarrow> refusal + actor" where
  "require_operate_or_setup k st tun now_ms authorization =
     (case extract_bearer authorization of None \<Rightarrow> Inl (Unauthorized ''missing Authorization: Bearer header'')
      | Some bearer1 \<Rightarrow>
         if constant_time_eq (as_bytes bearer1) (as_bytes (setup_token st)) then Inr Setup
         else if matches_viewer_token st bearer1
         then Inl (Forbidden ''this endpoint requires setup or operate access, not viewer (read-only)'')
         else operate_or_refuse k st tun now_ms bearer1)"

definition require_setup_or_viewer :: "app_state \<Rightarrow> str option \<Rightarrow> refusal + actor" where
  "require_setup_or_viewer st authorization =
     (case extract_bearer authorization of None \<Rightarrow> Inl (Unauthorized ''missing Authorization: Bearer header'')
      | Some bearer1 \<Rightarrow>
         if constant_time_eq (as_bytes bearer1) (as_bytes (setup_token st)) then Inr Setup
         else if matches_viewer_token st bearer1 then Inr Viewer
         else if CHR ''.'' \<in> set bearer1 then Inl (Forbidden ''this endpoint requires setup or viewer access'')
         else Inl (Unauthorized ''invalid credential''))"

definition require_setup_or_operate_or_viewer :: "codec \<Rightarrow> app_state \<Rightarrow> str \<Rightarrow> 64 word \<Rightarrow> str option \<Rightarrow> refusal + actor" where
  "require_setup_or_operate_or_viewer k st tun now_ms authorization =
     (case extract_bearer authorization of None \<Rightarrow> Inl (Unauthorized ''missing Authorization: Bearer header'')
      | Some bearer1 \<Rightarrow>
         if constant_time_eq (as_bytes bearer1) (as_bytes (setup_token st)) then Inr Setup
         else if matches_viewer_token st bearer1 then Inr Viewer
         else operate_or_refuse k st tun now_ms bearer1)"

section \<open>The audit log\<close>

definition AUDIT_TAIL_LINES :: nat where "AUDIT_TAIL_LINES = 500"

definition audit_entry :: "str \<Rightarrow> str \<Rightarrow> str \<Rightarrow> 64 word \<Rightarrow> json" where
  "audit_entry event1 tun who now_ms = JObj (obj_of [(''ts_unix_ms'', json_u64 now_ms),
     (''event'', JStr event1), (''tunnel_id'', JStr tun), (''actor'', JStr who)])"

definition append_audit :: "codec \<Rightarrow> path \<Rightarrow> str \<Rightarrow> str \<Rightarrow> str \<Rightarrow> 64 word \<Rightarrow> disk \<Rightarrow> disk" where
  "append_audit k base event1 tun who now_ms d =
     (case create_dir (auth_dir base) d of Inl _ \<Rightarrow> d
      | Inr _ \<Rightarrow> snd (append_file (audit_log_path base)
          (json_text k (audit_entry event1 tun who now_ms) @ [CHR 0x0A]) d))"

definition read_audit_tail :: "codec \<Rightarrow> path \<Rightarrow> disk \<Rightarrow> json list" where
  "read_audit_tail k base d =
     (case read_file d (audit_log_path base) of Inl _ \<Rightarrow> []
      | Inr content \<Rightarrow> (let ls = lines content
          in List.map_filter (json_parse k) (drop (length ls - AUDIT_TAIL_LINES) ls)))"

definition actor_if :: "str \<Rightarrow> str \<Rightarrow> json \<Rightarrow> str option" where
  "actor_if tun event1 e =
     (if Option.bind (get e ''tunnel_id'') as_str = Some tun \<and> Option.bind (get e ''event'') as_str = Some event1
      then Option.bind (get e ''actor'') as_str else None)"

fun find_map :: "('a \<Rightarrow> 'b option) \<Rightarrow> 'a list \<Rightarrow> 'b option" where
  "find_map f [] = None"
| "find_map f (x # xs) = (case f x of Some y \<Rightarrow> Some y | None \<Rightarrow> find_map f xs)"

definition last_actor_for_event :: "codec \<Rightarrow> path \<Rightarrow> str \<Rightarrow> str \<Rightarrow> disk \<Rightarrow> str option" where
  "last_actor_for_event k base tun event1 d = find_map (actor_if tun event1) (rev (read_audit_tail k base d))"

section \<open>Handlers\<close>

datatype api_error = ApiNotFound str | ApiError str | ApiIo io_error

definition create_token :: "codec \<Rightarrow> str + bool \<Rightarrow> str \<Rightarrow> 64 word option \<Rightarrow> mint_random \<Rightarrow> 64 word \<Rightarrow> app_state \<Rightarrow>
    (api_error + minted_token) \<times> app_state" where
  "create_token k active tun ttl_seconds rnd now_ms st =
     (case active of
        Inl e \<Rightarrow> (Inl (ApiError e), st)
      | Inr False \<Rightarrow> (Inl (ApiNotFound tun), st)
      | Inr True \<Rightarrow>
         (case mint_operate_token k (connect_dir st) tun ttl_seconds rnd now_ms (app_disk st) of
            (Inl e, d) \<Rightarrow> (Inl (ApiIo e), st\<lparr>app_disk := d\<rparr>)
          | (Inr m, d) \<Rightarrow> (Inr m, st\<lparr>app_disk := append_audit k (connect_dir st) ''token_created'' tun ''setup'' now_ms d\<rparr>)))"

definition revoke_token :: "codec \<Rightarrow> str \<Rightarrow> str \<Rightarrow> 64 word \<Rightarrow> app_state \<Rightarrow> (api_error + unit) \<times> app_state" where
  "revoke_token k tun tid now_ms st =
     (case revoke_operate_token k (connect_dir st) tun tid (app_disk st) of
        (Inl e, d) \<Rightarrow> (Inl (ApiIo e), st\<lparr>app_disk := d\<rparr>)
      | (Inr False, d) \<Rightarrow> (Inl (ApiNotFound tid), st\<lparr>app_disk := d\<rparr>)
      | (Inr True, d) \<Rightarrow> (Inr (), st\<lparr>app_disk := append_audit k (connect_dir st) ''token_revoked'' tun ''setup'' now_ms d\<rparr>))"

definition create_viewer_token :: "codec \<Rightarrow> bytes \<Rightarrow> 64 word \<Rightarrow> app_state \<Rightarrow> (api_error + str) \<times> app_state" where
  "create_viewer_token k random now_ms st =
     (case create_viewer_token_on_disk k (connect_dir st) random (app_disk st) of
        (Inl e, d) \<Rightarrow> (Inl (ApiIo e), st\<lparr>app_disk := d\<rparr>)
      | (Inr token, d) \<Rightarrow> (Inr token, st\<lparr>viewer_token := Some token,
          app_disk := append_audit k (connect_dir st) ''viewer_token_created'' ''-'' ''setup'' now_ms d\<rparr>))"

definition revoke_viewer_token :: "codec \<Rightarrow> 64 word \<Rightarrow> app_state \<Rightarrow> (api_error + bool) \<times> app_state" where
  "revoke_viewer_token k now_ms st =
     (case revoke_viewer_token_on_disk (connect_dir st) (app_disk st) of
        (Inl e, d) \<Rightarrow> (Inl (ApiIo e), st\<lparr>app_disk := d\<rparr>)
      | (Inr existed, d) \<Rightarrow> (Inr existed, st\<lparr>viewer_token := None,
          app_disk := (if existed then append_audit k (connect_dir st) ''viewer_token_revoked'' ''-'' ''setup'' now_ms d
            else d)\<rparr>))"

end
