(* ===== verification/Sample_Codec.thy ===== *)
theory Sample_Codec
  imports Json "HOL-Library.Word"
begin

text \<open>
  A text form for JSON values and for bytes with a decoder for each, to evaluate the definitions
  on: the daemon's own text forms (serde, base64) belong to other packages and are parameters of the
  model. The theorems here show that the laws assumed of such a parameter can hold.
\<close>

section \<open>Bytes as letters\<close>

definition nibble :: "nat \<Rightarrow> char" where "nibble n = char_of (97 + n)"
definition nibble_value :: "char \<Rightarrow> nat" where "nibble_value c = code c - 97"

lemma nibble_round [simp]: "n < 16 \<Longrightarrow> nibble_value (nibble n) = n"
  by (simp add: nibble_def nibble_value_def take_bit_eq_mod)

lemma nibble_code: "n < 16 \<Longrightarrow> code (nibble n) = 97 + n"
  by (simp add: nibble_def take_bit_eq_mod)

definition letters :: "nat \<Rightarrow> str" where "letters n = [nibble (n div 16), nibble (n mod 16)]"

definition letters_value :: "char \<Rightarrow> char \<Rightarrow> nat" where
  "letters_value a b = 16 * nibble_value a + nibble_value b"

definition sample_b64 :: "8 word list \<Rightarrow> str" where
  "sample_b64 bs = concat (map (\<lambda>b. letters (unat b)) bs)"

fun sample_unb64 :: "str \<Rightarrow> 8 word list option" where
  "sample_unb64 [] = Some []"
| "sample_unb64 [a] = None"
| "sample_unb64 (a # b # s) = map_option (\<lambda>bs. word_of_nat (letters_value a b) # bs) (sample_unb64 s)"

lemma unat_byte [simp]: "unat (b :: 8 word) < 256"
  using uint_lt2p [of b] by (simp add: nat_less_iff flip: nat_uint_eq)

lemma letters_round [simp]:
  "n < 256 \<Longrightarrow> letters_value (nibble (n div 16)) (nibble (n mod 16)) = n"
  by (simp add: letters_value_def less_mult_imp_div_less)

lemma sample_b64_round [simp]: "sample_unb64 (sample_b64 bs) = Some bs"
  by (induction bs) (auto simp: sample_b64_def letters_def)

lemma letters_codes: "n < 256 \<Longrightarrow> c \<in> set (letters n) \<Longrightarrow> 97 \<le> code c \<and> code c < 113"
  by (auto simp: letters_def nibble_code less_mult_imp_div_less)

lemma sample_b64_codes: "c \<in> set (sample_b64 bs) \<Longrightarrow> 97 \<le> code c \<and> code c < 113"
  by (auto simp: sample_b64_def dest: letters_codes [rotated])

section \<open>JSON values as text\<close>

definition str_text :: "str \<Rightarrow> str" where
  "str_text s = concat (map (\<lambda>c. letters (code c)) s) @ '';''"

fun read_str :: "str \<Rightarrow> (str \<times> str) option" where
  "read_str [] = None"
| "read_str [c] = (if c = CHR '';'' then Some ([], []) else None)"
| "read_str (a # b # s) = (if a = CHR '';'' then Some ([], b # s)
     else map_option (\<lambda>(t, r). (char_of (letters_value a b) # t, r)) (read_str s))"

lemma read_str_semi [simp]: "read_str (CHR '';'' # r) = Some ([], r)"
  by (cases r) auto

lemma nibble_not_semi: "n < 16 \<Longrightarrow> nibble n \<noteq> CHR '';''"
  using nibble_code [of n] by auto

lemma code_lt: "code c < 256"
  by simp

lemma read_str_text [simp]: "read_str (str_text s @ r) = Some (s, r)"
proof (induction s)
  case (Cons c s)
  have "code c div 16 < 16" "code c mod 16 < 16" using code_lt [of c] by (simp_all add: less_mult_imp_div_less)
  then have "nibble (code c div 16) \<noteq> CHR '';''" by (intro nibble_not_semi)
  with Cons show ?case by (simp add: str_text_def letters_def)
qed (simp add: str_text_def)

definition int_text :: "int \<Rightarrow> str" where
  "int_text i = (if i < 0 then ''-'' @ show_nat (nat (- i)) else show_nat (nat i)) @ '';''"

definition read_int :: "str \<Rightarrow> (int \<times> str) option" where
  "read_int s = (case split_once '';'' s of None \<Rightarrow> None
     | Some (d, r) \<Rightarrow> Some (if d \<noteq> [] \<and> hd d = CHR ''-'' then - int (digits_value (tl d)) else int (digits_value d), r))"

lemma show_nat_no: "\<not> is_digit c \<Longrightarrow> c \<notin> set (show_nat n)"
  using show_nat_digits [of n] by (auto simp: list_all_iff)

lemma read_int_text [simp]: "read_int (int_text i @ r) = Some (i, r)"
proof -
  let ?d = "if i < 0 then ''-'' @ show_nat (nat (- i)) else show_nat (nat i)"
  have "CHR '';'' \<notin> set ?d" using show_nat_no [of "CHR '';''"] by (auto simp: is_digit_def)
  then have "split_once '';'' (?d @ CHR '';'' # r) = Some (?d, r)" by (simp only: split_once_char_Some simp_thms)
  moreover have "hd (show_nat n) \<noteq> CHR ''-''" for n
  proof -
    have "hd (show_nat n) \<in> set (show_nat n)" using show_nat_digits [of n] by (intro hd_in_set) auto
    moreover have "CHR ''-'' \<notin> set (show_nat n)" by (rule show_nat_no) (simp add: is_digit_def)
    ultimately show ?thesis by metis
  qed
  moreover have "int_text i @ r = ?d @ CHR '';'' # r" by (simp add: int_text_def)
  moreover have "show_nat n \<noteq> []" for n using show_nat_digits by blast
  ultimately show ?thesis by (auto simp: read_int_def)
qed

fun sample_text :: "json \<Rightarrow> str" where
  "sample_text JNull = ''n''"
| "sample_text (JBool b) = (if b then ''t'' else ''f'')"
| "sample_text (JNum i) = ''i'' @ int_text i"
| "sample_text (JReal s) = ''r'' @ str_text s"
| "sample_text (JStr s) = ''s'' @ str_text s"
| "sample_text (JArr vs) = ''a'' @ concat (map sample_text vs) @ '']''"
| "sample_text (JObj kvs) = ''o'' @ concat (map (\<lambda>(k, v). str_text k @ sample_text v) kvs) @ ''}''"

fun read_value :: "nat \<Rightarrow> str \<Rightarrow> (json \<times> str) option"
  and read_values :: "nat \<Rightarrow> str \<Rightarrow> (json list \<times> str) option"
  and read_members :: "nat \<Rightarrow> str \<Rightarrow> ((str \<times> json) list \<times> str) option" where
  "read_value 0 s = None"
| "read_value (Suc n) s = (if s = [] then None
     else if hd s = CHR ''n'' then Some (JNull, tl s)
     else if hd s = CHR ''t'' then Some (JBool True, tl s)
     else if hd s = CHR ''f'' then Some (JBool False, tl s)
     else if hd s = CHR ''i'' then map_option (\<lambda>(i, r). (JNum i, r)) (read_int (tl s))
     else if hd s = CHR ''r'' then map_option (\<lambda>(i, r). (JReal i, r)) (read_str (tl s))
     else if hd s = CHR ''s'' then map_option (\<lambda>(i, r). (JStr i, r)) (read_str (tl s))
     else if hd s = CHR ''a'' then map_option (\<lambda>(i, r). (JArr i, r)) (read_values n (tl s))
     else if hd s = CHR ''o'' then map_option (\<lambda>(i, r). (JObj i, r)) (read_members n (tl s))
     else None)"
| "read_values 0 s = None"
| "read_values (Suc n) s = (if s = [] then None
     else if hd s = CHR '']'' then Some ([], tl s)
     else Option.bind (read_value n s) (\<lambda>(v, r). map_option (\<lambda>(vs, r'). (v # vs, r')) (read_values n r)))"
| "read_members 0 s = None"
| "read_members (Suc n) s = (if s = [] then None
     else if hd s = CHR ''}'' then Some ([], tl s)
     else Option.bind (read_str s) (\<lambda>(key, r). Option.bind (read_value n r) (\<lambda>(v, r').
       map_option (\<lambda>(kvs, r''). ((key, v) # kvs, r'')) (read_members n r'))))"

definition sample_json_parse :: "str \<Rightarrow> json option" where
  "sample_json_parse s = (case read_value (length s) s of Some (v, []) \<Rightarrow> Some v | _ \<Rightarrow> None)"

lemma sample_text_start: "\<exists>c t. sample_text v = c # t \<and> c \<noteq> CHR '']''"
  by (cases v) auto

lemma str_text_start: "\<exists>c t. str_text s = c # t \<and> c \<noteq> CHR ''}''"
proof (cases s)
  case (Cons c s')
  have "code c div 16 < 16" using code_lt [of c] by (simp add: less_mult_imp_div_less)
  with nibble_code have "code (nibble (code c div 16)) < 113" by fastforce
  then have "nibble (code c div 16) \<noteq> CHR ''}''" by auto
  with Cons show ?thesis by (simp add: str_text_def letters_def)
qed (simp add: str_text_def)

lemma read_value_text: "length (sample_text v) \<le> n \<Longrightarrow> read_value n (sample_text v @ r) = Some (v, r)"
proof (induction v arbitrary: n r)
  case (JArr vs)
  have vals: "length (concat (map sample_text us)) < n \<Longrightarrow> set us \<subseteq> set vs \<Longrightarrow>
      read_values n (concat (map sample_text us) @ CHR '']'' # r) = Some (us, r)" for us n r
  proof (induction us arbitrary: n)
    case Nil
    then show ?case by (cases n) auto
  next
    case (Cons u us)
    from Cons.prems(1) obtain m where m: "n = Suc m" by (cases n) auto
    obtain c t where c: "sample_text u = c # t" "c \<noteq> CHR '']''" using sample_text_start by blast
    have "read_value m (sample_text u @ concat (map sample_text us) @ CHR '']'' # r) =
        Some (u, concat (map sample_text us) @ CHR '']'' # r)"
      using Cons.prems m by (intro JArr.IH) auto
    moreover have "read_values m (concat (map sample_text us) @ CHR '']'' # r) = Some (us, r)"
      using Cons.prems m c by (intro Cons.IH) auto
    ultimately show ?case using m c by simp
  qed
  from JArr.prems obtain m where "n = Suc m" by (cases n) auto
  with JArr.prems vals [of vs m r] show ?case by simp
next
  case (JObj kvs)
  let ?t = "\<lambda>us. concat (map (\<lambda>(k, v). str_text k @ sample_text v) us)"
  have mems: "length (?t us) < n \<Longrightarrow> set us \<subseteq> set kvs \<Longrightarrow>
      read_members n (?t us @ CHR ''}'' # r) = Some (us, r)" for us n r
  proof (induction us arbitrary: n)
    case Nil
    then show ?case by (cases n) auto
  next
    case (Cons u us)
    obtain k v where u: "u = (k, v)" by (cases u)
    from Cons.prems(1) obtain m where m: "n = Suc m" by (cases n) auto
    obtain c t where c: "str_text k = c # t" "c \<noteq> CHR ''}''" using str_text_start by blast
    have kv: "(k, v) \<in> set kvs" using Cons.prems(2) u by auto
    have "read_value m (sample_text v @ ?t us @ CHR ''}'' # r) = Some (v, ?t us @ CHR ''}'' # r)"
      using Cons.prems m u kv by (intro JObj.IH [of "(k, v)"]) auto
    moreover have "read_members m (?t us @ CHR ''}'' # r) = Some (us, r)"
      using Cons.prems m c u by (intro Cons.IH) auto
    moreover have "read_str (c # t @ x) = Some (k, x)" for x
      using read_str_text [of k x] c by simp
    ultimately show ?case using m u c by simp
  qed
  from JObj.prems obtain m where "n = Suc m" by (cases n) auto
  with JObj.prems mems [of kvs m r] show ?case by simp
next
  case (JBool b)
  then show ?case by (cases n; cases b) simp_all
next
  case (JNum i)
  then show ?case by (cases n) simp_all
next
  case (JReal s)
  then show ?case by (cases n) simp_all
next
  case (JStr s)
  then show ?case by (cases n) simp_all
next
  case JNull
  then show ?case by (cases n) simp_all
qed

lemma sample_json_round [simp]: "sample_json_parse (sample_text v) = Some v"
  using read_value_text [of v "length (sample_text v)" "[]"] by (simp add: sample_json_parse_def)

text \<open>Nothing in the text is a line end.\<close>

lemma show_nat_codes: "c \<in> set (show_nat n) \<Longrightarrow> 32 < code c"
  using show_nat_digits [of n] by (auto simp: list_all_iff is_digit_def)

lemma str_text_codes: "c \<in> set (str_text s) \<Longrightarrow> 32 < code c"
  by (auto simp: str_text_def dest!: letters_codes [OF code_lt])

lemma int_text_codes: "c \<in> set (int_text i) \<Longrightarrow> 32 < code c"
  by (auto simp: int_text_def dest: show_nat_codes split: if_splits)

lemma sample_text_codes: "\<forall>c \<in> set (sample_text v). 32 < code c"
proof (induction v)
  case (JNum i)
  then show ?case using int_text_codes by simp
next
  case (JReal s)
  then show ?case using str_text_codes by simp
next
  case (JStr s)
  then show ?case using str_text_codes by simp
next
  case (JObj kvs)
  have "\<forall>c \<in> set (str_text k @ sample_text v). 32 < code c" if "(k, v) \<in> set kvs" for k v
    using JObj.IH [OF that] str_text_codes by auto
  then show ?case by auto
qed auto

lemma sample_text_line: "CHR 0x0A \<notin> set (sample_text v)" "sample_text v \<noteq> []"
    "last (sample_text v) \<noteq> CHR 0x0D"
proof -
  show "CHR 0x0A \<notin> set (sample_text v)" using sample_text_codes [of v] by auto
  show ne: "sample_text v \<noteq> []" using sample_text_start [of v] by auto
  have "last (sample_text v) \<in> set (sample_text v)" using ne by simp
  with sample_text_codes [of v] show "last (sample_text v) \<noteq> CHR 0x0D" by auto
qed

declare sample_text.simps [simp del]

end
