(* ===== verification/Auth_Facts.thy ===== *)
theory Auth_Facts
  imports Auth Sample_Codec
begin

text \<open>
  The laws of the tokens and the gates: comparing in constant time is comparing, records and paths
  do not collide, a minted token opens its own tunnel's routes and no others, a revoked one is refused
  for good (an instance of the machine of the prelude that keeps an invariant), who passes which
  gate, the audit log, and two places where the checks give way.
\<close>

section \<open>Comparing\<close>

lemma or_zero: "(a OR b = (0 :: 'a::len word)) \<longleftrightarrow> a = 0 \<and> b = 0"
  by (auto simp: bit_eq_iff bit_or_iff)

lemma xor_zero: "(a XOR b = (0 :: 'a::len word)) \<longleftrightarrow> a = b"
  by (auto simp: bit_eq_iff bit_xor_iff)

lemma diff_fold:
  "fold (\<lambda>(x, y) diff. diff OR (x XOR y)) zs acc = (0 :: 8 word) \<longleftrightarrow> acc = 0 \<and> (\<forall>(x, y) \<in> set zs. x = y)"
  by (induction zs arbitrary: acc) (auto simp: or_zero xor_zero)

lemma constant_time_eq_iff [simp]: "constant_time_eq a b \<longleftrightarrow> a = b"
  by (auto simp: constant_time_eq_def diff_fold list_eq_iff_zip_eq)

lemma word_of_code: "word_of_nat (code c) = (word_of_nat (code d) :: 8 word) \<longleftrightarrow> c = d"
proof
  assume "word_of_nat (code c) = (word_of_nat (code d) :: 8 word)"
  then have "unat (word_of_nat (code c) :: 8 word) = unat (word_of_nat (code d) :: 8 word)" by simp
  then have "code c = code d" by (simp add: unat_of_nat)
  then show "c = d" by simp
qed simp

lemma as_bytes_eq [simp]: "as_bytes a = as_bytes b \<longleftrightarrow> a = b"
  unfolding as_bytes_def by (rule inj_map_eq_map) (auto simp: inj_def word_of_code)

section \<open>Records\<close>

lemma u64_round [simp]: "as_uint (json_u64 w) = Some (unat w)"
  using uint_lt2p [of w] by (simp add: json_u64_def nat_uint_eq)

lemma uint_64 [simp]: "uint (w :: 64 word) < 18446744073709551616"
  using uint_lt2p [of w] by simp

lemma json_record_round [simp]: "json_record (record_json r) = Some r"
  by (cases "expires_at r") (simp_all add: json_record_def record_json_def obj_of_def u64_field_def json_u64_def nat_uint_eq)

lemma parse_record_round [simp]:
  "good_codec k \<Longrightarrow> parse_record k (json_text k (record_json r)) = Some r"
  by (simp add: parse_record_def good_codec_def)

section \<open>Paths do not collide\<close>

lemma join_suffix: "\<exists>x. join a (t @ s) = x @ t @ s"
  by (auto simp: join_def)

lemma token_path_suffix: "\<exists>x. operate_token_path base tun tid = x @ ''.json''"
  unfolding operate_token_path_def using join_suffix [of _ tid "''.json''"] by (metis append_assoc)

lemma join_plain: "hd s \<noteq> CHR ''/'' \<Longrightarrow> s \<noteq> [] \<Longrightarrow> \<exists>x. join a s = x @ s"
  by (auto simp: join_def)

lemma token_path_not:
  assumes "p = x @ s" "take 5 (rev s) \<noteq> ''nosj.''" "5 \<le> length s"
  shows "operate_token_path base tun tid \<noteq> p"
proof
  obtain y where y: "operate_token_path base tun tid = y @ ''.json''" using token_path_suffix by blast
  assume "operate_token_path base tun tid = p"
  with assms(1) y have "rev (y @ ''.json'') = rev (x @ s)" by simp
  then have "take 5 (rev (y @ ''.json'')) = take 5 (rev (x @ s))" by simp
  with assms(2,3) show False by simp
qed

lemma token_path_others [simp]:
  "operate_token_path base tun tid \<noteq> p @ ''.tmp''"
  "operate_token_path base tun tid \<noteq> audit_log_path b"
  "operate_token_path base tun tid \<noteq> viewer_token_path b"
proof -
  obtain x y where "audit_log_path b = x @ ''audit.jsonl''" "viewer_token_path b = y @ ''viewer.token''"
    using join_suffix [of "auth_dir b" "''audit.jso''" "''nl''"]
      join_suffix [of "auth_dir b" "''viewer.t''" "''oken''"]
    by (auto simp: audit_log_path_def viewer_token_path_def)
  note xy = this
  show "operate_token_path base tun tid \<noteq> audit_log_path b"
    by (rule token_path_not [OF xy(1)]) simp_all
  show "operate_token_path base tun tid \<noteq> viewer_token_path b"
    by (rule token_path_not [OF xy(2)]) simp_all
  obtain z where z: "operate_token_path base tun tid = z @ ''.json''" using token_path_suffix by blast
  have "rev (z @ ''.json'') \<noteq> rev (p @ ''.tmp'')" by simp
  with z show "operate_token_path base tun tid \<noteq> p @ ''.tmp''" by metis
qed

lemmas token_path_others' [simp] = token_path_others [symmetric]

section \<open>Validation\<close>

lemma validate_iff:
  "validate_operate_secret k base tun tid secret t d \<longleftrightarrow> (\<exists>content r salt.
     read_file d (operate_token_path base tun tid) = Inr content \<and> parse_record k content = Some r \<and>
     tunnel_id r = tun \<and> \<not> revoked r \<and> (\<forall>e. expires_at r = Some e \<longrightarrow> t \<le> e) \<and>
     unb64 k (salt_b64 r) = Some salt \<and> unb64 k (hash_b64 r) = Some (hash_secret k salt secret))"
proof (cases "read_file d (operate_token_path base tun tid)")
  case (Inl e)
  then show ?thesis by (simp add: validate_operate_secret_def)
next
  case (Inr content)
  show ?thesis
  proof (cases "parse_record k content")
    case (Some r)
    then show ?thesis unfolding validate_operate_secret_def Inr
      by (auto simp: not_less not_le split: option.splits)
  qed (use Inr in \<open>simp add: validate_operate_secret_def\<close>)
qed

section \<open>Revocation is for good\<close>

text \<open>Whatever else happens to the token files: the calls of this file, in any order.\<close>

datatype auth_event =
    MintEvent str "64 word option" mint_random "64 word"
  | RevokeEvent str str
  | DeleteEvent str
  | AuditEvent str str str "64 word"
  | NewViewerEvent bytes
  | DropViewerEvent

fun auth_step :: "codec \<Rightarrow> path \<Rightarrow> auth_event \<Rightarrow> disk \<Rightarrow> disk" where
  "auth_step k base (MintEvent tun ttl rnd t) d = snd (mint_operate_token k base tun ttl rnd t d)"
| "auth_step k base (RevokeEvent tun tid) d = snd (revoke_operate_token k base tun tid d)"
| "auth_step k base (DeleteEvent tun) d = delete_tokens_for_tunnel base tun d"
| "auth_step k base (AuditEvent event1 tun who t) d = append_audit k base event1 tun who t d"
| "auth_step k base (NewViewerEvent random) d = snd (create_viewer_token_on_disk k base random d)"
| "auth_step k base DropViewerEvent d = snd (revoke_viewer_token_on_disk base d)"

text \<open>A mint that does not draw the same file again: its nine random bytes are new.\<close>

fun mints_elsewhere :: "codec \<Rightarrow> path \<Rightarrow> path \<Rightarrow> auth_event \<Rightarrow> bool" where
  "mints_elsewhere k base p (MintEvent tun ttl rnd t) \<longleftrightarrow> operate_token_path base tun (b64 k (id_bytes rnd)) \<noteq> p"
| "mints_elsewhere k base p _ \<longleftrightarrow> True"

definition dead :: "codec \<Rightarrow> path \<Rightarrow> path \<Rightarrow> disk \<Rightarrow> bool" where
  "dead k base p d \<longleftrightarrow> good_codec k \<and> (\<exists>tun tid. p = operate_token_path base tun tid) \<and>
     (\<forall>content r. read_file d p = Inr content \<longrightarrow> parse_record k content = Some r \<longrightarrow> revoked r)"

lemma dead_same: "dead k base p d \<Longrightarrow> read_file d' p = read_file d p \<Longrightarrow> dead k base p d'"
  by (simp add: dead_def)

lemma dead_gone: "dead k base p d \<Longrightarrow> read_file d' p = Inl e \<Longrightarrow> dead k base p d'"
  by (simp add: dead_def)

lemma dead_write_elsewhere:
  assumes "dead k base p d" "q \<noteq> p" shows "dead k base p (snd (write_atomic q c d))"
proof -
  obtain r d' where w: "write_atomic q c d = (r, d')" by fastforce
  from assms(1) have "p \<noteq> q @ ''.tmp''" by (auto simp: dead_def)
  from write_atomic_others [OF w this] assms show ?thesis using w by (auto intro: dead_same)
qed

lemma dead_write_revoked:
  assumes "dead k base p d"
  shows "dead k base p (snd (write_atomic q (json_text k (record_json (r\<lparr>revoked := True\<rparr>))) d))"
proof (cases "q = p")
  case True
  obtain x d' where w: "write_atomic q (json_text k (record_json (r\<lparr>revoked := True\<rparr>))) d = (x, d')" by fastforce
  from assms have p: "p \<noteq> q @ ''.tmp''" "good_codec k" by (auto simp: dead_def)
  show ?thesis
  proof (cases x)
    case (Inl e)
    with write_atomic_others [OF w p(1)] assms w show ?thesis by (auto intro: dead_same)
  next
    case (Inr u)
    with write_atomic_read [OF w [unfolded Inr] p(1)] True w assms show ?thesis by (simp add: dead_def)
  qed
qed (use assms dead_write_elsewhere in blast)

lemma dead_writes:
  "dead k base p d \<Longrightarrow> q \<noteq> p \<Longrightarrow> write_atomic q c d = (x, d') \<Longrightarrow> dead k base p d'"
  "dead k base p d \<Longrightarrow> write_atomic q (json_text k (record_json (r\<lparr>revoked := True\<rparr>))) d = (x, d') \<Longrightarrow>
   dead k base p d'"
  using dead_write_elsewhere [of k base p d q c] dead_write_revoked [of k base p d q r] by auto

lemma revoke_viewer_read:
  "q \<noteq> viewer_token_path base \<Longrightarrow> read_file (snd (revoke_viewer_token_on_disk base d)) q = read_file d q"
  by (auto simp: revoke_viewer_token_on_disk_def remove_file_def read_file_def split: io_error.splits option.splits)

lemma append_audit_read:
  assumes "q \<noteq> audit_log_path base"
  shows "read_file (append_audit k base event1 tun who t d) q = read_file d q"
proof -
  obtain r d' where a: "append_file (audit_log_path base) (json_text k (audit_entry event1 tun who t) @ [CHR 0x0A]) d = (r, d')"
    by fastforce
  from append_file_read [OF a assms] a show ?thesis by (auto simp: append_audit_def split: sum.split)
qed

lemma dead_step:
  assumes "dead k base p d" "mints_elsewhere k base p e"
  shows "dead k base p (auth_step k base e d)"
proof (cases e)
  case (MintEvent tun ttl rnd t)
  with assms show ?thesis
    by (auto simp: mint_operate_token_def Let_def create_dir_def split: sum.splits prod.splits
        intro: dead_writes)
next
  case (RevokeEvent tun tid)
  with assms show ?thesis
    by (auto simp: revoke_operate_token_def Let_def split: sum.splits prod.splits io_error.splits option.splits
        intro: dead_writes(2))
next
  case (DeleteEvent tun)
  with assms show ?thesis
    by (auto simp: delete_tokens_for_tunnel_def remove_dir_read dead_def)
next
  case (AuditEvent event1 tun who t)
  have "audit_log_path base \<noteq> p" using assms(1) by (auto simp: dead_def)
  then show ?thesis using AuditEvent dead_same [OF assms(1) append_audit_read] by simp
next
  case (NewViewerEvent random)
  have "viewer_token_path base \<noteq> p" using assms(1) by (auto simp: dead_def)
  with NewViewerEvent assms show ?thesis
    by (auto simp: create_viewer_token_on_disk_def create_dir_def split: sum.splits prod.splits
        intro: dead_writes)
next
  case DropViewerEvent
  have "viewer_token_path base \<noteq> p" using assms(1) by (auto simp: dead_def)
  then show ?thesis using DropViewerEvent dead_same [OF assms(1) revoke_viewer_read] by simp
qed

interpretation tokens: guarded_machine "auth_step k base" "mints_elsewhere k base p" "dead k base p" for k base p
  by unfold_locales (rule dead_step)


lemma dead_refused: "dead k base (operate_token_path base tun tid) d \<Longrightarrow> \<not> validate_operate_secret k base tun tid secret t d"
  by (auto simp: validate_iff dead_def)

lemma revoke_kills:
  assumes "good_codec k" "revoke_operate_token k base tun tid d = (Inr True, d')"
  shows "dead k base (operate_token_path base tun tid) d'"
proof -
  let ?p = "operate_token_path base tun tid"
  from assms(2) obtain content r u where w:
    "write_atomic ?p (json_text k (record_json (r\<lparr>revoked := True\<rparr>))) d = (Inr u, d')"
    by (auto simp: revoke_operate_token_def Let_def split: sum.splits prod.splits io_error.splits option.splits)
  from write_atomic_read [OF w, of ?p] assms(1) show ?thesis by (auto simp: dead_def)
qed

text \<open>
  C7: a revoked operate token is refused from then on, with any secret and at any time, whatever
  calls follow: further mints, revocations, deletions, audit lines and viewer tokens, in any order
  (a mint may only not draw the revoked token's own random id again).
\<close>

theorem revoked_stays_refused:
  assumes "good_codec k" and "revoke_operate_token k base tun tid d = (Inr True, d')"
    and "list_all (mints_elsewhere k base (operate_token_path base tun tid)) es"
  shows "\<not> validate_operate_secret k base tun tid secret t (fold (auth_step k base) es d')"
  by (rule dead_refused, rule tokens.run) (use assms revoke_kills in blast)+

section \<open>Minting and the gates\<close>

lemma b64_no_space: "b64_char c \<Longrightarrow> \<not> is_whitespace c \<and> c \<noteq> CHR ''.'' \<and> c \<noteq> CHR ''/''"
  by (auto simp: b64_char_def is_whitespace_def is_alnum_def is_digit_def is_upper_def is_lower_def)

lemma trim_no_space: "list_all (\<lambda>c. \<not> is_whitespace c) s \<Longrightarrow> trim s = s"
  by (rule trim_trimmed) (auto simp: trimmed_def list_all_iff)

lemma b64_text:
  assumes "good_codec k"
  shows "list_all (\<lambda>c. \<not> is_whitespace c) (b64 k bs)" "CHR ''.'' \<notin> set (b64 k bs)"
    "CHR ''/'' \<notin> set (b64 k bs)"
  using assms b64_no_space unfolding good_codec_def list_all_iff by blast+

lemma extract_minted:
  assumes "good_codec k"
  shows "extract_bearer (Some (''Bearer '' @ b64 k x @ ''.'' @ b64 k y)) = Some (b64 k x @ ''.'' @ b64 k y)"
proof -
  have "trim (b64 k x @ ''.'' @ b64 k y) = b64 k x @ ''.'' @ b64 k y"
    using b64_text(1) [OF assms] by (intro trim_no_space) (auto simp: is_whitespace_def)
  moreover have "strip_prefix ''Bearer '' (''Bearer '' @ s) = Some s" for s by (simp only: strip_prefix_Some)
  ultimately show ?thesis by (simp only: extract_bearer_def Option.bind.simps option.map)
qed

lemma write_atomic_own: "write_atomic p c d = (Inr u, d') \<Longrightarrow> read_file d' p = Inr c"
  by (simp add: write_atomic_read)

lemma mint_result:
  assumes "mint_operate_token k base tun ttl rnd t d = (Inr m, d')"
  shows "\<exists>r. read_file d' (operate_token_path base tun (minted_id m)) = Inr (json_text k (record_json r)) \<and>
     tunnel_id r = tun \<and> \<not> revoked r \<and> expires_at r = minted_expires m \<and> salt_b64 r = b64 k (salt_bytes rnd) \<and>
     hash_b64 r = b64 k (hash_secret k (salt_bytes rnd) (b64 k (secret_bytes rnd))) \<and>
     minted_id m = b64 k (id_bytes rnd) \<and> bearer m = b64 k (id_bytes rnd) @ ''.'' @ b64 k (secret_bytes rnd)"
  using assms
  by (auto simp: mint_operate_token_def Let_def split: sum.splits prod.splits dest!: write_atomic_own)


lemma minted_valid:
  assumes "good_codec k" "mint_operate_token k base tun ttl rnd t d = (Inr m, d')"
    "\<forall>e. minted_expires m = Some e \<longrightarrow> t' \<le> e"
  shows "validate_operate_secret k base tun (minted_id m) (b64 k (secret_bytes rnd)) t' d'"
  using mint_result [OF assms(2)] assms(1,3) unfolding validate_iff
  by (auto simp: good_codec_def [of k])

text \<open>
  a freshly minted token opens the routes of its own tunnel until it expires, names its id as
  the actor, and is refused with 403 where setup access is needed.
\<close>

theorem minted_token_opens_its_tunnel:
  assumes "good_codec k" and "mint_operate_token k (connect_dir st) tun ttl rnd t (app_disk st) = (Inr m, d)"
    and "bearer m \<noteq> setup_token st" and "viewer_token st \<noteq> Some (bearer m)"
    and "\<forall>e. minted_expires m = Some e \<longrightarrow> t' \<le> e"
  shows "(let st' = st\<lparr>app_disk := d\<rparr>; header = Some (''Bearer '' @ bearer m) in
     require_operate_or_setup k st' tun t' header = Inr (Operate (minted_id m)) \<and>
     require_setup_or_operate_or_viewer k st' tun t' header = Inr (Operate (minted_id m)) \<and>
     require_setup st' header = Inl (Forbidden ''this endpoint requires setup-tier access''))"
proof -
  from mint_result [OF assms(2)] have m: "minted_id m = b64 k (id_bytes rnd)"
    "bearer m = b64 k (id_bytes rnd) @ ''.'' @ b64 k (secret_bytes rnd)" by auto
  have x: "extract_bearer (Some (''Bearer '' @ bearer m)) = Some (bearer m)"
    unfolding m(2) using extract_minted [OF assms(1)] .
  have s: "split_once ''.'' (bearer m) = Some (minted_id m, b64 k (secret_bytes rnd))"
    unfolding m by (simp add: split_once_char_Some b64_text(2) [OF assms(1)])
  have v: "\<not> matches_viewer_token (st\<lparr>app_disk := d\<rparr>) (bearer m)"
    using assms(4) by (auto simp: matches_viewer_token_def split: option.split)
  have "operate_or_refuse k (st\<lparr>app_disk := d\<rparr>) tun t' (bearer m) = Inr (Operate (minted_id m))"
    using s minted_valid [OF assms(1,2,5)] by (simp add: operate_or_refuse_def)
  moreover have "CHR ''.'' \<in> set (bearer m)" unfolding m by simp
  ultimately show ?thesis using x v assms(3)
    by (simp add: require_operate_or_setup_def require_setup_or_operate_or_viewer_def require_setup_def Let_def)
qed


text \<open>
  who passes which gate. The setup token passes all four; the viewer token the two gates of
  read-only routes; an operate token, if it validates for the route's own tunnel, the two gates of
  routes of one tunnel. Nothing else passes.
\<close>

definition operate_credential :: "codec \<Rightarrow> app_state \<Rightarrow> str \<Rightarrow> 64 word \<Rightarrow> str \<Rightarrow> str \<Rightarrow> bool" where
  "operate_credential k st tun t b tid \<longleftrightarrow> b \<noteq> setup_token st \<and> viewer_token st \<noteq> Some b \<and>
     (\<exists>secret. split_once ''.'' b = Some (tid, secret) \<and>
        validate_operate_secret k (connect_dir st) tun tid secret t (app_disk st))"

lemma matches_viewer_iff [simp]: "matches_viewer_token st b \<longleftrightarrow> viewer_token st = Some b"
  by (auto simp: matches_viewer_token_def split: option.split)

lemma operate_or_refuse_Inr: "operate_or_refuse k st tun t b = Inr a \<longleftrightarrow> (\<exists>tid secret. a = Operate tid \<and>
    split_once ''.'' b = Some (tid, secret) \<and>
    validate_operate_secret k (connect_dir st) tun tid secret t (app_disk st))"
  by (auto simp: operate_or_refuse_def split: option.splits)

theorem who_passes_which_gate:
  assumes "extract_bearer header = Some b"
  shows "(require_setup st header = Inr a \<longleftrightarrow> a = Setup \<and> b = setup_token st) \<and>
    (require_setup_or_viewer st header = Inr a \<longleftrightarrow>
       a = Setup \<and> b = setup_token st \<or> a = Viewer \<and> b \<noteq> setup_token st \<and> viewer_token st = Some b) \<and>
    (require_operate_or_setup k st tun t header = Inr a \<longleftrightarrow>
       a = Setup \<and> b = setup_token st \<or> (\<exists>tid. a = Operate tid \<and> operate_credential k st tun t b tid)) \<and>
    (require_setup_or_operate_or_viewer k st tun t header = Inr a \<longleftrightarrow>
       a = Setup \<and> b = setup_token st \<or> a = Viewer \<and> b \<noteq> setup_token st \<and> viewer_token st = Some b \<or>
       (\<exists>tid. a = Operate tid \<and> operate_credential k st tun t b tid))"
  using assms
  by (auto simp: require_setup_def require_setup_or_viewer_def require_operate_or_setup_def
      require_setup_or_operate_or_viewer_def operate_or_refuse_Inr operate_credential_def)

definition sample_codec :: codec where
  "sample_codec = \<lparr>sha256 = rev, b64 = sample_b64, unb64 = sample_unb64, json_text = sample_text,
     json_parse = sample_json_parse\<rparr>"

lemma good_sample_codec [simp]: "good_codec sample_codec"
proof -
  have "b64_char c" if "c \<in> set (sample_b64 bs)" for c bs
    using sample_b64_codes [OF that] by (auto simp: b64_char_def is_alnum_def is_lower_def)
  then show ?thesis using sample_text_line by (auto simp: good_codec_def sample_codec_def list_all_iff)
qed

definition empty_disk :: disk where
  "empty_disk = \<lparr>files = [], denied = (\<lambda>_. False)\<rparr>"

definition sample_app :: app_state where
  "sample_app = \<lparr>connect_dir = ''/data'', setup_token = ''root'', viewer_token = Some ''look'', app_disk = empty_disk\<rparr>"

definition sample_random :: mint_random where
  "sample_random = \<lparr>id_bytes = [1, 2], secret_bytes = [3], salt_bytes = [4]\<rparr>"

abbreviation sample_mint :: "(io_error + minted_token) \<times> disk" where
  "sample_mint \<equiv> mint_operate_token sample_codec ''/data'' ''t1'' (Some 60) sample_random 1000 empty_disk"

theorem who_passes_which_gate_witness:
  "require_setup sample_app (Some ''Bearer root'') = Inr Setup \<and>
   require_setup sample_app (Some ''Bearer look'') \<noteq> Inr Setup \<and>
   require_setup_or_viewer sample_app (Some ''Bearer look'') = Inr Viewer"
proof -
  have "extract_bearer (Some ''Bearer root'') = Some ''root''" "extract_bearer (Some ''Bearer look'') = Some ''look''"
    by (simp_all add: extract_bearer_def trim_trimmed trimmed_def is_whitespace_def)
  then show ?thesis using who_passes_which_gate by (simp add: sample_app_def)
qed

lemma write_atomic_total: "(\<And>q. \<not> denied d q) \<Longrightarrow> \<exists>d'. write_atomic p c d = (Inr (), d')"
  by (auto simp: write_atomic_def put_file_def rename_file_def Let_def)

lemma mint_total:
  assumes "\<And>q. \<not> denied d q"
  shows "\<exists>m d'. mint_operate_token k base tun ttl rnd t d = (Inr m, d') \<and>
    minted_expires m = map_option (\<lambda>s. t + saturating_mul s 1000) ttl \<and> denied d' = denied d"
proof -
  have w: "write_atomic p c d = (Inr (), snd (write_atomic p c d))" for p c
    using write_atomic_total [OF assms, of p c] by auto
  have "\<exists>m d'. mint_operate_token k base tun ttl rnd t d = (Inr m, d') \<and>
    minted_expires m = map_option (\<lambda>s. t + saturating_mul s 1000) ttl \<and>
    (\<exists>p c. d' = snd (write_atomic p c d))"
    unfolding mint_operate_token_def create_dir_def Let_def using assms by (subst w) (auto simp del: split_paired_Ex)
  then show ?thesis by auto
qed

lemma sample_codec_sel [simp]: "b64 sample_codec = sample_b64" "json_text sample_codec = sample_text"
  by (simp_all add: sample_codec_def)

lemma sample_parse_record [simp]: "parse_record sample_codec (sample_text (record_json r)) = Some r"
  using parse_record_round [of sample_codec r] by simp

lemma sample_minted: "\<exists>m d. sample_mint = (Inr m, d) \<and> minted_expires m = Some (1000 + saturating_mul 60 1000) \<and>
    denied d = (\<lambda>_. False)"
  using mint_total [of empty_disk sample_codec "''/data''" "''t1''" "Some 60" sample_random 1000]
  by (simp add: empty_disk_def)

theorem minted_token_opens_its_tunnel_witness:
  "\<exists>m d. sample_mint = (Inr m, d) \<and> require_operate_or_setup sample_codec (sample_app\<lparr>app_disk := d\<rparr>) ''t1'' 2000
     (Some (''Bearer '' @ bearer m)) = Inr (Operate (minted_id m))"
proof -
  obtain m d where m: "sample_mint = (Inr m, d)" "minted_expires m = Some (1000 + saturating_mul 60 1000)"
    using sample_minted by blast
  have "bearer m = sample_b64 [1, 2] @ ''.'' @ sample_b64 [3]"
    using mint_result [OF m(1)] by (elim exE conjE) (simp add: sample_random_def)
  then have "CHR ''.'' \<in> set (bearer m)" by simp
  then have "bearer m \<noteq> ''root'' \<and> bearer m \<noteq> ''look''" by auto
  with m show ?thesis using minted_token_opens_its_tunnel [of sample_codec sample_app "''t1''" "Some 60" sample_random 1000 m d 2000]
    by (auto simp: sample_app_def Let_def saturating_mul_def)
qed

theorem revoked_stays_refused_witness:
  "\<exists>d'. snd (revoke_operate_token sample_codec ''/data'' ''t1'' (sample_b64 [1, 2]) (snd sample_mint)) = d' \<and>
    \<not> validate_operate_secret sample_codec ''/data'' ''t1'' (sample_b64 [1, 2]) (sample_b64 [3]) 2000
      (auth_step sample_codec ''/data'' (AuditEvent ''stop'' ''t1'' ''setup'' 1500) d')"
proof -
  obtain m d where m: "sample_mint = (Inr m, d)" and dn: "denied d = (\<lambda>_. False)"
    using sample_minted by blast
  from mint_result [OF m] obtain r where r:
    "read_file d (operate_token_path ''/data'' ''t1'' (sample_b64 [1, 2])) = Inr (json_text sample_codec (record_json r))"
    by (auto simp: sample_random_def)
  obtain d' where "write_atomic (operate_token_path ''/data'' ''t1'' (sample_b64 [1, 2]))
      (json_text sample_codec (record_json (r\<lparr>revoked := True\<rparr>))) d = (Inr (), d')"
    using write_atomic_total dn by metis
  with r have "revoke_operate_token sample_codec ''/data'' ''t1'' (sample_b64 [1, 2]) d = (Inr True, d')"
    by (simp add: revoke_operate_token_def Let_def)
  from revoked_stays_refused [OF good_sample_codec this, of "[AuditEvent ''stop'' ''t1'' ''setup'' 1500]"] this m
  show ?thesis by simp
qed

section \<open>The audit log\<close>

lemma split_on_nonempty [simp]: "split_on c s \<noteq> []"
  by (induction s) (auto split: list.split)

lemma split_on_append:
  "split_on c (a @ c # b) = split_on c a @ split_on c b"
  by (induction a) (auto split: list.splits)

lemma split_on_none: "c \<notin> set s \<Longrightarrow> split_on c s = [s]"
  by (induction s) auto

text \<open>A file that is made of whole lines, and one more line.\<close>

definition whole_lines :: "str \<Rightarrow> bool" where
  "whole_lines s \<longleftrightarrow> s = [] \<or> last s = CHR 0x0A"

lemma lines_snoc:
  assumes "whole_lines s" "CHR 0x0A \<notin> set l" "l \<noteq> []" "last l \<noteq> CHR 0x0D"
  shows "lines (s @ l @ [CHR 0x0A]) = lines s @ [l]"
proof -
  have l: "strip_cr l = l" using assms(3,4) by (simp add: strip_cr_def)
  have tail: "split_on (CHR 0x0A) (l @ [CHR 0x0A]) = [l, []]"
    using split_on_append [of "CHR 0x0A" l "[]"] split_on_none [OF assms(2)] by simp
  show ?thesis
  proof (cases "s = []")
    case True
    then show ?thesis using tail l by (simp add: lines_def)
  next
    case False
    with assms(1) obtain a where a: "s = a @ [CHR 0x0A]" unfolding whole_lines_def
      by (metis append_butlast_last_id)
    have "split_on (CHR 0x0A) (s @ l @ [CHR 0x0A]) = split_on (CHR 0x0A) a @ [l, []]"
      using split_on_append [of "CHR 0x0A" a "l @ [CHR 0x0A]"] tail a by simp
    moreover have "split_on (CHR 0x0A) s = split_on (CHR 0x0A) a @ [[]]"
      using split_on_append [of "CHR 0x0A" a "[]"] a by simp
    ultimately show ?thesis using l by (simp add: lines_def butlast_append Let_def)
  qed
qed

lemma map_filter_snoc: "List.map_filter f (xs @ [x]) = List.map_filter f xs @ (case f x of Some y \<Rightarrow> [y] | None \<Rightarrow> [])"
  by (simp add: List.map_filter_def split: option.split)

lemma drop_snoc: "drop (Suc (length xs) - 500) (xs @ [x]) = drop (Suc (length xs) - 500) xs @ [x]"
  by simp

lemma get_audit_entry [simp]: 
  "get (audit_entry event1 tun who t) ''tunnel_id'' = Some (JStr tun)"
  "get (audit_entry event1 tun who t) ''event'' = Some (JStr event1)"
  "get (audit_entry event1 tun who t) ''actor'' = Some (JStr who)"
  by (simp_all add: audit_entry_def obj_of_def)

lemma find_map_append: "find_map f (xs @ ys) = (case find_map f xs of Some y \<Rightarrow> Some y | None \<Rightarrow> find_map f ys)"
  by (induction xs) (auto split: option.split)

lemma drop_suffix: "drop (Suc n - 500) xs = drop (Suc n - 500 - (n - 500)) (drop (n - 500) xs)"
proof -
  have "Suc n - 500 - (n - 500) + (n - 500) = Suc n - 500" by simp
  then show ?thesis unfolding drop_drop by (rule arg_cong [OF sym])
qed

lemma append_file_own:
  assumes "\<not> denied d p"
  shows "read_file (snd (append_file p c d)) p = Inr ((case read_file d p of Inr s \<Rightarrow> s | Inl _ \<Rightarrow> []) @ c)"
proof (cases "map_of (files d) p")
  case None
  with assms have "read_file d p = Inl NotFound" by (simp add: read_file_def)
  then show ?thesis using assms by (simp add: append_file_def put_file_def) (simp add: read_file_def)
next
  case (Some s)
  with assms have "read_file d p = Inr s" by (simp add: read_file_def)
  then show ?thesis using assms by (simp add: append_file_def put_file_def) (simp add: read_file_def)
qed

lemma append_audit_own:
  assumes "\<not> denied d (auth_dir base)" "\<not> denied d (audit_log_path base)"
  shows "read_file (append_audit k base event1 tun who t d) (audit_log_path base) =
    Inr ((case read_file d (audit_log_path base) of Inr s \<Rightarrow> s | Inl _ \<Rightarrow> []) @
      json_text k (audit_entry event1 tun who t) @ [CHR 0x0A])"
  using assms(1) append_file_own [OF assms(2)] by (simp add: append_audit_def create_dir_def)

lemma read_tail_old:
  "read_audit_tail k base d = (let s = (case read_file d (audit_log_path base) of Inr s \<Rightarrow> s | Inl _ \<Rightarrow> []) in
     List.map_filter (json_parse k) (drop (length (lines s) - 500) (lines s)))"
proof -
  have "lines [] = []" by (simp add: lines_def)
  then show ?thesis
    by (cases "read_file d (audit_log_path base)")
      (simp_all add: read_audit_tail_def AUDIT_TAIL_LINES_def Let_def List.map_filter_def)
qed

text \<open>
  the audit log answers who acted last: after an entry is appended, the last actor for that
  event of that tunnel is the one it names, and the last actor for another tunnel or event is the one
  it was, or none when the old entry has left the 500 lines that are read back.
\<close>

theorem audit_names_the_last_actor:
  assumes "good_codec k" and "\<not> denied d (auth_dir base)" and "\<not> denied d (audit_log_path base)"
    and "\<forall>s. read_file d (audit_log_path base) = Inr s \<longrightarrow> whole_lines s"
  shows "(let d' = append_audit k base event1 tun who t d in
     last_actor_for_event k base tun event1 d' = Some who \<and>
     (\<forall>s. read_file d' (audit_log_path base) = Inr s \<longrightarrow> whole_lines s) \<and>
     ((tun', event1') \<noteq> (tun, event1) \<longrightarrow>
        last_actor_for_event k base tun' event1' d' \<in> {None, last_actor_for_event k base tun' event1' d}))"
proof -
  let ?p = "audit_log_path base" and ?l = "json_text k (audit_entry event1 tun who t)"
  let ?old = "case read_file d ?p of Inr s \<Rightarrow> s | Inl _ \<Rightarrow> []"
  have whole: "whole_lines ?old" using assms(4) by (auto simp: whole_lines_def split: sum.split)
  have new: "read_file (append_audit k base event1 tun who t d) ?p = Inr (?old @ ?l @ [CHR 0x0A])"
    using append_audit_own [OF assms(2,3)] .
  have ls: "lines (?old @ ?l @ [CHR 0x0A]) = lines ?old @ [?l]"
    by (rule lines_snoc [OF whole]) (use assms(1) in \<open>auto simp: good_codec_def\<close>)
  let ?n = "length (lines ?old)"
  have tail: "read_audit_tail k base (append_audit k base event1 tun who t d) =
      List.map_filter (json_parse k) (drop (Suc ?n - 500) (lines ?old)) @ [audit_entry event1 tun who t]"
    using assms(1) by (simp add: read_audit_tail_def new ls Let_def AUDIT_TAIL_LINES_def drop_snoc
        map_filter_snoc good_codec_def)
  have old: "read_audit_tail k base d = List.map_filter (json_parse k) (drop (?n - 500) (lines ?old))"
    by (simp add: read_tail_old Let_def)
  have suffix: "drop (Suc ?n - 500) (lines ?old) = drop (Suc ?n - 500 - (?n - 500)) (drop (?n - 500) (lines ?old))"
    by (rule drop_suffix)
  let ?k = "Suc ?n - 500 - (?n - 500)" and ?L = "drop (?n - 500) (lines ?old)"
  have other: "find_map (actor_if tun' event1') (rev (List.map_filter (json_parse k) (drop ?k ?L)))
      \<in> {None, last_actor_for_event k base tun' event1' d}"
  proof -
    have "List.map_filter (json_parse k) ?L = List.map_filter (json_parse k) (take ?k ?L @ drop ?k ?L)"
      by (simp only: append_take_drop_id)
    then have "last_actor_for_event k base tun' event1' d =
        (case find_map (actor_if tun' event1') (rev (List.map_filter (json_parse k) (drop ?k ?L))) of
           Some y \<Rightarrow> Some y
         | None \<Rightarrow> find_map (actor_if tun' event1') (rev (List.map_filter (json_parse k) (take ?k ?L))))"
      unfolding last_actor_for_event_def old by (simp only: map_filter_append rev_append find_map_append)
    then show ?thesis by (auto split: option.splits)
  qed
  have "last_actor_for_event k base tun event1 (append_audit k base event1 tun who t d) = Some who"
    by (simp add: last_actor_for_event_def tail actor_if_def)
  moreover have "whole_lines (?old @ ?l @ [CHR 0x0A])" by (simp add: whole_lines_def)
  moreover have "last_actor_for_event k base tun' event1' (append_audit k base event1 tun who t d)
      \<in> {None, last_actor_for_event k base tun' event1' d}" if "(tun', event1') \<noteq> (tun, event1)"
  proof -
    have "actor_if tun' event1' (audit_entry event1 tun who t) = None"
      using that by (auto simp: actor_if_def)
    then have "last_actor_for_event k base tun' event1' (append_audit k base event1 tun who t d) =
        find_map (actor_if tun' event1') (rev (List.map_filter (json_parse k) (drop ?k ?L)))"
      unfolding last_actor_for_event_def tail suffix by simp
    with other show ?thesis by simp
  qed
  ultimately show ?thesis using new by (auto simp: Let_def)
qed

theorem audit_names_the_last_actor_witness:
  "last_actor_for_event sample_codec ''/data'' ''t1'' ''start''
     (append_audit sample_codec ''/data'' ''start'' ''t1'' ''operate:x'' 5 empty_disk) = Some ''operate:x''"
  using audit_names_the_last_actor [of sample_codec empty_disk "''/data''" "''start''" "''t1''" "''operate:x''" 5]
  by (simp add: empty_disk_def read_file_def Let_def)

section \<open>Where the checks give way\<close>

text \<open>
  a minted token's expiry is its creation plus its time to live in milliseconds, wrapped at 64
  bits: the product saturates, the sum does not, so the longest times to live have passed already.
\<close>

theorem expiry_wraps:
  assumes "mint_operate_token k base tun (Some s) rnd t d = (Inr m, d')"
  shows "\<exists>e. minted_expires m = Some e \<and>
    unat e = (unat t + (if unat s * 1000 < 2 ^ 64 then unat s * 1000 else 2 ^ 64 - 1)) mod 2 ^ 64"
proof -
  have "minted_expires m = Some (t + saturating_mul s 1000)"
    using mint_result [OF assms] assms
    by (auto simp: mint_operate_token_def Let_def split: sum.splits prod.splits)
  moreover have "unat (saturating_mul s 1000) = (if unat s * 1000 < 2 ^ 64 then unat s * 1000 else 2 ^ 64 - 1)"
    by (simp add: saturating_mul_def unat_word_ariths unsigned_minus_1_eq_mask mask_eq_exp_minus_1)
  moreover have "unat (t + saturating_mul s 1000) = (unat t + unat (saturating_mul s 1000)) mod 2 ^ 64"
    by (simp add: unat_word_ariths)
  ultimately show ?thesis by simp
qed

theorem expiry_wraps_witness:
  "\<exists>m d e. mint_operate_token sample_codec ''/data'' ''t1'' (Some (- 1)) sample_random 1000 empty_disk = (Inr m, d) \<and>
     minted_expires m = Some e \<and> e < 1000"
proof -
  obtain m d where m: "mint_operate_token sample_codec ''/data'' ''t1'' (Some (- 1)) sample_random 1000 empty_disk = (Inr m, d)"
    using mint_total [of empty_disk sample_codec "''/data''" "''t1''" "Some (- 1)" sample_random 1000]
    by (auto simp: empty_disk_def)
  obtain e where "minted_expires m = Some e" "unat e = 999"
    using expiry_wraps [OF m] by (auto simp: unsigned_minus_1_eq_mask mask_eq_exp_minus_1)
  moreover from this(2) have "e < 1000" by (simp add: word_less_nat_alt)
  ultimately show ?thesis using m by blast
qed

text \<open>
 the id half of an operate bearer names a file without a check: an absolute path in it leaves
  the daemon's own directory, so a record anyone placed in a file of the machine opens the tunnel's
  routes.
\<close>

theorem bearer_names_any_file:
  assumes "good_codec k" and "starts_with ''/'' p" and "CHR ''.'' \<notin> set p"
    and "read_file (app_disk st) (p @ ''.json'') = Inr (json_text k (record_json r))"
    and "tunnel_id r = tun" and "\<not> revoked r" and "expires_at r = None"
    and "unb64 k (salt_b64 r) = Some salt" and "unb64 k (hash_b64 r) = Some (hash_secret k salt secret)"
    and "extract_bearer header = Some (p @ ''.'' @ secret)"
    and "p @ ''.'' @ secret \<noteq> setup_token st" and "viewer_token st \<noteq> Some (p @ ''.'' @ secret)"
  shows "require_operate_or_setup k st tun t header = Inr (Operate p)"
proof -
  have "operate_token_path (connect_dir st) tun p = p @ ''.json''"
    using assms(2) by (auto simp: operate_token_path_def join_def starts_with_iff)
  then have "validate_operate_secret k (connect_dir st) tun p secret t (app_disk st)"
    using assms by (auto simp: validate_iff)
  moreover have "split_once ''.'' (p @ ''.'' @ secret) = Some (p, secret)"
    using assms(3) by (simp add: split_once_char_Some)
  ultimately show ?thesis using assms(10-12)
    by (simp add: require_operate_or_setup_def operate_or_refuse_def)
qed

definition planted :: token_record where
  "planted = \<lparr>token_id = ''x'', tunnel_id = ''t1'', salt_b64 = [], hash_b64 = sample_b64 (rev (as_bytes ''s'')),
     created_at = 0, expires_at = None, revoked = False\<rparr>"

theorem bearer_names_any_file_witness:
  "require_operate_or_setup sample_codec
     (sample_app\<lparr>app_disk := empty_disk\<lparr>files := [(''/tmp/x.json'', sample_text (record_json planted))]\<rparr>\<rparr>)
     ''t1'' 5 (Some ''Bearer /tmp/x.s'') = Inr (Operate ''/tmp/x'')"
proof -
  have x: "extract_bearer (Some ''Bearer /tmp/x.s'') = Some (''/tmp/x'' @ ''.'' @ ''s'')"
    by (simp add: extract_bearer_def trim_trimmed trimmed_def is_whitespace_def)
  have j: "read_file (empty_disk\<lparr>files := [(''/tmp/x.json'', sample_text (record_json planted))]\<rparr>)
      (''/tmp/x'' @ ''.json'') = Inr (json_text sample_codec (record_json planted))"
    by (simp add: empty_disk_def read_file_def)
  show ?thesis
    by (rule bearer_names_any_file [OF good_sample_codec, where salt = "[]" and secret = "''s''" and r = planted])
      (use x j in \<open>simp_all add: starts_with_iff planted_def sample_codec_def hash_secret_def sample_app_def\<close>)
qed

end
