(* ===== verification/Service_Account.thy ===== *)
theory Service_Account
  imports Json
begin

text \<open>
  \<open>lib/src/datum_cloud/service_account.rs\<close>: the key file, the signed assertion and the form it is
  exchanged with. JSON text, base64, the RSA key and its signature come from other packages: the fields of
  a record of functions. Texts are texts of bytes.
\<close>

record 'key sa_libs =
  lib_parse :: "str \<Rightarrow> json option"
  lib_text :: "json \<Rightarrow> str"
  lib_b64url :: "str \<Rightarrow> str"
  lib_unb64 :: "str \<Rightarrow> str option"
  lib_rsa_pkcs1 :: "str \<Rightarrow> 'key option"
  lib_rsa_pkcs8 :: "str \<Rightarrow> 'key option"
  lib_sign :: "'key \<Rightarrow> str \<Rightarrow> str option"

definition KEY_TYPE :: str where "KEY_TYPE = ''datum_service_account''"
definition ASSERTION_LIFETIME_SECS :: nat where "ASSERTION_LIFETIME_SECS = 300"
definition JWT_BEARER_GRANT :: str where
  "JWT_BEARER_GRANT = ''urn:ietf:params:oauth:grant-type:jwt-bearer''"

record key_file =
  key_type :: str
  kf_client_id :: str
  kf_private_key_id :: str
  kf_private_key :: str
  kf_scope :: str

text \<open>Why a key or an exchange failed, without what the packages say of it.\<close>

datatype sa_error =
    NotAKey
  | WrongKeyType str
  | NoPemBegin
  | BadPemBegin
  | NoPemEnd
  | PemNotBase64
  | BadRsaKey
  | NotRsaPem str
  | SignFailed
  | ExchangeFailed str
  | ExchangeStatus nat str
  | NoAccessToken
  | EmptyAccessToken

definition json_key_file :: "json \<Rightarrow> key_file option" where
  "json_key_file j = Option.bind (Option.bind (get j ''type'') as_str) (\<lambda>ty.
     Option.bind (Option.bind (get j ''client_id'') as_str) (\<lambda>cid.
     Option.bind (Option.bind (get j ''private_key_id'') as_str) (\<lambda>kid.
     Option.bind (Option.bind (get j ''private_key'') as_str) (\<lambda>key.
     Option.bind (Option.bind (get j ''scope'') as_str) (\<lambda>sc.
       Some \<lparr>key_type = ty, kf_client_id = cid, kf_private_key_id = kid, kf_private_key = key, kf_scope = sc\<rparr>)))))"

section \<open>The private key\<close>

definition decode_pem :: "'key sa_libs \<Rightarrow> str \<Rightarrow> sa_error + str \<times> str" where
  "decode_pem libs pem =
     (case split_once ''-----BEGIN '' pem of None \<Rightarrow> Inl NoPemBegin
      | Some (_, rest) \<Rightarrow>
         (case split_once ''-----'' rest of None \<Rightarrow> Inl BadPemBegin
          | Some (label, body) \<Rightarrow>
             (case split_once (''-----END '' @ label @ ''-----'') body of None \<Rightarrow> Inl NoPemEnd
              | Some (text64, _) \<Rightarrow>
                 (case lib_unb64 libs (filter (\<lambda>c. \<not> is_whitespace c) text64) of
                    None \<Rightarrow> Inl PemNotBase64 | Some der \<Rightarrow> Inr (label, der)))))"

definition rsa_key_from_pem :: "'key sa_libs \<Rightarrow> str \<Rightarrow> sa_error + 'key" where
  "rsa_key_from_pem libs pem =
     (case decode_pem libs pem of Inl e \<Rightarrow> Inl e
      | Inr (label, der) \<Rightarrow>
          if label = ''RSA PRIVATE KEY'' then (case lib_rsa_pkcs1 libs der of Some k \<Rightarrow> Inr k | None \<Rightarrow> Inl BadRsaKey)
          else if label = ''PRIVATE KEY'' then (case lib_rsa_pkcs8 libs der of Some k \<Rightarrow> Inr k | None \<Rightarrow> Inl BadRsaKey)
          else Inl (NotRsaPem label))"

record 'key service_account =
  sa_client_id :: str
  sa_kid :: str
  sa_scope :: str
  sa_signer :: 'key
  sa_issuer :: str

definition from_json :: "'key sa_libs \<Rightarrow> str \<Rightarrow> str \<Rightarrow> sa_error + 'key service_account" where
  "from_json libs raw issuer =
     (case Option.bind (lib_parse libs raw) json_key_file of None \<Rightarrow> Inl NotAKey
      | Some key \<Rightarrow>
         if key_type key \<noteq> KEY_TYPE then Inl (WrongKeyType (key_type key))
         else (case rsa_key_from_pem libs (kf_private_key key) of Inl e \<Rightarrow> Inl e
               | Inr signer \<Rightarrow> Inr \<lparr>sa_client_id = kf_client_id key, sa_kid = kf_private_key_id key,
                   sa_scope = kf_scope key, sa_signer = signer, sa_issuer = issuer\<rparr>))"

section \<open>The exchange\<close>

definition token_endpoint :: "'key service_account \<Rightarrow> str" where
  "token_endpoint sa = sa_issuer sa @ ''/oauth/v2/token''"

definition unreserved :: "char \<Rightarrow> bool" where
  "unreserved c \<longleftrightarrow> is_alnum c \<or> c \<in> {CHR ''-'', CHR ''.'', CHR ''_'', CHR ''~''}"

definition upper_hex :: "nat \<Rightarrow> char" where
  "upper_hex n = char_of (if n < 10 then 48 + n else 55 + n)"

definition encode_byte :: "char \<Rightarrow> str" where
  "encode_byte c = (if unreserved c then [c] else if c = CHR '' '' then ''+''
     else [CHR ''%'', upper_hex (code c div 16), upper_hex (code c mod 16)])"

definition form_encode :: "str \<Rightarrow> str" where
  "form_encode s = concat (map encode_byte s)"

definition token_request_body :: "'key service_account \<Rightarrow> str \<Rightarrow> str" where
  "token_request_body sa assertion1 =
     ''grant_type='' @ form_encode JWT_BEARER_GRANT @ ''&assertion='' @ form_encode assertion1 @
     ''&scope='' @ form_encode (sa_scope sa)"

definition json_str :: "'key sa_libs \<Rightarrow> str \<Rightarrow> str" where
  "json_str libs s = lib_text libs (JStr s)"

definition quote_char :: char where "quote_char = CHR 0x22"

text \<open>The keys in the order the old helper wrote them; \<open>dq\<close> puts a name in double quotes.\<close>

definition dq :: "str \<Rightarrow> str" where "dq s = [quote_char] @ s @ [quote_char]"

definition assertion_header :: "'key sa_libs \<Rightarrow> 'key service_account \<Rightarrow> str" where
  "assertion_header libs sa = ''{'' @ dq ''alg'' @ '':'' @ dq ''RS256'' @ '','' @ dq ''kid'' @ '':'' @
     json_str libs (sa_kid sa) @ '','' @ dq ''typ'' @ '':'' @ dq ''JWT'' @ ''}''"

definition assertion_claims :: "'key sa_libs \<Rightarrow> 'key service_account \<Rightarrow> nat \<Rightarrow> str" where
  "assertion_claims libs sa now_s = ''{'' @ dq ''iss'' @ '':'' @ json_str libs (sa_client_id sa) @ '','' @
     dq ''sub'' @ '':'' @ json_str libs (sa_client_id sa) @ '','' @ dq ''aud'' @ '':'' @ json_str libs (sa_issuer sa) @
     '','' @ dq ''iat'' @ '':'' @ show_nat now_s @ '','' @ dq ''exp'' @ '':'' @
     show_nat (now_s + ASSERTION_LIFETIME_SECS) @ ''}''"

definition assertion :: "'key sa_libs \<Rightarrow> 'key service_account \<Rightarrow> nat \<Rightarrow> sa_error + str" where
  "assertion libs sa now_s =
     (let input = lib_b64url libs (assertion_header libs sa) @ ''.'' @ lib_b64url libs (assertion_claims libs sa now_s)
      in case lib_sign libs (sa_signer sa) input of None \<Rightarrow> Inl SignFailed
         | Some signature \<Rightarrow> Inr (input @ ''.'' @ lib_b64url libs signature))"

text \<open>What the identity provider answers: nothing, a status whose body could not be read, or both.\<close>

datatype exchange_reply = NoExchange str | NoBody str | Exchanged nat str

definition is_success :: "nat \<Rightarrow> bool" where
  "is_success status \<longleftrightarrow> 200 \<le> status \<and> status < 300"

definition read_exchange :: "'key sa_libs \<Rightarrow> exchange_reply \<Rightarrow> sa_error + str" where
  "read_exchange libs reply1 = (case reply1 of
     NoExchange e \<Rightarrow> Inl (ExchangeFailed e)
   | NoBody e \<Rightarrow> Inl (ExchangeFailed e)
   | Exchanged status body \<Rightarrow>
       if \<not> is_success status then Inl (ExchangeStatus status (take 300 body))
       else (case Option.bind (Option.bind (lib_parse libs body) (\<lambda>j. get j ''access_token'')) as_str of
           None \<Rightarrow> Inl NoAccessToken
         | Some tok \<Rightarrow> if tok = [] then Inl EmptyAccessToken else Inr tok))"

text \<open>\<open>mint\<close>: the request that was sent, if one was, and the token.\<close>

definition mint :: "'key sa_libs \<Rightarrow> 'key service_account \<Rightarrow> nat \<Rightarrow> (str \<Rightarrow> str \<Rightarrow> exchange_reply) \<Rightarrow>
    (str \<times> str) option \<times> (sa_error + str)" where
  "mint libs sa now_s send =
     (case assertion libs sa now_s of Inl e \<Rightarrow> (None, Inl e)
      | Inr a \<Rightarrow> (let body = token_request_body sa a
          in (Some (token_endpoint sa, body), read_exchange libs (send (token_endpoint sa) body))))"

section \<open>The form can be read back\<close>

text \<open>What a form decoder does: plus is a space, percent and two digits a byte.\<close>

definition hex_digit_value :: "char \<Rightarrow> nat" where
  "hex_digit_value c = (if is_digit c then code c - 48 else code c - 55)"

fun form_decode :: "str \<Rightarrow> str" where
  "form_decode [] = []"
| "form_decode [c] = [if c = CHR ''+'' then CHR '' '' else c]"
| "form_decode [c, d] = (if c = CHR ''+'' then CHR '' '' else c) # form_decode [d]"
| "form_decode (c # d # e # s) =
     (if c = CHR ''%'' then char_of (16 * hex_digit_value d + hex_digit_value e) # form_decode s
      else (if c = CHR ''+'' then CHR '' '' else c) # form_decode (d # e # s))"

lemma upper_hex_round: "n < 16 \<Longrightarrow> hex_digit_value (upper_hex n) = n"
  by (auto simp: upper_hex_def hex_digit_value_def is_digit_def take_bit_eq_mod)

lemma form_decode_plain: "c \<noteq> CHR ''%'' \<Longrightarrow> form_decode (c # s) = (if c = CHR ''+'' then CHR '' '' else c) # form_decode s"
  by (cases s; cases "tl s") auto

lemma form_decode_byte: "form_decode (encode_byte c @ s) = c # form_decode s"
proof (cases "unreserved c \<or> c = CHR '' ''")
  case True
  then have "c \<noteq> CHR ''%'' \<and> c \<noteq> CHR ''+''"
    by (auto simp: unreserved_def char_class_defs)
  with True show ?thesis
    by (auto simp: encode_byte_def form_decode_plain unreserved_def char_class_defs)
next
  case False
  have "code c < 256" by simp
  then have "code c div 16 < 16" "code c mod 16 < 16" by (simp_all add: less_mult_imp_div_less)
  then have "16 * hex_digit_value (upper_hex (code c div 16)) + hex_digit_value (upper_hex (code c mod 16)) = code c"
    by (simp add: upper_hex_round)
  with False show ?thesis by (simp add: encode_byte_def)
qed

text \<open>
  the exchange's form carries any assertion and scope unchanged: a form decoder gets back exactly
  what was encoded, whatever bytes it holds, and the encoding adds no separator of its own.
\<close>

theorem form_encode_round:
  "form_decode (form_encode s) = s \<and> CHR ''&'' \<notin> set (form_encode s) \<and> CHR ''='' \<notin> set (form_encode s)"
proof -
  have hex: "n < 16 \<Longrightarrow> upper_hex n \<noteq> CHR ''&'' \<and> upper_hex n \<noteq> CHR ''=''" for n
  proof -
    assume "n < 16"
    then have "code (upper_hex n) = (if n < 10 then 48 + n else 55 + n)"
      by (simp add: upper_hex_def take_bit_eq_mod)
    with \<open>n < 16\<close> show ?thesis by (auto split: if_splits)
  qed
  have one: "CHR ''&'' \<notin> set (encode_byte c) \<and> CHR ''='' \<notin> set (encode_byte c)" for c
  proof -
    have "code c < 256" by simp
    then have "code c div 16 < 16" "code c mod 16 < 16" by (simp_all add: less_mult_imp_div_less)
    with hex show ?thesis
      by (auto simp: encode_byte_def unreserved_def char_class_defs dest: sym)
  qed
  have "form_decode (form_encode s) = s"
    by (induction s) (auto simp: form_encode_def form_decode_byte)
  with one show ?thesis by (auto simp: form_encode_def)
qed

end
