(* ===== verification/Pairing_Text.thy ===== *)
theory Pairing_Text
  imports Service_Account Disk
begin

text \<open>
  \<open>lib/src/datum_cloud/pairing.rs\<close>, the parts that compute: names and how they are compared, the
  words of messages, the link to approve a code at, choosing a project, and the two files pairing
  leaves behind (progress after a refused grant, the login while a project is chosen). URL parsing,
  times and JSON text come from other packages and are the fields of a record of functions. Durations
  are milliseconds. Names and messages are texts of ASCII.
\<close>

record pairing_libs =
  url_parse :: "str \<Rightarrow> (str \<times> str option \<times> str) option"
  parse_json :: "str \<Rightarrow> json option"
  show_json :: "json \<Rightarrow> str"
  unb64url :: "str \<Rightarrow> str option"
  parse_rfc3339 :: "str \<Rightarrow> int option"
  show_rfc3339 :: "int \<Rightarrow> str"
  show_rfc3339_secs :: "int \<Rightarrow> str"
  debug_text :: "str \<Rightarrow> str"

section \<open>Names\<close>

text \<open>One pair of quotes at most: the first kind of quote found on both ends.\<close>

fun strip_quotes :: "char list \<Rightarrow> str \<Rightarrow> str" where
  "strip_quotes [] p = p"
| "strip_quotes (q # qs) p =
     (if 2 \<le> length p \<and> hd p = q \<and> last p = q then trim (butlast (tl p)) else strip_quotes qs p)"

definition QUOTES :: "char list" where
  "QUOTES = [CHR 0x22, CHR 0x27, CHR 0x60]"

definition normalize_project :: "str \<Rightarrow> str option" where
  "normalize_project raw = (let p = strip_quotes QUOTES (trim raw)
     in if p = [] then None else Some (lowercase p))"

definition name_char :: "char \<Rightarrow> bool" where
  "name_char c \<longleftrightarrow> is_alnum c \<or> c \<in> {CHR ''-'', CHR ''.'', CHR ''_''}"

definition valid_name :: "str \<Rightarrow> bool" where
  "valid_name name \<longleftrightarrow> name \<noteq> [] \<and> length name \<le> 253 \<and> list_all name_char name"

section \<open>Errors and events\<close>

record project_choice =
  choice_id :: str
  choice_display :: str
  choice_org :: str

datatype pairing_event =
    Code str str bool nat
  | CodeExpired
  | Approved str
  | Resumed str
  | SessionDropped str
  | ChooseProject "project_choice list" "str option" nat
  | ProjectSelected str str
  | ServiceAccountCreated str str
  | ServiceAccountReused str str
  | AccessGranted
  | AccessNotConfirmed str str
  | KeySaved path

datatype pairing_error =
    Denied
  | TimedOut nat
  | ProjectNotChosen nat
  | BindingForbidden str str
  | KeyExists path
  | ProjectError str
  | PairingFailed str
  | SavedLoginRejected

record paired_key =
  pk_path :: path
  pk_email :: str
  pk_project :: str
  pk_org :: str

definition check_name :: "pairing_libs \<Rightarrow> str \<Rightarrow> str \<Rightarrow> pairing_error + unit" where
  "check_name libs what name = (if valid_name name then Inr ()
     else Inl (PairingFailed (what @ '' '' @ debug_text libs name @ '' is not a valid name'')))"

definition excerpt :: "str \<Rightarrow> str" where
  "excerpt body = (let flat = trim (map (\<lambda>c. if is_control c then CHR '' '' else c) body)
     in if flat = [] then ''no response body'' else take 300 flat)"

definition redact :: "str \<Rightarrow> str \<Rightarrow> str" where
  "redact message token = (if token = [] then message else replace_all token ''[redacted]'' message)"

definition duration_words :: "nat \<Rightarrow> str" where
  "duration_words ms = (let secs = ms div 1000 in
     if secs < 60 then show_nat secs @ '' seconds''
     else (let m = (secs + 59) div 60 in if m = 1 then ''1 minute'' else show_nat m @ '' minutes''))"

text \<open>\<^verbatim>\<open>tick.saturating_mul(n)\<close> with \<open>n\<close> cut to 32 bits.\<close>

definition MAX_DURATION_MS :: nat where "MAX_DURATION_MS = 2 ^ 64 * 1000 - 1"

definition ticks :: "nat \<Rightarrow> nat \<Rightarrow> nat" where
  "ticks tick n = min MAX_DURATION_MS (tick * min n (2 ^ 32 - 1))"

section \<open>The link to approve at\<close>

definition PROD_CLIENT_ID :: str where "PROD_CLIENT_ID = ''328728232771788043''"
definition STAGING_CLIENT_ID :: str where "STAGING_CLIENT_ID = ''325848904128073754''"

definition default_client_id :: "pairing_libs \<Rightarrow> str \<Rightarrow> str" where
  "default_client_id libs issuer =
     (let host = (case url_parse libs issuer of Some (_, Some h, _) \<Rightarrow> h | _ \<Rightarrow> [])
      in if ends_with ''.staging.env.datum.net'' host then STAGING_CLIENT_ID else PROD_CLIENT_ID)"

record device_authorization =
  device_code :: str
  user_code :: str
  verification_uri :: "str option"
  verification_uri_complete :: "str option"
  da_interval :: nat
  da_expires_in :: nat

definition usable_link :: "pairing_libs \<Rightarrow> str \<Rightarrow> str option" where
  "usable_link libs raw = (case url_parse libs (trim raw) of
     None \<Rightarrow> None
   | Some (scheme, host, written) \<Rightarrow>
       if scheme \<in> {''https'', ''http''} \<and> (case host of Some h \<Rightarrow> h \<noteq> [] | None \<Rightarrow> False) then Some written else None)"

text \<open>\<^verbatim>\<open>form_urlencoded::byte_serialize\<close>: as \<open>form_encode\<close>, except that an asterisk stays and a tilde does not.\<close>

definition byte_serialize :: "str \<Rightarrow> str" where
  "byte_serialize s = concat (map (\<lambda>c. if c = CHR ''*'' then [c] else if c = CHR ''~'' then ''%7E'' else encode_byte c) s)"

definition approval_link :: "pairing_libs \<Rightarrow> str \<Rightarrow> device_authorization \<Rightarrow> str \<times> bool" where
  "approval_link libs issuer auth =
     (case Option.bind (verification_uri_complete auth) (usable_link libs) of Some url \<Rightarrow> (url, True)
      | None \<Rightarrow> (case Option.bind (verification_uri auth) (usable_link libs) of Some url \<Rightarrow> (url, False)
         | None \<Rightarrow> (trim_end_char (CHR ''/'') issuer @ ''/ui/v2/login/device?user_code='' @
             byte_serialize (user_code auth), True)))"

text \<open>Optional fields: absent is the default, null only where the type allows it.\<close>

definition opt_str :: "json \<Rightarrow> str \<Rightarrow> str option option" where
  "opt_str j key = (case get j key of None \<Rightarrow> Some None | Some JNull \<Rightarrow> Some None
     | Some (JStr s) \<Rightarrow> Some (Some s) | Some _ \<Rightarrow> None)"

definition opt_u64 :: "json \<Rightarrow> str \<Rightarrow> nat option option" where
  "opt_u64 j key = (case get j key of None \<Rightarrow> Some None | Some JNull \<Rightarrow> Some None
     | Some v \<Rightarrow> map_option Some (as_uint v))"

definition default_u64 :: "json \<Rightarrow> str \<Rightarrow> nat option" where
  "default_u64 j key = (case get j key of None \<Rightarrow> Some 0 | Some v \<Rightarrow> as_uint v)"

definition json_device_authorization :: "json \<Rightarrow> device_authorization option" where
  "json_device_authorization j = Option.bind (Option.bind (get j ''device_code'') as_str) (\<lambda>dc.
     Option.bind (Option.bind (get j ''user_code'') as_str) (\<lambda>uc.
     Option.bind (opt_str j ''verification_uri'') (\<lambda>vu.
     Option.bind (opt_str j ''verification_uri_complete'') (\<lambda>vc.
     Option.bind (default_u64 j ''interval'') (\<lambda>iv.
     Option.bind (default_u64 j ''expires_in'') (\<lambda>ex.
       Some \<lparr>device_code = dc, user_code = uc, verification_uri = vu, verification_uri_complete = vc,
         da_interval = iv, da_expires_in = ex\<rparr>))))))"

record token_success =
  ts_access_token :: str
  ts_expires_in :: "nat option"
  ts_id_token :: "str option"

definition json_token_success :: "json \<Rightarrow> token_success option" where
  "json_token_success j = Option.bind (Option.bind (get j ''access_token'') as_str) (\<lambda>tok.
     Option.bind (opt_u64 j ''expires_in'') (\<lambda>ex. Option.bind (opt_str j ''id_token'') (\<lambda>idt.
       Some \<lparr>ts_access_token = tok, ts_expires_in = ex, ts_id_token = idt\<rparr>)))"

record oauth_error =
  oe_error :: str
  oe_description :: "str option"

definition json_oauth_error :: "json \<Rightarrow> oauth_error option" where
  "json_oauth_error j = Option.bind (Option.bind (get j ''error'') as_str) (\<lambda>e.
     Option.bind (opt_str j ''error_description'') (\<lambda>d. Some \<lparr>oe_error = e, oe_description = d\<rparr>))"

record id_claims =
  ic_sub :: str
  ic_email :: "str option"

definition json_id_claims :: "json \<Rightarrow> id_claims option" where
  "json_id_claims j = Option.bind (Option.bind (get j ''sub'') as_str) (\<lambda>sub1.
     Option.bind (opt_str j ''email'') (\<lambda>e. Some \<lparr>ic_sub = sub1, ic_email = e\<rparr>))"

text \<open>The claims of a JWT: its second part, without padding.\<close>

definition jwt_payload :: "pairing_libs \<Rightarrow> str \<Rightarrow> json option" where
  "jwt_payload libs jwt = (case split_on (CHR ''.'') jwt of
     _ # payload # _ \<Rightarrow> Option.bind (unb64url libs (trim_end_char (CHR ''='') payload)) (parse_json libs)
   | _ \<Rightarrow> None)"

definition decode_jwt_claims :: "pairing_libs \<Rightarrow> str \<Rightarrow> id_claims option" where
  "decode_jwt_claims libs jwt = Option.bind (jwt_payload libs jwt) json_id_claims"

definition as_i64 :: "json \<Rightarrow> int option" where
  "as_i64 v = (case v of JNum n \<Rightarrow> if - (2 ^ 63) \<le> n \<and> n < 2 ^ 63 then Some n else None | _ \<Rightarrow> None)"

definition wrap_i64 :: "int \<Rightarrow> int" where
  "wrap_i64 n = (n + 2 ^ 63) mod 2 ^ 64 - 2 ^ 63"

definition jwt_lifetime_secs :: "pairing_libs \<Rightarrow> int \<Rightarrow> str \<Rightarrow> nat option" where
  "jwt_lifetime_secs libs now_s jwt =
     (case Option.bind (Option.bind (jwt_payload libs jwt) (\<lambda>j. get j ''exp'')) as_i64 of
        None \<Rightarrow> None
      | Some e \<Rightarrow> (let d = wrap_i64 (e - now_s) in if 0 \<le> d then Some (nat d) else None))"

section \<open>Which project\<close>

record project_ref =
  pr_name :: str
  pr_uid :: str
  pr_org :: str
  pr_display :: str

definition choice_of :: "project_ref \<Rightarrow> project_choice" where
  "choice_of p = \<lparr>choice_id = pr_name p, choice_display = pr_display p, choice_org = pr_org p\<rparr>"

fun join_lines :: "str list \<Rightarrow> str" where
  "join_lines [] = []"
| "join_lines [s] = s"
| "join_lines (s # ss) = s @ [CHR 0x0A] @ join_lines ss"

definition listing :: "project_ref list \<Rightarrow> str" where
  "listing projects = join_lines (map (\<lambda>p. ''  '' @ pr_name p @ '' ('' @ pr_display p @ '', organization '' @ pr_org p @ '')'') projects)"

definition find_project :: "project_ref list \<Rightarrow> str \<Rightarrow> project_ref option" where
  "find_project projects wanted = find (\<lambda>p. eq_ignore_case (pr_name p) wanted) projects"

definition choose_project :: "project_ref list \<Rightarrow> str option \<Rightarrow> pairing_error + project_ref" where
  "choose_project projects wanted =
     (case Option.bind wanted normalize_project of
        Some w \<Rightarrow>
          (case find_project projects w of
             Some p \<Rightarrow> Inr p
           | None \<Rightarrow>
              if projects = [] then Inl (ProjectError (''Project '' @ w @ '' was not found: your Datum login can't see any projects. Check that you approved with the right account.''))
              else Inl (ProjectError (''Project '' @ w @ '' was not found among the projects your Datum login can see. Set 'project' on the Configuration tab to one of these (the id, not the display name), then restart:''
                @ [CHR 0x0A] @ listing projects)))
      | None \<Rightarrow>
          (case projects of
             [p] \<Rightarrow> Inr p
           | [] \<Rightarrow> Inl (ProjectError ''Your Datum login can't see any projects. Create one in the Datum portal, or approve with an account that has one, then restart.'')
           | _ \<Rightarrow> Inl (ProjectError (''Your Datum login can see '' @ show_nat (length projects) @
               '' projects. Set 'project' on the Configuration tab to the one to use (the id, not the display name), then restart:''
               @ [CHR 0x0A] @ listing projects))))"

end
