(* ===== verification/Pairing_Files.thy ===== *)
theory Pairing_Files
  imports Pairing_Text Sample_Codec
begin

text \<open>
  \<open>pairing.rs\<close>: what pairing keeps between runs. The progress file names the service account a refused
  grant left behind; the session file holds the approved login while a project is being chosen. Times
  on the monotone clock are natural numbers, wall times integers, both in milliseconds.
\<close>

definition TOKEN_MARGIN_TICKS :: nat where "TOKEN_MARGIN_TICKS = 120"
definition SESSION_MAX_TICKS :: nat where "SESSION_MAX_TICKS = 15 * 60"
definition SESSION_VERSION :: nat where "SESSION_VERSION = 1"

section \<open>Progress\<close>

record pending =
  pd_project :: str
  pd_service_account :: str
  pd_uid :: str
  pd_email :: str
  pd_refused :: bool

definition pending_path :: "path \<Rightarrow> path" where
  "pending_path key_out = key_out @ ''.pending''"

definition pending_json :: "pending \<Rightarrow> json" where
  "pending_json p = JObj (obj_of [(''project'', JStr (pd_project p)), (''service_account'', JStr (pd_service_account p)),
     (''uid'', JStr (pd_uid p)), (''email'', JStr (pd_email p)), (''binding_refused'', JBool (pd_refused p))])"

definition json_pending :: "json \<Rightarrow> pending option" where
  "json_pending j = Option.bind (Option.bind (get j ''project'') as_str) (\<lambda>pr.
     Option.bind (Option.bind (get j ''service_account'') as_str) (\<lambda>sa.
     Option.bind (Option.bind (get j ''uid'') as_str) (\<lambda>u.
     Option.bind (Option.bind (get j ''email'') as_str) (\<lambda>em.
     Option.bind (Option.bind (get j ''binding_refused'') as_bool) (\<lambda>b.
       Some \<lparr>pd_project = pr, pd_service_account = sa, pd_uid = u, pd_email = em, pd_refused = b\<rparr>)))))"

definition load_pending :: "pairing_libs \<Rightarrow> io_error + str \<Rightarrow> pending option" where
  "load_pending libs content = (case content of Inl _ \<Rightarrow> None
     | Inr raw \<Rightarrow> Option.bind (parse_json libs raw) json_pending)"

lemma json_pending_round [simp]: "json_pending (pending_json p) = Some p"
  by (simp add: json_pending_def pending_json_def obj_of_def)

section \<open>The saved login\<close>

record login =
  lg_token :: str
  lg_expires :: "nat option"
  lg_sub :: str
  lg_email :: "str option"

record session_file =
  sf_version :: nat
  sf_expires_at :: str
  sf_access_token :: str
  sf_token_expires_at :: "str option"
  sf_sub :: str
  sf_email :: "str option"
  sf_projects :: "project_ref list"

definition project_json :: "project_ref \<Rightarrow> json" where
  "project_json p = JObj (obj_of [(''id'', JStr (pr_name p)), (''uid'', JStr (pr_uid p)),
     (''organization'', JStr (pr_org p)), (''display_name'', JStr (pr_display p))])"

definition json_project :: "json \<Rightarrow> project_ref option" where
  "json_project j = Option.bind (Option.bind (get j ''id'') as_str) (\<lambda>n.
     Option.bind (Option.bind (get j ''uid'') as_str) (\<lambda>u.
     Option.bind (Option.bind (get j ''organization'') as_str) (\<lambda>org.
     Option.bind (Option.bind (get j ''display_name'') as_str) (\<lambda>d.
       Some \<lparr>pr_name = n, pr_uid = u, pr_org = org, pr_display = d\<rparr>))))"

definition json_opt_str :: "str option \<Rightarrow> json" where
  "json_opt_str s = (case s of Some x \<Rightarrow> JStr x | None \<Rightarrow> JNull)"

definition session_json :: "session_file \<Rightarrow> json" where
  "session_json f = JObj (obj_of [(''version'', JNum (int (sf_version f))), (''expires_at'', JStr (sf_expires_at f)),
     (''access_token'', JStr (sf_access_token f)), (''token_expires_at'', json_opt_str (sf_token_expires_at f)),
     (''sub'', JStr (sf_sub f)), (''email'', json_opt_str (sf_email f)),
     (''projects'', JArr (map project_json (sf_projects f)))])"

fun all_some :: "'a option list \<Rightarrow> 'a list option" where
  "all_some [] = Some []"
| "all_some (None # xs) = None"
| "all_some (Some x # xs) = map_option (\<lambda>ys. x # ys) (all_some xs)"

definition as_u32 :: "json \<Rightarrow> nat option" where
  "as_u32 v = (case as_uint v of Some n \<Rightarrow> if n < 2 ^ 32 then Some n else None | None \<Rightarrow> None)"

definition json_session :: "json \<Rightarrow> session_file option" where
  "json_session j = Option.bind (Option.bind (get j ''version'') as_u32) (\<lambda>v.
     Option.bind (Option.bind (get j ''expires_at'') as_str) (\<lambda>ex.
     Option.bind (Option.bind (get j ''access_token'') as_str) (\<lambda>tok.
     Option.bind (opt_str j ''token_expires_at'') (\<lambda>tex.
     Option.bind (Option.bind (get j ''sub'') as_str) (\<lambda>sub1.
     Option.bind (opt_str j ''email'') (\<lambda>em.
     Option.bind (Option.bind (get j ''projects'') as_array) (\<lambda>ps.
     Option.bind (all_some (map json_project ps)) (\<lambda>prs.
       Some \<lparr>sf_version = v, sf_expires_at = ex, sf_access_token = tok, sf_token_expires_at = tex,
         sf_sub = sub1, sf_email = em, sf_projects = prs\<rparr>))))))))"

text \<open>How long the saved login may be used, from now.\<close>

definition session_life :: "nat \<Rightarrow> nat \<Rightarrow> login \<Rightarrow> nat" where
  "session_life tick now_ms lg = (let life = ticks tick SESSION_MAX_TICKS in
     case lg_expires lg of None \<Rightarrow> life
     | Some e \<Rightarrow> min life (e - now_ms - ticks tick TOKEN_MARGIN_TICKS))"

text \<open>The text to write; \<open>None\<close> when the login is too close to its end to be worth keeping.\<close>

definition save_session :: "pairing_libs \<Rightarrow> nat \<Rightarrow> nat \<Rightarrow> int \<Rightarrow> login \<Rightarrow> project_ref list \<Rightarrow> str option" where
  "save_session libs tick now_ms wall lg projects =
     (let life = session_life tick now_ms lg; at1 = (\<lambda>d. show_rfc3339 libs (wall + int d)) in
      if life = 0 then None
      else Some (show_json libs (session_json \<lparr>sf_version = SESSION_VERSION, sf_expires_at = at1 life,
        sf_access_token = lg_token lg, sf_token_expires_at = map_option (\<lambda>e. at1 (e - now_ms)) (lg_expires lg),
        sf_sub = lg_sub lg, sf_email = lg_email lg, sf_projects = projects\<rparr>)))"

datatype session_load = Missing | Unusable str | Loaded login "project_ref list"

definition UNREADABLE :: str where "UNREADABLE = ''its saved login could not be read''"
definition EXPIRED :: str where "EXPIRED = ''its saved login expired''"

definition good_project :: "project_ref \<Rightarrow> bool" where
  "good_project p \<longleftrightarrow> valid_name (pr_name p) \<and> valid_name (pr_org p) \<and> pr_uid p \<noteq> []"

definition load_session :: "pairing_libs \<Rightarrow> nat \<Rightarrow> int \<Rightarrow> io_error + str \<Rightarrow> session_load" where
  "load_session libs now_ms wall content =
     (case content of
        Inl NotFound \<Rightarrow> Missing
      | Inl _ \<Rightarrow> Unusable UNREADABLE
      | Inr raw \<Rightarrow>
         (case Option.bind (parse_json libs raw) json_session of
            None \<Rightarrow> Unusable UNREADABLE
          | Some f \<Rightarrow>
             if sf_version f \<noteq> SESSION_VERSION then Unusable UNREADABLE
             else (case parse_rfc3339 libs (sf_expires_at f) of
                None \<Rightarrow> Unusable UNREADABLE
              | Some expires \<Rightarrow>
                 if expires \<le> wall then Unusable EXPIRED
                 else (case map_option (parse_rfc3339 libs) (sf_token_expires_at f) of
                    Some None \<Rightarrow> Unusable UNREADABLE
                  | token_expires \<Rightarrow>
                     if sf_access_token f = [] \<or> \<not> valid_name (sf_sub f) \<or> sf_projects f = []
                       \<or> list_ex (\<lambda>p. \<not> good_project p) (sf_projects f)
                     then Unusable UNREADABLE
                     else Loaded \<lparr>lg_token = sf_access_token f,
                         lg_expires = map_option (\<lambda>t. now_ms + nat (t - wall)) (Option.bind token_expires id),
                         lg_sub = sf_sub f, lg_email = Option.bind (sf_email f) (\<lambda>e. if e = [] then None else Some e)\<rparr>
                       (sf_projects f)))))"

section \<open>Saved, then loaded\<close>

lemma json_project_round [simp]: "json_project (project_json p) = Some p"
  by (simp add: json_project_def project_json_def obj_of_def)

lemma all_some_map: "(\<And>x. f (g x) = Some x) \<Longrightarrow> all_some (map f (map g xs)) = Some xs"
  by (induction xs) auto

lemma json_session_round [simp]: "sf_version f < 2 ^ 32 \<Longrightarrow> json_session (session_json f) = Some f"
  using all_some_map [of json_project project_json "sf_projects f"]
  by (cases "sf_token_expires_at f"; cases "sf_email f")
    (simp_all add: json_session_def session_json_def obj_of_def as_u32_def opt_str_def json_opt_str_def)

text \<open>What the packages document of a text written and read back.\<close>

definition good_libs :: "pairing_libs \<Rightarrow> bool" where
  "good_libs libs \<longleftrightarrow> (\<forall>j. parse_json libs (show_json libs j) = Some j) \<and>
     (\<forall>t. parse_rfc3339 libs (show_rfc3339 libs t) = Some t)"

definition keepable :: "login \<Rightarrow> project_ref list \<Rightarrow> bool" where
  "keepable lg projects \<longleftrightarrow> lg_token lg \<noteq> [] \<and> valid_name (lg_sub lg) \<and> lg_email lg \<noteq> Some [] \<and>
     projects \<noteq> [] \<and> list_all good_project projects"

text \<open>
  a saved login is picked up after a restart unchanged, its expiry included, for as long as it was
  saved for and not a moment longer; and it is never kept into the last two minutes of the token.
\<close>

theorem session_round:
  assumes "good_libs libs" and "save_session libs tick t wall lg projects = Some raw" and "keepable lg projects"
    and "wall \<le> wall'" and "t' = t + nat (wall' - wall)"
  shows "load_session libs t' wall' (Inr raw) =
      (if wall' < wall + int (session_life tick t lg)
       then Loaded (lg\<lparr>lg_expires := map_option (\<lambda>e. max e t') (lg_expires lg)\<rparr>) projects else Unusable EXPIRED) \<and>
    (\<forall>e. lg_expires lg = Some e \<longrightarrow> t + session_life tick t lg + ticks tick TOKEN_MARGIN_TICKS \<le> e)"
proof -
  have em: "Option.bind (lg_email lg) (\<lambda>e. if e = [] then None else Some e) = lg_email lg"
    using assms(3) by (cases "lg_email lg") (auto simp: keepable_def)
  have v: "SESSION_VERSION < 2 ^ 32" by (simp add: SESSION_VERSION_def)
  have life: "session_life tick t lg \<noteq> 0" using assms(2) by (auto simp: save_session_def Let_def split: if_splits)
  have ex: "t' + nat (wall + int (e - t) - wall') = max e t'" if "lg_expires lg = Some e" for e
  proof -
    have "t < e" using life that by (auto simp: session_life_def Let_def)
    with assms(4,5) show ?thesis by (auto simp: max_def)
  qed
  have bound: "t + session_life tick t lg + ticks tick TOKEN_MARGIN_TICKS \<le> e" if "lg_expires lg = Some e" for e
    using life that by (auto simp: session_life_def Let_def)
  show ?thesis
  proof (cases "lg_expires lg")
    case None
    with assms(1-3) v em bound life show ?thesis
      by (auto simp: save_session_def load_session_def good_libs_def keepable_def Let_def list_ex_iff list_all_iff
          split: if_splits)
  next
    case (Some e)
    with assms(1-3) v em bound life ex [OF Some] show ?thesis
      by (auto simp: save_session_def load_session_def good_libs_def keepable_def Let_def list_ex_iff list_all_iff
          split: if_splits)
  qed
qed

end
