(* ===== verification/Pairing.thy ===== *)
theory Pairing
  imports Pairing_Files Prelude
begin

text \<open>
  \<open>pairing.rs\<close>, the pairing itself: the device login, listing the projects, waiting for a choice,
  the service account, the grant and the key, with the two files and every event, as a computation over
  the identity provider, the Datum API, the file system, the source of the choice, the random names and
  the clocks (the environment of the world). A request to the API carries the person's token; the trace
  keeps its method, path and body. An HTTP client can always be built.
\<close>

datatype http_reply = SendFailed str | BodyFailed nat str | HttpReply nat str

datatype pairing_request =
    PostForm str "(str \<times> str) list"
  | GetBearer str
  | CallApi str str "json option"
  | FileExists path
  | ReadFile path
  | WriteFile path str
  | RemoveFile path
  | AskSource
  | RandomSuffix nat
  | WallClock
  | Notify pairing_event

datatype pairing_reply =
    RHttp http_reply
  | RYes bool
  | RRead "io_error + str"
  | RWritten "str + unit"
  | RSource "str + str option"
  | RText str
  | RTime int

type_synonym 'a pairing = "(pairing_request, pairing_reply, 'a) io"

section \<open>Asking\<close>

fun as_http :: "pairing_reply \<Rightarrow> http_reply" where
  "as_http (RHttp h) = h" | "as_http _ = SendFailed []"

fun as_yes :: "pairing_reply \<Rightarrow> bool" where
  "as_yes (RYes b) = b" | "as_yes _ = False"

fun as_read :: "pairing_reply \<Rightarrow> io_error + str" where
  "as_read (RRead x) = x" | "as_read _ = Inl OtherIo"

fun as_written :: "pairing_reply \<Rightarrow> str + unit" where
  "as_written (RWritten x) = x" | "as_written _ = Inl []"

fun as_source :: "pairing_reply \<Rightarrow> str + str option" where
  "as_source (RSource x) = x" | "as_source _ = Inl []"

fun as_text :: "pairing_reply \<Rightarrow> str" where
  "as_text (RText x) = x" | "as_text _ = []"

fun as_time :: "pairing_reply \<Rightarrow> int" where
  "as_time (RTime x) = x" | "as_time _ = 0"

definition post_form :: "str \<Rightarrow> (str \<times> str) list \<Rightarrow> http_reply pairing" where
  "post_form url form = ask_as as_http (PostForm url form)"
definition get_bearer :: "str \<Rightarrow> http_reply pairing" where "get_bearer url = ask_as as_http (GetBearer url)"
definition file_exists :: "path \<Rightarrow> bool pairing" where "file_exists p = ask_as as_yes (FileExists p)"
definition read_text :: "path \<Rightarrow> (io_error + str) pairing" where "read_text p = ask_as as_read (ReadFile p)"
definition write_private_file :: "path \<Rightarrow> str \<Rightarrow> (str + unit) pairing" where
  "write_private_file p c = ask_as as_written (WriteFile p c)"
definition delete_file :: "path \<Rightarrow> unit pairing" where "delete_file p = ask_as (\<lambda>_. ()) (RemoveFile p)"
definition remove_session :: "path \<Rightarrow> unit pairing" where "remove_session p = delete_file p"
definition ask_source :: "(str + str option) pairing" where "ask_source = ask_as as_source AskSource"
definition random_suffix :: "nat \<Rightarrow> str pairing" where "random_suffix n = ask_as as_text (RandomSuffix n)"
definition wall_clock :: "int pairing" where "wall_clock = ask_as as_time WallClock"
definition on_event :: "pairing_event \<Rightarrow> unit pairing" where "on_event e = signal (Notify e)"

lemmas pairing_ops = post_form_def get_bearer_def file_exists_def read_text_def write_private_file_def
  remove_session_def delete_file_def ask_source_def random_suffix_def wall_clock_def on_event_def

text \<open>What a status line and a key's error look like when they are quoted in a message.\<close>

record ('key) pairing_env =
  libs :: pairing_libs
  sa_of :: "'key sa_libs"
  show_status :: "nat \<Rightarrow> str"
  show_sa_error :: "sa_error \<Rightarrow> str"

record project_wait =
  wait_poll :: nat
  wait_max :: nat

record pairing_config =
  issuer :: str
  api_url :: str
  client_id :: str
  scope :: str
  cfg_project :: "str option"
  cfg_wait :: "project_wait option"
  confirm_project :: bool
  key_out :: path
  session_path :: "path option"
  device_name :: "str option"
  max_wait :: nat
  tick :: nat

definition DEVICE_CODE_GRANT :: str where
  "DEVICE_CODE_GRANT = ''urn:ietf:params:oauth:grant-type:device_code''"
definition SETTLE_TICKS :: nat where "SETTLE_TICKS = 60"
definition SA_NAME_PREFIX :: str where "SA_NAME_PREFIX = ''home-assistant-''"
definition KEY_LIFETIME_DAYS :: nat where "KEY_LIFETIME_DAYS = 365"
definition RM :: str where "RM = ''resourcemanager.miloapis.com/v1alpha1''"
definition IAM :: str where "IAM = ''iam.miloapis.com/v1alpha1''"
definition IDENTITY :: str where "IDENTITY = ''identity.miloapis.com/v1alpha1''"

section \<open>Device login\<close>

definition start_device_authorization :: "'key pairing_env \<Rightarrow> pairing_config \<Rightarrow> (pairing_error + device_authorization) pairing" where
  "start_device_authorization env cfg = do {
     h \<leftarrow> post_form (issuer cfg @ ''/oauth/v2/device_authorization'')
            [(''client_id'', client_id cfg), (''scope'', scope cfg)];
     State_Monad.return (case h of
       SendFailed e \<Rightarrow> Inl (PairingFailed (''cannot reach Datum's login service: '' @ e))
     | _ \<Rightarrow> (let (status, body) = (case h of HttpReply s b \<Rightarrow> (s, b) | BodyFailed s _ \<Rightarrow> (s, []) | _ \<Rightarrow> (0, []))
         in if \<not> is_success status
            then Inl (PairingFailed (''Datum's login service refused to start pairing (HTTP '' @ show_status env status @
              ''): '' @ excerpt body))
            else (case Option.bind (parse_json (libs env) body) json_device_authorization of
                Some a \<Rightarrow> Inr a
              | None \<Rightarrow> Inl (PairingFailed ''Datum's login service sent an unexpected reply to the pairing request''))))
   }"

definition identity :: "'key pairing_env \<Rightarrow> pairing_config \<Rightarrow> str \<Rightarrow> str option \<Rightarrow> (pairing_error + id_claims) pairing" where
  "identity env cfg token id_token =
     (case Option.bind id_token (decode_jwt_claims (libs env)) of
        Some claims \<Rightarrow> State_Monad.return (Inr claims)
      | None \<Rightarrow> do {
          h \<leftarrow> get_bearer (issuer cfg @ ''/oidc/v1/userinfo'');
          State_Monad.return (case h of
            SendFailed e \<Rightarrow> Inl (PairingFailed (redact (''cannot ask who approved: '' @ e) token))
          | _ \<Rightarrow> (let (status, body) = (case h of HttpReply s b \<Rightarrow> (s, b) | BodyFailed s _ \<Rightarrow> (s, []) | _ \<Rightarrow> (0, []))
              in if \<not> is_success status
                 then Inl (PairingFailed (redact (''cannot ask who approved (HTTP '' @ show_status env status @ ''): '' @
                   excerpt body) token))
                 else (case Option.bind (parse_json (libs env) body) json_id_claims of
                     Some c \<Rightarrow> Inr c
                   | None \<Rightarrow> Inl (PairingFailed ''the login service did not say who approved''))))
        })"

datatype code_outcome = CodeApproved login | CodeGone

text \<open>A poll that was answered with success: the token, then who approved.\<close>

definition approved_login :: "'key pairing_env \<Rightarrow> pairing_config \<Rightarrow> str \<Rightarrow> (pairing_error + code_outcome) pairing" where
  "approved_login env cfg body =
     (case Option.bind (parse_json (libs env) body) json_token_success of
        None \<Rightarrow> State_Monad.return (Inl (PairingFailed ''Datum's login service sent an unexpected reply after approval''))
      | Some tok \<Rightarrow> do {
          received \<leftarrow> now;
          wall \<leftarrow> wall_clock;
          (let lifetime = (case ts_expires_in tok of Some s \<Rightarrow> Some s
                 | None \<Rightarrow> jwt_lifetime_secs (libs env) (wall div 1000) (ts_access_token tok))
           in try_bind (identity env cfg (ts_access_token tok) (ts_id_token tok)) (\<lambda>claims.
                State_Monad.return (case check_name (libs env) ''user id'' (ic_sub claims) of
                    Inl e \<Rightarrow> Inl e
                  | Inr _ \<Rightarrow> Inr (CodeApproved \<lparr>lg_token = ts_access_token tok,
                      lg_expires = map_option (\<lambda>s. received + ticks (tick cfg) s) lifetime,
                      lg_sub = ic_sub claims,
                      lg_email = Option.bind (ic_email claims) (\<lambda>e. if e = [] then None else Some e)\<rparr>))))
        })"

text \<open>A poll: Inl goes on with what \<open>slow_down\<close> has added to the interval so far.\<close>

definition poll_once :: "'key pairing_env \<Rightarrow> pairing_config \<Rightarrow> device_authorization \<Rightarrow> nat \<Rightarrow>
    (nat + (pairing_error + code_outcome)) pairing" where
  "poll_once env cfg auth added = do {
     h \<leftarrow> post_form (issuer cfg @ ''/oauth/v2/token'') [(''grant_type'', DEVICE_CODE_GRANT),
            (''device_code'', device_code auth), (''client_id'', client_id cfg)];
     (case h of
        SendFailed _ \<Rightarrow> State_Monad.return (Inl added)
      | BodyFailed _ _ \<Rightarrow> State_Monad.return (Inl added)
      | HttpReply status body \<Rightarrow>
          if is_success status then do { r \<leftarrow> approved_login env cfg body; State_Monad.return (Inr r) }
          else if 500 \<le> status \<and> status < 600 then State_Monad.return (Inl added)
          else State_Monad.return (case Option.bind (parse_json (libs env) body) json_oauth_error of
              None \<Rightarrow> Inr (Inl (PairingFailed (''Datum's login service refused the code (HTTP '' @
                show_status env status @ ''): '' @ excerpt body)))
            | Some err \<Rightarrow>
                if oe_error err = ''authorization_pending'' then Inl added
                else if oe_error err = ''slow_down'' then Inl (added + ticks (tick cfg) 5)
                else if oe_error err = ''expired_token'' then Inr (Inr CodeGone)
                else if oe_error err = ''access_denied'' then Inr (Inl Denied)
                else Inr (Inl (PairingFailed (''Datum's login service refused the code ('' @
                  oe_error err @ (case oe_description err of Some d \<Rightarrow> '': '' @ d | None \<Rightarrow> []) @ '')'')))))
   }"

text \<open>A round: the interval is the first one plus what has been added.\<close>

definition poll_round :: "'key pairing_env \<Rightarrow> pairing_config \<Rightarrow> device_authorization \<Rightarrow> nat \<Rightarrow> nat \<Rightarrow> nat \<Rightarrow> nat \<Rightarrow>
    (nat + (pairing_error + code_outcome)) pairing" where
  "poll_round env cfg auth first expires_at deadline added = do {
     sleep (first + added);
     t \<leftarrow> now;
     if expires_at \<le> t \<or> deadline \<le> t then State_Monad.return (Inr (Inr CodeGone))
     else poll_once env cfg auth added
   }"

definition first_interval :: "pairing_config \<Rightarrow> device_authorization \<Rightarrow> nat" where
  "first_interval cfg auth = ticks (tick cfg) (if da_interval auth = 0 then 5 else da_interval auth)"

definition poll_for_approval :: "nat \<Rightarrow> 'key pairing_env \<Rightarrow> pairing_config \<Rightarrow> device_authorization \<Rightarrow> nat \<Rightarrow>
    (pairing_error + code_outcome) option pairing" where
  "poll_for_approval rounds env cfg auth deadline = do {
     t \<leftarrow> now;
     (let expires_at = t + ticks (tick cfg) (if da_expires_in auth = 0 then 300 else da_expires_in auth)
      in repeat_io rounds (poll_round env cfg auth (first_interval cfg auth) expires_at deadline) 0)
   }"

definition timed_out :: "pairing_config \<Rightarrow> pairing_error" where
  "timed_out cfg = TimedOut (max 1 ((max_wait cfg div 1000 + 59) div 60))"

text \<open>A code, from asking for it to its end. The inner None is running out of rounds.\<close>

definition login_round :: "nat \<Rightarrow> 'key pairing_env \<Rightarrow> pairing_config \<Rightarrow> nat \<Rightarrow> unit \<Rightarrow>
    (unit + (pairing_error + login) option) pairing" where
  "login_round rounds env cfg deadline _ = do {
     t \<leftarrow> now;
     if deadline \<le> t then State_Monad.return (Inr (Some (Inl (timed_out cfg))))
     else do {
       started \<leftarrow> start_device_authorization env cfg;
       (case started of
          Inl e \<Rightarrow> State_Monad.return (Inr (Some (Inl e)))
        | Inr auth \<Rightarrow> do {
            (let (url, prefilled) = approval_link (libs env) (issuer cfg) auth
             in on_event (Code url (user_code auth) prefilled
                  (1000 * (if da_expires_in auth = 0 then 300 else da_expires_in auth))));
            polled \<leftarrow> poll_for_approval rounds env cfg auth deadline;
            (case polled of
               None \<Rightarrow> State_Monad.return (Inr None)
             | Some (Inl e) \<Rightarrow> State_Monad.return (Inr (Some (Inl e)))
             | Some (Inr (CodeApproved lg)) \<Rightarrow> State_Monad.return (Inr (Some (Inr lg)))
             | Some (Inr CodeGone) \<Rightarrow> do {
                 t \<leftarrow> now;
                 if deadline \<le> t then State_Monad.return (Inr (Some (Inl (timed_out cfg))))
                 else do { on_event CodeExpired; State_Monad.return (Inl ()) }
               })
          })
     }
   }"

definition flatten_rounds :: "'a option option \<Rightarrow> 'a option" where
  "flatten_rounds x = Option.bind x id"

definition device_login :: "nat \<Rightarrow> 'key pairing_env \<Rightarrow> pairing_config \<Rightarrow> (pairing_error + login) option pairing" where
  "device_login rounds env cfg = do {
     t \<leftarrow> now;
     r \<leftarrow> repeat_io rounds (login_round rounds env cfg (t + max_wait cfg)) ();
     State_Monad.return (flatten_rounds r)
   }"

section \<open>The API, with the person's token\<close>

record api =
  api_base :: str
  api_token :: str
  api_reused :: bool

record reply =
  rp_status :: nat
  rp_body :: json
  rp_text :: str

definition api_call :: "'key pairing_env \<Rightarrow> api \<Rightarrow> str \<Rightarrow> str \<Rightarrow> json option \<Rightarrow> str \<Rightarrow> (pairing_error + reply) pairing" where
  "api_call env a method path1 body what = do {
     h \<leftarrow> ask_as as_http (CallApi method (api_base a @ path1) body);
     State_Monad.return (case h of
       SendFailed e \<Rightarrow> Inl (PairingFailed (redact (what @ '' failed: '' @ e) (api_token a)))
     | BodyFailed status e \<Rightarrow>
         if api_reused a \<and> status = 401 then Inl SavedLoginRejected
         else Inl (PairingFailed (redact (what @ '' failed reading the reply: '' @ e) (api_token a)))
     | HttpReply status t \<Rightarrow>
         if api_reused a \<and> status = 401 then Inl SavedLoginRejected
         else Inr \<lparr>rp_status = status, rp_body = (case parse_json (libs env) t of Some j \<Rightarrow> j | None \<Rightarrow> JNull), rp_text = t\<rparr>)
   }"

definition api_failed :: "'key pairing_env \<Rightarrow> api \<Rightarrow> str \<Rightarrow> reply \<Rightarrow> pairing_error" where
  "api_failed env a what r = (let detail = (case Option.bind (get (rp_body r) ''message'') as_str of
       Some m \<Rightarrow> m | None \<Rightarrow> excerpt (rp_text r))
     in PairingFailed (redact (what @ '' failed (HTTP '' @ show_status env (rp_status r) @ ''): '' @ detail) (api_token a)))"

definition user_cp :: "str \<Rightarrow> str" where "user_cp sub1 = ''/apis/'' @ IAM @ ''/users/'' @ sub1 @ ''/control-plane''"
definition org_cp :: "str \<Rightarrow> str" where "org_cp org = ''/apis/'' @ RM @ ''/organizations/'' @ org @ ''/control-plane''"
definition project_cp :: "str \<Rightarrow> str" where
  "project_cp project = ''/apis/'' @ RM @ ''/projects/'' @ project @ ''/control-plane''"

definition items :: "json \<Rightarrow> json list" where
  "items list1 = (case Option.bind (get list1 ''items'') as_array of Some xs \<Rightarrow> xs | None \<Rightarrow> [])"

definition text_at :: "str list \<Rightarrow> json \<Rightarrow> str" where
  "text_at p v = (case str_at p v of Some s \<Rightarrow> s | None \<Rightarrow> [])"

section \<open>Listing the projects\<close>

text \<open>The organizations named in the memberships, once each, in order.\<close>

fun organizations :: "json list \<Rightarrow> str list \<Rightarrow> str list" where
  "organizations [] orgs = orgs"
| "organizations (item # rest) orgs =
     (case str_at [''spec'', ''organizationRef'', ''name''] item of
        Some org \<Rightarrow> organizations rest (if org \<in> set orgs then orgs else orgs @ [org])
      | None \<Rightarrow> organizations rest orgs)"

definition project_of :: "str \<Rightarrow> json \<Rightarrow> project_ref option" where
  "project_of org item =
     (let name = text_at [''metadata'', ''name''] item; uid = text_at [''metadata'', ''uid''] item in
      if name = [] \<or> uid = [] then None
      else Some \<lparr>pr_name = name, pr_uid = uid, pr_org = org, pr_display =
        (case str_at [''metadata'', ''annotations'', ''kubernetes.io/display-name''] item of
           Some d \<Rightarrow> if d = [] then name else d | None \<Rightarrow> name)\<rparr>)"

fun list_in_orgs :: "'key pairing_env \<Rightarrow> api \<Rightarrow> str list \<Rightarrow> (pairing_error + project_ref list) pairing" where
  "list_in_orgs env a [] = State_Monad.return (Inr [])"
| "list_in_orgs env a (org # orgs) =
     (if \<not> valid_name org then list_in_orgs env a orgs
      else (let what = ''listing the projects in organization '' @ org in
        try_bind (api_call env a ''GET'' (org_cp org @ ''/apis/'' @ RM @ ''/projects'') None what) (\<lambda>r.
          if rp_status r \<in> {403, 404} then list_in_orgs env a orgs
          else if \<not> is_success (rp_status r) then State_Monad.return (Inl (api_failed env a what r))
          else try_bind (list_in_orgs env a orgs) (\<lambda>ps.
            State_Monad.return (Inr (List.map_filter (project_of org) (items (rp_body r)) @ ps))))))"

definition list_projects :: "'key pairing_env \<Rightarrow> api \<Rightarrow> str \<Rightarrow> (pairing_error + project_ref list) pairing" where
  "list_projects env a sub1 = (let what = ''listing your Datum organizations'' in
     try_bind (api_call env a ''GET'' (user_cp sub1 @ ''/apis/'' @ RM @ ''/organizationmemberships'') None what) (\<lambda>r.
       if \<not> is_success (rp_status r) then State_Monad.return (Inl (api_failed env a what r))
       else list_in_orgs env a (organizations (items (rp_body r)) [])))"

section \<open>Waiting for a choice\<close>

definition choice_deadline :: "pairing_config \<Rightarrow> project_wait \<Rightarrow> nat \<Rightarrow> nat option \<Rightarrow> nat" where
  "choice_deadline cfg wait started token_expires =
     (let deadline = started + wait_max wait in
      case token_expires of None \<Rightarrow> deadline
      | Some e \<Rightarrow> (let margin = ticks (tick cfg) TOKEN_MARGIN_TICKS;
                       usable_until = (if margin \<le> e then e - margin else started)
                   in min deadline (max usable_until started)))"

text \<open>A poll; the loop state is the value already judged.\<close>

definition choice_look :: "project_ref list \<Rightarrow> nat \<Rightarrow> str option \<Rightarrow> (str option + (pairing_error + project_ref)) pairing" where
  "choice_look projects deadline seen = do {
     t \<leftarrow> now;
     if deadline \<le> t then State_Monad.return (Inl seen)
     else do {
       answer \<leftarrow> ask_source;
       (case answer of
          Inl _ \<Rightarrow> State_Monad.return (Inl seen)
        | Inr v \<Rightarrow>
           (let current = Option.bind v normalize_project in
            if current = seen then State_Monad.return (Inl seen)
            else (case Option.bind current (find_project projects) of
                Some p \<Rightarrow> State_Monad.return (Inr (Inr p))
              | None \<Rightarrow> do {
                  t \<leftarrow> now;
                  on_event (ChooseProject (map choice_of projects) current (deadline - t));
                  State_Monad.return (Inl current)
                })))
     }
   }"

definition choice_round :: "project_wait \<Rightarrow> project_ref list \<Rightarrow> nat \<Rightarrow> nat \<Rightarrow> str option \<Rightarrow>
    (str option + (pairing_error + project_ref)) pairing" where
  "choice_round wait projects whole deadline seen = do {
     t \<leftarrow> now;
     if deadline \<le> t then State_Monad.return (Inr (Inl (ProjectNotChosen whole)))
     else do {
       sleep (min (wait_poll wait) (deadline - t));
       choice_look projects deadline seen
     }
   }"

definition wait_for_project :: "nat \<Rightarrow> pairing_config \<Rightarrow> project_wait \<Rightarrow> project_ref list \<Rightarrow> str option \<Rightarrow> nat option \<Rightarrow>
    (pairing_error + project_ref) option pairing" where
  "wait_for_project rounds cfg wait projects configured token_expires = do {
     started \<leftarrow> now;
     (let deadline = choice_deadline cfg wait started token_expires;
          seen = Option.bind configured normalize_project
      in do {
        on_event (ChooseProject (map choice_of projects) seen (deadline - started));
        repeat_io rounds (choice_round wait projects (deadline - started) deadline) seen
      })
   }"

section \<open>The service account\<close>

record service_account_ref =
  sr_name :: str
  sr_uid :: str
  sr_email :: str

definition service_accounts_path :: "str \<Rightarrow> str" where
  "service_accounts_path project = project_cp project @ ''/apis/'' @ IAM @ ''/serviceaccounts''"

definition get_service_account :: "'key pairing_env \<Rightarrow> api \<Rightarrow> str \<Rightarrow> str \<Rightarrow>
    (pairing_error + service_account_ref option) pairing" where
  "get_service_account env a project name = (let what = ''reading service account '' @ name in
     try_bind (api_call env a ''GET'' (service_accounts_path project @ ''/'' @ name) None what) (\<lambda>r.
       State_Monad.return (
         if rp_status r = 404 then Inr None
         else if \<not> is_success (rp_status r) then Inl (api_failed env a what r)
         else Inr (Some \<lparr>sr_name = name, sr_uid = text_at [''metadata'', ''uid''] (rp_body r),
                sr_email = text_at [''status'', ''email''] (rp_body r)\<rparr>))))"

definition sa_annotations :: "pairing_config \<Rightarrow> json" where
  "sa_annotations cfg = JObj (obj_of ((''connect.datum.net/created-by'', JStr ''datum-connect-ha-addon'') #
     (case device_name cfg of Some d \<Rightarrow> [(''datum.net/device-name'', JStr d)] | None \<Rightarrow> [])))"

definition sa_body :: "pairing_config \<Rightarrow> str \<Rightarrow> json" where
  "sa_body cfg name = JObj (obj_of [(''apiVersion'', JStr IAM), (''kind'', JStr ''ServiceAccount''),
     (''metadata'', JObj (obj_of [(''name'', JStr name), (''annotations'', sa_annotations cfg)]))])"

text \<open>Waiting for its email: Inl means it was not given one yet.\<close>

fun settle_service_account :: "nat \<Rightarrow> 'key pairing_env \<Rightarrow> pairing_config \<Rightarrow> api \<Rightarrow> str \<Rightarrow> str \<Rightarrow> str \<Rightarrow>
    (pairing_error + service_account_ref option) pairing" where
  "settle_service_account 0 env cfg a project name created_uid = State_Monad.return (Inr None)"
| "settle_service_account (Suc n) env cfg a project name created_uid =
     try_bind (get_service_account env a project name) (\<lambda>found.
       case found of
         Some sa \<Rightarrow>
           if sr_email sa \<noteq> [] then State_Monad.return (Inr (Some (if sr_uid sa = [] then sa\<lparr>sr_uid := created_uid\<rparr> else sa)))
           else do { sleep (tick cfg); settle_service_account n env cfg a project name created_uid }
       | None \<Rightarrow> do { sleep (tick cfg); settle_service_account n env cfg a project name created_uid })"

fun try_names :: "nat \<Rightarrow> 'key pairing_env \<Rightarrow> pairing_config \<Rightarrow> api \<Rightarrow> str \<Rightarrow> (pairing_error + service_account_ref) pairing" where
  "try_names 0 env cfg a project = State_Monad.return (Inl (PairingFailed (''creating a service account in project '' @ project @
     '' failed: three random names in a row were taken'')))"
| "try_names (Suc n) env cfg a project = do {
     suffix \<leftarrow> random_suffix 5;
     (let name = SA_NAME_PREFIX @ suffix; what = ''creating a service account in project '' @ project in
      try_bind (api_call env a ''POST'' (service_accounts_path project) (Some (sa_body cfg name)) what) (\<lambda>r.
        if rp_status r = 409 then try_names n env cfg a project
        else if rp_status r = 403 then State_Monad.return (Inl (PairingFailed (redact
          (''Your Datum login may not create service accounts in project '' @ project @
           '' (HTTP 403). Approve with an account that is an owner or editor of the project, or use your own service account key (see the add-on's documentation).'')
          (api_token a))))
        else if \<not> is_success (rp_status r) then State_Monad.return (Inl (api_failed env a what r))
        else try_bind (settle_service_account SETTLE_TICKS env cfg a project name
               (text_at [''metadata'', ''uid''] (rp_body r))) (\<lambda>settled.
          State_Monad.return (case settled of Some sa \<Rightarrow> Inr sa
            | None \<Rightarrow> Inl (PairingFailed (''Created service account '' @ name @ '' in project '' @ project @
                '', but it was not given an email within a minute. Delete it in the portal and restart.''))))))
   }"

definition create_service_account :: "'key pairing_env \<Rightarrow> pairing_config \<Rightarrow> api \<Rightarrow> str \<Rightarrow>
    (pairing_error + service_account_ref) pairing" where
  "create_service_account env cfg a project = try_names 3 env cfg a project"

section \<open>The grant\<close>

definition binding_body :: "project_ref \<Rightarrow> service_account_ref \<Rightarrow> str \<Rightarrow> str \<Rightarrow> json" where
  "binding_body project sa namespace name = JObj (obj_of [
     (''apiVersion'', JStr IAM), (''kind'', JStr ''PolicyBinding''),
     (''metadata'', JObj (obj_of [(''name'', JStr name), (''namespace'', JStr namespace)])),
     (''spec'', JObj (obj_of [
        (''resourceSelector'', JObj (obj_of [(''resourceRef'', JObj (obj_of [
            (''apiGroup'', JStr ''resourcemanager.miloapis.com''), (''kind'', JStr ''Project''),
            (''name'', JStr (pr_name project)), (''uid'', JStr (pr_uid project))]))])),
        (''roleRef'', JObj (obj_of [(''name'', JStr ''editor''), (''namespace'', JStr ''datum-cloud'')])),
        (''subjects'', JArr [JObj (obj_of [(''kind'', JStr ''ServiceAccount''), (''name'', JStr (sr_name sa)),
            (''uid'', JStr (sr_uid sa))])])]))])"

definition ready_condition :: "json \<Rightarrow> json option" where
  "ready_condition body = (case Option.bind (pointer [''status'', ''conditions''] body) as_array of None \<Rightarrow> None
     | Some cs \<Rightarrow> find (\<lambda>c. Option.bind (get c ''type'') as_str = Some ''Ready'') cs)"

fun settle_binding :: "nat \<Rightarrow> 'key pairing_env \<Rightarrow> pairing_config \<Rightarrow> api \<Rightarrow> str \<Rightarrow> str \<Rightarrow> str \<Rightarrow> str \<Rightarrow> (pairing_error + unit) pairing" where
  "settle_binding 0 env cfg a path1 name what last1 = State_Monad.return (Inl (PairingFailed (redact
     (''Created policy binding '' @ name @ '', but it did not become ready within a minute'' @
      (if last1 = [] then [] else '': '' @ last1)) (api_token a))))"
| "settle_binding (Suc n) env cfg a path1 name what last1 =
     try_bind (api_call env a ''GET'' (path1 @ ''/'' @ name) None what) (\<lambda>r.
       if \<not> is_success (rp_status r) then State_Monad.return (Inl (api_failed env a what r))
       else (case ready_condition (rp_body r) of
           Some ready \<Rightarrow>
             if Option.bind (get ready ''status'') as_str = Some ''True'' then State_Monad.return (Inr ())
             else do { sleep (tick cfg); settle_binding n env cfg a path1 name what (text_at [''message''] ready) }
         | None \<Rightarrow> do { sleep (tick cfg); settle_binding n env cfg a path1 name what last1 }))"

definition grant_access :: "'key pairing_env \<Rightarrow> pairing_config \<Rightarrow> api \<Rightarrow> project_ref \<Rightarrow> service_account_ref \<Rightarrow>
    (pairing_error + unit) pairing" where
  "grant_access env cfg a project sa =
     (let namespace = ''organization-'' @ pr_org project;
          name = pr_name project @ ''-'' @ sr_name sa;
          path1 = org_cp (pr_org project) @ ''/apis/'' @ IAM @ ''/namespaces/'' @ namespace @ ''/policybindings'';
          what = ''granting '' @ sr_email sa @ '' access to project '' @ pr_name project
      in try_bind (api_call env a ''POST'' path1 (Some (binding_body project sa namespace name)) what) (\<lambda>r.
           if is_success (rp_status r) \<or> rp_status r = 409
           then settle_binding SETTLE_TICKS env cfg a path1 name what []
           else if rp_status r = 403 then State_Monad.return (Inl (BindingForbidden (sr_email sa) (pr_name project)))
           else State_Monad.return (Inl (api_failed env a what r))))"

section \<open>The key\<close>

definition unusable_key :: "str \<Rightarrow> pairing_error" where
  "unusable_key why = PairingFailed (''Datum returned a key that is not usable: '' @ why)"

definition validate_key :: "'key pairing_env \<Rightarrow> str \<Rightarrow> str \<Rightarrow> pairing_error + unit" where
  "validate_key env raw iss =
     (case parse_json (libs env) raw of None \<Rightarrow> Inl (unusable_key ''not JSON'')
      | Some v \<Rightarrow>
         if Option.bind (get v ''type'') as_str \<noteq> Some KEY_TYPE then Inl (unusable_key ''wrong type'')
         else (case find (\<lambda>f. case Option.bind (get v f) as_str of None \<Rightarrow> True | Some s \<Rightarrow> s = [])
                      [''client_id'', ''private_key_id'', ''private_key'', ''scope''] of
                 Some field \<Rightarrow> Inl (unusable_key (''no '' @ field))
               | None \<Rightarrow> (case from_json (sa_of env) raw iss of
                   Inl e \<Rightarrow> Inl (unusable_key (show_sa_error env e)) | Inr _ \<Rightarrow> Inr ())))"

definition key_body :: "str \<Rightarrow> str \<Rightarrow> str \<Rightarrow> json" where
  "key_body name email expires = JObj (obj_of [(''apiVersion'', JStr IDENTITY), (''kind'', JStr ''ServiceAccountKey''),
     (''metadata'', JObj (obj_of [(''name'', JStr name)])),
     (''spec'', JObj (obj_of [(''serviceAccountUserName'', JStr email), (''expirationDate'', JStr expires)]))])"

fun try_keys :: "nat \<Rightarrow> bool \<Rightarrow> 'key pairing_env \<Rightarrow> pairing_config \<Rightarrow> api \<Rightarrow> str \<Rightarrow> service_account_ref \<Rightarrow> str \<Rightarrow>
    (pairing_error + str) pairing" where
  "try_keys 0 first env cfg a project sa expires = State_Monad.return (Inl (PairingFailed (''creating a key for '' @ sr_email sa @
     '' failed: three key names in a row were taken'')))"
| "try_keys (Suc n) first env cfg a project sa expires = do {
     suffix \<leftarrow> (if first then State_Monad.return [] else random_suffix 5);
     (let name = (if first then sr_name sa @ ''-key'' else sr_name sa @ ''-key-'' @ suffix);
          what = ''creating a key for '' @ sr_email sa
      in try_bind (api_call env a ''POST'' (project_cp project @ ''/apis/'' @ IDENTITY @ ''/serviceaccountkeys'')
             (Some (key_body name (sr_email sa) expires)) what) (\<lambda>r.
           if rp_status r = 409 then try_keys n False env cfg a project sa expires
           else if \<not> is_success (rp_status r) then State_Monad.return (Inl (api_failed env a what r))
           else State_Monad.return (case str_at [''status'', ''privateKey''] (rp_body r) of
               None \<Rightarrow> Inl (PairingFailed (''Created key '' @ name @ '' for '' @ sr_email sa @
                 '', but Datum did not return it. Delete the key in the portal and restart.''))
             | Some key \<Rightarrow> (case validate_key env key (issuer cfg) of Inl e \<Rightarrow> Inl e | Inr _ \<Rightarrow> Inr key))))
   }"

definition DAY_MS :: int where "DAY_MS = 24 * 60 * 60 * 1000"

definition create_key :: "'key pairing_env \<Rightarrow> pairing_config \<Rightarrow> api \<Rightarrow> str \<Rightarrow> service_account_ref \<Rightarrow> (pairing_error + str) pairing" where
  "create_key env cfg a project sa = do {
     wall \<leftarrow> wall_clock;
     try_keys 3 True env cfg a project sa
       (show_rfc3339_secs (libs env) (wall + int KEY_LIFETIME_DAYS * DAY_MS))
   }"

section \<open>Provisioning\<close>

definition save_pending :: "'key pairing_env \<Rightarrow> path \<Rightarrow> pending \<Rightarrow> (pairing_error + unit) pairing" where
  "save_pending env p state1 = do {
     r \<leftarrow> write_private_file p (show_json (libs env) (pending_json state1));
     State_Monad.return (case r of Inr _ \<Rightarrow> Inr ()
       | Inl e \<Rightarrow> Inl (PairingFailed (''cannot save pairing progress to '' @ p @ '': '' @ e)))
   }"

text \<open>Keeping the login for the next start, best effort.\<close>

definition keep_login :: "'key pairing_env \<Rightarrow> pairing_config \<Rightarrow> bool \<Rightarrow> login \<Rightarrow> project_ref list \<Rightarrow> unit pairing" where
  "keep_login env cfg resumed lg projects =
     (case (resumed, session_path cfg) of
        (False, Some p) \<Rightarrow> do {
          t \<leftarrow> now;
          wall \<leftarrow> wall_clock;
          (case save_session (libs env) (tick cfg) t wall lg projects of
             None \<Rightarrow> skip
           | Some raw \<Rightarrow> do { _ \<leftarrow> write_private_file p raw; skip })
        }
      | _ \<Rightarrow> skip)"

text \<open>Which project: confirmed, already set, or waited for. None is running out of rounds.\<close>

definition pick_project :: "nat \<Rightarrow> 'key pairing_env \<Rightarrow> pairing_config \<Rightarrow> login \<Rightarrow> str option \<Rightarrow> bool \<Rightarrow> project_ref list \<Rightarrow>
    (pairing_error + project_ref) option pairing" where
  "pick_project rounds env cfg lg wanted resumed projects =
     (case cfg_wait cfg of
        Some wait \<Rightarrow>
          if confirm_project cfg \<and> projects \<noteq> [] then do {
            keep_login env cfg resumed lg projects;
            wait_for_project rounds cfg wait projects None (lg_expires lg)
          } else (case choose_project projects wanted of
              Inr p \<Rightarrow> State_Monad.return (Some (Inr p))
            | Inl e \<Rightarrow>
                if projects \<noteq> [] then do {
                  keep_login env cfg resumed lg projects;
                  wait_for_project rounds cfg wait projects wanted (lg_expires lg)
                } else State_Monad.return (Some (Inl e)))
      | None \<Rightarrow> State_Monad.return (Some (choose_project projects wanted)))"

text \<open>The service account of an earlier attempt, if it is still the one it was.\<close>

definition earlier_account :: "'key pairing_env \<Rightarrow> api \<Rightarrow> project_ref \<Rightarrow> pending option \<Rightarrow>
    (pairing_error + (service_account_ref \<times> bool) option) pairing" where
  "earlier_account env a project pd =
     (case pd of
        None \<Rightarrow> State_Monad.return (Inr None)
      | Some p \<Rightarrow> if pd_project p \<noteq> pr_name project then State_Monad.return (Inr None)
          else try_bind (get_service_account env a (pr_name project) (pd_service_account p)) (\<lambda>found.
            case found of
              Some sa \<Rightarrow>
                if sr_uid sa = pd_uid p \<and> sr_email sa \<noteq> [] then do {
                  on_event (ServiceAccountReused (sr_email sa) (pr_name project));
                  State_Monad.return (Inr (Some (sa, pd_refused p)))
                } else State_Monad.return (Inr None)
            | None \<Rightarrow> State_Monad.return (Inr None)))"

definition account_for :: "'key pairing_env \<Rightarrow> pairing_config \<Rightarrow> api \<Rightarrow> project_ref \<Rightarrow> (service_account_ref \<times> bool) option \<Rightarrow>
    (pairing_error + service_account_ref \<times> bool) pairing" where
  "account_for env cfg a project earlier =
     (case earlier of
        Some x \<Rightarrow> State_Monad.return (Inr x)
      | None \<Rightarrow> try_bind (create_service_account env cfg a (pr_name project)) (\<lambda>sa. do {
          on_event (ServiceAccountCreated (sr_email sa) (pr_name project));
          State_Monad.return (Inr (sa, False))
        }))"

text \<open>The grant; a second refusal is taken for a grant an owner made.\<close>

definition grant_or_go_on :: "'key pairing_env \<Rightarrow> pairing_config \<Rightarrow> api \<Rightarrow> project_ref \<Rightarrow> service_account_ref \<Rightarrow> bool \<Rightarrow>
    pending \<Rightarrow> (pairing_error + unit) pairing" where
  "grant_or_go_on env cfg a project sa refused_before state1 = do {
     granted \<leftarrow> grant_access env cfg a project sa;
     (case granted of
        Inr _ \<Rightarrow> do { on_event AccessGranted; State_Monad.return (Inr ()) }
      | Inl (BindingForbidden e p) \<Rightarrow>
          if refused_before then do {
            on_event (AccessNotConfirmed (sr_email sa) (pr_name project));
            State_Monad.return (Inr ())
          } else try_bind (save_pending env (pending_path (key_out cfg)) (state1\<lparr>pd_refused := True\<rparr>)) (\<lambda>_.
            State_Monad.return (Inl (BindingForbidden e p)))
      | Inl e \<Rightarrow> State_Monad.return (Inl e))
   }"

definition save_key :: "pairing_config \<Rightarrow> project_ref \<Rightarrow> service_account_ref \<Rightarrow> str \<Rightarrow> (pairing_error + paired_key) pairing" where
  "save_key cfg project sa key = do {
     written \<leftarrow> write_private_file (key_out cfg) key;
     (case written of
        Inl e \<Rightarrow> State_Monad.return (Inl (PairingFailed (''cannot save the key to '' @ key_out cfg @ '': '' @ e)))
      | Inr _ \<Rightarrow> do {
          delete_file (pending_path (key_out cfg));
          on_event (KeySaved (key_out cfg));
          State_Monad.return (Inr \<lparr>pk_path = key_out cfg, pk_email = sr_email sa, pk_project = pr_name project,
            pk_org = pr_org project\<rparr>)
        })
   }"

definition with_project :: "'key pairing_env \<Rightarrow> pairing_config \<Rightarrow> api \<Rightarrow> project_ref \<Rightarrow> (pairing_error + paired_key) pairing" where
  "with_project env cfg a project = do {
     on_event (ProjectSelected (pr_name project) (pr_org project));
     content \<leftarrow> read_text (pending_path (key_out cfg));
     try_bind (earlier_account env a project (load_pending (libs env) content)) (\<lambda>earlier.
     try_bind (account_for env cfg a project earlier) (\<lambda>(sa, refused_before).
       (let state1 = \<lparr>pd_project = pr_name project, pd_service_account = sr_name sa, pd_uid = sr_uid sa,
              pd_email = sr_email sa, pd_refused = refused_before\<rparr>
        in try_bind (save_pending env (pending_path (key_out cfg)) state1) (\<lambda>_.
           try_bind (grant_or_go_on env cfg a project sa refused_before state1) (\<lambda>_.
           try_bind (create_key env cfg a (pr_name project) sa) (\<lambda>key.
             save_key cfg project sa key))))))
   }"

definition provision :: "nat \<Rightarrow> 'key pairing_env \<Rightarrow> pairing_config \<Rightarrow> api \<Rightarrow> login \<Rightarrow> str option \<Rightarrow> project_ref list option \<Rightarrow>
    (pairing_error + paired_key) option pairing" where
  "provision rounds env cfg a lg wanted known = do {
     listed \<leftarrow> (case known of Some ps \<Rightarrow> State_Monad.return (Inr ps) | None \<Rightarrow> list_projects env a (lg_sub lg));
     (case listed of
        Inl e \<Rightarrow> State_Monad.return (Some (Inl e))
      | Inr projects \<Rightarrow> do {
          picked \<leftarrow> pick_project rounds env cfg lg wanted (known \<noteq> None) projects;
          (case picked of
             None \<Rightarrow> State_Monad.return None
           | Some (Inl e) \<Rightarrow> State_Monad.return (Some (Inl e))
           | Some (Inr project) \<Rightarrow> do { r \<leftarrow> with_project env cfg a project; State_Monad.return (Some r) })
        })
   }"

section \<open>Pairing\<close>

definition base_url :: "pairing_config \<Rightarrow> str" where
  "base_url cfg = trim_end_char (CHR ''/'') (api_url cfg)"

definition who :: "login \<Rightarrow> str" where
  "who lg = (case lg_email lg of Some e \<Rightarrow> e | None \<Rightarrow> lg_sub lg)"

definition fresh_pairing :: "nat \<Rightarrow> 'key pairing_env \<Rightarrow> pairing_config \<Rightarrow> str option \<Rightarrow> (pairing_error + paired_key) option pairing" where
  "fresh_pairing rounds env cfg wanted = do {
     logged_in \<leftarrow> device_login rounds env cfg;
     (case logged_in of
        None \<Rightarrow> State_Monad.return None
      | Some (Inl e) \<Rightarrow> State_Monad.return (Some (Inl e))
      | Some (Inr lg) \<Rightarrow> do {
          on_event (Approved (who lg));
          provision rounds env cfg \<lparr>api_base = base_url cfg, api_token = lg_token lg, api_reused = False\<rparr> lg wanted None
        })
   }"

definition pair_inner :: "nat \<Rightarrow> 'key pairing_env \<Rightarrow> pairing_config \<Rightarrow> (pairing_error + paired_key) option pairing" where
  "pair_inner rounds env cfg = do {
     there \<leftarrow> file_exists (key_out cfg);
     if there then State_Monad.return (Some (Inl (KeyExists (key_out cfg))))
     else (let wanted = Option.bind (cfg_project cfg) normalize_project in
       case (case (wanted, cfg_wait cfg) of (Some p, None) \<Rightarrow> check_name (libs env) ''project'' p | _ \<Rightarrow> Inr ()) of
         Inl e \<Rightarrow> State_Monad.return (Some (Inl e))
       | Inr _ \<Rightarrow>
          (case session_path cfg of
             None \<Rightarrow> fresh_pairing rounds env cfg wanted
           | Some p \<Rightarrow> do {
               content \<leftarrow> read_text p;
               t \<leftarrow> now;
               wall \<leftarrow> wall_clock;
               (case load_session (libs env) t wall content of
                  Missing \<Rightarrow> fresh_pairing rounds env cfg wanted
                | Unusable reason \<Rightarrow> do {
                    remove_session p;
                    on_event (SessionDropped reason);
                    fresh_pairing rounds env cfg wanted
                  }
                | Loaded lg projects \<Rightarrow> do {
                    on_event (Resumed (who lg));
                    r \<leftarrow> provision rounds env cfg \<lparr>api_base = base_url cfg, api_token = lg_token lg, api_reused = True\<rparr>
                           lg wanted (Some projects);
                    if r = Some (Inl SavedLoginRejected) then do {
                      remove_session p;
                      on_event (SessionDropped ''Datum no longer accepts its saved login (HTTP 401)'');
                      fresh_pairing rounds env cfg wanted
                    } else State_Monad.return r
                  })
             }))
   }"

definition pair :: "nat \<Rightarrow> 'key pairing_env \<Rightarrow> pairing_config \<Rightarrow> (pairing_error + paired_key) option pairing" where
  "pair rounds env cfg = do {
     r \<leftarrow> pair_inner rounds env cfg;
     (case session_path cfg of Some p \<Rightarrow> remove_session p | None \<Rightarrow> skip);
     State_Monad.return r
   }"

end
