(* ===== verification/Setup.thy ===== *)
theory Setup
  imports Pairing
begin

text \<open>
  \<^verbatim>\<open>pairing_setup.rs\<close>: pairing driven from a page. The controller keeps what the page shows, which run is
  current, the page's choice, and the outcome; every operation of a page and everything a run reports is one
  function on it. Runs are numbered; the numbers do not reach the width of the counter. Times are milliseconds
  of the monotonic clock, without its upper bound.
\<close>

datatype phase = Idle | Starting | PhaseCode | PhaseApproved | Choose | Working | PhaseDone | PhaseFailed

record code_view =
  cv_url :: str
  cv_user_code :: str
  cv_prefilled :: bool
  cv_expires_in_secs :: nat
  cv_remaining_secs :: nat
  cv_expires_at :: nat

record project_view =
  pv_id :: str
  pv_display :: str
  pv_org :: str

definition project_view_of :: "project_choice \<Rightarrow> project_view" where
  "project_view_of p = \<lparr>pv_id = choice_id p, pv_display = choice_display p, pv_org = choice_org p\<rparr>"

record made_steps =
  did_account :: bool
  did_access :: bool
  did_key :: bool

datatype error_kind = KindExpired | KindDenied | KindForbidden | KindFailed

record error_view =
  ev_kind :: error_kind
  ev_message :: str

record setup_status =
  phase :: phase
  code_of :: "code_view option"
  code_renewed :: bool
  email_of :: "str option"
  projects_of :: "project_view list"
  suggested :: "str option"
  project_of1 :: "str option"
  org_of :: "str option"
  account_of :: "str option"
  steps_of :: made_steps
  error_of :: "error_view option"

definition new_status :: "phase \<Rightarrow> str option \<Rightarrow> setup_status" where
  "new_status ph sug = \<lparr>phase = ph, code_of = None, code_renewed = False, email_of = None, projects_of = [],
     suggested = sug, project_of1 = None, org_of = None, account_of = None,
     steps_of = \<lparr>did_account = False, did_access = False, did_key = False\<rparr>, error_of = None\<rparr>"

definition running :: "setup_status \<Rightarrow> bool" where
  "running s \<longleftrightarrow> phase s \<in> {Starting, PhaseCode, PhaseApproved, Choose, Working}"

datatype choose_error = NotChoosing | Unknown
datatype restart_error = AlreadyApproved | AlreadyDone

text \<open>What the observer is told, in order.\<close>

datatype told = ToldEvent pairing_event | ToldOutcome "pairing_error + paired_key" | ToldRestarted

record controller =
  status_of :: setup_status
  run_no :: nat
  page :: "str option"
  task :: "nat option"
  paired_with :: "paired_key option"
  initial :: "str option"
  last_fallback :: "(nat \<times> str option) option"
  told_of :: "told list"

definition new_controller :: "str option \<Rightarrow> controller" where
  "new_controller project = (let sug = Option.bind project normalize_project
     in \<lparr>status_of = new_status Idle sug, run_no = 0, page = None, task = None, paired_with = None,
         initial = sug, last_fallback = None, told_of = []\<rparr>)"

section \<open>What a page does\<close>

definition status_view :: "nat \<Rightarrow> controller \<Rightarrow> setup_status" where
  "status_view t c = (let s = status_of c in
     s\<lparr>code_of := map_option (\<lambda>v. v\<lparr>cv_remaining_secs := (cv_expires_at v - t) div 1000\<rparr>) (code_of s)\<rparr>)"

definition spawn_run :: "controller \<Rightarrow> controller" where
  "spawn_run c = c\<lparr>run_no := run_no c + 1, status_of := new_status Starting (suggested (status_of c)), page := None,
     task := Some (run_no c + 1)\<rparr>"

definition start :: "controller \<Rightarrow> controller" where
  "start c = (if running (status_of c) \<or> phase (status_of c) = PhaseDone then c else spawn_run c)"

definition restart :: "controller \<Rightarrow> restart_error + controller" where
  "restart c = (case phase (status_of c) of
       Starting \<Rightarrow> Inr ((spawn_run c)\<lparr>told_of := told_of c @ [ToldRestarted]\<rparr>)
     | PhaseCode \<Rightarrow> Inr ((spawn_run c)\<lparr>told_of := told_of c @ [ToldRestarted]\<rparr>)
     | Idle \<Rightarrow> Inr (spawn_run c)
     | PhaseFailed \<Rightarrow> Inr (spawn_run c)
     | PhaseDone \<Rightarrow> Inl AlreadyDone
     | _ \<Rightarrow> Inl AlreadyApproved)"

definition choose_listed :: "str \<Rightarrow> controller \<Rightarrow> choose_error + controller" where
  "choose_listed project c =
     (if phase (status_of c) \<noteq> Choose then Inl NotChoosing
      else (case normalize_project project of
          None \<Rightarrow> Inl Unknown
        | Some wanted \<Rightarrow>
            (case find (\<lambda>p. eq_ignore_case (pv_id p) wanted) (projects_of (status_of c)) of
               None \<Rightarrow> Inl Unknown
             | Some p \<Rightarrow> Inr (c\<lparr>page := Some (pv_id p),
                 status_of := (status_of c)\<lparr>phase := Working, project_of1 := Some (pv_id p), org_of := Some (pv_org p)\<rparr>\<rparr>))))"

text \<open>\<^verbatim>\<open>stop\<close> only ends the task: the status stays as it was.\<close>

definition stop :: "controller \<Rightarrow> controller" where
  "stop c = c\<lparr>task := None\<rparr>"

section \<open>What a run reports\<close>

definition record_event :: "nat \<Rightarrow> pairing_event \<Rightarrow> setup_status \<Rightarrow> setup_status" where
  "record_event t event s =
     (case event of
        Code url shown prefilled lasts \<Rightarrow>
          s\<lparr>phase := PhaseCode, code_of := Some \<lparr>cv_url = url, cv_user_code = shown, cv_prefilled = prefilled,
              cv_expires_in_secs = lasts div 1000, cv_remaining_secs = lasts div 1000,
              cv_expires_at = t + lasts\<rparr>\<rparr>
      | CodeExpired \<Rightarrow> s\<lparr>code_renewed := True\<rparr>
      | Approved email \<Rightarrow> s\<lparr>phase := PhaseApproved, code_of := None, email_of := Some email\<rparr>
      | Resumed email \<Rightarrow> s\<lparr>phase := PhaseApproved, code_of := None, email_of := Some email\<rparr>
      | SessionDropped _ \<Rightarrow> s
      | ChooseProject listed _ _ \<Rightarrow>
          s\<lparr>phase := (if phase s \<noteq> Working then Choose else phase s), projects_of := map project_view_of listed\<rparr>
      | ProjectSelected project org \<Rightarrow> s\<lparr>phase := Working, project_of1 := Some project, org_of := Some org\<rparr>
      | ServiceAccountCreated email _ \<Rightarrow>
          s\<lparr>phase := Working, account_of := Some email, steps_of := (steps_of s)\<lparr>did_account := True\<rparr>\<rparr>
      | ServiceAccountReused email _ \<Rightarrow>
          s\<lparr>phase := Working, account_of := Some email, steps_of := (steps_of s)\<lparr>did_account := True\<rparr>\<rparr>
      | AccessGranted \<Rightarrow> s\<lparr>steps_of := (steps_of s)\<lparr>did_access := True\<rparr>\<rparr>
      | AccessNotConfirmed _ _ \<Rightarrow> s\<lparr>steps_of := (steps_of s)\<lparr>did_access := True\<rparr>\<rparr>
      | KeySaved _ \<Rightarrow> s\<lparr>steps_of := (steps_of s)\<lparr>did_key := True\<rparr>\<rparr>)"

definition apply_event :: "nat \<Rightarrow> nat \<Rightarrow> pairing_event \<Rightarrow> controller \<Rightarrow> bool \<times> controller" where
  "apply_event run t event c =
     (if run_no c \<noteq> run then (False, c) else (True, c\<lparr>status_of := record_event t event (status_of c)\<rparr>))"

text \<open>\<open>show_error\<close> is the error's own words, its \<^verbatim>\<open>Display\<close>.\<close>

definition error_view_of :: "(pairing_error \<Rightarrow> str) \<Rightarrow> pairing_error \<Rightarrow> error_view" where
  "error_view_of show_error e =
     (case e of
        TimedOut _ \<Rightarrow> \<lparr>ev_kind = KindExpired, ev_message = ''The code expired before it was approved.''\<rparr>
      | ProjectNotChosen _ \<Rightarrow> \<lparr>ev_kind = KindExpired, ev_message =
          ''No project was chosen in time, and the sign-in is no longer good. Sign in again to continue.''\<rparr>
      | Denied \<Rightarrow> \<lparr>ev_kind = KindDenied, ev_message = ''The request was declined on the Datum approval page.''\<rparr>
      | BindingForbidden email project \<Rightarrow> \<lparr>ev_kind = KindForbidden, ev_message =
          ''Your Datum login can create the service account but can't grant it access. Ask an organization owner or '' @
          ''editor to grant role 'editor' to service account '' @ email @ '' on project '' @ project @
          '', then click Try again.''\<rparr>
      | other \<Rightarrow> \<lparr>ev_kind = KindFailed, ev_message = show_error other\<rparr>)"

definition record_result :: "(pairing_error \<Rightarrow> str) \<Rightarrow> pairing_error + paired_key \<Rightarrow> setup_status \<Rightarrow> setup_status" where
  "record_result show_error result s =
     (case result of
        Inr key \<Rightarrow> s\<lparr>phase := PhaseDone, project_of1 := Some (pk_project key), org_of := Some (pk_org key),
          account_of := Some (pk_email key), error_of := None\<rparr>
      | Inl e \<Rightarrow> s\<lparr>phase := PhaseFailed, code_of := None, error_of := Some (error_view_of show_error e)\<rparr>)"

definition finish :: "(pairing_error \<Rightarrow> str) \<Rightarrow> nat \<Rightarrow> pairing_error + paired_key \<Rightarrow> controller \<Rightarrow> bool \<times> controller" where
  "finish show_error run result c =
     (if run_no c \<noteq> run then (False, c)
      else (True, c\<lparr>status_of := record_result show_error result (status_of c)\<rparr>))"

text \<open>The body of a run's task: an event, and the end.\<close>

definition run_event :: "nat \<Rightarrow> nat \<Rightarrow> pairing_event \<Rightarrow> controller \<Rightarrow> controller" where
  "run_event run t event c = (let (recorded, c') = apply_event run t event c
     in if recorded then c'\<lparr>told_of := told_of c' @ [ToldEvent event]\<rparr> else c')"

definition run_end :: "(pairing_error \<Rightarrow> str) \<Rightarrow> nat \<Rightarrow> pairing_error + paired_key \<Rightarrow> controller \<Rightarrow> controller" where
  "run_end show_error run result c =
     (let (recorded, c') = finish show_error run result c;
          c'' = (if recorded then c'\<lparr>told_of := told_of c' @ [ToldOutcome result]\<rparr> else c')
      in case result of Inr key \<Rightarrow> c''\<lparr>paired_with := Some key\<rparr> | Inl _ \<Rightarrow> c'')"

section \<open>Where a choice comes from\<close>

text \<open>
  \<^verbatim>\<open>PageSource::project\<close> at time \<open>t\<close>: the page's choice; without a fallback nothing; what the
  fallback said within the last interval; or the fallback is to be asked, and \<open>fallback_said\<close> is what follows
  its answer.
\<close>

datatype source_look = Found "str option" | AskFallback

definition news :: "controller \<Rightarrow> str option \<Rightarrow> str option" where
  "news c v = (case v of Some x \<Rightarrow> if Some x \<noteq> initial c then Some x else None | None \<Rightarrow> None)"

definition look_at_page :: "bool \<Rightarrow> nat \<Rightarrow> nat \<Rightarrow> controller \<Rightarrow> source_look" where
  "look_at_page fallback every t c =
     (case page c of
        Some p \<Rightarrow> Found (Some p)
      | None \<Rightarrow>
         if \<not> fallback then Found None
         else (case last_fallback c of
             Some (at1, v) \<Rightarrow> if t - at1 < every then Found (news c v) else AskFallback
           | None \<Rightarrow> AskFallback))"

definition fallback_said :: "nat \<Rightarrow> str + str option \<Rightarrow> controller \<Rightarrow> str option \<times> controller" where
  "fallback_said t answer c =
     (let v = (case answer of Inr x \<Rightarrow> Option.bind x normalize_project | Inl _ \<Rightarrow> None)
      in (news c v, c\<lparr>last_fallback := Some (t, v)\<rparr>))"

end
