(* ===== verification/Event_Order.thy ===== *)
theory Event_Order
  imports Pairing_Facts
begin

text \<open>
  The order in which pairing reports its events, whatever it is answered: an automaton that reads a trace, rules
  that carry its state through a computation, and the proof that every part of pairing follows it.
\<close>

section \<open>Traces read by an automaton\<close>

definition then_on :: "('s \<Rightarrow> 'q \<Rightarrow> 's option) \<Rightarrow> ('q, 'r) event \<Rightarrow> 's option \<Rightarrow> 's option" where
  "then_on d e x = Option.bind x (\<lambda>s. d s (request e))"

definition stands :: "('s \<Rightarrow> 'q \<Rightarrow> 's option) \<Rightarrow> 's \<Rightarrow> ('q, 'r) event list \<Rightarrow> 's option" where
  "stands d s0 es = fold (then_on d) es (Some s0)"

lemma stands_Nil [simp]: "stands d s0 [] = Some s0"
  by (simp add: stands_def)

lemma stands_snoc [simp]: "stands d s0 (es @ [e]) = Option.bind (stands d s0 es) (\<lambda>s. d s (request e))"
  by (simp add: stands_def then_on_def)

lemma stands_quiet: "\<forall>e \<in> set es. \<forall>s. d s (request e) = Some s \<Longrightarrow> stands d s0 (fs @ es) = stands d s0 fs"
  by (induction es rule: rev_induct) (auto simp: simp flip: append_assoc split: option.split)

text \<open>A computation takes the automaton from a state of \<open>A\<close> to a state of \<open>B\<close> of its result.\<close>

definition moves :: "('s \<Rightarrow> 'q \<Rightarrow> 's option) \<Rightarrow> 's set \<Rightarrow> ('q, 'r, 'a) io \<Rightarrow> ('a \<Rightarrow> 's set) \<Rightarrow> bool" where
  "moves d A m B \<longleftrightarrow> (\<forall>s0 w s a v. stands d s0 (trace w) = Some s \<longrightarrow> s \<in> A \<longrightarrow> run_state m w = (a, v) \<longrightarrow>
     (\<exists>t \<in> B a. stands d s0 (trace v) = Some t))"

lemma movesD: "moves d A m B \<Longrightarrow> stands d s0 (trace w) = Some s \<Longrightarrow> s \<in> A \<Longrightarrow> run_state m w = (a, v) \<Longrightarrow>
    \<exists>t \<in> B a. stands d s0 (trace v) = Some t"
  unfolding moves_def by blast

lemma movesI: "(\<And>s0 w s a v. stands d s0 (trace w) = Some s \<Longrightarrow> s \<in> A \<Longrightarrow> run_state m w = (a, v) \<Longrightarrow>
    \<exists>t \<in> B a. stands d s0 (trace v) = Some t) \<Longrightarrow> moves d A m B"
  unfolding moves_def by blast

lemma moves_bind:
  assumes "moves d A m B" "\<And>a. moves d (B a) (f a) C"
  shows "moves d A (State_Monad.bind m f) C"
proof (rule movesI)
  fix s0 w s a v
  assume s: "stands d s0 (trace w) = Some s" "s \<in> A" and run: "run_state (State_Monad.bind m f) w = (a, v)"
  obtain b u where u: "run_state m w = (b, u)" by fastforce
  from movesD [OF assms(1) s u] obtain t where "t \<in> B b" "stands d s0 (trace u) = Some t" by blast
  moreover from run u have "run_state (f b) u = (a, v)" by simp
  ultimately show "\<exists>t \<in> C a. stands d s0 (trace v) = Some t" using movesD [OF assms(2)] by blast
qed

lemma moves_return: "A \<subseteq> B a \<Longrightarrow> moves d A (State_Monad.return a) B"
  by (auto simp: moves_def)

lemma moves_skip: "A \<subseteq> B () \<Longrightarrow> moves d A skip B"
  by (auto simp: moves_def)

lemma moves_quiet:
  assumes "asks_only (\<lambda>q. \<forall>s. d s q = Some s) m" "\<And>a. A \<subseteq> B a"
  shows "moves d A m B"
proof (rule movesI)
  fix s0 w s a v
  assume s: "stands d s0 (trace w) = Some s" "s \<in> A" and run: "run_state m w = (a, v)"
  from asks_onlyD [OF assms(1) run] obtain es where
    "trace v = trace w @ es" "\<forall>e \<in> set es. \<forall>s. d s (request e) = Some s" by blast
  with s assms(2) stands_quiet [of es d s0 "trace w"] show "\<exists>t \<in> B a. stands d s0 (trace v) = Some t" by auto
qed

lemma moves_signal: "(\<And>s. s \<in> A \<Longrightarrow> \<exists>t \<in> B (). d s q = Some t) \<Longrightarrow> moves d A (signal q) B"
  by (auto simp: moves_def)

lemma moves_try:
  assumes "moves d A m (\<lambda>r. case r of Inl e \<Rightarrow> C (Inl e) | Inr a \<Rightarrow> B a)" "\<And>a. moves d (B a) (f a) C"
  shows "moves d A (try_bind m f) C"
  unfolding try_bind_def using assms by (intro moves_bind [OF assms(1)]) (auto split: sum.split intro: moves_return)

lemma moves_repeat:
  assumes "\<And>s. moves d A (body s) (\<lambda>r. case r of Inl _ \<Rightarrow> A | Inr a \<Rightarrow> B (Some a))" "A \<subseteq> B None"
  shows "moves d A (repeat_io n body s) B"
proof (induction n arbitrary: s)
  case 0
  from assms(2) show ?case by (auto intro: moves_return)
next
  case (Suc n)
  have "moves d (case r of Inl _ \<Rightarrow> A | Inr a \<Rightarrow> B (Some a))
      (case r of Inl s' \<Rightarrow> repeat_io n body s' | Inr a \<Rightarrow> State_Monad.return (Some a)) B" for r
    using Suc by (cases r) (auto intro: moves_return)
  with assms(1) show ?case unfolding repeat_io.simps by (rule moves_bind)
qed

lemma moves_weaken: "moves d A m B \<Longrightarrow> A' \<subseteq> A \<Longrightarrow> (\<And>a. B a \<subseteq> B' a) \<Longrightarrow> moves d A' m B'"
  unfolding moves_def by blast

lemma moves_pure: "(\<And>s. s \<in> A \<Longrightarrow> moves d {s} m B) \<Longrightarrow> moves d A m B"
  unfolding moves_def by blast

lemma moves_if: "(b \<Longrightarrow> moves d A m B) \<Longrightarrow> (\<not> b \<Longrightarrow> moves d A n B) \<Longrightarrow> moves d A (if b then m else n) B"
  by simp

section \<open>The order of pairing's events\<close>

text \<open>Where a run is, by the events it has reported; the flag is whether it uses a saved login.\<close>

datatype stage = Begin | AskCode | Coded | LoggedIn bool | Listed bool | Chosen bool | Made bool | Access bool | Kept

definition may_lose_login :: "stage \<Rightarrow> bool" where
  "may_lose_login s \<longleftrightarrow> s \<in> {Begin, LoggedIn True, Listed True, Chosen True, Made True, Access True}"

fun next_stage :: "stage \<Rightarrow> pairing_event \<Rightarrow> stage option" where
  "next_stage s (Code _ _ _ _) = (if s \<in> {Begin, AskCode} then Some Coded else None)"
| "next_stage s CodeExpired = (if s = Coded then Some AskCode else None)"
| "next_stage s (Approved _) = (if s = Coded then Some (LoggedIn False) else None)"
| "next_stage s (Resumed _) = (if s = Begin then Some (LoggedIn True) else None)"
| "next_stage s (SessionDropped _) = (if may_lose_login s then Some AskCode else None)"
| "next_stage s (ChooseProject _ _ _) = (case s of LoggedIn b \<Rightarrow> Some (Listed b) | Listed b \<Rightarrow> Some (Listed b) | _ \<Rightarrow> None)"
| "next_stage s (ProjectSelected _ _) = (case s of LoggedIn b \<Rightarrow> Some (Chosen b) | Listed b \<Rightarrow> Some (Chosen b) | _ \<Rightarrow> None)"
| "next_stage s (ServiceAccountCreated _ _) = (case s of Chosen b \<Rightarrow> Some (Made b) | _ \<Rightarrow> None)"
| "next_stage s (ServiceAccountReused _ _) = (case s of Chosen b \<Rightarrow> Some (Made b) | _ \<Rightarrow> None)"
| "next_stage s AccessGranted = (case s of Made b \<Rightarrow> Some (Access b) | _ \<Rightarrow> None)"
| "next_stage s (AccessNotConfirmed _ _) = (case s of Made b \<Rightarrow> Some (Access b) | _ \<Rightarrow> None)"
| "next_stage s (KeySaved _) = (case s of Access b \<Rightarrow> Some Kept | _ \<Rightarrow> None)"

definition reads :: "stage \<Rightarrow> pairing_request \<Rightarrow> stage option" where
  "reads s q = (case q of Notify e \<Rightarrow> next_stage s e | _ \<Rightarrow> Some s)"

lemma reads_simps [simp]:
  "reads s (Notify e) = next_stage s e" "reads s (PostForm u f) = Some s" "reads s (GetBearer u) = Some s"
  "reads s (CallApi m u b) = Some s" "reads s (FileExists p) = Some s" "reads s (ReadFile p) = Some s"
  "reads s (WriteFile p c) = Some s" "reads s (RemoveFile p) = Some s" "reads s AskSource = Some s"
  "reads s (RandomSuffix n) = Some s" "reads s WallClock = Some s"
  by (simp_all add: reads_def)

abbreviation goes :: "stage set \<Rightarrow> 'a pairing \<Rightarrow> ('a \<Rightarrow> stage set) \<Rightarrow> bool" where
  "goes \<equiv> moves reads"

lemma goes_event: "(\<And>s. s \<in> A \<Longrightarrow> \<exists>t \<in> B (). next_stage s e = Some t) \<Longrightarrow> goes A (on_event e) B"
  unfolding on_event_def by (rule moves_signal) simp

lemma goes_poll: "goes A (poll_for_approval rounds env cfg auth dl) (\<lambda>_. A)"
  unfolding poll_for_approval_def poll_round_def poll_once_def approved_login_def identity_def pairing_ops Let_def
  by (rule moves_quiet, intro asks_intros, simp_all)

lemma goes_device: "goes A (start_device_authorization env cfg) (\<lambda>_. A)"
  unfolding start_device_authorization_def pairing_ops Let_def
  by (rule moves_quiet, intro asks_intros, simp_all)

lemma goes_now: "goes A now (\<lambda>_. A)" and goes_sleep: "goes A (sleep k) (\<lambda>_. A)"
  by (auto simp: moves_def)


definition before_choice :: "bool \<Rightarrow> stage set" where
  "before_choice b = {LoggedIn b, Listed b}"

definition with_login :: "bool \<Rightarrow> stage set" where
  "with_login b = {LoggedIn b, Listed b, Chosen b, Made b, Access b}"

abbreviation ended :: "stage set \<Rightarrow> ('e + 'a) option \<Rightarrow> stage set" where
  "ended S r \<equiv> (case r of Some (Inr _) \<Rightarrow> {Kept} | _ \<Rightarrow> S)"

lemma goes_login_round:
  "goes {Begin, AskCode} (login_round rounds env cfg dl u)
     (\<lambda>r. case r of Inl _ \<Rightarrow> {Begin, AskCode} | Inr a \<Rightarrow> (case a of Some (Inr _) \<Rightarrow> {Coded} | _ \<Rightarrow> {Begin, AskCode, Coded}))"
proof -
  have polled: "goes {Coded} (case p of
               None \<Rightarrow> State_Monad.return (Inr None)
             | Some (Inl e) \<Rightarrow> State_Monad.return (Inr (Some (Inl e)))
             | Some (Inr (CodeApproved lg)) \<Rightarrow> State_Monad.return (Inr (Some (Inr lg)))
             | Some (Inr CodeGone) \<Rightarrow> do {
                 t \<leftarrow> now;
                 if dl \<le> t then State_Monad.return (Inr (Some (Inl (timed_out cfg))))
                 else do { on_event CodeExpired; State_Monad.return (Inl ()) }
               })
     (\<lambda>r. case r of Inl _ \<Rightarrow> {Begin, AskCode} | Inr a \<Rightarrow> (case a of Some (Inr _) \<Rightarrow> {Coded} | _ \<Rightarrow> {Begin, AskCode, Coded}))" for p
    by (auto split: option.split sum.split code_outcome.split
        intro!: moves_return moves_bind [OF goes_now] moves_if moves_bind [OF goes_event [where B = "\<lambda>_. {AskCode}"]])
  have code: "goes {Begin, AskCode} (let (url, prefilled) = approval_link (libs env) (issuer cfg) auth
             in on_event (Code url (user_code auth) prefilled n)) (\<lambda>_. {Coded})" for auth n
    by (auto split: prod.split intro!: goes_event)
  have started: "goes {Begin, AskCode} (case x of
          Inl e \<Rightarrow> State_Monad.return (Inr (Some (Inl e)))
        | Inr auth \<Rightarrow> do {
            (let (url, prefilled) = approval_link (libs env) (issuer cfg) auth
             in on_event (Code url (user_code auth) prefilled
                  (1000 * (if da_expires_in auth = 0 then 300 else da_expires_in auth))));
            polled \<leftarrow> poll_for_approval rounds env cfg auth dl;
            (case polled of
               None \<Rightarrow> State_Monad.return (Inr None)
             | Some (Inl e) \<Rightarrow> State_Monad.return (Inr (Some (Inl e)))
             | Some (Inr (CodeApproved lg)) \<Rightarrow> State_Monad.return (Inr (Some (Inr lg)))
             | Some (Inr CodeGone) \<Rightarrow> do {
                 t \<leftarrow> now;
                 if dl \<le> t then State_Monad.return (Inr (Some (Inl (timed_out cfg))))
                 else do { on_event CodeExpired; State_Monad.return (Inl ()) }
               })
          })
     (\<lambda>r. case r of Inl _ \<Rightarrow> {Begin, AskCode} | Inr a \<Rightarrow> (case a of Some (Inr _) \<Rightarrow> {Coded} | _ \<Rightarrow> {Begin, AskCode, Coded}))" for x
  proof (cases x)
    case (Inr auth)
    then show ?thesis
      unfolding Inr sum.case by (intro moves_bind [OF code] moves_bind [OF goes_poll] polled)
  qed (auto intro!: moves_return)
  show ?thesis unfolding login_round_def
    by (rule moves_bind [OF goes_now], rule moves_if, rule moves_return, simp, rule moves_bind [OF goes_device], rule started)
qed

lemma goes_login: "goes {Begin, AskCode} (device_login rounds env cfg)
    (\<lambda>r. case r of Some (Inr _) \<Rightarrow> {Coded} | _ \<Rightarrow> {Begin, AskCode, Coded})"
  unfolding device_login_def
proof (rule moves_bind [OF goes_now], rule moves_bind [OF moves_repeat])
  fix t s
  show "goes {Begin, AskCode} (login_round rounds env cfg (t + max_wait cfg) s)
     (\<lambda>r. case r of Inl _ \<Rightarrow> {Begin, AskCode} | Inr a \<Rightarrow>
        (\<lambda>x. case x of Some (Some (Inr _)) \<Rightarrow> {Coded} | _ \<Rightarrow> {Begin, AskCode, Coded}) (Some a))"
    using goes_login_round [of rounds env cfg "t + max_wait cfg" s]
    by (rule moves_weaken) (auto split: sum.split option.split)
qed (auto simp: flatten_rounds_def split: option.split sum.split intro!: moves_return)

lemma goes_wait: "goes (before_choice b) (wait_for_project rounds cfg wait projects configured expires) (\<lambda>_. before_choice b)"
proof -
  have ask: "goes A ask_source (\<lambda>_. A)" for A
    unfolding ask_source_def by (rule moves_quiet, intro asks_intros, simp_all)
  have event: "goes (before_choice b) (on_event (ChooseProject x y z)) (\<lambda>_. before_choice b)" for x y z
    by (rule goes_event) (auto simp: before_choice_def)
  have look: "goes (before_choice b) (choice_look projects dl s) (\<lambda>_. before_choice b)" for dl s
    unfolding choice_look_def Let_def
    by (rule moves_bind [OF goes_now], rule moves_if)
      (auto intro!: moves_return moves_bind [OF ask] moves_bind [OF goes_now] moves_bind [OF event] moves_if
        split: sum.split option.split)
  have "goes (before_choice b) (choice_round wait projects whole dl s)
      (\<lambda>r. case r of Inl _ \<Rightarrow> before_choice b | Inr a \<Rightarrow> before_choice b)" for whole dl s
    unfolding choice_round_def
    by (rule moves_bind [OF goes_now], rule moves_if)
      (auto intro!: moves_return moves_bind [OF goes_sleep] moves_weaken [OF look] split: sum.split)
  then have rounds: "goes (before_choice b) (repeat_io n (choice_round wait projects whole dl) s) (\<lambda>_. before_choice b)" for n whole dl s
    by (intro moves_repeat) auto
  show ?thesis unfolding wait_for_project_def Let_def
    by (intro moves_bind [OF goes_now] moves_bind [OF event] rounds)
qed

lemma stage_sets [simp]:
  "LoggedIn b \<in> before_choice b" "before_choice b \<subseteq> with_login b" "LoggedIn b \<in> with_login b"
  "Chosen b \<in> with_login b" "Made b \<in> with_login b" "Access b \<in> with_login b" "Kept \<notin> with_login b"
  by (auto simp: before_choice_def with_login_def)

lemma before_is_with: "s \<in> before_choice b \<Longrightarrow> s \<in> with_login b"
  using stage_sets(2) by blast

lemma goes_keep: "goes A (keep_login env cfg resumed lg projects) (\<lambda>_. A)"
  unfolding keep_login_def pairing_ops
  by (rule moves_quiet, cases resumed; cases "session_path cfg") (auto intro!: asks_intros)

lemma goes_pick: "goes {LoggedIn b} (pick_project rounds env cfg lg wanted resumed projects) (\<lambda>_. before_choice b)"
proof -
  have wait: "goes {LoggedIn b} (do { keep_login env cfg resumed lg projects;
      wait_for_project rounds cfg wait projects configured expires }) (\<lambda>_. before_choice b)" for wait configured expires
    by (rule moves_bind [OF goes_keep], rule moves_weaken [OF goes_wait]) auto
  show ?thesis unfolding pick_project_def
    by (auto split: option.split sum.split intro!: wait moves_return)
qed

abbreviation result_of :: "stage set \<Rightarrow> stage set \<Rightarrow> 'e + 'a \<Rightarrow> stage set" where
  "result_of E A r \<equiv> (case r of Inl _ \<Rightarrow> E | Inr _ \<Rightarrow> A)"

lemma goes_earlier: "goes {Chosen b} (earlier_account env a project pd)
    (\<lambda>r. case r of Inl _ \<Rightarrow> with_login b | Inr x \<Rightarrow> (case x of None \<Rightarrow> {Chosen b} | Some _ \<Rightarrow> {Made b}))"
proof -
  have get: "goes {Chosen b} (get_service_account env a p n) (\<lambda>r. case r of Inl _ \<Rightarrow> with_login b | Inr _ \<Rightarrow> {Chosen b})" for p n
    by (rule moves_quiet, rule get_sa_asks) (auto split: sum.splits)
  have reused: "goes {Chosen b} (on_event (ServiceAccountReused x y)) (\<lambda>_. {Made b})" for x y
    by (rule goes_event) simp
  show ?thesis unfolding earlier_account_def
    by (auto split: option.split intro!: moves_return moves_if moves_bind [OF reused] moves_try [OF moves_weaken [OF get]] split: sum.splits)
qed

lemma goes_account: "goes (case earlier of None \<Rightarrow> {Chosen b} | Some _ \<Rightarrow> {Made b}) (account_for env cfg a project earlier)
    (result_of (with_login b) {Made b})"
proof -
  have create: "goes {Chosen b} (create_service_account env cfg a p)
      (\<lambda>r. case r of Inl _ \<Rightarrow> with_login b | Inr _ \<Rightarrow> {Chosen b})" for p
    by (rule moves_quiet, rule create_sa_asks) (auto split: sum.splits)
  have created: "goes {Chosen b} (on_event (ServiceAccountCreated x y)) (\<lambda>_. {Made b})" for x y
    by (rule goes_event) simp
  show ?thesis unfolding account_for_def
    by (cases earlier) (auto intro!: moves_return moves_bind [OF created] moves_try [OF moves_weaken [OF create]] split: sum.splits)
qed

lemma goes_save: "A \<subseteq> E \<Longrightarrow> goes A (save_pending env p st) (result_of E A)"
  by (rule moves_quiet, rule save_pending_asks) (auto split: sum.split)

lemma goes_grant: "goes {Made b} (grant_or_go_on env cfg a project sa refused st) (result_of (with_login b) {Access b})"
proof -
  have grant: "goes {Made b} (grant_access env cfg a project sa) (\<lambda>_. {Made b})"
    by (rule moves_quiet, rule grant_asks) auto
  have granted: "goes {Made b} (on_event AccessGranted) (\<lambda>_. {Access b})"
    and unsure: "goes {Made b} (on_event (AccessNotConfirmed x y)) (\<lambda>_. {Access b})" for x y
    by (rule goes_event, simp)+
  have save: "goes {Made b} (save_pending env p s) (\<lambda>r. case r of Inl e \<Rightarrow> result_of (with_login b) {Access b} (Inl e)
      | Inr _ \<Rightarrow> {Made b})" for p s
    by (rule moves_weaken [OF goes_save [of "{Made b}" "with_login b"]]) (auto split: sum.splits)
  show ?thesis unfolding grant_or_go_on_def
    by (rule moves_bind [OF grant])
      (auto intro!: moves_return moves_bind [OF granted] moves_bind [OF unsure] moves_try [OF save] moves_if
        split: sum.split pairing_error.split)
qed

lemma goes_save_key: "goes {Access b} (save_key cfg project sa key) (result_of (with_login b) {Kept})"
proof -
  have wrote: "goes {Access b} (write_private_file p c) (\<lambda>_. {Access b})" and del: "goes {Access b} (delete_file p) (\<lambda>_. {Access b})" for p c
    unfolding pairing_ops by (rule moves_quiet, intro asks_intros, simp_all)+
  have saved: "goes {Access b} (on_event (KeySaved p)) (\<lambda>_. {Kept})" for p
    by (rule goes_event) simp
  show ?thesis unfolding save_key_def
    by (rule moves_bind [OF wrote])
      (auto intro!: moves_return moves_bind [OF del] moves_bind [OF saved] split: sum.split)
qed

lemma goes_with_project: "goes (before_choice b) (with_project env cfg a project) (result_of (with_login b) {Kept})"
proof -
  have chosen: "goes (before_choice b) (on_event (ProjectSelected x y)) (\<lambda>_. {Chosen b})" for x y
    by (rule goes_event) (auto simp: before_choice_def)
  have read: "goes {Chosen b} (read_text p) (\<lambda>_. {Chosen b})" for p
    unfolding pairing_ops by (rule moves_quiet, intro asks_intros, simp_all)
  have save: "goes {Made b} (save_pending env p s) (\<lambda>r. case r of Inl e \<Rightarrow> result_of (with_login b) {Kept} (Inl e) | Inr _ \<Rightarrow> {Made b})" for p s
    by (rule moves_weaken [OF goes_save [of "{Made b}" "with_login b"]]) (auto split: sum.splits)
  have key: "goes {Access b} (create_key env cfg a p sa) (\<lambda>r. case r of Inl e \<Rightarrow> result_of (with_login b) {Kept} (Inl e) | Inr _ \<Rightarrow> {Access b})" for p sa
    by (rule moves_quiet, rule key_asks) (auto split: sum.splits)
  show ?thesis unfolding with_project_def
  proof (rule moves_bind [OF chosen], rule moves_bind [OF read], rule moves_try)
    show "goes {Chosen b} (earlier_account env a project pd) (\<lambda>r. case r of Inl e \<Rightarrow> result_of (with_login b) {Kept} (Inl e)
        | Inr x \<Rightarrow> (case x of None \<Rightarrow> {Chosen b} | Some _ \<Rightarrow> {Made b}))" for pd
      by (rule moves_weaken [OF goes_earlier [of b]]) (auto split: sum.split)
  next
    fix earlier :: "(service_account_ref \<times> bool) option"
    show "goes (case earlier of None \<Rightarrow> {Chosen b} | Some _ \<Rightarrow> {Made b})
     (try_bind (account_for env cfg a project earlier) (\<lambda>(sa, refused_before).
       (let state1 = \<lparr>pd_project = pr_name project, pd_service_account = sr_name sa, pd_uid = sr_uid sa,
              pd_email = sr_email sa, pd_refused = refused_before\<rparr>
        in try_bind (save_pending env (pending_path (key_out cfg)) state1) (\<lambda>_.
           try_bind (grant_or_go_on env cfg a project sa refused_before state1) (\<lambda>_.
           try_bind (create_key env cfg a (pr_name project) sa) (\<lambda>key.
             save_key cfg project sa key)))))) (result_of (with_login b) {Kept})"
      unfolding Let_def
      by (rule moves_try [where B = "\<lambda>_. {Made b}"], rule moves_weaken [OF goes_account [of b]])
        (auto split: sum.split intro!: moves_try [OF save] moves_try [OF moves_weaken [OF goes_grant [of b]]] moves_try [OF key] goes_save_key [of b])
  qed
qed

lemma goes_provision: "goes {LoggedIn b} (provision rounds env cfg a lg wanted known) (ended (with_login b))"
proof -
  have listed: "goes {LoggedIn b} (case known of Some ps \<Rightarrow> State_Monad.return (Inr ps) | None \<Rightarrow> list_projects env a (lg_sub lg))
      (\<lambda>_. {LoggedIn b})"
    by (rule moves_quiet) (auto split: option.split intro!: asks_intros list_asks)
  have whole: "goes (before_choice b) (do { r \<leftarrow> with_project env cfg a project; State_Monad.return (Some r) })
      (ended (with_login b))" for project
    by (rule moves_bind [OF goes_with_project [of b]], rule moves_return) (auto split: sum.split)
  show ?thesis unfolding provision_def
    by (rule moves_bind [OF listed], auto split: sum.split option.split intro!: moves_return moves_bind [OF goes_pick [of b]] whole)
      (simp_all add: before_is_with)
qed

abbreviation unkept :: "stage set" where "unkept \<equiv> - {Kept}"

lemma goes_fresh: "goes {Begin, AskCode} (fresh_pairing rounds env cfg wanted) (ended unkept)"
proof -
  have approved: "goes {Coded} (on_event (Approved x)) (\<lambda>_. {LoggedIn False})" for x
    by (rule goes_event) simp
  have prov: "goes {LoggedIn False} (provision rounds env cfg a lg wanted None) (ended unkept)" for a lg
    by (rule moves_weaken [OF goes_provision]) (auto simp: with_login_def split: option.splits sum.splits)
  show ?thesis unfolding fresh_pairing_def
    by (rule moves_bind [OF goes_login])
      (auto split: sum.split option.split intro!: moves_return moves_bind [OF approved] prov)
qed

lemma goes_drop: "A \<subseteq> Collect may_lose_login \<Longrightarrow> goes A (on_event (SessionDropped r)) (\<lambda>_. {AskCode})"
  by (rule goes_event) auto

lemma goes_remove: "goes A (remove_session p) (\<lambda>_. A)"
  unfolding remove_session_def pairing_ops by (rule moves_quiet, intro asks_intros, simp_all)

lemma goes_pair_inner: "goes {Begin} (pair_inner rounds env cfg) (ended unkept)"
proof -
  have there: "goes {Begin} (file_exists p) (\<lambda>_. {Begin})" and read: "goes {Begin} (read_text p) (\<lambda>_. {Begin})"
    and wall: "goes {Begin} wall_clock (\<lambda>_. {Begin})" for p
    unfolding pairing_ops by (rule moves_quiet, intro asks_intros, simp_all)+
  have fresh: "s \<in> {Begin, AskCode} \<Longrightarrow> goes {s} (fresh_pairing rounds env cfg wanted) (ended unkept)" for s wanted
    by (rule moves_weaken [OF goes_fresh]) auto
  have resumed: "goes {Begin} (on_event (Resumed x)) (\<lambda>_. {LoggedIn True})" for x
    by (rule goes_event) simp
  have again: "goes (ended (with_login True) r) (if r = Some (Inl SavedLoginRejected) then do {
                      remove_session p;
                      on_event (SessionDropped why);
                      fresh_pairing rounds env cfg wanted
                    } else State_Monad.return r) (ended unkept)" for r p why wanted
  proof (rule moves_if)
    assume "r = Some (Inl SavedLoginRejected)"
    then show "goes (ended (with_login True) r) (do { remove_session p; on_event (SessionDropped why);
        fresh_pairing rounds env cfg wanted }) (ended unkept)"
      by (intro moves_bind [OF goes_remove] moves_bind [OF goes_drop] fresh) (auto simp: with_login_def may_lose_login_def)
  qed (auto intro!: moves_return simp: with_login_def split: option.split sum.split)
  show ?thesis unfolding pair_inner_def Let_def
    by (rule moves_bind [OF there], rule moves_if, rule moves_return, simp)
      (auto split: sum.split option.split session_load.split intro!: moves_return fresh moves_bind [OF read] moves_bind [OF goes_now]
        moves_bind [OF wall] moves_bind [OF goes_remove] moves_bind [OF goes_drop] moves_bind [OF resumed]
        moves_bind [OF goes_provision] again simp: may_lose_login_def)
qed

definition reported :: "(pairing_request, pairing_reply) world \<Rightarrow> stage option" where
  "reported w = stands reads Begin (trace w)"

text \<open>
  whatever its services answer, pairing reports its events in one order: a code before an approval, an
  approval or a resumed login before projects, one selected project before a service account, that before its
  access, that before the key; a saved login can be dropped only before the key is kept; and it returns a
  key exactly when the last event was that the key is saved.
\<close>

theorem pair_reports_in_order:
  assumes "trace w = []" "run_state (pair rounds env cfg) w = (Some r, v)"
  shows "\<exists>s. reported v = Some s \<and> (s = Kept \<longleftrightarrow> (\<exists>key. r = Inr key))"
proof -
  have last: "goes (ended unkept r) (case session_path cfg of Some p \<Rightarrow> remove_session p | None \<Rightarrow> skip)
      (\<lambda>_. ended unkept r)" for r :: "(pairing_error + paired_key) option"
    by (cases "session_path cfg") (auto intro: goes_remove moves_skip)
  have "goes {Begin} (pair rounds env cfg) (ended unkept)"
    unfolding pair_def by (intro moves_bind [OF goes_pair_inner] moves_bind [OF last] moves_return subset_refl)
  from movesD [OF this _ _ assms(2), of Begin Begin] assms(1) show ?thesis
    by (cases r) (auto simp: reported_def)
qed

end
