(* ===== verification/Setup_Facts.thy ===== *)
theory Setup_Facts
  imports Setup Event_Order
begin

text \<open>
  What the setup page can rely on: the controller and the runs it starts as a step relation, the invariant that
  ties what the page shows to how far the run has come, and what a click may and may not do.
\<close>

section \<open>The controller as a machine\<close>

datatype setup_action =
    Start
  | Restart
  | ChooseListed str
  | Stop
  | Reports nat nat pairing_event
  | Ends nat "pairing_error + paired_key"
  | FallbackSaid nat "str + str option"

definition act :: "(pairing_error \<Rightarrow> str) \<Rightarrow> setup_action \<Rightarrow> controller \<Rightarrow> controller" where
  "act show_error a c =
     (case a of
        Start \<Rightarrow> start c
      | Restart \<Rightarrow> (case restart c of Inl _ \<Rightarrow> c | Inr c' \<Rightarrow> c')
      | ChooseListed p \<Rightarrow> (case choose_listed p c of Inl _ \<Rightarrow> c | Inr c' \<Rightarrow> c')
      | Stop \<Rightarrow> stop c
      | Reports run t e \<Rightarrow> run_event run t e c
      | Ends run r \<Rightarrow> run_end show_error run r c
      | FallbackSaid t x \<Rightarrow> snd (fallback_said t x c))"

text \<open>Actions of run \<open>r\<close>'s task.\<close>

definition of_run :: "nat \<Rightarrow> setup_action \<Rightarrow> bool" where
  "of_run r a \<longleftrightarrow> (case a of Reports run _ _ \<Rightarrow> run = r | Ends run _ \<Rightarrow> run = r | _ \<Rightarrow> False)"

lemmas page_ops = start_def restart_def spawn_run_def choose_listed_def stop_def fallback_said_def
lemmas run_ops = run_event_def apply_event_def run_end_def finish_def

definition shown :: "controller \<Rightarrow> controller" where
  "shown c = c\<lparr>paired_with := None\<rparr>"

lemma shown_eq: "shown c = shown d \<longleftrightarrow> (\<exists>k. d = c\<lparr>paired_with := k\<rparr>)"
  by (cases c; cases d) (auto simp: shown_def)

lemma act_shown: "shown (act sh a (c\<lparr>paired_with := k\<rparr>)) = shown (act sh a c)"
proof (cases a)
  case (Ends r x)
  then show ?thesis by (cases x) (simp_all add: act_def shown_def run_ops)
qed (simp_all add: act_def shown_def page_ops run_ops Let_def split: phase.split option.split)

lemma act_run_no: "run_no c \<le> run_no (act sh a c)"
  by (cases a) (auto simp: act_def page_ops run_ops Let_def split: phase.split option.split sum.split)

lemma stale_act: "of_run r a \<Longrightarrow> r < run_no c \<Longrightarrow> shown (act sh a c) = shown c"
  by (cases a) (auto simp: of_run_def act_def run_ops shown_def split: sum.split)

lemma stale_gone:
  "r < run_no c \<Longrightarrow> shown c = shown d \<Longrightarrow>
   shown (fold (act sh) as c) = shown (fold (act sh) (filter (\<lambda>a. \<not> of_run r a) as) d)"
proof (induction as arbitrary: c d)
  case (Cons a as)
  have c: "r < run_no (act sh a c)" using Cons.prems act_run_no [of c sh a] by simp
  obtain k where d: "d = c\<lparr>paired_with := k\<rparr>" using Cons.prems(2) by (auto simp: shown_eq)
  show ?case
  proof (cases "of_run r a")
    case True
    from stale_act [OF this Cons.prems(1)] Cons.prems(2) have "shown (act sh a c) = shown d" by simp
    from Cons.IH [OF c this] True show ?thesis by simp
  next
    case False
    have "shown (act sh a c) = shown (act sh a d)" unfolding d by (simp add: act_shown)
    from Cons.IH [OF c this] False show ?thesis by simp
  qed
qed simp

text \<open>
  C26: a run that was thrown away has no more say: after a new code is asked for, whatever the page and the
  new run do, leaving out everything the old run still reports gives the same page, the same choice for
  pairing and the same log; only a key it still saved is handed on.
\<close>

theorem thrown_away_run_is_silent:
  assumes "restart c = Inr c'"
  shows "(fold (act show_error) later c')\<lparr>paired_with := None\<rparr> =
    (fold (act show_error) (filter (\<lambda>a. \<not> of_run (run_no c) a) later) c')\<lparr>paired_with := None\<rparr>"
proof -
  have "run_no c < run_no c'" using assms by (auto simp: restart_def spawn_run_def split: phase.splits)
  from stale_gone [OF this refl] show ?thesis by (simp add: shown_def)
qed

section \<open>The controller with its run\<close>

text \<open>
  The second part is how far the current run has come; None when no run goes on. A run's events come in
  pairing's order; a run that is not current may still report anything.
\<close>

inductive setup_step :: "(pairing_error \<Rightarrow> str) \<Rightarrow> controller \<times> stage option \<Rightarrow> controller \<times> stage option \<Rightarrow> bool"
  for show_error where
  starts: "run_no (start c) \<noteq> run_no c \<Longrightarrow> setup_step show_error (c, s) (start c, Some Begin)"
| goes_on: "run_no (start c) = run_no c \<Longrightarrow> setup_step show_error (c, s) (start c, s)"
| restarts: "restart c = Inr c' \<Longrightarrow> setup_step show_error (c, s) (c', Some Begin)"
| chooses: "choose_listed p c = Inr c' \<Longrightarrow> setup_step show_error (c, s) (c', s)"
| stops: "setup_step show_error (c, s) (stop c, s)"
| reports: "next_stage s e = Some s' \<Longrightarrow> setup_step show_error (c, Some s) (run_event (run_no c) t e c, Some s')"
| ends: "s = Kept \<longleftrightarrow> (\<exists>key. r = Inr key) \<Longrightarrow> setup_step show_error (c, Some s) (run_end show_error (run_no c) r c, None)"
| stale_report: "run < run_no c \<Longrightarrow> setup_step show_error (c, s) (run_event run t e c, s)"
| stale_end: "run < run_no c \<Longrightarrow> setup_step show_error (c, s) (run_end show_error run r c, s)"
| fallback: "setup_step show_error (c, s) (snd (fallback_said t x c), s)"

inductive setup_reach :: "(pairing_error \<Rightarrow> str) \<Rightarrow> str option \<Rightarrow> controller \<times> stage option \<Rightarrow> bool"
  for show_error project where
  reach_new: "setup_reach show_error project (new_controller project, None)"
| reach_step: "setup_reach show_error project x \<Longrightarrow> setup_step show_error x y \<Longrightarrow> setup_reach show_error project y"

text \<open>What the page shows and how far the run is fit together.\<close>

definition made_in_order :: "setup_status \<Rightarrow> bool" where
  "made_in_order s \<longleftrightarrow> (did_key (steps_of s) \<longrightarrow> did_access (steps_of s)) \<and> (did_access (steps_of s) \<longrightarrow> did_account (steps_of s)) \<and>
     (did_account (steps_of s) \<longrightarrow> account_of s \<noteq> None) \<and> (account_of s \<noteq> None \<longrightarrow> project_of1 s \<noteq> None)"

fun fits :: "stage \<Rightarrow> setup_status \<Rightarrow> bool" where
  "fits Begin s \<longleftrightarrow> phase s = Starting \<and> account_of s = None"
| "fits AskCode s \<longleftrightarrow> \<not> did_key (steps_of s)"
| "fits Coded s \<longleftrightarrow> phase s = PhaseCode \<and> \<not> did_key (steps_of s)"
| "fits (LoggedIn b) s \<longleftrightarrow> phase s = PhaseApproved \<and> \<not> did_key (steps_of s)"
| "fits (Listed b) s \<longleftrightarrow> phase s \<in> {Choose, Working} \<and> \<not> did_key (steps_of s)"
| "fits (Chosen b) s \<longleftrightarrow> phase s = Working \<and> \<not> did_key (steps_of s)"
| "fits (Made b) s \<longleftrightarrow> phase s = Working \<and> did_account (steps_of s) \<and> \<not> did_key (steps_of s)"
| "fits (Access b) s \<longleftrightarrow> phase s = Working \<and> did_access (steps_of s) \<and> \<not> did_key (steps_of s)"
| "fits Kept s \<longleftrightarrow> phase s = Working \<and> did_key (steps_of s)"

definition status_inv :: "stage option \<Rightarrow> setup_status \<Rightarrow> bool" where
  "status_inv st s \<longleftrightarrow>
     (code_of s \<noteq> None \<longleftrightarrow> phase s = PhaseCode) \<and> (error_of s \<noteq> None \<longleftrightarrow> phase s = PhaseFailed) \<and>
     (running s \<longleftrightarrow> st \<noteq> None) \<and> (phase s = PhaseCode \<longrightarrow> st = Some Coded \<or> st = Some AskCode) \<and>
     (phase s = Working \<longrightarrow> project_of1 s \<noteq> None) \<and> made_in_order s \<and>
     (phase s = PhaseDone \<longrightarrow> did_key (steps_of s)) \<and> (\<forall>g. st = Some g \<longrightarrow> fits g s)"

lemma status_inv_start: "status_inv (Some Begin) (new_status Starting sug)"
  by (simp add: status_inv_def new_status_def running_def made_in_order_def)

lemma event_facts:
  "running (s\<lparr>code_of := a\<rparr>) = running s" "running (s\<lparr>email_of := b\<rparr>) = running s"
  "running (s\<lparr>phase := p\<rparr>) = (p \<in> {Starting, PhaseCode, PhaseApproved, Choose, Working})"
  "running (s\<lparr>projects_of := l\<rparr>) = running s" "running (s\<lparr>project_of1 := b\<rparr>) = running s"
  "running (s\<lparr>org_of := b\<rparr>) = running s" "running (s\<lparr>account_of := b\<rparr>) = running s"
  "running (s\<lparr>steps_of := x\<rparr>) = running s" "running (s\<lparr>code_renewed := y\<rparr>) = running s"
  by (simp_all add: running_def)

lemma running_not [simp]: "running s \<Longrightarrow> phase s \<noteq> PhaseFailed \<and> phase s \<noteq> PhaseDone \<and> phase s \<noteq> Idle"
  by (auto simp: running_def)

lemma status_inv_event:
  assumes "next_stage g e = Some g'" "status_inv (Some g) s"
  shows "status_inv (Some g') (record_event t e s)"
proof (cases e)
  case (Code a b c d)
  with assms(1) have "g \<in> {Begin, AskCode}" "g' = Coded" by (auto split: if_splits)
  with Code assms(2) show ?thesis by (auto simp: status_inv_def record_event_def event_facts made_in_order_def dest!: running_not)
next
  case CodeExpired
  with assms(1) have "g = Coded" "g' = AskCode" by (auto split: if_splits)
  with CodeExpired assms(2) show ?thesis by (auto simp: status_inv_def record_event_def event_facts made_in_order_def dest!: running_not)
next
  case (Approved a)
  with assms(1) have "g = Coded" "g' = LoggedIn False" by (auto split: if_splits)
  with Approved assms(2) show ?thesis by (auto simp: status_inv_def record_event_def event_facts made_in_order_def dest!: running_not)
next
  case (Resumed a)
  with assms(1) have "g = Begin" "g' = LoggedIn True" by (auto split: if_splits)
  with Resumed assms(2) show ?thesis by (auto simp: status_inv_def record_event_def event_facts made_in_order_def dest!: running_not)
next
  case (SessionDropped a)
  with assms(1) have "may_lose_login g" "g' = AskCode" by (auto split: if_splits)
  with SessionDropped assms(2) show ?thesis
    by (cases g) (auto simp: status_inv_def record_event_def may_lose_login_def made_in_order_def dest!: running_not)
next
  case (ChooseProject a b c)
  with assms(1) obtain x where "g = LoggedIn x \<or> g = Listed x" "g' = Listed x" by (auto split: stage.splits)
  with ChooseProject assms(2) show ?thesis by (auto simp: status_inv_def record_event_def event_facts made_in_order_def dest!: running_not)
next
  case (ProjectSelected a b)
  with assms(1) obtain x where "g = LoggedIn x \<or> g = Listed x" "g' = Chosen x" by (auto split: stage.splits)
  with ProjectSelected assms(2) show ?thesis by (auto simp: status_inv_def record_event_def event_facts made_in_order_def dest!: running_not)
next
  case (ServiceAccountCreated a b)
  with assms(1) obtain x where "g = Chosen x" "g' = Made x" by (auto split: stage.splits)
  with ServiceAccountCreated assms(2) show ?thesis by (auto simp: status_inv_def record_event_def event_facts made_in_order_def dest!: running_not)
next
  case (ServiceAccountReused a b)
  with assms(1) obtain x where "g = Chosen x" "g' = Made x" by (auto split: stage.splits)
  with ServiceAccountReused assms(2) show ?thesis by (auto simp: status_inv_def record_event_def event_facts made_in_order_def dest!: running_not)
next
  case AccessGranted
  with assms(1) obtain x where "g = Made x" "g' = Access x" by (auto split: stage.splits)
  with AccessGranted assms(2) show ?thesis by (auto simp: status_inv_def record_event_def event_facts made_in_order_def dest!: running_not)
next
  case (AccessNotConfirmed a b)
  with assms(1) obtain x where "g = Made x" "g' = Access x" by (auto split: stage.splits)
  with AccessNotConfirmed assms(2) show ?thesis by (auto simp: status_inv_def record_event_def event_facts made_in_order_def dest!: running_not)
next
  case (KeySaved a)
  with assms(1) obtain x where "g = Access x" "g' = Kept" by (auto split: stage.splits)
  with KeySaved assms(2) show ?thesis by (auto simp: status_inv_def record_event_def event_facts made_in_order_def dest!: running_not)
qed

lemma status_inv_end:
  assumes "status_inv (Some g) s" "g = Kept \<longleftrightarrow> (\<exists>key. r = Inr key)"
  shows "status_inv None (record_result sh r s)"
  using assms by (cases r) (auto simp: status_inv_def record_result_def running_def made_in_order_def)

lemma status_inv_choose:
  assumes "status_inv st s" "phase s = Choose"
  shows "status_inv st (s\<lparr>phase := Working, project_of1 := Some p, org_of := Some q\<rparr>)"
proof -
  from assms obtain g where "st = Some g" by (auto simp: status_inv_def running_def)
  with assms show ?thesis by (cases g) (auto simp: status_inv_def event_facts made_in_order_def dest!: running_not)
qed

definition setup_inv :: "controller \<times> stage option \<Rightarrow> bool" where
  "setup_inv x \<longleftrightarrow> status_inv (snd x) (status_of (fst x)) \<and> suggested (status_of (fst x)) = initial (fst x) \<and>
     (phase (status_of (fst x)) = PhaseDone \<longrightarrow> paired_with (fst x) \<noteq> None)"

lemma setup_inv_new: "setup_inv (new_controller project, None)"
  by (simp add: setup_inv_def status_inv_def new_controller_def new_status_def running_def made_in_order_def Let_def)

lemma record_event_keeps: "suggested (record_event t e s) = suggested s"
  by (cases e) (simp_all add: record_event_def)

lemma record_result_keeps: "suggested (record_result sh r s) = suggested s"
  by (cases r) (simp_all add: record_result_def)

lemma setup_inv_step: "setup_step sh x y \<Longrightarrow> setup_inv x \<Longrightarrow> setup_inv y"
proof (induction rule: setup_step.induct)
  case (reports s e s' c t)
  then have "status_inv (Some s') (record_event t e (status_of c))" by (intro status_inv_event) (auto simp: setup_inv_def)
  moreover then have "phase (record_event t e (status_of c)) \<noteq> PhaseDone"
    by (auto simp: status_inv_def running_def)
  ultimately show ?case using reports by (simp add: setup_inv_def run_ops record_event_keeps)
next
  case (ends s r c)
  then have "status_inv None (record_result sh r (status_of c))" by (intro status_inv_end) (auto simp: setup_inv_def)
  with ends show ?case by (cases r) (auto simp: setup_inv_def run_ops record_result_keeps record_result_def)
next
  case (stale_end run c s r)
  then show ?case
    by (cases r) (auto simp: setup_inv_def run_ops Let_def)
next
  case (chooses p c c' s)
  then show ?case
    by (auto simp: setup_inv_def choose_listed_def status_inv_choose split: if_splits option.splits)
next
  case (restarts c c' s)
  then show ?case
    by (auto simp: setup_inv_def restart_def spawn_run_def status_inv_start split: phase.splits)
      (simp_all add: new_status_def)
next
  case (starts c s)
  then show ?case
    by (auto simp: setup_inv_def start_def spawn_run_def status_inv_start split: if_splits) (simp_all add: new_status_def)
qed (auto simp: setup_inv_def run_ops stop_def start_def spawn_run_def fallback_said_def Let_def split: if_splits)

lemma setup_inv_reach: "setup_reach sh project x \<Longrightarrow> setup_inv x"
  by (induction rule: setup_reach.induct) (auto intro: setup_inv_new setup_inv_step)

text \<open>
  what the page shows is what its run does: a code exactly while one is to be approved, an error exactly
  when the run failed, and done only with the account, its access and the key all made and the key handed
  on; the suggestion is the configured project throughout.
\<close>

theorem page_shows_the_run:
  assumes "setup_reach show_error project (c, s)"
  shows "(code_of (status_of c) \<noteq> None \<longleftrightarrow> phase (status_of c) = PhaseCode) \<and>
    (error_of (status_of c) \<noteq> None \<longleftrightarrow> phase (status_of c) = PhaseFailed) \<and>
    (running (status_of c) \<longleftrightarrow> s \<noteq> None) \<and>
    (phase (status_of c) = PhaseDone \<longrightarrow> did_account (steps_of (status_of c)) \<and> did_access (steps_of (status_of c)) \<and>
      did_key (steps_of (status_of c)) \<and> account_of (status_of c) \<noteq> None \<and> paired_with c \<noteq> None) \<and>
    suggested (status_of c) = initial c"
  using setup_inv_reach [OF assms] by (auto simp: setup_inv_def status_inv_def made_in_order_def)

definition sample_code :: pairing_event where
  "sample_code = Code ''https://auth/device'' ''ABCD'' True 300000"

definition waiting :: "controller \<times> stage option" where
  "waiting = (run_event 1 0 sample_code (start (new_controller None)), Some Coded)"

lemma start_new [simp]: "run_no (start (new_controller p)) = 1" "run_no (new_controller p) = 0"
  by (simp_all add: start_def new_controller_def new_status_def running_def spawn_run_def Let_def)

lemma reach_waiting: "setup_reach show_error None waiting"
proof -
  have "setup_reach show_error None (start (new_controller None), Some Begin)"
    by (rule reach_step [OF reach_new], rule starts) simp
  from reach_step [OF this reports [of Begin sample_code]] show ?thesis
    by (simp add: waiting_def sample_code_def)
qed

theorem page_shows_the_run_witness:
  "code_of (status_of (fst waiting)) \<noteq> None \<longleftrightarrow> phase (status_of (fst waiting)) = PhaseCode"
  using page_shows_the_run [of "\<lambda>_. []" None "fst waiting" "snd waiting"] reach_waiting by simp

text \<open>
 asking for a new code never interrupts a run that is past its approval: while a run goes on, a restart
  that is accepted finds it asking for a code or waiting for one, with no key made; every other run keeps going.
\<close>

theorem restart_only_before_approval:
  assumes "setup_reach show_error project (c, Some s)"
  shows "(if s \<in> {Begin, Coded} \<or> s = AskCode \<and> phase (status_of c) \<in> {Starting, PhaseCode}
     then (\<exists>c'. restart c = Inr c' \<and> run_no c' = run_no c + 1 \<and> phase (status_of c') = Starting \<and> \<not> did_key (steps_of (status_of c)))
     else restart c = Inl AlreadyApproved)"
proof -
  from setup_inv_reach [OF assms] have i: "fits s (status_of c)" "running (status_of c)" and "made_in_order (status_of c)"
    by (auto simp: setup_inv_def status_inv_def)
  then have k: "s \<noteq> Kept \<Longrightarrow> \<not> did_key (steps_of (status_of c))" by (cases s) (auto simp: made_in_order_def)
  have accepted: "phase (status_of c) \<in> {Starting, PhaseCode} \<Longrightarrow>
      \<exists>c'. restart c = Inr c' \<and> run_no c' = run_no c + 1 \<and> phase (status_of c') = Starting"
    by (auto simp: restart_def spawn_run_def new_status_def)
  have refused: "phase (status_of c) \<in> {PhaseApproved, Choose, Working} \<Longrightarrow> restart c = Inl AlreadyApproved"
    by (auto simp: restart_def)
  from i(2) have p: "phase (status_of c) \<in> {Starting, PhaseCode} \<or> phase (status_of c) \<in> {PhaseApproved, Choose, Working}"
    by (auto simp: running_def)
  show ?thesis
  proof (cases s)
    case AskCode
    with p accepted refused k show ?thesis by auto
  qed (use i(1) accepted refused k in auto)
qed

lemma restart_waiting: "restart (fst waiting) = Inr ((spawn_run (fst waiting))\<lparr>told_of := told_of (fst waiting) @ [ToldRestarted]\<rparr>)"
  by (simp add: restart_def waiting_def run_ops record_event_def sample_code_def)

theorem restart_only_before_approval_witness:
  "\<exists>c'. restart (fst waiting) = Inr c' \<and> run_no c' = run_no (fst waiting) + 1"
  using restart_only_before_approval [of "\<lambda>_. []" None "fst waiting" Coded] reach_waiting by (auto simp: waiting_def)


text \<open>A run that resumed a saved login, got as far as the service account, and then lost the login.\<close>

definition lost_login :: "pairing_event list" where
  "lost_login = [Resumed ''e'', ChooseProject [choice_of sample_project] None 60000, ProjectSelected ''p1'' ''o1'',
     ServiceAccountCreated ''sa'' ''p1'', SessionDropped ''expired'', sample_code]"

fun report_all :: "pairing_event list \<Rightarrow> controller \<times> stage option \<Rightarrow> controller \<times> stage option" where
  "report_all [] x = x"
| "report_all (e # es) (c, s) = report_all es (run_event (run_no c) 0 e c, Option.bind s (\<lambda>g. next_stage g e))"

lemma reach_reports: "setup_reach sh project (c, Some g) \<Longrightarrow> snd (report_all es (c, Some g)) \<noteq> None \<Longrightarrow>
    setup_reach sh project (report_all es (c, Some g))"
proof (induction es arbitrary: c g)
  case (Cons e es)
  have none: "snd (report_all es (c, None)) = None" for es c
    by (induction es arbitrary: c) auto
  show ?case
  proof (cases "next_stage g e")
    case None
    with Cons.prems(2) none show ?thesis by simp
  next
    case (Some g')
    from reach_step [OF Cons.prems(1) reports [OF this]] Cons Some show ?thesis by simp
  qed
qed simp

lemma reach_started: "setup_reach sh None (start (new_controller None), Some Begin)"
  by (rule reach_step [OF reach_new], rule starts) simp

text \<open>
 a restart can drop a run that has already made a service account: when a resumed login is lost after the
  account was made, the page is back at a code, and asking for a new one is accepted.
\<close>

theorem restart_can_drop_an_account:
  "\<exists>c c'. setup_reach show_error None (c, Some Coded) \<and> did_account (steps_of (status_of c)) \<and>
     phase (status_of c) = PhaseCode \<and> restart c = Inr c' \<and> \<not> did_account (steps_of (status_of c'))"
proof -
  let ?x = "report_all lost_login (start (new_controller None), Some Begin)"
  have s: "snd ?x = Some Coded" by (simp add: lost_login_def sample_code_def may_lose_login_def)
  with reach_reports [OF reach_started, of lost_login show_error] have r: "setup_reach show_error None (fst ?x, Some Coded)"
    by (metis option.distinct(1) prod.collapse)
  have d: "did_account (steps_of (status_of (fst ?x)))" "phase (status_of (fst ?x)) = PhaseCode"
    by (simp_all add: lost_login_def sample_code_def run_ops record_event_def start_def new_controller_def new_status_def
        running_def spawn_run_def Let_def)
  from d(2) have "restart (fst ?x) = Inr ((spawn_run (fst ?x))\<lparr>told_of := told_of (fst ?x) @ [ToldRestarted]\<rparr>)"
    by (simp add: restart_def)
  with r d show ?thesis by (auto simp: spawn_run_def new_status_def)
qed

section \<open>A choice on the page reaches pairing\<close>

lemma name_char_plain: "name_char c \<Longrightarrow> \<not> is_whitespace c \<and> c \<notin> set QUOTES"
  by (auto simp: name_char_def QUOTES_def char_class_defs)

lemma normalize_name:
  assumes "valid_name n" shows "normalize_project n = Some (lowercase n)"
proof -
  from assms have c: "c \<in> set n \<Longrightarrow> \<not> is_whitespace c \<and> c \<notin> set QUOTES" for c
    using name_char_plain by (auto simp: valid_name_def list_all_iff)
  from assms have ne: "n \<noteq> []" by (simp add: valid_name_def)
  then have "hd n \<in> set n" "last n \<in> set n" by simp_all
  with c have e: "\<not> is_whitespace (hd n)" "\<not> is_whitespace (last n)" and q: "hd n \<notin> set QUOTES" by blast+
  from ne e(1) have "trim_start n = n" by (cases n) (auto simp: trim_start_def)
  moreover have "trim_end_with is_whitespace n = n"
    using ne e(2) by (cases "rev n") (auto simp: trim_end_with_def rev_swap)
  ultimately have "trim n = n" by (simp add: trim_def)
  moreover have "hd n \<notin> set qs \<Longrightarrow> strip_quotes qs n = n" for qs
    by (induction qs n rule: strip_quotes.induct) auto
  ultimately show ?thesis using q ne by (simp add: normalize_project_def)
qed

lemma find_map: "find P (map f xs) = map_option f (find (P \<circ> f) xs)"
  by (induction xs) auto

text \<open>What pairing's question is answered with while the page holds \<open>c\<close>.\<close>

definition page_answers :: "bool \<Rightarrow> nat \<Rightarrow> controller \<Rightarrow> (pairing_request, pairing_reply) world \<Rightarrow> bool" where
  "page_answers fallback every c w \<longleftrightarrow> (\<forall>t es v. look_at_page fallback every t c = Found v \<longrightarrow>
     as_source (fst (environment w t es AskSource)) = Inr v)"

text \<open>
 a project chosen on the page is the one pairing takes at its next look, whatever the saved options say,
  even when others differ from it only in case: the choice is one of those listed, and the page already shows it.
\<close>

theorem choice_reaches_pairing:
  assumes "choose_listed p c = Inr c'" and "projects_of (status_of c) = map (project_view_of \<circ> choice_of) ps"
    and "list_all good_project ps" and "page_answers fallback every c' w" and "clock w < deadline"
    and "\<forall>x. seen = Some x \<longrightarrow> find_project ps x = None"
  shows "\<exists>q \<in> set ps. \<exists>v. run_state (choice_look ps deadline seen) w = (Inr (Inr q), v) \<and>
    phase (status_of c') = Working \<and> project_of1 (status_of c') = Some (pr_name q) \<and> org_of (status_of c') = Some (pr_org q)"
proof -
  obtain wanted q0 where wanted: "normalize_project p = Some wanted"
    and f: "find (\<lambda>v. eq_ignore_case (pv_id v) wanted) (map (project_view_of \<circ> choice_of) ps) = Some q0"
    and c': "c' = c\<lparr>page := Some (pv_id q0), status_of := (status_of c)\<lparr>phase := Working,
        project_of1 := Some (pv_id q0), org_of := Some (pv_org q0)\<rparr>\<rparr>"
    using assms(1,2) by (auto simp: choose_listed_def split: if_splits option.splits)
  from f obtain q where q0: "q0 = project_view_of (choice_of q)" and fq: "find_project ps wanted = Some q"
    by (auto simp: find_map find_project_def comp_def project_view_of_def choice_of_def)
  have id: "pv_id q0 = pr_name q" "pv_org q0 = pr_org q" by (simp_all add: q0 project_view_of_def choice_of_def)
  have q: "q \<in> set ps" "lowercase (pr_name q) = lowercase wanted"
    using find_project_Some [OF fq] by (simp_all add: eq_ignore_case_def)
  then have n: "normalize_project (pr_name q) = Some (lowercase wanted)"
    using assms(3) normalize_name [of "pr_name q"] by (auto simp: list_all_iff good_project_def)
  have same: "find_project ps (lowercase wanted) = Some q"
    using fq by (simp add: find_project_def eq_ignore_case_def)
  with assms(6) have s: "seen \<noteq> Some (lowercase wanted)" by auto
  obtain r d where r: "environment w (clock w) (trace w) AskSource = (r, d)" by fastforce
  then have a: "as_source r = Inr (Some (pr_name q))"
    using assms(4) [unfolded page_answers_def, rule_format, of "clock w" "Some (pr_name q)" "trace w"] c' id
    by (simp add: look_at_page_def)
  let ?v = "w\<lparr>clock := clock w + d, trace := trace w @ [Event (clock w) AskSource (Some r)]\<rparr>"
  have "run_state ask_source w = (Inr (Some (pr_name q)), ?v)"
    using r a by (simp add: ask_source_def ask_as_def ask_def)
  then have "run_state (choice_look ps deadline seen) w = (Inr (Inr q), ?v)"
    using assms(5) n same s by (simp add: choice_look_def)
  with q(1) c' id show ?thesis by auto
qed


lemma sample_project_sel [simp]: "pr_name sample_project = ''p1''" "pr_org sample_project = ''o1''"
  by (simp_all add: sample_project_def)

definition choosing_page :: controller where
  "choosing_page = (new_controller None)\<lparr>status_of := (new_status Choose None)\<lparr>projects_of :=
     [project_view_of (choice_of sample_project)]\<rparr>\<rparr>"

theorem choice_reaches_pairing_witness:
  "\<exists>v c'. choose_listed ''P1'' choosing_page = Inr c' \<and>
     run_state (choice_look [sample_project] 1 None) (answerer (\<lambda>_. RSource (Inr (Some ''p1'')))) = (Inr (Inr sample_project), v)"
proof -
  let ?c = "choosing_page\<lparr>page := Some ''p1'', status_of := (status_of choosing_page)\<lparr>phase := Working,
      project_of1 := Some ''p1'', org_of := Some ''o1''\<rparr>\<rparr>"
  have "normalize_project ''P1'' = Some ''p1''" by code_simp
  then have c: "choose_listed ''P1'' choosing_page = Inr ?c"
    by (simp add: choose_listed_def choosing_page_def new_status_def project_view_of_def choice_of_def sample_project_def
        eq_ignore_case_def lowercase_def lower_char_def)
  have "good_project sample_project"
    by (simp add: good_project_def sample_project_def valid_name_def name_char_def char_class_defs)
  moreover have "page_answers True 5000 ?c (answerer (\<lambda>_. RSource (Inr (Some ''p1''))))"
    by (simp add: page_answers_def look_at_page_def answerer_def)
  ultimately show ?thesis
    using choice_reaches_pairing [OF c, of "[sample_project]" True 5000 "answerer (\<lambda>_. RSource (Inr (Some ''p1'')))" 1 None] c
    by (simp add: choosing_page_def answerer_def)
qed

theorem pair_reports_in_order_witness: "reported (snd sample_pair) = Some Kept"
  using pair_reports_in_order [of "answerer sample_answer" 3 sample_env sample_cfg "Inr sample_paired" "snd sample_pair"]
    sample_pair_run by (auto simp: answerer_def)

theorem thrown_away_run_is_silent_witness:
  "\<exists>c'. restart (fst waiting) = Inr c' \<and>
     (fold (act (\<lambda>_. [])) [Reports 1 7 (Approved ''x'')] c')\<lparr>paired_with := None\<rparr> = c'\<lparr>paired_with := None\<rparr>"
proof -
  obtain c' where c': "restart (fst waiting) = Inr c'" using restart_waiting by blast
  have "run_no (fst waiting) = 1" by (simp add: waiting_def run_ops)
  with thrown_away_run_is_silent [OF c', of "\<lambda>_. []" "[Reports 1 7 (Approved ''x'')]"] c' show ?thesis
    by (simp add: of_run_def)
qed

end
