(* ===== verification/Kube_Objects.thy ===== *)
theory Kube_Objects
  imports Json
begin

text \<open>
  The objects of Datum's API that a tunnel is made of (\<^verbatim>\<open>datum_apis/\<close>): HTTPProxy, Connector,
  ConnectorAdvertisement and the policies, with the JSON their rules serialise to, and the errors of the
  kube client. Timestamps are their RFC 3339 text; a field that no code reads or writes is left out.
\<close>

section \<open>Errors of the kube client\<close>

datatype kube_error = ApiError nat str | OtherError str

definition is_not_found :: "kube_error \<Rightarrow> bool" where
  "is_not_found e \<longleftrightarrow> (case e of ApiError code1 _ \<Rightarrow> code1 = 404 | OtherError _ \<Rightarrow> False)"

definition is_unauthorized :: "kube_error \<Rightarrow> bool" where
  "is_unauthorized e \<longleftrightarrow> (case e of ApiError code1 _ \<Rightarrow> code1 = 401 | OtherError _ \<Rightarrow> False)"

definition QUOTA_TIMEOUT :: str where
  "QUOTA_TIMEOUT = ''took too long to be checked against your quota''"

definition is_quota_check_timeout :: "kube_error \<Rightarrow> bool" where
  "is_quota_check_timeout e \<longleftrightarrow> (case e of ApiError code1 m \<Rightarrow> code1 = 403 \<and> has_sub QUOTA_TIMEOUT m | OtherError _ \<Rightarrow> False)"

text \<open>\<^verbatim>\<open>get_opt\<close>: a missing object is None, not an error.\<close>

definition opt_found :: "kube_error + 'a \<Rightarrow> kube_error + 'a option" where
  "opt_found r = (case r of Inr x \<Rightarrow> Inr (Some x) | Inl e \<Rightarrow> if is_not_found e then Inr None else Inl e)"

section \<open>Conditions\<close>

record condition =
  cd_type :: str
  cd_status :: str
  cd_reason :: str
  cd_message :: str
  cd_observed :: "int option"

definition the_list :: "'a list option \<Rightarrow> 'a list" where
  "the_list x = (case x of Some l \<Rightarrow> l | None \<Rightarrow> [])"

definition condition_status :: "condition list option \<Rightarrow> str \<Rightarrow> bool \<Rightarrow> bool" where
  "condition_status conditions kind require_true =
     (case find (\<lambda>c. cd_type c = kind) (the_list conditions) of
        Some c \<Rightarrow> cd_status c = ''True''
      | None \<Rightarrow> \<not> require_true)"

section \<open>The rules of an HTTPProxy\<close>

datatype header_type = HeaderExact | HeaderRegularExpression
datatype path_type = PathPrefix | PathExact | PathRegularExpression
datatype query_type = QueryExact | QueryRegularExpression
datatype filter_type = RequestRedirect | RequestHeaderModifier | ResponseHeaderModifier | URLRewrite | RequestMirror | ExtensionRef

record match_header =
  mh_name :: str
  mh_type :: "header_type option"
  mh_value :: str

record match_path =
  mp_type :: "path_type option"
  mp_value :: "str option"

record match_query =
  mq_name :: str
  mq_type :: "query_type option"
  mq_value :: str

record match_time =
  mt_time :: str
  mt_modifier :: "str option"

record route_match =
  rm_path :: "match_path option"
  rm_headers :: "match_header list option"
  rm_method :: "str option"
  rm_query_params :: "match_query list option"
  rm_time_of_day :: "match_time list option"

record redirect_filter =
  rd_scheme :: "str option"
  rd_status_code :: "nat option"
  rd_hostname :: "str option"
  rd_path :: "str option"
  rd_port :: "str option"

record route_filter =
  rf_request_redirect :: "redirect_filter option"
  rf_type :: filter_type
  rf_extension_ref :: "json option"
  rf_request_header_modifier :: "json option"
  rf_request_mirror :: "json option"
  rf_response_header_modifier :: "json option"
  rf_url_rewrite :: "json option"

text \<open>A \<^verbatim>\<open>ConnectorReference\<close> is the connector's name.\<close>

record rule_backend =
  be_endpoint :: str
  be_connector :: "str option"
  be_filters :: "route_filter list option"

record proxy_rule =
  ru_name :: "str option"
  ru_matches :: "route_match list"
  ru_filters :: "route_filter list option"
  ru_backends :: "rule_backend list option"

subsection \<open>As JSON\<close>

definition or_null :: "('a \<Rightarrow> json) \<Rightarrow> 'a option \<Rightarrow> json" where
  "or_null f x = (case x of Some y \<Rightarrow> f y | None \<Rightarrow> JNull)"

definition list_json :: "('a \<Rightarrow> json) \<Rightarrow> 'a list \<Rightarrow> json" where
  "list_json f xs = JArr (map f xs)"

definition object_json :: "(str \<times> json) list \<Rightarrow> json" where
  "object_json kvs = JObj (obj_of kvs)"

fun header_type_json :: "header_type \<Rightarrow> json" where
  "header_type_json HeaderExact = JStr ''Exact''"
| "header_type_json HeaderRegularExpression = JStr ''RegularExpression''"

fun path_type_json :: "path_type \<Rightarrow> json" where
  "path_type_json PathPrefix = JStr ''PathPrefix''"
| "path_type_json PathExact = JStr ''Exact''"
| "path_type_json PathRegularExpression = JStr ''RegularExpression''"

fun query_type_json :: "query_type \<Rightarrow> json" where
  "query_type_json QueryExact = JStr ''Exact''"
| "query_type_json QueryRegularExpression = JStr ''RegularExpression''"

fun filter_type_json :: "filter_type \<Rightarrow> json" where
  "filter_type_json RequestRedirect = JStr ''RequestRedirect''"
| "filter_type_json RequestHeaderModifier = JStr ''RequestHeaderModifier''"
| "filter_type_json ResponseHeaderModifier = JStr ''ResponseHeaderModifier''"
| "filter_type_json URLRewrite = JStr ''URLRewrite''"
| "filter_type_json RequestMirror = JStr ''RequestMirror''"
| "filter_type_json ExtensionRef = JStr ''ExtensionRef''"

definition match_header_json :: "match_header \<Rightarrow> json" where
  "match_header_json h = object_json [(''name'', JStr (mh_name h)), (''type'', or_null header_type_json (mh_type h)),
     (''value'', JStr (mh_value h))]"

definition match_path_json :: "match_path \<Rightarrow> json" where
  "match_path_json p = object_json [(''type'', or_null path_type_json (mp_type p)), (''value'', or_null JStr (mp_value p))]"

definition match_query_json :: "match_query \<Rightarrow> json" where
  "match_query_json m = object_json [(''name'', JStr (mq_name m)), (''type'', or_null query_type_json (mq_type m)),
     (''value'', JStr (mq_value m))]"

definition match_time_json :: "match_time \<Rightarrow> json" where
  "match_time_json m = object_json [(''time'', JStr (mt_time m)), (''modifier'', or_null JStr (mt_modifier m))]"

definition route_match_json :: "route_match \<Rightarrow> json" where
  "route_match_json m = object_json [(''path'', or_null match_path_json (rm_path m)),
     (''headers'', or_null (list_json match_header_json) (rm_headers m)), (''method'', or_null JStr (rm_method m)),
     (''query_params'', or_null (list_json match_query_json) (rm_query_params m)),
     (''time_of_day'', or_null (list_json match_time_json) (rm_time_of_day m))]"

definition redirect_filter_json :: "redirect_filter \<Rightarrow> json" where
  "redirect_filter_json r = object_json [(''scheme'', or_null JStr (rd_scheme r)),
     (''statusCode'', or_null (\<lambda>n. JNum (int n)) (rd_status_code r)), (''hostname'', or_null JStr (rd_hostname r)),
     (''path'', or_null JStr (rd_path r)), (''port'', or_null JStr (rd_port r))]"

definition route_filter_json :: "route_filter \<Rightarrow> json" where
  "route_filter_json f = object_json [(''requestRedirect'', or_null redirect_filter_json (rf_request_redirect f)),
     (''type'', filter_type_json (rf_type f)), (''extensionRef'', or_null id (rf_extension_ref f)),
     (''requestHeaderModifier'', or_null id (rf_request_header_modifier f)),
     (''requestMirror'', or_null id (rf_request_mirror f)),
     (''responseHeaderModifier'', or_null id (rf_response_header_modifier f)),
     (''urlRewrite'', or_null id (rf_url_rewrite f))]"

definition rule_backend_json :: "rule_backend \<Rightarrow> json" where
  "rule_backend_json b = object_json [(''endpoint'', JStr (be_endpoint b)),
     (''connector'', or_null (\<lambda>n. object_json [(''name'', JStr n)]) (be_connector b)),
     (''filters'', or_null (list_json route_filter_json) (be_filters b))]"

definition proxy_rule_json :: "proxy_rule \<Rightarrow> json" where
  "proxy_rule_json r = object_json [(''name'', or_null JStr (ru_name r)), (''matches'', list_json route_match_json (ru_matches r)),
     (''filters'', or_null (list_json route_filter_json) (ru_filters r)),
     (''backends'', or_null (list_json rule_backend_json) (ru_backends r))]"

section \<open>HTTPProxy\<close>

record proxy_status =
  ps_hostnames :: "str list option"
  ps_conditions :: "condition list option"

record http_proxy =
  hp_name :: "str option"
  hp_generate_name :: "str option"
  hp_generation :: "int option"
  hp_deleting :: bool
  hp_created :: "str option"
  hp_annotations :: "(str \<times> str) list option"
  hp_spec_hostnames :: "str list option"
  hp_rules :: "proxy_rule list"
  hp_status :: "proxy_status option"

definition name_any :: "str option \<Rightarrow> str option \<Rightarrow> str" where
  "name_any name generate_name =
     (case name of Some n \<Rightarrow> n | None \<Rightarrow> (case generate_name of Some g \<Rightarrow> g | None \<Rightarrow> []))"

definition annotation :: "(str \<times> str) list option \<Rightarrow> str \<Rightarrow> str option" where
  "annotation anns k = Option.bind anns (\<lambda>a. map_of a k)"

definition hp_conditions :: "http_proxy \<Rightarrow> condition list option" where
  "hp_conditions p = Option.bind (hp_status p) ps_conditions"

section \<open>ConnectorAdvertisement\<close>

datatype l4_protocol = Tcp | Udp

record l4_port =
  po_name :: str
  po_port :: int
  po_protocol :: l4_protocol

record l4_service =
  sv_address :: str
  sv_ports :: "l4_port list"

record l4_part =
  l4_name :: str
  l4_services :: "l4_service list"

record ad_spec =
  ad_connector :: str
  ad_layer4 :: "l4_part list option"

record advertisement =
  ad_name :: "str option"
  ad_body :: ad_spec

text \<open>None of these types has a field that two values serialise to alike, so equal JSON is equality.\<close>

section \<open>Connector\<close>

record connection_details =
  de_id :: str
  de_home_relay :: str
  de_addresses :: "(str \<times> int) list"

record connector =
  cn_name :: "str option"
  cn_generate_name :: "str option"
  cn_generation :: "int option"
  cn_annotations :: "(str \<times> str) list option"
  cn_class :: str
  cn_conditions :: "condition list option"

definition connector_name_any :: "connector \<Rightarrow> str" where
  "connector_name_any c = name_any (cn_name c) (cn_generate_name c)"

definition proxy_name_any :: "http_proxy \<Rightarrow> str" where
  "proxy_name_any p = name_any (hp_name p) (hp_generate_name p)"

end
