(* ===== verification/Tunnel_Rules.thy ===== *)
theory Tunnel_Rules
  imports Kube_Objects
begin

text \<open>
  \<open>tunnels.rs\<close>, what it computes without asking anyone: endpoints and targets, the rules of a tunnel's
  HTTPProxy and the spec of its advertisement, when an existing object already says what would be written,
  the choice of a connector class, the wording of quota errors and the switches. The lemmas say what the
  rules carry and can be read back from, that an object which is left alone has the connector and
  the endpoint it should have, and which endpoints are read back.
\<close>

section \<open>Endpoints\<close>

text \<open>
  \<^verbatim>\<open>url::Url::parse\<close> is a parameter: the host and the port of what it accepts. Its \<^verbatim>\<open>port()\<close> is None for
  the default port of the scheme, written out or not.
\<close>

type_synonym url_parser = "str \<Rightarrow> (str option \<times> nat option) option"

definition normalize_endpoint :: "str \<Rightarrow> str" where
  "normalize_endpoint raw = (let e = trim raw in
     if e = [] then e else if has_sub ''://'' e then e else ''http://'' @ e)"

record parsed_target =
  pt_address :: str
  pt_port :: nat

datatype target_error = MissingHost | MissingPort | InvalidIpv6 | InvalidPort

definition with_port :: "str \<Rightarrow> str \<Rightarrow> target_error + parsed_target" where
  "with_port host port = (case parse_uint (2 ^ 16 - 1) port of
     None \<Rightarrow> Inl InvalidPort | Some n \<Rightarrow> Inr \<lparr>pt_address = host, pt_port = n\<rparr>)"

definition parse_target :: "url_parser \<Rightarrow> str \<Rightarrow> target_error + parsed_target" where
  "parse_target url raw = (let target = trim raw in
     case url target of
       Some (host, port) \<Rightarrow>
         (case host of None \<Rightarrow> Inl MissingHost
          | Some h \<Rightarrow> (case port of None \<Rightarrow> Inl MissingPort | Some n \<Rightarrow> Inr \<lparr>pt_address = h, pt_port = n\<rparr>))
     | None \<Rightarrow>
         if starts_with ''['' target then
           (case split_once '']'' (tl target) of None \<Rightarrow> Inl InvalidIpv6
            | Some (host, rest) \<Rightarrow> (case strip_prefix '':'' rest of None \<Rightarrow> Inl MissingPort | Some port \<Rightarrow> with_port host port))
         else (case rsplit_once (CHR '':'') target of None \<Rightarrow> Inl MissingPort
            | Some (host, port) \<Rightarrow> with_port host port))"

definition strip_scheme :: "url_parser \<Rightarrow> str \<Rightarrow> str" where
  "strip_scheme url endpoint = (case url endpoint of
     Some (Some host, Some port) \<Rightarrow> host @ '':'' @ show_nat port
   | _ \<Rightarrow> endpoint)"

record tcp_proxy_data =
  td_host :: str
  td_port :: nat

definition from_host_port_str :: "str \<Rightarrow> target_error + tcp_proxy_data" where
  "from_host_port_str s = (case rsplit_once (CHR '':'') s of None \<Rightarrow> Inl MissingPort
     | Some (host, port) \<Rightarrow> (case parse_uint (2 ^ 16 - 1) port of None \<Rightarrow> Inl InvalidPort
         | Some n \<Rightarrow> Inr \<lparr>td_host = host, td_port = n\<rparr>))"

section \<open>Rules\<close>

definition DISPLAY_NAME_ANNOTATION :: str where "DISPLAY_NAME_ANNOTATION = ''app.kubernetes.io/name''"
definition WAF_EXEMPT_RULE_NAME :: str where "WAF_EXEMPT_RULE_NAME = ''streams''"
definition WAF_PROTECTED_RULE_NAME :: str where "WAF_PROTECTED_RULE_NAME = ''protected''"

definition no_match :: route_match where
  "no_match = \<lparr>rm_path = None, rm_headers = None, rm_method = None, rm_query_params = None, rm_time_of_day = None\<rparr>"

definition default_match :: route_match where
  "default_match = no_match\<lparr>rm_path := Some \<lparr>mp_type = Some PathPrefix, mp_value = Some ''/''\<rparr>\<rparr>"

definition https_redirect_rule :: proxy_rule where
  "https_redirect_rule = \<lparr>ru_name = None,
     ru_matches = [default_match\<lparr>rm_headers := Some [\<lparr>mh_name = ''x-forwarded-proto'', mh_type = Some HeaderExact,
        mh_value = ''http''\<rparr>]\<rparr>],
     ru_filters = Some [\<lparr>rf_request_redirect = Some \<lparr>rd_scheme = Some ''https'', rd_status_code = Some 301,
          rd_hostname = None, rd_path = None, rd_port = None\<rparr>, rf_type = RequestRedirect, rf_extension_ref = None,
        rf_request_header_modifier = None, rf_request_mirror = None, rf_response_header_modifier = None,
        rf_url_rewrite = None\<rparr>],
     ru_backends = None\<rparr>"

definition proxy_rule_for :: "str \<Rightarrow> str \<Rightarrow> proxy_rule" where
  "proxy_rule_for endpoint connector_name = \<lparr>ru_name = None, ru_matches = [default_match], ru_filters = None,
     ru_backends = Some [\<lparr>be_endpoint = endpoint, be_connector = Some connector_name, be_filters = None\<rparr>]\<rparr>"

definition desired_proxy_rules :: "str \<Rightarrow> str \<Rightarrow> route_match list option \<Rightarrow> proxy_rule list" where
  "desired_proxy_rules endpoint connector_name waf_exempt_matches =
     (let plain = [https_redirect_rule, proxy_rule_for endpoint connector_name] in
      case waf_exempt_matches of
        None \<Rightarrow> plain
      | Some matches \<Rightarrow>
          if matches = [] then plain
          else [https_redirect_rule,
            (proxy_rule_for endpoint connector_name)\<lparr>ru_name := Some WAF_EXEMPT_RULE_NAME, ru_matches := matches\<rparr>,
            (proxy_rule_for endpoint connector_name)\<lparr>ru_name := Some WAF_PROTECTED_RULE_NAME\<rparr>])"

definition has_protected_rule :: "proxy_rule list \<Rightarrow> bool" where
  "has_protected_rule rules \<longleftrightarrow> list_ex (\<lambda>r. ru_name r = Some WAF_PROTECTED_RULE_NAME) rules"

text \<open>The connector of the first backend that references one, and the endpoint of the first rule with a backend.\<close>

definition all_backends :: "proxy_rule list \<Rightarrow> rule_backend list" where
  "all_backends rules = concat (map (\<lambda>r. the_list (ru_backends r)) rules)"

fun find_map_rule :: "('a \<Rightarrow> 'b option) \<Rightarrow> 'a list \<Rightarrow> 'b option" where
  "find_map_rule f [] = None"
| "find_map_rule f (x # xs) = (case f x of Some y \<Rightarrow> Some y | None \<Rightarrow> find_map_rule f xs)"

definition rules_connector :: "proxy_rule list \<Rightarrow> str option" where
  "rules_connector rules = find_map_rule be_connector (all_backends rules)"

definition proxy_connector_name :: "http_proxy \<Rightarrow> str option" where
  "proxy_connector_name p = rules_connector (hp_rules p)"

definition rules_endpoint :: "proxy_rule list \<Rightarrow> str option" where
  "rules_endpoint rules = find_map_rule (\<lambda>r. case the_list (ru_backends r) of [] \<Rightarrow> None | b # _ \<Rightarrow> Some (be_endpoint b)) rules"

definition proxy_backend_endpoint :: "http_proxy \<Rightarrow> str option" where
  "proxy_backend_endpoint p = rules_endpoint (hp_rules p)"

definition proxy_hostnames :: "http_proxy \<Rightarrow> str list" where
  "proxy_hostnames p = (case Option.bind (hp_status p) ps_hostnames of Some h \<Rightarrow> h
     | None \<Rightarrow> the_list (hp_spec_hostnames p))"

definition proxy_label :: "http_proxy \<Rightarrow> str \<Rightarrow> str" where
  "proxy_label p tunnel_id = (case annotation (hp_annotations p) DISPLAY_NAME_ANNOTATION of Some l \<Rightarrow> l | None \<Rightarrow> tunnel_id)"

text \<open>Nothing of these types fails to serialise.\<close>

definition http_proxy_spec_matches :: "http_proxy \<Rightarrow> str \<Rightarrow> proxy_rule list \<Rightarrow> bool" where
  "http_proxy_spec_matches existing label rules \<longleftrightarrow>
     annotation (hp_annotations existing) DISPLAY_NAME_ANNOTATION = Some label \<and>
     list_json proxy_rule_json (hp_rules existing) = list_json proxy_rule_json rules"

definition retarget_proxy_rules :: "http_proxy \<Rightarrow> str \<Rightarrow> route_match list option \<Rightarrow> proxy_rule list option" where
  "retarget_proxy_rules existing endpoint waf_exempt_matches =
     map_option (\<lambda>cn. desired_proxy_rules endpoint cn waf_exempt_matches) (proxy_connector_name existing)"

section \<open>Advertisements\<close>

definition advertisement_spec :: "str \<Rightarrow> parsed_target \<Rightarrow> ad_spec" where
  "advertisement_spec connector_name target = \<lparr>ad_connector = connector_name,
     ad_layer4 = Some [\<lparr>l4_name = ''default'', l4_services = [\<lparr>sv_address = pt_address target,
       sv_ports = [\<lparr>po_name = ''tcp-'' @ show_nat (pt_port target), po_port = int (pt_port target), po_protocol = Tcp\<rparr>]\<rparr>]\<rparr>]\<rparr>"

definition advertisement_spec_matches :: "advertisement \<Rightarrow> ad_spec \<Rightarrow> bool" where
  "advertisement_spec_matches existing desired \<longleftrightarrow> ad_body existing = desired"

definition retarget_advertisement_spec :: "ad_spec \<Rightarrow> parsed_target \<Rightarrow> ad_spec" where
  "retarget_advertisement_spec existing target = advertisement_spec (ad_connector existing) target"

section \<open>Connector classes, quota messages, switches\<close>

definition CONNECTOR_CLASS_NAMES :: "str list" where
  "CONNECTOR_CLASS_NAMES = [''iroh-quic-tunnel'', ''datum-connect'']"

datatype class_pick = CurrentClass | LegacyClass | OtherClass | NoneListed

definition pick_connector_class :: "str list \<Rightarrow> str \<times> class_pick" where
  "pick_connector_class existing =
     (if CONNECTOR_CLASS_NAMES ! 0 \<in> set existing then (CONNECTOR_CLASS_NAMES ! 0, CurrentClass)
      else if CONNECTOR_CLASS_NAMES ! 1 \<in> set existing then (CONNECTOR_CLASS_NAMES ! 1, LegacyClass)
      else (case existing of first # _ \<Rightarrow> (first, OtherClass) | [] \<Rightarrow> (CONNECTOR_CLASS_NAMES ! 0, NoneListed)))"

definition quota_text :: "str \<Rightarrow> str" where
  "quota_text resource_type = ''Quota limit exceeded for '' @ resource_type @ '' resources.'' @ [CHR 0x0A, CHR 0x0A] @
     ''You've reached the limit for creating '' @ resource_type @ '' resources in this project.'' @ [CHR 0x0A, CHR 0x0A] @
     ''To fix this, you can:'' @ [CHR 0x0A] @ ''  - Delete unused tunnels to free up capacity'' @ [CHR 0x0A] @
     ''  - Contact support to request a higher quota limit'' @ [CHR 0x0A, CHR 0x0A] @
     ''Run 'tunnel list' to see existing tunnels.''"

definition format_quota_error :: "str \<Rightarrow> str \<Rightarrow> str option" where
  "format_quota_error err_msg resource_type =
     (if has_sub QUOTA_TIMEOUT err_msg then None
      else if has_sub ''quota'' err_msg \<or> has_sub ''Insufficient quota'' err_msg then Some (quota_text resource_type)
      else None)"

definition switched_on :: "str \<Rightarrow> bool" where
  "switched_on v \<longleftrightarrow> v \<in> {''1'', ''true'', ''TRUE'', ''yes'', ''YES''}"

definition publish_tickets_enabled :: "str option \<Rightarrow> bool" where
  "publish_tickets_enabled env = (case env of Some v \<Rightarrow> switched_on v | None \<Rightarrow> False)"

text \<open>The variable at run time, else the one at build time.\<close>

definition create_traffic_protection_policies_enabled :: "str option \<Rightarrow> str option \<Rightarrow> bool" where
  "create_traffic_protection_policies_enabled env build =
     (case (case env of Some v \<Rightarrow> Some v | None \<Rightarrow> build) of Some v \<Rightarrow> switched_on v | None \<Rightarrow> False)"

text \<open>\<open>read_matches\<close> is serde's reading of the JSON array, or its error.\<close>

definition parse_waf_exempt_matches :: "(str \<Rightarrow> str + route_match list) \<Rightarrow> str \<Rightarrow> str + route_match list" where
  "parse_waf_exempt_matches read_matches raw =
     (case read_matches raw of
        Inl e \<Rightarrow> Inl (''not a JSON array of HTTPRoute matches: '' @ e)
      | Inr matches \<Rightarrow>
          (case find (\<lambda>(i, m). rm_path m = None) (enumerate 0 matches) of
             Some (i, _) \<Rightarrow> Inl (''match #'' @ show_nat i @ '' has no '' @ [CHR 0x22] @ ''path'' @ [CHR 0x22])
           | None \<Rightarrow> Inr matches))"



section \<open>What the rules say\<close>

lemma desired_proxy_rules_cases:
  obtains (plain) "desired_proxy_rules ep cn m = [https_redirect_rule, proxy_rule_for ep cn]" "the_list m = []"
  | (split) "desired_proxy_rules ep cn m = [https_redirect_rule,
      (proxy_rule_for ep cn)\<lparr>ru_name := Some WAF_EXEMPT_RULE_NAME, ru_matches := the_list m\<rparr>,
      (proxy_rule_for ep cn)\<lparr>ru_name := Some WAF_PROTECTED_RULE_NAME\<rparr>]" "the_list m \<noteq> []"
  by (cases m) (auto simp: desired_proxy_rules_def the_list_def Let_def split: if_splits)

lemma redirect_sel [simp]: "ru_backends https_redirect_rule = None" "ru_name https_redirect_rule = None"
  by (simp_all add: https_redirect_rule_def)

lemma proxy_rule_for_sel [simp]:
  "ru_backends (proxy_rule_for ep cn) = Some [\<lparr>be_endpoint = ep, be_connector = Some cn, be_filters = None\<rparr>]"
  "ru_name (proxy_rule_for ep cn) = None"
  by (simp_all add: proxy_rule_for_def)

lemma desired_connector [simp]: "rules_connector (desired_proxy_rules ep cn m) = Some cn"
  by (cases ep cn m rule: desired_proxy_rules_cases) (simp_all add: rules_connector_def all_backends_def the_list_def)

lemma desired_endpoint [simp]: "rules_endpoint (desired_proxy_rules ep cn m) = Some ep"
  by (cases ep cn m rule: desired_proxy_rules_cases) (simp_all add: rules_endpoint_def the_list_def)

lemma desired_protected [simp]: "has_protected_rule (desired_proxy_rules ep cn m) \<longleftrightarrow> the_list m \<noteq> []"
  by (cases ep cn m rule: desired_proxy_rules_cases)
    (simp_all add: has_protected_rule_def WAF_EXEMPT_RULE_NAME_def)

lemma desired_backends:
  "b \<in> set (all_backends (desired_proxy_rules ep cn m)) \<longleftrightarrow> b = \<lparr>be_endpoint = ep, be_connector = Some cn, be_filters = None\<rparr>"
  by (cases ep cn m rule: desired_proxy_rules_cases) (auto simp: all_backends_def the_list_def)

lemma all_backends_Cons: "all_backends (r # rs) = the_list (ru_backends r) @ all_backends rs"
  by (simp add: all_backends_def)

section \<open>What equal JSON says\<close>

lemma get_obj_of: "obj_get (obj_of kvs) k = map_of (rev kvs) k"
proof -
  have "obj_get (fold (\<lambda>(k, v). obj_put k v) kvs a) k = (case map_of (rev kvs) k of Some v \<Rightarrow> Some v | None \<Rightarrow> obj_get a k)" for a
    by (induction kvs arbitrary: a) (auto split: option.splits simp: map_add_def)
  then show ?thesis by (simp add: obj_of_def split: option.splits)
qed

lemma object_json_eqD: "object_json kvs = object_json lvs \<Longrightarrow> map_of (rev kvs) k = map_of (rev lvs) k"
  unfolding object_json_def by (metis get_obj_of json.inject(6))

lemma name_ref_simps [simp]:
  "object_json [(''name'', JStr x)] = object_json [(''name'', JStr y)] \<longleftrightarrow> x = y"
  "object_json [(''name'', JStr x)] \<noteq> JNull" "JNull \<noteq> object_json [(''name'', JStr x)]"
  by (simp_all add: object_json_def obj_of_def)

lemma rule_backend_json_eqD:
  assumes "rule_backend_json a = rule_backend_json b"
  shows "be_endpoint a = be_endpoint b" "be_connector a = be_connector b"
proof -
  note f = object_json_eqD [OF assms [unfolded rule_backend_json_def]]
  from f [of "''endpoint''"] show "be_endpoint a = be_endpoint b" by simp
  from f [of "''connector''"] have c: "or_null (\<lambda>n. object_json [(''name'', JStr n)]) (be_connector a) =
      or_null (\<lambda>n. object_json [(''name'', JStr n)]) (be_connector b)" by simp
  then show "be_connector a = be_connector b"
    by (cases "be_connector a"; cases "be_connector b") (simp_all add: or_null_def)
qed

lemma map_eq_lift: "map f xs = map f ys \<Longrightarrow> (\<And>a b. f a = f b \<Longrightarrow> g a = g b) \<Longrightarrow> map g xs = map g ys"
  unfolding list_eq_iff_nth_eq length_map by (metis nth_map)

lemma backends_json_eqD:
  assumes "map rule_backend_json bs = map rule_backend_json cs"
  shows "map be_endpoint bs = map be_endpoint cs" "map be_connector bs = map be_connector cs"
  by (rule map_eq_lift [OF assms], erule rule_backend_json_eqD)+

lemma proxy_rule_json_eqD:
  assumes "proxy_rule_json a = proxy_rule_json b"
  shows "map rule_backend_json (the_list (ru_backends a)) = map rule_backend_json (the_list (ru_backends b))"
  using object_json_eqD [OF assms [unfolded proxy_rule_json_def], of "''backends''"]
  by (cases "ru_backends a"; cases "ru_backends b") (simp_all add: or_null_def list_json_def the_list_def)

lemma find_map_rule_eq:
  "find_map_rule f xs = (case filter (\<lambda>y. y \<noteq> None) (map f xs) of [] \<Rightarrow> None | y # _ \<Rightarrow> y)"
  by (induction xs) (auto split: option.splits)

lemma find_map_rule_cong: "map f xs = map g ys \<Longrightarrow> find_map_rule f xs = find_map_rule g ys"
  by (simp add: find_map_rule_eq)

lemma rules_json_eqD:
  assumes "map proxy_rule_json rs = map proxy_rule_json ss"
  shows "rules_connector rs = rules_connector ss" "rules_endpoint rs = rules_endpoint ss"
proof -
  from assms have l: "map (\<lambda>r. map rule_backend_json (the_list (ru_backends r))) rs =
      map (\<lambda>r. map rule_backend_json (the_list (ru_backends r))) ss"
    by (rule map_eq_lift, intro proxy_rule_json_eqD)
  then have "map rule_backend_json (all_backends rs) = map rule_backend_json (all_backends ss)"
    by (simp add: all_backends_def map_concat comp_def)
  then have "map be_connector (all_backends rs) = map be_connector (all_backends ss)" by (rule backends_json_eqD)
  then show "rules_connector rs = rules_connector ss" unfolding rules_connector_def by (rule find_map_rule_cong)
  have first: "(case the_list (ru_backends r) of [] \<Rightarrow> None | b # _ \<Rightarrow> Some (be_endpoint b)) =
      (case the_list (ru_backends s) of [] \<Rightarrow> None | b # _ \<Rightarrow> Some (be_endpoint b))"
    if "map rule_backend_json (the_list (ru_backends r)) = map rule_backend_json (the_list (ru_backends s))" for r s
    using backends_json_eqD(1) [OF that]
    by (cases "the_list (ru_backends r)"; cases "the_list (ru_backends s)") simp_all
  from l have "map (\<lambda>r. case the_list (ru_backends r) of [] \<Rightarrow> None | b # _ \<Rightarrow> Some (be_endpoint b)) rs =
      map (\<lambda>r. case the_list (ru_backends r) of [] \<Rightarrow> None | b # _ \<Rightarrow> Some (be_endpoint b)) ss"
    by (rule map_eq_lift, intro first)
  then show "rules_endpoint rs = rules_endpoint ss" unfolding rules_endpoint_def by (rule find_map_rule_cong)
qed

text \<open>A proxy that is left alone already has the label, the connector and the endpoint that would be written.\<close>

lemma spec_matchesD:
  assumes "http_proxy_spec_matches p label (desired_proxy_rules ep cn m)"
  shows "proxy_connector_name p = Some cn" "proxy_backend_endpoint p = Some ep" "proxy_label p t = label"
  using assms rules_json_eqD [of "hp_rules p" "desired_proxy_rules ep cn m"]
  by (simp_all add: http_proxy_spec_matches_def list_json_def proxy_connector_name_def proxy_backend_endpoint_def proxy_label_def)

section \<open>Endpoints are read back\<close>

text \<open>
  The documented behaviour of \<^verbatim>\<open>url::Url\<close> this rests on: an http URL of a plain host and a port has
  that host, and that port unless it is the scheme's own, 80.
\<close>

definition plain_host :: "str \<Rightarrow> bool" where
  "plain_host h \<longleftrightarrow> h \<noteq> [] \<and> list_all (\<lambda>c. is_lower c \<or> c = CHR ''-'' \<or> c = CHR ''.'') h \<and> is_lower (hd h) \<and> is_lower (last h)"

definition reads_http_urls :: "url_parser \<Rightarrow> bool" where
  "reads_http_urls url \<longleftrightarrow> (\<forall>h n. plain_host h \<longrightarrow> n < 2 ^ 16 \<longrightarrow>
     url (''http://'' @ h @ '':'' @ show_nat n) = Some (Some h, if n = 80 then None else Some n))"

lemma plain_host_clean:
  assumes "plain_host h"
  shows "\<not> has_sub ''://'' (h @ '':'' @ show_nat n)" "trim (h @ '':'' @ show_nat n) = h @ '':'' @ show_nat n"
proof -
  from assms have h: "\<forall>c \<in> set h. c \<noteq> CHR ''/'' \<and> c \<noteq> CHR '':'' \<and> \<not> is_whitespace c"
    unfolding plain_host_def by (auto simp: list_all_iff char_class_defs)
  have d: "\<forall>c \<in> set (show_nat n). c \<noteq> CHR ''/'' \<and> \<not> is_whitespace c"
    using show_nat_digits [of n] by (auto simp: list_all_iff char_class_defs)
  show "\<not> has_sub ''://'' (h @ '':'' @ show_nat n)"
  proof
    assume "has_sub ''://'' (h @ '':'' @ show_nat n)"
    then obtain a b where "h @ '':'' @ show_nat n = a @ ''://'' @ b" unfolding has_sub_iff by blast
    then have "set (h @ '':'' @ show_nat n) = set (a @ ''://'' @ b)" by (rule arg_cong)
    then have "CHR ''/'' \<in> set (h @ '':'' @ show_nat n)" by (simp only: set_append) (simp only: Un_iff list.set insert_iff simp_thms)
    with h d show False by auto
  qed
  show "trim (h @ '':'' @ show_nat n) = h @ '':'' @ show_nat n"
  proof (rule trim_trimmed)
    from assms have "h \<noteq> []" by (simp add: plain_host_def)
    with h d show_nat_digits [of n] show "trimmed (h @ '':'' @ show_nat n)"
      by (simp add: trimmed_def)
  qed
qed

lemma normalized_endpoint:
  assumes "plain_host h"
  shows "normalize_endpoint (h @ '':'' @ show_nat n) = ''http://'' @ h @ '':'' @ show_nat n"
  using plain_host_clean [OF assms, of n] by (simp add: normalize_endpoint_def Let_def)

lemma trim_url: "trim (''http://'' @ h @ '':'' @ show_nat n) = ''http://'' @ h @ '':'' @ show_nat n"
proof (rule trim_trimmed)
  have "show_nat n \<noteq> []" "list_all is_digit (show_nat n)" using show_nat_digits by auto
  then have "is_digit (last (show_nat n))" by (simp add: list_all_iff)
  then have "\<not> is_whitespace (last (show_nat n))" by (auto simp: is_digit_def is_whitespace_def)
  moreover have "last ((''http://'' @ h @ '':'') @ show_nat n) = last (show_nat n)"
    using \<open>show_nat n \<noteq> []\<close> by (rule last_appendR)
  moreover have "\<not> is_whitespace (CHR ''h'')" by (simp add: is_whitespace_def)
  ultimately show "trimmed (''http://'' @ h @ '':'' @ show_nat n)" by (simp only: trimmed_def append_assoc append_Cons list.sel not_False_eq_True simp_thms)
qed

lemma parse_endpoint:
  assumes "reads_http_urls url" "plain_host h" "n < 2 ^ 16"
  shows "parse_target url (normalize_endpoint (h @ '':'' @ show_nat n)) =
    (if n = 80 then Inl MissingPort else Inr \<lparr>pt_address = h, pt_port = n\<rparr>)"
proof -
  from assms have "url (''http://'' @ h @ '':'' @ show_nat n) = Some (Some h, if n = 80 then None else Some n)"
    by (simp add: reads_http_urls_def)
  then show ?thesis unfolding normalized_endpoint [OF assms(2)] parse_target_def Let_def trim_url by simp
qed

lemma strip_endpoint:
  assumes "reads_http_urls url" "plain_host h" "n < 2 ^ 16" "n \<noteq> 80"
  shows "strip_scheme url (normalize_endpoint (h @ '':'' @ show_nat n)) = h @ '':'' @ show_nat n"
    "from_host_port_str (h @ '':'' @ show_nat n) = Inr \<lparr>td_host = h, td_port = n\<rparr>"
proof -
  from assms have "url (''http://'' @ h @ '':'' @ show_nat n) = Some (Some h, Some n)"
    by (simp add: reads_http_urls_def)
  then show "strip_scheme url (normalize_endpoint (h @ '':'' @ show_nat n)) = h @ '':'' @ show_nat n"
    unfolding normalized_endpoint [OF assms(2)] strip_scheme_def by simp
  have "list_all is_digit (show_nat n)" using show_nat_digits by auto
  then have "CHR '':'' \<notin> set (show_nat n)" by (auto simp: list_all_iff is_digit_def)
  then have "rsplit_once (CHR '':'') (h @ '':'' @ show_nat n) = Some (h, show_nat n)" by (simp add: rsplit_once_Some)
  with assms(3) show "from_host_port_str (h @ '':'' @ show_nat n) = Inr \<lparr>td_host = h, td_port = n\<rparr>"
    by (simp add: from_host_port_str_def parse_show_nat)
qed

end
