(* ===== verification/Edge_Policies.thy ===== *)
theory Edge_Policies
  imports Tunnel_Rules
begin

text \<open>
  \<open>edge_policies.rs\<close>, the policies of a tunnel as JSON: what they should say, how the daemon tells its own
  policy, the one an old add-on made and anyone else's apart, the upgrade of the old one, and what the status
  page reads out of them. The lemmas show that what is written is recognised and read back.
\<close>

definition MANAGED_BY_ANNOTATION :: str where "MANAGED_BY_ANNOTATION = ''connect.datum.net/managed-by''"
definition MANAGED_BY_VALUE :: str where "MANAGED_BY_VALUE = ''datum-connect-addon''"
definition POLICY_NAME_ANNOTATION :: str where "POLICY_NAME_ANNOTATION = ''networking.datumapis.com/display-name''"
definition HTTP_ROUTE_GROUP :: str where "HTTP_ROUTE_GROUP = ''gateway.networking.k8s.io''"
definition REQUEST_TIMEOUT :: str where "REQUEST_TIMEOUT = ''1h''"
definition EXCERPT_MAX_CHARS :: nat where "EXCERPT_MAX_CHARS = 200"

definition waf_policy_name :: "str \<Rightarrow> str" where "waf_policy_name tunnel_id = tunnel_id @ ''-waf''"
definition timeout_policy_name :: "str \<Rightarrow> str" where "timeout_policy_name tunnel_id = tunnel_id @ ''-timeout''"

section \<open>Policies as objects of any kind\<close>

text \<open>
  A \<^verbatim>\<open>DynamicObject\<close>: the annotations, the rest of the metadata, and everything else the object has, which
  is an object of JSON: it is read from the rest of an object, and written as one.
\<close>

record dynamic_object =
  dy_types :: "(str \<times> str) option"
  dy_annotations :: "(str \<times> str) list option"
  dy_meta :: obj
  dy_data :: obj

definition annotations_json :: "(str \<times> str) list \<Rightarrow> json" where
  "annotations_json a = object_json (map (\<lambda>(k, v). (k, JStr v)) a)"

definition meta_json :: "dynamic_object \<Rightarrow> json" where
  "meta_json d = JObj (case dy_annotations d of None \<Rightarrow> dy_meta d
     | Some a \<Rightarrow> obj_put ''annotations'' (annotations_json a) (dy_meta d))"

definition dynamic_json :: "dynamic_object \<Rightarrow> json" where
  "dynamic_json d = object_json (
     (case dy_types d of None \<Rightarrow> [] | Some (v, k) \<Rightarrow> [(''apiVersion'', JStr v), (''kind'', JStr k)]) @
     [(''metadata'', meta_json d)] @ dy_data d)"

definition put_annotation :: "str \<Rightarrow> str \<Rightarrow> (str \<times> str) list \<Rightarrow> (str \<times> str) list" where
  "put_annotation k v a = filter (\<lambda>p. fst p \<noteq> k) a @ [(k, v)]"

definition new_policy :: "str \<times> str \<Rightarrow> str \<Rightarrow> str \<Rightarrow> json \<Rightarrow> dynamic_object" where
  "new_policy resource namespace name spec = \<lparr>dy_types = Some resource, dy_annotations = None,
     dy_meta = obj_of [(''name'', JStr name), (''namespace'', JStr namespace)], dy_data = [(''spec'', spec)]\<rparr>"

definition DEFAULT_PCP_NAMESPACE :: str where "DEFAULT_PCP_NAMESPACE = ''default''"

definition waf_resource :: "str \<times> str" where
  "waf_resource = (''networking.datumapis.com/v1alpha'', ''TrafficProtectionPolicy'')"
definition timeout_resource :: "str \<times> str" where
  "timeout_resource = (''gateway.envoyproxy.io/v1alpha1'', ''BackendTrafficPolicy'')"

section \<open>What the policies should say\<close>

definition paranoia_wanted :: json where
  "paranoia_wanted = object_json [(''blocking'', JNum 1), (''detection'', JNum 1)]"
definition scores_wanted :: json where
  "scores_wanted = object_json [(''inbound'', JNum 5), (''outbound'', JNum 4)]"
definition exclusions_wanted :: json where
  "exclusions_wanted = object_json [(''ids'', JArr [JNum 920420])]"

definition desired_waf_spec :: "str \<Rightarrow> json" where
  "desired_waf_spec tunnel_id = object_json [
     (''mode'', JStr ''Enforce''),
     (''samplingPercentage'', JNum 100),
     (''ruleSets'', JArr [object_json [
        (''type'', JStr ''OWASPCoreRuleSet''),
        (''owaspCoreRuleSet'', object_json [
           (''paranoiaLevels'', paranoia_wanted),
           (''scoreThresholds'', scores_wanted),
           (''ruleExclusions'', exclusions_wanted)])]]),
     (''targetRefs'', JArr [object_json [
        (''group'', JStr HTTP_ROUTE_GROUP), (''kind'', JStr ''HTTPRoute''), (''name'', JStr tunnel_id),
        (''sectionName'', JStr WAF_PROTECTED_RULE_NAME)]])]"

definition desired_timeout_spec :: "str \<Rightarrow> json" where
  "desired_timeout_spec tunnel_id = object_json [
     (''targetRefs'', JArr [object_json [(''group'', JStr HTTP_ROUTE_GROUP), (''kind'', JStr ''HTTPRoute''), (''name'', JStr tunnel_id)]]),
     (''timeout'', object_json [(''http'', object_json [(''requestTimeout'', JStr REQUEST_TIMEOUT)])])]"

section \<open>Recognising a policy\<close>

definition has_managed_by :: "json \<Rightarrow> bool" where
  "has_managed_by policy \<longleftrightarrow> (case Option.bind (pointer [''metadata'', ''annotations''] policy) as_object of
     Some a \<Rightarrow> obj_get a MANAGED_BY_ANNOTATION \<noteq> None | None \<Rightarrow> False)"

text \<open>\<open>f64\<close> reads a number as a double (\<^verbatim>\<open>as_f64\<close>).\<close>

fun is_number :: "json \<Rightarrow> bool" where
  "is_number (JNum _) = True" | "is_number (JReal _) = True" | "is_number _ = False"

function json_eq :: "(json \<Rightarrow> 'f option) \<Rightarrow> json \<Rightarrow> json \<Rightarrow> bool" where
  "json_eq f64 a b =
     (if is_number a \<and> is_number b then f64 a = f64 b
      else (case (a, b) of
          (JArr xs, JArr ys) \<Rightarrow> length xs = length ys \<and> list_all (\<lambda>(x, y). json_eq f64 x y) (zip xs ys)
        | (JObj o1, JObj o2) \<Rightarrow> length o1 = length o2 \<and>
            list_all (\<lambda>(k, v). case obj_get o2 k of Some w \<Rightarrow> json_eq f64 v w | None \<Rightarrow> False) o1
        | _ \<Rightarrow> a = b))"
  by pat_completeness auto
termination
proof (relation "measure (\<lambda>(f, a, b). size a)", goal_cases)
  case 1
  show ?case by simp
next
  case (2 f a b x y xs ys z u v)
  then have "u \<in> set xs" by (auto dest: set_zip_leftD)
  then have "size u < Suc (size_list size xs)" by (meson less_Suc_eq_le size_list_estimation' order_refl)
  with 2 show ?case by auto
next
  case (3 f a b x y o1 o2 z k v w)
  then have "(k, v) \<in> set o1" by auto
  then have "size v \<le> size_list (size_prod (\<lambda>_. 0) size) o1"
    by (induction o1) auto
  with 3 show ?case by auto
qed

declare json_eq.simps [simp del]

text \<open>jq's alternative operator.\<close>

definition or_default :: "json option \<Rightarrow> json \<Rightarrow> json" where
  "or_default v d = (case v of None \<Rightarrow> d | Some JNull \<Rightarrow> d | Some (JBool False) \<Rightarrow> d | Some x \<Rightarrow> x)"

definition nth_json :: "json \<Rightarrow> nat \<Rightarrow> json" where
  "nth_json v i = (case v of JArr xs \<Rightarrow> if i < length xs then xs ! i else JNull | _ \<Rightarrow> JNull)"

definition is_legacy_addon_waf :: "(json \<Rightarrow> 'f option) \<Rightarrow> json \<Rightarrow> str \<Rightarrow> bool" where
  "is_legacy_addon_waf f64 policy tunnel_id \<longleftrightarrow>
     (let spec = at policy ''spec'';
          refs = the_list (as_array (at spec ''targetRefs''));
          rule_sets = the_list (as_array (at spec ''ruleSets''));
          crs = at (nth_json (at spec ''ruleSets'') 0) ''owaspCoreRuleSet'' in
      at spec ''mode'' = JStr ''Disabled'' \<and>
      \<not> has_managed_by policy \<and>
      json_eq f64 (or_default (get spec ''samplingPercentage'') (JNum 100)) (JNum 100) \<and>
      length refs = 1 \<and>
      at (refs ! 0) ''kind'' = JStr ''HTTPRoute'' \<and>
      at (refs ! 0) ''name'' = JStr tunnel_id \<and>
      or_default (get (refs ! 0) ''sectionName'') (JStr []) = JStr [] \<and>
      length rule_sets = 1 \<and>
      at (rule_sets ! 0) ''type'' = JStr ''OWASPCoreRuleSet'' \<and>
      json_eq f64 (at crs ''paranoiaLevels'') paranoia_wanted \<and>
      json_eq f64 (at crs ''scoreThresholds'') scores_wanted \<and>
      json_eq f64 (at crs ''ruleExclusions'') exclusions_wanted)"

datatype existing_waf = ManagedWaf | LegacyWaf | ForeignWaf

definition classify_existing_waf :: "(json \<Rightarrow> 'f option) \<Rightarrow> json \<Rightarrow> str \<Rightarrow> existing_waf" where
  "classify_existing_waf f64 policy tunnel_id =
     (if has_managed_by policy then ManagedWaf
      else if is_legacy_addon_waf f64 policy tunnel_id then LegacyWaf
      else ForeignWaf)"

section \<open>Making and upgrading a policy\<close>

definition new_waf_policy :: "str \<Rightarrow> str \<Rightarrow> dynamic_object" where
  "new_waf_policy tunnel_id label =
     (new_policy waf_resource DEFAULT_PCP_NAMESPACE (waf_policy_name tunnel_id) (desired_waf_spec tunnel_id))
       \<lparr>dy_annotations := Some [(POLICY_NAME_ANNOTATION, label), (MANAGED_BY_ANNOTATION, MANAGED_BY_VALUE)]\<rparr>"

definition upgraded_waf_policy :: "dynamic_object \<Rightarrow> str \<Rightarrow> dynamic_object" where
  "upgraded_waf_policy existing tunnel_id =
     existing\<lparr>dy_data := obj_put ''spec'' (desired_waf_spec tunnel_id) (obj_remove ''status'' (dy_data existing)),
       dy_annotations := Some (put_annotation MANAGED_BY_ANNOTATION MANAGED_BY_VALUE (the_list (dy_annotations existing)))\<rparr>"

definition new_timeout_policy :: "str \<Rightarrow> dynamic_object" where
  "new_timeout_policy tunnel_id =
     new_policy timeout_resource DEFAULT_PCP_NAMESPACE (timeout_policy_name tunnel_id) (desired_timeout_spec tunnel_id)"

record edge_target =
  eg_project :: str
  eg_tunnel :: str
  eg_label :: str
  eg_portal :: str

definition portal_link :: "edge_target \<Rightarrow> str" where
  "portal_link t = eg_portal t @ '' (project '' @ eg_project t @ '', policy '' @ waf_policy_name (eg_tunnel t) @ '')''"

section \<open>Reading them back\<close>

record edge_policy_status =
  ep_waf :: str
  ep_managed :: bool
  ep_scoped :: bool
  ep_timeout :: str

definition waf_view :: "str + json option \<Rightarrow> str \<times> bool \<times> bool" where
  "waf_view waf = (case waf of
     Inr (Some p) \<Rightarrow>
       ((case str_at [''spec'', ''mode''] p of Some m \<Rightarrow> m | None \<Rightarrow> ''unknown''),
        has_managed_by p,
        (case Option.bind (pointer [''spec'', ''targetRefs''] p) as_array of None \<Rightarrow> False
         | Some r \<Rightarrow> r \<noteq> [] \<and> list_all (\<lambda>t. at t ''sectionName'' = JStr WAF_PROTECTED_RULE_NAME) r))
   | Inr None \<Rightarrow> (''missing'', False, False)
   | Inl _ \<Rightarrow> (''unknown'', False, False))"

definition timeout_view :: "str + json option \<Rightarrow> str" where
  "timeout_view tmo = (case tmo of
     Inr (Some p) \<Rightarrow> (case str_at [''spec'', ''timeout'', ''http'', ''requestTimeout''] p of Some t \<Rightarrow> t | None \<Rightarrow> ''unknown'')
   | Inr None \<Rightarrow> ''missing''
   | Inl _ \<Rightarrow> ''unknown'')"

definition status_from :: "str + json option \<Rightarrow> str + json option \<Rightarrow> edge_policy_status" where
  "status_from waf tmo = (let (mode, managed, scoped) = waf_view waf in
     \<lparr>ep_waf = mode, ep_managed = managed, ep_scoped = scoped, ep_timeout = timeout_view tmo\<rparr>)"



section \<open>What is written is recognised\<close>

lemma get_object_json: "get (object_json kvs) k = map_of (rev kvs) k"
  by (simp add: object_json_def get_obj_of)

lemma at_object_json: "at (object_json kvs) k = (case map_of (rev kvs) k of Some v \<Rightarrow> v | None \<Rightarrow> JNull)"
  by (simp add: at_def get_object_json)

lemma pointer_object_json:
  "pointer (k # ks) (object_json kvs) = (case map_of (rev kvs) k of Some v \<Rightarrow> pointer ks v | None \<Rightarrow> None)"
  by (simp add: object_json_def get_obj_of)

lemma as_object_object_json [simp]: "as_object (object_json kvs) = Some (obj_of kvs)"
  by (simp add: object_json_def)

text \<open>An object as it is read: what follows the metadata is in key order and is not the metadata again.\<close>

definition well_read :: "dynamic_object \<Rightarrow> bool" where
  "well_read d \<longleftrightarrow> ordered (dy_data d) \<and> obj_get (dy_data d) ''metadata'' = None \<and>
     obj_get (dy_meta d) ''annotations'' = None"

lemma map_of_rev_ordered: "ordered o1 \<Longrightarrow> map_of (rev o1) k = obj_get o1 k"
proof (induction o1)
  case (Cons p r)
  obtain a v where p: "p = (a, v)" by fastforce
  with Cons.prems have "a \<notin> fst ` set r" by fastforce
  then have "obj_get r a = None" by (simp add: get_None_iff)
  with Cons p show ?case by (auto simp: map_add_def split: option.split)
qed simp

lemma get_dynamic:
  assumes "well_read d"
  shows "pointer (''metadata'' # ks) (dynamic_json d) = pointer ks (meta_json d)"
    "k \<noteq> ''metadata'' \<Longrightarrow> k \<noteq> ''apiVersion'' \<Longrightarrow> k \<noteq> ''kind'' \<Longrightarrow>
     pointer (k # ks) (dynamic_json d) = (case obj_get (dy_data d) k of Some v \<Rightarrow> pointer ks v | None \<Rightarrow> None)"
  using assms map_of_rev_ordered [of "dy_data d"]
  by (auto simp: dynamic_json_def pointer_object_json well_read_def map_add_def split: option.splits prod.splits)

lemma get_annotations_json: "obj_get (obj_of (map (\<lambda>(k, v). (k, JStr v)) a)) k = map_option JStr (map_of (rev a) k)"
proof -
  have "map_of (map (\<lambda>(k, v). (k, JStr v)) b) k = map_option JStr (map_of b k)" for b
    by (induction b) auto
  then show ?thesis by (simp add: get_obj_of rev_map)
qed

lemma managed_dynamic:
  assumes "well_read d"
  shows "has_managed_by (dynamic_json d) \<longleftrightarrow> MANAGED_BY_ANNOTATION \<in> fst ` set (the_list (dy_annotations d))"
proof (cases "dy_annotations d")
  case None
  with assms show ?thesis
    by (simp add: has_managed_by_def get_dynamic(1) [OF assms] meta_json_def well_read_def the_list_def)
next
  case (Some a)
  have "map_of (rev a) k \<noteq> None \<longleftrightarrow> k \<in> fst ` set a" for k by (simp add: map_of_eq_None_iff)
  with Some show ?thesis
    by (simp add: has_managed_by_def get_dynamic(1) [OF assms] meta_json_def the_list_def annotations_json_def get_annotations_json)
qed

lemma well_read_upgraded: "well_read d \<Longrightarrow> well_read (upgraded_waf_policy d t)"
  by (simp add: well_read_def upgraded_waf_policy_def)

lemma well_read_new: "well_read (new_waf_policy t l)" "well_read (new_timeout_policy t)"
  by (simp_all add: well_read_def new_waf_policy_def new_timeout_policy_def new_policy_def obj_of_def)

lemma managed_upgraded: "well_read d \<Longrightarrow> has_managed_by (dynamic_json (upgraded_waf_policy d t))"
  by (subst managed_dynamic, erule well_read_upgraded) (simp add: upgraded_waf_policy_def put_annotation_def the_list_def)

text \<open>The view of a policy with the wanted spec.\<close>

lemma wanted_waf_view:
  assumes "well_read d" "obj_get (dy_data d) ''spec'' = Some (desired_waf_spec t)"
  shows "waf_view (Inr (Some (dynamic_json d))) = (''Enforce'', has_managed_by (dynamic_json d), True)"
  using get_dynamic(2) [OF assms(1), of "''spec''"] assms(2)
  by (simp add: waf_view_def desired_waf_spec_def pointer_object_json at_object_json)

lemma wanted_timeout_view:
  assumes "well_read d" "obj_get (dy_data d) ''spec'' = Some (desired_timeout_spec t)"
  shows "timeout_view (Inr (Some (dynamic_json d))) = REQUEST_TIMEOUT"
  using get_dynamic(2) [OF assms(1), of "''spec''"] assms(2)
  by (simp add: timeout_view_def desired_timeout_spec_def pointer_object_json)

text \<open>
 the policies the daemon makes for a tunnel are read back as its own, enforced, covering only the
  protected rule, with the raised timeout; and the policy of an old add-on, once upgraded, is one of
  them: it is never upgraded a second time.
\<close>

theorem policies_read_back:
  assumes "well_read old"
  shows "status_from (Inr (Some (dynamic_json (new_waf_policy t l)))) (Inr (Some (dynamic_json (new_timeout_policy t)))) =
      \<lparr>ep_waf = ''Enforce'', ep_managed = True, ep_scoped = True, ep_timeout = REQUEST_TIMEOUT\<rparr> \<and>
    classify_existing_waf f64 (dynamic_json (upgraded_waf_policy old t)) t = ManagedWaf \<and>
    waf_view (Inr (Some (dynamic_json (upgraded_waf_policy old t)))) = (''Enforce'', True, True)"
proof (intro conjI)
  have "has_managed_by (dynamic_json (new_waf_policy t l))"
    by (simp add: managed_dynamic well_read_new) (simp add: new_waf_policy_def the_list_def)
  moreover have "obj_get (dy_data (new_waf_policy t l)) ''spec'' = Some (desired_waf_spec t)"
    "obj_get (dy_data (new_timeout_policy t)) ''spec'' = Some (desired_timeout_spec t)"
    by (simp_all add: new_waf_policy_def new_timeout_policy_def new_policy_def)
  ultimately show "status_from (Inr (Some (dynamic_json (new_waf_policy t l)))) (Inr (Some (dynamic_json (new_timeout_policy t)))) =
      \<lparr>ep_waf = ''Enforce'', ep_managed = True, ep_scoped = True, ep_timeout = REQUEST_TIMEOUT\<rparr>"
    by (simp add: status_from_def wanted_waf_view [OF well_read_new(1)] wanted_timeout_view [OF well_read_new(2)])
  from managed_upgraded [OF assms]
  show "classify_existing_waf f64 (dynamic_json (upgraded_waf_policy old t)) t = ManagedWaf"
    by (simp add: classify_existing_waf_def)
  have "obj_get (dy_data (upgraded_waf_policy old t)) ''spec'' = Some (desired_waf_spec t)"
    by (simp add: upgraded_waf_policy_def)
  with wanted_waf_view [OF well_read_upgraded [OF assms]] managed_upgraded [OF assms]
  show "waf_view (Inr (Some (dynamic_json (upgraded_waf_policy old t)))) = (''Enforce'', True, True)" by simp
qed

text \<open>The policy add-on 0.1.5 made: recognised as the old one, then upgraded.\<close>

definition old_addon_policy :: dynamic_object where
  "old_addon_policy = \<lparr>dy_types = Some waf_resource, dy_annotations = None,
     dy_meta = obj_of [(''name'', JStr ''tunnel-1-waf''), (''resourceVersion'', JStr ''7'')],
     dy_data = obj_of [(''spec'', object_json [(''mode'', JStr ''Disabled''),
       (''ruleSets'', JArr [object_json [(''type'', JStr ''OWASPCoreRuleSet''),
          (''owaspCoreRuleSet'', object_json [(''paranoiaLevels'', paranoia_wanted),
             (''scoreThresholds'', scores_wanted), (''ruleExclusions'', exclusions_wanted)])]]),
       (''targetRefs'', JArr [object_json [(''kind'', JStr ''HTTPRoute''), (''name'', JStr ''tunnel-1'')]])])]\<rparr>"

definition int_value :: "json \<Rightarrow> int option" where
  "int_value v = (case v of JNum n \<Rightarrow> Some n | _ \<Rightarrow> None)"

lemma old_addon_legacy:
  "well_read old_addon_policy"
  "classify_existing_waf int_value (dynamic_json old_addon_policy) ''tunnel-1'' = LegacyWaf"
  by code_simp+

theorem policies_read_back_witness:
  "classify_existing_waf int_value (dynamic_json old_addon_policy) ''tunnel-1'' = LegacyWaf \<and>
   classify_existing_waf int_value (dynamic_json (upgraded_waf_policy old_addon_policy ''tunnel-1'')) ''tunnel-1'' = ManagedWaf \<and>
   waf_view (Inr (Some (dynamic_json (upgraded_waf_policy old_addon_policy ''tunnel-1'')))) = (''Enforce'', True, True)"
  using policies_read_back [OF old_addon_legacy(1), of "''tunnel-1''" "''Home''" int_value] old_addon_legacy(2) by blast

end
