(* ===== verification/Tunnel_Progress.thy ===== *)
theory Tunnel_Progress
  imports Tunnel_Rules
begin

text \<open>
  \<open>tunnels.rs\<close>, the progress of a tunnel: one step for each condition its HTTPProxy and its Connector
  report, and when all of them together mean that it is ready. A condition counts only for the generation
  of the resource it was observed at.
\<close>

datatype step_kind = ProxyAccepted | CertificatesReady | ConnectorReady | IrohDnsPublished | ProxyProgrammed | ConnectorMetadataProgrammed

datatype step_status = StepUnknown | StepPending | StepReady

record progress_step =
  st_kind :: step_kind
  st_status :: step_status
  st_reason :: "str option"
  st_message :: "str option"
  st_resource :: "str option"

record tunnel_progress =
  tp_hostnames :: "str list"
  tp_steps :: "progress_step list"

fun step_label :: "step_kind \<Rightarrow> str" where
  "step_label ProxyAccepted = ''tunnel accepted''"
| "step_label CertificatesReady = ''TLS certificate issued''"
| "step_label ConnectorReady = ''connector ready''"
| "step_label IrohDnsPublished = ''iroh DNS published''"
| "step_label ProxyProgrammed = ''route programmed''"
| "step_label ConnectorMetadataProgrammed = ''envoy metadata propagated''"

definition all_steps :: "step_kind list" where
  "all_steps = [ProxyAccepted, CertificatesReady, ConnectorReady, IrohDnsPublished, ProxyProgrammed, ConnectorMetadataProgrammed]"

fun resource_kind :: "step_kind \<Rightarrow> str" where
  "resource_kind ConnectorReady = ''Connector''"
| "resource_kind IrohDnsPublished = ''Connector''"
| "resource_kind _ = ''HTTPProxy''"

definition DEFERRED_TO_OWNER :: str where "DEFERRED_TO_OWNER = ''DeferredToOwner''"
definition CONNECTOR_READY :: str where "CONNECTOR_READY = ''Ready''"
definition IROH_DNS_PUBLISHED :: str where "IROH_DNS_PUBLISHED = ''IrohDNSPublished''"
definition PROXY_ACCEPTED :: str where "PROXY_ACCEPTED = ''Accepted''"
definition PROXY_PROGRAMMED :: str where "PROXY_PROGRAMMED = ''Programmed''"
definition CERTIFICATES_READY :: str where "CERTIFICATES_READY = ''CertificatesReady''"
definition METADATA_PROGRAMMED :: str where "METADATA_PROGRAMMED = ''ConnectorMetadataProgrammed''"

definition is_terminal_failure :: "progress_step \<Rightarrow> bool" where
  "is_terminal_failure s \<longleftrightarrow> st_kind s = IrohDnsPublished \<and> st_status s = StepPending \<and> st_reason s = Some DEFERRED_TO_OWNER"

definition all_ready :: "tunnel_progress \<Rightarrow> bool" where
  "all_ready p \<longleftrightarrow> list_all (\<lambda>s. (st_kind s = ConnectorMetadataProgrammed \<and> st_status s = StepUnknown) \<or>
     st_status s = StepReady) (tp_steps p)"

definition progress_step_of :: "tunnel_progress \<Rightarrow> step_kind \<Rightarrow> progress_step option" where
  "progress_step_of p kind = find (\<lambda>s. st_kind s = kind) (tp_steps p)"

definition terminal_failure :: "tunnel_progress \<Rightarrow> progress_step option" where
  "terminal_failure p = find is_terminal_failure (tp_steps p)"

definition make_step :: "step_kind \<Rightarrow> condition list option \<Rightarrow> str \<Rightarrow> int \<Rightarrow> str option \<Rightarrow> progress_step" where
  "make_step kind conds type1 current_gen resource =
     (let cond = find (\<lambda>c. cd_type c = type1) (the_list conds);
          observed = (case Option.bind cond cd_observed of Some n \<Rightarrow> n | None \<Rightarrow> 0);
          fresh = (observed \<ge> current_gen) in
      \<lparr>st_kind = kind,
       st_status = (case cond of Some c \<Rightarrow> if cd_status c = ''True'' \<and> fresh then StepReady else StepPending
         | None \<Rightarrow> StepUnknown),
       st_reason = map_option cd_reason cond, st_message = map_option cd_message cond, st_resource = resource\<rparr>)"

definition from_resources :: "http_proxy \<Rightarrow> connector option \<Rightarrow> tunnel_progress" where
  "from_resources proxy conn =
     (let proxy_conds = hp_conditions proxy;
          proxy_gen = (case hp_generation proxy of Some g \<Rightarrow> g | None \<Rightarrow> 0);
          proxy_resource = map_option (\<lambda>n. ''HTTPProxy/'' @ n) (hp_name proxy);
          conn_conds = Option.bind conn cn_conditions;
          conn_gen = (case Option.bind conn cn_generation of Some g \<Rightarrow> g | None \<Rightarrow> 0);
          connector_resource = map_option (\<lambda>n. ''Connector/'' @ n) (Option.bind conn cn_name) in
      \<lparr>tp_hostnames = proxy_hostnames proxy,
       tp_steps = [
         make_step ProxyAccepted proxy_conds PROXY_ACCEPTED proxy_gen proxy_resource,
         make_step CertificatesReady proxy_conds CERTIFICATES_READY proxy_gen proxy_resource,
         make_step ConnectorReady conn_conds CONNECTOR_READY conn_gen connector_resource,
         make_step IrohDnsPublished conn_conds IROH_DNS_PUBLISHED conn_gen connector_resource,
         make_step ProxyProgrammed proxy_conds PROXY_PROGRAMMED proxy_gen proxy_resource,
         make_step ConnectorMetadataProgrammed proxy_conds METADATA_PROGRAMMED proxy_gen proxy_resource]\<rparr>)"

section \<open>When a tunnel is ready\<close>

text \<open>The condition of that type, if the controller reported it for what the resource is now.\<close>

definition holds_now :: "condition list option \<Rightarrow> int option \<Rightarrow> str \<Rightarrow> bool" where
  "holds_now conds generation1 type1 \<longleftrightarrow> (\<exists>c. find (\<lambda>c. cd_type c = type1) (the_list conds) = Some c \<and>
     cd_status c = ''True'' \<and> (case generation1 of None \<Rightarrow> 0 | Some g \<Rightarrow> g) \<le> (case cd_observed c of None \<Rightarrow> 0 | Some n \<Rightarrow> n))"

lemma make_step_sel [simp]: "st_kind (make_step k conds t g r) = k" "st_resource (make_step k conds t g r) = r"
  by (simp_all add: make_step_def Let_def)

lemma make_step_ready:
  "st_status (make_step k conds t (case g of None \<Rightarrow> 0 | Some g \<Rightarrow> g) r) = StepReady \<longleftrightarrow> holds_now conds g t"
  by (auto simp: make_step_def holds_now_def Let_def split: option.splits)

lemma make_step_unknown:
  "st_status (make_step k conds t g r) = StepUnknown \<longleftrightarrow> (\<forall>c \<in> set (the_list conds). cd_type c \<noteq> t)"
  by (auto simp: make_step_def Let_def find_None_iff2 [symmetric] split: option.splits)

lemma make_step_pending:
  "st_status (make_step k conds t g r) = StepPending \<longleftrightarrow>
   st_status (make_step k conds t g r) \<noteq> StepUnknown \<and> st_status (make_step k conds t g r) \<noteq> StepReady"
  by (cases "st_status (make_step k conds t g r)") auto

lemma make_step_reason:
  "st_reason (make_step k conds t g r) = map_option cd_reason (find (\<lambda>c. cd_type c = t) (the_list conds))"
  by (simp add: make_step_def Let_def)

lemma find_none_type: "(\<forall>c \<in> set cs. cd_type c \<noteq> t) \<longleftrightarrow> find (\<lambda>c. cd_type c = t) cs = None"
  by (simp add: find_None_iff2)

text \<open>
 a tunnel counts as ready exactly when each of its conditions is True for what its HTTPProxy and its
  Connector are now, not for an earlier generation of them; only the condition about Envoy's metadata may
  be missing.
\<close>

theorem ready_means_current:
  "all_ready (from_resources p c) \<longleftrightarrow>
     holds_now (hp_conditions p) (hp_generation p) PROXY_ACCEPTED \<and>
     holds_now (hp_conditions p) (hp_generation p) CERTIFICATES_READY \<and>
     holds_now (hp_conditions p) (hp_generation p) PROXY_PROGRAMMED \<and>
     holds_now (Option.bind c cn_conditions) (Option.bind c cn_generation) CONNECTOR_READY \<and>
     holds_now (Option.bind c cn_conditions) (Option.bind c cn_generation) IROH_DNS_PUBLISHED \<and>
     (find (\<lambda>d. cd_type d = METADATA_PROGRAMMED) (the_list (hp_conditions p)) = None \<or>
      holds_now (hp_conditions p) (hp_generation p) METADATA_PROGRAMMED)"
  unfolding all_ready_def from_resources_def Let_def find_none_type [symmetric]
  by (simp only: tunnel_progress.simps list.pred_inject make_step_sel make_step_ready make_step_unknown
      step_kind.simps simp_thms) blast

text \<open>The one failure that waiting does not cure, and it is not reported of a tunnel that is ready.\<close>

lemma terminal_failure_iff:
  "terminal_failure (from_resources p c) \<noteq> None \<longleftrightarrow>
     \<not> holds_now (Option.bind c cn_conditions) (Option.bind c cn_generation) IROH_DNS_PUBLISHED \<and>
     map_option cd_reason (find (\<lambda>d. cd_type d = IROH_DNS_PUBLISHED) (the_list (Option.bind c cn_conditions))) =
       Some DEFERRED_TO_OWNER"
proof -
  let ?s = "make_step IrohDnsPublished (Option.bind c cn_conditions) IROH_DNS_PUBLISHED
    (case Option.bind c cn_generation of None \<Rightarrow> 0 | Some g \<Rightarrow> g) (map_option (\<lambda>n. ''Connector/'' @ n) (Option.bind c cn_name))"
  have "terminal_failure (from_resources p c) = (if is_terminal_failure ?s then Some ?s else None)"
    by (simp add: terminal_failure_def from_resources_def Let_def is_terminal_failure_def)
  moreover have "is_terminal_failure ?s \<longleftrightarrow>
     \<not> holds_now (Option.bind c cn_conditions) (Option.bind c cn_generation) IROH_DNS_PUBLISHED \<and>
     map_option cd_reason (find (\<lambda>d. cd_type d = IROH_DNS_PUBLISHED) (the_list (Option.bind c cn_conditions))) =
       Some DEFERRED_TO_OWNER"
    by (auto simp: is_terminal_failure_def make_step_pending make_step_ready make_step_unknown make_step_reason
        find_none_type)
  ultimately show ?thesis by simp
qed

lemma ready_not_terminal: "all_ready (from_resources p c) \<Longrightarrow> terminal_failure (from_resources p c) = None"
  using terminal_failure_iff [of p c] unfolding ready_means_current by blast

end
