(* ===== verification/Kube_Calls.thy ===== *)
theory Kube_Calls
  imports Edge_Policies Tunnel_Progress Prelude
begin

text \<open>
  What the tunnel service asks of Datum's API, of its own node and of the disk, as requests with their replies
  over the environment of the world; the retries of \<open>tunnels.rs\<close> and the pass over the edge policies of a tunnel
  (\<open>edge_policies.rs\<close>): making them, removing them with the tunnel, reading them back. Only what is asked, in
  which order and what is decided from the replies counts; the words of the log lines are left out.
\<close>

section \<open>Requests\<close>

text \<open>What is written when an object is made or changed. A patch of a proxy or an advertisement sets the parts named.\<close>

record new_proxy =
  np_generate_name :: str
  np_annotations :: "(str \<times> str) list"
  np_rules :: "proxy_rule list"

record proxy_patch =
  pp_annotation :: "str \<times> str"
  pp_hostnames :: "str list"
  pp_rules :: "proxy_rule list"

record new_connector =
  nc_generate_name :: str
  nc_annotations :: "(str \<times> str) list"
  nc_class :: str

record policy_target =
  tr_group :: str
  tr_kind :: str
  tr_name :: str
  tr_section :: "str option"

record new_tpp =
  tt_name :: str
  tt_targets :: "policy_target list"
  tt_mode :: str
  tt_sampling :: "nat option"
  tt_rule_set :: str
  tt_paranoia :: "nat \<times> nat"

record proxy_state =
  px_tunnel :: str
  px_data :: tcp_proxy_data
  px_label :: "str option"
  px_enabled :: bool

datatype policy_kind = WafPolicy | TimeoutPolicy

datatype kube_request =
    ControlPlane str
  | GetProxy str | ListProxies | CreateProxy new_proxy | PatchProxy str proxy_patch | DeleteProxy str
  | GetAd str | ListAds "str option" | CreateAd str ad_spec | PatchAd str ad_spec | DeleteAd str
  | GetConnector str | ListConnectors "str option" | CreateConnector new_connector
  | PatchConnector str "(str \<times> str) list" | PatchConnectorStatus str connection_details | DeleteConnector str
  | ListClasses
  | GetTpp str | CreateTpp new_tpp | DeleteTpp str
  | GetPolicy policy_kind str | CreatePolicy policy_kind dynamic_object
  | ReplacePolicy policy_kind str dynamic_object | DeletePolicy policy_kind str
  | EndpointAddr
  | SetProxy proxy_state | SetProxyState proxy_state | RemoveProxy str | RemoveProxyState str | DeleteTunnelDir str str
  | SpawnEdge edge_target bool

text \<open>The addresses the node's endpoint has at this moment.\<close>

record endpoint_addr =
  ea_id :: str
  ea_relays :: "str list"
  ea_ips :: "(str \<times> nat) list"

datatype kube_reply =
    RDone "kube_error + unit"
  | RProxy "kube_error + http_proxy" | RProxies "kube_error + http_proxy list"
  | RAd "kube_error + advertisement" | RAds "kube_error + advertisement list"
  | RConnector "kube_error + connector" | RConnectors "kube_error + connector list"
  | RClasses "kube_error + str list"
  | RPolicy "kube_error + dynamic_object"
  | RLocal "str + unit"
  | RAddr endpoint_addr

type_synonym 'a tunnels = "(kube_request, kube_reply, 'a) io"

definition no_answer :: "kube_error + 'a" where "no_answer = Inl (OtherError [])"

fun as_done :: "kube_reply \<Rightarrow> kube_error + unit" where "as_done (RDone x) = x" | "as_done _ = no_answer"
fun as_proxy :: "kube_reply \<Rightarrow> kube_error + http_proxy" where "as_proxy (RProxy x) = x" | "as_proxy _ = no_answer"
fun as_proxies :: "kube_reply \<Rightarrow> kube_error + http_proxy list" where "as_proxies (RProxies x) = x" | "as_proxies _ = no_answer"
fun as_ad :: "kube_reply \<Rightarrow> kube_error + advertisement" where "as_ad (RAd x) = x" | "as_ad _ = no_answer"
fun as_ads :: "kube_reply \<Rightarrow> kube_error + advertisement list" where "as_ads (RAds x) = x" | "as_ads _ = no_answer"
fun as_connector :: "kube_reply \<Rightarrow> kube_error + connector" where "as_connector (RConnector x) = x" | "as_connector _ = no_answer"
fun as_connectors :: "kube_reply \<Rightarrow> kube_error + connector list" where "as_connectors (RConnectors x) = x" | "as_connectors _ = no_answer"
fun as_classes :: "kube_reply \<Rightarrow> kube_error + str list" where "as_classes (RClasses x) = x" | "as_classes _ = no_answer"
fun as_policy :: "kube_reply \<Rightarrow> kube_error + dynamic_object" where "as_policy (RPolicy x) = x" | "as_policy _ = no_answer"
fun as_local :: "kube_reply \<Rightarrow> str + unit" where "as_local (RLocal x) = x" | "as_local _ = Inl []"
fun as_addr :: "kube_reply \<Rightarrow> endpoint_addr" where
  "as_addr (RAddr x) = x" | "as_addr _ = \<lparr>ea_id = [], ea_relays = [], ea_ips = []\<rparr>"

section \<open>The service\<close>

text \<open>
  \<open>ts_url\<close> is \<^verbatim>\<open>url::Url::parse\<close>, \<open>ts_show\<close> how an error of the kube client reads, \<open>ts_hostname\<close> and
  \<open>ts_os\<close> the machine's.
\<close>

record tunnel_service =
  ts_publish :: bool
  ts_create_tpps :: bool
  ts_exempt :: "route_match list option"
  ts_edge :: bool
  ts_endpoint_id :: str
  ts_hostname :: str
  ts_os :: str
  ts_portal :: str
  ts_url :: url_parser
  ts_show :: "kube_error \<Rightarrow> str"

datatype tunnel_error =
    Context str kube_error
  | Said str
  | BadTarget target_error
  | NoControlPlane str

definition context_err :: "str \<Rightarrow> kube_error + 'a \<Rightarrow> tunnel_error + 'a" where
  "context_err m r = (case r of Inl e \<Rightarrow> Inl (Context m e) | Inr x \<Rightarrow> Inr x)"

text \<open>Asking for a thing, its error with what was tried; and the same for a thing that may not exist.\<close>

definition asking :: "str \<Rightarrow> (kube_reply \<Rightarrow> kube_error + 'a) \<Rightarrow> kube_request \<Rightarrow> (tunnel_error + 'a) tunnels" where
  "asking m f q = ask_as (\<lambda>r. context_err m (f r)) q"

definition asking_opt :: "str \<Rightarrow> (kube_reply \<Rightarrow> kube_error + 'a) \<Rightarrow> kube_request \<Rightarrow> (tunnel_error + 'a option) tunnels" where
  "asking_opt m f q = ask_as (\<lambda>r. context_err m (opt_found (f r))) q"

definition control_plane :: "str \<Rightarrow> (tunnel_error + unit) tunnels" where
  "control_plane project_id = ask_as (\<lambda>r. case as_local r of Inl e \<Rightarrow> Inl (NoControlPlane e) | Inr u \<Rightarrow> Inr u) (ControlPlane project_id)"

section \<open>Retrying while a quota check times out\<close>

fun retry_after :: "nat list \<Rightarrow> (kube_error + 'a) tunnels \<Rightarrow> (kube_error + 'a) tunnels" where
  "retry_after [] f = f"
| "retry_after (d # ds) f = do {
     r \<leftarrow> f;
     (case r of Inr v \<Rightarrow> State_Monad.return (Inr v)
      | Inl e \<Rightarrow> if is_quota_check_timeout e then do { sleep d; retry_after ds f } else State_Monad.return (Inl e))
   }"

definition retry_delays :: "nat list" where "retry_delays = [1000, 2000, 4000, 8000]"

definition with_quota_check_retry :: "(kube_error + 'a) tunnels \<Rightarrow> (kube_error + 'a) tunnels" where
  "with_quota_check_retry f = retry_after retry_delays f"

section \<open>Edge policies\<close>

datatype call_error = Status nat str | NoResponse str

definition CALL_TIMEOUT :: nat where "CALL_TIMEOUT = 30000"

definition error_code :: "call_error \<Rightarrow> nat option" where
  "error_code e = (case e of Status c _ \<Rightarrow> Some c | NoResponse _ \<Rightarrow> None)"

definition call_outcome :: "(kube_error + 'a) option \<Rightarrow> call_error + 'a" where
  "call_outcome r = (case r of
     Some (Inr v) \<Rightarrow> Inr v
   | Some (Inl (ApiError c m)) \<Rightarrow> Inl (Status c m)
   | Some (Inl (OtherError m)) \<Rightarrow> Inl (NoResponse m)
   | None \<Rightarrow> Inl (NoResponse ''timed out after 30s''))"

definition call :: "(kube_reply \<Rightarrow> kube_error + 'a) \<Rightarrow> kube_request \<Rightarrow> (call_error + 'a) tunnels" where
  "call f q = do { r \<leftarrow> ask_within_as f CALL_TIMEOUT q; State_Monad.return (call_outcome r) }"

definition is_denied :: "call_error \<Rightarrow> bool" where
  "is_denied e \<longleftrightarrow> error_code e = Some 401 \<or> error_code e = Some 403"

fun split_whitespace :: "str \<Rightarrow> str \<Rightarrow> str list" where
  "split_whitespace acc [] = (if acc = [] then [] else [acc])"
| "split_whitespace acc (c # s) = (if is_whitespace c then (if acc = [] then [] else [acc]) @ split_whitespace [] s
     else split_whitespace (acc @ [c]) s)"

fun join_words :: "str list \<Rightarrow> str" where
  "join_words [] = []" | "join_words [w] = w" | "join_words (w # ws) = w @ '' '' @ join_words ws"

definition policy_excerpt :: "str \<Rightarrow> str" where
  "policy_excerpt s = (let flat = join_words (split_whitespace [] s) in
     if EXCERPT_MAX_CHARS < length flat then take EXCERPT_MAX_CHARS flat @ ''...'' else flat)"

definition show_call_error :: "call_error \<Rightarrow> str" where
  "show_call_error e = (case e of
     Status code1 body \<Rightarrow> ''HTTP '' @ show_nat code1 @ '': '' @ policy_excerpt body
   | NoResponse m \<Rightarrow> ''no response: '' @ policy_excerpt m)"

text \<open>What the log says of each policy at the end; the words are left out.\<close>

datatype policy_outcome = Kept | Raised | Created | Upgraded | ChangedMeanwhile | NotAllowed str | NotDone str

definition created_outcome :: "call_error + 'a \<Rightarrow> policy_outcome \<Rightarrow> policy_outcome" where
  "created_outcome r made = (case r of
     Inr _ \<Rightarrow> made
   | Inl e \<Rightarrow> if error_code e = Some 409 then Kept
       else if is_denied e then NotAllowed (show_call_error e) else NotDone (show_call_error e))"

definition ensure_request_timeout :: "edge_target \<Rightarrow> policy_outcome tunnels" where
  "ensure_request_timeout t = do {
     found \<leftarrow> call (\<lambda>r. opt_found (as_policy r)) (GetPolicy TimeoutPolicy (timeout_policy_name (eg_tunnel t)));
     (case found of
        Inr (Some _) \<Rightarrow> State_Monad.return Kept
      | Inl e \<Rightarrow> State_Monad.return (NotDone (show_call_error e))
      | Inr None \<Rightarrow> do {
          r \<leftarrow> call as_policy (CreatePolicy TimeoutPolicy (new_timeout_policy (eg_tunnel t)));
          State_Monad.return (created_outcome r Raised)
        })
   }"

definition upgrade_outcome :: "call_error + 'a \<Rightarrow> policy_outcome" where
  "upgrade_outcome r = (case r of
     Inr _ \<Rightarrow> Upgraded
   | Inl e \<Rightarrow> if error_code e = Some 409 then ChangedMeanwhile
       else if is_denied e then NotAllowed (show_call_error e) else NotDone (show_call_error e))"

text \<open>The flag about the protected rule only adds a warning.\<close>

definition ensure_waf :: "(json \<Rightarrow> 'f option) \<Rightarrow> edge_target \<Rightarrow> bool \<Rightarrow> policy_outcome tunnels" where
  "ensure_waf f64 t proxy_has_protected_rule = do {
     found \<leftarrow> call (\<lambda>r. opt_found (as_policy r)) (GetPolicy WafPolicy (waf_policy_name (eg_tunnel t)));
     (case found of
        Inl e \<Rightarrow> State_Monad.return (NotDone (show_call_error e))
      | Inr (Some existing) \<Rightarrow>
          (case classify_existing_waf f64 (dynamic_json existing) (eg_tunnel t) of
             ManagedWaf \<Rightarrow> State_Monad.return Kept
           | ForeignWaf \<Rightarrow> State_Monad.return Kept
           | LegacyWaf \<Rightarrow> do {
               r \<leftarrow> call as_policy (ReplacePolicy WafPolicy (waf_policy_name (eg_tunnel t)) (upgraded_waf_policy existing (eg_tunnel t)));
               State_Monad.return (upgrade_outcome r)
             })
      | Inr None \<Rightarrow> do {
          r \<leftarrow> call as_policy (CreatePolicy WafPolicy (new_waf_policy (eg_tunnel t) (eg_label t)));
          State_Monad.return (created_outcome r Created)
        })
   }"

definition ensure_edge_policies :: "(json \<Rightarrow> 'f option) \<Rightarrow> edge_target \<Rightarrow> bool \<Rightarrow> (policy_outcome \<times> policy_outcome) tunnels" where
  "ensure_edge_policies f64 t proxy_has_protected_rule = do {
     a \<leftarrow> ensure_request_timeout t;
     b \<leftarrow> ensure_waf f64 t proxy_has_protected_rule;
     State_Monad.return (a, b)
   }"

record edge_policy_removal =
  rm_waf_deleted :: "str option"
  rm_waf_kept :: "str option"
  rm_timeout_deleted :: "str option"

definition delete_policy :: "policy_kind \<Rightarrow> str \<Rightarrow> (str + bool) tunnels" where
  "delete_policy kind name = do {
     r \<leftarrow> call as_done (DeletePolicy kind name);
     State_Monad.return (case r of
       Inr _ \<Rightarrow> Inr True
     | Inl e \<Rightarrow> if error_code e = Some 404 then Inr False
         else if is_denied e then Inr False
         else Inl (''could not delete policy '' @ name @ '' ('' @ show_call_error e @ '')''))
   }"

definition only_if :: "bool \<Rightarrow> 'a \<Rightarrow> 'a option" where
  "only_if b x = (if b then Some x else None)"

definition delete_waf :: "str \<Rightarrow> (str + str option \<times> str option) tunnels" where
  "delete_waf tunnel_id = (let name = waf_policy_name tunnel_id in do {
     found \<leftarrow> call (\<lambda>r. opt_found (as_policy r)) (GetPolicy WafPolicy name);
     (case found of
        Inr (Some policy) \<Rightarrow>
          if has_managed_by (dynamic_json policy)
          then try_bind (delete_policy WafPolicy name) (\<lambda>gone. State_Monad.return (Inr (only_if gone name, None)))
          else State_Monad.return (Inr (None, Some name))
      | Inr None \<Rightarrow> State_Monad.return (Inr (None, None))
      | Inl e \<Rightarrow> State_Monad.return (if is_denied e then Inr (None, None)
          else Inl (''could not check WAF policy '' @ name @ '' ('' @ show_call_error e @ '')'')))
   })"

definition delete_timeout :: "str \<Rightarrow> (str + str option) tunnels" where
  "delete_timeout tunnel_id = (let name = timeout_policy_name tunnel_id in do {
     found \<leftarrow> call (\<lambda>r. opt_found (as_policy r)) (GetPolicy TimeoutPolicy name);
     (case found of
        Inr (Some _) \<Rightarrow> try_bind (delete_policy TimeoutPolicy name) (\<lambda>gone. State_Monad.return (Inr (only_if gone name)))
      | Inr None \<Rightarrow> State_Monad.return (Inr None)
      | Inl e \<Rightarrow> State_Monad.return (if is_denied e then Inr None
          else Inl (''could not check request timeout policy '' @ name @ '' ('' @ show_call_error e @ '')'')))
   })"

definition delete_edge_policies :: "str \<Rightarrow> (str + edge_policy_removal) tunnels" where
  "delete_edge_policies tunnel_id =
     try_bind (delete_waf tunnel_id) (\<lambda>(waf_deleted, waf_kept).
     try_bind (delete_timeout tunnel_id) (\<lambda>timeout_deleted.
       State_Monad.return (Inr \<lparr>rm_waf_deleted = waf_deleted, rm_waf_kept = waf_kept,
         rm_timeout_deleted = timeout_deleted\<rparr>)))"

text \<open>The two reads go out together; here one after the other.\<close>

definition edge_policy_status :: "str \<Rightarrow> edge_policy_status tunnels" where
  "edge_policy_status tunnel_id = do {
     waf \<leftarrow> call (\<lambda>r. opt_found (as_policy r)) (GetPolicy WafPolicy (waf_policy_name tunnel_id));
     tmo \<leftarrow> call (\<lambda>r. opt_found (as_policy r)) (GetPolicy TimeoutPolicy (timeout_policy_name tunnel_id));
     State_Monad.return (status_from (map_sum show_call_error (map_option dynamic_json) waf)
       (map_sum show_call_error (map_option dynamic_json) tmo))
   }"

end
