(* ===== verification/Tunnels.thy ===== *)
theory Tunnels
  imports Kube_Calls
begin

text \<open>
  \<open>tunnels.rs\<close>, the tunnel service: finding or making the connector of this service, creating, updating,
  retargeting, enabling, disabling and deleting a tunnel, removing connectors nothing uses, and listing. Each
  operation is a computation over the requests of \<open>Kube_Calls\<close>, with every early return of the code.
\<close>

record tunnel_summary =
  ts_id :: str
  ts_label :: str
  ts_target :: str
  ts_hostnames :: "str list"
  ts_enabled :: bool
  ts_accepted :: bool
  ts_programmed :: bool
  ts_metadata :: bool
  ts_connector_ready :: bool
  ts_connector :: "str option"
  ts_device :: "str option"
  ts_created :: "str option"

record orphaned_connector =
  oc_name :: str
  oc_ready :: bool
  oc_device :: "str option"

record delete_outcome =
  do_project :: str
  do_proxy :: "str option"
  do_ad :: "str option"
  do_tpp :: "str option"
  do_connector :: "str option"
  do_waf :: "str option"
  do_timeout :: "str option"

text \<open>\<open>rfc3339\<close> reads a time, in milliseconds. An age is a duration, never negative.\<close>

definition created_within :: "(str \<Rightarrow> int option) \<Rightarrow> tunnel_summary \<Rightarrow> nat \<Rightarrow> int \<Rightarrow> bool" where
  "created_within rfc3339 s age now_ms = (case Option.bind (ts_created s) rfc3339 of
     None \<Rightarrow> False | Some created \<Rightarrow> now_ms - created < int age)"

definition origin_authority :: "url_parser \<Rightarrow> tunnel_summary \<Rightarrow> tcp_proxy_data option" where
  "origin_authority url s = (case from_host_port_str (strip_scheme url (ts_target s)) of Inr d \<Rightarrow> Some d | Inl _ \<Rightarrow> None)"

definition proxy_state_from_summary :: "url_parser \<Rightarrow> str \<Rightarrow> str \<Rightarrow> str \<Rightarrow> bool \<Rightarrow> target_error + proxy_state" where
  "proxy_state_from_summary url tunnel_id endpoint label enabled =
     (case from_host_port_str (strip_scheme url endpoint) of
        Inl e \<Rightarrow> Inl e
      | Inr d \<Rightarrow> Inr \<lparr>px_tunnel = tunnel_id, px_data = d, px_label = Some label, px_enabled = enabled\<rparr>)"

text \<open>What every summary takes from the proxy.\<close>

definition summary_of :: "http_proxy \<Rightarrow> str \<Rightarrow> str \<Rightarrow> str \<Rightarrow> bool \<Rightarrow> tunnel_summary" where
  "summary_of p tunnel_id label endpoint enabled = \<lparr>ts_id = tunnel_id, ts_label = label, ts_target = endpoint,
     ts_hostnames = proxy_hostnames p, ts_enabled = enabled,
     ts_accepted = condition_status (hp_conditions p) PROXY_ACCEPTED True,
     ts_programmed = condition_status (hp_conditions p) PROXY_PROGRAMMED True,
     ts_metadata = condition_status (hp_conditions p) METADATA_PROGRAMMED False,
     ts_connector_ready = False, ts_connector = proxy_connector_name p, ts_device = None,
     ts_created = hp_created p\<rparr>"

section \<open>The connector of this service\<close>

definition DEVICE_NAME_ANNOTATION :: str where "DEVICE_NAME_ANNOTATION = ''datum.net/device-name''"
definition DEVICE_OS_ANNOTATION :: str where "DEVICE_OS_ANNOTATION = ''datum.net/device-os''"

definition friendly_device_name :: "tunnel_service \<Rightarrow> str" where
  "friendly_device_name svc = (case strip_suffix ''.local'' (ts_hostname svc) of Some n \<Rightarrow> n | None \<Rightarrow> ts_hostname svc)"

definition device_annotations :: "tunnel_service \<Rightarrow> (str \<times> str) list" where
  "device_annotations svc = [(DEVICE_NAME_ANNOTATION, friendly_device_name svc), (DEVICE_OS_ANNOTATION, ts_os svc)]"

definition needs_device_patch :: "(str \<times> str) list \<Rightarrow> connector \<Rightarrow> bool" where
  "needs_device_patch expected c \<longleftrightarrow> list_ex (\<lambda>(k, v). annotation (cn_annotations c) k \<noteq> Some v) expected"

definition patch_device_annotations :: "tunnel_service \<Rightarrow> connector \<Rightarrow> connector tunnels" where
  "patch_device_annotations svc c =
     (if needs_device_patch (device_annotations svc) c
      then do {
        r \<leftarrow> ask_as as_connector (PatchConnector (connector_name_any c) (device_annotations svc));
        State_Monad.return (case r of Inr patched \<Rightarrow> patched | Inl _ \<Rightarrow> c)
      }
      else State_Monad.return c)"

definition build_connection_details :: "endpoint_addr \<Rightarrow> connection_details option" where
  "build_connection_details a = (case ea_relays a of [] \<Rightarrow> None
     | relay # _ \<Rightarrow> Some \<lparr>de_id = ea_id a, de_home_relay = relay, de_addresses = map (\<lambda>(ip, port). (ip, int port)) (ea_ips a)\<rparr>)"

definition switch_hint :: "str \<Rightarrow> str \<Rightarrow> str" where
  "switch_hint what project_id = what @ project_id @ ''. Switch your datumctl context to this project first: 'datumctl ctx switch '' @
     project_id @ [CHR 0x27]"

definition list_connectors_error :: "str \<Rightarrow> kube_error \<Rightarrow> tunnel_error" where
  "list_connectors_error project_id e = (case e of
     ApiError c m \<Rightarrow>
       if c = 403 then Said (switch_hint ''Permission denied listing connectors in project '' project_id)
       else if c = 401 then Said (switch_hint ''Authentication failed for project '' project_id)
       else Context ''Failed to list connectors'' e
   | OtherError m \<Rightarrow> Context ''Failed to list connectors'' e)"

definition find_connector :: "tunnel_service \<Rightarrow> str \<Rightarrow> (tunnel_error + connector option) tunnels" where
  "find_connector svc project_id =
     try_bind (control_plane project_id) (\<lambda>_. do {
       r \<leftarrow> ask_as as_connectors (ListConnectors (Some (ts_endpoint_id svc)));
       (case r of
          Inl e \<Rightarrow> State_Monad.return (Inl (list_connectors_error project_id e))
        | Inr [] \<Rightarrow> State_Monad.return (Inr None)
        | Inr (c # _) \<Rightarrow> do { c' \<leftarrow> patch_device_annotations svc c; State_Monad.return (Inr (Some c')) })
     })"

definition resolve_connector_class :: "str tunnels" where
  "resolve_connector_class = do {
     r \<leftarrow> ask_as as_classes ListClasses;
     State_Monad.return (case r of Inr names \<Rightarrow> fst (pick_connector_class names) | Inl _ \<Rightarrow> CONNECTOR_CLASS_NAMES ! 0)
   }"

text \<open>A failed patch of the status is only logged.\<close>

definition publish_details :: "str \<Rightarrow> unit tunnels" where
  "publish_details name = do {
     a \<leftarrow> ask_as as_addr EndpointAddr;
     (case build_connection_details a of
        Some details \<Rightarrow> do { _ \<leftarrow> ask_as as_done (PatchConnectorStatus name details); skip }
      | None \<Rightarrow> skip)
   }"

definition ensure_connector :: "tunnel_service \<Rightarrow> str \<Rightarrow> (tunnel_error + connector) tunnels" where
  "ensure_connector svc project_id =
     try_bind (control_plane project_id) (\<lambda>_.
     try_bind (find_connector svc project_id) (\<lambda>found.
       (case found of
          Some c \<Rightarrow> do { publish_details (connector_name_any c); State_Monad.return (Inr c) }
        | None \<Rightarrow> do {
            class_name \<leftarrow> resolve_connector_class;
            r \<leftarrow> with_quota_check_retry (ask_as as_connector (CreateConnector \<lparr>nc_generate_name = ''datum-connect-'',
                   nc_annotations = device_annotations svc, nc_class = class_name\<rparr>));
            (case r of
               Inl e \<Rightarrow> State_Monad.return (Inl (Context ''Failed to create Connector'' e))
             | Inr c \<Rightarrow> do { publish_details (connector_name_any c); State_Monad.return (Inr c) })
          })))"

definition refresh_connection_details :: "tunnel_service \<Rightarrow> str option \<Rightarrow> (tunnel_error + unit) tunnels" where
  "refresh_connection_details svc selected = (case selected of
     None \<Rightarrow> State_Monad.return (Inr ())
   | Some project_id \<Rightarrow>
       try_bind (find_connector svc project_id) (\<lambda>found.
         (case found of
            None \<Rightarrow> State_Monad.return (Inr ())
          | Some c \<Rightarrow> try_bind (control_plane project_id) (\<lambda>_. do {
              publish_details (connector_name_any c);
              State_Monad.return (Inr ())
            }))))"

section \<open>Local bookkeeping\<close>

definition edge_policy_target :: "bool \<Rightarrow> bool \<Rightarrow> edge_target \<Rightarrow> edge_target option" where
  "edge_policy_target edge_policies enabling target = (if edge_policies \<and> enabling then Some target else None)"

definition spawn_edge_policies :: "tunnel_service \<Rightarrow> str \<Rightarrow> str \<Rightarrow> str \<Rightarrow> bool \<Rightarrow> proxy_rule list \<Rightarrow> unit tunnels" where
  "spawn_edge_policies svc project_id tunnel_id label enabling rules =
     (case edge_policy_target (ts_edge svc) enabling
         \<lparr>eg_project = project_id, eg_tunnel = tunnel_id, eg_label = label, eg_portal = ts_portal svc\<rparr> of
        None \<Rightarrow> skip
      | Some target \<Rightarrow> signal (SpawnEdge target (has_protected_rule rules)))"

text \<open>After a change of a tunnel, unless tickets are published; a failure is only logged.\<close>

definition store_state :: "tunnel_service \<Rightarrow> tunnel_summary \<Rightarrow> unit tunnels" where
  "store_state svc s =
     (if ts_publish svc then skip
      else (case proxy_state_from_summary (ts_url svc) (ts_id s) (ts_target s) (ts_label s) (ts_enabled s) of
          Inl _ \<Rightarrow> skip
        | Inr st \<Rightarrow> do { _ \<leftarrow> ask_as as_local (SetProxyState st); skip }))"

section \<open>Creating a tunnel\<close>

definition creating :: "tunnel_service \<Rightarrow> str \<Rightarrow> (kube_error + 'a) tunnels \<Rightarrow> (tunnel_error + 'a) tunnels" where
  "creating svc kind f = do {
     r \<leftarrow> with_quota_check_retry f;
     State_Monad.return (case r of
       Inr x \<Rightarrow> Inr x
     | Inl e \<Rightarrow> Inl (Said (case format_quota_error (ts_show svc e) kind of Some m \<Rightarrow> m
         | None \<Rightarrow> ''Failed to create '' @ kind @ '': '' @ ts_show svc e)))
   }"

definition tunnel_tpp :: "str \<Rightarrow> new_tpp" where
  "tunnel_tpp name = \<lparr>tt_name = name,
     tt_targets = [\<lparr>tr_group = ''gateway.networking.k8s.io'', tr_kind = ''Gateway'', tr_name = name, tr_section = None\<rparr>],
     tt_mode = ''Enforce'', tt_sampling = None, tt_rule_set = ''OWASPCoreRuleSet'', tt_paranoia = (1, 1)\<rparr>"

definition create_tpp :: "tunnel_service \<Rightarrow> str \<Rightarrow> (tunnel_error + unit) tunnels" where
  "create_tpp svc name =
     (if ts_create_tpps svc
      then creating svc ''TrafficProtectionPolicy'' (ask_as as_done (CreateTpp (tunnel_tpp name)))
      else State_Monad.return (Inr ()))"

definition store_created :: "tunnel_service \<Rightarrow> str \<Rightarrow> str \<Rightarrow> str \<Rightarrow> (tunnel_error + unit) tunnels" where
  "store_created svc name endpoint label =
     (case proxy_state_from_summary (ts_url svc) name endpoint label True of
        Inl e \<Rightarrow> State_Monad.return (Inl (BadTarget e))
      | Inr st \<Rightarrow> do {
          _ \<leftarrow> ask_as as_local (if ts_publish svc then SetProxy st else SetProxyState st);
          State_Monad.return (Inr ())
        })"

definition create_at :: "tunnel_service \<Rightarrow> str \<Rightarrow> str \<Rightarrow> str \<Rightarrow> parsed_target \<Rightarrow> str \<Rightarrow> (tunnel_error + tunnel_summary) tunnels" where
  "create_at svc project_id label endpoint target connector_name =
     try_bind (control_plane project_id) (\<lambda>_.
     try_bind (creating svc ''HTTPProxy'' (ask_as as_proxy (CreateProxy \<lparr>np_generate_name = ''tunnel-'',
         np_annotations = [(DISPLAY_NAME_ANNOTATION, label)],
         np_rules = desired_proxy_rules endpoint connector_name (ts_exempt svc)\<rparr>))) (\<lambda>proxy.
     let proxy_name = proxy_name_any proxy in
     try_bind (creating svc ''ConnectorAdvertisement''
         (ask_as as_ad (CreateAd proxy_name (advertisement_spec connector_name target)))) (\<lambda>_.
     try_bind (create_tpp svc proxy_name) (\<lambda>_. do {
       spawn_edge_policies svc project_id proxy_name label True (hp_rules proxy);
       try_bind (store_created svc proxy_name endpoint label) (\<lambda>_.
         State_Monad.return (Inr ((summary_of proxy proxy_name label endpoint True)
           \<lparr>ts_connector := Some connector_name, ts_device := Some (friendly_device_name svc)\<rparr>)))
     }))))"

definition create_project :: "tunnel_service \<Rightarrow> str \<Rightarrow> str \<Rightarrow> str \<Rightarrow> (tunnel_error + tunnel_summary) tunnels" where
  "create_project svc project_id label raw =
     (let endpoint = normalize_endpoint raw in
      case parse_target (ts_url svc) endpoint of
        Inl e \<Rightarrow> State_Monad.return (Inl (BadTarget e))
      | Inr target \<Rightarrow>
          try_bind (ensure_connector svc project_id) (\<lambda>c.
            create_at svc project_id label endpoint target (connector_name_any c)))"

section \<open>Changing a tunnel\<close>

definition proxy_patch_for :: "http_proxy \<Rightarrow> str \<Rightarrow> proxy_rule list \<Rightarrow> proxy_patch" where
  "proxy_patch_for existing label rules = \<lparr>pp_annotation = (DISPLAY_NAME_ANNOTATION, label),
     pp_hostnames = the_list (hp_spec_hostnames existing), pp_rules = rules\<rparr>"

text \<open>The proxy as it is afterwards.\<close>

definition write_proxy :: "str \<Rightarrow> str \<Rightarrow> http_proxy \<Rightarrow> str \<Rightarrow> proxy_rule list \<Rightarrow> (tunnel_error + http_proxy) tunnels" where
  "write_proxy m tunnel_id existing label rules =
     (if http_proxy_spec_matches existing label rules then State_Monad.return (Inr existing)
      else asking m as_proxy (PatchProxy tunnel_id (proxy_patch_for existing label rules)))"

definition write_ad :: "str \<Rightarrow> str \<Rightarrow> (ad_spec \<Rightarrow> ad_spec) \<Rightarrow> (tunnel_error + bool) tunnels" where
  "write_ad m tunnel_id desired =
     try_bind (asking_opt ''Failed to fetch ConnectorAdvertisement'' as_ad (GetAd tunnel_id)) (\<lambda>found.
       (case found of
          None \<Rightarrow> State_Monad.return (Inr False)
        | Some ad \<Rightarrow>
            if advertisement_spec_matches ad (desired (ad_body ad)) then State_Monad.return (Inr True)
            else try_bind (asking m as_ad (PatchAd tunnel_id (desired (ad_body ad)))) (\<lambda>_. State_Monad.return (Inr True))))"

definition update_project :: "tunnel_service \<Rightarrow> str \<Rightarrow> str \<Rightarrow> str \<Rightarrow> str \<Rightarrow> (tunnel_error + tunnel_summary) tunnels" where
  "update_project svc project_id tunnel_id label raw =
     (let endpoint = normalize_endpoint raw in
      case parse_target (ts_url svc) endpoint of
        Inl e \<Rightarrow> State_Monad.return (Inl (BadTarget e))
      | Inr target \<Rightarrow>
          try_bind (ensure_connector svc project_id) (\<lambda>c.
          try_bind (control_plane project_id) (\<lambda>_.
          try_bind (asking ''Failed to fetch HTTPProxy'' as_proxy (GetProxy tunnel_id)) (\<lambda>existing.
          try_bind (write_proxy ''Failed to update HTTPProxy'' tunnel_id existing label
              (desired_proxy_rules endpoint (connector_name_any c) (ts_exempt svc))) (\<lambda>_.
          try_bind (write_ad ''Failed to update ConnectorAdvertisement'' tunnel_id
              (\<lambda>_. advertisement_spec (connector_name_any c) target)) (\<lambda>enabled. do {
            let summary = summary_of existing tunnel_id label endpoint enabled;
            store_state svc summary;
            State_Monad.return (Inr summary)
          }))))))"

definition retarget_project :: "tunnel_service \<Rightarrow> str \<Rightarrow> str \<Rightarrow> str \<Rightarrow> (tunnel_error + tunnel_summary) tunnels" where
  "retarget_project svc project_id tunnel_id raw =
     (let endpoint = normalize_endpoint raw in
      case parse_target (ts_url svc) endpoint of
        Inl e \<Rightarrow> State_Monad.return (Inl (BadTarget e))
      | Inr target \<Rightarrow>
          try_bind (control_plane project_id) (\<lambda>_.
          try_bind (asking ''Failed to fetch HTTPProxy'' as_proxy (GetProxy tunnel_id)) (\<lambda>existing.
          let label = proxy_label existing tunnel_id in
          case retarget_proxy_rules existing endpoint (ts_exempt svc) of
            None \<Rightarrow> update_project svc project_id tunnel_id label endpoint
          | Some rules \<Rightarrow>
              try_bind (write_proxy ''Failed to update HTTPProxy endpoint'' tunnel_id existing label rules) (\<lambda>_.
              try_bind (write_ad ''Failed to update ConnectorAdvertisement endpoint'' tunnel_id
                  (\<lambda>spec. retarget_advertisement_spec spec target)) (\<lambda>enabled. do {
                let summary = summary_of existing tunnel_id label endpoint enabled;
                store_state svc summary;
                State_Monad.return (Inr summary)
              })))))"

definition put_ad :: "str \<Rightarrow> ad_spec \<Rightarrow> (tunnel_error + unit) tunnels" where
  "put_ad tunnel_id spec =
     try_bind (asking_opt ''Failed to load ConnectorAdvertisement'' as_ad (GetAd tunnel_id)) (\<lambda>found.
       (case found of
          Some _ \<Rightarrow> try_bind (asking ''Failed to update ConnectorAdvertisement'' as_ad (PatchAd tunnel_id spec))
                     (\<lambda>_. State_Monad.return (Inr ()))
        | None \<Rightarrow> do {
            r \<leftarrow> with_quota_check_retry (ask_as as_ad (CreateAd tunnel_id spec));
            State_Monad.return (context_err ''Failed to create ConnectorAdvertisement'' (map_sum id (\<lambda>_. ()) r))
          }))"

definition enable_proxy :: "tunnel_service \<Rightarrow> str \<Rightarrow> str \<Rightarrow> http_proxy \<Rightarrow> str \<Rightarrow> str \<Rightarrow> (tunnel_error + unit) tunnels" where
  "enable_proxy svc project_id tunnel_id proxy endpoint label =
     try_bind (ensure_connector svc project_id) (\<lambda>c.
     (case parse_target (ts_url svc) endpoint of
        Inl e \<Rightarrow> State_Monad.return (Inl (BadTarget e))
      | Inr target \<Rightarrow>
          try_bind (write_proxy ''Failed to patch HTTPProxy connector reference'' tunnel_id proxy label
              (desired_proxy_rules endpoint (connector_name_any c) (ts_exempt svc))) (\<lambda>after.
          try_bind (put_ad tunnel_id (advertisement_spec (connector_name_any c) target)) (\<lambda>_. do {
            spawn_edge_policies svc project_id tunnel_id label True (hp_rules after);
            State_Monad.return (Inr ())
          }))))"

definition remove_ad :: "str \<Rightarrow> (tunnel_error + str option) tunnels" where
  "remove_ad tunnel_id =
     try_bind (asking_opt ''Failed to load ConnectorAdvertisement'' as_ad (GetAd tunnel_id)) (\<lambda>found.
       (case found of
          None \<Rightarrow> State_Monad.return (Inr None)
        | Some _ \<Rightarrow> try_bind (asking ''Failed to delete ConnectorAdvertisement'' as_done (DeleteAd tunnel_id))
                     (\<lambda>_. State_Monad.return (Inr (Some tunnel_id)))))"

definition proxy_endpoint :: "http_proxy \<Rightarrow> str" where
  "proxy_endpoint p = normalize_endpoint (case proxy_backend_endpoint p of Some e \<Rightarrow> e | None \<Rightarrow> [])"

definition set_enabled_project :: "tunnel_service \<Rightarrow> str \<Rightarrow> str \<Rightarrow> bool \<Rightarrow> (tunnel_error + tunnel_summary) tunnels" where
  "set_enabled_project svc project_id tunnel_id enabled =
     try_bind (control_plane project_id) (\<lambda>_.
     try_bind (asking ''Failed to fetch HTTPProxy'' as_proxy (GetProxy tunnel_id)) (\<lambda>proxy.
     let endpoint = proxy_endpoint proxy; label = proxy_label proxy tunnel_id in
     try_bind (if enabled then enable_proxy svc project_id tunnel_id proxy endpoint label
               else try_bind (remove_ad tunnel_id) (\<lambda>_. State_Monad.return (Inr ()))) (\<lambda>_. do {
       let summary = summary_of proxy tunnel_id label endpoint enabled;
       store_state svc summary;
       State_Monad.return (Inr summary)
     })))"

section \<open>Deleting\<close>

definition uses_connector :: "str \<Rightarrow> http_proxy \<Rightarrow> bool" where
  "uses_connector name p \<longleftrightarrow> \<not> hp_deleting p \<and> proxy_connector_name p = Some name"

text \<open>Deletes what it can; failures are only logged.\<close>

fun delete_ads :: "advertisement list \<Rightarrow> unit tunnels" where
  "delete_ads [] = skip"
| "delete_ads (ad # ads) = do {
     (case ad_name ad of Some n \<Rightarrow> do { _ \<leftarrow> ask_as as_done (DeleteAd n); skip } | None \<Rightarrow> skip);
     delete_ads ads
   }"

definition delete_connector_if_unused :: "str \<Rightarrow> (tunnel_error + str option) tunnels" where
  "delete_connector_if_unused name =
     try_bind (asking ''Failed to list remaining HTTPProxy objects'' as_proxies ListProxies) (\<lambda>remaining.
       if list_ex (uses_connector name) remaining then State_Monad.return (Inr None)
       else
         try_bind (asking ''Failed to list remaining ConnectorAdvertisements'' as_ads (ListAds (Some name))) (\<lambda>ads. do {
           delete_ads (filter (\<lambda>ad. ad_connector (ad_body ad) = name) ads);
           try_bind (asking_opt ''Failed to load Connector'' as_connector (GetConnector name)) (\<lambda>found.
             (case found of
                None \<Rightarrow> State_Monad.return (Inr None)
              | Some _ \<Rightarrow> try_bind (asking ''Failed to delete Connector'' as_done (DeleteConnector name))
                           (\<lambda>_. State_Monad.return (Inr (Some name)))))
         }))"

definition connector_of :: "tunnel_service \<Rightarrow> str \<Rightarrow> http_proxy option \<Rightarrow> (tunnel_error + str option) tunnels" where
  "connector_of svc project_id existing = (case Option.bind existing proxy_connector_name of
     Some name \<Rightarrow> State_Monad.return (Inr (Some name))
   | None \<Rightarrow> try_bind (find_connector svc project_id) (\<lambda>c. State_Monad.return (Inr (map_option connector_name_any c))))"

definition remove_edge_policies :: "str \<Rightarrow> (tunnel_error + edge_policy_removal) tunnels" where
  "remove_edge_policies tunnel_id = do {
     r \<leftarrow> delete_edge_policies tunnel_id;
     State_Monad.return (case r of Inr x \<Rightarrow> Inr x
       | Inl e \<Rightarrow> Inl (Said (''Failed to delete the tunnel's edge policies: '' @ e)))
   }"

definition remove_proxy :: "str \<Rightarrow> http_proxy option \<Rightarrow> (tunnel_error + str option) tunnels" where
  "remove_proxy tunnel_id existing = (case existing of
     None \<Rightarrow> State_Monad.return (Inr None)
   | Some _ \<Rightarrow> try_bind (asking ''Failed to delete HTTPProxy'' as_done (DeleteProxy tunnel_id))
                (\<lambda>_. State_Monad.return (Inr (Some tunnel_id))))"

definition remove_tpp :: "str \<Rightarrow> (tunnel_error + str option) tunnels" where
  "remove_tpp tunnel_id =
     try_bind (asking_opt ''Failed to load TrafficProtectionPolicy'' as_done (GetTpp tunnel_id)) (\<lambda>found.
       (case found of
          None \<Rightarrow> State_Monad.return (Inr None)
        | Some _ \<Rightarrow> try_bind (asking ''Failed to delete TrafficProtectionPolicy'' as_done (DeleteTpp tunnel_id))
                     (\<lambda>_. State_Monad.return (Inr (Some tunnel_id)))))"

definition forget_state :: "tunnel_service \<Rightarrow> str \<Rightarrow> unit tunnels" where
  "forget_state svc tunnel_id = do {
     _ \<leftarrow> ask_as as_local (if ts_publish svc then RemoveProxy tunnel_id else RemoveProxyState tunnel_id);
     skip
   }"

definition delete_project :: "tunnel_service \<Rightarrow> str \<Rightarrow> str \<Rightarrow> (tunnel_error + delete_outcome) tunnels" where
  "delete_project svc project_id tunnel_id =
     try_bind (control_plane project_id) (\<lambda>_.
     try_bind (asking_opt ''Failed to load HTTPProxy'' as_proxy (GetProxy tunnel_id)) (\<lambda>existing.
     try_bind (connector_of svc project_id existing) (\<lambda>connector_name.
     try_bind (remove_edge_policies tunnel_id) (\<lambda>edge.
     try_bind (remove_proxy tunnel_id existing) (\<lambda>proxy_out.
     try_bind (remove_ad tunnel_id) (\<lambda>ad_out.
     try_bind (remove_tpp tunnel_id) (\<lambda>tpp_out. do {
       forget_state svc tunnel_id;
       try_bind (case connector_name of Some name \<Rightarrow> delete_connector_if_unused name
                 | None \<Rightarrow> State_Monad.return (Inr None)) (\<lambda>connector_out. do {
         _ \<leftarrow> ask_as as_local (DeleteTunnelDir project_id tunnel_id);
         State_Monad.return (Inr \<lparr>do_project = project_id, do_proxy = proxy_out, do_ad = ad_out, do_tpp = tpp_out,
           do_connector = connector_out, do_waf = rm_waf_deleted edge, do_timeout = rm_timeout_deleted edge\<rparr>)
       })
     })))))))"

section \<open>Orphans\<close>

definition delete_connector_ads :: "str \<Rightarrow> unit tunnels" where
  "delete_connector_ads name = do {
     r \<leftarrow> ask_as as_ads (ListAds (Some name));
     (case r of Inr ads \<Rightarrow> delete_ads ads | Inl _ \<Rightarrow> skip)
   }"

fun cleanup_each :: "str set \<Rightarrow> connector list \<Rightarrow> str list \<Rightarrow> str list tunnels" where
  "cleanup_each referenced [] deleted = State_Monad.return deleted"
| "cleanup_each referenced (c # cs) deleted = (case cn_name c of
     None \<Rightarrow> cleanup_each referenced cs deleted
   | Some name \<Rightarrow>
       if name \<in> referenced then cleanup_each referenced cs deleted
       else do {
         delete_connector_ads name;
         r \<leftarrow> ask_as as_done (DeleteConnector name);
         cleanup_each referenced cs (case r of Inr _ \<Rightarrow> deleted @ [name] | Inl _ \<Rightarrow> deleted)
       })"

definition referenced_connectors :: "http_proxy list \<Rightarrow> str set" where
  "referenced_connectors proxies = set (List.map_filter proxy_connector_name (filter (\<lambda>p. \<not> hp_deleting p) proxies))"

definition cleanup_orphaned_connectors_project :: "str \<Rightarrow> (tunnel_error + str list) tunnels" where
  "cleanup_orphaned_connectors_project project_id =
     try_bind (control_plane project_id) (\<lambda>_.
     try_bind (asking ''Failed to list HTTPProxy objects'' as_proxies ListProxies) (\<lambda>proxies.
     try_bind (asking ''Failed to list Connector objects'' as_connectors (ListConnectors None)) (\<lambda>connectors. do {
       deleted \<leftarrow> cleanup_each (referenced_connectors proxies) connectors [];
       State_Monad.return (Inr deleted)
     })))"



section \<open>Listing\<close>

text \<open>Collected into a map, the last of two entries with the same name wins.\<close>

definition by_name :: "(connector \<Rightarrow> 'a option) \<Rightarrow> connector list \<Rightarrow> str \<Rightarrow> 'a option" where
  "by_name f cs = map_of (rev (List.map_filter (\<lambda>c. case cn_name c of None \<Rightarrow> None
     | Some name \<Rightarrow> map_option (\<lambda>v. (name, v)) (f c)) cs))"

definition connector_is_ready :: "connector \<Rightarrow> bool" where
  "connector_is_ready c = condition_status (cn_conditions c) CONNECTOR_READY True"

definition connector_device :: "connector \<Rightarrow> str option" where
  "connector_device c = annotation (cn_annotations c) DEVICE_NAME_ANNOTATION"

definition tunnel_of :: "advertisement list \<Rightarrow> connector list \<Rightarrow> http_proxy \<Rightarrow> tunnel_summary option" where
  "tunnel_of ads connectors p = (case hp_name p of
     None \<Rightarrow> None
   | Some name \<Rightarrow>
       if \<not> starts_with ''tunnel-'' name then None
       else Some ((summary_of p name (proxy_label p name) (proxy_endpoint p) (Some name \<in> ad_name ` set ads))
         \<lparr>ts_connector_ready := (case Option.bind (proxy_connector_name p) (by_name (\<lambda>c. Some (connector_is_ready c)) connectors) of
            Some b \<Rightarrow> b | None \<Rightarrow> False),
          ts_device := Option.bind (proxy_connector_name p) (by_name connector_device connectors)\<rparr>))"

definition orphans_of :: "tunnel_summary list \<Rightarrow> connector list \<Rightarrow> orphaned_connector list" where
  "orphans_of tunnels connectors = (let referenced = set (List.map_filter ts_connector tunnels) in
     List.map_filter (\<lambda>c. case cn_name c of
         None \<Rightarrow> None
       | Some name \<Rightarrow> if name \<in> referenced then None
           else Some \<lparr>oc_name = name,
             oc_ready = (case by_name (\<lambda>c. Some (connector_is_ready c)) connectors name of Some b \<Rightarrow> b | None \<Rightarrow> False),
             oc_device = connector_device c\<rparr>) connectors)"

definition list_project_with_orphans :: "str \<Rightarrow> (tunnel_error + tunnel_summary list \<times> orphaned_connector list) tunnels" where
  "list_project_with_orphans project_id =
     try_bind (control_plane project_id) (\<lambda>_.
     try_bind (asking ''Failed to list HTTPProxy objects'' as_proxies ListProxies) (\<lambda>proxies.
     try_bind (asking ''Failed to list ConnectorAdvertisement objects'' as_ads (ListAds None)) (\<lambda>ads.
     try_bind (asking ''Failed to list Connector objects'' as_connectors (ListConnectors None)) (\<lambda>connectors.
       let tunnels = List.map_filter (tunnel_of ads connectors) proxies in
       State_Monad.return (Inr (tunnels, orphans_of tunnels connectors))))))"

definition list_project :: "str \<Rightarrow> (tunnel_error + tunnel_summary list) tunnels" where
  "list_project project_id = try_bind (list_project_with_orphans project_id) (\<lambda>(tunnels, _). State_Monad.return (Inr tunnels))"

section \<open>In the selected project\<close>

text \<open>\<open>selected\<close> is the project of \<^verbatim>\<open>datum.selected_context()\<close>, read once.\<close>

definition no_project :: "(tunnel_error + 'a) tunnels" where
  "no_project = State_Monad.return (Inl (Said ''No project selected''))"

definition list_active :: "str option \<Rightarrow> (tunnel_error + tunnel_summary list) tunnels" where
  "list_active selected = (case selected of None \<Rightarrow> State_Monad.return (Inr []) | Some p \<Rightarrow> list_project p)"

definition list_active_with_orphans :: "str option \<Rightarrow> (tunnel_error + tunnel_summary list \<times> orphaned_connector list) tunnels" where
  "list_active_with_orphans selected = (case selected of
     None \<Rightarrow> State_Monad.return (Inr ([], [])) | Some p \<Rightarrow> list_project_with_orphans p)"

definition get_active :: "str option \<Rightarrow> str \<Rightarrow> (tunnel_error + tunnel_summary option) tunnels" where
  "get_active selected tunnel_id =
     try_bind (list_active selected) (\<lambda>ts. State_Monad.return (Inr (find (\<lambda>t. ts_id t = tunnel_id) ts)))"

definition get_active_by_endpoint :: "str option \<Rightarrow> str \<Rightarrow> (tunnel_error + tunnel_summary option) tunnels" where
  "get_active_by_endpoint selected endpoint =
     try_bind (list_active selected) (\<lambda>ts. State_Monad.return (Inr (find (\<lambda>t. ts_target t = normalize_endpoint endpoint) ts)))"

definition get_active_progress :: "str option \<Rightarrow> str \<Rightarrow> (tunnel_error + tunnel_progress option) tunnels" where
  "get_active_progress selected tunnel_id = (case selected of
     None \<Rightarrow> State_Monad.return (Inr None)
   | Some project_id \<Rightarrow>
       try_bind (control_plane project_id) (\<lambda>_.
       try_bind (asking_opt ''Failed to fetch HTTPProxy'' as_proxy (GetProxy tunnel_id)) (\<lambda>found.
         (case found of
            None \<Rightarrow> State_Monad.return (Inr None)
          | Some proxy \<Rightarrow>
              try_bind (case proxy_connector_name proxy of
                  Some name \<Rightarrow> asking_opt ''Failed to fetch Connector'' as_connector (GetConnector name)
                | None \<Rightarrow> State_Monad.return (Inr None)) (\<lambda>c.
                State_Monad.return (Inr (Some (from_resources proxy c))))))))"

definition create_active :: "tunnel_service \<Rightarrow> str option \<Rightarrow> str \<Rightarrow> str \<Rightarrow> (tunnel_error + tunnel_summary) tunnels" where
  "create_active svc selected label endpoint = (case selected of None \<Rightarrow> no_project | Some p \<Rightarrow> create_project svc p label endpoint)"

definition update_active :: "tunnel_service \<Rightarrow> str option \<Rightarrow> str \<Rightarrow> str \<Rightarrow> str \<Rightarrow> (tunnel_error + tunnel_summary) tunnels" where
  "update_active svc selected tunnel_id label endpoint =
     (case selected of None \<Rightarrow> no_project | Some p \<Rightarrow> update_project svc p tunnel_id label endpoint)"

definition retarget_active :: "tunnel_service \<Rightarrow> str option \<Rightarrow> str \<Rightarrow> str \<Rightarrow> (tunnel_error + tunnel_summary) tunnels" where
  "retarget_active svc selected tunnel_id endpoint =
     (case selected of None \<Rightarrow> no_project | Some p \<Rightarrow> retarget_project svc p tunnel_id endpoint)"

definition set_enabled_active :: "tunnel_service \<Rightarrow> str option \<Rightarrow> str \<Rightarrow> bool \<Rightarrow> (tunnel_error + tunnel_summary) tunnels" where
  "set_enabled_active svc selected tunnel_id enabled =
     (case selected of None \<Rightarrow> no_project | Some p \<Rightarrow> set_enabled_project svc p tunnel_id enabled)"

definition delete_active :: "tunnel_service \<Rightarrow> str option \<Rightarrow> str \<Rightarrow> (tunnel_error + delete_outcome) tunnels" where
  "delete_active svc selected tunnel_id =
     (case selected of None \<Rightarrow> no_project | Some p \<Rightarrow> delete_project svc p tunnel_id)"

definition cleanup_orphaned_connectors :: "str option \<Rightarrow> (tunnel_error + str list) tunnels" where
  "cleanup_orphaned_connectors selected =
     (case selected of None \<Rightarrow> State_Monad.return (Inr []) | Some p \<Rightarrow> cleanup_orphaned_connectors_project p)"

end
