(* ===== verification/Tunnels_Facts.thy ===== *)
theory Tunnels_Facts
  imports Tunnels
begin

text \<open>
  What the tunnel service does and does not ask, whatever Datum answers: switching off touches only the
  advertisement, retries are bounded, a connector in use and a policy of someone else's stay, a new endpoint keeps the
  connector; and which endpoints are refused.
\<close>

section \<open>Which requests are made\<close>

lemma asks_asking [asks_intros]: "P q \<Longrightarrow> asks_only P (asking m f q)"
  unfolding asking_def by (intro asks_intros)

lemma asks_asking_opt [asks_intros]: "P q \<Longrightarrow> asks_only P (asking_opt m f q)"
  unfolding asking_opt_def by (intro asks_intros)

lemma asks_control_plane [asks_intros]: "P (ControlPlane p) \<Longrightarrow> asks_only P (control_plane p)"
  unfolding control_plane_def by (intro asks_intros)

lemma asks_retry [asks_intros]: "asks_only P f \<Longrightarrow> asks_only P (with_quota_check_retry f)"
proof -
  assume "asks_only P f"
  then have "asks_only P (retry_after ds f)" for ds by (induction ds) (auto intro!: asks_intros)
  then show ?thesis unfolding with_quota_check_retry_def .
qed

lemma asks_call [asks_intros]: "P q \<Longrightarrow> asks_only P (call f q)"
  unfolding call_def by (intro asks_intros)

lemma asks_case_list [asks_intros]:
  "asks_only P m \<Longrightarrow> (\<And>x xs. asks_only P (f x xs)) \<Longrightarrow> asks_only P (case l of [] \<Rightarrow> m | x # xs \<Rightarrow> f x xs)"
  by (cases l) auto

lemma asks_case_waf [asks_intros]:
  "asks_only P a \<Longrightarrow> asks_only P b \<Longrightarrow> asks_only P c \<Longrightarrow>
   asks_only P (case x of ManagedWaf \<Rightarrow> a | LegacyWaf \<Rightarrow> b | ForeignWaf \<Rightarrow> c)"
  by (cases x) auto

fun is_set_state :: "kube_request \<Rightarrow> bool" where
  "is_set_state (SetProxyState st) = True" | "is_set_state _ = False"

lemma asks_store_state [asks_intros]: "(\<And>st. P (SetProxyState st)) \<Longrightarrow> asks_only P (store_state svc s)"
  unfolding store_state_def by (intro asks_intros)

lemma asks_remove_ad [asks_intros]: "P (GetAd t) \<Longrightarrow> P (DeleteAd t) \<Longrightarrow> asks_only P (remove_ad t)"
  unfolding remove_ad_def by (intro asks_intros)

text \<open>
  switching a tunnel off reads its HTTPProxy and removes its advertisement, and touches nothing else: no
  connector, no proxy, no policy.
\<close>

theorem disabling_only_removes_the_advertisement:
  "asks_only (\<lambda>q. q \<in> {ControlPlane p, GetProxy t, GetAd t, DeleteAd t} \<or> is_set_state q) (set_enabled_project svc p t False)"
  unfolding set_enabled_project_def Let_def if_False
  by (intro asks_intros) simp_all

section \<open>Retries\<close>

definition timed_out :: "kube_error + 'a \<Rightarrow> bool" where
  "timed_out r \<longleftrightarrow> (case r of Inl e \<Rightarrow> is_quota_check_timeout e | Inr _ \<Rightarrow> False)"

lemma timed_out_simps [simp]: "timed_out (Inl e) \<longleftrightarrow> is_quota_check_timeout e" "\<not> timed_out (Inr x)"
  by (simp_all add: timed_out_def)

definition tried :: "nat list \<Rightarrow> (kube_reply \<Rightarrow> kube_error + 'a) \<Rightarrow> kube_request \<Rightarrow> (kube_request, kube_reply) world \<Rightarrow>
    kube_error + 'a \<Rightarrow> (kube_request, kube_reply) world \<Rightarrow> bool" where
  "tried ds f q w r v \<longleftrightarrow> (\<exists>es rs. trace v = trace w @ es \<and> map request es = replicate (length rs) q \<and>
     map reply es = map Some rs \<and> rs \<noteq> [] \<and> length rs \<le> Suc (length ds) \<and> r = f (last rs) \<and>
     (\<forall>x \<in> set (butlast rs). timed_out (f x)) \<and> (timed_out r \<longrightarrow> length rs = Suc (length ds)) \<and>
     clock w + sum_list (take (length rs - 1) ds) \<le> clock v)"

lemma tried_once: "run_state (ask_as f q) w = (r, v) \<Longrightarrow> \<not> timed_out r \<or> ds = [] \<Longrightarrow> tried ds f q w r v"
  unfolding ask_as_def tried_def
  by (auto dest!: run_ask split: prod.splits intro!: exI [of _ "[_]"])

lemma tried_again:
  assumes "run_state (ask_as f q) w = (r, v)" "timed_out r" "tried ds f q (v\<lparr>clock := clock v + d\<rparr>) r' u"
  shows "tried (d # ds) f q w r' u"
proof -
  from assms(1) obtain x c where x: "r = f x" "v = w\<lparr>clock := clock w + c, trace := trace w @ [Event (clock w) q (Some x)]\<rparr>"
    unfolding ask_as_def by (auto dest!: run_ask split: prod.splits)
  from assms(3) obtain es rs where
    "trace u = trace v @ es" "map request es = replicate (length rs) q" "map reply es = map Some rs" and rs: "rs \<noteq> []" and
    "length rs \<le> Suc (length ds)" "r' = f (last rs)" "\<forall>x \<in> set (butlast rs). timed_out (f x)"
    "timed_out r' \<longrightarrow> length rs = Suc (length ds)" "clock v + d + sum_list (take (length rs - 1) ds) \<le> clock u"
    unfolding tried_def by auto
  with x assms(2) show ?thesis unfolding tried_def
    by (intro exI [of _ "Event (clock w) q (Some x) # es"] exI [of _ "x # rs"]) (cases rs; auto)
qed

lemma retry_tried: "run_state (retry_after ds (ask_as f q)) w = (r, v) \<Longrightarrow> tried ds f q w r v"
proof (induction ds arbitrary: w)
  case Nil
  then show ?case by (simp add: tried_once)
next
  case (Cons d ds)
  obtain x u where x: "run_state (ask_as f q) w = (x, u)" by fastforce
  show ?case
  proof (cases "timed_out x")
    case True
    then obtain e where "x = Inl e" "is_quota_check_timeout e" by (cases x) auto
    with Cons.prems x have "run_state (retry_after ds (ask_as f q)) (u\<lparr>clock := clock u + d\<rparr>) = (r, v)" by simp
    from Cons.IH [OF this] x True show ?thesis by (rule tried_again [rotated 2])
  next
    case False
    with Cons.prems x have "r = x" "v = u" by (auto split: sum.splits)
    with x False show ?thesis by (simp add: tried_once)
  qed
qed

text \<open>
  a request of Datum's API that runs into a quota check is sent at most five times, with pauses
  of one, two, four and eight seconds; it is repeated only after a reply that says the check timed out, and
  the last reply is what comes out: a time out only after the fifth.
\<close>

theorem quota_retries_are_bounded:
  assumes "run_state (with_quota_check_retry (ask_as f q)) w = (r, v)"
  shows "\<exists>es rs. trace v = trace w @ es \<and> map request es = replicate (length rs) q \<and> map reply es = map Some rs \<and>
    1 \<le> length rs \<and> length rs \<le> 5 \<and> r = f (last rs) \<and> list_all (\<lambda>x. timed_out (f x)) (butlast rs) \<and>
    (timed_out r \<longrightarrow> length rs = 5) \<and> clock w + sum_list (take (length rs - 1) [1000, 2000, 4000, 8000]) \<le> clock v"
proof -
  from retry_tried [OF assms [unfolded with_quota_check_retry_def]] obtain es rs where
    "trace v = trace w @ es" "map request es = replicate (length rs) q" "map reply es = map Some rs" "rs \<noteq> []"
    "length rs \<le> 5" "r = f (last rs)" "\<forall>x \<in> set (butlast rs). timed_out (f x)" "timed_out r \<longrightarrow> length rs = 5"
    "clock w + sum_list (take (length rs - 1) [1000, 2000, 4000, 8000]) \<le> clock v"
    unfolding tried_def retry_delays_def by (auto simp: eval_nat_numeral)
  then show ?thesis by (intro exI [of _ es] exI [of _ rs]) (auto simp: list_all_iff Suc_le_eq)
qed



section \<open>What has to come first\<close>

text \<open>Requests \<open>N\<close> are made only after an event that \<open>A\<close> accepts for them.\<close>

definition only_after :: "(kube_request \<Rightarrow> bool) \<Rightarrow> ((kube_request, kube_reply) event \<Rightarrow> kube_request \<Rightarrow> bool) \<Rightarrow> 'a tunnels \<Rightarrow> bool" where
  "only_after N A m \<longleftrightarrow> leaves (preceded (\<lambda>e. N (request e)) (\<lambda>d e. A d (request e))) m"

named_theorems after_intros \<open>what a computation does only after something else\<close>

lemma after_bind [after_intros]: "only_after N A m \<Longrightarrow> (\<And>a. only_after N A (f a)) \<Longrightarrow> only_after N A (State_Monad.bind m f)"
  unfolding only_after_def by (rule before.bind)

lemma after_try [after_intros]: "only_after N A m \<Longrightarrow> (\<And>a. only_after N A (f a)) \<Longrightarrow> only_after N A (try_bind m f)"
  unfolding only_after_def by (rule before.try_each)

lemma after_case_option [after_intros]:
  "only_after N A m \<Longrightarrow> (\<And>y. only_after N A (f y)) \<Longrightarrow> only_after N A (case x of None \<Rightarrow> m | Some y \<Rightarrow> f y)"
  by (cases x) auto

lemma after_case_sum [after_intros]:
  "(\<And>e. only_after N A (f e)) \<Longrightarrow> (\<And>y. only_after N A (g y)) \<Longrightarrow>
   only_after N A (case x of Inl e \<Rightarrow> f e | Inr y \<Rightarrow> g y)"
  by (cases x) auto

lemma after_if [after_intros]: "only_after N A m \<Longrightarrow> only_after N A n \<Longrightarrow> only_after N A (if b then m else n)"
  by simp

lemma after_case_prod [after_intros]:
  "(\<And>a b. only_after N A (f a b)) \<Longrightarrow> only_after N A (case x of (a, b) \<Rightarrow> f a b)"
  by (cases x) auto

lemma after_none: "asks_only (\<lambda>q. \<not> N q) m \<Longrightarrow> only_after N A m"
  unfolding only_after_def by (erule asks_leaves [THEN leaves_weaken]) (auto intro: preceded_none)

lemma run_asking: "run_state (asking m f q) w = (Inr x, v) \<Longrightarrow>
    \<exists>r t. f r = Inr x \<and> trace v = trace w @ [Event t q (Some r)]"
  unfolding asking_def ask_as_def context_err_def by (auto dest!: run_ask split: prod.splits sum.splits)

lemma run_asking_opt: "run_state (asking_opt m f q) w = (Inr x, v) \<Longrightarrow>
    \<exists>r t. opt_found (f r) = Inr x \<and> trace v = trace w @ [Event t q (Some r)]"
  unfolding asking_opt_def ask_as_def context_err_def by (auto dest!: run_ask split: prod.splits sum.splits)

lemma run_call: "run_state (call f q) w = (x, v) \<Longrightarrow>
    \<exists>r t. x = call_outcome (map_option f r) \<and> trace v = trace w @ [Event t q r]"
  unfolding call_def ask_within_as_def by (auto dest!: run_ask_within split: prod.splits)

text \<open>A reply that clears the way for everything that follows.\<close>

lemma after_reply:
  assumes "\<not> N q" "\<And>x r t. ok x r \<Longrightarrow> asks_only (\<lambda>p. N p \<longrightarrow> A (Event t q r) p) (g x)"
    and m: "\<And>w x v. run_state m w = (x, v) \<Longrightarrow> \<exists>r t. trace v = trace w @ [Event t q r] \<and> ok x r"
  shows "only_after N A (State_Monad.bind m g)"
  unfolding only_after_def
proof (rule leavesI)
  fix w y u
  assume run: "run_state (State_Monad.bind m g) w = (y, u)"
  obtain x v where v: "run_state m w = (x, v)" by fastforce
  with run have gu: "run_state (g x) v = (y, u)" by simp
  from m [OF v] obtain r t where r: "trace v = trace w @ [Event t q r]" "ok x r" by blast
  from asks_onlyD [OF assms(2) [OF r(2)] gu] obtain fs where
    "trace u = trace v @ fs" "\<forall>e \<in> set fs. N (request e) \<longrightarrow> A (Event t q r) (request e)" by blast
  moreover from this(2) assms(1) have "preceded (\<lambda>e. N (request e)) (\<lambda>d e. A d (request e)) ([Event t q r] @ fs)"
    by (intro preceded_lead) auto
  ultimately show "\<exists>es. trace u = trace w @ es \<and> preceded (\<lambda>e. N (request e)) (\<lambda>d e. A d (request e)) es"
    using r(1) by (intro exI [of _ "[Event t q r] @ fs"]) simp
qed

lemma asks_case_inl:
  "(\<And>y. x = Inr y \<Longrightarrow> asks_only P (g y)) \<Longrightarrow>
   asks_only P (case x of Inl e \<Rightarrow> State_Monad.return (h e) | Inr y \<Rightarrow> g y)"
  by (cases x) (auto intro: asks_return)

lemma after_asking:
  assumes "\<not> N q" "\<And>x r t. f r = Inr x \<Longrightarrow> asks_only (\<lambda>p. N p \<longrightarrow> A (Event t q (Some r)) p) (g x)"
  shows "only_after N A (try_bind (asking m f q) g)"
  unfolding try_bind_def
proof (rule after_reply [where q = q and ok = "\<lambda>x r. \<forall>y. x = Inr y \<longrightarrow> (\<exists>s. r = Some s \<and> f s = Inr y)"])
  show "\<not> N q" by (rule assms(1))
  show "asks_only (\<lambda>p. N p \<longrightarrow> A (Event t q r) p)
      (case x of Inl e \<Rightarrow> State_Monad.return (Inl e) | Inr a \<Rightarrow> g a)"
    if "\<forall>y. x = Inr y \<longrightarrow> (\<exists>s. r = Some s \<and> f s = Inr y)" for x r t
    using that assms(2) by (intro asks_case_inl) auto
  show "\<exists>r t. trace v = trace w @ [Event t q r] \<and> (\<forall>y. x = Inr y \<longrightarrow> (\<exists>s. r = Some s \<and> f s = Inr y))"
    if "run_state (asking m f q) w = (x, v)" for w x v
    using that unfolding asking_def ask_as_def context_err_def
    by (auto dest!: run_ask split: prod.splits sum.splits)
qed

lemma after_call:
  assumes "\<not> N q" "\<And>x r t. x = call_outcome (map_option f r) \<Longrightarrow> asks_only (\<lambda>p. N p \<longrightarrow> A (Event t q r) p) (g x)"
  shows "only_after N A (State_Monad.bind (call f q) g)"
proof (rule after_reply [where q = q and ok = "\<lambda>x r. x = call_outcome (map_option f r)"])
  show "\<exists>r t. trace v = trace w @ [Event t q r] \<and> x = call_outcome (map_option f r)"
    if "run_state (call f q) w = (x, v)" for w x v
    using run_call [OF that] by blast
qed (use assms in auto)

section \<open>Connectors that are in use stay\<close>

fun deletes_connector :: "kube_request \<Rightarrow> str option" where
  "deletes_connector (DeleteConnector n) = Some n" | "deletes_connector _ = None"

definition deletes_any_connector :: "kube_request \<Rightarrow> bool" where
  "deletes_any_connector q \<longleftrightarrow> deletes_connector q \<noteq> None"

text \<open>The proxies were listed, and none that stays uses the connector.\<close>

fun listed_unused :: "(kube_request, kube_reply) event \<Rightarrow> kube_request \<Rightarrow> bool" where
  "listed_unused (Event t ListProxies (Some (RProxies (Inr ps)))) (DeleteConnector n) = (\<not> list_ex (uses_connector n) ps)"
| "listed_unused _ _ = False"

lemma deletes_any_simps [simp]: "deletes_any_connector (DeleteConnector n)"
  by (simp add: deletes_any_connector_def)

lemma as_proxies_Inr: "as_proxies r = Inr ps \<longleftrightarrow> r = RProxies (Inr ps)"
  by (cases r) (auto simp: no_answer_def)

lemma asks_delete_ads [asks_intros]: "(\<And>n. P (DeleteAd n)) \<Longrightarrow> asks_only P (delete_ads ads)"
  by (induction ads) (auto intro!: asks_intros)

lemma delete_connector_after: "only_after deletes_any_connector listed_unused (delete_connector_if_unused name)"
  unfolding delete_connector_if_unused_def
proof (rule after_asking)
  show "\<not> deletes_any_connector ListProxies" by (simp add: deletes_any_connector_def)
  fix ps r t assume "as_proxies r = Inr ps"
  then have r: "r = RProxies (Inr ps)" by (simp add: as_proxies_Inr)
  show "asks_only (\<lambda>p. deletes_any_connector p \<longrightarrow> listed_unused (Event t ListProxies (Some r)) p)
      (if list_ex (uses_connector name) ps then State_Monad.return (Inr None)
       else try_bind (asking ''Failed to list remaining ConnectorAdvertisements'' as_ads (ListAds (Some name))) (\<lambda>ads. do {
           delete_ads (filter (\<lambda>ad. ad_connector (ad_body ad) = name) ads);
           try_bind (asking_opt ''Failed to load Connector'' as_connector (GetConnector name)) (\<lambda>found.
             (case found of
                None \<Rightarrow> State_Monad.return (Inr None)
              | Some _ \<Rightarrow> try_bind (asking ''Failed to delete Connector'' as_done (DeleteConnector name))
                           (\<lambda>_. State_Monad.return (Inr (Some name)))))
         }))"
  proof (cases "list_ex (uses_connector name) ps")
    case True
    then show ?thesis by (simp add: asks_return)
  next
    case False
    then show ?thesis unfolding r if_not_P [OF False]
      by (intro asks_intros) (simp_all add: deletes_any_connector_def)
  qed
qed


lemma asks_find_connector [asks_intros]:
  assumes "P (ControlPlane p)" "P (ListConnectors (Some (ts_endpoint_id svc)))" "\<And>n a. P (PatchConnector n a)"
  shows "asks_only P (find_connector svc p)"
  unfolding find_connector_def patch_device_annotations_def
  by (intro asks_intros assms)

lemma asks_delete_policy [asks_intros]: "P (DeletePolicy k n) \<Longrightarrow> asks_only P (delete_policy k n)"
  unfolding delete_policy_def by (intro asks_intros)

lemma asks_remove_edge_policies [asks_intros]:
  "(\<And>k n. P (GetPolicy k n)) \<Longrightarrow> (\<And>k n. P (DeletePolicy k n)) \<Longrightarrow> asks_only P (remove_edge_policies t)"
  unfolding remove_edge_policies_def delete_edge_policies_def delete_waf_def delete_timeout_def Let_def
  by (intro asks_intros)

lemma asks_remove_proxy [asks_intros]: "P (DeleteProxy t) \<Longrightarrow> asks_only P (remove_proxy t p)"
  unfolding remove_proxy_def by (intro asks_intros)

lemma asks_remove_tpp [asks_intros]: "P (GetTpp t) \<Longrightarrow> P (DeleteTpp t) \<Longrightarrow> asks_only P (remove_tpp t)"
  unfolding remove_tpp_def by (intro asks_intros)

lemma asks_connector_of [asks_intros]:
  assumes "P (ControlPlane p)" "P (ListConnectors (Some (ts_endpoint_id svc)))" "\<And>n a. P (PatchConnector n a)"
  shows "asks_only P (connector_of svc p e)"
  unfolding connector_of_def by (intro asks_intros assms)

lemma asks_forget_state [asks_intros]:
  "P (RemoveProxy t) \<Longrightarrow> P (RemoveProxyState t) \<Longrightarrow> asks_only P (forget_state svc t)"
  unfolding forget_state_def by (cases "ts_publish svc") (auto intro!: asks_intros)

lemma delete_project_after: "only_after deletes_any_connector listed_unused (delete_project svc p t)"
  unfolding delete_project_def
  by (intro after_try after_bind after_case_option delete_connector_after; intro after_none asks_intros)
    (simp_all add: deletes_any_connector_def)

lemma cleanup_each_after:
  assumes "\<And>n. n \<notin> referenced \<Longrightarrow> A (DeleteConnector n)" "\<And>s. A (ListAds s)" "\<And>n. A (DeleteAd n)"
  shows "asks_only A (cleanup_each referenced cs deleted)"
proof (induction cs arbitrary: deleted)
  case (Cons c cs)
  then show ?case
    using assms unfolding cleanup_each.simps delete_connector_ads_def
    by (cases "cn_name c") (auto intro!: asks_intros)
qed (simp add: asks_return)

lemma referenced_uses: "n \<notin> referenced_connectors ps \<Longrightarrow> \<not> list_ex (uses_connector n) ps"
  by (force simp: referenced_connectors_def List.map_filter_def list_ex_iff uses_connector_def)

lemma cleanup_after: "only_after deletes_any_connector listed_unused (cleanup_orphaned_connectors_project p)"
  unfolding cleanup_orphaned_connectors_project_def
proof (rule after_try)
  show "only_after deletes_any_connector listed_unused (control_plane p)"
    by (intro after_none asks_intros) (simp add: deletes_any_connector_def)
next
  show "only_after deletes_any_connector listed_unused
      (try_bind (asking ''Failed to list HTTPProxy objects'' as_proxies ListProxies) (\<lambda>proxies.
       try_bind (asking ''Failed to list Connector objects'' as_connectors (ListConnectors None)) (\<lambda>connectors. do {
         deleted \<leftarrow> cleanup_each (referenced_connectors proxies) connectors [];
         State_Monad.return (Inr deleted)
       })))" for u :: unit
  proof (rule after_asking)
    fix ps r t assume "as_proxies r = Inr ps"
    then have r: "r = RProxies (Inr ps)" by (simp add: as_proxies_Inr)
    show "asks_only (\<lambda>p. deletes_any_connector p \<longrightarrow> listed_unused (Event t ListProxies (Some r)) p)
       (try_bind (asking ''Failed to list Connector objects'' as_connectors (ListConnectors None)) (\<lambda>connectors. do {
         deleted \<leftarrow> cleanup_each (referenced_connectors ps) connectors [];
         State_Monad.return (Inr deleted)
       }))"
      unfolding r by (intro asks_intros cleanup_each_after) (simp_all add: deletes_any_connector_def referenced_uses)
  qed (simp add: deletes_any_connector_def)
qed

text \<open>
  C11: a connector is deleted, with a tunnel or as an orphan, only after a list of the HTTPProxies in which
  none that stays uses it.
\<close>

theorem connectors_in_use_stay:
  "only_after deletes_any_connector listed_unused (delete_project svc p t) \<and>
   only_after deletes_any_connector listed_unused (cleanup_orphaned_connectors_project p)"
  using delete_project_after cleanup_after by blast

section \<open>Retargeting keeps the connector\<close>

fun touches_connector :: "kube_request \<Rightarrow> bool" where
  "touches_connector (ListConnectors _) = True"
| "touches_connector (CreateConnector _) = True"
| "touches_connector (PatchConnector _ _) = True"
| "touches_connector (PatchConnectorStatus _ _) = True"
| "touches_connector (DeleteConnector _) = True"
| "touches_connector (PatchProxy _ _) = True"
| "touches_connector _ = False"

text \<open>
  The proxy that was read has no connector, or the request is a patch that leaves its connector, its label
  and its hostnames.
\<close>

definition keeps_connector :: "str \<Rightarrow> http_proxy \<Rightarrow> kube_request \<Rightarrow> bool" where
  "keeps_connector t p q \<longleftrightarrow> proxy_connector_name p = None \<or>
     (\<exists>pt. q = PatchProxy t pt \<and> rules_connector (pp_rules pt) = proxy_connector_name p \<and>
        pp_annotation pt = (DISPLAY_NAME_ANNOTATION, proxy_label p t) \<and> pp_hostnames pt = the_list (hp_spec_hostnames p))"

fun read_proxy_keeps :: "(kube_request, kube_reply) event \<Rightarrow> kube_request \<Rightarrow> bool" where
  "read_proxy_keeps (Event _ (GetProxy t) (Some (RProxy (Inr p)))) q = keeps_connector t p q"
| "read_proxy_keeps _ _ = False"

lemma as_proxy_Inr: "as_proxy r = Inr p \<longleftrightarrow> r = RProxy (Inr p)"
  by (cases r) (auto simp: no_answer_def)

lemma as_ad_Inr: "as_ad r = Inr a \<longleftrightarrow> r = RAd (Inr a)"
  by (cases r) (auto simp: no_answer_def)

lemma asks_write_proxy [asks_intros]:
  "P (PatchProxy t (proxy_patch_for p l rules)) \<Longrightarrow> asks_only P (write_proxy m t p l rules)"
  unfolding write_proxy_def by (intro asks_intros)

lemma asks_write_ad [asks_intros]: "P (GetAd t) \<Longrightarrow> (\<And>spec. P (PatchAd t spec)) \<Longrightarrow> asks_only P (write_ad m t f)"
  unfolding write_ad_def by (intro asks_intros)

lemma asks_publish_details [asks_intros]:
  "P EndpointAddr \<Longrightarrow> (\<And>n d. P (PatchConnectorStatus n d)) \<Longrightarrow> asks_only P (publish_details n)"
  unfolding publish_details_def by (intro asks_intros)

lemma asks_ensure_connector [asks_intros]:
  assumes "P (ControlPlane p)" "P (ListConnectors (Some (ts_endpoint_id svc)))" "\<And>n a. P (PatchConnector n a)"
    "P EndpointAddr" "\<And>n d. P (PatchConnectorStatus n d)" "P ListClasses" "\<And>c. P (CreateConnector c)"
  shows "asks_only P (ensure_connector svc p)"
  unfolding ensure_connector_def resolve_connector_class_def by (intro asks_intros assms)

lemma asks_update_project:
  assumes "\<And>q. touches_connector q \<Longrightarrow> P q"
    "P (ControlPlane p)" "P EndpointAddr" "P ListClasses" "P (GetProxy t)" "P (GetAd t)" "\<And>s. P (PatchAd t s)" "\<And>s. P (SetProxyState s)"
  shows "asks_only P (update_project svc p t l e)"
  unfolding update_project_def Let_def by (intro asks_intros assms) simp_all

text \<open>
  C14: giving a tunnel another endpoint leaves its connector: no connector is looked up, made or changed,
  and the only patch of the HTTPProxy keeps the connector, the label and the hostnames that were just read.
  Only a proxy without any connector is updated in full.
\<close>

theorem retarget_keeps_the_connector:
  "only_after touches_connector read_proxy_keeps (retarget_project svc p t raw)"
proof (cases "parse_target (ts_url svc) (normalize_endpoint raw)")
  case (Inl e)
  then show ?thesis by (simp add: retarget_project_def after_none asks_return)
next
  case (Inr target)
  show ?thesis
    unfolding retarget_project_def Inr Let_def sum.case
  proof (rule after_try [OF _ after_asking])
    show "only_after touches_connector read_proxy_keeps (control_plane p)" by (intro after_none asks_intros) simp
    show "\<not> touches_connector (GetProxy t)" by simp
    fix u existing r ti assume "as_proxy r = Inr existing"
    then have r: "r = RProxy (Inr existing)" by (simp add: as_proxy_Inr)
    let ?P = "\<lambda>q. touches_connector q \<longrightarrow> read_proxy_keeps (Event ti (GetProxy t) (Some r)) q"
    let ?l = "proxy_label existing t" and ?e = "normalize_endpoint raw"
    show "asks_only ?P
      (case retarget_proxy_rules existing ?e (ts_exempt svc) of
         None \<Rightarrow> update_project svc p t ?l ?e
       | Some rules \<Rightarrow>
           try_bind (write_proxy ''Failed to update HTTPProxy endpoint'' t existing ?l rules) (\<lambda>_.
           try_bind (write_ad ''Failed to update ConnectorAdvertisement endpoint'' t
               (\<lambda>spec. retarget_advertisement_spec spec target)) (\<lambda>enabled. do {
             store_state svc (summary_of existing t ?l ?e enabled);
             State_Monad.return (Inr (summary_of existing t ?l ?e enabled))
           })))"
    proof (cases "proxy_connector_name existing")
      case None
      then show ?thesis by (simp add: retarget_proxy_rules_def asks_update_project r keeps_connector_def)
    next
      case (Some cn)
      have "keeps_connector t existing (PatchProxy t (proxy_patch_for existing ?l (desired_proxy_rules ?e cn m)))" for m
        using Some by (simp add: keeps_connector_def proxy_patch_for_def)
      with Some show ?thesis unfolding retarget_proxy_rules_def r
        by simp (intro asks_intros; simp)
    qed
  qed
qed

section \<open>Other people's policies\<close>

fun changes_waf :: "kube_request \<Rightarrow> bool" where
  "changes_waf (DeletePolicy WafPolicy _) = True"
| "changes_waf (ReplacePolicy WafPolicy _ _) = True"
| "changes_waf _ = False"

text \<open>The policy of that name was read, and is ours to delete, or is the old add-on's and is upgraded.\<close>

definition read_as_ours :: "(json \<Rightarrow> 'f option) \<Rightarrow> str \<Rightarrow> (kube_request, kube_reply) event \<Rightarrow> kube_request \<Rightarrow> bool" where
  "read_as_ours f64 t d q \<longleftrightarrow> (\<exists>n policy. request d = GetPolicy WafPolicy n \<and> reply d = Some (RPolicy (Inr policy)) \<and>
     (q = DeletePolicy WafPolicy n \<and> has_managed_by (dynamic_json policy) \<or>
      q = ReplacePolicy WafPolicy n (upgraded_waf_policy policy t) \<and>
        classify_existing_waf f64 (dynamic_json policy) t = LegacyWaf))"

lemma read_as_ours_simps [simp]:
  "read_as_ours f64 t (Event ti (GetPolicy WafPolicy n) (Some (RPolicy (Inr d)))) (DeletePolicy WafPolicy m) \<longleftrightarrow>
     m = n \<and> has_managed_by (dynamic_json d)"
  "read_as_ours f64 t (Event ti (GetPolicy WafPolicy n) (Some (RPolicy (Inr d)))) (ReplacePolicy WafPolicy m e) \<longleftrightarrow>
     m = n \<and> classify_existing_waf f64 (dynamic_json d) t = LegacyWaf \<and> e = upgraded_waf_policy d t"
  by (auto simp: read_as_ours_def)

lemma as_policy_Inr: "as_policy r = Inr p \<longleftrightarrow> r = RPolicy (Inr p)"
  by (cases r) (auto simp: no_answer_def)

lemma found_policy:
  "call_outcome (map_option (\<lambda>r. opt_found (as_policy r)) r) = Inr (Some d) \<longleftrightarrow> r = Some (RPolicy (Inr d))"
  by (cases r) (auto simp: call_outcome_def opt_found_def as_policy_Inr split: sum.splits kube_error.splits if_splits)

lemma delete_waf_after: "only_after changes_waf (read_as_ours f64 t) (delete_waf n)"
  unfolding delete_waf_def Let_def
proof (rule after_call)
  fix x :: "call_error + dynamic_object option" and r ti
  assume x: "x = call_outcome (map_option (\<lambda>r. opt_found (as_policy r)) r)"
  show "asks_only (\<lambda>p. changes_waf p \<longrightarrow> read_as_ours f64 t (Event ti (GetPolicy WafPolicy (waf_policy_name n)) r) p)
     (case x of
        Inr (Some policy) \<Rightarrow>
          if has_managed_by (dynamic_json policy)
          then try_bind (delete_policy WafPolicy (waf_policy_name n))
            (\<lambda>gone. State_Monad.return (Inr (only_if gone (waf_policy_name n), None)))
          else State_Monad.return (Inr (None, Some (waf_policy_name n)))
      | Inr None \<Rightarrow> State_Monad.return (Inr (None, None))
      | Inl e \<Rightarrow> State_Monad.return (if is_denied e then Inr (None, None)
          else Inl (''could not check WAF policy '' @ waf_policy_name n @ '' ('' @ show_call_error e @ '')'')))"
  proof (cases "\<exists>d. x = Inr (Some d)")
    case True
    then obtain d where d: "x = Inr (Some d)" by blast
    with x have "r = Some (RPolicy (Inr d))" by (metis found_policy)
    with d show ?thesis by (cases "has_managed_by (dynamic_json d)") (auto intro!: asks_intros)
  next
    case False
    then show ?thesis by (auto intro!: asks_intros split: sum.split option.split)
  qed
qed simp

lemma ensure_waf_after: "only_after changes_waf (read_as_ours f64 (eg_tunnel t)) (ensure_waf f64 t b)"
  unfolding ensure_waf_def
proof (rule after_call)
  fix x :: "call_error + dynamic_object option" and r ti
  assume x: "x = call_outcome (map_option (\<lambda>r. opt_found (as_policy r)) r)"
  let ?P = "\<lambda>p. changes_waf p \<longrightarrow> read_as_ours f64 (eg_tunnel t) (Event ti (GetPolicy WafPolicy (waf_policy_name (eg_tunnel t))) r) p"
  show "asks_only ?P (case x of
        Inl e \<Rightarrow> State_Monad.return (NotDone (show_call_error e))
      | Inr (Some existing) \<Rightarrow>
          (case classify_existing_waf f64 (dynamic_json existing) (eg_tunnel t) of
             ManagedWaf \<Rightarrow> State_Monad.return Kept
           | ForeignWaf \<Rightarrow> State_Monad.return Kept
           | LegacyWaf \<Rightarrow> do {
               r \<leftarrow> call as_policy (ReplacePolicy WafPolicy (waf_policy_name (eg_tunnel t)) (upgraded_waf_policy existing (eg_tunnel t)));
               State_Monad.return (upgrade_outcome r)
             })
      | Inr None \<Rightarrow> do {
          r \<leftarrow> call as_policy (CreatePolicy WafPolicy (new_waf_policy (eg_tunnel t) (eg_label t)));
          State_Monad.return (created_outcome r Created)
        })"
  proof (cases "\<exists>d. x = Inr (Some d)")
    case True
    then obtain d where d: "x = Inr (Some d)" by blast
    with x have r: "r = Some (RPolicy (Inr d))" by (metis found_policy)
    show ?thesis unfolding d r sum.case option.case
      by (cases "classify_existing_waf f64 (dynamic_json d) (eg_tunnel t)") (auto intro!: asks_intros)
  next
    case False
    then show ?thesis by (auto intro!: asks_intros split: sum.split option.split)
  qed
qed simp

text \<open>
  a WAF policy is deleted with its tunnel only if it was just read and carries the daemon's mark, and
  replaced only if it was just read as the untouched policy of an old add-on, by the upgrade of what was
  read.
\<close>

theorem foreign_policies_untouched:
  "only_after changes_waf (read_as_ours f64 t) (delete_project svc p t) \<and>
   only_after changes_waf (read_as_ours f64 (eg_tunnel g)) (ensure_edge_policies f64 g b)"
proof
  show "only_after changes_waf (read_as_ours f64 (eg_tunnel g)) (ensure_edge_policies f64 g b)"
    unfolding ensure_edge_policies_def ensure_request_timeout_def
    by (intro after_bind ensure_waf_after; intro after_none asks_intros)
      (auto intro!: asks_intros split: sum.split option.split)
  have "only_after changes_waf (read_as_ours f64 t) (remove_edge_policies t)"
    unfolding remove_edge_policies_def delete_edge_policies_def delete_timeout_def Let_def
    by (intro after_bind after_try after_case_prod delete_waf_after; (intro after_none)?)
      (auto intro!: asks_intros split: prod.split)
  then show "only_after changes_waf (read_as_ours f64 t) (delete_project svc p t)"
    unfolding delete_project_def delete_connector_if_unused_def
    by (intro after_try after_bind after_case_option; (assumption | intro after_none asks_intros; simp))
qed



section \<open>The default port\<close>

text \<open>
 an http endpoint on port 80 is refused as having no port, wherever an endpoint is given, although the port is
  written out: the URL parser keeps no port that is its scheme's own.
\<close>

theorem default_port_refused:
  assumes "reads_http_urls (ts_url svc)" "plain_host h"
  shows "create_project svc p l (h @ '':'' @ show_nat 80) = State_Monad.return (Inl (BadTarget MissingPort)) \<and>
    update_project svc p t l (h @ '':'' @ show_nat 80) = State_Monad.return (Inl (BadTarget MissingPort)) \<and>
    retarget_project svc p t (h @ '':'' @ show_nat 80) = State_Monad.return (Inl (BadTarget MissingPort))"
proof -
  have "parse_target (ts_url svc) (normalize_endpoint (h @ '':'' @ show_nat 80)) = Inl MissingPort"
    using parse_endpoint [OF assms, of 80] by simp
  then show ?thesis by (simp add: create_project_def update_project_def retarget_project_def Let_def)
qed

text \<open>A parser of such URLs, for the concrete cases.\<close>

definition sample_url :: url_parser where
  "sample_url s = (case strip_prefix ''http://'' s of None \<Rightarrow> None
     | Some r \<Rightarrow> (case rsplit_once (CHR '':'') r of None \<Rightarrow> None
         | Some (h, p) \<Rightarrow> (case parse_uint (2 ^ 16 - 1) p of None \<Rightarrow> None
             | Some n \<Rightarrow> Some (Some h, if n = 80 then None else Some n))))"

lemma sample_url_reads: "reads_http_urls sample_url"
  unfolding reads_http_urls_def
proof (intro allI impI)
  fix h n assume n: "n < (2::nat) ^ 16"
  have "strip_prefix ''http://'' (''http://'' @ h @ '':'' @ show_nat n) = Some (h @ '':'' @ show_nat n)"
    by (simp add: strip_prefix_Some)
  moreover have "list_all is_digit (show_nat n)" using show_nat_digits by auto
  then have "CHR '':'' \<notin> set (show_nat n)" by (auto simp: list_all_iff is_digit_def)
  then have "rsplit_once (CHR '':'') (h @ '':'' @ show_nat n) = Some (h, show_nat n)" by (simp add: rsplit_once_Some)
  ultimately show "sample_url (''http://'' @ h @ '':'' @ show_nat n) = Some (Some h, if n = 80 then None else Some n)"
    using n unfolding sample_url_def by (simp add: parse_show_nat del: strip_prefix.simps)
qed

definition sample_service :: tunnel_service where
  "sample_service = \<lparr>ts_publish = False, ts_create_tpps = False, ts_exempt = None, ts_edge = True,
     ts_endpoint_id = ''node'', ts_hostname = ''ha.local'', ts_os = ''linux'', ts_portal = ''portal'',
     ts_url = sample_url, ts_show = (\<lambda>e. case e of ApiError _ m \<Rightarrow> m | OtherError m \<Rightarrow> m)\<rparr>"

theorem default_port_refused_witness:
  "create_project sample_service ''p'' ''Home'' ''homeassistant:80'' = State_Monad.return (Inl (BadTarget MissingPort))"
proof -
  have "reads_http_urls (ts_url sample_service)" by (simp add: sample_service_def sample_url_reads)
  moreover have "plain_host ''homeassistant''" by code_simp
  moreover have "''homeassistant'' @ '':'' @ show_nat 80 = ''homeassistant:80''" by code_simp
  ultimately show ?thesis
    using default_port_refused [of sample_service "''homeassistant''" "''p''" "''Home''"] by metis
qed

section \<open>A quota check that never ends\<close>

definition quota_answer :: "kube_request \<Rightarrow> kube_reply" where
  "quota_answer q = RDone (Inl (ApiError 403 QUOTA_TIMEOUT))"

theorem quota_retries_are_bounded_witness:
  "case run_state (with_quota_check_retry (ask_as as_done (DeleteAd ''a''))) (answerer quota_answer) of
     (r, v) \<Rightarrow> r = Inl (ApiError 403 QUOTA_TIMEOUT) \<and> length (trace v) = 5 \<and> 15000 \<le> clock v"
proof -
  obtain r v where rv: "run_state (with_quota_check_retry (ask_as as_done (DeleteAd ''a''))) (answerer quota_answer) = (r, v)"
    by fastforce
  have t: "is_quota_check_timeout (ApiError 403 QUOTA_TIMEOUT)"
    by (simp add: is_quota_check_timeout_def has_sub_iff) (metis append_Nil append_Nil2)
  have g: "gives quota_answer (retry_after ds (ask_as as_done (DeleteAd ''a''))) (Inl (ApiError 403 QUOTA_TIMEOUT))" for ds
  proof (induction ds)
    case Nil
    show ?case by (auto intro!: gives_eq [OF gives_ask_as] simp: quota_answer_def)
  next
    case (Cons d ds)
    with t show ?case unfolding retry_after.simps
      by (auto intro!: gives_bind gives_sleep gives_eq [OF gives_ask_as] simp: quota_answer_def)
  qed
  have r: "r = Inl (ApiError 403 QUOTA_TIMEOUT)"
    using givesD [OF g [of retry_delays]] rv by (auto simp: with_quota_check_retry_def)
  from quota_retries_are_bounded [OF rv] obtain es and rs :: "kube_reply list" where e:
    "trace v = trace (answerer quota_answer) @ es" "map request es = replicate (length rs) (DeleteAd ''a'')"
    "timed_out r \<longrightarrow> length rs = 5"
    "clock (answerer quota_answer) + sum_list (take (length rs - 1) [1000, 2000, 4000, 8000]) \<le> clock v"
    by blast
  from e(3) t r have n: "length rs = 5" by simp
  from e(2) n have "length es = 5" by (metis length_map length_replicate)
  with e(1) have "length (trace v) = 5" by (simp add: answerer_def)
  moreover from e(4) n have "15000 \<le> clock v" by (simp add: answerer_def)
  ultimately show ?thesis using rv r by simp
qed

end
