(* ===== verification/Api_Server.thy ===== *)
theory Api_Server
  imports Tunnels_Facts
begin

text \<open>
  What the tunnel service relies on of Datum's API, as a locale of its documented promises, and a
  weakest-precondition calculus for computations against a server: \<open>wp serve m Q s\<close>. In the locale: what each
  step of a tunnel operation comes to against such a server.
\<close>

section \<open>Against a server\<close>

text \<open>
  A world whose environment is a server: every reply, and the server's next state, is a function \<open>serve\<close> of its state
  and the request, and takes a millisecond. \<open>wp serve m Q s\<close>: begun when the server is in state \<open>s\<close>, the computation ends
  with a result and a server that satisfy \<open>Q\<close>.
\<close>

type_synonym 's server = "'s \<Rightarrow> kube_request \<Rightarrow> 's \<times> kube_reply"

definition replay :: "'s server \<Rightarrow> (kube_request, kube_reply) event list \<Rightarrow> 's \<Rightarrow> 's" where
  "replay serve es s = fold (\<lambda>e s. fst (serve s (request e))) es s"

definition on_server :: "'s server \<Rightarrow> 's \<Rightarrow> (kube_request, kube_reply) world \<Rightarrow> bool" where
  "on_server serve s w \<longleftrightarrow> (\<exists>s0. environment w = (\<lambda>t es q. (snd (serve (replay serve es s0) q), 1)) \<and> replay serve (trace w) s0 = s)"

definition wp :: "'s server \<Rightarrow> 'a tunnels \<Rightarrow> ('a \<Rightarrow> 's \<Rightarrow> bool) \<Rightarrow> 's \<Rightarrow> bool" where
  "wp serve m Q s \<longleftrightarrow> (\<forall>w. on_server serve s w \<longrightarrow> (\<exists>x v s'. run_state m w = (x, v) \<and> on_server serve s' v \<and> Q x s'))"

lemma replay_snoc [simp]: "replay serve (es @ [e]) s = fst (serve (replay serve es s) (request e))"
  by (simp add: replay_def)

lemma wp_return: "Q x s \<Longrightarrow> wp serve (State_Monad.return x) Q s"
  by (auto simp: wp_def)

lemma wp_bind: "wp serve m (\<lambda>x. wp serve (f x) Q) s \<Longrightarrow> wp serve (State_Monad.bind m f) Q s"
  unfolding wp_def by fastforce

lemma wp_mono: "wp serve m Q s \<Longrightarrow> (\<And>x s'. Q x s' \<Longrightarrow> R x s') \<Longrightarrow> wp serve m R s"
  unfolding wp_def by blast

lemma wp_skip: "Q () s \<Longrightarrow> wp serve skip Q s"
  by (auto simp: wp_def)

lemma wp_try:
  "wp serve m (\<lambda>r s'. case r of Inl e \<Rightarrow> Q (Inl e) s' | Inr x \<Rightarrow> wp serve (f x) Q s') s \<Longrightarrow> wp serve (try_bind m f) Q s"
  unfolding try_bind_def
  by (rule wp_bind, erule wp_mono) (auto split: sum.split intro: wp_return)

lemma on_server_next:
  assumes "on_server serve s w" "serve s q = (s', r)"
  shows "environment w (clock w) (trace w) q = (r, 1)"
    "on_server serve s' (w\<lparr>clock := c, trace := trace w @ [Event t q x]\<rparr>)"
proof -
  from assms(1) obtain s0 where s0: "environment w = (\<lambda>t es q. (snd (serve (replay serve es s0) q), 1))" "replay serve (trace w) s0 = s"
    by (auto simp: on_server_def)
  with assms(2) show "environment w (clock w) (trace w) q = (r, 1)" by simp
  from s0 assms(2) show "on_server serve s' (w\<lparr>clock := c, trace := trace w @ [Event t q x]\<rparr>)"
    unfolding on_server_def by (intro exI [of _ s0]) simp
qed

lemma wp_ask: "serve s q = (s', r) \<Longrightarrow> Q (f r) s' \<Longrightarrow> wp serve (ask_as f q) Q s"
  unfolding wp_def ask_as_def ask_def
proof (intro allI impI)
  fix w assume a: "serve s q = (s', r)" "Q (f r) s'" and w: "on_server serve s w"
  note n = on_server_next [OF w a(1)]
  show "\<exists>x v s'. run_state (State_Monad.bind (State (\<lambda>w. let (r, d) = environment w (clock w) (trace w) q
      in (r, w\<lparr>clock := clock w + d, trace := trace w @ [Event (clock w) q (Some r)]\<rparr>))) (\<lambda>r. State_Monad.return (f r))) w = (x, v) \<and>
      on_server serve s' v \<and> Q x s'"
    using n a(2) by auto
qed

lemma wp_ask_within: "serve s q = (s', r) \<Longrightarrow> 1 \<le> l \<Longrightarrow> Q (Some (f r)) s' \<Longrightarrow> wp serve (ask_within_as f l q) Q s"
  unfolding wp_def ask_within_as_def ask_within_def
proof (intro allI impI)
  fix w assume a: "serve s q = (s', r)" "1 \<le> l" "Q (Some (f r)) s'" and w: "on_server serve s w"
  note n = on_server_next [OF w a(1)]
  show "\<exists>x v s'. run_state (State_Monad.bind (State (\<lambda>w. let (r, d) = environment w (clock w) (trace w) q
     in if d \<le> l
        then (Some r, w\<lparr>clock := clock w + d, trace := trace w @ [Event (clock w) q (Some r)]\<rparr>)
        else (None, w\<lparr>clock := clock w + l, trace := trace w @ [Event (clock w) q None]\<rparr>)))
       (\<lambda>r. State_Monad.return (map_option f r))) w = (x, v) \<and> on_server serve s' v \<and> Q x s'"
    using n a(2,3) by auto
qed

lemma wp_signal: "serve s q = (s', r) \<Longrightarrow> Q () s' \<Longrightarrow> wp serve (signal q) Q s"
  unfolding wp_def
proof (intro allI impI)
  fix w assume a: "serve s q = (s', r)" "Q () s'" and w: "on_server serve s w"
  have "on_server serve s' (w\<lparr>clock := clock w, trace := trace w @ [Event (clock w) q None]\<rparr>)"
    by (rule on_server_next(2) [OF w a(1)])
  then show "\<exists>x v s'. run_state (signal q) w = (x, v) \<and> on_server serve s' v \<and> Q x s'" using a(2) by auto
qed

lemma wp_asking: "serve s q = (s', r) \<Longrightarrow> f r = Inr x \<Longrightarrow> Q (Inr x) s' \<Longrightarrow> wp serve (asking m f q) Q s"
  unfolding asking_def by (erule wp_ask) (simp add: context_err_def)

lemma wp_asking_opt: "serve s q = (s', r) \<Longrightarrow> opt_found (f r) = Inr x \<Longrightarrow> Q (Inr x) s' \<Longrightarrow> wp serve (asking_opt m f q) Q s"
  unfolding asking_opt_def by (erule wp_ask) (simp add: context_err_def)

lemma wp_call: "serve s q = (s', r) \<Longrightarrow> Q (call_outcome (Some (f r))) s' \<Longrightarrow> wp serve (call f q) Q s"
  unfolding call_def by (rule wp_bind, erule wp_ask_within) (simp_all add: CALL_TIMEOUT_def wp_return)

lemma wp_retry: "wp serve f (\<lambda>r s'. (\<exists>x. r = Inr x) \<and> Q r s') s \<Longrightarrow> wp serve (with_quota_check_retry f) Q s"
  unfolding with_quota_check_retry_def retry_delays_def retry_after.simps
  by (rule wp_bind, erule wp_mono) (auto intro: wp_return)

section \<open>What the API promises\<close>

text \<open>Every tunnel's connector is there, and its advertisement names the same one.\<close>

definition tidy :: "('s \<Rightarrow> str \<Rightarrow> http_proxy option) \<Rightarrow> ('s \<Rightarrow> str \<Rightarrow> advertisement option) \<Rightarrow>
    ('s \<Rightarrow> str \<Rightarrow> connector option) \<Rightarrow> 's \<Rightarrow> bool" where
  "tidy proxy ad conn s \<longleftrightarrow>
     (\<forall>t p. proxy s t = Some p \<longrightarrow> \<not> hp_deleting p \<and> (\<forall>c. proxy_connector_name p = Some c \<longrightarrow> conn s c \<noteq> None)) \<and>
     (\<forall>t a. ad s t = Some a \<longrightarrow> (\<exists>p. proxy s t = Some p \<and> proxy_connector_name p = Some (ad_connector (ad_body a))))"

definition found :: "'a option \<Rightarrow> kube_error + 'a" where
  "found x = (case x of Some y \<Rightarrow> Inr y | None \<Rightarrow> Inl (ApiError 404 ''not found''))"

lemma opt_found_found [simp]: "opt_found (found x) = Inr x"
  by (simp add: opt_found_def found_def is_not_found_def split: option.split)

text \<open>A merge patch of an HTTPProxy sets what it names and keeps the rest.\<close>

definition is_patched :: "proxy_patch \<Rightarrow> http_proxy \<Rightarrow> http_proxy \<Rightarrow> bool" where
  "is_patched pt p q \<longleftrightarrow> hp_rules q = pp_rules pt \<and> hp_name q = hp_name p \<and> hp_deleting q = hp_deleting p \<and>
     annotation (hp_annotations q) (fst (pp_annotation pt)) = Some (snd (pp_annotation pt))"

fun is_local :: "kube_request \<Rightarrow> bool" where
  "is_local (ControlPlane _) = True"
| "is_local (SetProxy _) = True"
| "is_local (SetProxyState _) = True"
| "is_local (RemoveProxy _) = True"
| "is_local (RemoveProxyState _) = True"
| "is_local (DeleteTunnelDir _ _) = True"
| "is_local (SpawnEdge _ _) = True"
| "is_local _ = False"

text \<open>
  The server's proxies, advertisements, connectors, typed policies and edge policies, by name. An object is read
  under its name until it is deleted; a generated name is new; a list gives every object, or those with the selected
  value; a change of one object leaves the others. What the node and the disk do is not the server's.
\<close>

locale api_server =
  fixes serve :: "'s server"
    and proxy :: "'s \<Rightarrow> str \<Rightarrow> http_proxy option"
    and ad :: "'s \<Rightarrow> str \<Rightarrow> advertisement option"
    and conn :: "'s \<Rightarrow> str \<Rightarrow> connector option"
    and tpp :: "'s \<Rightarrow> str \<Rightarrow> bool"
    and policy :: "'s \<Rightarrow> policy_kind \<Rightarrow> str \<Rightarrow> dynamic_object option"
  assumes local: "is_local q \<Longrightarrow> serve s q = (s, RLocal (Inr ()))"
    and get_proxy: "serve s (GetProxy n) = (s, RProxy (found (proxy s n)))"
    and list_proxies: "\<exists>ps. serve s ListProxies = (s, RProxies (Inr ps)) \<and> set ps = ran (proxy s)"
    and create_proxy: "\<exists>s' n p. serve s (CreateProxy np) = (s', RProxy (Inr p)) \<and> proxy s n = None \<and> hp_name p = Some n \<and>
      hp_rules p = np_rules np \<and> \<not> hp_deleting p \<and> hp_annotations p = Some (np_annotations np) \<and>
      proxy s' = (proxy s)(n \<mapsto> p) \<and> ad s' = ad s \<and> conn s' = conn s"
    and patch_proxy: "proxy s n = Some p \<Longrightarrow> \<exists>s' q. serve s (PatchProxy n pt) = (s', RProxy (Inr q)) \<and> is_patched pt p q \<and>
      proxy s' = (proxy s)(n \<mapsto> q) \<and> ad s' = ad s \<and> conn s' = conn s"
    and delete_proxy: "proxy s n = Some p \<Longrightarrow> \<exists>s'. serve s (DeleteProxy n) = (s', RDone (Inr ())) \<and>
      proxy s' = (proxy s)(n := None) \<and> ad s' = ad s \<and> conn s' = conn s"
    and get_ad: "serve s (GetAd n) = (s, RAd (found (ad s n)))"
    and list_ads: "\<exists>ads. serve s (ListAds (Some sel)) = (s, RAds (Inr ads)) \<and> set ads = {x \<in> ran (ad s). ad_connector (ad_body x) = sel}"
    and create_ad: "ad s n = None \<Longrightarrow> \<exists>s' a. serve s (CreateAd n spec) = (s', RAd (Inr a)) \<and> ad_body a = spec \<and>
      ad s' = (ad s)(n \<mapsto> a) \<and> proxy s' = proxy s \<and> conn s' = conn s"
    and patch_ad: "ad s n = Some a \<Longrightarrow> \<exists>s' b. serve s (PatchAd n spec) = (s', RAd (Inr b)) \<and> ad_body b = spec \<and>
      ad s' = (ad s)(n \<mapsto> b) \<and> proxy s' = proxy s \<and> conn s' = conn s"
    and delete_ad: "ad s n = Some a \<Longrightarrow> \<exists>s'. serve s (DeleteAd n) = (s', RDone (Inr ())) \<and>
      ad s' = (ad s)(n := None) \<and> proxy s' = proxy s \<and> conn s' = conn s"
    and get_conn: "serve s (GetConnector n) = (s, RConnector (found (conn s n)))"
    and own_conns: "\<exists>cs. serve s (ListConnectors (Some e)) = (s, RConnectors (Inr cs)) \<and> set cs \<subseteq> ran (conn s)"
    and create_conn: "\<exists>s' n c. serve s (CreateConnector nc) = (s', RConnector (Inr c)) \<and> conn s n = None \<and> cn_name c = Some n \<and>
      conn s' = (conn s)(n \<mapsto> c) \<and> proxy s' = proxy s \<and> ad s' = ad s"
    and patch_conn: "conn s n = Some c \<Longrightarrow> \<exists>s' d. serve s (PatchConnector n anns) = (s', RConnector (Inr d)) \<and> cn_name d = cn_name c \<and>
      conn s' = (conn s)(n \<mapsto> d) \<and> proxy s' = proxy s \<and> ad s' = ad s"
    and patch_status: "\<exists>s' r. serve s (PatchConnectorStatus n d) = (s', RDone r) \<and> proxy s' = proxy s \<and> ad s' = ad s \<and> conn s' = conn s"
    and delete_conn: "conn s n = Some c \<Longrightarrow> \<exists>s'. serve s (DeleteConnector n) = (s', RDone (Inr ())) \<and>
      conn s' = (conn s)(n := None) \<and> proxy s' = proxy s \<and> ad s' = ad s"
    and conn_named: "conn s n = Some c \<Longrightarrow> cn_name c = Some n"
    and classes: "\<exists>r. serve s ListClasses = (s, RClasses r)"
    and endpoint: "\<exists>a. serve s EndpointAddr = (s, RAddr a)"
    and get_tpp: "serve s (GetTpp n) = (s, RDone (found (if tpp s n then Some () else None)))"
    and create_tpp: "\<exists>s'. serve s (CreateTpp tp) = (s', RDone (Inr ())) \<and> proxy s' = proxy s \<and> ad s' = ad s \<and> conn s' = conn s"
    and delete_tpp: "tpp s n \<Longrightarrow> \<exists>s'. serve s (DeleteTpp n) = (s', RDone (Inr ())) \<and> proxy s' = proxy s \<and> ad s' = ad s \<and> conn s' = conn s"
    and get_policy: "serve s (GetPolicy k n) = (s, RPolicy (found (policy s k n)))"
    and delete_policy: "policy s k n = Some dy \<Longrightarrow> \<exists>s'. serve s (DeletePolicy k n) = (s', RDone (Inr ())) \<and>
      proxy s' = proxy s \<and> ad s' = ad s \<and> conn s' = conn s"
begin

lemmas here = wp_ask [of serve] and here_asking = wp_asking [of serve] and here_opt = wp_asking_opt [of serve]
  and here_call = wp_call [of serve] and here_signal = wp_signal [of serve]

lemma control: "Q (Inr ()) s \<Longrightarrow> wp serve (control_plane p) Q s"
  unfolding control_plane_def by (rule here [OF local]) auto

lemma local_call: "is_local q \<Longrightarrow> Q (f (RLocal (Inr ()))) s \<Longrightarrow> wp serve (ask_as f q) Q s"
  by (rule here [OF local])

lemma publish:
  assumes "\<And>s'. proxy s' = proxy s \<Longrightarrow> ad s' = ad s \<Longrightarrow> conn s' = conn s \<Longrightarrow> Q () s'"
  shows "wp serve (publish_details n) Q s"
proof -
  obtain a where a: "serve s EndpointAddr = (s, RAddr a)" using endpoint by blast
  show ?thesis
  proof (cases "build_connection_details a")
    case None
    with assms show ?thesis unfolding publish_details_def
      by (intro wp_bind here [OF a]) (auto intro: wp_skip)
  next
    case (Some d)
    obtain s' r where s': "serve s (PatchConnectorStatus n d) = (s', RDone r)" "proxy s' = proxy s" "ad s' = ad s" "conn s' = conn s"
      using patch_status by blast
    have "wp serve (do { _ \<leftarrow> ask_as as_done (PatchConnectorStatus n d); skip }) Q s"
      by (intro wp_bind here [OF s'(1)] wp_skip assms s')
    with Some show ?thesis unfolding publish_details_def by (intro wp_bind here [OF a]) simp
  qed
qed

lemma named: "conn s n = Some c \<Longrightarrow> connector_name_any c = n"
  by (simp add: connector_name_any_def name_any_def conn_named)

lemma device_patch:
  assumes "conn s n = Some c"
    "\<And>d s'. proxy s' = proxy s \<Longrightarrow> ad s' = ad s \<Longrightarrow> dom (conn s') = dom (conn s) \<Longrightarrow> conn s' n = Some d \<Longrightarrow> Q d s'"
  shows "wp serve (patch_device_annotations svc c) Q s"
proof (cases "needs_device_patch (device_annotations svc) c")
  case True
  obtain s' d where s': "serve s (PatchConnector n (device_annotations svc)) = (s', RConnector (Inr d))" "conn s' = (conn s)(n \<mapsto> d)"
    "proxy s' = proxy s" "ad s' = ad s"
    using patch_conn [OF assms(1)] by blast
  have "Q d s'" using s' assms(1) by (intro assms(2)) auto
  with True named [OF assms(1)] show ?thesis unfolding patch_device_annotations_def
    by simp (intro wp_bind here [OF s'(1)] wp_return; simp)
next
  case False
  with assms show ?thesis unfolding patch_device_annotations_def by (simp add: wp_return)
qed

definition no_own :: "tunnel_service \<Rightarrow> 's \<Rightarrow> bool" where
  "no_own svc s \<longleftrightarrow> serve s (ListConnectors (Some (ts_endpoint_id svc))) = (s, RConnectors (Inr []))"

lemma finding:
  assumes "Q (Inr None) s"
    "\<And>c s'. proxy s' = proxy s \<Longrightarrow> ad s' = ad s \<Longrightarrow> dom (conn s') = dom (conn s) \<Longrightarrow> conn s' (connector_name_any c) = Some c \<Longrightarrow>
      \<not> no_own svc s \<Longrightarrow> Q (Inr (Some c)) s'"
  shows "wp serve (find_connector svc p) Q s"
proof -
  obtain cs where cs: "serve s (ListConnectors (Some (ts_endpoint_id svc))) = (s, RConnectors (Inr cs))" "set cs \<subseteq> ran (conn s)"
    using own_conns by blast
  have "wp serve (case cs of [] \<Rightarrow> State_Monad.return (Inr None)
      | c # _ \<Rightarrow> do { c' \<leftarrow> patch_device_annotations svc c; State_Monad.return (Inr (Some c')) }) Q s"
  proof (cases cs)
    case Nil
    with assms(1) show ?thesis by (simp add: wp_return)
  next
    case (Cons c ds)
    with cs(2) obtain n where n: "conn s n = Some c" by (auto simp: ran_def)
    show ?thesis unfolding Cons list.case
      by (intro wp_bind device_patch [OF n] wp_return assms(2)) (simp_all add: named no_own_def cs(1) Cons)
  qed
  then show ?thesis unfolding find_connector_def
    by (intro wp_try control) (simp, intro wp_bind here [OF cs(1)], simp)
qed

lemma ensuring:
  assumes "\<And>c s'. proxy s' = proxy s \<Longrightarrow> ad s' = ad s \<Longrightarrow> dom (conn s) \<subseteq> dom (conn s') \<Longrightarrow>
    conn s' (connector_name_any c) = Some c \<Longrightarrow> (no_own svc s \<Longrightarrow> conn s (connector_name_any c) = None) \<Longrightarrow> Q (Inr c) s'"
  shows "wp serve (ensure_connector svc p) Q s"
proof -
  have reuse: "wp serve (do { publish_details (connector_name_any c); State_Monad.return (Inr c) }) Q s'"
    if "proxy s' = proxy s" "ad s' = ad s" "dom (conn s) \<subseteq> dom (conn s')" "conn s' (connector_name_any c) = Some c"
      "no_own svc s \<Longrightarrow> conn s (connector_name_any c) = None" for c s'
    using that by (intro wp_bind publish wp_return assms) auto
  have new: "wp serve (do {
        class_name \<leftarrow> resolve_connector_class;
        r \<leftarrow> with_quota_check_retry (ask_as as_connector (CreateConnector \<lparr>nc_generate_name = ''datum-connect-'',
               nc_annotations = device_annotations svc, nc_class = class_name\<rparr>));
        (case r of
           Inl e \<Rightarrow> State_Monad.return (Inl (Context ''Failed to create Connector'' e))
         | Inr c \<Rightarrow> do { publish_details (connector_name_any c); State_Monad.return (Inr c) }) }) Q s"
  proof -
    obtain r where r: "serve s ListClasses = (s, RClasses r)" using classes by blast
    have create: "wp serve (with_quota_check_retry (ask_as as_connector (CreateConnector nc)))
        (\<lambda>r u. wp serve (case r of Inl e \<Rightarrow> State_Monad.return (Inl (Context ''Failed to create Connector'' e))
           | Inr c \<Rightarrow> do { publish_details (connector_name_any c); State_Monad.return (Inr c) }) Q u) s" for nc
    proof -
      obtain u n c where u: "serve s (CreateConnector nc) = (u, RConnector (Inr c))" "cn_name c = Some n" "conn u = (conn s)(n \<mapsto> c)"
        "proxy u = proxy s" "ad u = ad s" "conn s n = None"
        using create_conn by blast
      have "connector_name_any c = n" using u(2) by (simp add: connector_name_any_def name_any_def)
      with u have "wp serve (do { publish_details (connector_name_any c); State_Monad.return (Inr c) }) Q u"
        by (intro reuse) auto
      then show ?thesis by (intro wp_retry here [OF u(1)]) simp
    qed
    show ?thesis unfolding resolve_connector_class_def
      by (intro wp_bind here [OF r] wp_return create)
  qed
  show ?thesis unfolding ensure_connector_def
    by (intro wp_try control) (simp, intro wp_try finding; auto intro: new reuse)
qed

end



context api_server begin

lemma ad_read: "Q (Inr (ad s t)) s \<Longrightarrow> wp serve (asking_opt m as_ad (GetAd t)) Q s"
  by (rule here_opt [OF get_ad]) simp_all

lemma tpp_read: "Q (Inr (if tpp s t then Some () else None)) s \<Longrightarrow> wp serve (asking_opt m as_done (GetTpp t)) Q s"
  by (rule here_opt [OF get_tpp]) simp_all

lemma conn_read: "Q (Inr (conn s n)) s \<Longrightarrow> wp serve (asking_opt m as_connector (GetConnector n)) Q s"
  by (rule here_opt [OF get_conn]) simp_all

lemma proxy_read_opt: "Q (Inr (proxy s t)) s \<Longrightarrow> wp serve (asking_opt m as_proxy (GetProxy t)) Q s"
  by (rule here_opt [OF get_proxy]) simp_all

lemma proxy_read: "proxy s t = Some p \<Longrightarrow> Q (Inr p) s \<Longrightarrow> wp serve (asking m as_proxy (GetProxy t)) Q s"
  by (rule here_asking [OF get_proxy]) (simp_all add: found_def)

lemma policy_read: "Q (Inr (policy s k n)) s \<Longrightarrow> wp serve (call (\<lambda>r. opt_found (as_policy r)) (GetPolicy k n)) Q s"
  by (rule here_call [OF get_policy]) (simp add: call_outcome_def)

lemma write_proxy:
  assumes p: "proxy s t = Some p" and rules: "rules = desired_proxy_rules ep cn ex"
    and Q: "\<And>q s'. proxy s' = (proxy s)(t \<mapsto> q) \<Longrightarrow> ad s' = ad s \<Longrightarrow> conn s' = conn s \<Longrightarrow> hp_deleting q = hp_deleting p \<Longrightarrow>
      proxy_connector_name q = Some cn \<Longrightarrow> proxy_backend_endpoint q = Some ep \<Longrightarrow> proxy_label q t = l \<Longrightarrow> Q (Inr q) s'"
  shows "wp serve (write_proxy m t p l rules) Q s"
proof (cases "http_proxy_spec_matches p l rules")
  case True
  have "Q (Inr p) s" using spec_matchesD [of p l ep cn ex] True p by (intro Q) (auto simp: rules)
  with True show ?thesis unfolding write_proxy_def by (simp add: wp_return)
next
  case False
  obtain s' q where s': "serve s (PatchProxy t (proxy_patch_for p l rules)) = (s', RProxy (Inr q))"
    "is_patched (proxy_patch_for p l rules) p q" "proxy s' = (proxy s)(t \<mapsto> q)" "ad s' = ad s" "conn s' = conn s"
    using patch_proxy [OF p] by blast
  have "Q (Inr q) s'"
    using s' by (intro Q) (auto simp: is_patched_def proxy_patch_for_def rules proxy_connector_name_def proxy_backend_endpoint_def proxy_label_def)
  with False show ?thesis unfolding write_proxy_def by (simp add: here_asking [OF s'(1)])
qed

lemma write_ad:
  assumes "ad s t = None \<Longrightarrow> Q (Inr False) s"
    "\<And>a b s'. ad s t = Some a \<Longrightarrow> ad s' = (ad s)(t \<mapsto> b) \<Longrightarrow> ad_body b = f (ad_body a) \<Longrightarrow> proxy s' = proxy s \<Longrightarrow>
      conn s' = conn s \<Longrightarrow> Q (Inr True) s'"
  shows "wp serve (write_ad m t f) Q s"
proof (cases "ad s t")
  case None
  with assms(1) show ?thesis unfolding write_ad_def
    by (intro wp_try ad_read) (simp_all add: wp_return)
next
  case (Some a)
  show ?thesis
  proof (cases "advertisement_spec_matches a (f (ad_body a))")
    case True
    have "Q (Inr True) s" using Some True by (intro assms(2) [OF Some]) (auto simp: advertisement_spec_matches_def)
    with Some True show ?thesis unfolding write_ad_def
      by (intro wp_try ad_read) (simp_all add: wp_return)
  next
    case False
    obtain s' b where s': "serve s (PatchAd t (f (ad_body a))) = (s', RAd (Inr b))" "ad_body b = f (ad_body a)"
      "ad s' = (ad s)(t \<mapsto> b)" "proxy s' = proxy s" "conn s' = conn s"
      using patch_ad [OF Some] by blast
    have "wp serve (try_bind (asking m as_ad (PatchAd t (f (ad_body a)))) (\<lambda>_. State_Monad.return (Inr True))) Q s"
      by (intro wp_try here_asking [OF s'(1)]) (simp_all add: wp_return assms(2) [OF Some s'(3,2,4,5)])
    with Some False show ?thesis unfolding write_ad_def
      by (intro wp_try ad_read) simp_all
  qed
qed

lemma put_ad:
  assumes "\<And>b s'. ad s' = (ad s)(t \<mapsto> b) \<Longrightarrow> ad_body b = spec \<Longrightarrow> proxy s' = proxy s \<Longrightarrow> conn s' = conn s \<Longrightarrow> Q (Inr ()) s'"
  shows "wp serve (put_ad t spec) Q s"
proof (cases "ad s t")
  case None
  obtain s' a where s': "serve s (CreateAd t spec) = (s', RAd (Inr a))" "ad_body a = spec" "ad s' = (ad s)(t \<mapsto> a)"
    "proxy s' = proxy s" "conn s' = conn s"
    using create_ad [OF None] by blast
  have "wp serve (do { r \<leftarrow> with_quota_check_retry (ask_as as_ad (CreateAd t spec));
      State_Monad.return (context_err ''Failed to create ConnectorAdvertisement'' (map_sum id (\<lambda>_. ()) r)) }) Q s"
    by (intro wp_bind wp_retry here [OF s'(1)]) (simp add: wp_return context_err_def assms [OF s'(3,2,4,5)])
  with None show ?thesis unfolding put_ad_def
    by (intro wp_try ad_read) simp_all
next
  case (Some a)
  obtain s' b where s': "serve s (PatchAd t spec) = (s', RAd (Inr b))" "ad_body b = spec"
    "ad s' = (ad s)(t \<mapsto> b)" "proxy s' = proxy s" "conn s' = conn s"
    using patch_ad [OF Some] by blast
  have "wp serve (try_bind (asking m as_ad (PatchAd t spec)) (\<lambda>_. State_Monad.return (Inr ()))) Q s" for m
    by (intro wp_try here_asking [OF s'(1)]) (simp_all add: wp_return assms [OF s'(3,2,4,5)])
  with Some show ?thesis unfolding put_ad_def
    by (intro wp_try ad_read) simp_all
qed

lemma remove_ad:
  assumes "\<And>x s'. ad s' = (ad s)(t := None) \<Longrightarrow> proxy s' = proxy s \<Longrightarrow> conn s' = conn s \<Longrightarrow> Q (Inr x) s'"
  shows "wp serve (remove_ad t) Q s"
proof (cases "ad s t")
  case None
  then have "Q (Inr None) s" by (intro assms) auto
  with None show ?thesis unfolding remove_ad_def
    by (intro wp_try ad_read) (simp_all add: wp_return)
next
  case (Some a)
  obtain s' where s': "serve s (DeleteAd t) = (s', RDone (Inr ()))" "ad s' = (ad s)(t := None)" "proxy s' = proxy s" "conn s' = conn s"
    using delete_ad [OF Some] by blast
  have "wp serve (try_bind (asking m as_done (DeleteAd t)) (\<lambda>_. State_Monad.return (Inr (Some t)))) Q s" for m
    by (intro wp_try here_asking [OF s'(1)]) (simp_all add: wp_return assms [OF s'(2-4)])
  with Some show ?thesis unfolding remove_ad_def
    by (intro wp_try ad_read) simp_all
qed

lemma remove_proxy:
  assumes "proxy s t = e" "\<And>x s'. proxy s' = (proxy s)(t := None) \<Longrightarrow> ad s' = ad s \<Longrightarrow> conn s' = conn s \<Longrightarrow> Q (Inr x) s'"
  shows "wp serve (remove_proxy t e) Q s"
proof (cases e)
  case None
  then have "Q (Inr None) s" using assms(1) by (intro assms(2)) auto
  with None show ?thesis unfolding remove_proxy_def by (simp add: wp_return)
next
  case (Some p)
  obtain s' where s': "serve s (DeleteProxy t) = (s', RDone (Inr ()))" "proxy s' = (proxy s)(t := None)" "ad s' = ad s" "conn s' = conn s"
    using delete_proxy [of s t p] Some assms(1) by blast
  have "wp serve (try_bind (asking m as_done (DeleteProxy t)) (\<lambda>_. State_Monad.return (Inr (Some t)))) Q s" for m
    by (intro wp_try here_asking [OF s'(1)]) (simp_all add: wp_return assms(2) [OF s'(2-4)])
  with Some show ?thesis unfolding remove_proxy_def by simp
qed

lemma remove_tpp:
  assumes "\<And>x s'. proxy s' = proxy s \<Longrightarrow> ad s' = ad s \<Longrightarrow> conn s' = conn s \<Longrightarrow> Q (Inr x) s'"
  shows "wp serve (remove_tpp t) Q s"
proof (cases "tpp s t")
  case False
  with assms [of s] show ?thesis unfolding remove_tpp_def
    by (intro wp_try tpp_read) (simp_all add: wp_return)
next
  case True
  obtain s' where s': "serve s (DeleteTpp t) = (s', RDone (Inr ()))" "proxy s' = proxy s" "ad s' = ad s" "conn s' = conn s"
    using delete_tpp [OF True] by blast
  have "wp serve (try_bind (asking m as_done (DeleteTpp t)) (\<lambda>_. State_Monad.return (Inr (Some t)))) Q s" for m
    by (intro wp_try here_asking [OF s'(1)]) (simp_all add: wp_return assms [OF s'(2-4)])
  with True show ?thesis unfolding remove_tpp_def
    by (intro wp_try tpp_read) simp_all
qed

lemma drop_policy:
  assumes "policy s k n = Some d" "\<And>s'. proxy s' = proxy s \<Longrightarrow> ad s' = ad s \<Longrightarrow> conn s' = conn s \<Longrightarrow> Q (Inr True) s'"
  shows "wp serve (Kube_Calls.delete_policy k n) Q s"
proof -
  obtain s' where s': "serve s (DeletePolicy k n) = (s', RDone (Inr ()))" "proxy s' = proxy s" "ad s' = ad s" "conn s' = conn s"
    using delete_policy [OF assms(1)] by blast
  then show ?thesis unfolding Kube_Calls.delete_policy_def
    by (intro wp_bind here_call [OF s'(1)] wp_return) (simp add: call_outcome_def assms(2))
qed

lemma drop_waf:
  assumes "\<And>x s'. proxy s' = proxy s \<Longrightarrow> ad s' = ad s \<Longrightarrow> conn s' = conn s \<Longrightarrow> Q (Inr x) s'"
  shows "wp serve (delete_waf t) Q s"
  unfolding delete_waf_def Let_def
proof (rule wp_bind, rule policy_read)
  show "wp serve (case Inr (policy s WafPolicy (waf_policy_name t)) of
        Inr (Some policy) \<Rightarrow>
          if has_managed_by (dynamic_json policy)
          then try_bind (Kube_Calls.delete_policy WafPolicy (waf_policy_name t))
            (\<lambda>gone. State_Monad.return (Inr (only_if gone (waf_policy_name t), None)))
          else State_Monad.return (Inr (None, Some (waf_policy_name t)))
      | Inr None \<Rightarrow> State_Monad.return (Inr (None, None))
      | Inl e \<Rightarrow> State_Monad.return (if is_denied e then Inr (None, None)
          else Inl (''could not check WAF policy '' @ waf_policy_name t @ '' ('' @ show_call_error e @ '')''))) Q s"
  proof (cases "policy s WafPolicy (waf_policy_name t)")
    case None
    with assms [of s] show ?thesis by (simp add: wp_return)
  next
    case (Some d)
    have "wp serve (try_bind (Kube_Calls.delete_policy WafPolicy (waf_policy_name t))
            (\<lambda>gone. State_Monad.return (Inr (only_if gone (waf_policy_name t), None)))) Q s"
      by (intro wp_try drop_policy [OF Some]) (simp add: wp_return assms)
    with Some assms [of s] show ?thesis by (simp add: wp_return)
  qed
qed

lemma drop_timeout:
  assumes "\<And>x s'. proxy s' = proxy s \<Longrightarrow> ad s' = ad s \<Longrightarrow> conn s' = conn s \<Longrightarrow> Q (Inr x) s'"
  shows "wp serve (delete_timeout t) Q s"
proof (cases "policy s TimeoutPolicy (timeout_policy_name t)")
  case None
  with assms [of s] show ?thesis unfolding delete_timeout_def Let_def
    by (intro wp_bind policy_read) (simp add: wp_return)
next
  case (Some d)
  have "wp serve (try_bind (Kube_Calls.delete_policy TimeoutPolicy (timeout_policy_name t))
          (\<lambda>gone. State_Monad.return (Inr (only_if gone (timeout_policy_name t))))) Q s"
    by (intro wp_try drop_policy [OF Some]) (simp add: wp_return assms)
  with Some show ?thesis unfolding delete_timeout_def Let_def
    by (intro wp_bind policy_read) simp
qed

lemma drop_edge_policies:
  assumes "\<And>x s'. proxy s' = proxy s \<Longrightarrow> ad s' = ad s \<Longrightarrow> conn s' = conn s \<Longrightarrow> Q (Inr x) s'"
  shows "wp serve (remove_edge_policies t) Q s"
  unfolding remove_edge_policies_def delete_edge_policies_def
  by (intro wp_bind wp_try drop_waf) (auto intro!: wp_try drop_timeout wp_return assms split: prod.split)

lemma spawned: "Q () s \<Longrightarrow> wp serve (spawn_edge_policies svc p t l b rules) Q s"
  unfolding spawn_edge_policies_def
  by (auto intro!: wp_skip here_signal [OF local] split: option.split)

lemma stored: "Q () s \<Longrightarrow> wp serve (store_state svc sm) Q s"
  unfolding store_state_def
  by (auto intro!: wp_skip wp_bind local_call split: sum.split)

end

end
