(* ===== verification/Tunnel_Table.thy ===== *)
theory Tunnel_Table
  imports Api_Server
begin

text \<open>
  The abstract specification of the tunnel service: a table with a row for each tunnel, and what each operation is to
  do to it. In the locale of the API's promises, every operation of \<open>tunnels.rs\<close> is shown to do that to the
  table its HTTPProxies and advertisements stand for, and to keep the server tidy.
\<close>

section \<open>The table of tunnels\<close>

text \<open>What a person knows of the tunnels: a row for each, with its label, its endpoint, its connector, and whether it is on.\<close>

record tunnel_row =
  row_label :: str
  row_endpoint :: str
  row_connector :: "str option"
  row_on :: bool

definition row_of :: "str \<Rightarrow> http_proxy \<Rightarrow> bool \<Rightarrow> tunnel_row" where
  "row_of t p on = \<lparr>row_label = proxy_label p t, row_endpoint = proxy_endpoint p, row_connector = proxy_connector_name p, row_on = on\<rparr>"

definition table :: "('s \<Rightarrow> str \<Rightarrow> http_proxy option) \<Rightarrow> ('s \<Rightarrow> str \<Rightarrow> advertisement option) \<Rightarrow> 's \<Rightarrow> str \<Rightarrow> tunnel_row option" where
  "table proxy ad s t = map_option (\<lambda>p. row_of t p (ad s t \<noteq> None)) (proxy s t)"

datatype tunnel_op =
    CreateTunnel str str
  | UpdateTunnel str str str
  | RetargetTunnel str str
  | SetEnabled str bool
  | DeleteTunnel str

text \<open>What each operation is to do to the table.\<close>

fun table_step :: "tunnel_op \<Rightarrow> (str \<Rightarrow> tunnel_row option) \<Rightarrow> (str \<Rightarrow> tunnel_row option) \<Rightarrow> bool" where
  "table_step (CreateTunnel l raw) T T' = (\<exists>t cn. T t = None \<and>
     T' = T(t \<mapsto> \<lparr>row_label = l, row_endpoint = normalize_endpoint raw, row_connector = Some cn, row_on = True\<rparr>))"
| "table_step (UpdateTunnel t l raw) T T' = (\<exists>row cn. T t = Some row \<and>
     T' = T(t \<mapsto> row\<lparr>row_label := l, row_endpoint := normalize_endpoint raw, row_connector := Some cn\<rparr>))"
| "table_step (RetargetTunnel t raw) T T' = (\<exists>row cn. T t = Some row \<and> row_connector row \<in> {None, Some cn} \<and>
     T' = T(t \<mapsto> row\<lparr>row_endpoint := normalize_endpoint raw, row_connector := Some cn\<rparr>))"
| "table_step (SetEnabled t on) T T' = (\<exists>row cn. T t = Some row \<and>
     T' = T(t \<mapsto> row\<lparr>row_on := on, row_connector := (if on then Some cn else row_connector row)\<rparr>))"
| "table_step (DeleteTunnel t) T T' = (T' = T(t := None))"

definition just_do :: "(tunnel_error + 'a) tunnels \<Rightarrow> (tunnel_error + unit) tunnels" where
  "just_do m = try_bind m (\<lambda>_. State_Monad.return (Inr ()))"

fun run_op :: "tunnel_service \<Rightarrow> str \<Rightarrow> tunnel_op \<Rightarrow> (tunnel_error + unit) tunnels" where
  "run_op svc p (CreateTunnel l raw) = just_do (create_project svc p l raw)"
| "run_op svc p (UpdateTunnel t l raw) = just_do (update_project svc p t l raw)"
| "run_op svc p (RetargetTunnel t raw) = just_do (retarget_project svc p t raw)"
| "run_op svc p (SetEnabled t on) = just_do (set_enabled_project svc p t on)"
| "run_op svc p (DeleteTunnel t) = just_do (delete_project svc p t)"

text \<open>When an operation may be asked for: its tunnel is there, and its endpoint has a host and a port.\<close>

definition good_endpoint :: "url_parser \<Rightarrow> str \<Rightarrow> bool" where
  "good_endpoint url raw \<longleftrightarrow> (\<exists>t. parse_target url (normalize_endpoint raw) = Inr t) \<and>
     (\<exists>d. from_host_port_str (strip_scheme url (normalize_endpoint raw)) = Inr d)"

fun op_ready :: "url_parser \<Rightarrow> (str \<Rightarrow> tunnel_row option) \<Rightarrow> tunnel_op \<Rightarrow> bool" where
  "op_ready url T (CreateTunnel l raw) = good_endpoint url raw"
| "op_ready url T (UpdateTunnel t l raw) = (T t \<noteq> None \<and> good_endpoint url raw)"
| "op_ready url T (RetargetTunnel t raw) = (T t \<noteq> None \<and> good_endpoint url raw)"
| "op_ready url T (SetEnabled t on) = (case T t of None \<Rightarrow> False | Some row \<Rightarrow> on \<longrightarrow> good_endpoint url (row_endpoint row))"
| "op_ready url T (DeleteTunnel t) = True"

lemma normalize_idem [simp]: "normalize_endpoint (normalize_endpoint raw) = normalize_endpoint raw"
proof (cases "trim raw = []")
  case True
  then show ?thesis by (simp add: normalize_endpoint_def Let_def) (simp add: trim_def trim_start_def trim_end_with_def)
next
  case False
  show ?thesis
  proof (cases "has_sub ''://'' (trim raw)")
    case True
    with False show ?thesis by (simp add: normalize_endpoint_def Let_def)
  next
    case F: False
    let ?u = "''http://'' @ trim raw"
    have "\<not> is_whitespace (last (trim raw))" using False trimmed_trim [of raw] by (simp add: trimmed_def)
    then have "trimmed ?u" using False by (simp add: trimmed_def is_whitespace_def)
    then have "trim ?u = ?u" by (rule trim_trimmed)
    moreover have "has_sub ''://'' ?u" unfolding has_sub_iff by (intro exI [of _ "''http''"] exI [of _ "trim raw"]) simp
    moreover have "normalize_endpoint raw = ?u" using False F by (simp add: normalize_endpoint_def Let_def)
    ultimately show ?thesis by (simp add: normalize_endpoint_def Let_def)
  qed
qed

lemma proxy_endpoint_of: "proxy_backend_endpoint p = Some e \<Longrightarrow> proxy_endpoint p = normalize_endpoint e"
  by (simp add: proxy_endpoint_def)

lemma proxy_endpoint_normal [simp]: "normalize_endpoint (proxy_endpoint p) = proxy_endpoint p"
  by (simp add: proxy_endpoint_def)

section \<open>Keeping the server tidy\<close>

lemma tidyI:
  assumes "\<And>t p. proxy s t = Some p \<Longrightarrow> \<not> hp_deleting p"
    "\<And>t p c. proxy s t = Some p \<Longrightarrow> proxy_connector_name p = Some c \<Longrightarrow> c \<in> dom (conn s)"
    "\<And>t a. ad s t = Some a \<Longrightarrow> \<exists>p. proxy s t = Some p \<and> proxy_connector_name p = Some (ad_connector (ad_body a))"
  shows "tidy proxy ad conn s"
  using assms unfolding tidy_def by blast

lemma tidyD:
  assumes "tidy proxy ad conn s"
  shows "proxy s t = Some p \<Longrightarrow> \<not> hp_deleting p"
    "proxy s t = Some p \<Longrightarrow> proxy_connector_name p = Some c \<Longrightarrow> c \<in> dom (conn s)"
    "ad s t = Some a \<Longrightarrow> \<exists>p. proxy s t = Some p \<and> proxy_connector_name p = Some (ad_connector (ad_body a))"
  using assms unfolding tidy_def by blast+

lemma tidy_same:
  assumes "tidy proxy ad conn s" "proxy s' = proxy s" "ad s' = ad s" "dom (conn s) \<subseteq> dom (conn s')"
  shows "tidy proxy ad conn s'"
proof (rule tidyI)
  show "\<not> hp_deleting p" if "proxy s' u = Some p" for u p
    using that assms(2) tidyD(1) [OF assms(1)] by simp
  show "c \<in> dom (conn s')" if "proxy s' u = Some p" "proxy_connector_name p = Some c" for u p c
    using that assms(2,4) tidyD(2) [OF assms(1), of u p c] by auto
  show "\<exists>p. proxy s' u = Some p \<and> proxy_connector_name p = Some (ad_connector (ad_body b))" if "ad s' u = Some b" for u b
    using that assms(2,3) tidyD(3) [OF assms(1), of u b] by simp
qed

lemma tidy_write:
  assumes "tidy proxy ad conn s" "proxy s' = (proxy s)(t \<mapsto> q)" "\<not> hp_deleting q" "proxy_connector_name q = Some cn" "cn \<in> dom (conn s')"
    "dom (conn s) \<subseteq> dom (conn s')" "ad s' = (ad s)(t := a)" "\<And>b. a = Some b \<Longrightarrow> ad_connector (ad_body b) = cn"
  shows "tidy proxy ad conn s'"
proof (rule tidyI)
  show "\<not> hp_deleting p" if "proxy s' u = Some p" for u p
    using that assms(2,3) tidyD(1) [OF assms(1)] by (cases "u = t") auto
  show "c \<in> dom (conn s')" if "proxy s' u = Some p" "proxy_connector_name p = Some c" for u p c
  proof (cases "u = t")
    case True
    with that assms(2,4,5) show ?thesis by simp
  next
    case False
    with that assms(2) have "proxy s u = Some p" by simp
    from tidyD(2) [OF assms(1) this that(2)] assms(6) show ?thesis by blast
  qed
  show "\<exists>p. proxy s' u = Some p \<and> proxy_connector_name p = Some (ad_connector (ad_body b))" if "ad s' u = Some b" for u b
    using that assms(2,4,7,8) tidyD(3) [OF assms(1), of u b] by (cases "u = t") auto
qed

lemma tidy_off:
  assumes "tidy proxy ad conn s" "proxy s' = proxy s" "conn s' = conn s" "ad s' = (ad s)(t := None)"
  shows "tidy proxy ad conn s'"
proof (rule tidyI)
  show "\<exists>p. proxy s' u = Some p \<and> proxy_connector_name p = Some (ad_connector (ad_body b))" if "ad s' u = Some b" for u b
    using that assms(2,4) tidyD(3) [OF assms(1), of u b] by (cases "u = t") auto
qed (use tidyD [OF assms(1)] assms(2,3) in auto)

lemma tidy_drop:
  assumes "tidy proxy ad conn s" "proxy s' = (proxy s)(t := None)" "ad s' = (ad s)(t := None)"
    "\<And>u p c. proxy s' u = Some p \<Longrightarrow> proxy_connector_name p = Some c \<Longrightarrow> c \<in> dom (conn s')"
  shows "tidy proxy ad conn s'"
proof (rule tidyI)
  show "\<not> hp_deleting p" if "proxy s' u = Some p" for u p
    using that assms(2) tidyD(1) [OF assms(1)] by (cases "u = t") auto
  show "\<exists>p. proxy s' u = Some p \<and> proxy_connector_name p = Some (ad_connector (ad_body b))" if "ad s' u = Some b" for u b
    using that assms(2,3) tidyD(3) [OF assms(1), of u b] by (cases "u = t") auto
qed (use assms(4) in blast)

lemma table_cong: "proxy s' = proxy s \<Longrightarrow> ad s' = ad s \<Longrightarrow> table proxy ad s' = table proxy ad s"
  by (rule ext) (simp add: table_def)

lemma table_write:
  assumes "proxy s' = (proxy s)(t \<mapsto> q)" "ad s' = (ad s)(t := a)"
  shows "table proxy ad s' = (table proxy ad s)(t \<mapsto> row_of t q (a \<noteq> None))"
  by (rule ext) (simp add: table_def assms)

lemma table_off:
  assumes "proxy s' = proxy s" "ad s' = (ad s)(t := None)" "proxy s t = Some p"
  shows "table proxy ad s' = (table proxy ad s)(t \<mapsto> row_of t p False)"
  by (rule ext) (simp add: table_def assms)

lemma table_drop:
  assumes "proxy s' = (proxy s)(t := None)"
  shows "table proxy ad s' t = None" "t' \<noteq> t \<Longrightarrow> ad s' t' = ad s t' \<Longrightarrow> table proxy ad s' t' = table proxy ad s t'"
  by (simp_all add: table_def assms)



lemma row_of_parts:
  assumes "proxy_label q t = l" "proxy_backend_endpoint q = Some e" "proxy_connector_name q = Some cn"
  shows "row_of t q on = \<lparr>row_label = l, row_endpoint = normalize_endpoint e, row_connector = Some cn, row_on = on\<rparr>"
  using assms by (simp add: row_of_def proxy_endpoint_of)

lemma table_Some: "table proxy ad s t = Some row \<longleftrightarrow> (\<exists>p. proxy s t = Some p \<and> row = row_of t p (ad s t \<noteq> None))"
  by (auto simp: table_def)

lemma row_of_sel [simp]: "row_label (row_of t p on) = proxy_label p t" "row_endpoint (row_of t p on) = proxy_endpoint p"
  "row_connector (row_of t p on) = proxy_connector_name p" "row_on (row_of t p on) = on"
  by (simp_all add: row_of_def)

lemma ad_spec_connector [simp]: "ad_connector (advertisement_spec cn target) = cn"
  by (simp add: advertisement_spec_def)

lemma summary_of_connector: "ts_connector (summary_of p t l e on) = proxy_connector_name p"
  by (simp add: summary_of_def)

context api_server begin

abbreviation tidy_here :: "'s \<Rightarrow> bool" where "tidy_here \<equiv> tidy proxy ad conn"
abbreviation rows :: "'s \<Rightarrow> str \<Rightarrow> tunnel_row option" where "rows \<equiv> table proxy ad"

text \<open>The state after an operation: tidy, and the row of one tunnel is this one.\<close>

definition wrote :: "'s \<Rightarrow> str \<Rightarrow> str \<Rightarrow> str \<Rightarrow> str \<Rightarrow> bool \<Rightarrow> 's \<Rightarrow> bool" where
  "wrote s t l e cn on s' \<longleftrightarrow> tidy_here s' \<and>
     rows s' = (rows s)(t \<mapsto> \<lparr>row_label = l, row_endpoint = normalize_endpoint e, row_connector = Some cn, row_on = on\<rparr>)"

lemma wroteI:
  assumes "tidy_here s" "proxy s' = (proxy s)(t \<mapsto> q)" "\<not> hp_deleting q" "proxy_connector_name q = Some cn"
    "proxy_backend_endpoint q = Some e" "proxy_label q t = l" "cn \<in> dom (conn s')" "dom (conn s) \<subseteq> dom (conn s')"
    "ad s' = (ad s)(t := a)" "\<And>b. a = Some b \<Longrightarrow> ad_connector (ad_body b) = cn"
  shows "wrote s t l e cn (a \<noteq> None) s'"
  unfolding wrote_def table_write [OF assms(2,9)] row_of_parts [OF assms(6,5,4)]
  using tidy_write [OF assms(1-4,7-10)] by simp

text \<open>Writing the proxy, then the advertisement if there is one, from a state that differs only in its connectors.\<close>

lemma rewrite_tunnel:
  assumes tidy: "tidy_here s" and p: "proxy s t = Some p" and u: "proxy u = proxy s" "ad u = ad s" "dom (conn s) \<subseteq> dom (conn u)"
    and cn: "cn \<in> dom (conn u)" and f: "\<And>a. ad s t = Some a \<Longrightarrow> ad_connector (f (ad_body a)) = cn"
    and done1: "\<And>s'. wrote s t l e cn (ad s t \<noteq> None) s' \<Longrightarrow> wp serve (k (ad s t \<noteq> None)) Q s'"
  shows "wp serve (try_bind (write_proxy m t p l (desired_proxy_rules e cn ex)) (\<lambda>_. try_bind (write_ad m' t f) k)) Q u"
proof -
  have live: "\<not> hp_deleting p" by (rule tidyD(1) [OF tidy p])
  show ?thesis
  proof (rule wp_try, rule write_proxy [OF _ refl], unfold sum.case)
    show "proxy u t = Some p" using p u by simp
    fix q v assume v: "proxy v = (proxy u)(t \<mapsto> q)" "ad v = ad u" "conn v = conn u" "hp_deleting q = hp_deleting p"
      "proxy_connector_name q = Some cn" "proxy_backend_endpoint q = Some e" "proxy_label q t = l"
    show "wp serve (try_bind (write_ad m' t f) k) Q v"
    proof (rule wp_try, rule write_ad, unfold sum.case)
      assume none: "ad v t = None"
      have "wrote s t l e cn ((None :: advertisement option) \<noteq> None) v"
        using none u v cn live by (intro wroteI [OF tidy _ _ v(5-7)]) (auto simp: fun_upd_idem)
      with none u v have "wrote s t l e cn (ad s t \<noteq> None) v" "ad s t = None" by simp_all
      with done1 show "wp serve (k False) Q v" by fastforce
    next
      fix a b w assume w: "ad v t = Some a" "ad w = (ad v)(t \<mapsto> b)" "ad_body b = f (ad_body a)" "proxy w = proxy v" "conn w = conn v"
      have "wrote s t l e cn (Some b \<noteq> None) w"
        using w u v cn live f by (intro wroteI [OF tidy _ _ v(5-7)]) auto
      with w u v have "wrote s t l e cn (ad s t \<noteq> None) w" "ad s t \<noteq> None" by simp_all
      with done1 show "wp serve (k True) Q w" by fastforce
    qed
  qed
qed

lemma updating:
  assumes "tidy_here s" "proxy s t = Some p" "good_endpoint (ts_url svc) raw"
    and Q: "\<And>x s' cn. wrote s t l (normalize_endpoint raw) cn (ad s t \<noteq> None) s' \<Longrightarrow> Q (Inr x) s'"
  shows "wp serve (update_project svc pr t l raw) Q s"
proof -
  from assms(3) obtain target where t: "parse_target (ts_url svc) (normalize_endpoint raw) = Inr target"
    by (auto simp: good_endpoint_def)
  show ?thesis unfolding update_project_def Let_def t sum.case
  proof (rule wp_try, rule ensuring, unfold sum.case)
    fix c u assume u: "proxy u = proxy s" "ad u = ad s" "dom (conn s) \<subseteq> dom (conn u)" "conn u (connector_name_any c) = Some c"
    then have p: "proxy u t = Some p" using assms(2) by simp
    show "wp serve (try_bind (control_plane pr) (\<lambda>_.
        try_bind (asking ''Failed to fetch HTTPProxy'' as_proxy (GetProxy t)) (\<lambda>existing.
        try_bind (write_proxy ''Failed to update HTTPProxy'' t existing l
            (desired_proxy_rules (normalize_endpoint raw) (connector_name_any c) (ts_exempt svc))) (\<lambda>_.
        try_bind (write_ad ''Failed to update ConnectorAdvertisement'' t
            (\<lambda>_. advertisement_spec (connector_name_any c) target)) (\<lambda>enabled. do {
          store_state svc (summary_of existing t l (normalize_endpoint raw) enabled);
          State_Monad.return (Inr (summary_of existing t l (normalize_endpoint raw) enabled))
        }))))) Q u"
      by (intro wp_try control; unfold sum.case; intro wp_try proxy_read [OF p]; unfold sum.case;
          intro rewrite_tunnel [OF assms(1,2) u(1-3)] wp_bind stored wp_return Q)
        (use u(4) in auto)
  qed
qed

lemma retargeting:
  assumes "tidy_here s" "proxy s t = Some p" "good_endpoint (ts_url svc) raw"
    and Q: "\<And>x s' cn. proxy_connector_name p \<in> {None, Some cn} \<Longrightarrow>
      wrote s t (proxy_label p t) (normalize_endpoint raw) cn (ad s t \<noteq> None) s' \<Longrightarrow> Q (Inr x) s'"
  shows "wp serve (retarget_project svc pr t raw) Q s"
proof -
  from assms(3) obtain target where t: "parse_target (ts_url svc) (normalize_endpoint raw) = Inr target"
    by (auto simp: good_endpoint_def)
  have good: "good_endpoint (ts_url svc) (normalize_endpoint raw)" using assms(3) by (simp add: good_endpoint_def)
  show ?thesis
  proof (cases "proxy_connector_name p")
    case None
    have "wp serve (update_project svc pr t (proxy_label p t) (normalize_endpoint raw)) Q s"
      using None by (intro updating [OF assms(1,2) good] Q) auto
    with None show ?thesis unfolding retarget_project_def Let_def t sum.case
      by (intro wp_try control; unfold sum.case; intro wp_try proxy_read [OF assms(2)]; unfold sum.case)
        (simp add: retarget_proxy_rules_def)
  next
    case (Some cn)
    have cn: "cn \<in> dom (conn s)" by (rule tidyD(2) [OF assms(1,2) Some])
    have ad: "ad_connector (retarget_advertisement_spec (ad_body a) target) = cn" if "ad s t = Some a" for a
      using tidyD(3) [OF assms(1) that] assms(2) Some by (simp add: retarget_advertisement_spec_def)
    have "wp serve (try_bind (write_proxy ''Failed to update HTTPProxy endpoint'' t p (proxy_label p t)
          (desired_proxy_rules (normalize_endpoint raw) cn (ts_exempt svc))) (\<lambda>_.
        try_bind (write_ad ''Failed to update ConnectorAdvertisement endpoint'' t
            (\<lambda>spec. retarget_advertisement_spec spec target)) (\<lambda>enabled. do {
          store_state svc (summary_of p t (proxy_label p t) (normalize_endpoint raw) enabled);
          State_Monad.return (Inr (summary_of p t (proxy_label p t) (normalize_endpoint raw) enabled))
        }))) Q s"
      by (intro rewrite_tunnel [OF assms(1,2) refl refl order_refl cn] wp_bind stored wp_return Q ad) (use Some in auto)
    with Some show ?thesis unfolding retarget_project_def Let_def t sum.case
      by (intro wp_try control; unfold sum.case; intro wp_try proxy_read [OF assms(2)]; unfold sum.case)
        (simp add: retarget_proxy_rules_def)
  qed
qed

lemma disabling:
  assumes "tidy_here s" "proxy s t = Some p"
    and Q: "\<And>x s'. tidy_here s' \<Longrightarrow> rows s' = (rows s)(t \<mapsto> row_of t p False) \<Longrightarrow> Q (Inr x) s'"
  shows "wp serve (set_enabled_project svc pr t False) Q s"
  unfolding set_enabled_project_def Let_def if_False
  by (intro wp_try control; unfold sum.case; intro wp_try proxy_read [OF assms(2)]; unfold sum.case;
      intro wp_try remove_ad; unfold sum.case; intro wp_return; unfold sum.case; intro wp_bind stored wp_return Q)
    (auto intro: tidy_off [OF assms(1)] table_off [of proxy _ s ad t, OF _ _ assms(2)])

lemma enabling:
  assumes "tidy_here s" "proxy s t = Some p" "good_endpoint (ts_url svc) (proxy_endpoint p)"
    and Q: "\<And>s' cn. wrote s t (proxy_label p t) (proxy_endpoint p) cn True s' \<Longrightarrow> (no_own svc s \<Longrightarrow> conn s cn = None) \<Longrightarrow>
      Q (Inr (summary_of p t (proxy_label p t) (proxy_endpoint p) True)) s'"
  shows "wp serve (set_enabled_project svc pr t True) Q s"
proof -
  from assms(3) obtain target where t: "parse_target (ts_url svc) (proxy_endpoint p) = Inr target"
    by (auto simp: good_endpoint_def)
  have live: "\<not> hp_deleting p" by (rule tidyD(1) [OF assms(1,2)])
  have "wp serve (enable_proxy svc pr t p (proxy_endpoint p) (proxy_label p t))
      (\<lambda>r s'. (\<exists>x cn. r = Inr x \<and> wrote s t (proxy_label p t) (proxy_endpoint p) cn True s' \<and> (no_own svc s \<longrightarrow> conn s cn = None))) s"
    unfolding enable_proxy_def t sum.case
  proof (rule wp_try, rule ensuring, unfold sum.case)
    fix c u assume u: "proxy u = proxy s" "ad u = ad s" "dom (conn s) \<subseteq> dom (conn u)" "conn u (connector_name_any c) = Some c"
      "no_own svc s \<Longrightarrow> conn s (connector_name_any c) = None"
    then have p: "proxy u t = Some p" using assms(2) by simp
    show "wp serve (try_bind (write_proxy ''Failed to patch HTTPProxy connector reference'' t p (proxy_label p t)
              (desired_proxy_rules (proxy_endpoint p) (connector_name_any c) (ts_exempt svc))) (\<lambda>after.
          try_bind (put_ad t (advertisement_spec (connector_name_any c) target)) (\<lambda>_. do {
            spawn_edge_policies svc pr t (proxy_label p t) True (hp_rules after);
            State_Monad.return (Inr ())
          }))) (\<lambda>r s'. (\<exists>x cn. r = Inr x \<and> wrote s t (proxy_label p t) (proxy_endpoint p) cn True s' \<and> (no_own svc s \<longrightarrow> conn s cn = None))) u"
    proof (rule wp_try, rule write_proxy [OF p refl], unfold sum.case)
      fix q v assume v: "proxy v = (proxy u)(t \<mapsto> q)" "ad v = ad u" "conn v = conn u" "hp_deleting q = hp_deleting p"
        "proxy_connector_name q = Some (connector_name_any c)" "proxy_backend_endpoint q = Some (proxy_endpoint p)"
        "proxy_label q t = proxy_label p t"
      have one: "wrote s t (proxy_label p t) (proxy_endpoint p) (connector_name_any c) True w"
        if "ad w = (ad v)(t \<mapsto> b)" "ad_body b = advertisement_spec (connector_name_any c) target" "proxy w = proxy v" "conn w = conn v"
        for b w
      proof -
        have "wrote s t (proxy_label p t) (proxy_endpoint p) (connector_name_any c) (Some b \<noteq> None) w"
          using that u v live by (intro wroteI [OF assms(1) _ _ v(5-7)]) auto
        then show ?thesis by simp
      qed
      show "wp serve (try_bind (put_ad t (advertisement_spec (connector_name_any c) target)) (\<lambda>_. do {
            spawn_edge_policies svc pr t (proxy_label p t) True (hp_rules q);
            State_Monad.return (Inr ())
          })) (\<lambda>r s'. (\<exists>x cn. r = Inr x \<and> wrote s t (proxy_label p t) (proxy_endpoint p) cn True s' \<and> (no_own svc s \<longrightarrow> conn s cn = None))) v"
        by (intro wp_try put_ad; unfold sum.case; intro wp_bind spawned wp_return) (use one u(5) in blast)
    qed
  qed
  then have on: "wp serve (try_bind (enable_proxy svc pr t p (proxy_endpoint p) (proxy_label p t)) k) Q s"
    if "\<And>x s' cn. wrote s t (proxy_label p t) (proxy_endpoint p) cn True s' \<Longrightarrow> (no_own svc s \<Longrightarrow> conn s cn = None) \<Longrightarrow>
    wp serve (k x) Q s'" for k
    by (intro wp_try, elim wp_mono) (use that in auto)
  show ?thesis unfolding set_enabled_project_def Let_def if_True
    by (intro wp_try control; unfold sum.case; intro wp_try proxy_read [OF assms(2)]; unfold sum.case;
        rule on; intro wp_bind stored wp_return Q)
qed

end



context api_server begin

lemma created:
  "wp serve f (\<lambda>r s'. \<exists>x. r = Inr x \<and> Q (Inr x) s') s \<Longrightarrow> wp serve (creating svc kind f) Q s"
  unfolding creating_def by (intro wp_bind wp_retry) (auto elim!: wp_mono intro: wp_return)

lemma created_try:
  "serve s q = (s', r) \<Longrightarrow> f r = Inr x \<Longrightarrow> wp serve (k x) Q s' \<Longrightarrow>
   wp serve (try_bind (creating svc kind (ask_as f q)) k) Q s"
  by (intro wp_try created, rule here) auto

lemma asked_try:
  "serve s q = (s', r) \<Longrightarrow> f r = Inr x \<Longrightarrow> wp serve (k x) Q s' \<Longrightarrow> wp serve (try_bind (asking m f q) k) Q s"
  by (intro wp_try, rule here_asking) auto

lemma creating_tunnel:
  assumes tidy: "tidy_here s" and good: "good_endpoint (ts_url svc) raw"
    and Q: "\<And>x s' t cn. rows s t = None \<Longrightarrow> wrote s t l (normalize_endpoint raw) cn True s' \<Longrightarrow> Q (Inr x) s'"
  shows "wp serve (create_project svc pr l raw) Q s"
proof -
  from good obtain target d where t: "parse_target (ts_url svc) (normalize_endpoint raw) = Inr target"
    and d: "from_host_port_str (strip_scheme (ts_url svc) (normalize_endpoint raw)) = Inr d"
    by (auto simp: good_endpoint_def)
  have keep: "wp serve (store_created svc n (normalize_endpoint raw) l) R w" if "R (Inr ()) w" for n R w
    unfolding store_created_def proxy_state_from_summary_def d sum.case
    by (intro wp_bind local_call wp_return) (use that in \<open>auto split: if_splits\<close>)
  have guard: "wp serve (create_tpp svc n) R w" if "\<And>v. proxy v = proxy w \<Longrightarrow> ad v = ad w \<Longrightarrow> conn v = conn w \<Longrightarrow> R (Inr ()) v" for n R w
  proof (cases "ts_create_tpps svc")
    case True
    obtain v where v: "serve w (CreateTpp (tunnel_tpp n)) = (v, RDone (Inr ()))" "proxy v = proxy w" "ad v = ad w" "conn v = conn w"
      using create_tpp by blast
    show ?thesis unfolding Tunnels.create_tpp_def if_P [OF True]
      by (intro created here [OF v(1)]) (simp add: that [OF v(2-4)])
  next
    case False
    then show ?thesis unfolding Tunnels.create_tpp_def by (simp add: wp_return that)
  qed
  have rest: "wp serve (create_at svc pr l (normalize_endpoint raw) target cn) Q u"
    if u: "proxy u = proxy s" "ad u = ad s" "dom (conn s) \<subseteq> dom (conn u)" "cn \<in> dom (conn u)" for u cn
  proof -
    define np where "np = \<lparr>np_generate_name = ''tunnel-'', np_annotations = [(DISPLAY_NAME_ANNOTATION, l)],
      np_rules = desired_proxy_rules (normalize_endpoint raw) cn (ts_exempt svc)\<rparr>"
    obtain v n q where v: "serve u (CreateProxy np) = (v, RProxy (Inr q))" "proxy u n = None" "hp_name q = Some n"
      "hp_rules q = np_rules np" "\<not> hp_deleting q" "hp_annotations q = Some (np_annotations np)"
      "proxy v = (proxy u)(n \<mapsto> q)" "ad v = ad u" "conn v = conn u"
      using create_proxy by blast
    have n: "proxy_name_any q = n" using v(3) by (simp add: proxy_name_any_def name_any_def)
    have none: "ad s n = None" using tidyD(3) [OF tidy, of n] v(2) u(1) by (cases "ad s n") auto
    then have "ad v n = None" using u v by simp
    from create_ad [OF this] obtain w a where w: "serve v (CreateAd n (advertisement_spec cn target)) = (w, RAd (Inr a))"
      "ad_body a = advertisement_spec cn target" "ad w = (ad v)(n \<mapsto> a)" "proxy w = proxy v" "conn w = conn v" by blast
    have q: "proxy_connector_name q = Some cn" "proxy_backend_endpoint q = Some (normalize_endpoint raw)" "proxy_label q n = l"
      using v by (simp_all add: np_def proxy_connector_name_def proxy_backend_endpoint_def proxy_label_def annotation_def)
    have final: "Q (Inr x) y" if y: "proxy y = proxy w" "ad y = ad w" "conn y = conn w" for x y
    proof (rule Q)
      show "rows s n = None" using v(2) u(1) by (simp add: table_def)
      have "wrote s n l (normalize_endpoint raw) cn (Some a \<noteq> None) y"
        using y w u v none by (intro wroteI [OF tidy _ _ q]) auto
      then show "wrote s n l (normalize_endpoint raw) cn True y" by simp
    qed
    show ?thesis unfolding create_at_def np_def [symmetric] Let_def
      by (rule wp_try, rule control, unfold sum.case, rule created_try [OF v(1)], rule as_proxy.simps(1), unfold n,
          rule created_try [OF w(1)], rule as_ad.simps(1), rule wp_try, rule guard, unfold sum.case, rule wp_bind, rule spawned,
          rule wp_try, rule keep, unfold sum.case, rule wp_return, rule final)
  qed
  show ?thesis unfolding create_project_def Let_def t sum.case
    by (intro wp_try ensuring; unfold sum.case; intro rest) auto
qed

lemma drop_connector:
  assumes tidy: "tidy_here v"
    and Q: "\<And>x s'. proxy s' = proxy v \<Longrightarrow> ad s' = ad v \<Longrightarrow> tidy_here s' \<Longrightarrow> Q (Inr x) s'"
  shows "wp serve (delete_connector_if_unused name) Q v"
proof -
  obtain ps where ps: "serve v ListProxies = (v, RProxies (Inr ps))" "set ps = ran (proxy v)" using list_proxies by blast
  have "wp serve (if list_ex (uses_connector name) ps then State_Monad.return (Inr None)
       else
         try_bind (asking ''Failed to list remaining ConnectorAdvertisements'' as_ads (ListAds (Some name))) (\<lambda>ads. do {
           delete_ads (filter (\<lambda>ad. ad_connector (ad_body ad) = name) ads);
           try_bind (asking_opt ''Failed to load Connector'' as_connector (GetConnector name)) (\<lambda>found.
             (case found of
                None \<Rightarrow> State_Monad.return (Inr None)
              | Some _ \<Rightarrow> try_bind (asking ''Failed to delete Connector'' as_done (DeleteConnector name))
                           (\<lambda>_. State_Monad.return (Inr (Some name)))))
         })) Q v"
  proof (cases "list_ex (uses_connector name) ps")
    case True
    with Q tidy show ?thesis by (simp add: wp_return)
  next
    case False
    have unused: "proxy_connector_name p \<noteq> Some name" if "proxy v t = Some p" for t p
    proof -
      from that ps(2) have "p \<in> set ps" by (auto simp: ran_def)
      with False tidyD(1) [OF tidy that] show ?thesis by (auto simp: list_ex_iff uses_connector_def)
    qed
    obtain as1 where as1: "serve v (ListAds (Some name)) = (v, RAds (Inr as1))" "set as1 = {x \<in> ran (ad v). ad_connector (ad_body x) = name}"
      using list_ads by blast
    have "ad_connector (ad_body a) \<noteq> name" if "ad v t = Some a" for t a
      using tidyD(3) [OF tidy that] unused by metis
    then have "set as1 = {}" unfolding as1(2) by (auto simp: ran_def)
    then have nil: "as1 = []" by simp
    have gone: "wp serve (case conn v name of None \<Rightarrow> State_Monad.return (Inr None)
        | Some _ \<Rightarrow> try_bind (asking ''Failed to delete Connector'' as_done (DeleteConnector name))
                     (\<lambda>_. State_Monad.return (Inr (Some name)))) Q v"
    proof (cases "conn v name")
      case None
      with Q tidy show ?thesis by (simp add: wp_return)
    next
      case (Some c)
      obtain w where w: "serve v (DeleteConnector name) = (w, RDone (Inr ()))" "conn w = (conn v)(name := None)"
        "proxy w = proxy v" "ad w = ad v"
        using delete_conn [OF Some] by blast
      have "tidy_here w"
      proof (rule tidyI)
        show "\<not> hp_deleting p" if "proxy w t = Some p" for t p using that w(3) tidyD(1) [OF tidy] by simp
        show "x \<in> dom (conn w)" if "proxy w t = Some p" "proxy_connector_name p = Some x" for t p x
          using that w(2,3) tidyD(2) [OF tidy, of t p x] unused [of t p] by auto
        show "\<exists>p. proxy w t = Some p \<and> proxy_connector_name p = Some (ad_connector (ad_body a))" if "ad w t = Some a" for t a
          using that w(3,4) tidyD(3) [OF tidy, of t a] by simp
      qed
      with Some w show ?thesis by simp (rule asked_try [OF w(1)], rule as_done.simps(1), rule wp_return, rule Q)
    qed
    show ?thesis unfolding if_not_P [OF False]
      by (rule asked_try [OF as1(1)], rule as_ads.simps(1), unfold nil filter.simps delete_ads.simps, rule wp_bind, rule wp_skip,
          rule wp_try, rule conn_read, unfold sum.case, rule gone)
  qed
  then show ?thesis unfolding delete_connector_if_unused_def
    by - (rule asked_try [OF ps(1)], rule as_proxies.simps(1))
qed

end



context api_server begin

lemma deleting:
  assumes tidy: "tidy_here s" and Q: "\<And>x s'. tidy_here s' \<Longrightarrow> rows s' = (rows s)(t := None) \<Longrightarrow> Q (Inr x) s'"
  shows "wp serve (delete_project svc pr t) Q s"
proof -
  have who: "wp serve (connector_of svc pr e) R s"
    if "\<And>x u. proxy u = proxy s \<Longrightarrow> ad u = ad s \<Longrightarrow> dom (conn u) = dom (conn s) \<Longrightarrow> R (Inr x) u" for e R
  proof (cases "Option.bind e proxy_connector_name")
    case None
    then show ?thesis unfolding connector_of_def
      by simp (rule wp_try, rule finding; simp add: wp_return that)
  next
    case (Some n)
    then show ?thesis unfolding connector_of_def by (simp add: wp_return that)
  qed
  have drop: "wp serve (case x of Some name \<Rightarrow> delete_connector_if_unused name | None \<Rightarrow> State_Monad.return (Inr None)) R v"
    if "tidy_here v" "\<And>y u. proxy u = proxy v \<Longrightarrow> ad u = ad v \<Longrightarrow> tidy_here u \<Longrightarrow> R (Inr y) u" for x R v
    using that by (cases x) (auto intro: wp_return drop_connector)
  have final: "Q (Inr x) y"
    if "proxy y = (proxy s)(t := None)" "ad y = (ad s)(t := None)" "tidy_here y" for x y
    by (rule Q [OF that(3)], rule ext) (simp add: table_def that(1,2))
  have end1: "wp serve (do {
       forget_state svc t;
       try_bind (case x of Some name \<Rightarrow> delete_connector_if_unused name | None \<Rightarrow> State_Monad.return (Inr None)) (\<lambda>connector_out. do {
         _ \<leftarrow> ask_as as_local (DeleteTunnelDir pr t);
         State_Monad.return (Inr (out connector_out)) }) }) Q v"
    if v: "proxy v = (proxy s)(t := None)" "ad v = (ad s)(t := None)" "dom (conn v) = dom (conn s)" for x v out
  proof -
    have here1: "tidy_here v"
      using tidyD(2) [OF tidy] v by (intro tidy_drop [OF tidy v(1,2)]) (auto split: if_splits)
    have loc: "is_local (if ts_publish svc then RemoveProxy t else RemoveProxyState t)" by simp
    show ?thesis unfolding forget_state_def
      by (rule wp_bind, rule wp_bind, rule local_call [OF loc], rule wp_skip, rule wp_try, rule drop [OF here1], unfold sum.case,
          rule wp_bind, rule local_call, simp, rule wp_return, rule final) (simp_all add: v)
  qed
  show ?thesis unfolding delete_project_def
    by (rule wp_try, rule control, unfold sum.case, rule wp_try, rule proxy_read_opt, unfold sum.case,
        rule wp_try, rule who, unfold sum.case, rule wp_try, rule drop_edge_policies, unfold sum.case,
        rule wp_try, rule remove_proxy, simp, unfold sum.case, rule wp_try, rule remove_ad, unfold sum.case,
        rule wp_try, rule remove_tpp, unfold sum.case, rule end1) simp_all
qed

text \<open>Every operation does to the table what it should, and leaves the server tidy.\<close>

lemma did:
  assumes "wp serve m (\<lambda>r s'. \<exists>x. r = Inr x \<and> P s') s"
  shows "wp serve (just_do m) (\<lambda>r s'. r = Inr () \<and> P s') s"
  unfolding just_do_def by (rule wp_try, rule wp_mono [OF assms]) (auto intro: wp_return)

lemma operation_refines:
  assumes tidy: "tidy_here s" and ready: "op_ready (ts_url svc) (rows s) op"
  shows "wp serve (run_op svc pr op) (\<lambda>r s'. r = Inr () \<and> tidy_here s' \<and> table_step op (rows s) (rows s')) s"
proof (cases op)
  case (CreateTunnel l raw)
  with ready have "good_endpoint (ts_url svc) raw" by simp
  then show ?thesis unfolding CreateTunnel run_op.simps
    by (intro did creating_tunnel [OF tidy]) (auto simp: wrote_def)
next
  case (UpdateTunnel t l raw)
  with ready obtain p where p: "proxy s t = Some p" and g: "good_endpoint (ts_url svc) raw"
    by (auto simp: table_def)
  have row: "rows s t = Some (row_of t p (ad s t \<noteq> None))" using p by (simp add: table_def)
  show ?thesis unfolding UpdateTunnel run_op.simps
    by (intro did updating [OF tidy p g]) (auto simp: wrote_def row row_of_def)
next
  case (RetargetTunnel t raw)
  with ready obtain p where p: "proxy s t = Some p" and g: "good_endpoint (ts_url svc) raw"
    by (auto simp: table_def)
  have row: "rows s t = Some (row_of t p (ad s t \<noteq> None))" using p by (simp add: table_def)
  show ?thesis unfolding RetargetTunnel run_op.simps
    by (intro did retargeting [OF tidy p g]) (auto simp: wrote_def row row_of_def)
next
  case (SetEnabled t on)
  with ready obtain p where p: "proxy s t = Some p" and g: "on \<Longrightarrow> good_endpoint (ts_url svc) (proxy_endpoint p)"
    by (auto simp: table_def split: option.splits)
  have row: "rows s t = Some (row_of t p (ad s t \<noteq> None))" using p by (simp add: table_def)
  show ?thesis
  proof (cases on)
    case True
    with g have "good_endpoint (ts_url svc) (proxy_endpoint p)" by simp
    with True show ?thesis unfolding SetEnabled run_op.simps
      by (simp only:) (intro did enabling [OF tidy p]; auto simp: wrote_def row row_of_def)
  next
    case False
    then show ?thesis unfolding SetEnabled run_op.simps
      by (simp only:) (intro did disabling [OF tidy p]; auto simp: row row_of_def)
  qed
next
  case (DeleteTunnel t)
  show ?thesis unfolding DeleteTunnel run_op.simps
    by (intro did deleting [OF tidy]) auto
qed

lemma enabling_moves:
  assumes "tidy_here s" "proxy s t = Some p" "good_endpoint (ts_url svc) (proxy_endpoint p)" "proxy_connector_name p = Some old" "no_own svc s"
  shows "wp serve (set_enabled_project svc pr t True) (\<lambda>r s'. \<exists>sm cn. r = Inr sm \<and> ts_connector sm = Some old \<and>
    map_option row_connector (rows s' t) = Some (Some cn) \<and> cn \<noteq> old) s"
proof (rule enabling [OF assms(1-3)])
  fix s' cn assume w: "wrote s t (proxy_label p t) (proxy_endpoint p) cn True s'" and "no_own svc s \<Longrightarrow> conn s cn = None"
  then have "conn s cn = None" using assms(5) by simp
  moreover have "old \<in> dom (conn s)" by (rule tidyD(2) [OF assms(1,2,4)])
  ultimately have "cn \<noteq> old" by auto
  moreover have "ts_connector (summary_of p t (proxy_label p t) (proxy_endpoint p) True) = Some old"
    by (simp add: summary_of_connector assms(4))
  moreover have "map_option row_connector (rows s' t) = Some (Some cn)" using w by (simp add: wrote_def)
  ultimately show "\<exists>sm cn. Inr (summary_of p t (proxy_label p t) (proxy_endpoint p) True) = Inr sm \<and> ts_connector sm = Some old \<and>
      map_option row_connector (rows s' t) = Some (Some cn) \<and> cn \<noteq> old" by blast
qed

end

end
