(* ===== verification/Reference_Api.thy ===== *)
theory Reference_Api
  imports Tunnel_Table
begin

text \<open>
  The refinement, and a server that keeps the promises: stores of objects by name, answering every request of the
  tunnel service. The promises are discharged for it, so that what is shown of any such server holds of it.
\<close>

section \<open>The refinement\<close>

text \<open>
  C4: against any server that keeps the promises of the API, each operation on tunnels succeeds and does to
  the table of tunnels exactly what it says: it adds a row, changes its label, endpoint, connector or switch, or
  removes it, and leaves every other row; and every tunnel's connector stays there.
\<close>

theorem tunnel_operations_refine_the_table:
  assumes "api_server serve proxy ad conn tpp policy" "tidy proxy ad conn s" "op_ready (ts_url svc) (table proxy ad s) op"
  shows "wp serve (run_op svc pr op)
    (\<lambda>r s'. r = Inr () \<and> tidy proxy ad conn s' \<and> table_step op (table proxy ad s) (table proxy ad s')) s"
  by (rule api_server.operation_refines [OF assms])

section \<open>A server that keeps the promises\<close>

definition store :: "'k \<Rightarrow> 'v \<Rightarrow> ('k \<times> 'v) list \<Rightarrow> ('k \<times> 'v) list" where
  "store k v kv = (k, v) # kv"

definition unstore :: "'k \<Rightarrow> ('k \<times> 'v) list \<Rightarrow> ('k \<times> 'v) list" where
  "unstore k kv = filter (\<lambda>p. fst p \<noteq> k) kv"

definition stored_values :: "('k \<times> 'v) list \<Rightarrow> 'v list" where
  "stored_values kv = map (\<lambda>k. the (map_of kv k)) (remdups (map fst kv))"

lemma map_of_store [simp]: "map_of (store k v kv) = (map_of kv)(k \<mapsto> v)"
  by (simp add: store_def)

lemma map_of_unstore [simp]: "map_of (unstore k kv) = (map_of kv)(k := None)"
proof
  show "map_of (unstore k kv) x = ((map_of kv)(k := None)) x" for x
    using map_of_filter_key [of "\<lambda>y. y \<noteq> k" kv x] by (simp add: unstore_def)
qed

lemma set_stored_values [simp]: "set (stored_values kv) = ran (map_of kv)"
proof -
  have "\<exists>v. map_of kv k = Some v" if "k \<in> fst ` set kv" for k
    using that by (metis map_of_eq_None_iff not_None_eq)
  moreover have "k \<in> fst ` set kv" if "map_of kv k = Some v" for k v
    using that by (metis map_of_eq_None_iff option.distinct(1))
  ultimately show ?thesis by (force simp: stored_values_def ran_def)
qed

record api_state =
  sv_proxies :: "(str \<times> http_proxy) list"
  sv_ads :: "(str \<times> advertisement) list"
  sv_connectors :: "(str \<times> connector) list"
  sv_details :: "(str \<times> connection_details) list"
  sv_tpps :: "(str \<times> new_tpp) list"
  sv_policies :: "((policy_kind \<times> str) \<times> dynamic_object) list"
  sv_addr :: endpoint_addr

text \<open>A generated name is longer than any in use.\<close>

definition new_name :: "str \<Rightarrow> ('v \<times> 'w) list \<Rightarrow> ('v \<Rightarrow> str) \<Rightarrow> str" where
  "new_name prefix1 kv f = prefix1 @ replicate (Suc (sum_list (map (\<lambda>p. length (f (fst p))) kv))) (CHR ''x'')"

lemma new_name_new: "map_of kv (new_name prefix1 kv id) = None"
proof -
  have "length k \<le> sum_list (map (\<lambda>p. length (fst p)) kv)" if "k \<in> fst ` set kv" for k
  proof -
    from that obtain p where "p \<in> set kv" "k = fst p" by blast
    then obtain us vs where "kv = us @ p # vs" by (meson split_list)
    with \<open>k = fst p\<close> show ?thesis by simp
  qed
  moreover have "sum_list (map (\<lambda>p. length (fst p)) kv) < length (new_name prefix1 kv id)" by (simp add: new_name_def)
  ultimately show ?thesis unfolding map_of_eq_None_iff by (metis leD)
qed

definition made_proxy :: "str \<Rightarrow> new_proxy \<Rightarrow> http_proxy" where
  "made_proxy n np = \<lparr>hp_name = Some n, hp_generate_name = Some (np_generate_name np), hp_generation = Some 1,
     hp_deleting = False, hp_created = None, hp_annotations = Some (np_annotations np), hp_spec_hostnames = None,
     hp_rules = np_rules np, hp_status = None\<rparr>"

definition patched_proxy :: "proxy_patch \<Rightarrow> http_proxy \<Rightarrow> http_proxy" where
  "patched_proxy pt p = p\<lparr>hp_annotations := Some (pp_annotation pt # the_list (hp_annotations p)),
     hp_spec_hostnames := Some (pp_hostnames pt), hp_rules := pp_rules pt, hp_generation := map_option ((+) 1) (hp_generation p)\<rparr>"

definition made_connector :: "str \<Rightarrow> new_connector \<Rightarrow> connector" where
  "made_connector n nc = \<lparr>cn_name = Some n, cn_generate_name = Some (nc_generate_name nc), cn_generation = Some 1,
     cn_annotations = Some (nc_annotations nc), cn_class = nc_class nc, cn_conditions = None\<rparr>"

definition named_connector :: "str \<Rightarrow> connector \<Rightarrow> connector" where
  "named_connector n c = c\<lparr>cn_name := Some n\<rparr>"

definition sv_proxy :: "api_state \<Rightarrow> str \<Rightarrow> http_proxy option" where "sv_proxy s = map_of (sv_proxies s)"
definition sv_ad :: "api_state \<Rightarrow> str \<Rightarrow> advertisement option" where "sv_ad s = map_of (sv_ads s)"
definition sv_conn :: "api_state \<Rightarrow> str \<Rightarrow> connector option" where
  "sv_conn s n = map_option (named_connector n) (map_of (sv_connectors s) n)"
definition sv_tpp :: "api_state \<Rightarrow> str \<Rightarrow> bool" where "sv_tpp s n \<longleftrightarrow> map_of (sv_tpps s) n \<noteq> None"
definition sv_policy :: "api_state \<Rightarrow> policy_kind \<Rightarrow> str \<Rightarrow> dynamic_object option" where
  "sv_policy s k n = map_of (sv_policies s) (k, n)"

definition found_unit :: "'a option \<Rightarrow> kube_error + unit" where
  "found_unit x = found (map_option (\<lambda>_. ()) x)"

definition all_connectors :: "api_state \<Rightarrow> connector list" where
  "all_connectors s = map (\<lambda>n. the (sv_conn s n)) (remdups (map fst (sv_connectors s)))"

definition own_connectors :: "api_state \<Rightarrow> str \<Rightarrow> connector list" where
  "own_connectors s endpoint_id = filter (\<lambda>c. Option.bind (cn_name c) (\<lambda>n. map_option de_id (map_of (sv_details s) n)) = Some endpoint_id) (all_connectors s)"

definition policy_name :: "dynamic_object \<Rightarrow> str" where
  "policy_name d = (case obj_get (dy_meta d) ''name'' of Some (JStr n) \<Rightarrow> n | _ \<Rightarrow> [])"

fun serve_api :: "api_state \<Rightarrow> kube_request \<Rightarrow> api_state \<times> kube_reply" where
  "serve_api s (GetProxy n) = (s, RProxy (found (sv_proxy s n)))"
| "serve_api s ListProxies = (s, RProxies (Inr (stored_values (sv_proxies s))))"
| "serve_api s (CreateProxy np) = (let n = new_name (np_generate_name np) (sv_proxies s) id in
     (s\<lparr>sv_proxies := store n (made_proxy n np) (sv_proxies s)\<rparr>, RProxy (Inr (made_proxy n np))))"
| "serve_api s (PatchProxy n pt) = (case sv_proxy s n of None \<Rightarrow> (s, RProxy (found None))
   | Some p \<Rightarrow> (s\<lparr>sv_proxies := store n (patched_proxy pt p) (sv_proxies s)\<rparr>, RProxy (Inr (patched_proxy pt p))))"
| "serve_api s (DeleteProxy n) = (s\<lparr>sv_proxies := unstore n (sv_proxies s)\<rparr>, RDone (found_unit (sv_proxy s n)))"
| "serve_api s (GetAd n) = (s, RAd (found (sv_ad s n)))"
| "serve_api s (ListAds sel) = (s, RAds (Inr (filter (\<lambda>a. sel \<in> {None, Some (ad_connector (ad_body a))}) (stored_values (sv_ads s)))))"
| "serve_api s (CreateAd n spec) = (case sv_ad s n of
     Some _ \<Rightarrow> (s, RAd (Inl (ApiError 409 ''already exists'')))
   | None \<Rightarrow> (s\<lparr>sv_ads := store n \<lparr>ad_name = Some n, ad_body = spec\<rparr> (sv_ads s)\<rparr>, RAd (Inr \<lparr>ad_name = Some n, ad_body = spec\<rparr>)))"
| "serve_api s (PatchAd n spec) = (case sv_ad s n of None \<Rightarrow> (s, RAd (found None))
   | Some a \<Rightarrow> (s\<lparr>sv_ads := store n (a\<lparr>ad_body := spec\<rparr>) (sv_ads s)\<rparr>, RAd (Inr (a\<lparr>ad_body := spec\<rparr>))))"
| "serve_api s (DeleteAd n) = (s\<lparr>sv_ads := unstore n (sv_ads s)\<rparr>, RDone (found_unit (sv_ad s n)))"
| "serve_api s (GetConnector n) = (s, RConnector (found (sv_conn s n)))"
| "serve_api s (ListConnectors sel) = (s, RConnectors (Inr (case sel of None \<Rightarrow> all_connectors s | Some e \<Rightarrow> own_connectors s e)))"
| "serve_api s (CreateConnector nc) = (let n = new_name (nc_generate_name nc) (sv_connectors s) id in
     (s\<lparr>sv_connectors := store n (made_connector n nc) (sv_connectors s)\<rparr>, RConnector (Inr (made_connector n nc))))"
| "serve_api s (PatchConnector n anns) = (case sv_conn s n of None \<Rightarrow> (s, RConnector (found None))
   | Some c \<Rightarrow> (let d = c\<lparr>cn_annotations := Some (anns @ the_list (cn_annotations c))\<rparr> in
       (s\<lparr>sv_connectors := store n d (sv_connectors s)\<rparr>, RConnector (Inr d))))"
| "serve_api s (PatchConnectorStatus n d) = (case sv_conn s n of None \<Rightarrow> (s, RDone (found None))
   | Some _ \<Rightarrow> (s\<lparr>sv_details := store n d (sv_details s)\<rparr>, RDone (Inr ())))"
| "serve_api s (DeleteConnector n) = (s\<lparr>sv_connectors := unstore n (sv_connectors s), sv_details := unstore n (sv_details s)\<rparr>,
     RDone (found_unit (sv_conn s n)))"
| "serve_api s ListClasses = (s, RClasses (Inr [''iroh-quic-tunnel'']))"
| "serve_api s (GetTpp n) = (s, RDone (found (if sv_tpp s n then Some () else None)))"
| "serve_api s (CreateTpp t) = (s\<lparr>sv_tpps := store (tt_name t) t (sv_tpps s)\<rparr>, RDone (Inr ()))"
| "serve_api s (DeleteTpp n) = (s\<lparr>sv_tpps := unstore n (sv_tpps s)\<rparr>, RDone (found_unit (map_of (sv_tpps s) n)))"
| "serve_api s (GetPolicy k n) = (s, RPolicy (found (sv_policy s k n)))"
| "serve_api s (CreatePolicy k d) = (s\<lparr>sv_policies := store (k, policy_name d) d (sv_policies s)\<rparr>, RPolicy (Inr d))"
| "serve_api s (ReplacePolicy k n d) = (s\<lparr>sv_policies := store (k, n) d (sv_policies s)\<rparr>, RPolicy (Inr d))"
| "serve_api s (DeletePolicy k n) = (s\<lparr>sv_policies := unstore (k, n) (sv_policies s)\<rparr>, RDone (found_unit (sv_policy s k n)))"
| "serve_api s EndpointAddr = (s, RAddr (sv_addr s))"
| "serve_api s q = (s, RLocal (Inr ()))"

lemma sv_same [simp]:
  "sv_proxy (s\<lparr>sv_ads := a\<rparr>) = sv_proxy s" "sv_proxy (s\<lparr>sv_connectors := c\<rparr>) = sv_proxy s" "sv_proxy (s\<lparr>sv_details := d\<rparr>) = sv_proxy s"
  "sv_proxy (s\<lparr>sv_tpps := t\<rparr>) = sv_proxy s" "sv_proxy (s\<lparr>sv_policies := p\<rparr>) = sv_proxy s"
  "sv_ad (s\<lparr>sv_proxies := x\<rparr>) = sv_ad s" "sv_ad (s\<lparr>sv_connectors := c\<rparr>) = sv_ad s" "sv_ad (s\<lparr>sv_details := d\<rparr>) = sv_ad s"
  "sv_ad (s\<lparr>sv_tpps := t\<rparr>) = sv_ad s" "sv_ad (s\<lparr>sv_policies := p\<rparr>) = sv_ad s"
  "sv_conn (s\<lparr>sv_proxies := x\<rparr>) = sv_conn s" "sv_conn (s\<lparr>sv_ads := a\<rparr>) = sv_conn s" "sv_conn (s\<lparr>sv_details := d\<rparr>) = sv_conn s"
  "sv_conn (s\<lparr>sv_tpps := t\<rparr>) = sv_conn s" "sv_conn (s\<lparr>sv_policies := p\<rparr>) = sv_conn s"
  by (auto simp: sv_proxy_def sv_ad_def sv_conn_def)

lemma sv_changed [simp]:
  "sv_proxy (s\<lparr>sv_proxies := store n p (sv_proxies s)\<rparr>) = (sv_proxy s)(n \<mapsto> p)"
  "sv_proxy (s\<lparr>sv_proxies := unstore n (sv_proxies s)\<rparr>) = (sv_proxy s)(n := None)"
  "sv_ad (s\<lparr>sv_ads := store n a (sv_ads s)\<rparr>) = (sv_ad s)(n \<mapsto> a)"
  "sv_ad (s\<lparr>sv_ads := unstore n (sv_ads s)\<rparr>) = (sv_ad s)(n := None)"
  "sv_conn (s\<lparr>sv_connectors := store n c (sv_connectors s)\<rparr>) = (sv_conn s)(n \<mapsto> named_connector n c)"
  "sv_conn (s\<lparr>sv_connectors := unstore n (sv_connectors s)\<rparr>) = (sv_conn s)(n := None)"
  by (auto simp: sv_proxy_def sv_ad_def sv_conn_def)

lemma local_api: "is_local q \<Longrightarrow> serve_api s q = (s, RLocal (Inr ()))"
  by (cases q) auto

lemma named_self: "cn_name c = Some n \<Longrightarrow> named_connector n c = c"
  by (simp add: named_connector_def)

lemma sv_conn_named: "sv_conn s n = Some c \<Longrightarrow> cn_name c = Some n"
  by (auto simp: sv_conn_def named_connector_def)

lemma own_connectors_there: "set (own_connectors s e) \<subseteq> ran (sv_conn s)"
proof
  fix c assume "c \<in> set (own_connectors s e)"
  then obtain n where n: "n \<in> fst ` set (sv_connectors s)" "c = the (sv_conn s n)"
    by (auto simp: own_connectors_def all_connectors_def)
  then have "sv_conn s n \<noteq> None" by (simp add: sv_conn_def map_of_eq_None_iff)
  with n(2) show "c \<in> ran (sv_conn s)" by (auto simp: ran_def)
qed

interpretation reference_api: api_server serve_api sv_proxy sv_ad sv_conn sv_tpp sv_policy
proof unfold_locales
  show "\<exists>s' n p. serve_api s (CreateProxy np) = (s', RProxy (Inr p)) \<and> sv_proxy s n = None \<and> hp_name p = Some n \<and>
      hp_rules p = np_rules np \<and> \<not> hp_deleting p \<and> hp_annotations p = Some (np_annotations np) \<and>
      sv_proxy s' = (sv_proxy s)(n \<mapsto> p) \<and> sv_ad s' = sv_ad s \<and> sv_conn s' = sv_conn s" for s np
    using new_name_new [of "sv_proxies s" "np_generate_name np"]
    by (simp add: Let_def made_proxy_def sv_proxy_def)
  show "\<exists>s' n c. serve_api s (CreateConnector nc) = (s', RConnector (Inr c)) \<and> sv_conn s n = None \<and> cn_name c = Some n \<and>
      sv_conn s' = (sv_conn s)(n \<mapsto> c) \<and> sv_proxy s' = sv_proxy s \<and> sv_ad s' = sv_ad s" for s nc
    using new_name_new [of "sv_connectors s" "nc_generate_name nc"]
    by (simp add: Let_def made_connector_def sv_conn_def named_connector_def fun_eq_iff)
  show "\<exists>s' d. serve_api s (PatchConnector n anns) = (s', RConnector (Inr d)) \<and> cn_name d = cn_name c \<and>
      sv_conn s' = (sv_conn s)(n \<mapsto> d) \<and> sv_proxy s' = sv_proxy s \<and> sv_ad s' = sv_ad s" if "sv_conn s n = Some c" for s n c anns
    using that sv_conn_named [OF that] by (simp add: Let_def named_self)
  show "\<exists>s' r. serve_api s (PatchConnectorStatus n d) = (s', RDone r) \<and> sv_proxy s' = sv_proxy s \<and> sv_ad s' = sv_ad s \<and> sv_conn s' = sv_conn s" for s n d
    by (cases "sv_conn s n") simp_all
  show "\<exists>s' q. serve_api s (PatchProxy n pt) = (s', RProxy (Inr q)) \<and> is_patched pt p q \<and>
      sv_proxy s' = (sv_proxy s)(n \<mapsto> q) \<and> sv_ad s' = sv_ad s \<and> sv_conn s' = sv_conn s" if "sv_proxy s n = Some p" for s n p pt
    using that by (cases pt) (simp add: is_patched_def patched_proxy_def annotation_def map_of_Cons_code split: prod.split)
  show "\<exists>ads. serve_api s (ListAds (Some sel)) = (s, RAds (Inr ads)) \<and> set ads = {x \<in> ran (sv_ad s). ad_connector (ad_body x) = sel}" for s sel
    by (auto simp: sv_ad_def)
  show "serve_api s q = (s, RLocal (Inr ()))" if "is_local q" for s q using that by (rule local_api)
  show "cn_name c = Some n" if "sv_conn s n = Some c" for s n c using that by (rule sv_conn_named)
qed (auto simp: sv_proxy_def [symmetric] sv_ad_def own_connectors_there found_unit_def found_def sv_tpp_def sv_conn_def)



definition no_tunnels :: api_state where
  "no_tunnels = \<lparr>sv_proxies = [], sv_ads = [], sv_connectors = [], sv_details = [], sv_tpps = [], sv_policies = [],
     sv_addr = \<lparr>ea_id = ''node'', ea_relays = [''relay''], ea_ips = [(''10.0.0.2'', 4433)]\<rparr>\<rparr>"

definition api_world :: "api_state \<Rightarrow> (kube_request, kube_reply) world" where
  "api_world s = \<lparr>environment = (\<lambda>t es q. (snd (serve_api (replay serve_api es s) q), 1)), clock = 0, trace = []\<rparr>"

lemma api_world_on: "on_server serve_api s (api_world s)"
  unfolding on_server_def api_world_def by (intro exI [of _ s]) (simp add: replay_def)

lemma sample_endpoint: "good_endpoint (ts_url sample_service) ''homeassistant:8123''"
proof -
  have h: "plain_host ''homeassistant''" by code_simp
  have e: "''homeassistant'' @ '':'' @ show_nat 8123 = ''homeassistant:8123''"
    by (simp add: show_nat.simps [of 8123] show_nat.simps [of 812] show_nat.simps [of 81] show_nat.simps [of 8] char_of_def bit_simps)
  have u: "ts_url sample_service = sample_url" by (simp add: sample_service_def)
  show ?thesis unfolding good_endpoint_def u
    using parse_endpoint [OF sample_url_reads h, of 8123] strip_endpoint [OF sample_url_reads h, of 8123] e by simp
qed

theorem tunnel_operations_refine_the_table_witness:
  "on_server serve_api no_tunnels (api_world no_tunnels) \<and>
   wp serve_api (run_op sample_service ''p'' (CreateTunnel ''Home'' ''homeassistant:8123''))
     (\<lambda>r s'. r = Inr () \<and> (\<exists>t cn. table sv_proxy sv_ad s' = [t \<mapsto> \<lparr>row_label = ''Home'',
        row_endpoint = ''http://homeassistant:8123'', row_connector = Some cn, row_on = True\<rparr>])) no_tunnels"
proof
  show "on_server serve_api no_tunnels (api_world no_tunnels)" by (rule api_world_on)
  have t: "tidy sv_proxy sv_ad sv_conn no_tunnels" by (rule tidyI) (simp_all add: no_tunnels_def sv_proxy_def sv_ad_def)
  have empty: "table sv_proxy sv_ad no_tunnels = Map.empty" by (rule ext) (simp add: table_def no_tunnels_def sv_proxy_def)
  have n: "normalize_endpoint ''homeassistant:8123'' = ''http://homeassistant:8123''" by code_simp
  have r: "op_ready (ts_url sample_service) (table sv_proxy sv_ad no_tunnels) (CreateTunnel ''Home'' ''homeassistant:8123'')"
    by (simp add: sample_endpoint)
  show "wp serve_api (run_op sample_service ''p'' (CreateTunnel ''Home'' ''homeassistant:8123''))
     (\<lambda>r s'. r = Inr () \<and> (\<exists>t cn. table sv_proxy sv_ad s' = [t \<mapsto> \<lparr>row_label = ''Home'',
        row_endpoint = ''http://homeassistant:8123'', row_connector = Some cn, row_on = True\<rparr>])) no_tunnels"
    by (rule wp_mono [OF tunnel_operations_refine_the_table [OF reference_api.api_server_axioms t r]]) (auto simp: empty n)
qed

text \<open>
 when a tunnel is switched on by a node that has no connector yet, a new connector takes the place of
  the one the tunnel had, and the summary that is returned still names the old one.
\<close>

theorem enabled_summary_names_the_old_connector:
  assumes "api_server serve proxy ad conn tpp policy" "tidy proxy ad conn s" "proxy s t = Some p"
    "good_endpoint (ts_url svc) (proxy_endpoint p)" "proxy_connector_name p = Some old"
    "serve s (ListConnectors (Some (ts_endpoint_id svc))) = (s, RConnectors (Inr []))"
  shows "wp serve (set_enabled_project svc pr t True) (\<lambda>r s'. \<exists>sm cn. r = Inr sm \<and> ts_connector sm = Some old \<and>
    map_option row_connector (table proxy ad s' t) = Some (Some cn) \<and> cn \<noteq> old) s"
proof -
  have no: "api_server.no_own serve svc s" using assms(6) by (simp add: api_server.no_own_def [OF assms(1)])
  show ?thesis by (rule api_server.enabling_moves [OF assms(1-5) no])
qed

definition moved_proxy :: http_proxy where
  "moved_proxy = made_proxy ''tunnel-1'' \<lparr>np_generate_name = ''tunnel-'', np_annotations = [(DISPLAY_NAME_ANNOTATION, ''Home'')],
     np_rules = desired_proxy_rules ''http://homeassistant:8123'' ''other'' None\<rparr>"

definition moved_tunnel :: api_state where
  "moved_tunnel = no_tunnels\<lparr>sv_proxies := [(''tunnel-1'', moved_proxy)],
     sv_connectors := [(''other'', made_connector ''other'' \<lparr>nc_generate_name = [], nc_annotations = [], nc_class = []\<rparr>)]\<rparr>"

lemma moved_proxy_sel:
  "proxy_connector_name moved_proxy = Some ''other''" "proxy_endpoint moved_proxy = ''http://homeassistant:8123''" "\<not> hp_deleting moved_proxy"
proof -
  show "proxy_connector_name moved_proxy = Some ''other''" "\<not> hp_deleting moved_proxy"
    by (simp_all add: moved_proxy_def made_proxy_def proxy_connector_name_def)
  have "proxy_backend_endpoint moved_proxy = Some ''http://homeassistant:8123''"
    by (simp add: moved_proxy_def made_proxy_def proxy_backend_endpoint_def)
  moreover have "normalize_endpoint ''http://homeassistant:8123'' = ''http://homeassistant:8123''" by code_simp
  ultimately show "proxy_endpoint moved_proxy = ''http://homeassistant:8123''" by (simp add: proxy_endpoint_of)
qed

theorem enabled_summary_names_the_old_connector_witness:
  "on_server serve_api moved_tunnel (api_world moved_tunnel) \<and>
   wp serve_api (set_enabled_project sample_service ''p'' ''tunnel-1'' True) (\<lambda>r s'. \<exists>sm cn. r = Inr sm \<and>
     ts_connector sm = Some ''other'' \<and> map_option row_connector (table sv_proxy sv_ad s' ''tunnel-1'') = Some (Some cn) \<and>
     cn \<noteq> ''other'') moved_tunnel"
proof
  show "on_server serve_api moved_tunnel (api_world moved_tunnel)" by (rule api_world_on)
  have p: "sv_proxy moved_tunnel ''tunnel-1'' = Some moved_proxy" "sv_proxy moved_tunnel t = (if t = ''tunnel-1'' then Some moved_proxy else None)" for t
    by (simp_all add: moved_tunnel_def sv_proxy_def)
  have a: "sv_ad moved_tunnel t = None" for t by (simp add: moved_tunnel_def no_tunnels_def sv_ad_def)
  have c: "''other'' \<in> dom (sv_conn moved_tunnel)" by (simp add: moved_tunnel_def sv_conn_def dom_def)
  have t: "tidy sv_proxy sv_ad sv_conn moved_tunnel"
    using c by (intro tidyI) (auto simp: p a moved_proxy_sel split: if_splits)
  have n: "normalize_endpoint ''homeassistant:8123'' = ''http://homeassistant:8123''" by code_simp
  have "good_endpoint (ts_url sample_service) ''http://homeassistant:8123''"
    using sample_endpoint normalize_idem [of "''homeassistant:8123''"] unfolding good_endpoint_def n by simp
  then have g: "good_endpoint (ts_url sample_service) (proxy_endpoint moved_proxy)" by (simp add: moved_proxy_sel)
  have l: "serve_api moved_tunnel (ListConnectors (Some (ts_endpoint_id sample_service))) = (moved_tunnel, RConnectors (Inr []))"
    by (simp add: own_connectors_def moved_tunnel_def no_tunnels_def)
  show "wp serve_api (set_enabled_project sample_service ''p'' ''tunnel-1'' True) (\<lambda>r s'. \<exists>sm cn. r = Inr sm \<and>
     ts_connector sm = Some ''other'' \<and> map_option row_connector (table sv_proxy sv_ad s' ''tunnel-1'') = Some (Some cn) \<and>
     cn \<noteq> ''other'') moved_tunnel"
    by (rule enabled_summary_names_the_old_connector [OF reference_api.api_server_axioms t p(1) g moved_proxy_sel(1) l])
qed

end
