(* ===== verification/Heartbeat.thy ===== *)
theory Heartbeat
  imports Kube_Calls
begin

text \<open>
  \<open>heartbeat.rs\<close>: a loop for each project that finds this node's connector, publishes how it is reached and renews the
  lease that keeps it alive, and the agent that runs such loops for the projects that have a connector. A round of
  the loop is cut into the stages of its body; ending a round early is the error of a stage. A sleep that a
  cancellation ends early is a request the environment may answer before the sleep is over.
\<close>

section \<open>Requests\<close>

datatype login_state = LoginMissing | LoginValid | LoginRefreshing

record live_connector = connector +
  cn_lease :: "str option"
  cn_details :: "connection_details option"

text \<open>
  What the loop asks of the API, the node and the client: \<open>HbAwaitCancel\<close> is answered when the loop is cancelled,
  \<open>HbIsCancelled\<close> at once, \<open>HbJitter\<close> by the random number generator.
\<close>

datatype heart_request =
    HbControlPlane str
  | HbListConnectors str | HbGetConnector str | HbPatchDetails str connection_details
  | HbGetLease str | HbRenewLease str
  | HbEndpointAddr | HbLoginState | HbForceRefresh
  | HbJitter nat | HbIsCancelled | HbAwaitCancel
  | HbSpawn str nat | HbCancel str nat

datatype heart_reply =
    HrLocal "str + unit"
  | HrConnectors "kube_error + live_connector list" | HrConnector "kube_error + live_connector"
  | HrLease "kube_error + int option" | HrDone "kube_error + unit"
  | HrAddr endpoint_addr | HrLogin login_state | HrNumber nat | HrFlag bool

type_synonym 'a heart = "(heart_request, heart_reply, 'a) io"

fun hr_local :: "heart_reply \<Rightarrow> str + unit" where "hr_local (HrLocal x) = x" | "hr_local _ = Inl []"
fun hr_connectors :: "heart_reply \<Rightarrow> kube_error + live_connector list" where
  "hr_connectors (HrConnectors x) = x" | "hr_connectors _ = no_answer"
fun hr_connector :: "heart_reply \<Rightarrow> kube_error + live_connector" where
  "hr_connector (HrConnector x) = x" | "hr_connector _ = no_answer"
fun hr_lease :: "heart_reply \<Rightarrow> kube_error + int option" where "hr_lease (HrLease x) = x" | "hr_lease _ = no_answer"
fun hr_done :: "heart_reply \<Rightarrow> kube_error + unit" where "hr_done (HrDone x) = x" | "hr_done _ = no_answer"
fun hr_addr :: "heart_reply \<Rightarrow> endpoint_addr" where
  "hr_addr (HrAddr x) = x" | "hr_addr _ = \<lparr>ea_id = [], ea_relays = [], ea_ips = []\<rparr>"
fun hr_login :: "heart_reply \<Rightarrow> login_state" where "hr_login (HrLogin x) = x" | "hr_login _ = LoginMissing"
fun hr_number :: "heart_reply \<Rightarrow> nat" where "hr_number (HrNumber x) = x" | "hr_number _ = 0"
fun hr_flag :: "heart_reply \<Rightarrow> bool" where "hr_flag (HrFlag x) = x" | "hr_flag _ = False"

section \<open>Pauses\<close>

definition DEFAULT_LEASE_DURATION_SECS :: int where "DEFAULT_LEASE_DURATION_SECS = 30"
definition BACKOFF_INITIAL :: nat where "BACKOFF_INITIAL = 2000"
definition BACKOFF_MAX :: nat where "BACKOFF_MAX = 30000"

text \<open>\<open>Backoff::next\<close> waits the current pause; this is the one after it.\<close>

definition backoff_next :: "nat \<Rightarrow> nat" where
  "backoff_next current = min (current * 2) BACKOFF_MAX"

definition sleep_with_cancel :: "nat \<Rightarrow> unit heart" where
  "sleep_with_cancel duration = do { _ \<leftarrow> ask_within duration HbAwaitCancel; skip }"

definition renewal_base :: "int \<Rightarrow> nat" where
  "renewal_base lease_duration_seconds = max (nat (max lease_duration_seconds 1) div 2) 1"

definition renewal_interval :: "int \<Rightarrow> nat heart" where
  "renewal_interval lease_duration_seconds =
     (let base = renewal_base lease_duration_seconds; jitter_max = max (base div 5) 1 in do {
        jitter \<leftarrow> ask_as hr_number (HbJitter jitter_max);
        State_Monad.return (1000 * (base + min jitter jitter_max))
      })"

section \<open>The loop of a project\<close>

record connector_cache =
  cc_name :: str
  cc_lease_name :: "str option"
  cc_lease_duration :: "int option"
  cc_last_details :: "connection_details option"
  cc_last_home_relay :: "str option"

datatype lease_error_action = Retain | Reset | RefreshAuth

definition classify_lease_error :: "kube_error \<Rightarrow> lease_error_action" where
  "classify_lease_error err = (if is_not_found err then Reset
     else if is_unauthorized err then RefreshAuth else Retain)"

text \<open>The project, and the node's public key, which never changes.\<close>

record heart_settings =
  hs_project :: str
  hs_endpoint_id :: str

text \<open>What the loop carries from round to round: the next pause, in milliseconds, and the cache.\<close>

type_synonym heart_state = "nat \<times> connector_cache option"

definition force_refresh_auth :: "unit heart" where
  "force_refresh_auth = do {
     s \<leftarrow> ask_as hr_login HbLoginState;
     (if s = LoginMissing then skip else signal HbForceRefresh)
   }"

definition refresh_if_unauthorized :: "kube_error \<Rightarrow> unit heart" where
  "refresh_if_unauthorized err = (if is_unauthorized err then force_refresh_auth else skip)"

text \<open>\<^verbatim>\<open>sleep_with_cancel(backoff.next(), &cancel).await; continue\<close>, the cache as it is to be.\<close>

definition later :: "nat \<Rightarrow> connector_cache option \<Rightarrow> (heart_state + 'a) heart" where
  "later backoff cache = do {
     sleep_with_cancel backoff;
     State_Monad.return (Inl (backoff_next backoff, cache))
   }"

definition find_connector_by_id :: "str \<Rightarrow> (kube_error + live_connector option) heart" where
  "find_connector_by_id endpoint_id = do {
     r \<leftarrow> ask_as hr_connectors (HbListConnectors endpoint_id);
     State_Monad.return (case r of
       Inl e \<Rightarrow> Inl e
     | Inr [] \<Rightarrow> Inr None
     | Inr (c # _) \<Rightarrow> Inr (Some c))
   }"

definition home_relay_of :: "live_connector \<Rightarrow> str option" where
  "home_relay_of c = map_option de_home_relay (cn_details c)"

definition cache_of :: "live_connector \<Rightarrow> connector_cache" where
  "cache_of c = \<lparr>cc_name = name_any (cn_name c) (cn_generate_name c), cc_lease_name = cn_lease c,
     cc_lease_duration = None, cc_last_details = None, cc_last_home_relay = home_relay_of c\<rparr>"

text \<open>The stages of a round: each goes on with the cache, or ends the round with the state of the next.\<close>

definition look_up :: "heart_settings \<Rightarrow> heart_state \<Rightarrow> (heart_state + nat \<times> connector_cache) heart" where
  "look_up hs s = (case s of
     (backoff, Some cached) \<Rightarrow> State_Monad.return (Inr (backoff, cached))
   | (backoff, None) \<Rightarrow> do {
       found \<leftarrow> find_connector_by_id (hs_endpoint_id hs);
       (case found of
          Inr (Some c) \<Rightarrow> State_Monad.return (Inr (BACKOFF_INITIAL, cache_of c))
        | Inr None \<Rightarrow> later backoff None
        | Inl err \<Rightarrow> do { refresh_if_unauthorized err; later backoff None })
     })"

definition learn_lease :: "nat \<Rightarrow> connector_cache \<Rightarrow> (heart_state + connector_cache) heart" where
  "learn_lease backoff cached = (case cc_lease_name cached of
     Some _ \<Rightarrow> State_Monad.return (Inr cached)
   | None \<Rightarrow> do {
       r \<leftarrow> ask_as hr_connector (HbGetConnector (cc_name cached));
       (case r of
          Inr c \<Rightarrow> (case cn_lease c of
              None \<Rightarrow> later backoff (Some cached)
            | Some l \<Rightarrow> State_Monad.return (Inr (cached\<lparr>cc_lease_name := Some l, cc_last_home_relay := home_relay_of c\<rparr>)))
        | Inl err \<Rightarrow> do { refresh_if_unauthorized err; later backoff None })
     })"

definition provider_details :: "endpoint_addr \<Rightarrow> str option \<Rightarrow> connection_details option" where
  "provider_details a fallback_home_relay =
     map_option (\<lambda>relay. \<lparr>de_id = ea_id a, de_home_relay = relay,
         de_addresses = map (\<lambda>(ip, p). (ip, int p)) (ea_ips a)\<rparr>)
       (case ea_relays a of r # _ \<Rightarrow> Some r | [] \<Rightarrow> fallback_home_relay)"

text \<open>The connection details as JSON are compared; two that serialise alike are equal. Serialising them cannot fail.\<close>

definition publish_new_details :: "nat \<Rightarrow> connector_cache \<Rightarrow> (heart_state + connector_cache) heart" where
  "publish_new_details backoff cached = do {
     a \<leftarrow> ask_as hr_addr HbEndpointAddr;
     (case provider_details a (cc_last_home_relay cached) of
        None \<Rightarrow> later backoff (Some cached)
      | Some details \<Rightarrow>
          if cc_last_details cached = Some details then State_Monad.return (Inr cached)
          else do {
            r \<leftarrow> ask_as hr_done (HbPatchDetails (cc_name cached) details);
            (case r of
               Inr _ \<Rightarrow> State_Monad.return (Inr (cached\<lparr>cc_last_details := Some details\<rparr>))
             | Inl err \<Rightarrow>
                 if is_unauthorized err then do { force_refresh_auth; later backoff (Some cached) }
                 else State_Monad.return (Inr cached))
          })
   }"

definition after_lease_error :: "kube_error \<Rightarrow> nat \<Rightarrow> connector_cache \<Rightarrow> (heart_state + 'a) heart" where
  "after_lease_error err backoff cached = (case classify_lease_error err of
     Reset \<Rightarrow> later backoff None
   | RefreshAuth \<Rightarrow> do { force_refresh_auth; later backoff (Some cached) }
   | Retain \<Rightarrow> later backoff (Some cached))"

definition learn_duration :: "nat \<Rightarrow> connector_cache \<Rightarrow> (heart_state + connector_cache) heart" where
  "learn_duration backoff cached = (case cc_lease_duration cached of
     Some _ \<Rightarrow> State_Monad.return (Inr cached)
   | None \<Rightarrow> (case cc_lease_name cached of
       None \<Rightarrow> later backoff (Some cached)
     | Some lease_name \<Rightarrow> do {
         r \<leftarrow> ask_as hr_lease (HbGetLease lease_name);
         (case r of
            Inr d \<Rightarrow> State_Monad.return (Inr (cached\<lparr>cc_lease_duration := d\<rparr>))
          | Inl err \<Rightarrow> after_lease_error err backoff cached)
       }))"

definition renew :: "nat \<Rightarrow> connector_cache \<Rightarrow> (heart_state + 'a) heart" where
  "renew backoff cached = (case cc_lease_name cached of
     None \<Rightarrow> later backoff (Some cached)
   | Some lease_name \<Rightarrow> do {
       r \<leftarrow> ask_as hr_done (HbRenewLease lease_name);
       (case r of
          Inl err \<Rightarrow> after_lease_error err backoff cached
        | Inr _ \<Rightarrow> do {
            interval \<leftarrow> renewal_interval (case cc_lease_duration cached of Some d \<Rightarrow> d | None \<Rightarrow> DEFAULT_LEASE_DURATION_SECS);
            sleep_with_cancel interval;
            State_Monad.return (Inl (BACKOFF_INITIAL, Some cached))
          })
     })"

definition heart_round :: "heart_settings \<Rightarrow> heart_state \<Rightarrow> (heart_state + unit) heart" where
  "heart_round hs s = do {
     cancelled \<leftarrow> ask_as hr_flag HbIsCancelled;
     if cancelled then State_Monad.return (Inr ())
     else do {
       pcp \<leftarrow> ask_as hr_local (HbControlPlane (hs_project hs));
       (case pcp of
          Inl _ \<Rightarrow> later (fst s) (snd s)
        | Inr _ \<Rightarrow>
            try_bind (look_up hs s) (\<lambda>(backoff, found).
            try_bind (learn_lease backoff found) (\<lambda>named.
            try_bind (publish_new_details backoff named) (\<lambda>published.
            try_bind (learn_duration backoff published) (\<lambda>cached.
              renew backoff cached)))))
     }
   }"

definition heart_start :: heart_state where "heart_start = (BACKOFF_INITIAL, None)"

definition run_project :: "nat \<Rightarrow> heart_settings \<Rightarrow> unit option heart" where
  "run_project fuel hs = repeat_io fuel (heart_round hs) heart_start"

section \<open>The agent\<close>

text \<open>
  The heartbeats that run, each with the number of its task, the projects as last seen, and whether a start was made.
  Removing a heartbeat cancels its task and drops its handle, which stops it: \<open>HbCancel\<close>.
\<close>

record heart_agent =
  ha_projects :: "(str \<times> nat) list"
  ha_known :: "str set"
  ha_started :: bool
  ha_next :: nat

definition new_agent :: heart_agent where
  "new_agent = \<lparr>ha_projects = [], ha_known = {}, ha_started = False, ha_next = 0\<rparr>"

definition register_project :: "str \<Rightarrow> heart_agent \<Rightarrow> heart_agent heart" where
  "register_project project_id a =
     (if map_of (ha_projects a) project_id \<noteq> None then State_Monad.return a
      else do {
        signal (HbSpawn project_id (ha_next a));
        State_Monad.return (a\<lparr>ha_projects := (project_id, ha_next a) # ha_projects a, ha_next := Suc (ha_next a)\<rparr>)
      })"

definition deregister_project :: "str \<Rightarrow> heart_agent \<Rightarrow> heart_agent heart" where
  "deregister_project project_id a = (case map_of (ha_projects a) project_id of
     None \<Rightarrow> State_Monad.return a
   | Some n \<Rightarrow> do {
       signal (HbCancel project_id n);
       State_Monad.return (a\<lparr>ha_projects := filter (\<lambda>p. fst p \<noteq> project_id) (ha_projects a)\<rparr>)
     })"

fun for_each :: "('a \<Rightarrow> heart_agent \<Rightarrow> heart_agent heart) \<Rightarrow> 'a list \<Rightarrow> heart_agent \<Rightarrow> heart_agent heart" where
  "for_each f [] a = State_Monad.return a"
| "for_each f (x # xs) a = do { b \<leftarrow> f x a; for_each f xs b }"

definition clear_projects :: "heart_agent \<Rightarrow> heart_agent heart" where
  "clear_projects a = for_each deregister_project (map fst (ha_projects a)) a"

definition clear_known_projects :: "heart_agent \<Rightarrow> heart_agent" where
  "clear_known_projects a = a\<lparr>ha_known := {}\<rparr>"

definition probe_connector :: "str \<Rightarrow> str \<Rightarrow> (unit + bool) heart" where
  "probe_connector endpoint_id project_id = do {
     pcp \<leftarrow> ask_as hr_local (HbControlPlane project_id);
     (case pcp of
        Inl _ \<Rightarrow> State_Monad.return (Inl ())
      | Inr _ \<Rightarrow> do {
          found \<leftarrow> find_connector_by_id endpoint_id;
          State_Monad.return (map_sum (\<lambda>_. ()) (\<lambda>c. c \<noteq> None) found)
        })
   }"

definition enrol :: "str \<Rightarrow> str \<Rightarrow> heart_agent \<Rightarrow> heart_agent heart" where
  "enrol endpoint_id project_id a =
     (if map_of (ha_projects a) project_id \<noteq> None then State_Monad.return a
      else do {
        probed \<leftarrow> probe_connector endpoint_id project_id;
        (if probed = Inr True then register_project project_id a else State_Monad.return a)
      })"

definition drop_unless :: "str set \<Rightarrow> str \<Rightarrow> heart_agent \<Rightarrow> heart_agent heart" where
  "drop_unless projects project_id a =
     (if project_id \<in> projects then State_Monad.return a else deregister_project project_id a)"

text \<open>
  \<open>orgs\<close> is the cache of organizations with their projects. A hash set is gone through in an order of its own; here in the
  order of the cache.
\<close>

definition refresh_projects :: "str \<Rightarrow> str list list \<Rightarrow> heart_agent \<Rightarrow> heart_agent heart" where
  "refresh_projects endpoint_id orgs a =
     (let next_projects = remdups (concat orgs) in
      if ha_known a = set next_projects then State_Monad.return a
      else do {
        b \<leftarrow> for_each (drop_unless (set next_projects)) (map fst (ha_projects a)) (a\<lparr>ha_known := set next_projects\<rparr>);
        for_each (enrol endpoint_id) next_projects b
      })"

text \<open>
  \<open>is_plugin_mode\<close> is True in this repository; then the start is one refresh and is not recorded. Otherwise a task watches
  the login and the projects: one step of it for each change.
\<close>

definition start_agent :: "bool \<Rightarrow> str \<Rightarrow> str list list \<Rightarrow> heart_agent \<Rightarrow> heart_agent heart" where
  "start_agent plugin_mode endpoint_id orgs a =
     (if ha_started a then State_Monad.return a
      else if plugin_mode then refresh_projects endpoint_id orgs a
      else State_Monad.return (a\<lparr>ha_started := True\<rparr>))"

definition start_manual :: "heart_agent \<Rightarrow> heart_agent" where
  "start_manual a = (if ha_started a then a else a\<lparr>ha_started := True\<rparr>)"

datatype watch_change = WatchBegins login_state | LoginChanged login_state | ProjectsChanged login_state

fun watch_step :: "str \<Rightarrow> str list list \<Rightarrow> watch_change \<Rightarrow> heart_agent \<Rightarrow> heart_agent heart" where
  "watch_step endpoint_id orgs (WatchBegins login) a =
     (if login \<noteq> LoginMissing then refresh_projects endpoint_id orgs a else State_Monad.return a)"
| "watch_step endpoint_id orgs (LoginChanged login) a =
     (if login = LoginMissing then do { b \<leftarrow> clear_projects a; State_Monad.return (clear_known_projects b) }
      else refresh_projects endpoint_id orgs a)"
| "watch_step endpoint_id orgs (ProjectsChanged login) a =
     (if login \<noteq> LoginMissing then refresh_projects endpoint_id orgs a else State_Monad.return a)"

end
