(* ===== verification/Heartbeat_Facts.thy ===== *)
theory Heartbeat_Facts
  imports Heartbeat
begin

text \<open>
  What the heartbeat acts on: every connector and lease it names in a request was named to it before, under the node's
  own key. The stages of a round keep an invariant that ties the cache to the trace.
\<close>

section \<open>What the loop acts on\<close>

text \<open>The requests that name an object, and the reply that says the name: under the node's own key, or by its connector.\<close>

fun acts :: "heart_request \<Rightarrow> bool" where
  "acts (HbRenewLease _) = True" | "acts (HbGetLease _) = True"
| "acts (HbPatchDetails _ _) = True" | "acts (HbGetConnector _) = True" | "acts _ = False"

type_synonym heart_event = "(heart_request, heart_reply) event"

definition names_connector :: "str \<Rightarrow> str \<Rightarrow> heart_event \<Rightarrow> bool" where
  "names_connector endpoint_id n d \<longleftrightarrow> request d = HbListConnectors endpoint_id \<and>
     (\<exists>c cs. reply d = Some (HrConnectors (Inr (c # cs))) \<and> name_any (cn_name c) (cn_generate_name c) = n)"

definition names_lease :: "str \<Rightarrow> str \<Rightarrow> heart_event \<Rightarrow> bool" where
  "names_lease endpoint_id l d \<longleftrightarrow>
     (request d = HbListConnectors endpoint_id \<and>
        (\<exists>c cs. reply d = Some (HrConnectors (Inr (c # cs))) \<and> cn_lease c = Some l)) \<or>
     (\<exists>n c. request d = HbGetConnector n \<and> reply d = Some (HrConnector (Inr c)) \<and> cn_lease c = Some l)"

definition vouches :: "str \<Rightarrow> heart_event \<Rightarrow> heart_event \<Rightarrow> bool" where
  "vouches endpoint_id d e \<longleftrightarrow> (case request e of
     HbRenewLease l \<Rightarrow> names_lease endpoint_id l d
   | HbGetLease l \<Rightarrow> names_lease endpoint_id l d
   | HbPatchDetails n _ \<Rightarrow> names_connector endpoint_id n d
   | HbGetConnector n \<Rightarrow> names_connector endpoint_id n d
   | _ \<Rightarrow> True)"

abbreviation only_vouched :: "str \<Rightarrow> heart_event list \<Rightarrow> bool" where
  "only_vouched endpoint_id \<equiv> preceded (\<lambda>e. acts (request e)) (vouches endpoint_id)"

text \<open>What the trace so far vouches for in the cache.\<close>

definition vouched :: "str \<Rightarrow> heart_event list \<Rightarrow> connector_cache \<Rightarrow> bool" where
  "vouched endpoint_id es c \<longleftrightarrow> (\<exists>d \<in> set es. names_connector endpoint_id (cc_name c) d) \<and>
     (\<forall>l. cc_lease_name c = Some l \<longrightarrow> (\<exists>d \<in> set es. names_lease endpoint_id l d))"

definition sound :: "str \<Rightarrow> (heart_request, heart_reply) world \<Rightarrow> connector_cache option \<Rightarrow>
    (heart_request, heart_reply) world \<Rightarrow> bool" where
  "sound endpoint_id w0 cached w \<longleftrightarrow> (\<exists>es. trace w = trace w0 @ es \<and> only_vouched endpoint_id es \<and>
     (\<forall>c. cached = Some c \<longrightarrow> vouched endpoint_id es c))"

lemma vouched_mono: "vouched i es c \<Longrightarrow> vouched i (es @ fs) c"
  unfolding vouched_def by fastforce

lemma sound_extend:
  assumes "sound i w0 cached w" "trace w' = trace w @ [e]"
    and "acts (request e) \<Longrightarrow> \<exists>c. cached = Some c \<and> (\<forall>es. vouched i es c \<longrightarrow> (\<exists>d \<in> set es. vouches i d e))"
    and "\<And>c es. (\<And>c. cached = Some c \<Longrightarrow> vouched i es c) \<Longrightarrow> cached' = Some c \<Longrightarrow> vouched i (es @ [e]) c"
  shows "sound i w0 cached' w'"
proof -
  from assms(1) obtain es where es: "trace w = trace w0 @ es" "only_vouched i es" "\<And>c. cached = Some c \<Longrightarrow> vouched i es c"
    by (auto simp: sound_def)
  have "only_vouched i (es @ [e])"
    using es(2) by (rule preceded_snoc) (use assms(3) es(3) in blast)
  with es assms(2,4) show ?thesis unfolding sound_def by (intro exI [of _ "es @ [e]"]) simp
qed

lemma sound_weaken: "sound i w0 cached w \<Longrightarrow> cached' \<in> {cached, None} \<Longrightarrow> sound i w0 cached' w"
  by (auto simp: sound_def)

text \<open>A request that names nothing, or what the cache vouches for, keeps what is known.\<close>

lemma sound_ask:
  assumes "acts q \<Longrightarrow> \<exists>c. cached = Some c \<and> (\<forall>es t r. vouched i es c \<longrightarrow> (\<exists>d \<in> set es. vouches i d (Event t q r)))"
  shows "hoare (sound i w0 cached) (ask_as f q) (\<lambda>_. sound i w0 cached)"
proof (rule hoare_post [OF hoare_ask_as], elim exE conjE)
  fix a w' w d r
  assume s: "sound i w0 cached w"
    and w': "w' = w\<lparr>clock := clock w + d, trace := trace w @ [Event (clock w) q (Some r)]\<rparr>"
  show "sound i w0 cached w'"
    by (rule sound_extend [OF s, where e = "Event (clock w) q (Some r)"])
       (use assms w' in \<open>force intro: vouched_mono\<close>)+
qed

lemma sound_ask_free: "\<not> acts q \<Longrightarrow> hoare (sound i w0 cached) (ask_as f q) (\<lambda>_. sound i w0 cached)"
  by (rule sound_ask) simp

lemma sound_signal: "\<not> acts q \<Longrightarrow> hoare (sound i w0 cached) (signal q) (\<lambda>_. sound i w0 cached)"
  by (rule hoare_post [OF hoare_signal]) (auto intro!: vouched_mono elim!: sound_extend)

lemma sound_sleep: "hoare (sound i w0 cached) (sleep_with_cancel d) (\<lambda>_. sound i w0 cached)"
proof -
  have "hoare (sound i w0 cached) (ask_within d HbAwaitCancel) (\<lambda>_. sound i w0 cached)"
    by (rule hoareI) (auto dest!: run_ask_within intro!: vouched_mono elim!: sound_extend)
  then show ?thesis unfolding sleep_with_cancel_def
    by (rule hoare_bind) (rule hoare_skip)
qed

lemma sound_later:
  assumes "cached' \<in> {cached, None}"
  shows "hoare (sound i w0 cached) (later backoff cached') (\<lambda>r w. case r of Inl s \<Rightarrow> sound i w0 (snd s) w | Inr a \<Rightarrow> R a w)"
  unfolding later_def
  by (rule hoare_bind [OF sound_sleep], rule hoare_return) (use assms in \<open>auto intro: sound_weaken\<close>)

lemma sound_refresh: "hoare (sound i w0 cached) force_refresh_auth (\<lambda>_. sound i w0 cached)"
  unfolding force_refresh_auth_def
  by (rule hoare_bind [OF sound_ask_free]) (auto intro!: hoare_if hoare_skip sound_signal)

lemma sound_refresh_if: "hoare (sound i w0 cached) (refresh_if_unauthorized err) (\<lambda>_. sound i w0 cached)"
  unfolding refresh_if_unauthorized_def by (auto intro!: hoare_if hoare_skip sound_refresh)

lemmas sound_rules = hoare_bind [OF sound_refresh sound_later] hoare_bind [OF sound_refresh_if sound_later] sound_later

section \<open>The stages of a round\<close>

lemma sound_find:
  "hoare (sound i w0 None) (find_connector_by_id i)
     (\<lambda>r. sound i w0 (case r of Inr (Some c) \<Rightarrow> Some (cache_of c) | _ \<Rightarrow> None))"
  unfolding find_connector_by_id_def
proof (rule hoare_bind [OF hoare_ask_as], rule hoare_return, elim exE conjE)
  fix a w' w d r
  assume s: "sound i w0 None w" and a: "a = hr_connectors r"
    and w': "w' = w\<lparr>clock := clock w + d, trace := trace w @ [Event (clock w) (HbListConnectors i) (Some r)]\<rparr>"
  have "vouched i (es @ [Event (clock w) (HbListConnectors i) (Some (HrConnectors (Inr (c # cs))))]) (cache_of c)" for es c cs
    by (auto simp: vouched_def cache_of_def names_connector_def names_lease_def)
  then show "sound i w0 (case case a of Inl e \<Rightarrow> Inl e | Inr [] \<Rightarrow> Inr None | Inr (c # cs) \<Rightarrow> Inr (Some c) of
      Inr (Some c) \<Rightarrow> Some (cache_of c) | _ \<Rightarrow> None) w'"
    by (intro sound_extend [OF s, of w' "Event (clock w) (HbListConnectors i) (Some r)"])
       (use w' a in \<open>cases r; auto simp: no_answer_def split: sum.splits list.splits\<close>)+
qed

abbreviation goes_on :: "str \<Rightarrow> (heart_request, heart_reply) world \<Rightarrow> ('a \<Rightarrow> connector_cache) \<Rightarrow> heart_state + 'a \<Rightarrow>
    (heart_request, heart_reply) world \<Rightarrow> bool" where
  "goes_on i w0 the_cache r w \<equiv> (case r of Inl s \<Rightarrow> sound i w0 (snd s) w | Inr a \<Rightarrow> sound i w0 (Some (the_cache a)) w)"

lemma sound_look_up:
  "hoare (sound (hs_endpoint_id hs) w0 (snd s)) (look_up hs s) (goes_on (hs_endpoint_id hs) w0 snd)"
proof -
  obtain b cached where s: "s = (b, cached)" by fastforce
  show ?thesis unfolding s look_up_def
    by (cases cached)
       (auto intro!: hoare_return hoare_bind [OF sound_find] hoare_case_sum hoare_case_option sound_rules)
qed

lemma sound_learn_lease:
  "hoare (sound i w0 (Some cached)) (learn_lease backoff cached) (goes_on i w0 id)"
proof (cases "cc_lease_name cached")
  case None
  have "hoare (sound i w0 (Some cached)) (ask_as hr_connector (HbGetConnector (cc_name cached)))
      (\<lambda>r w. sound i w0 (Some cached) w \<and> (\<forall>c l. r = Inr c \<longrightarrow> cn_lease c = Some l \<longrightarrow>
         sound i w0 (Some (cached\<lparr>cc_lease_name := Some l, cc_last_home_relay := home_relay_of c\<rparr>)) w))"
  proof (rule hoare_post [OF hoare_ask_as], elim exE conjE)
    fix a d and r :: heart_reply and w w' :: "(heart_request, heart_reply) world"
    let ?e = "Event (clock w) (HbGetConnector (cc_name cached)) (Some r)"
    assume st: "sound i w0 (Some cached) w" and a: "a = hr_connector r"
      and w': "w' = w\<lparr>clock := clock w + d, trace := trace w @ [?e]\<rparr>"
    have v: "\<exists>c. Some cached = Some c \<and> (\<forall>es. vouched i es c \<longrightarrow> (\<exists>d \<in> set es. vouches i d ?e))"
      by (auto simp: vouched_def vouches_def)
    have "sound i w0 (Some (cached\<lparr>cc_lease_name := Some l, cc_last_home_relay := home_relay_of c\<rparr>)) w'"
      if "a = Inr c" "cn_lease c = Some l" for c l
    proof (rule sound_extend [OF st, of _ ?e])
      from that a have "names_lease i l ?e" by (cases r) (auto simp: names_lease_def no_answer_def)
      then show "vouched i (es @ [?e]) c'" if "\<And>c. Some cached = Some c \<Longrightarrow> vouched i es c"
        "Some (cached\<lparr>cc_lease_name := Some l, cc_last_home_relay := home_relay_of c\<rparr>) = Some c'" for c' es
        using that by (auto simp: vouched_def)
    qed (use w' v in simp_all)
    moreover have "sound i w0 (Some cached) w'"
      by (rule sound_extend [OF st, of _ ?e]) (use w' v in \<open>auto intro: vouched_mono\<close>)
    ultimately show "sound i w0 (Some cached) w' \<and> (\<forall>c l. a = Inr c \<longrightarrow> cn_lease c = Some l \<longrightarrow>
         sound i w0 (Some (cached\<lparr>cc_lease_name := Some l, cc_last_home_relay := home_relay_of c\<rparr>)) w')" by blast
  qed
  then show ?thesis unfolding learn_lease_def None option.case
    by (rule hoare_bind)
       (auto intro!: hoare_case_sum hoare_case_option hoare_return intro: sound_rules [THEN hoare_pre])
next
  case (Some l)
  then show ?thesis by (simp add: learn_lease_def hoare_return)
qed

lemma sound_update [simp]:
  "sound i w0 (Some (c\<lparr>cc_last_details := x\<rparr>)) w \<longleftrightarrow> sound i w0 (Some c) w"
  "sound i w0 (Some (c\<lparr>cc_lease_duration := y\<rparr>)) w \<longleftrightarrow> sound i w0 (Some c) w"
  by (simp_all add: sound_def vouched_def)

lemma sound_publish:
  "hoare (sound i w0 (Some cached)) (publish_new_details backoff cached) (goes_on i w0 id)"
  unfolding publish_new_details_def
proof (rule hoare_bind [OF sound_ask_free])
  fix a
  have patch: "hoare (sound i w0 (Some cached)) (ask_as hr_done (HbPatchDetails (cc_name cached) d)) (\<lambda>_. sound i w0 (Some cached))" for d
    by (rule sound_ask) (auto simp: vouched_def vouches_def)
  show "hoare (sound i w0 (Some cached)) (case provider_details a (cc_last_home_relay cached) of
      None \<Rightarrow> later backoff (Some cached)
    | Some details \<Rightarrow> if cc_last_details cached = Some details then State_Monad.return (Inr cached)
        else do { r \<leftarrow> ask_as hr_done (HbPatchDetails (cc_name cached) details);
          (case r of Inr _ \<Rightarrow> State_Monad.return (Inr (cached\<lparr>cc_last_details := Some details\<rparr>))
           | Inl err \<Rightarrow> if is_unauthorized err then do { force_refresh_auth; later backoff (Some cached) }
               else State_Monad.return (Inr cached)) }) (goes_on i w0 id)"
    by (intro hoare_case_option hoare_if hoare_bind [OF patch] hoare_case_sum)
       (auto intro!: sound_rules hoare_return)
qed simp

lemma sound_lease_error:
  "hoare (sound i w0 (Some cached)) (after_lease_error err backoff cached)
     (\<lambda>r w. case r of Inl s \<Rightarrow> sound i w0 (snd s) w | Inr a \<Rightarrow> R a w)"
  unfolding after_lease_error_def by (cases "classify_lease_error err") (auto intro!: sound_rules)

lemma sound_lease_ask:
  "cc_lease_name cached = Some l \<Longrightarrow> q \<in> {HbGetLease l, HbRenewLease l} \<Longrightarrow>
   hoare (sound i w0 (Some cached)) (ask_as f q) (\<lambda>_. sound i w0 (Some cached))"
  by (rule sound_ask) (auto simp: vouched_def vouches_def)

lemma sound_learn_duration:
  "hoare (sound i w0 (Some cached)) (learn_duration backoff cached) (goes_on i w0 id)"
  unfolding learn_duration_def
  by (auto split: option.split intro!: hoare_return sound_rules hoare_case_sum sound_lease_error
      hoare_bind [OF sound_lease_ask])

lemma sound_renew:
  "hoare (sound i w0 (Some cached)) (renew backoff cached) (\<lambda>r w. case r of Inl s \<Rightarrow> sound i w0 (snd s) w | Inr a \<Rightarrow> R a w)"
proof (cases "cc_lease_name cached")
  case None
  then show ?thesis by (simp add: renew_def sound_later)
next
  case (Some l)
  have interval: "hoare (sound i w0 (Some cached)) (renewal_interval d) (\<lambda>_. sound i w0 (Some cached))" for d
    unfolding renewal_interval_def Let_def by (rule hoare_bind [OF sound_ask_free]) (auto intro: hoare_return)
  show ?thesis unfolding renew_def Some option.case
    by (rule hoare_bind [OF sound_lease_ask [OF Some]])
       (auto intro!: hoare_return hoare_case_sum sound_lease_error hoare_bind [OF interval] hoare_bind [OF sound_sleep])
qed

lemma sound_round:
  "hoare (sound (hs_endpoint_id hs) w0 (snd s)) (heart_round hs s)
     (\<lambda>r w. case r of Inl s' \<Rightarrow> sound (hs_endpoint_id hs) w0 (snd s') w | Inr _ \<Rightarrow> sound (hs_endpoint_id hs) w0 None w)"
proof -
  let ?i = "hs_endpoint_id hs"
  let ?Q = "\<lambda>r w. case r of Inl s' \<Rightarrow> sound ?i w0 (snd s') w | Inr _ \<Rightarrow> sound ?i w0 None w"
  have stages: "hoare (sound ?i w0 (snd s)) (try_bind (look_up hs s) (\<lambda>(backoff, found).
      try_bind (learn_lease backoff found) (\<lambda>named. try_bind (publish_new_details backoff named) (\<lambda>published.
      try_bind (learn_duration backoff published) (\<lambda>cached. renew backoff cached))))) ?Q"
    unfolding case_prod_beta
  proof (rule hoare_try [where R = "\<lambda>x. sound ?i w0 (Some (snd x))", OF hoare_post [OF sound_look_up]])
    fix a
    show "hoare (sound ?i w0 (Some (snd a))) (try_bind (learn_lease (fst a) (snd a)) (\<lambda>named.
        try_bind (publish_new_details (fst a) named) (\<lambda>published.
        try_bind (learn_duration (fst a) published) (\<lambda>cached. renew (fst a) cached)))) ?Q"
      by (rule hoare_try [where R = "\<lambda>x. sound ?i w0 (Some x)", OF hoare_post [OF sound_learn_lease]],
          force split: sum.splits,
          rule hoare_try [where R = "\<lambda>x. sound ?i w0 (Some x)", OF hoare_post [OF sound_publish]],
          force split: sum.splits,
          rule hoare_try [where R = "\<lambda>x. sound ?i w0 (Some x)", OF hoare_post [OF sound_learn_duration]],
          force split: sum.splits, rule sound_renew)
  qed (force split: sum.splits)
  show ?thesis unfolding heart_round_def
    by (intro hoare_bind [OF sound_ask_free] hoare_if hoare_case_sum)
       (auto intro!: hoare_return sound_rules stages elim: sound_weaken)
qed

text \<open>
  C9: whatever it is answered, the heartbeat of a node acts only on its own: it reads and changes only a connector that was
  listed under the node's own key, and reads and renews only a lease that such a connector names.
\<close>

theorem heartbeat_stays_with_its_connector:
  "leaves (only_vouched (hs_endpoint_id hs)) (run_project fuel hs)"
proof (rule leavesI)
  fix w a w'
  assume run: "run_state (run_project fuel hs) w = (a, w')"
  let ?I = "\<lambda>s. sound (hs_endpoint_id hs) w (snd s)"
  have "hoare (?I heart_start) (run_project fuel hs) (\<lambda>_. sound (hs_endpoint_id hs) w None)"
    unfolding run_project_def by (rule hoare_repeat_always [OF sound_round]) (auto elim: sound_weaken)
  moreover have "?I heart_start w" by (simp add: sound_def heart_start_def preceded_def)
  ultimately have "sound (hs_endpoint_id hs) w None w'" using run by (rule hoareD)
  then show "\<exists>es. trace w' = trace w @ es \<and> only_vouched (hs_endpoint_id hs) es" by (auto simp: sound_def)
qed

end
