(* ===== verification/Heartbeat_Renewal.thy ===== *)
theory Heartbeat_Renewal
  imports Heartbeat_Facts
begin

text \<open>
  That the heartbeat keeps the lease alive when the API works: triples that carry an upper bound of the clock and the
  times of the renewals through the stages of a round, then through the rounds.
\<close>

section \<open>Against an API that works\<close>

text \<open>
  The API answers within \<open>delay\<close>; it knows one connector of this node, whose lease is \<open>l\<close> with the duration \<open>dur\<close>, and
  any other lease not at all; the node has a relay, and nobody cancels.
\<close>

fun well_answered :: "str \<Rightarrow> str \<Rightarrow> int option \<Rightarrow> heart_request \<Rightarrow> heart_reply \<Rightarrow> bool" where
  "well_answered i l dur HbIsCancelled r \<longleftrightarrow> \<not> hr_flag r"
| "well_answered i l dur (HbControlPlane _) r \<longleftrightarrow> hr_local r = Inr ()"
| "well_answered i l dur (HbListConnectors j) r \<longleftrightarrow> (j = i \<longrightarrow> (\<exists>c cs. hr_connectors r = Inr (c # cs) \<and> cn_lease c = Some l))"
| "well_answered i l dur (HbGetConnector _) r \<longleftrightarrow>
     (case hr_connector r of Inr c \<Rightarrow> cn_lease c = Some l | Inl e \<Rightarrow> is_not_found e)"
| "well_answered i l dur (HbPatchDetails _ _) r \<longleftrightarrow> (case hr_done r of Inr _ \<Rightarrow> True | Inl e \<Rightarrow> is_not_found e)"
| "well_answered i l dur (HbGetLease m) r \<longleftrightarrow>
     (if m = l then hr_lease r = Inr dur else (\<exists>e. hr_lease r = Inl e \<and> is_not_found e))"
| "well_answered i l dur (HbRenewLease m) r \<longleftrightarrow>
     (if m = l then hr_done r = Inr () else (\<exists>e. hr_done r = Inl e \<and> is_not_found e))"
| "well_answered i l dur HbEndpointAddr r \<longleftrightarrow> ea_relays (hr_addr r) \<noteq> []"
| "well_answered i l dur _ r \<longleftrightarrow> True"

definition working_api :: "str \<Rightarrow> str \<Rightarrow> int option \<Rightarrow> nat \<Rightarrow> (nat \<Rightarrow> heart_event list \<Rightarrow> heart_request \<Rightarrow> heart_reply \<times> nat) \<Rightarrow> bool" where
  "working_api i l dur delay env \<longleftrightarrow>
     (\<forall>t es q. well_answered i l dur q (fst (env t es q)) \<and> (q \<noteq> HbAwaitCancel \<longrightarrow> snd (env t es q) \<le> delay))"

definition renewals :: "str \<Rightarrow> heart_event list \<Rightarrow> nat list" where
  "renewals l es = map sent_at (filter (\<lambda>e. request e = HbRenewLease l) es)"

definition longest_interval :: "int option \<Rightarrow> nat" where
  "longest_interval dur = (let base = renewal_base (case dur of Some d \<Rightarrow> d | None \<Rightarrow> DEFAULT_LEASE_DURATION_SECS)
     in 1000 * (base + max (base div 5) 1))"

lemma not_found_not_unauthorized: "is_not_found e \<Longrightarrow> \<not> is_unauthorized e"
  by (cases e) (auto simp: is_not_found_def is_unauthorized_def)

text \<open>The clock is at most \<open>T\<close>, and the lease was renewed at the times \<open>ts\<close>.\<close>

definition by_then :: "(nat \<Rightarrow> heart_event list \<Rightarrow> heart_request \<Rightarrow> heart_reply \<times> nat) \<Rightarrow> str \<Rightarrow>
    (heart_request, heart_reply) world \<Rightarrow> nat \<Rightarrow> nat list \<Rightarrow> (heart_request, heart_reply) world \<Rightarrow> bool" where
  "by_then env l w0 T ts w \<longleftrightarrow> environment w = env \<and> clock w \<le> T \<and> (\<exists>es. trace w = trace w0 @ es \<and> renewals l es = ts)"

lemma at_mono: "by_then env l w0 T ts w \<Longrightarrow> T \<le> U \<Longrightarrow> by_then env l w0 U ts w"
  by (auto simp: by_then_def)

lemma at_next:
  assumes "by_then env l w0 T ts w" "d \<le> D" "request e \<noteq> HbRenewLease l"
  shows "by_then env l w0 (T + D) ts (w\<lparr>clock := clock w + d, trace := trace w @ [e]\<rparr>)"
proof -
  from assms obtain es where "trace w = trace w0 @ es" "renewals l es = ts" "environment w = env" "clock w \<le> T"
    by (auto simp: by_then_def)
  with assms show ?thesis unfolding by_then_def by (auto simp: renewals_def intro!: exI [of _ "es @ [e]"])
qed

lemma ask_at:
  assumes api: "working_api i l dur delay env" and q: "q \<noteq> HbAwaitCancel" "q \<noteq> HbRenewLease l"
  shows "hoare (by_then env l w0 T ts) (ask_as f q) (\<lambda>a w. by_then env l w0 (T + delay) ts w \<and> (\<exists>r. a = f r \<and> well_answered i l dur q r))"
proof (rule hoareI)
  fix w a w'
  assume b: "by_then env l w0 T ts w" and run: "run_state (ask_as f q) w = (a, w')"
  obtain r d where rd: "env (clock w) (trace w) q = (r, d)" by fastforce
  with api q(1) have "d \<le> delay" "well_answered i l dur q r"
    unfolding working_api_def by (metis snd_conv, metis fst_conv)
  moreover from rd b run have "a = f r" "w' = w\<lparr>clock := clock w + d, trace := trace w @ [Event (clock w) q (Some r)]\<rparr>"
    by (auto simp: ask_as_def ask_def by_then_def)
  ultimately show "by_then env l w0 (T + delay) ts w' \<and> (\<exists>r. a = f r \<and> well_answered i l dur q r)"
    using at_next [OF b, of d delay "Event (clock w) q (Some r)"] q(2) by auto
qed

lemma renew_at:
  assumes api: "working_api i l dur delay env"
  shows "hoare (by_then env l w0 T ts) (ask_as hr_done (HbRenewLease l)) (\<lambda>a w. a = Inr () \<and> (\<exists>t \<le> T. by_then env l w0 (t + delay) (ts @ [t]) w))"
proof (rule hoareI)
  fix w a w'
  let ?q = "HbRenewLease l"
  assume b: "by_then env l w0 T ts w" and run: "run_state (ask_as hr_done ?q) w = (a, w')"
  obtain r d where rd: "env (clock w) (trace w) ?q = (r, d)" by fastforce
  moreover have "?q \<noteq> HbAwaitCancel" by simp
  ultimately have d: "d \<le> delay" and r: "well_answered i l dur ?q r"
    using api unfolding working_api_def by (metis snd_conv, metis fst_conv)
  from rd b run have a: "a = hr_done r" and w': "w' = w\<lparr>clock := clock w + d, trace := trace w @ [Event (clock w) ?q (Some r)]\<rparr>"
    by (auto simp: ask_as_def ask_def by_then_def)
  from b obtain es where "trace w = trace w0 @ es" "renewals l es = ts" "environment w = env" "clock w \<le> T"
    by (auto simp: by_then_def)
  with d w' have "by_then env l w0 (clock w + delay) (ts @ [clock w]) w'"
    unfolding by_then_def by (auto simp: renewals_def intro!: exI [of _ "es @ [_]"])
  with a r \<open>clock w \<le> T\<close> show "a = Inr () \<and> (\<exists>t \<le> T. by_then env l w0 (t + delay) (ts @ [t]) w')" by auto
qed

lemma sleep_at: "hoare (by_then env l w0 T ts) (sleep_with_cancel d) (\<lambda>_. by_then env l w0 (T + d) ts)"
proof -
  have "hoare (by_then env l w0 T ts) (ask_within d HbAwaitCancel) (\<lambda>_. by_then env l w0 (T + d) ts)"
    by (rule hoareI) (auto dest!: run_ask_within intro: at_next)
  then show ?thesis unfolding sleep_with_cancel_def by (rule hoare_bind) (rule hoare_skip)
qed

lemma later_at: "hoare (by_then env l w0 T ts) (later b c) (\<lambda>r w. r = Inl (backoff_next b, c) \<and> by_then env l w0 (T + b) ts w)"
  unfolding later_def by (rule hoare_bind [OF sleep_at]) (auto intro: hoare_return)

subsection \<open>The stages\<close>

text \<open>What the cache may hold: the duration, once known, is that of the lease.\<close>

definition cache_fits :: "str \<Rightarrow> int option \<Rightarrow> connector_cache \<Rightarrow> bool" where
  "cache_fits l dur c \<longleftrightarrow> (case cc_lease_name c of
     None \<Rightarrow> cc_lease_duration c = None
   | Some m \<Rightarrow> m = l \<longrightarrow> cc_lease_duration c \<in> {None, dur})"

lemma cache_fits_details [simp]: "cache_fits l dur (c\<lparr>cc_last_details := d\<rparr>) \<longleftrightarrow> cache_fits l dur c"
  by (simp add: cache_fits_def split: option.split)

lemma backoff_next_max: "backoff_next b \<le> BACKOFF_MAX"
  by (simp add: backoff_next_def)

lemma later_none_at:
  "b \<le> BACKOFF_MAX \<Longrightarrow> hoare (by_then env l w0 T ts) (later b None)
     (\<lambda>r w. \<exists>b' \<le> BACKOFF_MAX. r = Inl (b', None) \<and> by_then env l w0 (T + BACKOFF_MAX) ts w)"
  by (rule hoare_post [OF later_at]) (auto intro: at_mono backoff_next_max)

lemma look_up_at:
  assumes api: "working_api (hs_endpoint_id hs) l dur delay env" and s: "s = (b, cached)" "b \<le> BACKOFF_MAX"
    and fits: "\<And>c. cached = Some c \<Longrightarrow> cache_fits l dur c"
  shows "hoare (by_then env l w0 T ts) (look_up hs s) (\<lambda>r w. \<exists>b' c. (r = Inr (b', c) \<and> b' \<le> BACKOFF_MAX \<and> cache_fits l dur c \<and>
    (cached = None \<longrightarrow> cc_lease_name c = Some l) \<and> (\<forall>c0. cached = Some c0 \<longrightarrow> c = c0)) \<and> by_then env l w0 (T + delay) ts w)"
proof (cases cached)
  case (Some c)
  with s fits show ?thesis by (auto simp: look_up_def intro!: hoare_return elim!: at_mono)
next
  case None
  have find: "hoare (by_then env l w0 T ts) (find_connector_by_id (hs_endpoint_id hs))
      (\<lambda>r w. (\<exists>c. r = Inr (Some c) \<and> cn_lease c = Some l) \<and> by_then env l w0 (T + delay) ts w)"
    unfolding find_connector_by_id_def
    by (rule hoare_bind [OF ask_at [OF api]]) (auto intro!: hoare_return)
  have "look_up hs s = do { found \<leftarrow> find_connector_by_id (hs_endpoint_id hs);
       (case found of
          Inr (Some c) \<Rightarrow> State_Monad.return (Inr (BACKOFF_INITIAL, cache_of c))
        | Inr None \<Rightarrow> later b None
        | Inl err \<Rightarrow> do { refresh_if_unauthorized err; later b None }) }"
    by (simp add: look_up_def s None)
  then show ?thesis
    by (simp only:, intro hoare_bind [OF find] hoare_pull)
       (auto simp: None cache_of_def cache_fits_def BACKOFF_INITIAL_def BACKOFF_MAX_def intro!: hoare_return)
qed

lemma learn_lease_at:
  assumes api: "working_api i l dur delay env" and b: "b \<le> BACKOFF_MAX" and fits: "cache_fits l dur c"
  shows "hoare (by_then env l w0 T ts) (learn_lease b c) (\<lambda>r w.
    (\<exists>c'. (r = Inr c' \<and> cache_fits l dur c' \<and> cc_lease_name c' \<noteq> None \<and>
       (cc_lease_name c = Some l \<longrightarrow> cc_lease_name c' = Some l)) \<and> by_then env l w0 (T + delay) ts w) \<or>
    (\<exists>b' \<le> BACKOFF_MAX. (r = Inl (b', None) \<and> cc_lease_name c \<noteq> Some l) \<and> by_then env l w0 (T + delay + BACKOFF_MAX) ts w))"
proof (cases "cc_lease_name c")
  case (Some m)
  with fits show ?thesis by (auto simp: learn_lease_def intro!: hoare_return elim!: at_mono)
next
  case None
  let ?ok = "\<lambda>r. case r of Inr c' \<Rightarrow> cn_lease c' = Some l | Inl e \<Rightarrow> is_not_found e"
  have ask: "hoare (by_then env l w0 T ts) (ask_as hr_connector (HbGetConnector (cc_name c)))
      (\<lambda>r w. ?ok r \<and> by_then env l w0 (T + delay) ts w)"
    by (rule hoare_post [OF ask_at [OF api]]) auto
  show ?thesis unfolding learn_lease_def None option.case
  proof (rule hoare_bind [OF ask], rule hoare_pull)
    fix r :: "kube_error + live_connector" assume r: "?ok r"
    show "hoare (by_then env l w0 (T + delay) ts) (case r of
          Inr c' \<Rightarrow> (case cn_lease c' of
              None \<Rightarrow> later b (Some c)
            | Some l \<Rightarrow> State_Monad.return (Inr (c\<lparr>cc_lease_name := Some l, cc_last_home_relay := home_relay_of c'\<rparr>)))
        | Inl err \<Rightarrow> do { refresh_if_unauthorized err; later b None }) (\<lambda>r w.
      (\<exists>c'. (r = Inr c' \<and> cache_fits l dur c' \<and> cc_lease_name c' \<noteq> None \<and>
         (None = Some l \<longrightarrow> cc_lease_name c' = Some l)) \<and> by_then env l w0 (T + delay) ts w) \<or>
      (\<exists>b' \<le> BACKOFF_MAX. (r = Inl (b', None) \<and> None \<noteq> Some l) \<and> by_then env l w0 (T + delay + BACKOFF_MAX) ts w))"
    proof (cases r)
      case (Inl e)
      with r have "refresh_if_unauthorized e = skip"
        by (simp add: refresh_if_unauthorized_def not_found_not_unauthorized)
      then have "do { refresh_if_unauthorized e; later b None } = (later b None :: (heart_state + connector_cache) heart)"
        by (simp add: skip_def)
      with Inl show ?thesis by (auto intro!: hoare_post [OF later_none_at [OF b]])
    next
      case (Inr c')
      with r fits None show ?thesis by (auto simp: cache_fits_def intro!: hoare_return)
    qed
  qed
qed

lemma publish_at:
  assumes api: "working_api i l dur delay env" and fits: "cache_fits l dur c"
  shows "hoare (by_then env l w0 T ts) (publish_new_details b c) (\<lambda>r w. \<exists>c'. (r = Inr c' \<and> cache_fits l dur c' \<and>
    cc_lease_name c' = cc_lease_name c) \<and> by_then env l w0 (T + 2 * delay) ts w)"
  unfolding publish_new_details_def
proof (rule hoare_bind [OF ask_at [OF api]], simp_all, rule hoare_pull2)
  fix a assume "\<exists>r. a = hr_addr r \<and> ea_relays (hr_addr r) \<noteq> []"
  then obtain details where d: "provider_details a (cc_last_home_relay c) = Some details"
    by (cases "ea_relays a") (auto simp: provider_details_def)
  let ?ok = "\<lambda>r :: kube_error + unit. case r of Inr _ \<Rightarrow> True | Inl e \<Rightarrow> is_not_found e"
  have patch: "hoare (by_then env l w0 (T + delay) ts) (ask_as hr_done (HbPatchDetails (cc_name c) details))
      (\<lambda>r w. ?ok r \<and> by_then env l w0 (T + 2 * delay) ts w)"
    by (rule hoare_post [OF ask_at [OF api]]) (auto elim: at_mono)
  show "hoare (by_then env l w0 (T + delay) ts) (case provider_details a (cc_last_home_relay c) of
      None \<Rightarrow> later b (Some c)
    | Some details \<Rightarrow> if cc_last_details c = Some details then State_Monad.return (Inr c)
        else do { r \<leftarrow> ask_as hr_done (HbPatchDetails (cc_name c) details);
          (case r of Inr _ \<Rightarrow> State_Monad.return (Inr (c\<lparr>cc_last_details := Some details\<rparr>))
           | Inl err \<Rightarrow> if is_unauthorized err then do { force_refresh_auth; later b (Some c) }
               else State_Monad.return (Inr c)) })
    (\<lambda>r w. \<exists>c'. r = Inr c' \<and> cache_fits l dur c' \<and> cc_lease_name c' = cc_lease_name c \<and> by_then env l w0 (T + 2 * delay) ts w)"
    unfolding d option.case
    by (intro hoare_if hoare_bind [OF patch] hoare_pull hoare_case_sum)
       (use fits in \<open>auto simp: not_found_not_unauthorized intro!: hoare_return elim!: at_mono\<close>)
qed

lemma lease_error_at:
  assumes "b \<le> BACKOFF_MAX" "is_not_found e"
  shows "hoare (by_then env l w0 T ts) (after_lease_error e b c)
     (\<lambda>r w. \<exists>b' \<le> BACKOFF_MAX. r = Inl (b', None) \<and> by_then env l w0 (T + BACKOFF_MAX) ts w)"
  using assms later_none_at by (simp add: after_lease_error_def classify_lease_error_def)

lemma learn_duration_at:
  assumes api: "working_api i l dur delay env" and b: "b \<le> BACKOFF_MAX" and fits: "cache_fits l dur c"
    and m: "cc_lease_name c = Some m"
  shows "hoare (by_then env l w0 T ts) (learn_duration b c) (\<lambda>r w.
    (\<exists>c'. (r = Inr c' \<and> cc_lease_name c' = Some m \<and> (m = l \<longrightarrow> cc_lease_duration c' = dur)) \<and> by_then env l w0 (T + delay) ts w) \<or>
    (\<exists>b' \<le> BACKOFF_MAX. (r = Inl (b', None) \<and> m \<noteq> l) \<and> by_then env l w0 (T + delay + BACKOFF_MAX) ts w))"
proof (cases "cc_lease_duration c")
  case (Some d)
  with fits m show ?thesis by (auto simp: learn_duration_def cache_fits_def intro!: hoare_return elim!: at_mono)
next
  case None
  let ?ok = "\<lambda>r. if m = l then r = Inr dur else (\<exists>e. r = Inl e \<and> is_not_found e)"
  have ask: "hoare (by_then env l w0 T ts) (ask_as hr_lease (HbGetLease m)) (\<lambda>r w. ?ok r \<and> by_then env l w0 (T + delay) ts w)"
    by (rule hoare_post [OF ask_at [OF api]]) auto
  show ?thesis unfolding learn_duration_def None m option.case
    by (intro hoare_bind [OF ask] hoare_pull hoare_case_sum)
       (use m in \<open>auto split: if_splits intro!: hoare_return hoare_post [OF lease_error_at [OF b]]\<close>)
qed

lemma interval_at:
  assumes api: "working_api i l dur delay env"
  shows "hoare (by_then env l w0 T ts) (renewal_interval (case dur of Some d \<Rightarrow> d | None \<Rightarrow> DEFAULT_LEASE_DURATION_SECS))
    (\<lambda>d w. d \<le> longest_interval dur \<and> by_then env l w0 (T + delay) ts w)"
  unfolding renewal_interval_def Let_def
  by (rule hoare_bind [OF ask_at [OF api]]) (auto simp: longest_interval_def Let_def intro!: hoare_return)

lemma renew_stage_at:
  assumes api: "working_api i l dur delay env" and b: "b \<le> BACKOFF_MAX"
    and c: "cc_lease_name c = Some m" "m = l \<longrightarrow> cc_lease_duration c = dur"
  shows "hoare (by_then env l w0 T ts) (renew b c) (\<lambda>r w.
    (\<exists>t \<le> T. (r = Inl (BACKOFF_INITIAL, Some c) \<and> m = l) \<and> by_then env l w0 (t + 2 * delay + longest_interval dur) (ts @ [t]) w) \<or>
    (\<exists>b' \<le> BACKOFF_MAX. (r = Inl (b', None) \<and> m \<noteq> l) \<and> by_then env l w0 (T + delay + BACKOFF_MAX) ts w))"
proof (cases "m = l")
  case False
  have ask: "hoare (by_then env l w0 T ts) (ask_as hr_done (HbRenewLease m))
      (\<lambda>r w. (\<exists>e. r = Inl e \<and> is_not_found e) \<and> by_then env l w0 (T + delay) ts w)"
    by (rule hoare_post [OF ask_at [OF api]]) (use False in auto)
  show ?thesis unfolding renew_def c option.case
    by (intro hoare_bind [OF ask] hoare_pull) (use False in \<open>auto intro!: hoare_post [OF lease_error_at [OF b]]\<close>)
next
  case True
  with c have c: "cc_lease_name c = Some l" "cc_lease_duration c = dur" by auto
  have wait: "hoare (by_then env l w0 T ts) (do {
      interval \<leftarrow> renewal_interval (case dur of Some d \<Rightarrow> d | None \<Rightarrow> DEFAULT_LEASE_DURATION_SECS);
      sleep_with_cancel interval;
      State_Monad.return (Inl (BACKOFF_INITIAL, Some c) :: heart_state + 'a) })
    (\<lambda>r w. r = Inl (BACKOFF_INITIAL, Some c) \<and> by_then env l w0 (T + delay + longest_interval dur) ts w)" for T ts
    by (intro hoare_bind [OF interval_at [OF api]] hoare_pull hoare_bind [OF sleep_at] hoare_return) (auto elim!: at_mono)
  show ?thesis unfolding renew_def c option.case
    by (rule hoare_bind [OF renew_at [OF api]], intro hoare_pull hoare_ex)
       (use True in \<open>auto intro!: hoare_post [OF wait] simp: mult_2 add.assoc\<close>)
qed

subsection \<open>A round, and the loop\<close>

definition has_lease :: "str \<Rightarrow> int option \<Rightarrow> heart_state \<Rightarrow> bool" where
  "has_lease l dur s \<longleftrightarrow> fst s \<le> BACKOFF_MAX \<and> (\<exists>c. snd s = Some c \<and> cc_lease_name c = Some l \<and> cache_fits l dur c)"

definition may_have :: "str \<Rightarrow> int option \<Rightarrow> heart_state \<Rightarrow> bool" where
  "may_have l dur s \<longleftrightarrow> fst s \<le> BACKOFF_MAX \<and> (\<forall>c. snd s = Some c \<longrightarrow> cache_fits l dur c)"

definition renewed_round :: "(nat \<Rightarrow> heart_event list \<Rightarrow> heart_request \<Rightarrow> heart_reply \<times> nat) \<Rightarrow> str \<Rightarrow>
    (heart_request, heart_reply) world \<Rightarrow> int option \<Rightarrow> nat \<Rightarrow> nat \<Rightarrow> nat list \<Rightarrow> heart_state + 'a \<Rightarrow> (heart_request, heart_reply) world \<Rightarrow> bool" where
  "renewed_round env l w0 dur delay T ts r w \<longleftrightarrow> (\<exists>s'. r = Inl s' \<and> has_lease l dur s' \<and>
     (\<exists>t \<le> T. by_then env l w0 (t + 2 * delay + longest_interval dur) (ts @ [t]) w))"

definition lost_round :: "(nat \<Rightarrow> heart_event list \<Rightarrow> heart_request \<Rightarrow> heart_reply \<times> nat) \<Rightarrow> str \<Rightarrow>
    (heart_request, heart_reply) world \<Rightarrow> nat \<Rightarrow> nat list \<Rightarrow> heart_state + 'a \<Rightarrow> (heart_request, heart_reply) world \<Rightarrow> bool" where
  "lost_round env l w0 T ts r w \<longleftrightarrow> (\<exists>b' \<le> BACKOFF_MAX. r = Inl (b', None) \<and> by_then env l w0 (T + BACKOFF_MAX) ts w)"

lemma lost_roundI: "by_then env l w0 U ts w \<Longrightarrow> U \<le> T + BACKOFF_MAX \<Longrightarrow> b' \<le> BACKOFF_MAX \<Longrightarrow>
    lost_round env l w0 T ts (Inl (b', None)) w"
  by (auto simp: lost_round_def elim: at_mono)

lemma stages_at:
  assumes api: "working_api i l dur delay env" and b: "b \<le> BACKOFF_MAX" and fits: "cache_fits l dur c"
  shows "hoare (by_then env l w0 T ts) (try_bind (learn_lease b c) (\<lambda>named. try_bind (publish_new_details b named) (\<lambda>published.
      try_bind (learn_duration b published) (\<lambda>cached. renew b cached :: (heart_state + 'a) heart))))
    (\<lambda>r w. renewed_round env l w0 dur delay (T + 4 * delay) ts r w \<or>
       cc_lease_name c \<noteq> Some l \<and> lost_round env l w0 (T + 5 * delay) ts r w)"
    (is "hoare _ _ ?Q")
proof -
  have fourth: "hoare (by_then env l w0 (T + 4 * delay) ts) (renew b c4 :: (heart_state + 'a) heart) ?Q"
    if "cc_lease_name c4 = Some m" "m = l \<longrightarrow> cc_lease_duration c4 = dur" "cc_lease_name c = Some l \<longrightarrow> m = l" for c4 m
    by (rule hoare_post [OF renew_stage_at [OF api b that(1,2)]])
       (use that in \<open>auto simp: renewed_round_def has_lease_def lost_round_def cache_fits_def BACKOFF_INITIAL_def BACKOFF_MAX_def
          elim!: at_mono\<close>)
  have third: "hoare (by_then env l w0 (T + 3 * delay) ts) (try_bind (learn_duration b c3) (\<lambda>cached. renew b cached)) ?Q"
    if "cc_lease_name c3 = Some m" "cache_fits l dur c3" "cc_lease_name c = Some l \<longrightarrow> m = l" for c3 m
    apply (rule hoare_try [where R = "\<lambda>c4 w. (cc_lease_name c4 = Some m \<and> (m = l \<longrightarrow> cc_lease_duration c4 = dur)) \<and> by_then env l w0 (T + 4 * delay) ts w"])
     apply (rule hoare_post [OF learn_duration_at [OF api b that(2,1)]])
     apply (use that(3) in \<open>fastforce intro: lost_roundI elim: at_mono\<close>)
    apply (rule hoare_pull, rule fourth)
    using that(3) by auto
  have second: "hoare (by_then env l w0 (T + delay) ts) (try_bind (publish_new_details b c2) (\<lambda>published.
      try_bind (learn_duration b published) (\<lambda>cached. renew b cached))) ?Q"
    if "cc_lease_name c2 \<noteq> None" "cache_fits l dur c2" "cc_lease_name c = Some l \<longrightarrow> cc_lease_name c2 = Some l" for c2
    apply (rule hoare_try [where R = "\<lambda>c3 w. (cc_lease_name c3 = cc_lease_name c2 \<and> cache_fits l dur c3) \<and> by_then env l w0 (T + 3 * delay) ts w"])
     apply (rule hoare_post [OF publish_at [OF api that(2)]])
     apply (auto elim!: at_mono)[1]
    apply (rule hoare_pull, rule third [where m = "the (cc_lease_name c2)"])
    using that(1,3) by auto
  show ?thesis
    apply (rule hoare_try [where R = "\<lambda>c2 w. (cache_fits l dur c2 \<and> cc_lease_name c2 \<noteq> None \<and>
        (cc_lease_name c = Some l \<longrightarrow> cc_lease_name c2 = Some l)) \<and> by_then env l w0 (T + delay) ts w"])
     apply (rule hoare_post [OF learn_lease_at [OF api b fits]])
     apply (fastforce intro: lost_roundI elim: at_mono)
    apply (rule hoare_pull, rule second)
    by auto
qed

lemma round_at:
  assumes api: "working_api (hs_endpoint_id hs) l dur delay env" and s: "may_have l dur s"
  shows "hoare (by_then env l w0 T ts) (heart_round hs s)
    (\<lambda>r w. renewed_round env l w0 dur delay (T + 7 * delay) ts r w \<or>
       (\<not> has_lease l dur s \<and> snd s \<noteq> None) \<and> lost_round env l w0 (T + 8 * delay) ts r w)"
    (is "hoare _ _ ?Q")
proof -
  obtain b cached where sb: "s = (b, cached)" "b \<le> BACKOFF_MAX" "\<And>c. cached = Some c \<Longrightarrow> cache_fits l dur c"
    using s by (cases s) (auto simp: may_have_def)
  let ?ok = "\<lambda>c. (cached = None \<longrightarrow> cc_lease_name c = Some l) \<and> (\<forall>c0. cached = Some c0 \<longrightarrow> c = c0)"
  have rest: "hoare (by_then env l w0 (T + 3 * delay) ts) (try_bind (learn_lease b' c) (\<lambda>named. try_bind (publish_new_details b' named) (\<lambda>published.
      try_bind (learn_duration b' published) (\<lambda>cached. renew b' cached)))) ?Q"
    if "b' \<le> BACKOFF_MAX" "cache_fits l dur c" "?ok c" for b' c
    by (rule hoare_post [OF stages_at [OF api that(1,2)]])
       (use that(2,3) sb in \<open>auto simp: has_lease_def add.commute\<close>)
  have stages: "hoare (by_then env l w0 (T + 2 * delay) ts) (try_bind (look_up hs s) (\<lambda>(b', found).
      try_bind (learn_lease b' found) (\<lambda>named. try_bind (publish_new_details b' named) (\<lambda>published.
      try_bind (learn_duration b' published) (\<lambda>cached. renew b' cached))))) ?Q"
    unfolding case_prod_beta
  proof (rule hoare_try [where R = "\<lambda>x w. (fst x \<le> BACKOFF_MAX \<and> cache_fits l dur (snd x) \<and> ?ok (snd x)) \<and> by_then env l w0 (T + 3 * delay) ts w"])
    show "hoare (by_then env l w0 (T + 2 * delay) ts) (look_up hs s) (\<lambda>r w. case r of Inl e \<Rightarrow> ?Q (Inl e) w
        | Inr x \<Rightarrow> (fst x \<le> BACKOFF_MAX \<and> cache_fits l dur (snd x) \<and> ?ok (snd x)) \<and> by_then env l w0 (T + 3 * delay) ts w)"
      by (rule hoare_post [OF look_up_at [OF api sb]]) (auto simp: algebra_simps)
  qed (rule hoare_pull, rule rest, auto)
  have flag: "hoare (by_then env l w0 T ts) (ask_as hr_flag HbIsCancelled) (\<lambda>r w. r = False \<and> by_then env l w0 (T + delay) ts w)"
    by (rule hoare_post [OF ask_at [OF api]]) auto
  have plane: "hoare (by_then env l w0 (T + delay) ts) (ask_as hr_local (HbControlPlane (hs_project hs)))
      (\<lambda>r w. r = Inr () \<and> by_then env l w0 (T + 2 * delay) ts w)"
    by (rule hoare_post [OF ask_at [OF api]]) (auto elim: at_mono)
  show ?thesis unfolding heart_round_def
    by (intro hoare_bind [OF flag] hoare_pull, simp only: if_False, intro hoare_bind [OF plane] hoare_pull, simp only: sum.case)
       (rule stages)
qed

lemma hoare_renewed:
  assumes "\<And>s' t. has_lease l dur s' \<Longrightarrow> t \<le> T \<Longrightarrow>
    hoare (by_then env l w0 (t + 2 * delay + longest_interval dur) (ts @ [t])) (f s') Q"
  shows "hoare (renewed_round env l w0 dur delay T ts r) (case r of Inl s' \<Rightarrow> f s' | Inr a \<Rightarrow> g a) Q"
  using assms by (cases r) (auto simp: hoare_def renewed_round_def)

lemma hoare_lost:
  assumes "\<And>b. b \<le> BACKOFF_MAX \<Longrightarrow> hoare (by_then env l w0 (T + BACKOFF_MAX) ts) (f (b, None)) Q"
  shows "hoare (lost_round env l w0 T ts r) (case r of Inl s' \<Rightarrow> f s' | Inr a \<Rightarrow> g a) Q"
  using assms by (cases r) (auto simp: hoare_def lost_round_def)

lemma has_may: "has_lease l dur s \<Longrightarrow> may_have l dur s"
  by (auto simp: has_lease_def may_have_def)

text \<open>The renewals so far are far enough apart, and the clock is not far past the last one.\<close>

definition on_time :: "nat \<Rightarrow> nat list \<Rightarrow> bool" where
  "on_time gap ts \<longleftrightarrow> successively (\<lambda>a b. b \<le> a + gap) ts"

lemma on_time_snoc: "on_time gap (ts @ [a]) \<Longrightarrow> b \<le> a + gap \<Longrightarrow> on_time gap ((ts @ [a]) @ [b])"
  by (simp add: on_time_def successively_append_iff)

lemma rounds_at:
  assumes api: "working_api (hs_endpoint_id hs) l dur delay env" and s: "has_lease l dur s"
    and gap: "on_time (longest_interval dur + 9 * delay) (ts @ [t])"
  shows "hoare (by_then env l w0 (t + 2 * delay + longest_interval dur) (ts @ [t])) (repeat_io n (heart_round hs) s)
     (\<lambda>r w. r = None \<and> (\<exists>us T. by_then env l w0 T (ts @ [t] @ us) w \<and> length us = n \<and>
        on_time (longest_interval dur + 9 * delay) (ts @ [t] @ us)))"
  using s gap
proof (induction n arbitrary: s ts t)
  case 0
  then show ?case by (auto intro!: hoare_return)
next
  case (Suc n)
  let ?g = "longest_interval dur + 9 * delay"
  have round: "hoare (by_then env l w0 (t + 2 * delay + longest_interval dur) (ts @ [t])) (heart_round hs s)
      (renewed_round env l w0 dur delay (t + ?g) (ts @ [t]))"
    by (rule hoare_post [OF round_at [OF api has_may [OF Suc.prems(1)]]])
       (use Suc.prems(1) in \<open>auto simp: ac_simps\<close>)
  show ?case unfolding repeat_io.simps
  proof (rule hoare_bind [OF round], rule hoare_renewed)
    fix s' u
    assume s': "has_lease l dur s'" and u: "u \<le> t + ?g"
    have "on_time ?g ((ts @ [t]) @ [u])" using on_time_snoc [OF Suc.prems(2) u] .
    from Suc.IH [OF s' this] show "hoare (by_then env l w0 (u + 2 * delay + longest_interval dur) ((ts @ [t]) @ [u]))
        (repeat_io n (heart_round hs) s')
        (\<lambda>r w. r = None \<and> (\<exists>us T. by_then env l w0 T (ts @ [t] @ us) w \<and> length us = Suc n \<and> on_time ?g (ts @ [t] @ us)))"
      by (rule hoare_post) (force intro: exI [of _ "u # _"])
  qed
qed

text \<open>
  C3: against an API that works, the heartbeat renews the lease over and over, whatever state it starts from: a cache
  that names a lease which is gone costs at most one pause, then every round renews it, and between two renewals there
  is at most the longest pause for the lease and nine replies.
\<close>

theorem lease_is_kept_renewed:
  assumes "working_api (hs_endpoint_id hs) l dur delay (environment w)" and "may_have l dur s"
  shows "\<exists>v es. run_state (repeat_io (n + 2) (heart_round hs) s) w = (None, v) \<and> trace v = trace w @ es \<and>
    n < length (renewals l es) \<and> hd (renewals l es) \<le> clock w + BACKOFF_MAX + 15 * delay \<and>
    on_time (longest_interval dur + 9 * delay) (renewals l es)"
proof -
  let ?env = "environment w" and ?g = "longest_interval dur + 9 * delay"
  let ?Q = "\<lambda>r v. r = None \<and> (\<exists>ts T. by_then ?env l w T ts v \<and> n < length ts \<and>
      hd ts \<le> clock w + BACKOFF_MAX + 15 * delay \<and> on_time ?g ts)"
  have one: "on_time ?g [t]" for t by (simp add: on_time_def)
  have on: "hoare (by_then ?env l w (t + 2 * delay + longest_interval dur) ([] @ [t])) (repeat_io m (heart_round hs) s') ?Q"
    if "has_lease l dur s'" "t \<le> clock w + BACKOFF_MAX + 15 * delay" "n \<le> m" for s' t m
  proof (rule hoare_post)
    show "hoare (by_then ?env l w (t + 2 * delay + longest_interval dur) ([] @ [t])) (repeat_io m (heart_round hs) s')
        (\<lambda>r v. r = None \<and> (\<exists>us T. by_then ?env l w T ([] @ [t] @ us) v \<and> length us = m \<and> on_time ?g ([] @ [t] @ us)))"
      by (rule rounds_at [OF assms(1) that(1)]) (simp add: on_time_def)
  qed (use that(2,3) in force)
  have lost: "hoare (by_then ?env l w (clock w + 8 * delay + BACKOFF_MAX) []) (repeat_io (Suc n) (heart_round hs) (b, None)) ?Q"
    if "b \<le> BACKOFF_MAX" for b
  proof -
    have "may_have l dur (b, None)" using that by (simp add: may_have_def)
    then have "hoare (by_then ?env l w (clock w + 8 * delay + BACKOFF_MAX) []) (heart_round hs (b, None))
        (renewed_round ?env l w dur delay (clock w + BACKOFF_MAX + 15 * delay) [])"
      by (rule hoare_post [OF round_at [OF assms(1)]]) (simp add: ac_simps)
    then show ?thesis unfolding repeat_io.simps by (rule hoare_bind) (rule hoare_renewed, rule on, simp_all)
  qed
  have first: "hoare (\<lambda>v. renewed_round ?env l w dur delay (clock w + 7 * delay) [] r v \<or> lost_round ?env l w (clock w + 8 * delay) [] r v)
      (case r of Inl s' \<Rightarrow> repeat_io (Suc n) (heart_round hs) s' | Inr a \<Rightarrow> State_Monad.return (Some a)) ?Q" for r :: "heart_state + unit"
    by (rule hoare_or; rule hoare_renewed hoare_lost; rule on lost) simp_all
  have "hoare (by_then ?env l w (clock w) []) (repeat_io (n + 2) (heart_round hs) s) ?Q"
    unfolding add_2_eq_Suc' repeat_io.simps(2) [of "Suc n"]
    by (rule hoare_bind [OF hoare_post [OF round_at [OF assms]] first]) blast
  moreover have "by_then ?env l w (clock w) [] w" by (simp add: by_then_def renewals_def)
  moreover obtain a v where v: "run_state (repeat_io (n + 2) (heart_round hs) s) w = (a, v)" by fastforce
  ultimately have "?Q a v" by (rule hoareD)
  with v show ?thesis by (auto simp: by_then_def)
qed

text \<open>a renewal is sent again before the lease is over, however long the jitter, exactly when the lease lasts three
  seconds or more: the longest pause is half the lease and a tenth, but never less than two seconds.\<close>

theorem interval_fits_lease:
  "longest_interval (Some d) < 1000 * nat d \<longleftrightarrow> 3 \<le> d"
proof (cases "3 \<le> d")
  case True
  then have d: "d = int (nat d)" "3 \<le> nat d" by simp_all
  then obtain n where d: "d = int n" "3 \<le> n" by blast
  define b where "b = n div 2"
  have "1 \<le> b" "2 * b \<le> n" using d(2) by (auto simp: b_def)
  moreover have "5 * (b div 5) \<le> b" by simp
  ultimately have "b + max (b div 5) 1 < n" using d(2) by (cases "b div 5 \<le> 1") (simp_all add: max_def)
  moreover have "renewal_base (int n) = b" using d(2) \<open>1 \<le> b\<close> by (simp add: renewal_base_def b_def max_def)
  ultimately show ?thesis using d by (simp add: longest_interval_def Let_def)
next
  case False
  have "1 \<le> renewal_base d" by (simp add: renewal_base_def)
  then have "2000 \<le> longest_interval (Some d)" by (simp add: longest_interval_def Let_def)
  with False show ?thesis by auto
qed

section \<open>An API that works\<close>

definition sample_heart :: heart_settings where
  "sample_heart = \<lparr>hs_project = ''home'', hs_endpoint_id = ''key-1''\<rparr>"

definition sample_live :: live_connector where
  "sample_live = \<lparr>cn_name = Some ''con-1'', cn_generate_name = None, cn_generation = None, cn_annotations = None,
     cn_class = ''iroh-quic-tunnel'', cn_conditions = None, cn_lease = Some ''lease-1'', cn_details = None\<rparr>"

text \<open>It knows one connector and its lease of thirty seconds.\<close>

fun heart_answer :: "heart_request \<Rightarrow> heart_reply" where
  "heart_answer (HbControlPlane _) = HrLocal (Inr ())"
| "heart_answer (HbListConnectors i) = HrConnectors (Inr (if i = ''key-1'' then [sample_live] else []))"
| "heart_answer (HbGetConnector n) = HrConnector (if n = ''con-1'' then Inr sample_live else Inl (ApiError 404 []))"
| "heart_answer (HbPatchDetails n _) = HrDone (if n = ''con-1'' then Inr () else Inl (ApiError 404 []))"
| "heart_answer (HbGetLease l) = HrLease (if l = ''lease-1'' then Inr (Some 30) else Inl (ApiError 404 []))"
| "heart_answer (HbRenewLease l) = HrDone (if l = ''lease-1'' then Inr () else Inl (ApiError 404 []))"
| "heart_answer HbEndpointAddr = HrAddr \<lparr>ea_id = ''key-1'', ea_relays = [''https://relay.example''], ea_ips = []\<rparr>"
| "heart_answer HbLoginState = HrLogin LoginValid"
| "heart_answer (HbJitter n) = HrNumber n"
| "heart_answer _ = HrFlag False"

lemma sample_works: "working_api (hs_endpoint_id sample_heart) ''lease-1'' (Some 30) 1 (environment (answerer heart_answer))"
proof -
  have "well_answered ''key-1'' ''lease-1'' (Some 30) q (heart_answer q)" for q
    by (cases q) (auto simp: sample_live_def is_not_found_def)
  then show ?thesis by (simp add: working_api_def answerer_def sample_heart_def)
qed

text \<open>A cache whose lease is gone.\<close>

definition stale_heart :: heart_state where
  "stale_heart = (8000, Some \<lparr>cc_name = ''con-0'', cc_lease_name = Some ''lease-0'', cc_lease_duration = Some 60,
     cc_last_details = None, cc_last_home_relay = None\<rparr>)"

theorem lease_is_kept_renewed_witness:
  "\<exists>v. run_state (repeat_io 5 (heart_round sample_heart) stale_heart) (answerer heart_answer) = (None, v) \<and>
    3 < length (renewals ''lease-1'' (trace v)) \<and> hd (renewals ''lease-1'' (trace v)) \<le> 30015 \<and>
    on_time 18009 (renewals ''lease-1'' (trace v))"
proof -
  have "may_have ''lease-1'' (Some 30) stale_heart"
    by (simp add: may_have_def stale_heart_def cache_fits_def BACKOFF_MAX_def)
  from lease_is_kept_renewed [OF sample_works this, of 3] obtain v es where
    "run_state (repeat_io (3 + 2) (heart_round sample_heart) stale_heart) (answerer heart_answer) = (None, v)"
    "trace v = trace (answerer heart_answer) @ es" "3 < length (renewals ''lease-1'' es)" "hd (renewals ''lease-1'' es) \<le> clock (answerer heart_answer) + BACKOFF_MAX + 15 * 1"
    "on_time (longest_interval (Some 30) + 9 * 1) (renewals ''lease-1'' es)" by blast
  moreover have "longest_interval (Some 30) = 18000" by (simp add: longest_interval_def renewal_base_def Let_def)
  ultimately show ?thesis by (auto simp: BACKOFF_MAX_def answerer_def)
qed

end
