(* ===== verification/Heartbeat_Agent.thy ===== *)
theory Heartbeat_Agent
  imports Heartbeat_Facts
begin

text \<open>
  The agent that runs the heartbeats: the tasks that live are read off the trace, and every operation keeps them equal
  to what the agent lists; and what a second refresh does.
\<close>

section \<open>The agent\<close>

fun live_step :: "heart_event \<Rightarrow> (str \<times> nat) set \<Rightarrow> (str \<times> nat) set" where
  "live_step e ts = (case request e of HbSpawn p n \<Rightarrow> insert (p, n) ts | HbCancel p n \<Rightarrow> ts - {(p, n)} | _ \<Rightarrow> ts)"

definition live_tasks :: "heart_event list \<Rightarrow> (str \<times> nat) set" where
  "live_tasks es = fold live_step es {}"

datatype agent_op =
    Register str | Deregister str | Refresh "str list list" | Clear
  | StartAgent bool "str list list" | StartManual | Watch watch_change "str list list"

fun agent_do :: "str \<Rightarrow> agent_op \<Rightarrow> heart_agent \<Rightarrow> heart_agent heart" where
  "agent_do i (Register p) a = register_project p a"
| "agent_do i (Deregister p) a = deregister_project p a"
| "agent_do i (Refresh orgs) a = refresh_projects i orgs a"
| "agent_do i Clear a = clear_projects a"
| "agent_do i (StartAgent plugin orgs) a = start_agent plugin i orgs a"
| "agent_do i StartManual a = State_Monad.return (start_manual a)"
| "agent_do i (Watch c orgs) a = watch_step i orgs c a"

definition agent_inv :: "heart_agent \<Rightarrow> (heart_request, heart_reply) world \<Rightarrow> bool" where
  "agent_inv a w \<longleftrightarrow> live_tasks (trace w) = set (ha_projects a) \<and> distinct (map fst (ha_projects a)) \<and>
     (\<forall>(p, n) \<in> set (ha_projects a). n < ha_next a)"

lemma live_snoc [simp]: "live_tasks (es @ [e]) = live_step e (live_tasks es)"
  by (simp add: live_tasks_def)

lemma agent_register: "hoare (agent_inv a) (register_project p a) agent_inv"
  unfolding register_project_def
proof (rule hoare_if)
  show "hoare (agent_inv a) (State_Monad.return a) agent_inv" by (auto intro: hoare_return)
  assume "\<not> map_of (ha_projects a) p \<noteq> None"
  then have "p \<notin> fst ` set (ha_projects a)" by (simp add: map_of_eq_None_iff)
  then show "hoare (agent_inv a) (do { signal (HbSpawn p (ha_next a));
      State_Monad.return (a\<lparr>ha_projects := (p, ha_next a) # ha_projects a, ha_next := Suc (ha_next a)\<rparr>) }) agent_inv"
    by (intro hoare_bind [OF hoare_signal] hoare_return) (auto simp: agent_inv_def less_SucI)
qed

lemma agent_deregister: "hoare (agent_inv a) (deregister_project p a) agent_inv"
  unfolding deregister_project_def
proof (rule hoare_case_option)
  show "hoare (agent_inv a) (State_Monad.return a) agent_inv" by (auto intro: hoare_return)
  fix n assume "map_of (ha_projects a) p = Some n"
  then have p: "(p, n) \<in> set (ha_projects a)" by (rule map_of_SomeD)
  have others: "set (filter (\<lambda>x. fst x \<noteq> p) (ha_projects a)) = set (ha_projects a) - {(p, n)}"
    if "distinct (map fst (ha_projects a))"
    using that p by (auto simp: eq_key_imp_eq_value)
  show "hoare (agent_inv a) (do { signal (HbCancel p n);
      State_Monad.return (a\<lparr>ha_projects := filter (\<lambda>x. fst x \<noteq> p) (ha_projects a)\<rparr>) }) agent_inv"
    by (intro hoare_bind [OF hoare_signal] hoare_return)
       (auto simp: agent_inv_def others distinct_map_filter simp del: set_filter)
qed

lemma agent_each: "(\<And>x a. hoare (agent_inv a) (f x a) agent_inv) \<Longrightarrow> hoare (agent_inv a) (for_each f xs a) agent_inv"
  by (induction xs arbitrary: a) (auto intro!: hoare_return hoare_bind)

lemma agent_ask: "(\<forall>p n. q \<noteq> HbSpawn p n \<and> q \<noteq> HbCancel p n) \<Longrightarrow> hoare (agent_inv a) (ask_as f q) (\<lambda>_. agent_inv a)"
  by (rule hoare_post [OF hoare_ask_as]) (auto simp: agent_inv_def split: heart_request.splits)

lemma agent_probe: "hoare (agent_inv a) (probe_connector i p) (\<lambda>_. agent_inv a)"
  unfolding probe_connector_def find_connector_by_id_def
  by (intro hoare_bind [OF agent_ask] hoare_case_sum hoare_bind [OF hoare_bind [OF agent_ask]] hoare_return) auto

lemma agent_enrol: "hoare (agent_inv a) (enrol i p a) agent_inv"
  unfolding enrol_def by (auto intro!: hoare_return hoare_bind [OF agent_probe] agent_register)

lemma agent_drop: "hoare (agent_inv a) (drop_unless ps p a) agent_inv"
  unfolding drop_unless_def by (auto intro!: hoare_return agent_deregister)

lemma agent_known [simp]: "agent_inv (a\<lparr>ha_known := x\<rparr>) = agent_inv a" "agent_inv (a\<lparr>ha_started := b\<rparr>) = agent_inv a"
  by (auto simp: agent_inv_def)

lemma agent_refresh: "hoare (agent_inv a) (refresh_projects i orgs a) agent_inv"
  unfolding refresh_projects_def Let_def
proof (rule hoare_if)
  show "hoare (agent_inv a) (State_Monad.return a) agent_inv" by (auto intro: hoare_return)
  have "hoare (agent_inv (a\<lparr>ha_known := x\<rparr>)) (for_each (drop_unless x) ps (a\<lparr>ha_known := x\<rparr>)) agent_inv" for x ps
    by (rule agent_each) (rule agent_drop)
  then show "hoare (agent_inv a) (do { b \<leftarrow> for_each (drop_unless (set (remdups (concat orgs)))) (map fst (ha_projects a))
       (a\<lparr>ha_known := set (remdups (concat orgs))\<rparr>); for_each (enrol i) (remdups (concat orgs)) b }) agent_inv"
    unfolding agent_known by (rule hoare_bind) (rule agent_each, rule agent_enrol)
qed

lemma agent_clear: "hoare (agent_inv a) (clear_projects a) agent_inv"
  unfolding clear_projects_def by (rule agent_each) (rule agent_deregister)

lemma agent_keeps: "hoare (agent_inv a) (agent_do i x a) agent_inv"
proof (cases x)
  case (Watch c orgs)
  have "hoare (agent_inv a) (do { b \<leftarrow> clear_projects a; State_Monad.return (clear_known_projects b) }) agent_inv"
    by (rule hoare_bind [OF agent_clear]) (auto simp: clear_known_projects_def intro: hoare_return)
  with Watch show ?thesis by (cases c) (auto intro!: agent_refresh hoare_return)
qed (auto simp: start_agent_def start_manual_def intro!: agent_register agent_deregister agent_refresh agent_clear hoare_return)

text \<open>
  C28: after any sequence of operations, whatever the probes answer, the tasks that run are exactly the heartbeats the agent
  lists, and no project has two.
\<close>

theorem one_heartbeat_per_project:
  "hoare (\<lambda>w. trace w = []) (for_each (agent_do i) ops new_agent)
     (\<lambda>a w. live_tasks (trace w) = set (ha_projects a) \<and> distinct (map fst (ha_projects a)))"
proof (rule hoare_pre)
  show "hoare (agent_inv new_agent) (for_each (agent_do i) ops new_agent)
     (\<lambda>a w. live_tasks (trace w) = set (ha_projects a) \<and> distinct (map fst (ha_projects a)))"
    by (rule hoare_post, rule agent_each, rule agent_keeps) (simp add: agent_inv_def)
qed (simp add: agent_inv_def new_agent_def live_tasks_def)

text \<open>What a refresh leaves as known.\<close>

definition keeps_known :: "heart_agent \<Rightarrow> heart_agent heart \<Rightarrow> bool" where
  "keeps_known a m \<longleftrightarrow> (\<forall>w. ha_known (fst (run_state m w)) = ha_known a)"

lemma known_each: "(\<And>x a. keeps_known a (f x a)) \<Longrightarrow> keeps_known a (for_each f xs a)"
proof (induction xs arbitrary: a)
  case (Cons x xs)
  show ?case unfolding keeps_known_def
  proof
    fix w
    obtain b v where b: "run_state (f x a) w = (b, v)" by fastforce
    with Cons.prems have "ha_known b = ha_known a" unfolding keeps_known_def by (metis fst_conv)
    with b Cons.IH [OF Cons.prems, of b] show "ha_known (fst (run_state (for_each f (x # xs) a) w)) = ha_known a"
      by (simp add: keeps_known_def)
  qed
qed (simp add: keeps_known_def)

lemma known_drop: "keeps_known a (drop_unless ps p a)"
  by (simp add: keeps_known_def drop_unless_def deregister_project_def split: option.split)

lemma known_register: "keeps_known a (register_project p a)"
  by (simp add: keeps_known_def register_project_def)

lemma known_enrol: "keeps_known a (enrol i p a)"
  using known_register [of a p] by (auto simp: keeps_known_def enrol_def split: prod.split)

text \<open>
 a refresh right after a refresh of the same projects asks nothing and changes nothing. So a project whose probe
  failed, or found no connector yet, gets no heartbeat until the set of projects changes.
\<close>

theorem refresh_probes_once:
  "State_Monad.bind (refresh_projects i orgs a) (refresh_projects i orgs) = refresh_projects i orgs a"
proof (rule state_ext)
  fix w
  have "ha_known (fst (run_state (refresh_projects i orgs a) w)) = set (remdups (concat orgs))"
  proof (cases "ha_known a = set (remdups (concat orgs))")
    case False
    let ?ps = "remdups (concat orgs)"
    obtain b v where b: "run_state (for_each (drop_unless (set ?ps)) (map fst (ha_projects a)) (a\<lparr>ha_known := set ?ps\<rparr>)) w = (b, v)"
      by fastforce
    with known_each [of "drop_unless (set ?ps)", OF known_drop] have "ha_known b = set ?ps"
      unfolding keeps_known_def by (metis fst_conv heart_agent.select_convs(2) heart_agent.surjective heart_agent.update_convs(2))
    moreover have "keeps_known b (for_each (enrol i) ?ps b)" by (rule known_each) (rule known_enrol)
    ultimately show ?thesis using False b by (simp add: refresh_projects_def Let_def keeps_known_def)
  qed (simp add: refresh_projects_def)
  then show "run_state (State_Monad.bind (refresh_projects i orgs a) (refresh_projects i orgs)) w = run_state (refresh_projects i orgs a) w"
    by (cases "run_state (refresh_projects i orgs a) w") (simp add: refresh_projects_def [of i orgs "fst _"] refresh_projects_def Let_def)
qed

end
