(* ===== verification/Token_Source.thy ===== *)
theory Token_Source
  imports Service_Account Prelude
begin

text \<open>
  \<open>datum_cloud/external_token_source.rs\<close>: where the daemon's token comes from, a credentials helper or a service
  account key, when it is fetched again, and how a forced refresh that changes nothing is recognised. The loop runs as
  a task of its own; the token, the count of ineffective refreshes and the point of the next one are its state.
\<close>

section \<open>The expiry of a token\<close>

text \<open>\<open>tl_utf8\<close> says which bytes are UTF-8; base64 and JSON are those of the service account.\<close>

record 'key token_libs = "'key sa_libs" +
  tl_utf8 :: "str \<Rightarrow> bool"

datatype jwt_parse_error = NotAJwt | InvalidBase64 | InvalidUtf8 | JwtJson

fun standard_char :: "char \<Rightarrow> char" where
  "standard_char c = (if c = CHR ''-'' then CHR ''+'' else if c = CHR ''_'' then CHR ''/'' else c)"

definition standard_b64 :: "str \<Rightarrow> str" where
  "standard_b64 payload = (let s = map standard_char payload; pad = 4 - length s mod 4
     in if pad \<noteq> 4 then s @ replicate pad (CHR ''='') else s)"

definition jwt_payload :: "str \<Rightarrow> str option" where
  "jwt_payload token = (case split_once ''.'' token of
     None \<Rightarrow> None
   | Some (_, rest) \<Rightarrow> Some (case split_once ''.'' rest of None \<Rightarrow> rest | Some (payload, _) \<Rightarrow> payload))"

definition parse_jwt_expiry :: "'key token_libs \<Rightarrow> str \<Rightarrow> jwt_parse_error + nat option" where
  "parse_jwt_expiry libs token = (case jwt_payload token of
     None \<Rightarrow> Inl NotAJwt
   | Some payload \<Rightarrow> (case lib_unb64 libs (standard_b64 payload) of
       None \<Rightarrow> Inl InvalidBase64
     | Some decoded \<Rightarrow>
         if \<not> tl_utf8 libs decoded then Inl InvalidUtf8
         else (case lib_parse libs decoded of
           None \<Rightarrow> Inl JwtJson
         | Some v \<Rightarrow> Inr (Option.bind (get v ''exp'') as_uint))))"

text \<open>\<^verbatim>\<open>.ok().flatten()\<close>.\<close>

definition known_expiry :: "'key token_libs \<Rightarrow> str \<Rightarrow> nat option" where
  "known_expiry libs token = (case parse_jwt_expiry libs token of Inr e \<Rightarrow> e | Inl _ \<Rightarrow> None)"

section \<open>Fetching a token\<close>

text \<open>
  Running the helper is answered by what it wrote, or why it could not run; the forced refresh when one is signalled; a
  published token is what the watchers are told. Wall clock times are milliseconds since the epoch.
\<close>

datatype token_request =
    TsNow | TsHelper str str | TsReadKey str | TsExchange str str | TsForced | TsPublish str

record helper_output =
  ho_success :: bool
  ho_status :: str
  ho_stdout :: str
  ho_stderr :: str

datatype token_reply =
    TrNow nat | TrHelper "str + helper_output" | TrKey "str + str" | TrExchange exchange_reply | TrForced

type_synonym 'a tokens = "(token_request, token_reply, 'a) io"

fun tr_now :: "token_reply \<Rightarrow> nat" where "tr_now (TrNow t) = t" | "tr_now _ = 0"
fun tr_helper :: "token_reply \<Rightarrow> str + helper_output" where "tr_helper (TrHelper x) = x" | "tr_helper _ = Inl []"
fun tr_key :: "token_reply \<Rightarrow> str + str" where "tr_key (TrKey x) = x" | "tr_key _ = Inl []"
fun tr_exchange :: "token_reply \<Rightarrow> exchange_reply" where "tr_exchange (TrExchange x) = x" | "tr_exchange _ = NoExchange []"

datatype external_token_error =
    MissingHelper
  | MissingSession
  | HelperExecError str
  | InvalidToken jwt_parse_error
  | KeyFileError str
  | ServiceAccountError sa_error

datatype 'key token_fetcher = Helper str str | AccountFetcher "'key service_account"

definition exec_helper :: "str \<Rightarrow> str \<Rightarrow> (external_token_error + str) tokens" where
  "exec_helper helper session = do {
     r \<leftarrow> ask_as tr_helper (TsHelper helper session);
     State_Monad.return (case r of
       Inl e \<Rightarrow> Inl (HelperExecError (''exec failed: '' @ e))
     | Inr out \<Rightarrow>
         if \<not> ho_success out then Inl (HelperExecError (''exit code '' @ ho_status out @ '': '' @ trim (ho_stderr out)))
         else (let token = trim (ho_stdout out) in
           if token = [] then Inl (HelperExecError ''empty token returned'') else Inr token))
   }"

definition mint_token :: "'key token_libs \<Rightarrow> 'key service_account \<Rightarrow> (external_token_error + str) tokens" where
  "mint_token libs sa = do {
     t \<leftarrow> ask_as tr_now TsNow;
     (case assertion (sa_libs.truncate libs) sa (t div 1000) of
        Inl e \<Rightarrow> State_Monad.return (Inl (ServiceAccountError e))
      | Inr a \<Rightarrow> do {
          r \<leftarrow> ask_as tr_exchange (TsExchange (token_endpoint sa) (token_request_body sa a));
          State_Monad.return (map_sum ServiceAccountError id (read_exchange (sa_libs.truncate libs) r))
        })
   }"

definition fetch_token :: "'key token_libs \<Rightarrow> 'key token_fetcher \<Rightarrow> (external_token_error + str) tokens" where
  "fetch_token libs fetcher = (case fetcher of
     Helper helper session \<Rightarrow> exec_helper helper session
   | AccountFetcher sa \<Rightarrow> mint_token libs sa)"

section \<open>The source\<close>

record token_source =
  so_token :: str
  so_ineffective :: nat

definition with_token :: "str \<Rightarrow> token_source" where
  "with_token token = \<lparr>so_token = token, so_ineffective = 0\<rparr>"

record token_env =
  te_helper :: "str option"
  te_session :: "str option"
  te_key_file :: "str option"
  te_issuer :: "str option"

definition DEFAULT_ISSUER :: str where "DEFAULT_ISSUER = ''https://auth.datum.net''"

definition from_env :: "'key token_libs \<Rightarrow> token_env \<Rightarrow> str option \<Rightarrow> (external_token_error + token_source) tokens" where
  "from_env libs env session = (case te_helper env of
     None \<Rightarrow> State_Monad.return (Inl MissingHelper)
   | Some helper \<Rightarrow> (case (case session of Some s \<Rightarrow> Some s | None \<Rightarrow> te_session env) of
       None \<Rightarrow> State_Monad.return (Inl MissingSession)
     | Some s \<Rightarrow> try_bind (exec_helper helper s) (\<lambda>token. State_Monad.return
         (case parse_jwt_expiry libs token of
            Inl e \<Rightarrow> Inl (InvalidToken e)
          | Inr _ \<Rightarrow> Inr (with_token token)))))"

text \<open>The source, and the fetcher of its refresh loop when one is started.\<close>

definition from_service_account_key_file :: "'key token_libs \<Rightarrow> str \<Rightarrow> str \<Rightarrow>
    (external_token_error + token_source \<times> 'key token_fetcher option) tokens" where
  "from_service_account_key_file libs path issuer = do {
     raw \<leftarrow> ask_as tr_key (TsReadKey path);
     (case raw of
        Inl e \<Rightarrow> State_Monad.return (Inl (KeyFileError e))
      | Inr content \<Rightarrow> (case from_json (sa_libs.truncate libs) content issuer of
          Inl e \<Rightarrow> State_Monad.return (Inl (ServiceAccountError e))
        | Inr sa \<Rightarrow> try_bind (fetch_token libs (AccountFetcher sa)) (\<lambda>token.
            State_Monad.return (Inr (with_token token, Some (AccountFetcher sa))))))
   }"

definition from_env_with_refresh :: "'key token_libs \<Rightarrow> token_env \<Rightarrow> str option \<Rightarrow>
    (external_token_error + token_source \<times> 'key token_fetcher option) tokens" where
  "from_env_with_refresh libs env session =
     (if te_key_file env \<noteq> None \<and> te_key_file env \<noteq> Some []
      then from_service_account_key_file libs (the (te_key_file env))
        (if te_issuer env = None \<or> te_issuer env = Some [] then DEFAULT_ISSUER else the (te_issuer env))
      else try_bind (from_env libs env session) (\<lambda>source. State_Monad.return (Inr (source,
        case (session, te_helper env) of (Some s, Some helper) \<Rightarrow> Some (Helper helper s) | _ \<Rightarrow> None))))"

section \<open>The refresh loop\<close>

definition INEFFECTIVE_FORCED_LIMIT :: nat where "INEFFECTIVE_FORCED_LIMIT = 3"
definition FIRST_BACKOFF :: nat where "FIRST_BACKOFF = 5000"
definition MAX_BACKOFF :: nat where "MAX_BACKOFF = 60000"
definition NO_EXPIRY_REFRESH :: nat where "NO_EXPIRY_REFRESH = 3600000"

record refresh_state =
  rs_source :: token_source
  rs_next :: nat
  rs_backoff :: nat

text \<open>A point in time a minute before the expiry; None when the system's clock cannot hold it.\<close>

definition refresh_time :: "nat \<Rightarrow> nat option" where
  "refresh_time exp = (if exp - 60 < 2 ^ 63 then Some (1000 * (exp - 60)) else None)"

definition start_refresh :: "'key token_libs \<Rightarrow> token_source \<Rightarrow> refresh_state tokens" where
  "start_refresh libs source = (case Option.bind (known_expiry libs (so_token source)) refresh_time of
     Some t \<Rightarrow> State_Monad.return \<lparr>rs_source = source, rs_next = t, rs_backoff = FIRST_BACKOFF\<rparr>
   | None \<Rightarrow> do {
       t \<leftarrow> ask_as tr_now TsNow;
       State_Monad.return \<lparr>rs_source = source, rs_next = t + NO_EXPIRY_REFRESH, rs_backoff = FIRST_BACKOFF\<rparr>
     })"

definition count_ineffective :: "bool \<Rightarrow> str \<Rightarrow> token_source \<Rightarrow> nat" where
  "count_ineffective forced new_token source =
     (if new_token = so_token source then (if forced then so_ineffective source + 1 else so_ineffective source) else 0)"

text \<open>A point in time that the clock cannot hold ends the task: the addition panics.\<close>

definition after_fetch :: "'key token_libs \<Rightarrow> bool \<Rightarrow> refresh_state \<Rightarrow> external_token_error + str \<Rightarrow> (refresh_state + unit) tokens" where
  "after_fetch libs forced s fetched = (case fetched of
     Inr new_token \<Rightarrow> (let source = \<lparr>so_token = new_token, so_ineffective = count_ineffective forced new_token (rs_source s)\<rparr> in do {
       signal (TsPublish new_token);
       (case known_expiry libs new_token of
          Some exp \<Rightarrow> State_Monad.return (case refresh_time exp of
              Some u \<Rightarrow> Inl \<lparr>rs_source = source, rs_next = u, rs_backoff = FIRST_BACKOFF\<rparr>
            | None \<Rightarrow> Inr ())
        | None \<Rightarrow> do {
            u \<leftarrow> ask_as tr_now TsNow;
            State_Monad.return (Inl \<lparr>rs_source = source, rs_next = u + NO_EXPIRY_REFRESH, rs_backoff = FIRST_BACKOFF\<rparr>)
          })
     })
   | Inl _ \<Rightarrow> do {
       u \<leftarrow> ask_as tr_now TsNow;
       State_Monad.return (Inl (s\<lparr>rs_next := u + rs_backoff s, rs_backoff := min (rs_backoff s * 2) MAX_BACKOFF\<rparr>))
     })"

definition refresh_round :: "'key token_libs \<Rightarrow> 'key token_fetcher \<Rightarrow> refresh_state \<Rightarrow> (refresh_state + unit) tokens" where
  "refresh_round libs fetcher s = do {
     t \<leftarrow> ask_as tr_now TsNow;
     signalled \<leftarrow> ask_within_as (\<lambda>_. ()) (rs_next s - t) TsForced;
     if signalled \<noteq> None \<and> INEFFECTIVE_FORCED_LIMIT \<le> so_ineffective (rs_source s) then State_Monad.return (Inl s)
     else do {
       fetched \<leftarrow> fetch_token libs fetcher;
       after_fetch libs (signalled \<noteq> None) s fetched
     }
   }"

definition run_refresh_loop :: "nat \<Rightarrow> 'key token_libs \<Rightarrow> 'key token_fetcher \<Rightarrow> token_source \<Rightarrow> unit option tokens" where
  "run_refresh_loop fuel libs fetcher source = do {
     s \<leftarrow> start_refresh libs source;
     repeat_io fuel (refresh_round libs fetcher) s
   }"

end
