(* ===== verification/Token_Facts.thy ===== *)
theory Token_Facts
  imports Token_Source Sample_Codec
begin

text \<open>
  What the token source promises, and three places where its loop gives way: the expiry that is read from a token, how
  often a helper that cannot renew a token is run, the last minute of a cached token, an expiry no clock can hold. A
  balance of the trace counts the runs of the helper against the timer and the forced refreshes.
\<close>

section \<open>Reading the expiry\<close>

fun url_char :: "char \<Rightarrow> char" where
  "url_char c = (if c = CHR ''+'' then CHR ''-'' else if c = CHR ''/'' then CHR ''_'' else c)"

definition b64_padding :: "str \<Rightarrow> str" where
  "b64_padding body = replicate ((4 - length body mod 4) mod 4) (CHR ''='')"

lemma standard_url_char: "c \<noteq> CHR ''-'' \<Longrightarrow> c \<noteq> CHR ''_'' \<Longrightarrow> standard_char (url_char c) = c"
  by auto

lemma standard_b64_url:
  assumes "CHR ''-'' \<notin> set body" "CHR ''_'' \<notin> set body"
  shows "standard_b64 (map url_char body) = body @ b64_padding body"
proof -
  have s: "map standard_char (map url_char body) = body"
    using assms by (induction body) (auto simp del: standard_char.simps url_char.simps simp: standard_url_char)
  have "length body mod 4 < 4" by simp
  then show ?thesis unfolding standard_b64_def Let_def s
    by (cases "length body mod 4 = 0") (auto simp: b64_padding_def)
qed

lemma jwt_payload_middle:
  assumes "CHR ''.'' \<notin> set header" "CHR ''.'' \<notin> set payload"
  shows "jwt_payload (header @ ''.'' @ payload @ ''.'' @ signature) = Some payload"
proof -
  have "split_once ''.'' (header @ ''.'' @ payload @ ''.'' @ signature) = Some (header, payload @ ''.'' @ signature)"
    "split_once ''.'' (payload @ ''.'' @ signature) = Some (payload, signature)"
    using assms by (auto simp: split_once_char_Some)
  then show ?thesis by (simp add: jwt_payload_def)
qed

lemma payload_expiry:
  assumes "lib_unb64 libs (body @ b64_padding body) = Some p" "tl_utf8 libs p" "lib_parse libs p = Some v"
    and "get v ''exp'' = Some (JNum (int e))" "e < 2 ^ 64"
    and "set body \<inter> {CHR ''-'', CHR ''_'', CHR ''.''} = {}" "CHR ''.'' \<notin> set header"
  shows "parse_jwt_expiry libs (header @ ''.'' @ map url_char body @ ''.'' @ signature) = Inr (Some e)"
proof -
  have "CHR ''.'' \<notin> set (map url_char body)" using assms(6) by (auto split: if_splits)
  with assms(7) have "jwt_payload (header @ ''.'' @ map url_char body @ ''.'' @ signature) = Some (map url_char body)"
    by (rule jwt_payload_middle)
  with assms show ?thesis by (simp add: parse_jwt_expiry_def standard_b64_url)
qed

text \<open>
  the expiry of a JWT is read from its payload: the unpadded, url safe base64 of a JSON object with a claim \<open>exp\<close> is turned
  into the padded standard form and decoded, whatever the header and the signature are.
\<close>

theorem expiry_read_back:
  assumes "lib_unb64 libs (body @ b64_padding body) = Some p" "tl_utf8 libs p" "lib_parse libs p = Some v"
    and "get v ''exp'' = Some (JNum (int e))" "e < 2 ^ 64"
    and "set body \<inter> {CHR ''-'', CHR ''_'', CHR ''.''} = {}" "CHR ''.'' \<notin> set header"
  shows "parse_jwt_expiry libs (header @ ''.'' @ map url_char body @ ''.'' @ signature) = Inr (Some e)"
  using assms by (rule payload_expiry)

section \<open>What the loop runs\<close>

type_synonym token_event = "(token_request, token_reply) event"

definition helper_runs :: "token_event list \<Rightarrow> nat" where
  "helper_runs es = length (filter (\<lambda>e. \<exists>h s. request e = TsHelper h s) es)"

definition timer_fires :: "token_event list \<Rightarrow> nat" where
  "timer_fires es = length (filter (\<lambda>e. request e = TsForced \<and> reply e = None) es)"

text \<open>A helper that keeps giving one token.\<close>

definition gives_token :: "str \<Rightarrow> str \<Rightarrow> str \<Rightarrow> (nat \<Rightarrow> token_event list \<Rightarrow> token_request \<Rightarrow> token_reply \<times> nat) \<Rightarrow> bool" where
  "gives_token helper session token env \<longleftrightarrow> token \<noteq> [] \<and> (\<forall>t es. \<exists>out. fst (env t es (TsHelper helper session)) = TrHelper (Inr out) \<and>
     ho_success out \<and> trim (ho_stdout out) = token)"

definition balance :: "(nat \<Rightarrow> token_event list \<Rightarrow> token_request \<Rightarrow> token_reply \<times> nat) \<Rightarrow> (token_request, token_reply) world \<Rightarrow>
    nat \<Rightarrow> nat \<Rightarrow> (token_request, token_reply) world \<Rightarrow> bool" where
  "balance env w0 a b w \<longleftrightarrow> environment w = env \<and> (\<exists>es. trace w = trace w0 @ es \<and> helper_runs es + a = timer_fires es + b)"

lemma balance_next:
  "balance env w0 a b w \<Longrightarrow> trace w' = trace w @ [e] \<Longrightarrow> environment w' = environment w \<Longrightarrow>
   balance env w0 (a + timer_fires [e]) (b + helper_runs [e]) w'"
  unfolding balance_def by (auto simp: helper_runs_def timer_fires_def intro!: exI [of _ "_ @ [e]"])

lemma balance_Suc [simp]: "balance env w0 (Suc a) (Suc b) w \<longleftrightarrow> balance env w0 a b w"
  by (simp add: balance_def)

lemma balance_free:
  assumes "balance env w0 a b w" "trace w' = trace w @ [e]" "environment w' = environment w"
    "\<forall>h s. request e \<noteq> TsHelper h s" "request e \<noteq> TsForced"
  shows "balance env w0 a b w'"
  using balance_next [OF assms(1-3)] assms(4,5) by (simp add: helper_runs_def timer_fires_def)

lemma balance_now: "hoare (balance env w0 a b) (ask_as f TsNow) (\<lambda>_. balance env w0 a b)"
  by (rule hoareI) (auto simp: ask_as_def dest!: run_ask split: prod.splits elim!: balance_free)

lemma balance_publish: "hoare (balance env w0 a b) (signal (TsPublish x)) (\<lambda>_. balance env w0 a b)"
  by (rule hoareI) (auto elim!: balance_free)

text \<open>The timer owes a run of the helper; a forced refresh does not.\<close>

lemma balance_forced:
  "hoare (balance env w0 a b) (ask_within_as (\<lambda>_. ()) d TsForced)
     (\<lambda>r. balance env w0 (case r of None \<Rightarrow> Suc a | Some _ \<Rightarrow> a) b)"
proof (rule hoareI)
  fix w r w'
  assume bal: "balance env w0 a b w" and run: "run_state (ask_within_as (\<lambda>_. ()) d TsForced) w = (r, w')"
  then obtain r0 c where r: "r = map_option (\<lambda>_. ()) r0"
    and w': "w' = w\<lparr>clock := c, trace := trace w @ [Event (clock w) TsForced r0]\<rparr>"
    by (auto simp: ask_within_as_def dest!: run_ask_within split: prod.splits)
  from balance_next [OF bal, of w' "Event (clock w) TsForced r0"] w' r
  show "balance env w0 (case r of None \<Rightarrow> Suc a | Some _ \<Rightarrow> a) b w'"
    by (cases r0) (simp_all add: helper_runs_def timer_fires_def)
qed

lemma balance_helper:
  assumes gives: "gives_token helper session token env"
  shows "hoare (balance env w0 a b) (exec_helper helper session) (\<lambda>r w. r = Inr token \<and> balance env w0 a (Suc b) w)"
  unfolding exec_helper_def
proof (rule hoareI)
  fix w r w'
  assume bal: "balance env w0 a b w"
    and run: "run_state (do { r \<leftarrow> ask_as tr_helper (TsHelper helper session);
       State_Monad.return (case r of Inl e \<Rightarrow> Inl (HelperExecError (''exec failed: '' @ e))
         | Inr out \<Rightarrow> if \<not> ho_success out then Inl (HelperExecError (''exit code '' @ ho_status out @ '': '' @ trim (ho_stderr out)))
             else (let token = trim (ho_stdout out) in
               if token = [] then Inl (HelperExecError ''empty token returned'') else Inr token)) }) w = (r, w')"
  from bal have "environment w = env" by (simp add: balance_def)
  with gives obtain out d where "environment w (clock w) (trace w) (TsHelper helper session) = (TrHelper (Inr out), d)"
    "ho_success out" "trim (ho_stdout out) = token" "token \<noteq> []"
    unfolding gives_token_def by (metis prod.collapse)
  with run have "r = Inr token"
    and w': "w' = w\<lparr>clock := clock w + d, trace := trace w @ [Event (clock w) (TsHelper helper session) (Some (TrHelper (Inr out)))]\<rparr>"
    by (auto simp: ask_as_def ask_def)
  with balance_next [OF bal, of w'] show "r = Inr token \<and> balance env w0 a (Suc b) w'"
    by (simp add: helper_runs_def timer_fires_def)
qed

definition steady :: "(nat \<Rightarrow> token_event list \<Rightarrow> token_request \<Rightarrow> token_reply \<times> nat) \<Rightarrow> (token_request, token_reply) world \<Rightarrow>
    str \<Rightarrow> refresh_state \<Rightarrow> (token_request, token_reply) world \<Rightarrow> bool" where
  "steady env w0 token s w \<longleftrightarrow> (so_token (rs_source s) = token \<and> so_ineffective (rs_source s) \<le> INEFFECTIVE_FORCED_LIMIT) \<and>
     balance env w0 0 (so_ineffective (rs_source s)) w"

abbreviation few_runs :: "(token_request, token_reply) world \<Rightarrow> (token_request, token_reply) world \<Rightarrow> bool" where
  "few_runs w0 w \<equiv> (\<exists>es. trace w = trace w0 @ es \<and> helper_runs es \<le> timer_fires es + INEFFECTIVE_FORCED_LIMIT)"

lemma steady_few: "steady env w0 token s w \<Longrightarrow> few_runs w0 w"
  by (auto simp: steady_def balance_def)

lemma steady_round:
  assumes gives: "gives_token helper session token env"
  shows "hoare (steady env w0 token s) (refresh_round libs (Helper helper session) s)
    (\<lambda>r w. case r of Inl s' \<Rightarrow> steady env w0 token s' w | Inr _ \<Rightarrow> few_runs w0 w)" (is "hoare _ _ ?Q")
  unfolding steady_def [of env w0 token s] refresh_round_def
proof (rule hoare_pull, rule hoare_bind [OF balance_now], rule hoare_bind [OF balance_forced], rule hoare_if)
  fix signalled :: "unit option"
  let ?k = "so_ineffective (rs_source s)" and ?forced = "signalled \<noteq> None"
  let ?a = "case signalled of None \<Rightarrow> Suc 0 | Some _ \<Rightarrow> 0"
  assume k: "so_token (rs_source s) = token \<and> ?k \<le> INEFFECTIVE_FORCED_LIMIT"
  {
    assume "?forced \<and> INEFFECTIVE_FORCED_LIMIT \<le> ?k"
    with k show "hoare (balance env w0 ?a ?k) (State_Monad.return (Inl s)) ?Q" by (auto simp: steady_def intro!: hoare_return)
  next
    assume lim: "\<not> (?forced \<and> INEFFECTIVE_FORCED_LIMIT \<le> ?k)"
    have source: "balance env w0 ?a (Suc ?k) w \<Longrightarrow> steady env w0 token
        \<lparr>rs_source = \<lparr>so_token = token, so_ineffective = count_ineffective ?forced token (rs_source s)\<rparr>, rs_next = u, rs_backoff = b\<rparr> w" for w u b
      using k lim by (cases signalled) (auto simp: steady_def count_ineffective_def)
    note few = steady_few [OF source]
    let ?source = "\<lparr>so_token = token, so_ineffective = count_ineffective ?forced token (rs_source s)\<rparr>"
    have planned: "balance env w0 ?a (Suc ?k) w \<Longrightarrow> ?Q (case refresh_time exp of
        Some u \<Rightarrow> Inl \<lparr>rs_source = ?source, rs_next = u, rs_backoff = FIRST_BACKOFF\<rparr> | None \<Rightarrow> Inr ()) w" for exp w
      using source few by (cases "refresh_time exp") (simp_all only: option.case sum.case)
    show "hoare (balance env w0 ?a ?k) (do { fetched \<leftarrow> fetch_token libs (Helper helper session);
        after_fetch libs ?forced s fetched }) ?Q"
      unfolding fetch_token_def token_fetcher.case
    proof (rule hoare_bind [OF balance_helper [OF gives]], rule hoare_pull)
      fix r :: "external_token_error + str" assume r: "r = Inr token"
      show "hoare (balance env w0 ?a (Suc ?k)) (after_fetch libs ?forced s r) ?Q"
        unfolding r after_fetch_def sum.case Let_def
        by (intro hoare_bind [OF balance_publish] hoare_case_option hoare_bind [OF balance_now] hoare_return)
           (simp_all only: sum.case source planned)
    qed
  }
qed

lemma steady_start:
  "hoare (\<lambda>w. w = w0 \<and> environment w = env) (start_refresh libs (with_token token)) (\<lambda>s. steady env w0 token s)"
proof -
  have "hoare (balance env w0 0 0) (start_refresh libs (with_token token)) (\<lambda>s. steady env w0 token s)"
    unfolding start_refresh_def
    by (intro hoare_case_option hoare_bind [OF balance_now] hoare_return) (auto simp: steady_def with_token_def)
  then show ?thesis by (rule hoare_pre) (auto simp: balance_def helper_runs_def timer_fires_def)
qed

text \<open>
  C23: when the credentials helper keeps giving the token the daemon already has, it is run at most three times because of forced
  refreshes, however many are signalled; every other run is the timer's.
\<close>

theorem unrenewable_token_is_not_retried:
  assumes "gives_token helper session token (environment w)"
    and "run_state (run_refresh_loop fuel libs (Helper helper session) (with_token token)) w = (r, v)"
  shows "\<exists>es. trace v = trace w @ es \<and> helper_runs es \<le> timer_fires es + INEFFECTIVE_FORCED_LIMIT"
proof -
  have "hoare (\<lambda>u. u = w \<and> environment u = environment w)
      (run_refresh_loop fuel libs (Helper helper session) (with_token token)) (\<lambda>_ u. few_runs w u)"
    unfolding run_refresh_loop_def
    by (rule hoare_bind [OF steady_start], rule hoare_repeat_always [OF steady_round [OF assms(1)]]) (rule steady_few)
  from hoareD [OF this _ assms(2)] show ?thesis by simp
qed

section \<open>The last minute\<close>

text \<open>The last minute of a token: the wall clock is past the point of the refresh, and nobody forces one.\<close>

definition last_minute :: "nat \<Rightarrow> nat \<Rightarrow> (nat \<Rightarrow> token_event list \<Rightarrow> token_request \<Rightarrow> token_reply \<times> nat) \<Rightarrow> bool" where
  "last_minute exp delay env \<longleftrightarrow> (\<forall>t es. (\<exists>u. fst (env t es TsNow) = TrNow u \<and> 1000 * (exp - 60) \<le> u) \<and>
     0 < snd (env t es TsForced) \<and> (\<forall>q. q \<noteq> TsForced \<longrightarrow> snd (env t es q) \<le> delay))"

definition due :: "str \<Rightarrow> nat \<Rightarrow> refresh_state \<Rightarrow> bool" where
  "due token exp s \<longleftrightarrow> so_token (rs_source s) = token \<and> rs_next s = 1000 * (exp - 60)"

lemma gives_tokenD: "gives_token helper session token env \<Longrightarrow> \<exists>out d. env t es (TsHelper helper session) = (TrHelper (Inr out), d) \<and>
    ho_success out \<and> trim (ho_stdout out) = token \<and> token \<noteq> []"
  unfolding gives_token_def by (metis prod.collapse)

lemma last_minuteD:
  assumes "last_minute exp delay env"
  shows "\<exists>u d. env t es TsNow = (TrNow u, d) \<and> 1000 * (exp - 60) \<le> u"
    and "\<exists>r d. env t es TsForced = (r, d) \<and> 0 < d"
    and "env t es q = (r, d) \<Longrightarrow> q \<noteq> TsForced \<Longrightarrow> d \<le> delay"
  using assms unfolding last_minute_def by (metis prod.collapse, metis prod.collapse, metis snd_conv)

lemma due_round:
  assumes "gives_token helper session token env" "known_expiry libs token = Some exp" "exp - 60 < 2 ^ 63"
    and "last_minute exp delay env" "due token exp s" "environment w = env"
  shows "\<exists>s' v es. run_state (refresh_round libs (Helper helper session) s) w = (Inl s', v) \<and> due token exp s' \<and> environment v = env \<and>
    trace v = trace w @ es \<and> helper_runs es = 1 \<and> clock v \<le> clock w + 2 * delay"
proof -
  obtain u d where now: "env (clock w) (trace w) TsNow = (TrNow u, d)" "1000 * (exp - 60) \<le> u" "d \<le> delay"
    using last_minuteD [OF assms(4)] by (metis token_request.distinct(7))
  let ?t1 = "clock w + d" and ?es1 = "trace w @ [Event (clock w) TsNow (Some (TrNow u))]"
  obtain r1 d1 where forced: "env ?t1 ?es1 TsForced = (r1, d1)" "0 < d1"
    using last_minuteD(2) [OF assms(4)] by blast
  let ?es2 = "?es1 @ [Event ?t1 TsForced None]"
  obtain out d2 where helper: "env ?t1 ?es2 (TsHelper helper session) = (TrHelper (Inr out), d2)"
    "ho_success out" "trim (ho_stdout out) = token" "token \<noteq> []"
    using gives_tokenD [OF assms(1)] by blast
  have d2: "d2 \<le> delay" using last_minuteD(3) [OF assms(4) helper(1)] by simp
  have next1: "rs_next s - u = 0" using now(2) assms(5) by (simp add: due_def)
  let ?v = "w\<lparr>clock := ?t1 + d2, trace := ?es2 @ [Event ?t1 (TsHelper helper session) (Some (TrHelper (Inr out))),
      Event (?t1 + d2) (TsPublish token) None]\<rparr>"
  let ?s = "\<lparr>rs_source = \<lparr>so_token = token, so_ineffective = count_ineffective False token (rs_source s)\<rparr>,
      rs_next = 1000 * (exp - 60), rs_backoff = FIRST_BACKOFF\<rparr>"
  have "run_state (refresh_round libs (Helper helper session) s) w = (Inl ?s, ?v)"
    using now forced helper next1 assms(2,3,6)
    by (simp add: refresh_round_def after_fetch_def ask_as_def ask_def ask_within_as_def ask_within_def fetch_token_def
        exec_helper_def refresh_time_def Let_def)
  moreover have "due token exp ?s" by (simp add: due_def)
  ultimately show ?thesis using now(3) d2 assms(6)
    by (intro exI [of _ ?s] exI [of _ ?v] exI [of _ "[Event (clock w) TsNow (Some (TrNow u)), Event ?t1 TsForced None,
      Event ?t1 (TsHelper helper session) (Some (TrHelper (Inr out))), Event (?t1 + d2) (TsPublish token) None]"])
      (simp add: helper_runs_def)
qed

lemma due_rounds:
  assumes "gives_token helper session token env" "known_expiry libs token = Some exp" "exp - 60 < 2 ^ 63" "last_minute exp delay env"
  shows "due token exp s \<Longrightarrow> environment w = env \<Longrightarrow>
    \<exists>v es. run_state (repeat_io n (refresh_round libs (Helper helper session)) s) w = (None, v) \<and>
      trace v = trace w @ es \<and> helper_runs es = n \<and> clock v \<le> clock w + n * (2 * delay)"
proof (induction n arbitrary: s w)
  case 0
  then show ?case by (simp add: helper_runs_def)
next
  case (Suc n)
  from due_round [OF assms Suc.prems] obtain s' u es where u:
    "run_state (refresh_round libs (Helper helper session) s) w = (Inl s', u)" "due token exp s'" "environment u = env"
    "trace u = trace w @ es" "helper_runs es = 1" "clock u \<le> clock w + 2 * delay" by blast
  from Suc.IH [OF u(2,3)] obtain v fs where
    "run_state (repeat_io n (refresh_round libs (Helper helper session)) s') u = (None, v)"
    "trace v = trace u @ fs" "helper_runs fs = n" "clock v \<le> clock u + n * (2 * delay)" by blast
  with u show ?case by (intro exI [of _ v] exI [of _ "es @ fs"]) (simp add: helper_runs_def)
qed

text \<open>
 in the last minute of a token, a helper that hands out its cached copy is run again and again without a pause: the loop does
  any number of rounds in the time their replies take, each of them a run of the helper.
\<close>

theorem last_minute_is_busy:
  assumes "gives_token helper session token (environment w)" "known_expiry libs token = Some exp" "exp - 60 < 2 ^ 63"
    and "last_minute exp delay (environment w)"
  shows "\<exists>v es. run_state (run_refresh_loop n libs (Helper helper session) (with_token token)) w = (None, v) \<and>
    trace v = trace w @ es \<and> helper_runs es = n \<and> clock v \<le> clock w + n * (2 * delay)"
proof -
  let ?s = "\<lparr>rs_source = with_token token, rs_next = 1000 * (exp - 60), rs_backoff = FIRST_BACKOFF\<rparr>"
  have "run_state (start_refresh libs (with_token token)) w = (?s, w)"
    using assms(2,3) by (simp add: start_refresh_def with_token_def refresh_time_def)
  moreover have "due token exp ?s" by (simp add: due_def with_token_def)
  ultimately show ?thesis using due_rounds [OF assms, of ?s w n] by (simp add: run_refresh_loop_def)
qed

section \<open>An expiry no clock can hold\<close>

text \<open>
 a refreshed token whose expiry the system's clock cannot hold ends the refresh task, and with it every later refresh: the first
  token's expiry is checked, a refreshed one's is not.
\<close>

theorem unbounded_expiry_ends_refresh:
  assumes "gives_token helper session token (environment w)" "known_expiry libs token = Some exp" "2 ^ 63 \<le> exp - 60"
    and "so_ineffective (rs_source s) < INEFFECTIVE_FORCED_LIMIT"
  shows "\<exists>v. run_state (repeat_io (Suc n) (refresh_round libs (Helper helper session)) s) w = (Some (), v)"
proof -
  let ?env = "environment w"
  obtain r d where now: "?env (clock w) (trace w) TsNow = (r, d)" by fastforce
  let ?w1 = "w\<lparr>clock := clock w + d, trace := trace w @ [Event (clock w) TsNow (Some r)]\<rparr>"
  obtain a w2 where w2: "run_state (ask_within_as (\<lambda>_. ()) (rs_next s - tr_now r) TsForced) ?w1 = (a, w2)" by fastforce
  then have "environment w2 = ?env" by (auto simp: ask_within_as_def dest!: run_ask_within split: prod.splits)
  then obtain out d2 where "environment w2 (clock w2) (trace w2) (TsHelper helper session) = (TrHelper (Inr out), d2)"
    "ho_success out" "trim (ho_stdout out) = token" "token \<noteq> []"
    using gives_tokenD [OF assms(1)] by metis
  then have "\<exists>v. run_state (refresh_round libs (Helper helper session) s) w = (Inr (), v)"
    using now w2 assms(2-4)
    by (simp add: refresh_round_def after_fetch_def ask_as_def ask_def fetch_token_def exec_helper_def refresh_time_def Let_def)
  then show ?thesis by auto
qed

section \<open>A token and a helper\<close>

definition sample_token_libs :: "unit token_libs" where
  "sample_token_libs = \<lparr>lib_parse = sample_json_parse, lib_text = sample_text, lib_b64url = id,
     lib_unb64 = (\<lambda>s. Some (takeWhile (\<lambda>c. c \<noteq> CHR ''='') s)), lib_rsa_pkcs1 = (\<lambda>_. Some ()), lib_rsa_pkcs8 = (\<lambda>_. Some ()),
     lib_sign = (\<lambda>_ _. Some []), tl_utf8 = (\<lambda>_. True)\<rparr>"

definition sample_claims :: "int \<Rightarrow> json" where "sample_claims e = JObj [(''exp'', JNum e)]"

definition sample_jwt :: "int \<Rightarrow> str" where
  "sample_jwt e = ''h'' @ ''.'' @ map url_char (sample_text (sample_claims e)) @ ''.'' @ ''s''"

lemma sample_exp_text: "str_text ''exp'' = ''gfhiha;''"
  by code_simp

lemma sample_body:
  "set (sample_text (sample_claims (int e))) \<inter> {CHR ''-'', CHR ''_'', CHR ''.'', CHR ''=''} = {}"
proof -
  have "sample_text (sample_claims (int e)) = ''ogfhiha;i'' @ show_nat e @ '';}''"
    by (simp add: sample_claims_def sample_exp_text int_text_def sample_text.simps)
  moreover have "set (show_nat e) \<inter> {CHR ''-'', CHR ''_'', CHR ''.'', CHR ''=''} = {}"
    by (simp add: show_nat_no is_digit_def)
  ultimately show ?thesis by (simp add: Int_Un_distrib2)
qed

lemma sample_unpad: "CHR ''='' \<notin> set body \<Longrightarrow> takeWhile (\<lambda>c. c \<noteq> CHR ''='') (body @ b64_padding body) = body"
proof -
  have "takeWhile (\<lambda>c. c \<noteq> CHR ''='') (body @ replicate n (CHR ''='')) = body" if "CHR ''='' \<notin> set body" for n
    using that by (induction body) (cases n, auto)
  then show "CHR ''='' \<notin> set body \<Longrightarrow> ?thesis" by (simp add: b64_padding_def)
qed

lemma sample_decodes:
  "lib_unb64 sample_token_libs (sample_text (sample_claims (int e)) @ b64_padding (sample_text (sample_claims (int e)))) =
     Some (sample_text (sample_claims (int e)))"
  using sample_body [of e] by (auto simp: sample_token_libs_def intro!: sample_unpad)

lemma sample_expiry: "e < 2 ^ 64 \<Longrightarrow> known_expiry sample_token_libs (sample_jwt (int e)) = Some e"
  unfolding known_expiry_def sample_jwt_def
  by (subst payload_expiry [OF sample_decodes])
     (use sample_body [of e] in \<open>auto simp: sample_token_libs_def sample_claims_def obj_get_def\<close>)

theorem expiry_read_back_witness:
  "parse_jwt_expiry sample_token_libs (''h'' @ ''.'' @ map url_char (sample_text (sample_claims (int 100))) @ ''.'' @ ''s'') = Inr (Some 100)"
  by (rule expiry_read_back [OF sample_decodes])
     (use sample_body [of 100] in \<open>auto simp: sample_token_libs_def sample_claims_def obj_get_def\<close>)

text \<open>The helper writes the token and a new line; the clock stands at fifty seconds.\<close>

definition sample_output :: "str \<Rightarrow> helper_output" where
  "sample_output token = \<lparr>ho_success = True, ho_status = ''0'', ho_stdout = token @ [CHR 0x0A], ho_stderr = []\<rparr>"

fun token_answer :: "str \<Rightarrow> token_request \<Rightarrow> token_reply" where
  "token_answer token TsNow = TrNow 50000"
| "token_answer token (TsHelper h s) = TrHelper (Inr (sample_output token))"
| "token_answer token _ = TrForced"

lemma sample_trim: "trim (sample_jwt (int e) @ [CHR 0x0A]) = sample_jwt (int e)"
  by (simp add: trim_def trim_start_def sample_jwt_def trim_end_with_def is_whitespace_def)

lemma sample_gives: "gives_token h s (sample_jwt (int e)) (environment (answerer (token_answer (sample_jwt (int e)))))"
  by (simp add: gives_token_def answerer_def sample_output_def sample_trim) (simp add: sample_jwt_def)

theorem unrenewable_token_is_not_retried_witness:
  "\<exists>r v es. run_state (run_refresh_loop 9 sample_token_libs (Helper ''h'' ''s'') (with_token (sample_jwt (int 100))))
      (answerer (token_answer (sample_jwt (int 100)))) = (r, v) \<and> trace v = es \<and> helper_runs es \<le> timer_fires es + 3"
proof -
  obtain r v where v: "run_state (run_refresh_loop 9 sample_token_libs (Helper ''h'' ''s'') (with_token (sample_jwt (int 100))))
      (answerer (token_answer (sample_jwt (int 100)))) = (r, v)" by fastforce
  from unrenewable_token_is_not_retried [OF sample_gives this] v show ?thesis
    by (auto simp: INEFFECTIVE_FORCED_LIMIT_def answerer_def)
qed

theorem last_minute_is_busy_witness:
  "\<exists>v. run_state (run_refresh_loop 1000 sample_token_libs (Helper ''h'' ''s'') (with_token (sample_jwt (int 100))))
      (answerer (token_answer (sample_jwt (int 100)))) = (None, v) \<and> helper_runs (trace v) = 1000 \<and> clock v \<le> 2000"
proof -
  have "last_minute 100 1 (environment (answerer (token_answer (sample_jwt (int 100)))))"
    by (simp add: last_minute_def answerer_def)
  from last_minute_is_busy [OF sample_gives sample_expiry _ this, where n = 1000 and helper = "''h''" and session = "''s''"] show ?thesis
    by (auto simp: answerer_def)
qed

theorem unbounded_expiry_ends_refresh_witness:
  "\<exists>v. run_state (repeat_io 1 (refresh_round sample_token_libs (Helper ''h'' ''s''))
      \<lparr>rs_source = with_token ''old'', rs_next = 0, rs_backoff = FIRST_BACKOFF\<rparr>)
      (answerer (token_answer (sample_jwt (int 9223372036854775868)))) = (Some (), v)"
  using unbounded_expiry_ends_refresh [OF sample_gives [where e = 9223372036854775868] sample_expiry,
      where n = 0 and s = "\<lparr>rs_source = with_token ''old'', rs_next = 0, rs_backoff = FIRST_BACKOFF\<rparr>"
      and helper = "''h''" and session = "''s''"]
  by (simp add: with_token_def INEFFECTIVE_FORCED_LIMIT_def)

end
