(* ===== verification/Supervisor.thy ===== *)
theory Supervisor
  imports Ip_Net Pairing_Text Prelude
begin

text \<open>
  \<open>datum_cloud/ha_supervisor.rs\<close>: what the add-on asks of Home Assistant's Supervisor, where its page listens, and the
  notification that carries pairing's link: its texts, which Home Assistant renders as Markdown, and the queue they go
  out from.
\<close>

section \<open>Calls to the Supervisor\<close>

text \<open>
  Every request carries the token. \<open>su_status\<close> is how a status is written (401 Unauthorized), \<open>su_debug\<close> a text in
  quotes. A reply whose body cannot be read has an empty one.
\<close>

record supervisor =
  su_base :: str
  su_token :: str
  su_parse :: "str \<Rightarrow> json option"
  su_status :: "nat \<Rightarrow> str"
  su_debug :: "str \<Rightarrow> str"

datatype sup_request = SupPost str "json option" | SupGet str | SupReadFile str
datatype sup_reply = SupFailed str | SupAnswer nat str

type_synonym 'a sup = "(sup_request, sup_reply, 'a) io"

definition NOTIFICATION_ID :: str where "NOTIFICATION_ID = ''datum_connect_pairing''"
definition NOTIFICATION_TITLE :: str where "NOTIFICATION_TITLE = ''Datum Connect: connect to Datum''"
definition FLUSH_TIMEOUT :: nat where "FLUSH_TIMEOUT = 15000"
definition DEFAULT_SUPERVISOR_URL :: str where "DEFAULT_SUPERVISOR_URL = ''http://supervisor''"

definition ipv4 :: "nat \<Rightarrow> nat \<Rightarrow> nat \<Rightarrow> nat \<Rightarrow> ip_addr" where
  "ipv4 a b c d = V4 (word_of_nat (((a * 256 + b) * 256 + c) * 256 + d))"

definition DEFAULT_INGRESS_BIND :: ip_addr where "DEFAULT_INGRESS_BIND = ipv4 172 30 32 1"
definition DEFAULT_INGRESS_PROXY :: ip_addr where "DEFAULT_INGRESS_PROXY = ipv4 172 30 32 2"

definition new_supervisor :: "str \<Rightarrow> str \<Rightarrow> (str \<Rightarrow> json option) \<Rightarrow> (nat \<Rightarrow> str) \<Rightarrow> (str \<Rightarrow> str) \<Rightarrow> supervisor" where
  "new_supervisor base token parse show_st debug = \<lparr>su_base = trim_end_char (CHR ''/'') base, su_token = token,
     su_parse = parse, su_status = show_st, su_debug = debug\<rparr>"

text \<open>From the environment: nobody to notify without a token.\<close>

definition supervisor_from_env :: "str option \<Rightarrow> str option \<Rightarrow> (str \<Rightarrow> json option) \<Rightarrow> (nat \<Rightarrow> str) \<Rightarrow> (str \<Rightarrow> str) \<Rightarrow> supervisor option" where
  "supervisor_from_env token url parse show_st debug = (case token of
     None \<Rightarrow> None
   | Some t \<Rightarrow> if trim t = [] then None
       else Some (new_supervisor (case url of Some u \<Rightarrow> if trim u = [] then DEFAULT_SUPERVISOR_URL else u
           | None \<Rightarrow> DEFAULT_SUPERVISOR_URL) t parse show_st debug))"

definition su_redact :: "supervisor \<Rightarrow> str \<Rightarrow> str" where
  "su_redact su message = redact message (su_token su)"

definition sup_excerpt :: "str \<Rightarrow> str" where
  "sup_excerpt body = (let flat = trim (map (\<lambda>c. if is_control c then CHR '' '' else c) body)
     in if flat = [] then ''no response body'' else take 200 flat)"

definition unreachable :: "supervisor \<Rightarrow> str \<Rightarrow> str" where
  "unreachable su e = su_redact su (''cannot reach the Supervisor: '' @ e)"

definition access_hint :: "nat \<Rightarrow> str" where
  "access_hint status = (if status = 401 \<or> status = 403
     then '' (the add-on needs homeassistant_api: true in config.yaml)'' else [])"

definition call_service :: "supervisor \<Rightarrow> str \<Rightarrow> json \<Rightarrow> (str + unit) sup" where
  "call_service su service body = do {
     r \<leftarrow> ask (SupPost (su_base su @ ''/core/api/services/persistent_notification/'' @ service) (Some body));
     State_Monad.return (case r of
       SupFailed e \<Rightarrow> Inl (unreachable su e)
     | SupAnswer status content \<Rightarrow> if is_success status then Inr ()
         else Inl (su_redact su (''Home Assistant answered HTTP '' @ su_status su status @ access_hint status @ '': '' @ sup_excerpt content)))
   }"

definition notify :: "supervisor \<Rightarrow> str \<Rightarrow> (str + unit) sup" where
  "notify su message = call_service su ''create'' (JObj (obj_of [(''notification_id'', JStr NOTIFICATION_ID),
     (''title'', JStr NOTIFICATION_TITLE), (''message'', JStr message)]))"

definition dismiss :: "supervisor \<Rightarrow> (str + unit) sup" where
  "dismiss su = call_service su ''dismiss'' (JObj (obj_of [(''notification_id'', JStr NOTIFICATION_ID)]))"

definition project_option :: "json \<Rightarrow> str option" where
  "project_option options = Option.bind (Option.bind (get options ''project'') as_str) normalize_project"

definition data_of :: "json \<Rightarrow> json" where
  "data_of v = (case get v ''data'' of Some d \<Rightarrow> d | None \<Rightarrow> JNull)"

definition saved_project :: "supervisor \<Rightarrow> (str + str option) sup" where
  "saved_project su = do {
     r \<leftarrow> ask (SupGet (su_base su @ ''/addons/self/options/config''));
     State_Monad.return (case r of
       SupFailed e \<Rightarrow> Inl (unreachable su e)
     | SupAnswer status content \<Rightarrow>
         if \<not> is_success status then Inl (su_redact su (''the Supervisor answered HTTP '' @ su_status su status @
           '' for the saved options: '' @ sup_excerpt content))
         else (case su_parse su content of
             None \<Rightarrow> Inl ''the Supervisor sent saved options that are not JSON''
           | Some v \<Rightarrow> Inr (project_option (data_of v))))
   }"

definition get_data :: "supervisor \<Rightarrow> str \<Rightarrow> (str + json) sup" where
  "get_data su path = do {
     r \<leftarrow> ask (SupGet (su_base su @ path));
     State_Monad.return (case r of
       SupFailed e \<Rightarrow> Inl (unreachable su e)
     | SupAnswer status content \<Rightarrow>
         if \<not> is_success status then Inl (su_redact su (''the Supervisor answered HTTP '' @ su_status su status @ '' for '' @ path @ '': '' @
           sup_excerpt content))
         else (case su_parse su content of
             None \<Rightarrow> Inl (''the Supervisor'' @ [CHR 0x27] @ ''s reply to '' @ path @ '' is not JSON'')
           | Some v \<Rightarrow> Inr (data_of v)))
   }"

record self_info =
  si_slug :: str
  si_ip_address :: "ip_addr option"
  si_ingress_port :: "nat option"

definition read_self_info :: "json \<Rightarrow> self_info" where
  "read_self_info d = \<lparr>
     si_slug = (case Option.bind (get d ''slug'') as_str of Some s \<Rightarrow> s | None \<Rightarrow> []),
     si_ip_address = Option.bind (Option.bind (get d ''ip_address'') as_str) parse_ip,
     si_ingress_port = (case Option.bind (get d ''ingress_port'') as_uint of
        Some p \<Rightarrow> if p < 2 ^ 16 \<and> p \<noteq> 0 then Some p else None | None \<Rightarrow> None)\<rparr>"

definition ask_self_info :: "supervisor \<Rightarrow> (str + self_info) sup" where
  "ask_self_info su = try_bind (get_data su ''/addons/self/info'') (\<lambda>d. State_Monad.return (Inr (read_self_info d)))"

definition proxy_address :: "supervisor \<Rightarrow> (str + ip_addr) sup" where
  "proxy_address su = try_bind (get_data su ''/network/info'') (\<lambda>d. State_Monad.return
     (case Option.bind (pointer [''docker'', ''address''] d) as_str of
        None \<Rightarrow> Inl ''the Supervisor did not say what its Docker network is''
      | Some cidr \<Rightarrow> (case nth_host cidr 2 of
          None \<Rightarrow> Inl (''the Supervisor'' @ [CHR 0x27] @ ''s Docker network '' @ su_debug su cidr @ '' is not an IPv4 network'')
        | Some a \<Rightarrow> Inr a)))"

record ingress_addresses =
  ia_bind :: ip_addr
  ia_proxy :: ip_addr

definition ask_ingress_addresses :: "supervisor \<Rightarrow> ingress_addresses sup" where
  "ask_ingress_addresses su = do {
     info \<leftarrow> ask_self_info su;
     proxy \<leftarrow> proxy_address su;
     State_Monad.return \<lparr>
       ia_bind = (case info of Inr i \<Rightarrow> (case si_ip_address i of Some a \<Rightarrow> a | None \<Rightarrow> DEFAULT_INGRESS_BIND)
          | Inl _ \<Rightarrow> DEFAULT_INGRESS_BIND),
       ia_proxy = (case proxy of Inr a \<Rightarrow> a | Inl _ \<Rightarrow> DEFAULT_INGRESS_PROXY)\<rparr>
   }"

definition restart_self :: "supervisor \<Rightarrow> (str + unit) sup" where
  "restart_self su = do {
     r \<leftarrow> ask (SupPost (su_base su @ ''/addons/self/restart'') None);
     State_Monad.return (case r of
       SupFailed e \<Rightarrow> Inl (unreachable su e)
     | SupAnswer status content \<Rightarrow> if is_success status then Inr ()
         else Inl (su_redact su (''the Supervisor refused to restart the add-on (HTTP '' @ su_status su status @ ''): '' @ sup_excerpt content)))
   }"

definition valid_slug :: "str \<Rightarrow> str option" where
  "valid_slug slug = (if slug \<noteq> [] \<and> list_all (\<lambda>c. is_alnum c \<or> c \<in> {CHR ''_'', CHR ''-''}) slug then Some slug else None)"

definition panel_path :: "str \<Rightarrow> str option" where
  "panel_path slug = map_option (\<lambda>s. ''/app/'' @ s) (valid_slug slug)"

text \<open>The options file: what the file says, read again each time.\<close>

definition options_file_project :: "supervisor \<Rightarrow> str \<Rightarrow> (str + str option) sup" where
  "options_file_project su path = do {
     r \<leftarrow> ask (SupReadFile path);
     State_Monad.return (case r of
       SupFailed e \<Rightarrow> Inl (''cannot read '' @ path @ '': '' @ e)
     | SupAnswer _ raw \<Rightarrow> (case su_parse su raw of
         None \<Rightarrow> Inl (path @ '' is not JSON'')
       | Some v \<Rightarrow> Inr (project_option v)))
   }"

section \<open>What the notifications say\<close>

definition SPECIALS :: "char list" where
  "SPECIALS = [CHR 0x5C, CHR 0x60, CHR ''*'', CHR ''_'', CHR ''['', CHR '']'', CHR ''('', CHR '')'', CHR ''<'', CHR ''>'',
     CHR ''#'', CHR ''|'', CHR ''~'', CHR ''!'']"

definition escape :: "str \<Rightarrow> str" where
  "escape text1 = concat (map (\<lambda>c. if c \<in> set SPECIALS then [CHR 0x5C, c] else [c]) text1)"

definition span_char :: "char \<Rightarrow> bool" where
  "span_char c \<longleftrightarrow> is_alnum c \<or> c \<in> {CHR ''-'', CHR ''.'', CHR ''_''}"

definition code_span :: "str \<Rightarrow> str" where
  "code_span i = (if i \<noteq> [] \<and> list_all span_char i then [CHR 0x60] @ i @ [CHR 0x60] else escape i)"

fun url_part :: "char \<Rightarrow> str" where
  "url_part c = (if c = CHR '' '' then ''%20'' else if c = CHR ''('' then ''%28'' else if c = CHR '')'' then ''%29''
     else if c = CHR ''<'' then ''%3C'' else if c = CHR ''>'' then ''%3E'' else [c])"

definition link_target :: "str \<Rightarrow> str" where
  "link_target url = concat (map url_part url)"

definition code_verb :: "bool \<Rightarrow> str" where
  "code_verb prefilled = (if prefilled then ''confirm'' else ''enter'')"

definition newline :: str where "newline = [CHR 0x0A]"

definition code_message :: "str \<Rightarrow> str \<Rightarrow> bool \<Rightarrow> nat \<Rightarrow> str" where
  "code_message url the_code prefilled expiry = ''[Open the Datum approval page]('' @ link_target url @ '') and '' @
     code_verb prefilled @ '' code **'' @ escape the_code @ ''**. The code expires in '' @ duration_words expiry @
     ''; a new one appears here if it does.''"

definition choice_line :: "project_choice \<Rightarrow> str" where
  "choice_line p = ''- '' @ code_span (choice_id p) @ '': '' @ escape (choice_display p) @ '' (organization '' @
     escape (choice_org p) @ '')'' @ newline"

definition rejected_line :: "str option \<Rightarrow> str" where
  "rejected_line rejected = (case rejected of None \<Rightarrow> []
   | Some r \<Rightarrow> [CHR 0x27] @ escape r @ [CHR 0x27] @ '' isn'' @ [CHR 0x27] @ ''t one of your projects.'' @ newline @ newline)"

definition choose_project_message :: "project_choice list \<Rightarrow> str option \<Rightarrow> nat \<Rightarrow> str" where
  "choose_project_message projects rejected wait = rejected_line rejected @
     ''Your Datum login can see '' @ show_nat (length projects) @ '' projects. Set **project** on the add-on'' @ [CHR 0x27] @
     ''s Configuration tab to one of these ids and click Save. Home Assistant offers to restart the add-on when you save; either way, pairing continues without a new login.'' @
     newline @ newline @ concat (map choice_line projects) @
     newline @ ''If none is set within '' @ duration_words wait @ '', restart the add-on to try again.''"

text \<open>Hard line breaks, so that a reason of several lines keeps them.\<close>

definition hard_breaks :: "str \<Rightarrow> str" where
  "hard_breaks s = replace_all newline (''  '' @ newline) s"

definition failure_message :: "str \<Rightarrow> str" where
  "failure_message reason = (let escaped = hard_breaks (escape (trim reason)) in
     if has_sub ''restart'' (lowercase reason) then ''Pairing with Datum failed: '' @ escaped
     else ''Pairing with Datum failed: '' @ escaped @ newline @ newline @ ''Restart the add-on to try again.'')"

definition panel_link :: "str option \<Rightarrow> str" where
  "panel_link panel = (case panel of Some p \<Rightarrow> ''[Open Datum Connect]('' @ link_target p @ '')''
   | None \<Rightarrow> ''Open **Datum Connect** (Settings, Apps, Datum Connect, Open Web UI)'')"

definition setup_waiting_message :: "str option \<Rightarrow> str" where
  "setup_waiting_message panel = ''This Home Assistant isn'' @ [CHR 0x27] @ ''t connected to Datum yet. '' @ panel_link panel @
     '' and click **Connect to Datum**.''"

definition setup_code_message :: "str option \<Rightarrow> str \<Rightarrow> str \<Rightarrow> bool \<Rightarrow> nat \<Rightarrow> str" where
  "setup_code_message panel url the_code prefilled expiry = panel_link panel @
     '' to finish connecting to Datum. Or [open the Datum approval page]('' @ link_target url @ '') and '' @ code_verb prefilled @
     '' code **'' @ escape the_code @ ''** (expires in '' @ duration_words expiry @ '').''"

definition setup_choose_message :: "str option \<Rightarrow> nat \<Rightarrow> str" where
  "setup_choose_message panel projects = ''Signed in to Datum. '' @ panel_link panel @ '' to finish: '' @
     (if projects = 1 then ''confirm the project'' else ''choose one of your '' @ show_nat projects @ '' projects'') @
     '' there, or set **project** on the add-on'' @ [CHR 0x27] @ ''s Configuration tab and click Save.''"

definition setup_failure_message :: "str option \<Rightarrow> str \<Rightarrow> str" where
  "setup_failure_message panel reason = ''Connecting to Datum failed: '' @ hard_breaks (escape (trim reason)) @ newline @ newline @
     panel_link panel @ '' to try again.''"

section \<open>The notifier\<close>

datatype pair_note = Show str | Dismiss

definition PAUSED_MESSAGE :: str where
  "PAUSED_MESSAGE = ''Pairing paused while the add-on restarts. It continues without a new login when the add-on starts again.''"

text \<open>What an event of pairing, its outcome, and the other operations queue; the error as its text.\<close>

definition event_note :: "pairing_event \<Rightarrow> pair_note option" where
  "event_note e = (case e of
     Code url the_code prefilled expiry \<Rightarrow> Some (Show (code_message url the_code prefilled expiry))
   | ChooseProject projects rejected wait \<Rightarrow> Some (Show (choose_project_message projects rejected wait))
   | _ \<Rightarrow> None)"

definition failed_note :: "str \<Rightarrow> pair_note" where "failed_note reason = Show (failure_message reason)"
definition paused_note :: pair_note where "paused_note = Show PAUSED_MESSAGE"

definition outcome_note :: "str + 'a \<Rightarrow> pair_note" where
  "outcome_note r = (case r of Inr _ \<Rightarrow> Dismiss | Inl e \<Rightarrow> failed_note e)"

definition send_note :: "supervisor \<Rightarrow> pair_note \<Rightarrow> (str + unit) sup" where
  "send_note su n = (case n of Show message \<Rightarrow> notify su message | Dismiss \<Rightarrow> dismiss su)"

text \<open>The task: the queued notes one at a time, in order; a failure is logged and the next one goes out.\<close>

fun send_notes :: "supervisor \<Rightarrow> pair_note list \<Rightarrow> unit sup" where
  "send_notes su [] = skip"
| "send_notes su (n # ns) = do { _ \<leftarrow> send_note su n; send_notes su ns }"

text \<open>
  The end: what is still queued goes out within the flush timeout. A call that would end after it is aborted with the rest; it was
  sent, so it is in the trace without a reply.
\<close>

definition note_request :: "supervisor \<Rightarrow> pair_note \<Rightarrow> sup_request" where
  "note_request su n = (case n of
     Show message \<Rightarrow> SupPost (su_base su @ ''/core/api/services/persistent_notification/create'')
       (Some (JObj (obj_of [(''notification_id'', JStr NOTIFICATION_ID), (''title'', JStr NOTIFICATION_TITLE), (''message'', JStr message)])))
   | Dismiss \<Rightarrow> SupPost (su_base su @ ''/core/api/services/persistent_notification/dismiss'')
       (Some (JObj (obj_of [(''notification_id'', JStr NOTIFICATION_ID)]))))"

fun flush_notes :: "supervisor \<Rightarrow> nat \<Rightarrow> pair_note list \<Rightarrow> bool sup" where
  "flush_notes su deadline [] = State_Monad.return True"
| "flush_notes su deadline (n # ns) = do {
     t \<leftarrow> now;
     r \<leftarrow> ask_within (deadline - t) (note_request su n);
     (case r of None \<Rightarrow> State_Monad.return False | Some _ \<Rightarrow> flush_notes su deadline ns)
   }"

definition finish_notes :: "supervisor \<Rightarrow> pair_note list \<Rightarrow> bool sup" where
  "finish_notes su ns = do { t \<leftarrow> now; flush_notes su (t + FLUSH_TIMEOUT) ns }"

end
