(* ===== verification/Supervisor_Facts.thy ===== *)
theory Supervisor_Facts
  imports Supervisor Pairing_Facts
begin

text \<open>
  What the notifications promise: text from elsewhere cannot become markup, the notes go out in order, and errors hide the token.
\<close>

section \<open>Foreign text in a notification\<close>

text \<open>
  \<open>bare s\<close> are the characters of \<open>s\<close> that Markdown gives a meaning: not those after a backslash, and inside a
  code span only the backtick that ends it. \<open>unescape\<close> is the text a reader sees.
\<close>

fun active :: "bool \<Rightarrow> str \<Rightarrow> str" where
  "active code_in [] = []"
| "active code_in [c] = (if c = CHR 0x60 \<or> \<not> code_in \<and> c \<in> set SPECIALS then [c] else [])"
| "active code_in (c # d # s) = (if c = CHR 0x60 then c # active (\<not> code_in) (d # s)
     else if \<not> code_in \<and> c = CHR 0x5C \<and> d \<in> set SPECIALS then active code_in s
     else (if \<not> code_in \<and> c \<in> set SPECIALS then [c] else []) @ active code_in (d # s))"

abbreviation bare :: "str \<Rightarrow> str" where
  "bare \<equiv> active False"

fun unescape :: "str \<Rightarrow> str" where
  "unescape [] = []"
| "unescape [c] = [c]"
| "unescape (c # d # s) = (if c = CHR 0x5C \<and> d \<in> set SPECIALS then d # unescape s else c # unescape (d # s))"

definition unmarked :: "str \<Rightarrow> bool" where
  "unmarked s \<longleftrightarrow> list_all (\<lambda>c. c \<notin> set SPECIALS) s"

lemma backslash_special [simp]: "CHR 0x5C \<in> set SPECIALS"
  by (simp add: SPECIALS_def)

lemma backtick_special [simp]: "CHR 0x60 \<in> set SPECIALS"
  by (simp add: SPECIALS_def)

lemma bare_unmarked_Cons: "c \<notin> set SPECIALS \<Longrightarrow> bare (c # s) = bare s"
  by (cases s) auto

lemma bare_unmarked: "unmarked s \<Longrightarrow> bare (s @ t) = bare t"
  by (induction s) (auto simp: unmarked_def bare_unmarked_Cons)

lemma bare_unmarked_end: "unmarked s \<Longrightarrow> bare s = []"
  using bare_unmarked [of s "[]"] by simp

lemma bare_marked: "c \<in> set SPECIALS \<Longrightarrow> c \<noteq> CHR 0x5C \<Longrightarrow> c \<noteq> CHR 0x60 \<Longrightarrow> bare (c # s) = c # bare s"
  by (cases s) auto

text \<open>Text with its specials escaped, and its lines broken as the failure messages break them.\<close>

definition escaped_char :: "bool \<Rightarrow> char \<Rightarrow> str" where
  "escaped_char breaks c = (if c \<in> set SPECIALS then [CHR 0x5C, c]
     else if breaks \<and> c = CHR 0x0A then ''  '' @ newline else [c])"

lemma escape_chars: "escape t = concat (map (escaped_char False) t)"
  by (simp add: escape_def escaped_char_def cong: map_cong if_cong)

lemma newline_plain [simp]: "CHR 0x0A \<notin> set SPECIALS" "CHR '' '' \<notin> set SPECIALS"
  by (simp_all add: SPECIALS_def)

lemma hard_breaks_append: "hard_breaks (s @ t) = hard_breaks s @ hard_breaks t"
  by (induction s) (auto simp: hard_breaks_def newline_def starts_with_def)

lemma hard_breaks_escape: "hard_breaks (escape t) = concat (map (escaped_char True) t)"
proof (induction t)
  case (Cons c t)
  have "hard_breaks (escaped_char False c) = escaped_char True c"
    by (auto simp: escaped_char_def hard_breaks_def newline_def starts_with_def)
  with Cons show ?case by (simp add: escape_chars hard_breaks_append)
qed (simp add: escape_chars hard_breaks_def)

lemma bare_escaped: "bare (concat (map (escaped_char b) t) @ s) = bare s"
  by (induction t) (auto simp: escaped_char_def bare_unmarked_Cons newline_def)

lemma bare_escape [simp]: "bare (escape t @ s) = bare s" "bare (escape t) = []"
  using bare_escaped [of False t s] bare_escaped [of False t "[]"] by (simp_all add: escape_chars)

lemma bare_broken [simp]: "bare (hard_breaks (escape t) @ s) = bare s" "bare (hard_breaks (escape t)) = []"
  using bare_escaped [of True t s] bare_escaped [of True t "[]"] by (simp_all add: hard_breaks_escape)

lemma unescape_escape: "unescape (escape t) = t"
proof (induction t)
  case (Cons c t)
  have "unescape (c # s) = c # unescape s" if "c \<notin> set SPECIALS" for s
    using that by (cases s) auto
  with Cons show ?case by (simp add: escape_def)
qed (simp add: escape_def)

lemma unmarked_append [simp]: "unmarked (s @ t) \<longleftrightarrow> unmarked s \<and> unmarked t"
  by (simp add: unmarked_def)


lemma digit_unmarked: "is_digit c \<Longrightarrow> c \<notin> set SPECIALS"
  by (auto simp: SPECIALS_def is_digit_def)

lemma unmarked_number [simp]: "unmarked (show_nat n)"
  using show_nat_digits [of n] digit_unmarked by (auto simp: unmarked_def list_all_iff)

lemma unmarked_duration [simp]: "unmarked (duration_words d)"
proof -
  have w: "unmarked '' seconds''" "unmarked ''1 minute''" "unmarked '' minutes''" by (simp_all add: unmarked_def SPECIALS_def)
  then show ?thesis by (simp add: duration_words_def Let_def)
qed


text \<open>Simplifying \<open>bare\<close> over a text written out character by character.\<close>

lemma special_simps: "c \<in> set SPECIALS \<longleftrightarrow> c = CHR 0x5C \<or> c = CHR 0x60 \<or> c \<in> {CHR ''*'', CHR ''_'', CHR ''['', CHR '']'', CHR ''('',
    CHR '')'', CHR ''<'', CHR ''>'', CHR ''#'', CHR ''|'', CHR ''~'', CHR ''!''}"
  by (auto simp: SPECIALS_def)

lemmas bare_text = active.simps(1) bare_unmarked_Cons bare_marked special_simps newline_def

declare active.simps [simp del]

lemma bare_duration [simp]: "bare (duration_words d @ s) = bare s" "bare (duration_words d) = []"
  by (simp_all add: bare_unmarked bare_unmarked_end)

lemma bare_number [simp]: "bare (show_nat n @ s) = bare s"
  by (simp add: bare_unmarked)

lemma bare_failure: "bare (failure_message reason) = []"
  by (simp add: failure_message_def Let_def bare_text)

lemma bare_setup_failure: "bare (setup_failure_message panel reason) = bare (panel_link panel @ '' to try again.'')"
  by (simp add: setup_failure_message_def bare_text)

text \<open>The id of a project is in a code span, with nothing in it that ends one, or escaped.\<close>

definition as_code :: "str \<Rightarrow> bool" where
  "as_code i \<longleftrightarrow> i \<noteq> [] \<and> list_all span_char i"

lemma active_span: "list_all span_char i \<Longrightarrow> active True (i @ CHR 0x60 # s) = CHR 0x60 # bare s"
proof (induction i)
  case Nil
  then show ?case by (cases s) (auto simp: active.simps)
next
  case (Cons c i)
  then have "c \<noteq> CHR 0x60" by (auto simp: span_char_def is_alnum_def is_digit_def is_upper_def is_lower_def)
  with Cons show ?case by (cases "i @ CHR 0x60 # s") (auto simp: active.simps)
qed

lemma bare_code_span: "bare (code_span i @ s) = (if as_code i then [CHR 0x60, CHR 0x60] else []) @ bare s"
proof (cases "as_code i")
  case True
  then obtain c j where "i = c # j" by (cases i) (auto simp: as_code_def)
  with True active_span [of i s] show ?thesis by (simp add: as_code_def code_span_def active.simps)
qed (auto simp: code_span_def as_code_def)

definition choice_marks :: "project_choice \<Rightarrow> str" where
  "choice_marks p = (if as_code (choice_id p) then [CHR 0x60, CHR 0x60] else []) @ ''()''"

lemma bare_choice_line: "bare (choice_line p @ s) = choice_marks p @ bare s"
  by (simp add: choice_line_def choice_marks_def bare_code_span bare_text)

lemma bare_choice_lines: "bare (concat (map choice_line ps) @ s) = concat (map choice_marks ps) @ bare s"
  by (induction ps) (simp_all add: bare_choice_line)

lemma bare_rejected: "bare (rejected_line r @ s) = bare s"
  by (cases r) (simp_all add: rejected_line_def bare_text)

lemma bare_choose: "bare (choose_project_message ps r wait) = ''****'' @ concat (map choice_marks ps)"
  unfolding choose_project_message_def
  by (simp add: bare_rejected bare_choice_lines bare_text)

lemma code_message_shape:
  "\<exists>rest. code_message url c prefilled d = ''[Open the Datum approval page]('' @ link_target url @ '')'' @ rest \<and> bare rest = ''****''"
  by (rule exI [of _ "drop (length (''[Open the Datum approval page]('' @ link_target url @ '')'')) (code_message url c prefilled d)"])
    (simp add: code_message_def code_verb_def bare_text)

lemma link_target_closed: "set (link_target url) \<inter> {CHR '' '', CHR ''('', CHR '')'', CHR ''<'', CHR ''>''} = {}"
  by (auto simp: link_target_def split: if_splits)

lemma foreign_text_core:
  "unescape (escape t) = t"
  "bare (failure_message reason) = []"
  "bare (setup_failure_message panel reason) = bare (panel_link panel @ '' to try again.'')"
  "bare (choose_project_message ps rejected wait) = ''****'' @ concat (map choice_marks ps)"
  "\<exists>rest. code_message url c prefilled d = ''[Open the Datum approval page]('' @ link_target url @ '')'' @ rest \<and> bare rest = ''****''"
  "set (link_target url) \<inter> {CHR '' '', CHR ''('', CHR '')'', CHR ''<'', CHR ''>''} = {}"
  by (rule unescape_escape bare_failure bare_setup_failure bare_choose code_message_shape link_target_closed)+

section \<open>What leaves the notifier\<close>

lemma call_service_errors:
  "hoare (\<lambda>_. True) (call_service su service content) (\<lambda>r _. \<forall>e. r = Inl e \<longrightarrow> (\<exists>m. e = su_redact su m))"
  unfolding call_service_def unreachable_def
  by (rule hoareI) (auto split: prod.splits sup_reply.splits if_splits)

lemma run_flush:
  assumes "run_state (flush_notes su deadline ns) w = (ok, v)" "clock w \<le> deadline"
  shows "\<exists>es k. trace v = trace w @ es \<and> map request es = map (note_request su) (take k ns) \<and> clock v \<le> deadline \<and>
      (\<forall>e \<in> set (butlast es). reply e \<noteq> None) \<and> (if ok then k = length ns \<and> (\<forall>e \<in> set es. reply e \<noteq> None) else es \<noteq> [] \<and> reply (last es) = None \<and> clock v = deadline)"
  using assms
proof (induction ns arbitrary: w)
  case Nil
  then show ?case by (intro exI [of _ "[]"] exI [of _ 0]) auto
next
  case (Cons n ns)
  obtain r u where r: "run_state (ask_within (deadline - clock w) (note_request su n)) w = (r, u)" by fastforce
  show ?case
  proof (cases r)
    case None
    with r Cons.prems show ?thesis
      by (intro exI [of _ "[Event (clock w) (note_request su n) None]"] exI [of _ "Suc 0"])
        (auto simp: ask_within_def Let_def split: prod.splits if_splits)
  next
    case (Some a)
    with r Cons.prems have u: "trace u = trace w @ [Event (clock w) (note_request su n) (Some a)]" "clock u \<le> deadline"
      by (auto simp: ask_within_def Let_def split: prod.splits if_splits)
    from r Some Cons.prems have "run_state (flush_notes su deadline ns) u = (ok, v)" by simp
    from Cons.IH [OF this u(2)] obtain es k where es: "trace v = trace u @ es" "map request es = map (note_request su) (take k ns)"
      "clock v \<le> deadline" "\<forall>e \<in> set (butlast es). reply e \<noteq> None"
      "if ok then k = length ns \<and> (\<forall>e \<in> set es. reply e \<noteq> None) else es \<noteq> [] \<and> reply (last es) = None \<and> clock v = deadline" by blast
    with u show ?thesis
      by (intro exI [of _ "Event (clock w) (note_request su n) (Some a) # es"] exI [of _ "Suc k"]) (auto split: if_splits)
  qed
qed

lemma run_finish:
  assumes "run_state (finish_notes su ns) w = (ok, v)"
  shows "\<exists>es k. trace v = trace w @ es \<and> map request es = map (note_request su) (take k ns) \<and> clock v \<le> clock w + FLUSH_TIMEOUT \<and>
      (\<forall>e \<in> set (butlast es). reply e \<noteq> None) \<and> (if ok then k = length ns \<and> (\<forall>e \<in> set es. reply e \<noteq> None)
        else es \<noteq> [] \<and> reply (last es) = None \<and> clock v = clock w + FLUSH_TIMEOUT)"
  using run_flush [of su "clock w + FLUSH_TIMEOUT" ns w ok v] assms by (simp add: finish_notes_def)

lemma service_error_hides:
  assumes "su_token su \<noteq> []" "CHR ''['' \<notin> set (su_token su)" "CHR '']'' \<notin> set (su_token su)" "\<not> has_sub (su_token su) ''redacted''"
    and "run_state (call_service su service content) w = (Inl e, v)"
  shows "\<not> has_sub (su_token su) e"
  using hoareD [OF call_service_errors TrueI assms(5)] replaced_gone [OF assms(1-4)] assms(1)
  by (auto simp: su_redact_def redact_def)

section \<open>The properties\<close>

text \<open>
  text from elsewhere cannot become markup in a notification. An escaped text reads back as it was; in a failure's
  message no character is left that Markdown gives a meaning (with the setup page, none but those of the link to the page);
  in the list of projects there are only the four asterisks of the word in bold, the backticks around the ids, and the two
  brackets of each line, whatever the names; and the link to approve at holds no character that closes it.
\<close>

theorem foreign_text_is_inert:
  "unescape (escape t) = t \<and>
   bare (failure_message reason) = [] \<and>
   bare (setup_failure_message panel reason) = bare (panel_link panel @ '' to try again.'') \<and>
   bare (choose_project_message ps rejected wait) = ''****'' @ concat (map choice_marks ps) \<and>
   (\<exists>rest. code_message url c prefilled d = ''[Open the Datum approval page]('' @ link_target url @ '')'' @ rest \<and> bare rest = ''****'') \<and>
   set (link_target url) \<inter> {CHR '' '', CHR ''('', CHR '')'', CHR ''<'', CHR ''>''} = {}"
  by (intro conjI foreign_text_core)

text \<open>
 when pairing ends, the notes still queued are sent in their order, one at a time, each after the reply to the one before it, for
  at most fifteen seconds: either all were sent and answered, or the time ran out in the last one sent.
\<close>

theorem notes_go_out_in_order:
  assumes "run_state (finish_notes su ns) w = (ok, v)"
  shows "\<exists>es k. trace v = trace w @ es \<and> map request es = map (note_request su) (take k ns) \<and>
     clock v \<le> clock w + FLUSH_TIMEOUT \<and> (\<forall>e \<in> set (butlast es). reply e \<noteq> None) \<and>
     (if ok then k = length ns \<and> (\<forall>e \<in> set es. reply e \<noteq> None)
      else es \<noteq> [] \<and> reply (last es) = None \<and> clock v = clock w + FLUSH_TIMEOUT)"
  using assms by (rule run_finish)

definition sample_supervisor :: supervisor where
  "sample_supervisor = new_supervisor ''http://supervisor/'' ''t0k'' (\<lambda>_. None) (\<lambda>_. ''401 Unauthorized'') (\<lambda>s. s)"

definition slow_core :: "(sup_request, sup_reply) world" where
  "slow_core = \<lparr>environment = (\<lambda>_ _ _. (SupAnswer 200 [], 10000)), clock = 0, trace = []\<rparr>"

text \<open>Two notes, and a Home Assistant that takes ten seconds for each: the second is cut off.\<close>

theorem notes_go_out_in_order_witness:
  "\<not> fst (run_state (finish_notes sample_supervisor [Show ''a'', Dismiss]) slow_core) \<and>
   clock (snd (run_state (finish_notes sample_supervisor [Show ''a'', Dismiss]) slow_core)) = 15000"
proof -
  obtain ok v where r: "run_state (finish_notes sample_supervisor [Show ''a'', Dismiss]) slow_core = (ok, v)" by fastforce
  then have "\<not> ok"
    by (auto simp: finish_notes_def slow_core_def ask_within_def Let_def FLUSH_TIMEOUT_def split: prod.splits if_splits)
  with notes_go_out_in_order [OF r] r show ?thesis by (auto simp: slow_core_def FLUSH_TIMEOUT_def)
qed

text \<open>
 an error of a call about the notification never holds the Supervisor's token, even if Home Assistant's answer repeats it: after
  redaction the token does not occur in it. The conditions leave out tokens that could be seen in the word the redaction writes.
\<close>

theorem service_errors_hide_the_token:
  assumes "su_token su \<noteq> []" "CHR ''['' \<notin> set (su_token su)" "CHR '']'' \<notin> set (su_token su)" "\<not> has_sub (su_token su) ''redacted''"
    and "run_state (call_service su service content) w = (Inl e, v)"
  shows "\<not> has_sub (su_token su) e"
  using assms by (rule service_error_hides)

definition leaking_core :: "(sup_request, sup_reply) world" where
  "leaking_core = \<lparr>environment = (\<lambda>_ _ _. (SupAnswer 401 ''bad token t0k'', 10)), clock = 0, trace = []\<rparr>"

theorem service_errors_hide_the_token_witness:
  "\<exists>e v. run_state (call_service sample_supervisor ''create'' JNull) leaking_core = (Inl e, v) \<and> \<not> has_sub ''t0k'' e"
proof -
  obtain e v where r: "run_state (call_service sample_supervisor ''create'' JNull) leaking_core = (Inl e, v)"
    by (simp add: call_service_def leaking_core_def ask_def is_success_def)
  have t: "su_token sample_supervisor = ''t0k''" by (simp add: sample_supervisor_def new_supervisor_def)
  have "\<not> has_sub (su_token sample_supervisor) e"
    by (rule service_errors_hide_the_token [OF _ _ _ _ r]) (simp_all add: t has_sub_def)
  with r t show ?thesis by auto
qed

end
