(* ===== verification/Repository.thy ===== *)
theory Repository
  imports Disk Kube_Calls
begin

text \<open>
  \<open>state.rs\<close>, \<open>repo.rs\<close> and \<open>config.rs\<close>: the proxies a node serves, the state and configuration files, and the keys on disk. Generated keys, the local time and YAML text are parameters.
\<close>

section \<open>Proxies and the state\<close>

text \<open>\<open>State\<close> is the list of proxies; a proxy is an advertisement and whether it is on.\<close>

type_synonym proxies = "proxy_state list"

definition set_proxy :: "proxy_state \<Rightarrow> proxies \<Rightarrow> proxies" where
  "set_proxy p ps = (if list_ex (\<lambda>q. px_tunnel q = px_tunnel p) ps
     then (let i = length (takeWhile (\<lambda>q. px_tunnel q \<noteq> px_tunnel p) ps) in ps[i := p])
     else ps @ [p])"

definition drop_proxy :: "str \<Rightarrow> proxies \<Rightarrow> proxy_state option \<times> proxies" where
  "drop_proxy rid ps = (case dropWhile (\<lambda>q. px_tunnel q \<noteq> rid) ps of
     [] \<Rightarrow> (None, ps)
   | q # rest \<Rightarrow> (Some q, takeWhile (\<lambda>q. px_tunnel q \<noteq> rid) ps @ rest))"

definition GATEWAY_DOMAIN :: str where "GATEWAY_DOMAIN = ''iroh.datum.net''"

definition new_proxy_state :: "str \<Rightarrow> tcp_proxy_data \<Rightarrow> str option \<Rightarrow> proxy_state" where
  "new_proxy_state rid d label = \<lparr>px_tunnel = rid, px_data = d, px_label = label, px_enabled = True\<rparr>"

text \<open>The random part of a new id: twelve of the characters drawn that are a lower case letter or a digit.\<close>

definition random_id :: "str \<Rightarrow> str" where
  "random_id drawn = take 12 (filter (\<lambda>c. is_lower c \<or> is_digit c) drawn)"

definition fresh_advertisement :: "str \<Rightarrow> tcp_proxy_data \<Rightarrow> str option \<Rightarrow> proxy_state" where
  "fresh_advertisement drawn d label = new_proxy_state (''proxy-'' @ random_id drawn) d label"

definition proxy_label :: "proxy_state \<Rightarrow> str" where
  "proxy_label p = (case px_label p of Some l \<Rightarrow> l | None \<Rightarrow> px_tunnel p)"

definition proxy_domain :: "proxy_state \<Rightarrow> str" where "proxy_domain p = px_tunnel p @ ''.'' @ GATEWAY_DOMAIN"
definition datum_url :: "proxy_state \<Rightarrow> str" where "datum_url p = ''http://'' @ px_tunnel p @ ''.'' @ GATEWAY_DOMAIN"
definition datum_resource_url :: "proxy_state \<Rightarrow> str" where "datum_resource_url p = ''datum://'' @ px_tunnel p"

definition data_address :: "tcp_proxy_data \<Rightarrow> str" where
  "data_address d = td_host d @ '':'' @ show_nat (td_port d)"

definition local_url :: "proxy_state \<Rightarrow> str" where "local_url p = ''http://'' @ data_address (px_data p)"

record selected_context =
  sc_org_id :: str
  sc_org_name :: str
  sc_project_id :: str
  sc_project_name :: str
  sc_org_type :: str

definition context_label :: "selected_context \<Rightarrow> str" where
  "context_label c = sc_org_name c @ '' / '' @ sc_project_name c"
definition is_personal_org :: "selected_context \<Rightarrow> bool" where
  "is_personal_org c \<longleftrightarrow> eq_ignore_case (sc_org_type c) ''personal''"
definition can_send_invite :: "selected_context \<Rightarrow> bool" where
  "can_send_invite c \<longleftrightarrow> sc_org_type c \<noteq> [] \<and> \<not> is_personal_org c"

section \<open>The state in YAML\<close>

text \<open>How the derived (de)serialisation maps the state to values; a missing label reads as none, a port has 16 bits.\<close>

definition data_json :: "tcp_proxy_data \<Rightarrow> json" where
  "data_json d = JObj (obj_of [(''host'', JStr (td_host d)), (''port'', JNum (int (td_port d)))])"

definition proxy_json :: "proxy_state \<Rightarrow> json" where
  "proxy_json p = JObj (obj_of [(''info'', JObj (obj_of [(''resource_id'', JStr (px_tunnel p)),
       (''label'', case px_label p of Some l \<Rightarrow> JStr l | None \<Rightarrow> JNull), (''data'', data_json (px_data p))])),
     (''enabled'', JBool (px_enabled p))])"

definition state_json :: "proxies \<Rightarrow> json" where
  "state_json ps = JObj (obj_of [(''proxies'', JArr (map proxy_json ps))])"

definition port_of_json :: "json \<Rightarrow> nat option" where
  "port_of_json j = (case as_uint j of Some n \<Rightarrow> if n < 2 ^ 16 then Some n else None | None \<Rightarrow> None)"

definition data_of_json :: "json \<Rightarrow> tcp_proxy_data option" where
  "data_of_json j = (case (Option.bind (get j ''host'') as_str, Option.bind (get j ''port'') port_of_json) of
     (Some h, Some p) \<Rightarrow> Some \<lparr>td_host = h, td_port = p\<rparr> | _ \<Rightarrow> None)"

definition label_of_json :: "json option \<Rightarrow> str option option" where
  "label_of_json j = (case j of None \<Rightarrow> Some None | Some JNull \<Rightarrow> Some None | Some (JStr l) \<Rightarrow> Some (Some l) | _ \<Rightarrow> None)"

definition proxy_of_json :: "json \<Rightarrow> proxy_state option" where
  "proxy_of_json j = (case (get j ''info'', Option.bind (get j ''enabled'') as_bool) of
     (Some info, Some enabled) \<Rightarrow>
       (case (Option.bind (get info ''resource_id'') as_str, label_of_json (get info ''label''), Option.bind (get info ''data'') data_of_json) of
          (Some rid, Some label, Some d) \<Rightarrow> Some \<lparr>px_tunnel = rid, px_data = d, px_label = label, px_enabled = enabled\<rparr>
        | _ \<Rightarrow> None)
   | _ \<Rightarrow> None)"

definition state_of_json :: "json \<Rightarrow> proxies option" where
  "state_of_json j = (case Option.bind (get j ''proxies'') as_array of
     Some vs \<Rightarrow> those (map proxy_of_json vs) | None \<Rightarrow> None)"

section \<open>The repository\<close>

datatype discovery_mode = DefaultDiscovery | Dns | Hybrid

record node_config =
  nc_ipv4 :: "(str \<times> nat) option"
  nc_ipv6 :: "(str \<times> nat) option"
  nc_discovery :: discovery_mode
  nc_dns_origin :: "str option"
  nc_dns_resolver :: "(str \<times> nat) option"
  nc_selected :: "selected_context option"

definition default_config :: node_config where
  "default_config = \<lparr>nc_ipv4 = None, nc_ipv6 = None, nc_discovery = DefaultDiscovery, nc_dns_origin = None,
     nc_dns_resolver = None, nc_selected = None\<rparr>"

text \<open>\<open>serde_yml\<close>: text of a value and back; and the configuration's.\<close>

record yaml_libs =
  yl_text :: "json \<Rightarrow> str"
  yl_value :: "str \<Rightarrow> json option"
  yl_config_text :: "node_config \<Rightarrow> str"
  yl_config :: "str \<Rightarrow> node_config option"

datatype repo_error = RepoIo io_error | BadKey | KeyNotFound | BadYaml | MissingConnectDir

definition CONFIG_FILE :: str where "CONFIG_FILE = ''config.yml''"
definition CONNECT_KEY_FILE :: str where "CONNECT_KEY_FILE = ''connect_key''"
definition PEER_LISTEN_KEY_FILE :: str where "PEER_LISTEN_KEY_FILE = ''peer_listen_key''"
definition LISTEN_KEY_FILE :: str where "LISTEN_KEY_FILE = ''listen_key''"
definition STATE_FILE :: str where "STATE_FILE = ''state.yml''"

definition default_location :: "str option \<Rightarrow> repo_error + path" where
  "default_location env = (case env of Some p \<Rightarrow> if p \<noteq> [] then Inr p else Inl MissingConnectDir | None \<Rightarrow> Inl MissingConnectDir)"

definition file_there :: "disk \<Rightarrow> path \<Rightarrow> bool" where
  "file_there d p \<longleftrightarrow> map_of (files d) p \<noteq> None"

definition dir_there :: "disk \<Rightarrow> path \<Rightarrow> bool" where
  "dir_there d p \<longleftrightarrow> list_ex (\<lambda>(q, c). starts_with (p @ ''/'') q) (files d)"

definition open_or_create :: "path \<Rightarrow> disk \<Rightarrow> repo_error + path" where
  "open_or_create base d = (case create_dir base d of Inl e \<Rightarrow> Inl (RepoIo e) | Inr _ \<Rightarrow> Inr base)"

text \<open>A write, in a directory made for it first.\<close>

definition write_into :: "path \<Rightarrow> path \<Rightarrow> str \<Rightarrow> disk \<Rightarrow> (repo_error + unit) \<times> disk" where
  "write_into dir p c d = (case create_dir dir d of Inl e \<Rightarrow> (Inl (RepoIo e), d)
     | Inr _ \<Rightarrow> (case put_file p c d of (Inl e, d') \<Rightarrow> (Inl (RepoIo e), d') | (Inr _, d') \<Rightarrow> (Inr (), d')))"

definition write_config :: "yaml_libs \<Rightarrow> path \<Rightarrow> node_config \<Rightarrow> disk \<Rightarrow> (repo_error + unit) \<times> disk" where
  "write_config y p c d = (case put_file p (yl_config_text y c) d of (Inl e, d') \<Rightarrow> (Inl (RepoIo e), d') | (Inr _, d') \<Rightarrow> (Inr (), d'))"

definition config_from_file :: "yaml_libs \<Rightarrow> path \<Rightarrow> disk \<Rightarrow> repo_error + node_config" where
  "config_from_file y p d = (case read_file d p of Inl e \<Rightarrow> Inl (RepoIo e)
     | Inr raw \<Rightarrow> (case yl_config y raw of None \<Rightarrow> Inl BadYaml | Some c \<Rightarrow> Inr c))"

definition repo_config :: "yaml_libs \<Rightarrow> path \<Rightarrow> disk \<Rightarrow> (repo_error + node_config) \<times> disk" where
  "repo_config y repo d = (let p = join repo CONFIG_FILE in
     if \<not> file_there d p then
       (case write_config y p default_config d of (Inl e, d') \<Rightarrow> (Inl e, d') | (Inr _, d') \<Rightarrow> (Inr default_config, d'))
     else (config_from_file y p d, d))"

definition write_selected_context :: "yaml_libs \<Rightarrow> path \<Rightarrow> selected_context option \<Rightarrow> disk \<Rightarrow> (repo_error + unit) \<times> disk" where
  "write_selected_context y repo selected d = (let p = join repo CONFIG_FILE in
     case (if file_there d p then config_from_file y p d else Inr default_config) of
       Inl e \<Rightarrow> (Inl e, d)
     | Inr c \<Rightarrow> write_config y p (c\<lparr>nc_selected := selected\<rparr>) d)"

definition read_selected_context :: "yaml_libs \<Rightarrow> path \<Rightarrow> disk \<Rightarrow> repo_error + selected_context option" where
  "read_selected_context y repo d = (let p = join repo CONFIG_FILE in
     if file_there d p then (case config_from_file y p d of Inl e \<Rightarrow> Inl e | Inr c \<Rightarrow> Inr (nc_selected c)) else Inr None)"

definition write_state :: "yaml_libs \<Rightarrow> path \<Rightarrow> proxies \<Rightarrow> disk \<Rightarrow> (repo_error + unit) \<times> disk" where
  "write_state y repo ps d = (case put_file (join repo STATE_FILE) (yl_text y (state_json ps)) d of
     (Inl e, d') \<Rightarrow> (Inl (RepoIo e), d') | (Inr _, d') \<Rightarrow> (Inr (), d'))"

definition state_from_file :: "yaml_libs \<Rightarrow> path \<Rightarrow> disk \<Rightarrow> repo_error + proxies" where
  "state_from_file y p d = (case read_file d p of Inl e \<Rightarrow> Inl (RepoIo e)
     | Inr raw \<Rightarrow> (case Option.bind (yl_value y raw) state_of_json of None \<Rightarrow> Inl BadYaml | Some ps \<Rightarrow> Inr ps))"

definition load_state :: "yaml_libs \<Rightarrow> path \<Rightarrow> disk \<Rightarrow> (repo_error + proxies) \<times> disk" where
  "load_state y repo d = (let p = join repo STATE_FILE in
     if \<not> file_there d p then
       (case write_state y repo [] d of (Inl e, d') \<Rightarrow> (Inl e, d') | (Inr _, d') \<Rightarrow> (Inr [], d'))
     else (state_from_file y p d, d))"

text \<open>
  \<open>StateWrapper::update\<close>: the change to a copy, which replaces the state in memory before it is written. The last flag says whether
  the waiters were notified.
\<close>

definition update_state :: "yaml_libs \<Rightarrow> path \<Rightarrow> (proxies \<Rightarrow> 'a \<times> proxies) \<Rightarrow> proxies \<Rightarrow> disk \<Rightarrow> (repo_error + 'a) \<times> proxies \<times> disk \<times> bool" where
  "update_state y repo f ps d = (case f ps of (res, ps') \<Rightarrow>
     (case write_state y repo ps' d of
        (Inl e, d') \<Rightarrow> (Inl e, ps', d', False)
      | (Inr _, d') \<Rightarrow> (Inr res, ps', d', True)))"

section \<open>Keys\<close>

text \<open>A key file holds the 32 bytes of a secret key. \<open>fresh\<close> is the key a generator gives.\<close>

definition read_key :: "disk \<Rightarrow> path \<Rightarrow> repo_error + str" where
  "read_key d p = (case read_file d p of Inl e \<Rightarrow> Inl (RepoIo e) | Inr c \<Rightarrow> if length c = 32 then Inr c else Inl BadKey)"

text \<open>\<open>dir\<close> is the parent of the key's path.\<close>

definition secret_key :: "path \<Rightarrow> path \<Rightarrow> str \<Rightarrow> disk \<Rightarrow> (repo_error + str) \<times> disk" where
  "secret_key dir p fresh d = (if \<not> file_there d p then
       (case write_into dir p fresh d of (Inl e, d') \<Rightarrow> (Inl e, d') | (Inr _, d') \<Rightarrow> (Inr fresh, d'))
     else (read_key d p, d))"

definition connect_key :: "path \<Rightarrow> str \<Rightarrow> disk \<Rightarrow> (repo_error + str) \<times> disk" where
  "connect_key repo fresh d = secret_key repo (join repo CONNECT_KEY_FILE) fresh d"

definition peer_listen_key :: "path \<Rightarrow> str \<Rightarrow> disk \<Rightarrow> (repo_error + str) \<times> disk" where
  "peer_listen_key repo fresh d = secret_key repo (join repo PEER_LISTEN_KEY_FILE) fresh d"

text \<open>A throwaway key in a file of its own; \<open>stamp\<close> is the local time to the second.\<close>

definition listen_key :: "path \<Rightarrow> str option \<Rightarrow> str \<Rightarrow> str \<Rightarrow> disk \<Rightarrow> (repo_error + str) \<times> disk" where
  "listen_key repo project stamp fresh d = (let suffix = (case project of Some pid \<Rightarrow> pid @ ''.'' @ stamp | None \<Rightarrow> stamp) in
     case write_into repo (join repo (LISTEN_KEY_FILE @ ''.'' @ suffix)) fresh d of
       (Inl e, d') \<Rightarrow> (Inl e, d') | (Inr _, d') \<Rightarrow> (Inr fresh, d'))"

text \<open>The key of the old flat layout moves to the first place that asks for a key it has none of.\<close>

definition migrate_key :: "path \<Rightarrow> path \<Rightarrow> disk \<Rightarrow> (repo_error + unit) \<times> disk" where
  "migrate_key repo dir d = (case create_dir dir d of Inl e \<Rightarrow> (Inl (RepoIo e), d)
     | Inr _ \<Rightarrow> (case rename_file (join repo LISTEN_KEY_FILE) (join dir LISTEN_KEY_FILE) d of
         (Inl e, d') \<Rightarrow> (Inl (RepoIo e), d') | (Inr _, d') \<Rightarrow> (Inr (), d')))"

definition listen_key_for_project :: "path \<Rightarrow> str \<Rightarrow> str \<Rightarrow> disk \<Rightarrow> (repo_error + str) \<times> disk" where
  "listen_key_for_project repo project_id fresh d = (let dir = join repo project_id; p = join dir LISTEN_KEY_FILE in
     if \<not> file_there d p \<and> file_there d (join repo LISTEN_KEY_FILE) then
       (case migrate_key repo dir d of (Inl e, d') \<Rightarrow> (Inl e, d') | (Inr _, d') \<Rightarrow> secret_key dir p fresh d')
     else secret_key dir p fresh d)"

definition tunnel_dir :: "path \<Rightarrow> str \<Rightarrow> str \<Rightarrow> path" where
  "tunnel_dir repo project_id tunnel_name = join (join repo project_id) tunnel_name"

definition tunnel_key_path :: "path \<Rightarrow> str \<Rightarrow> str \<Rightarrow> path" where
  "tunnel_key_path repo project_id tunnel_name = join (tunnel_dir repo project_id tunnel_name) LISTEN_KEY_FILE"

definition listen_key_for_tunnel :: "path \<Rightarrow> str \<Rightarrow> str \<Rightarrow> disk \<Rightarrow> (repo_error + str) \<times> disk" where
  "listen_key_for_tunnel repo project_id tunnel_name d = (let p = tunnel_key_path repo project_id tunnel_name in
     if file_there d p then (read_key d p, d)
     else if file_there d (join repo LISTEN_KEY_FILE) then
       (case migrate_key repo (tunnel_dir repo project_id tunnel_name) d of (Inl e, d') \<Rightarrow> (Inl e, d') | (Inr _, d') \<Rightarrow> (read_key d' p, d'))
     else (Inl KeyNotFound, d))"

definition save_listen_key_for_tunnel :: "path \<Rightarrow> str \<Rightarrow> str \<Rightarrow> str \<Rightarrow> disk \<Rightarrow> (repo_error + unit) \<times> disk" where
  "save_listen_key_for_tunnel repo project_id tunnel_name key d =
     write_into (tunnel_dir repo project_id tunnel_name) (tunnel_key_path repo project_id tunnel_name) key d"

definition delete_tunnel_dir :: "path \<Rightarrow> str \<Rightarrow> str \<Rightarrow> disk \<Rightarrow> (repo_error + unit) \<times> disk" where
  "delete_tunnel_dir repo project_id tunnel_name d = (let dir = tunnel_dir repo project_id tunnel_name in
     if dir_there d dir then (if denied d dir then (Inl (RepoIo OtherIo), d) else (Inr (), remove_dir dir d)) else (Inr (), d))"

end
