(* ===== verification/Repository_Facts.thy ===== *)
theory Repository_Facts
  imports Repository Sample_Codec
begin

text \<open>
  What the repository promises: the state is a map that the file follows, with well-typed entries, and a tunnel keeps its key. And what a failed write does.
\<close>

section \<open>The state refines a map\<close>

text \<open>The proxies by resource id.\<close>

definition by_id :: "proxies \<Rightarrow> str \<Rightarrow> proxy_state option" where
  "by_id ps rid = find (\<lambda>p. px_tunnel p = rid) ps"

definition one_each :: "proxies \<Rightarrow> bool" where
  "one_each ps \<longleftrightarrow> distinct (map px_tunnel ps)"

lemma one_each_Nil [simp]: "one_each []"
  by (simp add: one_each_def)

lemma one_each_Cons [simp]: "one_each (p # ps) \<longleftrightarrow> px_tunnel p \<notin> px_tunnel ` set ps \<and> one_each ps"
  by (simp add: one_each_def)

lemma by_id_Nil [simp]: "by_id [] rid = None"
  by (simp add: by_id_def)

lemma by_id_Cons [simp]: "by_id (p # ps) rid = (if px_tunnel p = rid then Some p else by_id ps rid)"
  by (simp add: by_id_def)

lemma by_id_append: "by_id (ps @ qs) rid = (case by_id ps rid of Some p \<Rightarrow> Some p | None \<Rightarrow> by_id qs rid)"
  by (induction ps) auto

lemma by_id_None: "by_id ps rid = None \<longleftrightarrow> rid \<notin> px_tunnel ` set ps"
  by (induction ps) auto

lemma set_proxy_Cons: "set_proxy p (q # ps) = (if px_tunnel q = px_tunnel p then p # ps else q # set_proxy p ps)"
  by (simp add: set_proxy_def Let_def)

lemma set_proxy_Nil: "set_proxy p [] = [p]"
  by (simp add: set_proxy_def)

lemma by_id_set: "by_id (set_proxy p ps) = (by_id ps)(px_tunnel p \<mapsto> p)"
  by (induction ps) (auto simp: set_proxy_Cons set_proxy_Nil fun_eq_iff)

lemma ids_set: "px_tunnel ` set (set_proxy p ps) = insert (px_tunnel p) (px_tunnel ` set ps)"
  by (induction ps) (auto simp: set_proxy_Cons set_proxy_Nil)

lemma one_each_set: "one_each ps \<Longrightarrow> one_each (set_proxy p ps)"
  by (induction ps) (auto simp: set_proxy_Cons set_proxy_Nil ids_set)

lemma drop_proxy_Cons: "drop_proxy rid (q # ps) =
    (if px_tunnel q = rid then (Some q, ps) else (case drop_proxy rid ps of (r, qs) \<Rightarrow> (r, q # qs)))"
  by (simp add: drop_proxy_def split: list.split del: dropWhile_eq_Nil_conv)

lemma drop_proxy_Nil: "drop_proxy rid [] = (None, [])"
  by (simp add: drop_proxy_def)

lemma drop_proxy_found: "fst (drop_proxy rid ps) = by_id ps rid"
  by (induction ps) (auto simp: drop_proxy_Cons drop_proxy_Nil split: prod.split)

lemma set_drop: "set (snd (drop_proxy rid ps)) \<subseteq> set ps"
  by (induction ps) (auto simp: drop_proxy_Cons drop_proxy_Nil split: prod.split)

lemma by_id_drop: "one_each ps \<Longrightarrow> by_id (snd (drop_proxy rid ps)) = (by_id ps)(rid := None)"
proof (induction ps)
  case (Cons q ps)
  from Cons show ?case using by_id_None [of ps "px_tunnel q"]
    by (auto simp: drop_proxy_Cons fun_eq_iff split: prod.split)
qed (simp add: drop_proxy_Nil fun_eq_iff)

lemma one_each_drop: "one_each ps \<Longrightarrow> one_each (snd (drop_proxy rid ps))"
proof (induction ps)
  case (Cons q ps)
  then show ?case using set_drop [of rid ps]
    by (auto simp: drop_proxy_Cons split: prod.split)
qed (simp add: drop_proxy_Nil)

section \<open>Types of the state\<close>

text \<open>A port is a \<open>u16\<close>.\<close>

definition data_typed :: "tcp_proxy_data \<Rightarrow> bool" where "data_typed d \<longleftrightarrow> td_port d < 2 ^ 16"
definition state_typed :: "proxies \<Rightarrow> bool" where "state_typed ps \<longleftrightarrow> list_all (\<lambda>p. data_typed (px_data p)) ps"

lemma typed_from_text: "from_host_port_str s = Inr d \<Longrightarrow> data_typed d"
  by (auto simp: from_host_port_str_def data_typed_def parse_uint_def Let_def split: option.splits if_splits)

lemma typed_set: "state_typed ps \<Longrightarrow> data_typed (px_data p) \<Longrightarrow> state_typed (set_proxy p ps)"
  by (induction ps) (auto simp: set_proxy_Cons set_proxy_Nil state_typed_def)

lemma typed_drop: "state_typed ps \<Longrightarrow> state_typed (snd (drop_proxy rid ps))"
  using set_drop [of rid ps] by (auto simp: state_typed_def list_all_iff)

lemma data_read: "data_of_json j = Some d \<Longrightarrow> data_typed d"
  by (auto simp: data_of_json_def port_of_json_def data_typed_def split: option.splits if_splits Option.bind_splits)

lemma proxy_json_typed: "proxy_of_json j = Some p \<Longrightarrow> data_typed (px_data p)"
  by (auto simp: proxy_of_json_def bind_eq_Some_conv split: option.splits intro: data_read)

lemma those_Cons: "those (map f (x # xs)) = Some ys \<Longrightarrow> \<exists>y zs. f x = Some y \<and> those (map f xs) = Some zs \<and> ys = y # zs"
  by (auto split: option.splits)

lemma those_all: "those (map f xs) = Some ys \<Longrightarrow> (\<And>x y. f x = Some y \<Longrightarrow> P y) \<Longrightarrow> list_all P ys"
  by (induction xs arbitrary: ys) (force dest!: those_Cons)+

lemma state_read: "state_of_json j = Some ps \<Longrightarrow> state_typed ps"
  unfolding state_typed_def state_of_json_def
  by (auto simp: bind_eq_Some_conv split: option.splits intro: those_all proxy_json_typed)

section \<open>The state file\<close>

definition good_yaml :: "yaml_libs \<Rightarrow> bool" where
  "good_yaml y \<longleftrightarrow> (\<forall>j. yl_value y (yl_text y j) = Some j)"

lemma data_back: "data_typed d \<Longrightarrow> data_of_json (data_json d) = Some d"
  by (simp add: data_of_json_def data_json_def data_typed_def port_of_json_def obj_of_def)

lemma proxy_back: "data_typed (px_data p) \<Longrightarrow> proxy_of_json (proxy_json p) = Some p"
  by (simp add: proxy_of_json_def proxy_json_def obj_of_def data_back label_of_json_def split: option.split)

lemma state_back: "state_typed ps \<Longrightarrow> state_of_json (state_json ps) = Some ps"
proof -
  have "state_typed ps \<Longrightarrow> those (map (proxy_of_json \<circ> proxy_json) ps) = Some ps"
    by (induction ps) (auto simp: state_typed_def proxy_back)
  then show "state_typed ps \<Longrightarrow> ?thesis" by (simp add: state_of_json_def state_json_def obj_of_def)
qed

lemma written_state:
  assumes "write_state y repo ps d = (Inr u, d')" "good_yaml y" "state_typed ps"
  shows "load_state y repo d' = (Inr ps, d')"
proof -
  from assms(1) have d': "\<not> denied d (join repo STATE_FILE)"
      "d' = d\<lparr>files := AList.update (join repo STATE_FILE) (yl_text y (state_json ps)) (files d)\<rparr>"
    by (auto simp: write_state_def put_file_def split: if_splits)
  with assms(2,3) show ?thesis
    by (simp add: load_state_def file_there_def state_from_file_def read_file_def good_yaml_def state_back)
qed

section \<open>A run of updates\<close>

text \<open>What the node does to its state: a target, given as text, is set under an id, or an id is removed.\<close>

datatype state_op = PutTarget str str "str option" bool | DropTarget str

definition target_of :: "state_op \<Rightarrow> proxy_state option" where
  "target_of op = (case op of PutTarget rid target label enabled \<Rightarrow> (case from_host_port_str target of
       Inr d \<Rightarrow> Some \<lparr>px_tunnel = rid, px_data = d, px_label = label, px_enabled = enabled\<rparr> | Inl _ \<Rightarrow> None)
   | DropTarget _ \<Rightarrow> None)"

definition change_of :: "state_op \<Rightarrow> proxies \<Rightarrow> unit \<times> proxies" where
  "change_of op ps = ((), case op of PutTarget _ _ _ _ \<Rightarrow> (case target_of op of Some p \<Rightarrow> set_proxy p ps | None \<Rightarrow> ps)
     | DropTarget rid \<Rightarrow> snd (drop_proxy rid ps))"

definition state_step :: "yaml_libs \<Rightarrow> path \<Rightarrow> state_op \<Rightarrow> proxies \<times> disk \<Rightarrow> proxies \<times> disk" where
  "state_step y repo op s = (case update_state y repo (change_of op) (fst s) (snd s) of (r, ps, d, notified) \<Rightarrow> (ps, d))"

text \<open>The same on the map.\<close>

definition map_step :: "state_op \<Rightarrow> (str \<Rightarrow> proxy_state option) \<Rightarrow> str \<Rightarrow> proxy_state option" where
  "map_step op m = (case op of PutTarget rid _ _ _ \<Rightarrow> (case target_of op of Some p \<Rightarrow> m(rid \<mapsto> p) | None \<Rightarrow> m)
     | DropTarget rid \<Rightarrow> m(rid := None))"

lemma target_facts: "target_of op = Some p \<Longrightarrow> data_typed (px_data p) \<and> (\<exists>t l e. op = PutTarget (px_tunnel p) t l e)"
  by (cases op) (auto simp: target_of_def split: sum.splits intro: typed_from_text)

lemma change_typed: "state_typed ps \<Longrightarrow> state_typed (snd (change_of op ps))"
  by (auto simp: change_of_def split: state_op.split option.split intro: typed_set typed_drop dest: target_facts)

lemma change_refines: "one_each ps \<Longrightarrow> by_id (snd (change_of op ps)) = map_step op (by_id ps) \<and> one_each (snd (change_of op ps))"
  by (cases op) (auto simp: change_of_def map_step_def by_id_set by_id_drop one_each_set one_each_drop
      dest: target_facts split: option.split)

lemma state_step_simps: "state_step y repo op (ps, d) = (snd (change_of op ps), snd (write_state y repo (snd (change_of op ps)) d))"
  by (auto simp: state_step_def update_state_def change_of_def split: prod.split sum.split)

lemma write_state_denied [simp]: "denied (snd (write_state y repo ps d)) = denied d"
  by (auto simp: write_state_def put_file_def)

lemma written_state': "\<not> denied d (join repo STATE_FILE) \<Longrightarrow> good_yaml y \<Longrightarrow> state_typed ps \<Longrightarrow>
    load_state y repo (snd (write_state y repo ps d)) = (Inr ps, snd (write_state y repo ps d))"
  by (rule written_state [of _ _ _ d "()"]) (auto simp: write_state_def put_file_def)

lemma load_typed: "load_state y repo d = (Inr ps, d') \<Longrightarrow> state_typed ps"
  by (auto simp: load_state_def state_from_file_def state_typed_def Let_def bind_eq_Some_conv split: if_splits sum.splits option.splits prod.splits
      dest: state_read [unfolded state_typed_def])

lemma run_state_ops:
  assumes "good_yaml y" "state_typed ps0" "load_state y repo d0 = (Inr ps0, d0)" "\<not> denied d0 (join repo STATE_FILE)"
    "fold (state_step y repo) ops (ps0, d0) = (ps, d)"
  shows "state_typed ps \<and> load_state y repo d = (Inr ps, d) \<and>
     (one_each ps0 \<longrightarrow> one_each ps \<and> by_id ps = fold map_step ops (by_id ps0))"
  using assms
proof (induction ops arbitrary: ps0 d0)
  case (Cons op ops)
  let ?ps1 = "snd (change_of op ps0)"
  let ?d1 = "snd (write_state y repo ?ps1 d0)"
  have t: "state_typed ?ps1" by (rule change_typed) (rule Cons.prems)
  have "fold (state_step y repo) ops (?ps1, ?d1) = (ps, d)" using Cons.prems(5) by (simp add: state_step_simps)
  with Cons.IH [of ?ps1 ?d1] Cons.prems t written_state'
  show ?case using change_refines [of ps0 op] by auto
qed simp

lemma loaded_again: "load_state y repo d = (Inr ps, d') \<Longrightarrow> good_yaml y \<Longrightarrow> \<not> denied d (join repo STATE_FILE) \<Longrightarrow>
    load_state y repo d' = (Inr ps, d') \<and> denied d' = denied d"
  by (auto simp: load_state_def file_there_def write_state_def put_file_def state_from_file_def read_file_def good_yaml_def
      state_json_def state_of_json_def obj_of_def Let_def split: if_splits sum.splits option.splits prod.splits)


definition sample_yaml :: yaml_libs where
  "sample_yaml = \<lparr>yl_text = sample_text, yl_value = sample_json_parse, yl_config_text = (\<lambda>_. []), yl_config = (\<lambda>_. None)\<rparr>"

lemma good_sample_yaml: "good_yaml sample_yaml"
  by (simp add: good_yaml_def sample_yaml_def)

definition blank_disk :: disk where "blank_disk = \<lparr>files = [], denied = (\<lambda>_. False)\<rparr>"

definition sample_ops :: "state_op list" where
  "sample_ops = [PutTarget ''a'' ''localhost:80'' None True, PutTarget ''a'' ''localhost:81'' None True,
     PutTarget ''b'' ''localhost:x'' None True, DropTarget ''c'']"

lemma sample_ops_map: "map_option (td_port \<circ> px_data) (fold map_step sample_ops (\<lambda>_. None) ''a'') = Some 81"
    "fold map_step sample_ops (\<lambda>_. None) ''b'' = None"
proof -
  have t: "from_host_port_str ''localhost:80'' = Inr \<lparr>td_host = ''localhost'', td_port = 80\<rparr>"
      "from_host_port_str ''localhost:81'' = Inr \<lparr>td_host = ''localhost'', td_port = 81\<rparr>"
      "from_host_port_str ''localhost:x'' = Inl InvalidPort"
    by (simp_all add: from_host_port_str_def rsplit_once_def parse_uint_def digits_value_def digit_value_def is_digit_def)
  show "map_option (td_port \<circ> px_data) (fold map_step sample_ops (\<lambda>_. None) ''a'') = Some 81"
      "fold map_step sample_ops (\<lambda>_. None) ''b'' = None"
    by (simp_all add: sample_ops_def map_step_def target_of_def t)
qed


section \<open>A tunnel keeps its key\<close>

text \<open>A name of a project or a tunnel, as the API server makes them.\<close>

definition simple_name :: "str \<Rightarrow> bool" where
  "simple_name n \<longleftrightarrow> n \<noteq> [] \<and> CHR ''/'' \<notin> set n"

datatype repo_op =
    ConnectKey str | PeerKey str | ThrowawayKey "str option" str str
  | ProjectKey str str | TunnelKey str str | SaveKey str str str | DeleteDir str str
  | SetState proxies

definition repo_step :: "yaml_libs \<Rightarrow> path \<Rightarrow> repo_op \<Rightarrow> disk \<Rightarrow> disk" where
  "repo_step y repo op d = (case op of
     ConnectKey fresh \<Rightarrow> snd (connect_key repo fresh d)
   | PeerKey fresh \<Rightarrow> snd (peer_listen_key repo fresh d)
   | ThrowawayKey project stamp fresh \<Rightarrow> snd (listen_key repo project stamp fresh d)
   | ProjectKey project fresh \<Rightarrow> snd (listen_key_for_project repo project fresh d)
   | TunnelKey project tun \<Rightarrow> snd (listen_key_for_tunnel repo project tun d)
   | SaveKey project tun key \<Rightarrow> snd (save_listen_key_for_tunnel repo project tun key d)
   | DeleteDir project tun \<Rightarrow> snd (delete_tunnel_dir repo project tun d)
   | SetState ps \<Rightarrow> snd (write_state y repo ps d))"

definition well_named :: "repo_op \<Rightarrow> bool" where
  "well_named op = (case op of ThrowawayKey (Some project) stamp _ \<Rightarrow> simple_name project \<and> CHR ''/'' \<notin> set stamp
     | ThrowawayKey None stamp _ \<Rightarrow> CHR ''/'' \<notin> set stamp
     | ProjectKey project _ \<Rightarrow> simple_name project | TunnelKey project tun \<Rightarrow> simple_name project \<and> simple_name tun
     | SaveKey project tun _ \<Rightarrow> simple_name project \<and> simple_name tun
     | DeleteDir project tun \<Rightarrow> simple_name project \<and> simple_name tun | _ \<Rightarrow> True)"

text \<open>Paths under the repository.\<close>

definition base :: "path \<Rightarrow> path" where
  "base repo = (if ends_with ''/'' repo \<or> repo = [] then repo else repo @ ''/'')"

lemma join_base: "\<not> starts_with ''/'' n \<Longrightarrow> join repo n = base repo @ n"
  by (simp add: join_def base_def)

lemma ends_with_char: "ends_with [c] s \<longleftrightarrow> (\<exists>r. s = r @ [c])"
  by (auto simp: ends_with_def strip_suffix_Some)

lemma join_name: "simple_name n \<Longrightarrow> \<not> starts_with ''/'' m \<Longrightarrow> join (b @ n) m = b @ n @ ''/'' @ m"
  by (cases n rule: rev_cases) (auto simp: join_def simple_name_def ends_with_char)

lemma simple_start: "simple_name n \<Longrightarrow> \<not> starts_with ''/'' n"
  by (auto simp: simple_name_def starts_with_iff)

lemma file_names [simp]: "\<not> starts_with ''/'' LISTEN_KEY_FILE" "\<not> starts_with ''/'' CONNECT_KEY_FILE"
    "\<not> starts_with ''/'' PEER_LISTEN_KEY_FILE" "\<not> starts_with ''/'' STATE_FILE" "\<not> starts_with ''/'' (LISTEN_KEY_FILE @ s)"
    "CHR ''/'' \<notin> set LISTEN_KEY_FILE" "CHR ''/'' \<notin> set CONNECT_KEY_FILE" "CHR ''/'' \<notin> set PEER_LISTEN_KEY_FILE" "CHR ''/'' \<notin> set STATE_FILE"
  by (simp_all add: starts_with_iff LISTEN_KEY_FILE_def CONNECT_KEY_FILE_def PEER_LISTEN_KEY_FILE_def STATE_FILE_def)

lemma tunnel_path: "simple_name p \<Longrightarrow> simple_name t \<Longrightarrow>
    tunnel_dir repo p t = base repo @ p @ ''/'' @ t \<and> tunnel_key_path repo p t = base repo @ p @ ''/'' @ t @ ''/'' @ LISTEN_KEY_FILE"
  using join_name [of p t "base repo"] join_name [of t LISTEN_KEY_FILE "base repo @ p @ ''/''"]
  by (simp add: tunnel_dir_def tunnel_key_path_def join_base simple_start)

lemma project_path: "simple_name p \<Longrightarrow> join (join repo p) LISTEN_KEY_FILE = base repo @ p @ ''/'' @ LISTEN_KEY_FILE"
  using join_name [of p LISTEN_KEY_FILE "base repo"] join_base [of p repo] by (simp add: simple_start)

lemma slash_split: "CHR ''/'' \<notin> set a \<Longrightarrow> CHR ''/'' \<notin> set b \<Longrightarrow> a @ CHR ''/'' # x = b @ CHR ''/'' # y \<longleftrightarrow> a = b \<and> x = y"
proof (induction a arbitrary: b)
  case Nil
  then show ?case by (cases b) auto
next
  case (Cons c a)
  then show ?case by (cases b) auto
qed

lemma slash_none: "CHR ''/'' \<notin> set b \<Longrightarrow> a @ CHR ''/'' # x \<noteq> b"
  by auto

lemma slash_once: "CHR ''/'' \<notin> set b \<Longrightarrow> CHR ''/'' \<notin> set c \<Longrightarrow> CHR ''/'' \<notin> set a \<Longrightarrow> a @ CHR ''/'' # t @ CHR ''/'' # x \<noteq> b @ CHR ''/'' # c"
  using slash_split [of a b] by auto

definition spares :: "str \<Rightarrow> str \<Rightarrow> repo_op \<Rightarrow> bool" where
  "spares project tun op \<longleftrightarrow> (case op of SaveKey p t _ \<Rightarrow> (p, t) \<noteq> (project, tun) | DeleteDir p t \<Rightarrow> (p, t) \<noteq> (project, tun) | _ \<Rightarrow> True)"

text \<open>What each primitive does to another path.\<close>

lemma write_into_other: "q \<noteq> p \<Longrightarrow> map_of (files (snd (write_into dir p c d))) q = map_of (files d) q"
  by (simp add: write_into_def put_file_def split: sum.split)

lemma secret_key_other: "q \<noteq> p \<or> file_there d q \<Longrightarrow> map_of (files (snd (secret_key dir p fresh d))) q = map_of (files d) q"
  using write_into_other [of q p dir fresh d]
  by (cases "q = p") (auto simp: secret_key_def split: sum.splits prod.splits)

lemma rename_other: "q \<noteq> a \<Longrightarrow> q \<noteq> b \<Longrightarrow> map_of (files (snd (rename_file a b d))) q = map_of (files d) q"
  by (simp add: rename_file_def split: option.split)

lemma migrate_other: "q \<noteq> join repo LISTEN_KEY_FILE \<Longrightarrow> q \<noteq> join dir LISTEN_KEY_FILE \<Longrightarrow>
    map_of (files (snd (migrate_key repo dir d))) q = map_of (files d) q"
  using rename_other [of q "join repo LISTEN_KEY_FILE" "join dir LISTEN_KEY_FILE" d]
  by (auto simp: migrate_key_def split: sum.splits prod.splits)

lemma remove_dir_other: "\<not> starts_with (dir @ ''/'') q \<Longrightarrow> map_of (files (remove_dir dir d)) q = map_of (files d) q"
proof -
  have "\<not> starts_with (dir @ ''/'') q \<Longrightarrow> map_of (filter (\<lambda>(p, c). \<not> starts_with (dir @ ''/'') p) fs) q = map_of fs q" for fs :: "(path \<times> str) list"
    by (induction fs) auto
  then show "\<not> starts_with (dir @ ''/'') q \<Longrightarrow> ?thesis" by (simp add: remove_dir_def)
qed

lemma step_spares:
  assumes n: "simple_name p" "simple_name t" "well_named op" "spares p t op" and there: "file_there d (tunnel_key_path repo p t)"
  shows "map_of (files (repo_step y repo op d)) (tunnel_key_path repo p t) = map_of (files d) (tunnel_key_path repo p t)"
proof -
  let ?K = "tunnel_key_path repo p t"
  note K = tunnel_path [OF n(1,2), of repo]
  have s: "CHR ''/'' \<notin> set p" "CHR ''/'' \<notin> set t" using n by (auto simp: simple_name_def)
  have root: "?K \<noteq> join repo f" if "\<not> starts_with ''/'' f" "CHR ''/'' \<notin> set f" for f
    using K that by (auto simp: join_base)
  have proj: "?K \<noteq> join (join repo q) LISTEN_KEY_FILE" if "simple_name q" for q
    using K that s project_path [OF that, of repo] slash_once [of q LISTEN_KEY_FILE p t] by (auto simp: simple_name_def)
  have tun: "?K \<noteq> tunnel_key_path repo q u" if "simple_name q" "simple_name u" "(q, u) \<noteq> (p, t)" for q u
    using K that s tunnel_path [OF that(1,2), of repo] by (auto simp: simple_name_def slash_split)
  show ?thesis
  proof (cases op)
    case (ConnectKey k)
    then show ?thesis by (simp add: repo_step_def connect_key_def secret_key_other root)
  next
    case (PeerKey k)
    then show ?thesis by (simp add: repo_step_def peer_listen_key_def secret_key_other root)
  next
    case (ThrowawayKey project stamp fresh)
    with n(3) have "?K \<noteq> join repo (LISTEN_KEY_FILE @ ''.'' @ (case project of Some pid \<Rightarrow> pid @ ''.'' @ stamp | None \<Rightarrow> stamp))"
      by (intro root) (auto simp: well_named_def simple_name_def split: option.splits)
    with write_into_other [OF this, of repo fresh d] ThrowawayKey show ?thesis
      by (auto simp: repo_step_def listen_key_def Let_def split: sum.splits prod.splits)
  next
    case (ProjectKey q fresh)
    with n(3) have q: "simple_name q" by (simp add: well_named_def)
    have m: "map_of (files (snd (migrate_key repo (join repo q) d))) ?K = map_of (files d) ?K"
      by (rule migrate_other) (use root proj q in auto)
    with ProjectKey q show ?thesis
      by (auto simp: repo_step_def listen_key_for_project_def Let_def secret_key_other proj split: sum.splits prod.splits)
  next
    case (TunnelKey q u)
    with n(3) have q: "simple_name q" "simple_name u" by (simp_all add: well_named_def)
    show ?thesis
    proof (cases "(q, u) = (p, t)")
      case True
      with TunnelKey there show ?thesis by (simp add: repo_step_def listen_key_for_tunnel_def)
    next
      case False
      from root have "map_of (files (snd (migrate_key repo (tunnel_dir repo q u) d))) ?K = map_of (files d) ?K"
        by (intro migrate_other) (use tun [OF q False] in \<open>auto simp: tunnel_key_path_def\<close>)
      with TunnelKey show ?thesis
        by (auto simp: repo_step_def listen_key_for_tunnel_def Let_def split: sum.splits prod.splits)
    qed
  next
    case (SaveKey q u k)
    with n(3,4) have "?K \<noteq> tunnel_key_path repo q u" by (intro tun) (auto simp: well_named_def spares_def)
    with SaveKey show ?thesis by (simp add: repo_step_def save_listen_key_for_tunnel_def write_into_other)
  next
    case (DeleteDir q u)
    with n(3,4) have q: "simple_name q" "simple_name u" "(q, u) \<noteq> (p, t)" by (auto simp: well_named_def spares_def)
    then have "\<not> starts_with (tunnel_dir repo q u @ ''/'') ?K"
      using K s tunnel_path [OF q(1,2), of repo] by (auto simp: starts_with_iff simple_name_def slash_split)
    with DeleteDir show ?thesis by (simp add: repo_step_def delete_tunnel_dir_def Let_def remove_dir_other)
  next
    case (SetState ps)
    then show ?thesis using root [of STATE_FILE] by (simp add: repo_step_def write_state_def put_file_def)
  qed
qed

lemma run_spares:
  assumes "simple_name p" "simple_name t" "list_all well_named ops" "list_all (spares p t) ops" "file_there d (tunnel_key_path repo p t)"
  shows "map_of (files (fold (repo_step y repo) ops d)) (tunnel_key_path repo p t) = map_of (files d) (tunnel_key_path repo p t)"
  using assms(3-5)
proof (induction ops arbitrary: d)
  case (Cons op ops)
  then have "map_of (files (repo_step y repo op d)) (tunnel_key_path repo p t) = map_of (files d) (tunnel_key_path repo p t)"
    by (intro step_spares assms(1,2)) auto
  with Cons show ?case by (simp add: file_there_def)
qed simp

lemma write_into_denied [simp]: "denied (snd (write_into dir p c d)) = denied d"
  by (simp add: write_into_def put_file_def split: sum.split)

lemma write_into_denied': "write_into dir p c d = (r, d') \<Longrightarrow> denied d' = denied d"
  using write_into_denied [of dir p c d] by simp

lemma secret_key_denied [simp]: "denied (snd (secret_key dir p fresh d)) = denied d"
  by (auto simp: secret_key_def split: sum.splits prod.splits dest: write_into_denied')

lemma migrate_denied [simp]: "denied (snd (migrate_key repo dir d)) = denied d"
  by (auto simp: migrate_key_def rename_file_def split: sum.splits option.splits)

lemma migrate_denied': "migrate_key repo dir d = (r, d') \<Longrightarrow> denied d' = denied d"
  using migrate_denied [of repo dir d] by simp

lemma step_denied: "denied (repo_step y repo op d) = denied d"
  by (cases op) (auto simp: repo_step_def connect_key_def peer_listen_key_def listen_key_def listen_key_for_project_def
      listen_key_for_tunnel_def save_listen_key_for_tunnel_def delete_tunnel_dir_def Let_def
      split: sum.splits prod.splits dest: migrate_denied' write_into_denied')

lemma run_denied: "denied (fold (repo_step y repo) ops d) = denied d"
  by (induction ops arbitrary: d) (simp_all add: step_denied)

text \<open>What a key that was given or saved leaves on disk.\<close>

lemma key_read: "read_key d p = Inr k \<longleftrightarrow> \<not> denied d p \<and> map_of (files d) p = Some k \<and> length k = 32"
  by (auto simp: read_key_def read_file_def split: option.splits)

lemma key_given: "listen_key_for_tunnel repo p t d = (Inr k, d') \<Longrightarrow> read_key d' (tunnel_key_path repo p t) = Inr k"
  by (auto simp: listen_key_for_tunnel_def Let_def split: if_splits sum.splits prod.splits)

lemma key_saved: "save_listen_key_for_tunnel repo p t k d = (Inr u, d') \<Longrightarrow> length k = 32 \<Longrightarrow> read_key d' (tunnel_key_path repo p t) = Inr k"
  by (auto simp: save_listen_key_for_tunnel_def write_into_def put_file_def key_read split: if_splits sum.splits)

lemma key_stays:
  assumes "read_key d (tunnel_key_path repo p t) = Inr k" "simple_name p" "simple_name t"
    "list_all well_named ops" "list_all (spares p t) ops"
  shows "listen_key_for_tunnel repo p t (fold (repo_step y repo) ops d) = (Inr k, fold (repo_step y repo) ops d)"
proof -
  have "map_of (files (fold (repo_step y repo) ops d)) (tunnel_key_path repo p t) = Some k"
    using run_spares [OF assms(2-5), of d repo y] assms(1) by (simp add: file_there_def key_read)
  with assms(1) show ?thesis
    by (simp add: listen_key_for_tunnel_def file_there_def key_read run_denied)
qed

lemma legacy_gone:
  assumes "listen_key_for_tunnel repo p t d = (Inr k, d')" "\<not> file_there d (tunnel_key_path repo p t)" "simple_name p" "simple_name t"
  shows "\<not> file_there d' (join repo LISTEN_KEY_FILE)"
proof -
  from assms(1,2) have m: "migrate_key repo (tunnel_dir repo p t) d = (Inr (), d')"
    by (auto simp: listen_key_for_tunnel_def Let_def split: if_splits sum.splits prod.splits)
  have "join repo LISTEN_KEY_FILE \<noteq> tunnel_key_path repo p t"
    using tunnel_path [OF assms(3,4), of repo] by (auto simp: join_base)
  with m show ?thesis
    by (auto simp: migrate_key_def rename_file_def file_there_def tunnel_key_path_def split: if_splits sum.splits option.splits)
qed

text \<open>
  C29: a tunnel keeps its identity. Once a key was given or saved for it, every later request for its key gives that key,
  whatever keys of the node, of projects and of other tunnels are made, moved, saved or deleted in between, and whatever state is written;
  only saving another key for the same tunnel or deleting its directory ends that. And a key of the old flat layout goes to one
  tunnel: it is gone from its old place once a tunnel without a key was given it.
\<close>

theorem tunnel_keeps_its_key:
  assumes "simple_name p" "simple_name t" "list_all well_named ops" "list_all (spares p t) ops"
    and "listen_key_for_tunnel repo p t d = (Inr k, d') \<or> length k = 32 \<and> save_listen_key_for_tunnel repo p t k d = (Inr (), d')"
  shows "fst (listen_key_for_tunnel repo p t (fold (repo_step y repo) ops d')) = Inr k \<and>
    (listen_key_for_tunnel repo p t d = (Inr k, d') \<and> \<not> file_there d (tunnel_key_path repo p t) \<longrightarrow>
      \<not> file_there d' (join repo LISTEN_KEY_FILE))"
proof -
  have "read_key d' (tunnel_key_path repo p t) = Inr k" using assms(5) key_given key_saved by blast
  from key_stays [OF this assms(1-4)] show ?thesis using legacy_gone [OF _ _ assms(1,2)] by auto
qed

definition legacy_disk :: disk where
  "legacy_disk = \<lparr>files = [(''/r/listen_key'', replicate 32 (CHR ''k''))], denied = (\<lambda>_. False)\<rparr>"

theorem tunnel_keeps_its_key_witness:
  "\<exists>d'. listen_key_for_tunnel ''/r'' ''p'' ''t'' legacy_disk = (Inr (replicate 32 (CHR ''k'')), d') \<and>
     \<not> file_there d' ''/r/listen_key'' \<and>
     fst (listen_key_for_tunnel ''/r'' ''p'' ''t'' (fold (repo_step sample_yaml ''/r'')
       [TunnelKey ''p'' ''u'', SaveKey ''p'' ''u'' ''x'', DeleteDir ''p'' ''u''] d')) = Inr (replicate 32 (CHR ''k''))"
proof -
  obtain d' where g: "listen_key_for_tunnel ''/r'' ''p'' ''t'' legacy_disk = (Inr (replicate 32 (CHR ''k'')), d')"
    by (simp add: listen_key_for_tunnel_def Let_def legacy_disk_def file_there_def tunnel_key_path_def tunnel_dir_def LISTEN_KEY_FILE_def
        join_def starts_with_def ends_with_def strip_suffix_def migrate_key_def create_dir_def rename_file_def read_key_def read_file_def)
  have n: "simple_name ''p''" "simple_name ''t''" "\<not> file_there legacy_disk (tunnel_key_path ''/r'' ''p'' ''t'')"
      "join ''/r'' LISTEN_KEY_FILE = ''/r/listen_key''"
    by (simp_all add: simple_name_def legacy_disk_def file_there_def tunnel_key_path_def tunnel_dir_def LISTEN_KEY_FILE_def
        join_def starts_with_def ends_with_def strip_suffix_def)
  show ?thesis
    using tunnel_keeps_its_key [where p = "''p''" and t = "''t''" and repo = "''/r''" and d = legacy_disk and k = "replicate 32 (CHR ''k'')"
        and d' = d' and y = sample_yaml and ops = "[TunnelKey ''p'' ''u'', SaveKey ''p'' ''u'' ''x'', DeleteDir ''p'' ''u'']"] g n
    by (auto simp: well_named_def spares_def simple_name_def)
qed

text \<open>
 a failed write of the state file loses the agreement of file and memory: the change is in force in memory, though the caller
  is told it failed and nobody waiting for changes is notified, while the file keeps what it had.
\<close>

theorem failed_update_is_in_force:
  assumes "denied d (join repo STATE_FILE)"
  shows "update_state y repo f ps d = (Inl (RepoIo OtherIo), snd (f ps), d, False)"
  using assms by (simp add: update_state_def write_state_def put_file_def split: prod.split)

theorem failed_update_is_in_force_witness:
  "update_state sample_yaml ''/r'' (drop_proxy ''a'') [new_proxy_state ''a'' \<lparr>td_host = ''h'', td_port = 1\<rparr> None]
     \<lparr>files = [], denied = (\<lambda>_. True)\<rparr> = (Inl (RepoIo OtherIo), [], \<lparr>files = [], denied = (\<lambda>_. True)\<rparr>, False)"
  by (simp add: failed_update_is_in_force drop_proxy_def new_proxy_state_def)

end
