(* ===== verification/Listen_Node.thy ===== *)
theory Listen_Node
  imports Repository_Facts "HOL-Library.Multiset" "HOL-Library.List_Lexorder" "HOL-Library.Product_Lexorder"
begin

text \<open>
  \<open>node.rs\<close>: which requests a node lets through to the machine, how its endpoint and its relays are chosen, and the node with its key and its state. The endpoint itself and the proxy protocol live in another repository.
\<close>

section \<open>Whom a node lets through\<close>

definition strip_host_scheme :: "str \<Rightarrow> str" where
  "strip_host_scheme host = (case strip_prefix ''http://'' host of Some h \<Rightarrow> h
     | None \<Rightarrow> (case strip_prefix ''https://'' host of Some h \<Rightarrow> h | None \<Rightarrow> host))"

definition normalize_loopback :: "str \<Rightarrow> str" where
  "normalize_loopback host = (if host = ''localhost'' \<or> host = ''::1'' then ''127.0.0.1'' else host)"

definition tcp_proxy_exists :: "proxies \<Rightarrow> str \<Rightarrow> nat \<Rightarrow> bool" where
  "tcp_proxy_exists ps host port = (let h = normalize_loopback (strip_host_scheme host) in
     list_ex (\<lambda>a. px_enabled a \<and> normalize_loopback (td_host (px_data a)) = h \<and> td_port (px_data a) = port) ps)"

text \<open>
  A request of the proxy protocol: a tunnel to an authority, or an absolute URI, whose authority the protocol's crate reads.
\<close>

datatype proxy_request = Tunnel str nat | Absolute str

definition authorize :: "(str \<Rightarrow> (str \<times> nat) option) \<Rightarrow> proxies \<Rightarrow> proxy_request \<Rightarrow> bool" where
  "authorize authority_of ps req = (case req of
     Tunnel host port \<Rightarrow> tcp_proxy_exists ps host port
   | Absolute target \<Rightarrow> (case authority_of target of Some (host, port) \<Rightarrow> tcp_proxy_exists ps host port | None \<Rightarrow> False))"

section \<open>The endpoint\<close>

text \<open>What the endpoint is built with; \<open>'m\<close> stands for the relay mode.\<close>

record 'm endpoint_plan =
  ep_empty :: bool
  ep_relay_mode :: 'm
  ep_key :: str
  ep_bind_v4 :: "(str \<times> nat) option"
  ep_bind_v6 :: "(str \<times> nat) option"
  ep_resolver :: "(str \<times> nat) option"
  ep_discovery :: "str option"

definition build_endpoint_with_relay_mode :: "str \<Rightarrow> node_config \<Rightarrow> 'm \<Rightarrow> 'm endpoint_plan option" where
  "build_endpoint_with_relay_mode key cfg mode =
     (let plan = (\<lambda>origin. \<lparr>ep_empty = (nc_discovery cfg = Dns), ep_relay_mode = mode, ep_key = key, ep_bind_v4 = nc_ipv4 cfg,
        ep_bind_v6 = nc_ipv6 cfg, ep_resolver = nc_dns_resolver cfg, ep_discovery = origin\<rparr>)
      in case nc_discovery cfg of DefaultDiscovery \<Rightarrow> Some (plan None)
         | _ \<Rightarrow> (case nc_dns_origin cfg of None \<Rightarrow> None | Some origin \<Rightarrow> Some (plan (Some origin))))"

section \<open>Relays\<close>

definition STARTUP_RELAY_SELECTION_MAX :: nat where "STARTUP_RELAY_SELECTION_MAX = 5"
definition DEFAULT_DATUM_RELAY_URLS :: str where
  "DEFAULT_DATUM_RELAY_URLS = ''iroh-relay.us-east-1.datumconnect.net,iroh-relay.us-west-1.datumconnect.net''"

definition normalize_relay_url :: "str \<Rightarrow> str" where
  "normalize_relay_url raw = (if has_sub ''://'' raw then raw else ''https://'' @ raw)"

definition relay_separator :: "char \<Rightarrow> bool" where
  "relay_separator c \<longleftrightarrow> c \<in> {CHR '','', CHR '';'', CHR '' '', CHR 0x09, CHR 0x0A, CHR 0x0C, CHR 0x0D}"

fun split_relays :: "str \<Rightarrow> str list" where
  "split_relays [] = [[]]"
| "split_relays (c # s) = (if relay_separator c then [] # split_relays s
     else (case split_relays s of w # ws \<Rightarrow> (c # w) # ws | [] \<Rightarrow> [[c]]))"

text \<open>The first of each of equal elements.\<close>

definition dedup :: "'a list \<Rightarrow> 'a list" where
  "dedup xs = fold (\<lambda>x seen. if x \<in> set seen then seen else seen @ [x]) xs []"

text \<open>\<open>relay_url\<close> is the relay crate's parser, giving the URL as it is written again.\<close>

definition parse_relay_urls :: "(str \<Rightarrow> str option) \<Rightarrow> str \<Rightarrow> str list option" where
  "parse_relay_urls relay_url raw =
     (case those (map (relay_url \<circ> normalize_relay_url) (filter (\<lambda>s. s \<noteq> []) (map trim (split_relays raw)))) of
        None \<Rightarrow> None
      | Some [] \<Rightarrow> None
      | Some relays \<Rightarrow> Some (dedup relays))"

text \<open>A probe of a relay: its latency, a failure, or a task that was lost.\<close>

datatype probe = Latency nat | NoAnswer | Lost

definition latencies :: "(str \<times> probe) list \<Rightarrow> (str \<times> nat) list" where
  "latencies outcomes = List.map_filter (\<lambda>(r, p). case p of Latency l \<Rightarrow> Some (r, l) | _ \<Rightarrow> None) outcomes"

definition unanswered :: "(str \<times> probe) list \<Rightarrow> str list" where
  "unanswered outcomes = List.map_filter (\<lambda>(r, p). case p of NoAnswer \<Rightarrow> Some r | _ \<Rightarrow> None) outcomes"

text \<open>Fill the selection up to the limit with what is not in it yet.\<close>

definition fill_up :: "nat \<Rightarrow> str list \<Rightarrow> str list \<Rightarrow> str list" where
  "fill_up limit extra selected = fold (\<lambda>r sel. if length sel = limit then sel else if r \<in> set sel then sel else sel @ [r]) extra selected"

text \<open>\<open>outcomes\<close> are the probes in the order they ended; None when no client could be built.\<close>

definition select_best_relays :: "str list \<Rightarrow> nat \<Rightarrow> (str \<times> probe) list option \<Rightarrow> str list" where
  "select_best_relays relays limit outcomes =
     (if length relays \<le> limit then relays
      else (case outcomes of
        None \<Rightarrow> take limit relays
      | Some os \<Rightarrow>
          let successful = sort_key (\<lambda>(r, l). (l, r)) (latencies os);
              selected = map fst (take limit successful);
              with_failed = (if length selected < limit then fill_up limit (sort (unanswered os)) selected else selected)
          in if length with_failed < limit then fill_up limit relays with_failed else with_failed))"

datatype relay_mode = Custom "str list" | PublicRelays

text \<open>The lists tried: the environment's, the build's, the built-in one; \<open>outcomes\<close> are the probes of a list.\<close>

definition relay_mode_from_env_or_build :: "(str \<Rightarrow> str option) \<Rightarrow> (str list \<Rightarrow> (str \<times> probe) list option) \<Rightarrow> str option \<Rightarrow> str option \<Rightarrow> relay_mode" where
  "relay_mode_from_env_or_build relay_url outcomes env build =
     (let use = (\<lambda>raw. map_option (\<lambda>rs. Custom (select_best_relays rs STARTUP_RELAY_SELECTION_MAX (outcomes rs))) (parse_relay_urls relay_url raw))
      in case Option.bind env use of Some m \<Rightarrow> m
         | None \<Rightarrow> (case Option.bind build use of Some m \<Rightarrow> m
           | None \<Rightarrow> (case use DEFAULT_DATUM_RELAY_URLS of Some m \<Rightarrow> m | None \<Rightarrow> PublicRelays)))"

section \<open>A node\<close>

record listen_node =
  ln_repo :: path
  ln_state :: proxies
  ln_plan :: "relay_mode endpoint_plan"

datatype node_error = NodeRepo repo_error | NoDnsOrigin | BadApiSecret

text \<open>
  Which key: one given, one of the project, or a throwaway one. The secret of the metrics service, if there is one, was parsed;
  the client built with it is not part of the node's behaviour.
\<close>

datatype key_choice = GivenKey str | ProjectKeyOf str str | Throwaway str str

definition choose_key :: "path \<Rightarrow> key_choice \<Rightarrow> disk \<Rightarrow> (repo_error + str) \<times> disk" where
  "choose_key repo choice d = (case choice of GivenKey k \<Rightarrow> (Inr k, d)
     | ProjectKeyOf pid fresh \<Rightarrow> listen_key_for_project repo pid fresh d
     | Throwaway stamp fresh \<Rightarrow> listen_key repo None stamp fresh d)"

definition build_node :: "yaml_libs \<Rightarrow> path \<Rightarrow> bool \<Rightarrow> key_choice \<Rightarrow> relay_mode \<Rightarrow> disk \<Rightarrow> (node_error + listen_node) \<times> disk" where
  "build_node y repo secret_ok choice mode d =
     (if \<not> secret_ok then (Inl BadApiSecret, d)
      else (case repo_config y repo d of (Inl e, d1) \<Rightarrow> (Inl (NodeRepo e), d1)
      | (Inr cfg, d1) \<Rightarrow> (case choose_key repo choice d1 of (Inl e, d2) \<Rightarrow> (Inl (NodeRepo e), d2)
      | (Inr key, d2) \<Rightarrow> (case build_endpoint_with_relay_mode key cfg mode of None \<Rightarrow> (Inl NoDnsOrigin, d2)
      | Some plan \<Rightarrow> (case load_state y repo d2 of (Inl e, d3) \<Rightarrow> (Inl (NodeRepo e), d3)
      | (Inr ps, d3) \<Rightarrow> (Inr \<lparr>ln_repo = repo, ln_state = ps, ln_plan = plan\<rparr>, d3))))))"

definition node_set_proxy :: "yaml_libs \<Rightarrow> proxy_state \<Rightarrow> listen_node \<Rightarrow> disk \<Rightarrow> (repo_error + unit) \<times> listen_node \<times> disk" where
  "node_set_proxy y p n d = (case update_state y (ln_repo n) (\<lambda>ps. ((), set_proxy p ps)) (ln_state n) d of
     (r, ps, d', _) \<Rightarrow> (r, n\<lparr>ln_state := ps\<rparr>, d'))"

definition node_remove_proxy :: "yaml_libs \<Rightarrow> str \<Rightarrow> listen_node \<Rightarrow> disk \<Rightarrow> (repo_error + proxy_state option) \<times> listen_node \<times> disk" where
  "node_remove_proxy y rid n d = (case update_state y (ln_repo n) (drop_proxy rid) (ln_state n) d of
     (r, ps, d', _) \<Rightarrow> (r, n\<lparr>ln_state := ps\<rparr>, d'))"

definition proxy_by_id :: "str \<Rightarrow> listen_node \<Rightarrow> proxy_state option" where
  "proxy_by_id rid n = find (\<lambda>p. px_tunnel p = rid) (ln_state n)"

end
