(* ===== verification/Listen_Node_Facts.thy ===== *)
theory Listen_Node_Facts
  imports Listen_Node
begin

text \<open>
  What a node promises: only targets that are on are served, and the start chooses the fastest relays. And what two nodes on one repository do to each other.
\<close>

section \<open>Only targets that are on\<close>

definition serves :: "proxy_state \<Rightarrow> str \<Rightarrow> nat \<Rightarrow> bool" where
  "serves p host port \<longleftrightarrow> px_enabled p \<and> normalize_loopback (td_host (px_data p)) = normalize_loopback (strip_host_scheme host) \<and>
     td_port (px_data p) = port"

definition served :: "(str \<Rightarrow> proxy_state option) \<Rightarrow> str \<Rightarrow> nat \<Rightarrow> bool" where
  "served m host port \<longleftrightarrow> (\<exists>rid p. m rid = Some p \<and> serves p host port)"

lemma by_id_found: "by_id ps rid = Some p \<Longrightarrow> p \<in> set ps \<and> px_tunnel p = rid"
  by (induction ps) (auto split: if_splits)

lemma by_id_member: "one_each ps \<Longrightarrow> p \<in> set ps \<Longrightarrow> by_id ps (px_tunnel p) = Some p"
  by (induction ps) auto

lemma exists_served: "one_each ps \<Longrightarrow> tcp_proxy_exists ps host port \<longleftrightarrow> served (by_id ps) host port"
  unfolding tcp_proxy_exists_def served_def serves_def Let_def list_ex_iff
  by (metis by_id_found by_id_member)

lemma run_memory:
  assumes "one_each ps0" "fold (state_step y repo) ops (ps0, d0) = (ps, d)"
  shows "one_each ps \<and> by_id ps = fold map_step ops (by_id ps0)"
  using assms
proof (induction ops arbitrary: ps0 d0)
  case (Cons op ops)
  then have "fold (state_step y repo) ops (snd (change_of op ps0), snd (write_state y repo (snd (change_of op ps0)) d0)) = (ps, d)"
    by (simp add: state_step_simps)
  with Cons change_refines [of ps0 op] show ?case by fastforce
qed simp



section \<open>Two nodes on one repository\<close>

lemma update_ok:
  "update_state y repo f ps d = (Inr r, ps', d', u) \<Longrightarrow> ps' = snd (f ps) \<and> write_state y repo ps' d = (Inr (), d')"
  by (auto simp: update_state_def split: prod.splits sum.splits)

lemma built_state: "build_node y repo ok choice mode d = (Inr n, d') \<Longrightarrow> ln_repo n = repo \<and> (\<exists>d1. load_state y repo d1 = (Inr (ln_state n), d'))"
  by (auto simp: build_node_def split: if_splits prod.splits sum.splits option.splits)

text \<open>The file a node reads is the file another wrote, when nothing came between.\<close>

lemma stopped_core:
  assumes "good_yaml y" "state_typed (ln_state a)" "data_typed (px_data p)"
    and on: "node_set_proxy y p a d0 = (Inr (), a1, d1)"
    and b: "load_state y (ln_repo a) d1 = (Inr (ln_state b), d2)" "ln_repo b = ln_repo a"
    and off: "node_remove_proxy y (px_tunnel p) a1 d2 = (Inr r, a2, d3)"
    and other: "node_set_proxy y q b d3 = (Inr (), b1, d4)" "px_tunnel q \<noteq> px_tunnel p" "data_typed (px_data q)"
  shows "by_id (ln_state b) (px_tunnel p) = Some p \<and> (\<exists>ps. load_state y (ln_repo a) d4 = (Inr ps, d4) \<and> by_id ps (px_tunnel p) = Some p)"
proof -
  from on have w1: "write_state y (ln_repo a) (set_proxy p (ln_state a)) d0 = (Inr (), d1)"
    by (auto simp: node_set_proxy_def dest: update_ok split: prod.splits)
  have t1: "state_typed (set_proxy p (ln_state a))" using assms(2,3) by (rule typed_set)
  from written_state [OF w1 assms(1) t1] b(1) have sb: "ln_state b = set_proxy p (ln_state a)" by simp
  from other(1) b(2) have w2: "write_state y (ln_repo a) (set_proxy q (ln_state b)) d3 = (Inr (), d4)"
    by (auto simp: node_set_proxy_def dest: update_ok split: prod.splits)
  have t2: "state_typed (set_proxy q (ln_state b))" using t1 other(3) sb by (auto intro: typed_set)
  from written_state [OF w2 assms(1) t2] other(2) sb show ?thesis by (simp add: by_id_set)
qed

text \<open>
  nodes on one repository do not see each other's changes. A second node, built after a first one set a target, still lets the
  target's requests through after the first has removed it; and when the second next writes its state, the removed target is back in
  the file, on.
\<close>

theorem removed_target_comes_back:
  assumes "good_yaml y" "state_typed (ln_state a)" "data_typed (px_data p)"
    and "node_set_proxy y p a d0 = (Inr (), a1, d1)"
    and "load_state y (ln_repo a) d1 = (Inr (ln_state b), d2)" "ln_repo b = ln_repo a"
    and "node_remove_proxy y (px_tunnel p) a1 d2 = (Inr r, a2, d3)"
    and "node_set_proxy y q b d3 = (Inr (), b1, d4)" "px_tunnel q \<noteq> px_tunnel p" "data_typed (px_data q)"
  shows "(\<forall>host port. serves p host port \<longrightarrow> authorize authority_of (ln_state b) (Tunnel host port)) \<and>
     (\<exists>ps. load_state y (ln_repo a) d4 = (Inr ps, d4) \<and> by_id ps (px_tunnel p) = Some p)"
proof -
  have "by_id (ln_state b) (px_tunnel p) = Some p" and f: "\<exists>ps. load_state y (ln_repo a) d4 = (Inr ps, d4) \<and> by_id ps (px_tunnel p) = Some p"
    using stopped_core [OF assms] by blast+
  then have "p \<in> set (ln_state b)" using by_id_found by blast
  then have "serves p host port \<longrightarrow> authorize authority_of (ln_state b) (Tunnel host port)" for host port
    by (auto simp: authorize_def tcp_proxy_exists_def serves_def list_ex_iff Let_def)
  with f show ?thesis by blast
qed

definition sample_node :: "proxies \<Rightarrow> listen_node" where
  "sample_node ps = \<lparr>ln_repo = ''/r'', ln_state = ps, ln_plan = \<lparr>ep_empty = False, ep_relay_mode = PublicRelays, ep_key = [],
     ep_bind_v4 = None, ep_bind_v6 = None, ep_resolver = None, ep_discovery = None\<rparr>\<rparr>"

definition sample_target :: "str \<Rightarrow> nat \<Rightarrow> proxy_state" where
  "sample_target rid port = new_proxy_state rid \<lparr>td_host = ''localhost'', td_port = port\<rparr> None"

theorem removed_target_comes_back_witness:
  "\<exists>a1 d1 d2 r a2 d3 b1 d4. node_set_proxy sample_yaml (sample_target ''a'' 80) (sample_node []) blank_disk = (Inr (), a1, d1) \<and>
     load_state sample_yaml ''/r'' d1 = (Inr [sample_target ''a'' 80], d2) \<and>
     node_remove_proxy sample_yaml ''a'' a1 d2 = (Inr r, a2, d3) \<and>
     node_set_proxy sample_yaml (sample_target ''b'' 81) (sample_node [sample_target ''a'' 80]) d3 = (Inr (), b1, d4) \<and>
     (\<exists>ps. load_state sample_yaml ''/r'' d4 = (Inr ps, d4) \<and> by_id ps ''a'' = Some (sample_target ''a'' 80))"
proof -
  have t: "state_typed [sample_target ''a'' 80]" "data_typed (px_data (sample_target ''a'' 80))" "data_typed (px_data (sample_target ''b'' 81))" "state_typed []"
    by (simp_all add: state_typed_def data_typed_def sample_target_def new_proxy_state_def)
  have n: "px_tunnel (sample_target ''a'' 80) = ''a''" "px_tunnel (sample_target ''b'' 81) = ''b''" "ln_repo (sample_node ps) = ''/r''" "ln_state (sample_node ps) = ps" for ps
    by (simp_all add: sample_target_def new_proxy_state_def sample_node_def)
  obtain a1 d1 where s: "node_set_proxy sample_yaml (sample_target ''a'' 80) (sample_node []) blank_disk = (Inr (), a1, d1)"
      "write_state sample_yaml ''/r'' [sample_target ''a'' 80] blank_disk = (Inr (), d1)" "\<not> denied d1 p" "ln_repo a1 = ''/r''" for p
    by (auto simp: node_set_proxy_def update_state_def write_state_def put_file_def blank_disk_def n set_proxy_Nil)
  from written_state [OF s(2) good_sample_yaml t(1)] have l: "load_state sample_yaml ''/r'' d1 = (Inr [sample_target ''a'' 80], d1)" .
  obtain r a2 d3 where r: "node_remove_proxy sample_yaml ''a'' a1 d1 = (Inr r, a2, d3)" "\<not> denied d3 p" for p
    using s(3) by (cases "drop_proxy ''a'' (ln_state a1)") (auto simp: node_remove_proxy_def update_state_def write_state_def put_file_def)
  obtain b1 d4 where b: "node_set_proxy sample_yaml (sample_target ''b'' 81) (sample_node [sample_target ''a'' 80]) d3 = (Inr (), b1, d4)"
    using r(2) by (auto simp: node_set_proxy_def update_state_def write_state_def put_file_def n split: prod.split)
  have "\<exists>ps. load_state sample_yaml (ln_repo (sample_node [])) d4 = (Inr ps, d4) \<and> by_id ps (px_tunnel (sample_target ''a'' 80)) = Some (sample_target ''a'' 80)"
    using removed_target_comes_back [where y = sample_yaml and a = "sample_node []" and p = "sample_target ''a'' 80" and ?d0.0 = blank_disk
        and ?a1.0 = a1 and ?d1.0 = d1 and b = "sample_node [sample_target ''a'' 80]" and ?d2.0 = d1 and r = r and ?a2.0 = a2 and ?d3.0 = d3
        and q = "sample_target ''b'' 81" and ?b1.0 = b1 and ?d4.0 = d4] good_sample_yaml t n s(1) l r(1) b by simp
  with s(1) l r(1) b n show ?thesis by (simp; blast)
qed

section \<open>The relays chosen\<close>

lemma dedup_acc: "distinct acc \<Longrightarrow>
    distinct (fold (\<lambda>x seen. if x \<in> set seen then seen else seen @ [x]) xs acc) \<and>
    set (fold (\<lambda>x seen. if x \<in> set seen then seen else seen @ [x]) xs acc) = set acc \<union> set xs"
proof (induction xs arbitrary: acc)
  case (Cons x xs)
  then show ?case using Cons.IH [of "if x \<in> set acc then acc else acc @ [x]"] by auto
qed simp

lemma dedup_facts: "distinct (dedup xs)" "set (dedup xs) = set xs"
  using dedup_acc [of "[]" xs] by (simp_all add: dedup_def)

lemma fill_up_Nil [simp]: "fill_up limit [] sel = sel"
  by (simp add: fill_up_def)

lemma fill_up_Cons: "fill_up limit (r # rs) sel = fill_up limit rs (if length sel = limit \<or> r \<in> set sel then sel else sel @ [r])"
  by (simp add: fill_up_def)

lemma fill_up_facts:
  "distinct sel \<Longrightarrow> length sel \<le> limit \<Longrightarrow>
   distinct (fill_up limit rs sel) \<and> length (fill_up limit rs sel) = min limit (card (set sel \<union> set rs)) \<and>
   set sel \<subseteq> set (fill_up limit rs sel) \<and> set (fill_up limit rs sel) \<subseteq> set sel \<union> set rs"
proof (induction rs arbitrary: sel)
  case Nil
  then show ?case by (simp add: distinct_card)
next
  case (Cons r rs)
  show ?case
  proof (cases "length sel = limit \<or> r \<in> set sel")
    case True
    have "r \<notin> set sel \<Longrightarrow> limit \<le> card (set sel \<union> set rs)"
      using True Cons.prems card_mono [of "set sel \<union> set rs" "set sel"] by (auto simp: distinct_card)
    moreover have "limit \<le> card (set sel \<union> set rs) \<Longrightarrow> limit \<le> card (insert r (set sel \<union> set rs))"
      by (meson card_insert_le finite_Un List.finite_set le_trans)
    ultimately have "min limit (card (set sel \<union> set rs)) = min limit (card (set sel \<union> set (r # rs)))"
      by (cases "r \<in> set sel") (auto simp: insert_absorb)
    with True Cons show ?thesis by (auto simp: fill_up_Cons)
  next
    case False
    with Cons.prems Cons.IH [of "sel @ [r]"] show ?thesis by (auto simp: fill_up_Cons)
  qed
qed

lemma filled_up:
  assumes "distinct f" "length f \<le> limit" "s = (if length f < limit then fill_up limit u f else f)"
  shows "distinct s" "length s \<le> limit" "set f \<subseteq> set s" "set s \<subseteq> set f \<union> set u"
  using fill_up_facts [OF assms(1,2), of u] assms by (auto split: if_splits)

lemma latencies_mset: "mset os = mset os' \<Longrightarrow> mset (latencies os) = mset (latencies os')"
  by (simp add: latencies_def List.map_filter_def mset_map mset_filter)

lemma unanswered_mset: "mset os = mset os' \<Longrightarrow> mset (unanswered os) = mset (unanswered os')"
  by (simp add: unanswered_def List.map_filter_def mset_map mset_filter)

lemma latencies_in: "(r, l) \<in> set (latencies os) \<longleftrightarrow> (r, Latency l) \<in> set os"
  by (induction os) (auto simp: latencies_def List.map_filter_simps split: probe.splits prod.splits)

lemma unanswered_in: "r \<in> set (unanswered os) \<longleftrightarrow> (r, NoAnswer) \<in> set os"
  by (induction os) (auto simp: unanswered_def List.map_filter_simps split: probe.splits prod.splits)

abbreviation ranked :: "(str \<times> probe) list \<Rightarrow> (str \<times> nat) list" where
  "ranked os \<equiv> sort_key (\<lambda>(r, l). (l, r)) (latencies os)"

lemma ranked_same:
  assumes "mset os = mset os'" shows "ranked os = ranked os'"
proof (rule sort_key_inj_key_eq)
  show "mset (latencies os) = mset (ranked os')" using latencies_mset [OF assms] by simp
qed (auto simp: inj_on_def)

lemma order_irrelevant: "mset os' = mset os \<Longrightarrow> select_best_relays relays limit (Some os') = select_best_relays relays limit (Some os)"
proof -
  assume m: "mset os' = mset os"
  have "sort (unanswered os') = sort (unanswered os)"
    by (rule properties_for_sort) (use unanswered_mset [OF m] in simp_all)
  then show ?thesis unfolding select_best_relays_def by (simp only: option.case ranked_same [OF m])
qed

lemma distinct_latencies: "distinct (map fst os) \<Longrightarrow> distinct (map fst (latencies os))"
proof (induction os)
  case (Cons o1 os)
  have "fst ` set (latencies os) \<subseteq> fst ` set os" by (force simp: latencies_in)
  with Cons show ?case by (cases o1; cases "snd o1") (auto simp: latencies_def List.map_filter_simps)
qed (simp add: latencies_def List.map_filter_simps)

lemma ranked_distinct: "distinct (map fst os) \<Longrightarrow> distinct (map fst (ranked os))"
proof -
  assume "distinct (map fst os)"
  then have "distinct (map fst (latencies os))" by (rule distinct_latencies)
  moreover have "mset (map fst (ranked os)) = mset (map fst (latencies os))" by simp
  ultimately show ?thesis by (metis mset_eq_imp_distinct_iff)
qed

text \<open>The head of the ranking is no slower than what is left out.\<close>

lemma ranked_head:
  assumes "(r', l') \<in> set (take n (ranked os))" "(r, l) \<in> set (drop n (ranked os))"
  shows "l' \<le> l"
proof -
  have "sorted (map (\<lambda>(r, l). (l, r)) (take n (ranked os)) @ map (\<lambda>(r, l). (l, r)) (drop n (ranked os)))"
    by (metis append_take_drop_id map_append sorted_sort_key)
  with assms have "(l', r') \<le> (l, r)" by (fastforce simp: sorted_append)
  then show ?thesis by (auto simp: less_eq_prod_def)
qed

text \<open>
 from more relays than the limit, each probed once, the start chooses as many as the limit allows, none twice; a relay that answered
  and was left out was no faster than any chosen one, all of which answered too; and the choice does not depend on the order
  in which the probes ended.
\<close>

theorem fastest_relays_are_chosen:
  assumes "distinct relays" "limit < length relays" "mset (map fst os) = mset relays" "sel = select_best_relays relays limit (Some os)"
  shows "length sel = limit \<and> distinct sel \<and> set sel \<subseteq> set relays \<and>
     (\<forall>r l. (r, Latency l) \<in> set os \<and> r \<notin> set sel \<longrightarrow> (\<forall>r' \<in> set sel. \<exists>l' \<le> l. (r', Latency l') \<in> set os)) \<and>
     (\<forall>os'. mset os' = mset os \<longrightarrow> select_best_relays relays limit (Some os') = sel)"
proof -
  define one where "one = map fst (take limit (ranked os))"
  define two where "two = (if length one < limit then fill_up limit (sort (unanswered os)) one else one)"
  have sel: "sel = (if length two < limit then fill_up limit relays two else two)"
    unfolding two_def one_def using assms(2,4) by (simp add: select_best_relays_def Let_def del: length_map)
  have dos: "distinct (map fst os)" using assms(1,3) by (metis mset_eq_imp_distinct_iff)
  have fs: "fst ` set os = set relays" using assms(3) by (metis list.set_map mset_eq_setD)
  have head: "\<exists>l. (r, l) \<in> set (take limit (ranked os)) \<and> (r, Latency l) \<in> set os" if "r \<in> set one" for r
  proof -
    from that obtain l where l: "(r, l) \<in> set (take limit (ranked os))" unfolding one_def by auto
    then have "(r, l) \<in> set (latencies os)" using in_set_takeD by fastforce
    with l show ?thesis by (auto simp: latencies_in)
  qed
  have d1: "distinct one" "length one \<le> limit" using ranked_distinct [OF dos] by (simp_all add: one_def flip: take_map)
  have s1: "set one \<subseteq> set relays" using head fs by force
  have un: "set (sort (unanswered os)) \<subseteq> set relays" using fs by (force simp: unanswered_in)
  note f2 = filled_up [OF d1 two_def]
  have s2: "set two \<subseteq> set relays" using f2(4) s1 un by blast
  note f3 = filled_up [OF f2(1,2) sel]
  have "card (set two \<union> set relays) = length relays" using s2 assms(1) by (simp add: Un_absorb1 distinct_card)
  then have len: "length sel = limit" using fill_up_facts [OF f2(1,2), of relays] f2(2) assms(2) by (auto simp: sel)
  have all: "length sel = limit" "distinct sel" "set sel \<subseteq> set relays" "set one \<subseteq> set sel"
    using len f3(1) f3(4) s2 f2(3) f3(3) by blast+
  have "\<exists>l' \<le> l. (r', Latency l') \<in> set os" if r: "(r, Latency l) \<in> set os" "r \<notin> set sel" "r' \<in> set sel" for r l r'
  proof -
    have "(r, l) \<in> set (ranked os)" using r(1) by (simp add: latencies_in)
    moreover have "(r, l) \<notin> set (take limit (ranked os))" using r(2) all(4) by (force simp: one_def)
    ultimately have dr: "(r, l) \<in> set (drop limit (ranked os))" by (metis Un_iff append_take_drop_id set_append)
    then have "limit < length (ranked os)" by (cases "limit < length (ranked os)") auto
    then have "length one = limit" by (simp add: one_def)
    then have "sel = one" by (simp add: sel two_def)
    with r(3) head obtain l' where h: "(r', l') \<in> set (take limit (ranked os))" and "(r', Latency l') \<in> set os" by blast
    with ranked_head [OF h dr] show ?thesis by blast
  qed
  then have fast: "\<forall>r l. (r, Latency l) \<in> set os \<and> r \<notin> set sel \<longrightarrow> (\<forall>r' \<in> set sel. \<exists>l' \<le> l. (r', Latency l') \<in> set os)"
    by blast
  have "\<forall>os'. mset os' = mset os \<longrightarrow> select_best_relays relays limit (Some os') = sel"
    unfolding assms(4) using order_irrelevant by blast
  with all(1-3) fast show ?thesis by (intro conjI)
qed

definition sample_relays :: "str list" where "sample_relays = [''a'', ''b'', ''c'']"
definition sample_probes :: "(str \<times> probe) list" where "sample_probes = [(''c'', Latency 20), (''b'', NoAnswer), (''a'', Latency 30)]"

theorem fastest_relays_are_chosen_witness:
  "length (select_best_relays sample_relays 1 (Some sample_probes)) = 1 \<and>
   select_best_relays sample_relays 1 (Some (rev sample_probes)) = select_best_relays sample_relays 1 (Some sample_probes)"
proof -
  have "distinct sample_relays" "1 < length sample_relays" "mset (map fst sample_probes) = mset sample_relays"
    by (simp_all add: sample_relays_def sample_probes_def)
  note w = fastest_relays_are_chosen [OF this refl]
  have "mset (rev sample_probes) = mset sample_probes" by simp
  with w show ?thesis by blast
qed

end
