(* ===== verification/Daemon.thy ===== *)
theory Daemon
  imports Auth Tunnels Repository Ip_Net
begin

text \<open>
  The daemon's own part of \<open>daemon/src/main.rs\<close>, and \<open>exclusive.rs\<close>: the handlers that create, start, stop and delete tunnels, the sweep that ends tunnels left on, and the reconciliation at the start. The tunnel service, nodes, heartbeats and inspectors are asked through requests; a handler runs from its first line to its last.
\<close>

section \<open>Targets and notes on disk\<close>

definition inspector_target_dir :: "path \<Rightarrow> path" where
  "inspector_target_dir base1 = join base1 ''daemon_inspector_targets''"

definition inspector_target_path :: "path \<Rightarrow> str \<Rightarrow> path" where
  "inspector_target_path base1 tun = join (inspector_target_dir base1) (tun @ ''.txt'')"

definition save_inspector_target :: "path \<Rightarrow> str \<Rightarrow> str \<Rightarrow> disk \<Rightarrow> (io_error + unit) \<times> disk" where
  "save_inspector_target base1 tun target d = (case create_dir (inspector_target_dir base1) d of Inl e \<Rightarrow> (Inl e, d)
     | Inr _ \<Rightarrow> put_file (inspector_target_path base1 tun) target d)"

definition load_inspector_target :: "path \<Rightarrow> str \<Rightarrow> disk \<Rightarrow> str option" where
  "load_inspector_target base1 tun d = (case read_file d (inspector_target_path base1 tun) of Inl _ \<Rightarrow> None | Inr t \<Rightarrow> Some t)"

definition remove_inspector_target :: "path \<Rightarrow> str \<Rightarrow> disk \<Rightarrow> disk" where
  "remove_inspector_target base1 tun d = snd (remove_file (inspector_target_path base1 tun) d)"

definition NOTE_MAX_BYTES :: nat where "NOTE_MAX_BYTES = 2000"

definition note_dir :: "path \<Rightarrow> path" where "note_dir base1 = join base1 ''daemon_notes''"
definition note_path :: "path \<Rightarrow> str \<Rightarrow> path" where "note_path base1 tun = join (note_dir base1) (tun @ ''.txt'')"

definition remove_note :: "path \<Rightarrow> str \<Rightarrow> disk \<Rightarrow> (io_error + unit) \<times> disk" where
  "remove_note base1 tun d = (case remove_file (note_path base1 tun) d of
     (Inl NotFound, d') \<Rightarrow> (Inr (), d') | r \<Rightarrow> r)"

definition save_note :: "path \<Rightarrow> str \<Rightarrow> str \<Rightarrow> disk \<Rightarrow> (io_error + unit) \<times> disk" where
  "save_note base1 tun n d = (if n = [] then remove_note base1 tun d
     else (case create_dir (note_dir base1) d of Inl e \<Rightarrow> (Inl e, d) | Inr _ \<Rightarrow> put_file (note_path base1 tun) n d))"

definition load_note :: "path \<Rightarrow> str \<Rightarrow> disk \<Rightarrow> str option" where
  "load_note base1 tun d = (case read_file d (note_path base1 tun) of Inl _ \<Rightarrow> None | Inr t \<Rightarrow> Some t)"

section \<open>Real targets\<close>

text \<open>A URI as the http crate reads it.\<close>

record uri =
  u_scheme :: "str option"
  u_host :: "str option"
  u_port :: "nat option"
  u_path :: "str option"

record real_target =
  rt_normalized :: str
  rt_uri :: uri

type_synonym uri_parser = "str \<Rightarrow> str + uri"

definition parse_real_target :: "uri_parser \<Rightarrow> str \<Rightarrow> str + real_target" where
  "parse_real_target parse raw =
     (let normalized = (if starts_with ''http://'' raw \<or> starts_with ''https://'' raw then raw else ''http://'' @ raw)
      in case parse normalized of Inl e \<Rightarrow> Inl e | Inr u \<Rightarrow> Inr \<lparr>rt_normalized = normalized, rt_uri = u\<rparr>)"

definition needs_repoint :: "bool \<Rightarrow> str option \<Rightarrow> str \<Rightarrow> bool" where
  "needs_repoint has_inspector persisted wanted \<longleftrightarrow> \<not> has_inspector \<or>
     map_option (trim_end_char (CHR ''/'')) persisted \<noteq> Some (trim_end_char (CHR ''/'') wanted)"

definition inspector_port :: "uri_parser \<Rightarrow> str \<Rightarrow> nat option" where
  "inspector_port parse endpoint = (case parse endpoint of Inl _ \<Rightarrow> None
     | Inr u \<Rightarrow> if u_scheme u = Some ''http'' \<and> u_host u = Some ''127.0.0.1'' then u_port u else None)"

section \<open>The daemon\<close>

text \<open>
  What it asks: the tunnel service, in the name of the shared identity or of a tunnel's own key; an inspector; a node and its
  heartbeat. \<open>StartHeartbeat\<close> is starting the agent and registering the project, \<open>StopHeartbeat\<close> deregistering it or dropping the agent.
\<close>

datatype service_of = Control | Own str

text \<open>The add-on's page, which runs in the same process (\<open>Addon_Page\<close>), also asks the edge, Home Assistant and its Supervisor.\<close>

datatype page_errand = EdgeStatusOf str | HttpConfig | SelfInfo | RestartAddOn | SpawnAllow bool "ip_addr \<times> nat"
datatype page_news = EdgeIs "edge_policy_status option" | ConfigIs "str + json" | InfoIs "str + unit" | NoNews

datatype daemon_request =
    ListActive | GetActive service_of str | ActiveProgress str
  | CreateActive str str | DeleteActive str
  | UpdateActive service_of str str str | RetargetActive service_of str str
  | SetEnabled service_of str bool | CleanupOrphaned service_of
  | SpawnInspector uri "nat option"
  | GenerateKey | NewNode str | StartHeartbeat str str | StopHeartbeat str str | HasRelay str
  | Errand page_errand

datatype daemon_reply =
    RSummaries "str + tunnel_summary list" | RFound "str + tunnel_summary option" | RProgress "str + tunnel_progress option"
  | RSummary "str + tunnel_summary" | ROutcome "str + delete_outcome" | RUnit "str + unit" | REndpoint "str + str" | RKey str | RYes bool | RNews page_news

type_synonym 'a dio = "(daemon_request, daemon_reply, 'a) io"

fun dr_summaries :: "daemon_reply \<Rightarrow> str + tunnel_summary list" where "dr_summaries (RSummaries x) = x" | "dr_summaries _ = Inl []"
fun dr_found :: "daemon_reply \<Rightarrow> str + tunnel_summary option" where "dr_found (RFound x) = x" | "dr_found _ = Inl []"
fun dr_progress :: "daemon_reply \<Rightarrow> str + tunnel_progress option" where "dr_progress (RProgress x) = x" | "dr_progress _ = Inl []"
fun dr_summary :: "daemon_reply \<Rightarrow> str + tunnel_summary" where "dr_summary (RSummary x) = x" | "dr_summary _ = Inl []"
fun dr_outcome :: "daemon_reply \<Rightarrow> str + delete_outcome" where "dr_outcome (ROutcome x) = x" | "dr_outcome _ = Inl []"
fun dr_unit :: "daemon_reply \<Rightarrow> str + unit" where "dr_unit (RUnit x) = x" | "dr_unit _ = Inl []"
fun dr_endpoint :: "daemon_reply \<Rightarrow> str + str" where "dr_endpoint (REndpoint x) = x" | "dr_endpoint _ = Inl []"
fun dr_key :: "daemon_reply \<Rightarrow> str" where "dr_key (RKey x) = x" | "dr_key _ = []"
fun dr_yes :: "daemon_reply \<Rightarrow> bool" where "dr_yes (RYes x) = x" | "dr_yes _ = False"

text \<open>A tunnel that is on: the key of its node, heartbeat and service, and when it started.\<close>

record running_tunnel =
  ru_key :: str
  ru_started_at :: nat

record inspector_handle =
  ih_target :: uri
  ih_endpoint :: str

record daemon =
  da_auth :: app_state
  da_repo :: path
  da_project :: str
  da_running :: "(str \<times> running_tunnel) list"
  da_busy :: "str set"
  da_inspectors :: "(str \<times> inspector_handle) list"
  da_max_runtime :: nat
  da_exclusive :: "str option"

record daemon_libs =
  dl_codec :: codec
  dl_uri :: uri_parser
  dl_json_error :: "str \<Rightarrow> str"
  dl_io :: "io_error \<Rightarrow> str"
  dl_repo :: "repo_error \<Rightarrow> str"

datatype http_failure = Failure (failure_status: nat) (failure_error: str)

definition err_response :: "str \<Rightarrow> http_failure" where "err_response e = Failure 500 e"
definition not_found :: "str \<Rightarrow> http_failure" where
  "not_found tun = Failure 404 (''tunnel '' @ [CHR 0x27] @ tun @ [CHR 0x27] @ '' not found'')"
definition bad_request :: "str \<Rightarrow> http_failure" where "bad_request e = Failure 400 e"

type_synonym 'a handled = "((http_failure + 'a) \<times> daemon) dio"

definition reply :: "http_failure + 'a \<Rightarrow> daemon \<Rightarrow> 'a handled" where
  "reply r d = State_Monad.return (r, d)"

definition dtry :: "'a handled \<Rightarrow> ('a \<Rightarrow> daemon \<Rightarrow> 'b handled) \<Rightarrow> 'b handled" where
  "dtry m f = do { (r, d) \<leftarrow> m; (case r of Inl e \<Rightarrow> reply (Inl e) d | Inr a \<Rightarrow> f a d) }"

text \<open>A call of the tunnel service or another fallible step; its error becomes the answer.\<close>

definition call :: "(daemon_reply \<Rightarrow> str + 'a) \<Rightarrow> daemon_request \<Rightarrow> daemon \<Rightarrow> 'a handled" where
  "call as1 q d = do { r \<leftarrow> ask_as as1 q;
     (case r of Inl e \<Rightarrow> reply (Inl (err_response e)) d | Inr a \<Rightarrow> reply (Inr a) d) }"

abbreviation the_disk :: "daemon \<Rightarrow> disk" where "the_disk d \<equiv> app_disk (da_auth d)"
abbreviation the_dir :: "daemon \<Rightarrow> path" where "the_dir d \<equiv> connect_dir (da_auth d)"

definition with_disk :: "daemon \<Rightarrow> disk \<Rightarrow> daemon" where
  "with_disk d dk = d\<lparr>da_auth := (da_auth d)\<lparr>app_disk := dk\<rparr>\<rparr>"

text \<open>An entry of the audit log; a failure to write it is dropped.\<close>

definition audited :: "daemon_libs \<Rightarrow> str \<Rightarrow> str \<Rightarrow> str \<Rightarrow> daemon \<Rightarrow> daemon dio" where
  "audited libs event1 tun who d = do { t \<leftarrow> now;
     State_Monad.return (with_disk d (append_audit (dl_codec libs) (the_dir d) event1 tun who (word_of_nat t) (the_disk d))) }"

definition spawn_inspector :: "real_target \<Rightarrow> nat option \<Rightarrow> daemon \<Rightarrow> inspector_handle handled" where
  "spawn_inspector target preferred_port d =
     dtry (call dr_endpoint (SpawnInspector (rt_uri target) preferred_port) d) (\<lambda>addr.
     reply (Inr \<lparr>ih_target = rt_uri target, ih_endpoint = ''http://'' @ addr\<rparr>))"

definition install_inspector :: "str \<Rightarrow> str \<Rightarrow> inspector_handle \<Rightarrow> daemon \<Rightarrow> daemon" where
  "install_inspector tun target handle d =
     (with_disk d (snd (save_inspector_target (the_dir d) tun target (the_disk d))))\<lparr>da_inspectors := AList.update tun handle (da_inspectors d)\<rparr>"

section \<open>Reading\<close>

record summary_with_actor =
  sa_tunnel :: tunnel_summary
  sa_last_start_actor :: "str option"
  sa_note :: "str option"

definition with_last_start_actor :: "daemon_libs \<Rightarrow> daemon \<Rightarrow> tunnel_summary \<Rightarrow> summary_with_actor" where
  "with_last_start_actor libs d t = \<lparr>sa_tunnel = t,
     sa_last_start_actor = last_actor_for_event (dl_codec libs) (the_dir d) (ts_id t) ''start'' (the_disk d),
     sa_note = load_note (the_dir d) (ts_id t) (the_disk d)\<rparr>"

definition list_tunnels :: "daemon_libs \<Rightarrow> daemon \<Rightarrow> summary_with_actor list handled" where
  "list_tunnels libs d = dtry (call dr_summaries ListActive d) (\<lambda>ts d. reply (Inr (map (with_last_start_actor libs d) ts)) d)"

text \<open>What a lookup found, or the answer that there is no such tunnel.\<close>

definition found_or_404 :: "str \<Rightarrow> 'a option \<Rightarrow> http_failure + 'a" where
  "found_or_404 tun x = (case x of Some t \<Rightarrow> Inr t | None \<Rightarrow> Inl (not_found tun))"

definition get_tunnel :: "daemon_libs \<Rightarrow> str \<Rightarrow> daemon \<Rightarrow> summary_with_actor handled" where
  "get_tunnel libs tun d = dtry (call dr_found (GetActive Control tun) d) (\<lambda>t d.
     reply (found_or_404 tun (map_option (with_last_start_actor libs d) t)) d)"

definition get_progress :: "str \<Rightarrow> daemon \<Rightarrow> (tunnel_progress \<times> bool \<times> bool) handled" where
  "get_progress tun d = dtry (call dr_progress (ActiveProgress tun) d) (\<lambda>p.
     reply (found_or_404 tun (map_option (\<lambda>p. (p, all_ready p, terminal_failure p \<noteq> None)) p)))"

section \<open>Creating, deleting and notes\<close>

definition create_tunnel :: "daemon_libs \<Rightarrow> str \<Rightarrow> str \<Rightarrow> daemon \<Rightarrow> tunnel_summary handled" where
  "create_tunnel libs label endpoint d = (case parse_real_target (dl_uri libs) endpoint of
     Inl e \<Rightarrow> reply (Inl (err_response (''invalid endpoint '' @ [CHR 0x27] @ endpoint @ [CHR 0x27] @ '': '' @ e))) d
   | Inr target \<Rightarrow>
       dtry (spawn_inspector target None d) (\<lambda>handle d.
       dtry (call dr_summary (CreateActive label (ih_endpoint handle)) d) (\<lambda>t d. do {
         d' \<leftarrow> audited libs ''create'' (ts_id t) ''setup'' (install_inspector (ts_id t) (rt_normalized target) handle d);
         reply (Inr t) d' })))"

text \<open>What is left of a deleted tunnel on this machine.\<close>

definition forget_tunnel :: "str \<Rightarrow> daemon \<Rightarrow> daemon" where
  "forget_tunnel tun d = (let dk = remove_inspector_target (the_dir d) tun (the_disk d);
       dk = snd (remove_note (the_dir d) tun dk); dk = delete_tokens_for_tunnel (the_dir d) tun dk
     in (with_disk d dk)\<lparr>da_inspectors := AList.delete tun (da_inspectors d)\<rparr>)"

text \<open>Taking a tunnel out of the running ones.\<close>

definition take_running :: "str \<Rightarrow> daemon \<Rightarrow> running_tunnel option \<times> daemon" where
  "take_running tun d = (map_of (da_running d) tun, d\<lparr>da_running := AList.delete tun (da_running d)\<rparr>)"

definition stop_heartbeat :: "running_tunnel option \<Rightarrow> daemon \<Rightarrow> unit dio" where
  "stop_heartbeat r d = (case r of Some ru \<Rightarrow> signal (StopHeartbeat (ru_key ru) (da_project d)) | None \<Rightarrow> skip)"

definition delete_tunnel_internal :: "daemon_libs \<Rightarrow> str \<Rightarrow> str \<Rightarrow> daemon \<Rightarrow> delete_outcome handled" where
  "delete_tunnel_internal libs tun who d =
     dtry (call dr_outcome (DeleteActive tun) d) (\<lambda>outcome d. case take_running tun d of (r, d1) \<Rightarrow> do {
       stop_heartbeat r d1;
       d2 \<leftarrow> audited libs ''delete'' tun who (forget_tunnel tun d1);
       reply (Inr outcome) d2 })"

definition set_tunnel_note :: "daemon_libs \<Rightarrow> str \<Rightarrow> str \<Rightarrow> daemon \<Rightarrow> (str \<times> str) handled" where
  "set_tunnel_note libs tun n d = dtry (call dr_found (GetActive Control tun) d) (\<lambda>t d.
     if t = None then reply (Inl (not_found tun)) d
     else if length n > NOTE_MAX_BYTES
       then reply (Inl (err_response (''note too long ('' @ show_nat (length n) @ '' bytes, max '' @ show_nat NOTE_MAX_BYTES @ '')''))) d
     else (case save_note (the_dir d) tun n (the_disk d) of
         (Inl e, dk) \<Rightarrow> reply (Inl (err_response (dl_io libs e))) (with_disk d dk)
       | (Inr _, dk) \<Rightarrow> reply (Inr (tun, n)) (with_disk d dk)))"

section \<open>Busy tunnels\<close>

definition claim_busy :: "str \<Rightarrow> daemon \<Rightarrow> http_failure + daemon" where
  "claim_busy tun d = (if tun \<in> da_busy d
     then Inl (Failure 409 (''tunnel '' @ [CHR 0x27] @ tun @ [CHR 0x27] @ '' is busy (starting or stopping) '' @ [CHR 0xE2, CHR 0x80, CHR 0x94] @ '' try again shortly''))
     else Inr (d\<lparr>da_busy := insert tun (da_busy d)\<rparr>))"

definition release_busy :: "str \<Rightarrow> daemon \<Rightarrow> daemon" where
  "release_busy tun d = d\<lparr>da_busy := da_busy d - {tun}\<rparr>"

text \<open>A handler that holds the claim, however it ends.\<close>

definition while_busy :: "str \<Rightarrow> (daemon \<Rightarrow> 'a handled) \<Rightarrow> daemon \<Rightarrow> 'a handled" where
  "while_busy tun f d = (case claim_busy tun d of Inl e \<Rightarrow> reply (Inl e) d
   | Inr d1 \<Rightarrow> do { (r, d2) \<leftarrow> f d1; reply r (release_busy tun d2) })"

section \<open>Starting\<close>

definition ascii_blank :: "char \<Rightarrow> bool" where
  "ascii_blank c \<longleftrightarrow> c \<in> {CHR '' '', CHR 0x09, CHR 0x0A, CHR 0x0C, CHR 0x0D}"

text \<open>The body's value as an optional \<open>StartTunnelRequest\<close>, which serde also reads from an array of its fields.\<close>

definition target_field :: "json option \<Rightarrow> str option option" where
  "target_field j = (case j of None \<Rightarrow> Some None | Some JNull \<Rightarrow> Some None | Some (JStr s) \<Rightarrow> Some (Some s) | _ \<Rightarrow> None)"

definition start_request_of :: "json \<Rightarrow> str option option" where
  "start_request_of j = (case j of
     JNull \<Rightarrow> Some None
   | JObj kvs \<Rightarrow> target_field (obj_get kvs ''target'')
   | JArr [] \<Rightarrow> Some None
   | JArr [v] \<Rightarrow> target_field (Some v)
   | _ \<Rightarrow> None)"

definition parse_start_request :: "daemon_libs \<Rightarrow> str \<Rightarrow> str + str option" where
  "parse_start_request libs content = (if list_all ascii_blank content then Inr None
     else (case Option.bind (json_parse (dl_codec libs) content) start_request_of of
       Some t \<Rightarrow> Inr t | None \<Rightarrow> Inl (''invalid request body: '' @ dl_json_error libs content)))"

text \<open>The key of a tunnel, and whether it is a new one.\<close>

definition resolve_listen_key :: "daemon_libs \<Rightarrow> str \<Rightarrow> daemon \<Rightarrow> (str \<times> bool) handled" where
  "resolve_listen_key libs tun d = (case listen_key_for_tunnel (da_repo d) (da_project d) tun (the_disk d) of
     (Inr k, dk) \<Rightarrow> reply (Inr (k, False)) (with_disk d dk)
   | (Inl KeyNotFound, dk) \<Rightarrow> do { k \<leftarrow> ask_as dr_key GenerateKey; reply (Inr (k, True)) (with_disk d dk) }
   | (Inl e, dk) \<Rightarrow> reply (Inl (err_response (dl_repo libs e))) (with_disk d dk))"

definition save_new_key :: "daemon_libs \<Rightarrow> str \<Rightarrow> str \<Rightarrow> bool \<Rightarrow> daemon \<Rightarrow> unit handled" where
  "save_new_key libs tun key rewire d = (if \<not> rewire then reply (Inr ()) d
     else (case save_listen_key_for_tunnel (da_repo d) (da_project d) tun key (the_disk d) of
       (Inl e, dk) \<Rightarrow> reply (Inl (err_response (dl_repo libs e))) (with_disk d dk)
     | (Inr _, dk) \<Rightarrow> reply (Inr ()) (with_disk d dk)))"

text \<open>Up to forty looks, a quarter of a second apart, for a relay of the node.\<close>

definition RELAY_LOOKS :: nat where "RELAY_LOOKS = 40"

definition await_relay :: "str \<Rightarrow> unit dio" where
  "await_relay key = do { _ \<leftarrow> repeat_io RELAY_LOOKS (\<lambda>_. do {
       yes \<leftarrow> ask_as dr_yes (HasRelay key);
       if yes then State_Monad.return (Inr ()) else do { sleep 250; State_Monad.return (Inl ()) } }) (); skip }"

text \<open>The inspector for a new target, with the target.\<close>

definition new_inspector :: "real_target option \<Rightarrow> daemon \<Rightarrow> (real_target \<times> inspector_handle) option handled" where
  "new_inspector repoint d = (case repoint of None \<Rightarrow> reply (Inr None) d
   | Some t \<Rightarrow> dtry (spawn_inspector t None d) (\<lambda>h. reply (Inr (Some (t, h)))))"

text \<open>Where the tunnel points: at a new connector for a new key, at a new endpoint for a new inspector alone.\<close>

definition point_tunnel :: "str \<Rightarrow> str \<Rightarrow> str \<Rightarrow> str \<Rightarrow> bool \<Rightarrow> bool \<Rightarrow> daemon \<Rightarrow> unit handled" where
  "point_tunnel key tun label endpoint rewire repointed d =
     (if rewire then dtry (call dr_summary (UpdateActive (Own key) tun label endpoint) d) (\<lambda>_ d. do {
        _ \<leftarrow> ask (CleanupOrphaned (Own key)); reply (Inr ()) d })
      else if repointed then dtry (call dr_summary (RetargetActive (Own key) tun endpoint) d) (\<lambda>_. reply (Inr ()))
      else reply (Inr ()) d)"

text \<open>A new inspector becomes the tunnel's.\<close>

definition adopt_inspector :: "daemon_libs \<Rightarrow> str \<Rightarrow> str \<Rightarrow> (real_target \<times> inspector_handle) option \<Rightarrow> daemon \<Rightarrow> daemon dio" where
  "adopt_inspector libs tun who inspector d = (case inspector of None \<Rightarrow> State_Monad.return d
   | Some (t, h) \<Rightarrow> audited libs ''retarget'' tun who (install_inspector tun (rt_normalized t) h d))"

text \<open>The node and its heartbeat are up: point the tunnel at them, enable it, and keep them.\<close>

definition bring_up :: "daemon_libs \<Rightarrow> str \<Rightarrow> str \<Rightarrow> tunnel_summary \<Rightarrow> (real_target \<times> inspector_handle) option \<Rightarrow> str \<Rightarrow> bool \<Rightarrow> daemon \<Rightarrow> tunnel_summary handled" where
  "bring_up libs tun who t inspector key rewire d =
     (let endpoint = (case inspector of Some (_, h) \<Rightarrow> ih_endpoint h | None \<Rightarrow> ts_target t) in
     dtry (point_tunnel key tun (ts_label t) endpoint rewire (inspector \<noteq> None) d) (\<lambda>_ d. do {
       d \<leftarrow> adopt_inspector libs tun who inspector d;
       dtry (call dr_summary (SetEnabled (Own key) tun True) d) (\<lambda>_ d.
       dtry (call dr_found (GetActive (Own key) tun) d) (\<lambda>current d. do {
         t0 \<leftarrow> now;
         d' \<leftarrow> audited libs ''start'' tun who (d\<lparr>da_running := AList.update tun \<lparr>ru_key = key, ru_started_at = t0\<rparr> (da_running d)\<rparr>);
         reply (found_or_404 tun current) d' })) }))"

text \<open>An agent that is not kept stops as it is dropped.\<close>

definition dropping_agent :: "str \<Rightarrow> str \<Rightarrow> 'a handled \<Rightarrow> 'a handled" where
  "dropping_agent tun key m = do { (r, d) \<leftarrow> m;
     if map_of (da_running d) tun = None then do { signal (StopHeartbeat key (da_project d)); reply r d } else reply r d }"

definition start_stopped :: "daemon_libs \<Rightarrow> str \<Rightarrow> str \<Rightarrow> tunnel_summary \<Rightarrow> real_target option \<Rightarrow> daemon \<Rightarrow> tunnel_summary handled" where
  "start_stopped libs tun who t repoint d =
     dtry (new_inspector repoint d) (\<lambda>inspector d.
     dtry (resolve_listen_key libs tun d) (\<lambda>(key, rewire) d.
     dtry (call dr_unit (NewNode key) d) (\<lambda>_ d.
     dtry (save_new_key libs tun key rewire d) (\<lambda>_ d. do {
       signal (StartHeartbeat key (da_project d));
       await_relay key;
       dropping_agent tun key (bring_up libs tun who t inspector key rewire d) }))))"

text \<open>A running tunnel is pointed at another target; it keeps its connector.\<close>

definition repoint_running :: "daemon_libs \<Rightarrow> str \<Rightarrow> str \<Rightarrow> running_tunnel \<Rightarrow> real_target \<Rightarrow> daemon \<Rightarrow> tunnel_summary handled" where
  "repoint_running libs tun who ru target d =
     dtry (spawn_inspector target None d) (\<lambda>h d.
     dtry (call dr_summary (RetargetActive (Own (ru_key ru)) tun (ih_endpoint h)) d) (\<lambda>updated d. do {
       d' \<leftarrow> audited libs ''retarget'' tun who (install_inspector tun (rt_normalized target) h d);
       reply (Inr updated) d' }))"

definition start_claimed :: "daemon_libs \<Rightarrow> str \<Rightarrow> str \<Rightarrow> real_target option \<Rightarrow> daemon \<Rightarrow> tunnel_summary handled" where
  "start_claimed libs tun who repoint d =
     dtry (call dr_found (GetActive Control tun) d) (\<lambda>found d. (case found of None \<Rightarrow> reply (Inl (not_found tun)) d
     | Some t \<Rightarrow> (case map_of (da_running d) tun of
         Some ru \<Rightarrow> (case repoint of None \<Rightarrow> reply (Inr t) d | Some target \<Rightarrow> repoint_running libs tun who ru target d)
       | None \<Rightarrow> start_stopped libs tun who t repoint d)))"

definition repoint_for :: "str \<Rightarrow> real_target option \<Rightarrow> daemon \<Rightarrow> real_target option" where
  "repoint_for tun target d = (case target of None \<Rightarrow> None
   | Some t \<Rightarrow> if needs_repoint (map_of (da_inspectors d) tun \<noteq> None) (load_inspector_target (the_dir d) tun (the_disk d)) (rt_normalized t)
       then Some t else None)"

definition start_tunnel_internal :: "daemon_libs \<Rightarrow> str \<Rightarrow> str \<Rightarrow> real_target option \<Rightarrow> daemon \<Rightarrow> tunnel_summary handled" where
  "start_tunnel_internal libs tun who target d = (let repoint = repoint_for tun target d in
     if repoint = None \<and> map_of (da_running d) tun \<noteq> None
     then dtry (call dr_found (GetActive Control tun) d) (\<lambda>t. reply (found_or_404 tun t))
     else while_busy tun (start_claimed libs tun who repoint) d)"

definition start_tunnel_with_body :: "daemon_libs \<Rightarrow> str \<Rightarrow> actor \<Rightarrow> str \<Rightarrow> daemon \<Rightarrow> tunnel_summary handled" where
  "start_tunnel_with_body libs tun who content d = (case parse_start_request libs content of
     Inl e \<Rightarrow> reply (Inl (bad_request e)) d
   | Inr None \<Rightarrow> start_tunnel_internal libs tun (audit_label who) None d
   | Inr (Some raw) \<Rightarrow>
       if who \<noteq> Setup then reply (Inl (Failure 403 (''setting a tunnel'' @ [CHR 0x27] @ ''s target needs the setup token''))) d
       else (case parse_real_target (dl_uri libs) raw of
           Inl e \<Rightarrow> reply (Inl (bad_request (''invalid target '' @ [CHR 0x27] @ raw @ [CHR 0x27] @ '': '' @ e))) d
         | Inr t \<Rightarrow> start_tunnel_internal libs tun (audit_label who) (Some t) d))"

section \<open>Stopping\<close>

datatype stop_reason = Manual | AutoExpired

fun audit_event_of :: "stop_reason \<Rightarrow> str" where
  "audit_event_of Manual = ''stop''" | "audit_event_of AutoExpired = ''auto_expired''"

definition stop_claimed :: "daemon_libs \<Rightarrow> str \<Rightarrow> stop_reason \<Rightarrow> str \<Rightarrow> daemon \<Rightarrow> tunnel_summary handled" where
  "stop_claimed libs tun why who d = (case take_running tun d of (running, d1) \<Rightarrow> do {
     r \<leftarrow> ask_as dr_summary (SetEnabled (case running of Some ru \<Rightarrow> Own (ru_key ru) | None \<Rightarrow> Control) tun False);
     stop_heartbeat running d1;
     (case r of Inl e \<Rightarrow> reply (Inl (err_response e)) d1
      | Inr t \<Rightarrow> do { d2 \<leftarrow> audited libs (audit_event_of why) tun who d1; reply (Inr t) d2 }) })"

definition stop_tunnel_internal :: "daemon_libs \<Rightarrow> str \<Rightarrow> stop_reason \<Rightarrow> str \<Rightarrow> daemon \<Rightarrow> tunnel_summary handled" where
  "stop_tunnel_internal libs tun why who = while_busy tun (stop_claimed libs tun why who)"

definition stop_tunnel :: "daemon_libs \<Rightarrow> str \<Rightarrow> actor \<Rightarrow> daemon \<Rightarrow> tunnel_summary handled" where
  "stop_tunnel libs tun who = stop_tunnel_internal libs tun Manual (audit_label who)"

text \<open>A round of the sweep: every tunnel on for longer than allowed is stopped; a failure is logged.\<close>

definition expired_now :: "nat \<Rightarrow> daemon \<Rightarrow> str list" where
  "expired_now t d = map fst (filter (\<lambda>(tun, ru). t - ru_started_at ru > da_max_runtime d) (da_running d))"

fun stop_each :: "daemon_libs \<Rightarrow> str list \<Rightarrow> daemon \<Rightarrow> daemon dio" where
  "stop_each libs [] d = State_Monad.return d"
| "stop_each libs (tun # tuns) d = do { (_, d') \<leftarrow> stop_tunnel_internal libs tun AutoExpired ''system'' d; stop_each libs tuns d' }"

definition sweep_round :: "daemon_libs \<Rightarrow> daemon \<Rightarrow> daemon dio" where
  "sweep_round libs d = do { t \<leftarrow> now; stop_each libs (expired_now t d) d }"

section \<open>The one tunnel of the add-on\<close>

record partition =
  pa_active :: "tunnel_summary option"
  pa_older :: "tunnel_summary list"

definition partition_step :: "str \<Rightarrow> (str \<Rightarrow> bool) \<Rightarrow> tunnel_summary \<Rightarrow> partition \<Rightarrow> partition" where
  "partition_step label is_local1 t out = (if pa_active out = None \<and> ts_label t = label then out\<lparr>pa_active := Some t\<rparr>
     else if is_local1 (ts_id t) then out\<lparr>pa_older := pa_older out @ [t]\<rparr> else out)"

definition partition_tunnels :: "tunnel_summary list \<Rightarrow> str \<Rightarrow> (str \<Rightarrow> bool) \<Rightarrow> partition" where
  "partition_tunnels ts label is_local1 = fold (partition_step label is_local1) ts \<lparr>pa_active = None, pa_older = []\<rparr>"

definition path_safe :: "str \<Rightarrow> bool" where
  "path_safe tun \<longleftrightarrow> tun \<noteq> [] \<and> list_all (\<lambda>c. is_alnum c \<or> c = CHR ''-'' \<or> c = CHR ''.'') tun \<and> \<not> starts_with ''.'' tun"

definition is_locally_known :: "path \<Rightarrow> str \<Rightarrow> str \<Rightarrow> disk \<Rightarrow> bool" where
  "is_locally_known dir project tun d \<longleftrightarrow> path_safe tun \<and>
     (file_there d (inspector_target_path dir tun) \<or> file_there d (join (join (join dir project) tun) LISTEN_KEY_FILE))"

definition first_hostname :: "tunnel_summary \<Rightarrow> str" where
  "first_hostname t = (case ts_hostnames t of h # _ \<Rightarrow> h | [] \<Rightarrow> ''no address'')"

definition stopped_line :: "tunnel_summary \<Rightarrow> str" where
  "stopped_line t = ''Stopped older tunnel '' @ [CHR 0x27] @ ts_label t @ [CHR 0x27] @ '' ('' @ ts_id t @ '', '' @ first_hostname t @
     ''); remove it from the Datum Connect page.''"

definition already_off_line :: "tunnel_summary \<Rightarrow> str" where
  "already_off_line t = ''Older tunnel '' @ [CHR 0x27] @ ts_label t @ [CHR 0x27] @ '' ('' @ ts_id t @ '', '' @ first_hostname t @
     '') is off; remove it from the Datum Connect page.''"

section \<open>Reconciliation at the start\<close>

text \<open>The older tunnels, when the add-on owns one.\<close>

definition older_ids :: "tunnel_summary list \<Rightarrow> daemon \<Rightarrow> str set" where
  "older_ids ts d = (case da_exclusive d of None \<Rightarrow> {}
   | Some label \<Rightarrow> ts_id ` set (pa_older (partition_tunnels ts label (\<lambda>tun. is_locally_known (the_dir d) (da_project d) tun (the_disk d)))))"

fun stop_older :: "daemon_libs \<Rightarrow> tunnel_summary list \<Rightarrow> daemon \<Rightarrow> daemon dio" where
  "stop_older libs [] d = State_Monad.return d"
| "stop_older libs (t # ts) d = (if \<not> ts_enabled t then stop_older libs ts d
     else do { (_, d') \<leftarrow> stop_tunnel_internal libs (ts_id t) Manual ''system'' d; stop_older libs ts d' })"

text \<open>An inspector for the tunnel's target again, at the port it had if that can be had; the tunnel is resumed if it was on.\<close>

definition resume_if :: "daemon_libs \<Rightarrow> tunnel_summary \<Rightarrow> daemon \<Rightarrow> daemon dio" where
  "resume_if libs t d = (if ts_enabled t then do { (_, d') \<leftarrow> start_tunnel_internal libs (ts_id t) ''system'' None d; State_Monad.return d' }
     else State_Monad.return d)"

definition reconcile_at :: "daemon_libs \<Rightarrow> tunnel_summary \<Rightarrow> real_target \<Rightarrow> daemon \<Rightarrow> daemon dio" where
  "reconcile_at libs t target d = do {
     (spawned, d) \<leftarrow> spawn_inspector target (inspector_port (dl_uri libs) (ts_target t)) d;
     (case spawned of Inl _ \<Rightarrow> State_Monad.return d
      | Inr h \<Rightarrow> do {
          r \<leftarrow> (if ih_endpoint h = trim_end_char (CHR ''/'') (ts_target t) then State_Monad.return (Inr ())
               else do { x \<leftarrow> ask_as dr_summary (RetargetActive Control (ts_id t) (ih_endpoint h)); State_Monad.return (map_sum id (\<lambda>_. ()) x) });
          (case r of Inl _ \<Rightarrow> State_Monad.return d
           | Inr _ \<Rightarrow> resume_if libs t (install_inspector (ts_id t) (rt_normalized target) h d)) }) }"

definition reconcile_one :: "daemon_libs \<Rightarrow> tunnel_summary \<Rightarrow> daemon \<Rightarrow> daemon dio" where
  "reconcile_one libs t d = (case load_inspector_target (the_dir d) (ts_id t) (the_disk d) of None \<Rightarrow> State_Monad.return d
   | Some raw \<Rightarrow> (case parse_real_target (dl_uri libs) raw of Inl _ \<Rightarrow> State_Monad.return d
       | Inr target \<Rightarrow> reconcile_at libs t target d))"

fun reconcile_each :: "daemon_libs \<Rightarrow> tunnel_summary list \<Rightarrow> daemon \<Rightarrow> daemon dio" where
  "reconcile_each libs [] d = State_Monad.return d"
| "reconcile_each libs (t # ts) d = do { d' \<leftarrow> reconcile_one libs t d; reconcile_each libs ts d' }"

definition reconcile :: "daemon_libs \<Rightarrow> daemon \<Rightarrow> daemon dio" where
  "reconcile libs d = do {
     r \<leftarrow> ask_as dr_summaries ListActive;
     (case r of Inl _ \<Rightarrow> State_Monad.return d
      | Inr ts \<Rightarrow> (let older = older_ids ts d in do {
          d' \<leftarrow> stop_older libs (filter (\<lambda>t. ts_id t \<in> older) ts) d;
          reconcile_each libs (filter (\<lambda>t. ts_id t \<notin> older) ts) d' })) }"

section \<open>What the start settles\<close>

text \<open>\<open>raw\<close> is the exemptions' text; blank means none; a text that does not parse ends the start.\<close>

definition exempt_matches :: "(str \<Rightarrow> str + 'm list) \<Rightarrow> str option \<Rightarrow> str + 'm list" where
  "exempt_matches parse raw = (case raw of
     Some r \<Rightarrow> if trim r \<noteq> [] then (case parse r of Inl e \<Rightarrow> Inl (''invalid DATUM_TUNNEL_WAF_EXEMPT_MATCHES: '' @ e) | Inr ms \<Rightarrow> Inr ms) else Inr []
   | None \<Rightarrow> Inr [])"

text \<open>Hours in milliseconds, the seconds saturating at 64 bits.\<close>

definition max_runtime :: "nat \<Rightarrow> nat" where
  "max_runtime hours = 1000 * min (2 ^ 64 - 1) (hours * 3600)"

definition exclusive_label :: "str option \<Rightarrow> str option" where
  "exclusive_label l = (case l of Some x \<Rightarrow> if trim x = [] then None else Some x | None \<Rightarrow> None)"

definition start_daemon :: "app_state \<Rightarrow> path \<Rightarrow> str \<Rightarrow> nat \<Rightarrow> str option \<Rightarrow> daemon" where
  "start_daemon auth repo project hours label = \<lparr>da_auth = auth, da_repo = repo, da_project = project, da_running = [], da_busy = {},
     da_inspectors = [], da_max_runtime = max_runtime hours, da_exclusive = exclusive_label label\<rparr>"

end
