(* ===== verification/Daemon_Facts.thy ===== *)
theory Daemon_Facts
  imports Daemon Auth_Facts "HOL-Library.Multiset"
begin

text \<open>
  What a run of the daemon keeps: the heartbeats that run are those of the running tunnels. The lemmas follow the handlers from the inside out; a daemon and a service to evaluate them on close the theory.
\<close>

section \<open>Heartbeats that run\<close>

text \<open>The agents started and not stopped, by key.\<close>

definition beat :: "(daemon_request, daemon_reply) event \<Rightarrow> str multiset \<Rightarrow> str multiset" where
  "beat e m = (case request e of StartHeartbeat k _ \<Rightarrow> add_mset k m | StopHeartbeat k _ \<Rightarrow> m - {#k#} | _ \<Rightarrow> m)"

definition live_agents :: "(daemon_request, daemon_reply) event list \<Rightarrow> str multiset" where
  "live_agents es = fold beat es {#}"

lemma live_agents_snoc [simp]: "live_agents (es @ [e]) = beat e (live_agents es)"
  by (simp add: live_agents_def)

definition keys_of :: "daemon \<Rightarrow> str multiset" where
  "keys_of d = mset (map (ru_key \<circ> snd) (da_running d))"

definition one_run_each :: "daemon \<Rightarrow> bool" where
  "one_run_each d \<longleftrightarrow> distinct (map fst (da_running d))"

text \<open>A step that leaves the running tunnels, the claims and the agents alone.\<close>

definition same_runs :: "daemon \<Rightarrow> daemon \<Rightarrow> bool" where
  "same_runs d d' \<longleftrightarrow> da_running d' = da_running d \<and> da_busy d' = da_busy d \<and> da_project d' = da_project d"

definition calm :: "daemon \<Rightarrow> ('r \<times> daemon) dio \<Rightarrow> bool" where
  "calm d m \<longleftrightarrow> (\<forall>w r d' w'. run_state m w = ((r, d'), w') \<longrightarrow> same_runs d d' \<and> live_agents (trace w') = live_agents (trace w))"

definition silent :: "daemon_request \<Rightarrow> bool" where
  "silent q \<longleftrightarrow> (\<forall>e. request e = q \<longrightarrow> beat e = id)"

lemma silent_simps [simp]: "silent ListActive" "silent (GetActive s t)" "silent (ActiveProgress t)" "silent (CreateActive l e)" "silent (DeleteActive t)"
    "silent (UpdateActive s t l e)" "silent (RetargetActive s t e)" "silent (SetEnabled s t b)" "silent (CleanupOrphaned s)"
    "silent (SpawnInspector u p)" "silent GenerateKey" "silent (NewNode k)" "silent (HasRelay k)"
  by (auto simp: silent_def beat_def)

lemma silent_beat: "silent q \<Longrightarrow> beat (Event t q r) m = m"
  by (auto simp: silent_def)

lemma same_refl [simp]: "same_runs d d"
  by (simp add: same_runs_def)

lemma same_trans: "same_runs d d1 \<Longrightarrow> same_runs d1 d2 \<Longrightarrow> same_runs d d2"
  by (simp add: same_runs_def)

lemma same_disk [simp]: "same_runs d (with_disk d1 dk) \<longleftrightarrow> same_runs d d1"
  by (simp add: same_runs_def with_disk_def)

lemma same_inspectors [simp]: "same_runs d (d1\<lparr>da_inspectors := x\<rparr>) \<longleftrightarrow> same_runs d d1"
  by (simp add: same_runs_def)

lemma same_install [simp]: "same_runs d (install_inspector tun t h d1) \<longleftrightarrow> same_runs d d1"
  by (simp add: install_inspector_def)

lemma same_install_left [simp]: "same_runs (install_inspector tun t h d) d1 \<longleftrightarrow> same_runs d d1"
  by (simp add: install_inspector_def same_runs_def with_disk_def)

lemma calm_reply: "same_runs d d' \<Longrightarrow> calm d (reply r d')"
  by (simp add: calm_def reply_def)

lemma calm_return: "same_runs d d' \<Longrightarrow> calm d (State_Monad.return (r, d'))"
  by (simp add: calm_def)

lemma calm_other: "calm d' m \<Longrightarrow> same_runs d d' \<Longrightarrow> calm d m"
  unfolding calm_def by (meson same_trans)

lemma calm_bind: "calm d m \<Longrightarrow> (\<And>a d1. calm d1 (f (a, d1))) \<Longrightarrow> calm d (State_Monad.bind m f)"
  unfolding calm_def by (fastforce split: prod.splits intro: same_trans)

lemma calm_dtry: "calm d m \<Longrightarrow> (\<And>a d1. calm d1 (f a d1)) \<Longrightarrow> calm d (dtry m f)"
  unfolding dtry_def by (rule calm_bind) (auto split: sum.split intro: calm_reply)

lemma calm_ask: "silent q \<Longrightarrow> (\<And>r. calm d (f r)) \<Longrightarrow> calm d (State_Monad.bind (ask_as as1 q) f)"
  unfolding calm_def by (fastforce simp: ask_as_def ask_def Let_def silent_beat split: prod.splits)

lemma calm_call: "silent q \<Longrightarrow> calm d (call as1 q d)"
  unfolding call_def by (rule calm_ask) (auto split: sum.split intro: calm_reply)

lemma calm_audited:
  assumes "same_runs d d1" "\<And>d2. same_runs d1 d2 \<Longrightarrow> calm d2 (f d2)" shows "calm d (State_Monad.bind (audited libs ev tun who d1) f)"
  unfolding calm_def
proof (intro allI impI)
  fix w r d' w' assume r: "run_state (State_Monad.bind (audited libs ev tun who d1) f) w = ((r, d'), w')"
  obtain d2 where d2: "run_state (audited libs ev tun who d1) w = (d2, w)" "same_runs d1 d2" by (auto simp: audited_def)
  with r have "run_state (f d2) w = ((r, d'), w')" by simp
  with assms(2) [OF d2(2)] have "same_runs d2 d'" "live_agents (trace w') = live_agents (trace w)" by (auto simp: calm_def)
  with assms(1) d2(2) show "same_runs d d' \<and> live_agents (trace w') = live_agents (trace w)" by (blast intro: same_trans)
qed

lemmas calm_rules = calm_dtry calm_call calm_reply calm_return

lemma calm_spawn: "calm d (spawn_inspector t p d)"
  unfolding spawn_inspector_def by (intro calm_rules) auto

lemma calm_found: "calm d (dtry (call dr_found (GetActive s tun) d) (\<lambda>t d. reply (f t d) d))"
  by (intro calm_rules) auto

lemma calm_create: "calm d (create_tunnel libs label endpoint d)"
  unfolding create_tunnel_def by (auto split: sum.split intro!: calm_rules calm_spawn calm_audited)

lemma calm_note: "calm d (set_tunnel_note libs tun n d)"
  unfolding set_tunnel_note_def by (auto split: sum.split prod.split intro!: calm_rules)

lemma calm_new_inspector: "calm d (new_inspector repoint d)"
  unfolding new_inspector_def by (auto split: option.split intro!: calm_rules calm_spawn)

lemma calm_resolve: "calm d (resolve_listen_key libs tun d)"
  unfolding resolve_listen_key_def by (auto split: sum.split prod.split repo_error.split intro!: calm_rules calm_ask)

lemma calm_save_key: "calm d (save_new_key libs tun key rewire d)"
  unfolding save_new_key_def by (auto split: sum.split prod.split intro!: calm_rules)

lemma calm_repoint: "calm d (repoint_running libs tun who ru target d)"
  unfolding repoint_running_def by (auto intro!: calm_rules calm_spawn calm_audited)

lemma calm_point: "calm d (point_tunnel key tun label endpoint rewire repointed d)"
proof -
  have "calm d1 (State_Monad.bind (ask (CleanupOrphaned (Own key))) (\<lambda>_. reply (Inr ()) d1))" for d1
    by (auto simp: calm_def reply_def ask_def Let_def silent_beat split: prod.splits)
  then show ?thesis unfolding point_tunnel_def by (auto intro!: calm_rules)
qed

lemma calm_adopt: "calm d (State_Monad.bind (adopt_inspector libs tun who i d) f)" if "\<And>d2. same_runs d d2 \<Longrightarrow> calm d2 (f d2)"
proof (cases i)
  case None
  with that [of d] show ?thesis by (simp add: adopt_inspector_def)
next
  case (Some th)
  obtain t h where "th = (t, h)" by (cases th)
  with Some that show ?thesis by (auto simp: adopt_inspector_def intro!: calm_audited)
qed

text \<open>A handler whose last step may keep an agent.\<close>

definition becomes :: "('r \<Rightarrow> daemon \<Rightarrow> bool) \<Rightarrow> ('r \<times> daemon) dio \<Rightarrow> bool" where
  "becomes R m \<longleftrightarrow> (\<forall>w r d' w'. run_state m w = ((r, d'), w') \<longrightarrow> R r d' \<and> live_agents (trace w') = live_agents (trace w))"

lemma calm_becomes: "calm d m \<Longrightarrow> (\<And>r d'. same_runs d d' \<Longrightarrow> R r d') \<Longrightarrow> becomes R m"
  by (fastforce simp: calm_def becomes_def)

lemma becomes_bind:
  "calm d m \<Longrightarrow> (\<And>a d1. same_runs d d1 \<Longrightarrow> becomes R (f (a, d1))) \<Longrightarrow> becomes R (State_Monad.bind m f)"
  unfolding calm_def becomes_def by (fastforce split: prod.splits)

lemma becomes_dtry:
  "calm d m \<Longrightarrow> (\<And>e d1. same_runs d d1 \<Longrightarrow> R (Inl e) d1) \<Longrightarrow> (\<And>a d1. same_runs d d1 \<Longrightarrow> becomes R (f a d1)) \<Longrightarrow> becomes R (dtry m f)"
  unfolding dtry_def by (rule becomes_bind, assumption) (auto split: sum.split simp: becomes_def reply_def)

lemma becomes_adopt:
  assumes "\<And>d2. same_runs d d2 \<Longrightarrow> becomes R (f d2)" shows "becomes R (State_Monad.bind (adopt_inspector libs tun who i d) f)"
  unfolding becomes_def
proof (intro allI impI)
  fix w r d' w' assume r: "run_state (State_Monad.bind (adopt_inspector libs tun who i d) f) w = ((r, d'), w')"
  obtain d2 where d2: "run_state (adopt_inspector libs tun who i d) w = (d2, w)" "same_runs d d2"
    by (cases i) (auto simp: adopt_inspector_def audited_def split: prod.split)
  with r have "run_state (f d2) w = ((r, d'), w')" by simp
  with assms [OF d2(2)] show "R r d' \<and> live_agents (trace w') = live_agents (trace w)" by (auto simp: becomes_def)
qed

text \<open>Brought up, the tunnel runs with the agent's key; otherwise nothing changed, and there was an error.\<close>

definition up_or_same :: "str \<Rightarrow> str \<Rightarrow> daemon \<Rightarrow> http_failure + tunnel_summary \<Rightarrow> daemon \<Rightarrow> bool" where
  "up_or_same tun key d r d' \<longleftrightarrow> same_runs d d' \<and> (\<exists>e. r = Inl e) \<or>
     (\<exists>t0. same_runs (d\<lparr>da_running := AList.update tun \<lparr>ru_key = key, ru_started_at = t0\<rparr> (da_running d)\<rparr>) d')"

lemma up_or_same_cong: "same_runs d d1 \<Longrightarrow> up_or_same tun key d1 r d' \<Longrightarrow> up_or_same tun key d r d'"
  by (auto simp: up_or_same_def same_runs_def)

lemma bring_up_last: "becomes (up_or_same tun key d) (do {
     t0 \<leftarrow> now;
     d' \<leftarrow> audited libs ev tun who (d\<lparr>da_running := AList.update tun \<lparr>ru_key = key, ru_started_at = t0\<rparr> (da_running d)\<rparr>);
     reply r d' })"
  by (auto simp: becomes_def audited_def reply_def up_or_same_def same_runs_def with_disk_def)

lemma becomes_cong: "(\<And>r d'. R r d' \<Longrightarrow> R' r d') \<Longrightarrow> becomes R m \<Longrightarrow> becomes R' m"
  by (fastforce simp: becomes_def)

lemma bring_up_becomes: "becomes (up_or_same tun key d) (bring_up libs tun who t i key rewire d)"
  unfolding bring_up_def Let_def
  apply (rule becomes_dtry [OF calm_point])
   apply (simp add: up_or_same_def)
  apply (rule becomes_adopt)
  apply (rule becomes_dtry [OF calm_call], simp)
   apply (auto simp: up_or_same_def intro: same_trans)[1]
  apply (rule becomes_dtry [OF calm_call], simp)
   apply (auto simp: up_or_same_def intro: same_trans)[1]
  apply (rule becomes_cong [OF _ bring_up_last])
  apply (erule up_or_same_cong [rotated])
  apply (blast intro: same_trans)
  done

section \<open>The invariant\<close>

text \<open>Each running tunnel has its agent, and there are no others; \<open>extra\<close> are agents a handler still holds.\<close>

definition kept :: "str multiset \<Rightarrow> daemon \<Rightarrow> (daemon_request, daemon_reply) world \<Rightarrow> bool" where
  "kept extra d w \<longleftrightarrow> live_agents (trace w) = extra + keys_of d \<and> one_run_each d"

text \<open>A handler that keeps the invariant and the claims.\<close>

definition keeps :: "daemon \<Rightarrow> ('r \<times> daemon) dio \<Rightarrow> bool" where
  "keeps d m \<longleftrightarrow> (\<forall>w r d' w'. kept {#} d w \<longrightarrow> run_state m w = ((r, d'), w') \<longrightarrow> kept {#} d' w' \<and> da_busy d' = da_busy d)"

lemma kept_same: "kept x d w \<Longrightarrow> same_runs d d' \<Longrightarrow> live_agents (trace w') = live_agents (trace w) \<Longrightarrow> kept x d' w'"
  by (simp add: kept_def same_runs_def keys_of_def one_run_each_def)

lemma calm_keeps: "calm d m \<Longrightarrow> keeps d m"
  unfolding calm_def keeps_def by (metis kept_same same_runs_def)

lemma keys_update: "map_of (da_running d) tun = None \<Longrightarrow>
    keys_of (d\<lparr>da_running := AList.update tun ru (da_running d)\<rparr>) = add_mset (ru_key ru) (keys_of d)"
proof -
  have "map_of xs tun = None \<Longrightarrow> AList.update tun ru xs = xs @ [(tun, ru)]" for xs :: "(str \<times> running_tunnel) list"
    by (induction xs) (auto split: if_splits)
  then show "map_of (da_running d) tun = None \<Longrightarrow> ?thesis" by (simp add: keys_of_def)
qed

lemma delete_absent: "map_of xs tun = None \<Longrightarrow> AList.delete tun xs = xs"
  by (induction xs) (auto split: if_splits)

lemma keys_delete: "distinct (map fst xs) \<Longrightarrow> map_of xs tun = Some ru \<Longrightarrow>
    mset (map (ru_key \<circ> snd) xs) = add_mset (ru_key ru) (mset (map (ru_key \<circ> snd) (AList.delete tun xs)))"
proof (induction xs)
  case (Cons x xs)
  show ?case
  proof (cases "fst x = tun")
    case True
    with Cons.prems have "map_of xs tun = None" by (auto simp: map_of_eq_None_iff image_iff)
    with True Cons.prems show ?thesis by (cases x) (simp add: delete_absent)
  next
    case False
    with Cons show ?thesis by (cases x) auto
  qed
qed simp

lemma live_silent: "\<forall>e \<in> set es. silent (request e) \<Longrightarrow> live_agents (us @ es) = live_agents us"
proof (induction es rule: rev_induct)
  case (snoc e es)
  then have "beat e = id" by (auto simp: silent_def)
  with snoc show ?case by (simp flip: append_assoc)
qed simp

lemma await_live: "run_state (await_relay key) w = (u, w') \<Longrightarrow> live_agents (trace w') = live_agents (trace w)"
proof -
  have a: "asks_only silent (await_relay key)"
    unfolding await_relay_def by (auto intro!: asks_intros)
  assume "run_state (await_relay key) w = (u, w')"
  from asks_onlyD [OF a this] obtain es where "trace w' = trace w @ es" "\<forall>e \<in> set es. silent (request e)" by blast
  then show ?thesis by (simp add: live_silent)
qed

lemma keeps_dtry: "calm d m \<Longrightarrow> (\<And>a d1. same_runs d d1 \<Longrightarrow> keeps d1 (f a d1)) \<Longrightarrow> keeps d (dtry m f)"
  unfolding keeps_def
proof (intro allI impI)
  fix w r d' w'
  assume c: "calm d m" and f: "\<And>a d1. same_runs d d1 \<Longrightarrow> \<forall>w r d' w'. kept {#} d1 w \<longrightarrow> run_state (f a d1) w = ((r, d'), w') \<longrightarrow> kept {#} d' w' \<and> da_busy d' = da_busy d1"
    and k: "kept {#} d w" and r: "run_state (dtry m f) w = ((r, d'), w')"
  obtain x d1 w1 where m: "run_state m w = ((x, d1), w1)" by (metis surj_pair)
  with c have s: "same_runs d d1" "live_agents (trace w1) = live_agents (trace w)" by (auto simp: calm_def)
  with k have k1: "kept {#} d1 w1" by (blast intro: kept_same)
  show "kept {#} d' w' \<and> da_busy d' = da_busy d"
  proof (cases x)
    case (Inl e)
    with m r have "d' = d1" "w' = w1" by (auto simp: dtry_def reply_def)
    with k1 s show ?thesis by (simp add: same_runs_def)
  next
    case (Inr a)
    with m r have "run_state (f a d1) w1 = ((r, d'), w')" by (auto simp: dtry_def)
    with f [OF s(1), rule_format, OF k1] have "kept {#} d' w' \<and> da_busy d' = da_busy d1" by blast
    with s show ?thesis by (simp add: same_runs_def)
  qed
qed

lemma same_keys: "same_runs d d' \<Longrightarrow> keys_of d' = keys_of d \<and> one_run_each d' = one_run_each d"
  by (simp add: same_runs_def keys_of_def one_run_each_def)

lemma tail_keeps:
  assumes "map_of (da_running d) tun = None"
  shows "keeps d (do { signal (StartHeartbeat key (da_project d)); await_relay key;
     dropping_agent tun key (bring_up libs tun who t i key rewire d) })"
  unfolding keeps_def
proof (intro allI impI)
  fix w r d' w'
  assume k: "kept {#} d w" and r: "run_state (do { signal (StartHeartbeat key (da_project d)); await_relay key;
     dropping_agent tun key (bring_up libs tun who t i key rewire d) }) w = ((r, d'), w')"
  let ?w1 = "w\<lparr>trace := trace w @ [Event (clock w) (StartHeartbeat key (da_project d)) None]\<rparr>"
  obtain u w2 where w2: "run_state (await_relay key) ?w1 = (u, w2)" by (metis surj_pair)
  obtain x d3 w3 where w3: "run_state (bring_up libs tun who t i key rewire d) w2 = ((x, d3), w3)" by (metis surj_pair)
  have l: "live_agents (trace w3) = add_mset key (live_agents (trace w))"
    using await_live [OF w2] bring_up_becomes [of tun key d libs who t i rewire] w3 by (auto simp: becomes_def beat_def)
  from bring_up_becomes [of tun key d libs who t i rewire] w3 have u: "up_or_same tun key d x d3" by (auto simp: becomes_def)
  from r w2 w3 have fin: "d' = d3 \<and> w' = (if map_of (da_running d3) tun = None
      then w3\<lparr>trace := trace w3 @ [Event (clock w3) (StopHeartbeat key (da_project d3)) None]\<rparr> else w3)"
    by (auto simp: dropping_agent_def reply_def split: if_splits)
  from u show "kept {#} d' w' \<and> da_busy d' = da_busy d"
    unfolding up_or_same_def
  proof (elim disjE conjE exE)
    fix e assume s: "same_runs d d3"
    with assms have "map_of (da_running d3) tun = None" by (simp add: same_runs_def)
    with fin l k s same_keys [OF s] show ?thesis by (simp add: kept_def beat_def same_runs_def)
  next
    fix t0 assume s: "same_runs (d\<lparr>da_running := AList.update tun \<lparr>ru_key = key, ru_started_at = t0\<rparr> (da_running d)\<rparr>) d3"
    then have m: "map_of (da_running d3) tun \<noteq> None" by (simp add: same_runs_def update_conv')
    have "keys_of d3 = add_mset key (keys_of d)" using same_keys [OF s] keys_update [OF assms] by simp
    moreover have "one_run_each d3" using same_keys [OF s] k by (simp add: kept_def one_run_each_def distinct_update)
    ultimately show ?thesis using fin l k m s by (auto simp: kept_def same_runs_def)
  qed
qed

lemma start_stopped_keeps: "map_of (da_running d) tun = None \<Longrightarrow> keeps d (start_stopped libs tun who t repoint d)"
  unfolding start_stopped_def
  by (intro keeps_dtry calm_new_inspector)
    (auto intro!: keeps_dtry calm_resolve calm_call calm_save_key tail_keeps simp: same_runs_def split: prod.split)

lemma start_claimed_keeps: "keeps d (start_claimed libs tun who repoint d)"
  unfolding start_claimed_def
  by (rule keeps_dtry [OF calm_call])
    (auto split: option.split intro: calm_keeps [OF calm_reply] calm_keeps [OF calm_repoint] start_stopped_keeps)

lemma busy_keeps:
  assumes "\<And>d1. keeps d1 (f d1)" shows "keeps d (while_busy tun f d)"
  unfolding keeps_def
proof (intro allI impI)
  fix w r d' w' assume k: "kept {#} d w" and r: "run_state (while_busy tun f d) w = ((r, d'), w')"
  show "kept {#} d' w' \<and> da_busy d' = da_busy d"
  proof (cases "tun \<in> da_busy d")
    case True
    with k r show ?thesis by (auto simp: while_busy_def claim_busy_def reply_def)
  next
    case False
    let ?d1 = "d\<lparr>da_busy := insert tun (da_busy d)\<rparr>"
    obtain x d2 w2 where f: "run_state (f ?d1) w = ((x, d2), w2)" by (metis surj_pair)
    have "kept {#} ?d1 w" using k by (simp add: kept_def keys_of_def one_run_each_def)
    with assms [of ?d1, unfolded keeps_def, rule_format, OF _ f] have "kept {#} d2 w2" "da_busy d2 = insert tun (da_busy d)" by simp_all
    moreover from r f False have "d' = release_busy tun d2" "w' = w2" by (auto simp: while_busy_def claim_busy_def reply_def)
    ultimately show ?thesis using False by (auto simp: release_busy_def kept_def keys_of_def one_run_each_def)
  qed
qed

lemma start_keeps: "keeps d (start_tunnel_internal libs tun who target d)"
  unfolding start_tunnel_internal_def Let_def
  by (auto intro!: busy_keeps start_claimed_keeps calm_keeps [OF calm_found])

lemma start_body_keeps: "keeps d (start_tunnel_with_body libs tun who content d)"
  unfolding start_tunnel_with_body_def
  by (auto split: sum.split option.split intro!: start_keeps calm_keeps [OF calm_reply])

text \<open>Taking a tunnel out of the running ones, with its agent.\<close>

lemma take_kept:
  assumes "kept {#} d w" "take_running tun d = (ru, d1)" "run_state (stop_heartbeat ru d1) w1 = (u, w2)" "live_agents (trace w1) = live_agents (trace w)"
  shows "kept {#} d1 w2 \<and> da_busy d1 = da_busy d"
proof (cases ru)
  case None
  with assms show ?thesis by (auto simp: take_running_def stop_heartbeat_def kept_def keys_of_def one_run_each_def delete_absent)
next
  case (Some x)
  with assms(1,2) have "map_of (da_running d) tun = Some x" "distinct (map fst (da_running d))"
      "da_running d1 = AList.delete tun (da_running d)"
    by (auto simp: take_running_def kept_def one_run_each_def)
  then have "keys_of d = add_mset (ru_key x) (keys_of d1)"
    using keys_delete [of "da_running d" tun x] by (simp add: keys_of_def)
  with Some assms show ?thesis
    by (auto simp: take_running_def stop_heartbeat_def kept_def beat_def one_run_each_def distinct_delete)
qed

lemma stop_claimed_keeps: "keeps d (stop_claimed libs tun why who d)"
  unfolding keeps_def
proof (intro allI impI)
  fix w r d' w' assume k: "kept {#} d w" and r: "run_state (stop_claimed libs tun why who d) w = ((r, d'), w')"
  obtain ru d1 where t: "take_running tun d = (ru, d1)" by fastforce
  let ?q = "SetEnabled (case ru of Some x \<Rightarrow> Own (ru_key x) | None \<Rightarrow> Control) tun False"
  obtain a w1 where a: "run_state (ask_as dr_summary ?q) w = (a, w1)" by fastforce
  then have l: "live_agents (trace w1) = live_agents (trace w)"
    by (auto simp: ask_as_def ask_def Let_def silent_beat split: prod.splits)
  obtain u w2 where u: "run_state (stop_heartbeat ru d1) w1 = (u, w2)" by (metis surj_pair)
  have k1: "kept {#} d1 w2 \<and> da_busy d1 = da_busy d" using take_kept [OF k t u l] .
  from r t a u have "same_runs d1 d' \<and> w' = w2"
    by (auto simp: stop_claimed_def reply_def audited_def same_runs_def with_disk_def split: sum.splits)
  with k1 show "kept {#} d' w' \<and> da_busy d' = da_busy d" by (auto simp: same_runs_def intro: kept_same)
qed

lemma stop_keeps: "keeps d (stop_tunnel_internal libs tun why who d)"
  unfolding stop_tunnel_internal_def by (rule busy_keeps) (rule stop_claimed_keeps)

lemma same_forget [simp]: "same_runs d (forget_tunnel tun d)"
  by (simp add: forget_tunnel_def Let_def)

lemma delete_keeps: "keeps d (delete_tunnel_internal libs tun who d)"
  unfolding delete_tunnel_internal_def
proof (rule keeps_dtry [OF calm_call])
  fix outcome d0
  show "keeps d0 (case take_running tun d0 of (r, d1) \<Rightarrow> do {
       stop_heartbeat r d1; d2 \<leftarrow> audited libs ''delete'' tun who (forget_tunnel tun d1); reply (Inr outcome) d2 })"
    unfolding keeps_def
  proof (intro allI impI)
    fix w r d' w' assume k: "kept {#} d0 w" and r: "run_state (case take_running tun d0 of (r, d1) \<Rightarrow> do {
       stop_heartbeat r d1; d2 \<leftarrow> audited libs ''delete'' tun who (forget_tunnel tun d1); reply (Inr outcome) d2 }) w = ((r, d'), w')"
    obtain ru d1 where t: "take_running tun d0 = (ru, d1)" by fastforce
    obtain u w2 where u: "run_state (stop_heartbeat ru d1) w = (u, w2)" by (metis surj_pair)
    have k1: "kept {#} d1 w2 \<and> da_busy d1 = da_busy d0" using take_kept [OF k t u refl] .
    from r t u have "same_runs (forget_tunnel tun d1) d' \<and> w' = w2"
      by (auto simp: reply_def audited_def same_runs_def with_disk_def)
    then have "same_runs d1 d' \<and> w' = w2" using same_trans [OF same_forget] by blast
    with k1 show "kept {#} d' w' \<and> da_busy d' = da_busy d0" by (auto simp: same_runs_def intro: kept_same)
  qed
qed simp

text \<open>The same for the daemon alone.\<close>

definition keeps_on :: "daemon \<Rightarrow> daemon dio \<Rightarrow> bool" where
  "keeps_on d m \<longleftrightarrow> (\<forall>w d' w'. kept {#} d w \<longrightarrow> run_state m w = (d', w') \<longrightarrow> kept {#} d' w' \<and> da_busy d' = da_busy d)"

lemma keeps_then: "keeps d m \<Longrightarrow> (\<And>r d1. keeps_on d1 (f (r, d1))) \<Longrightarrow> keeps_on d (State_Monad.bind m f)"
  unfolding keeps_def keeps_on_def
proof (intro allI impI)
  fix w d' w' assume m: "\<forall>w r d' w'. kept {#} d w \<longrightarrow> run_state m w = ((r, d'), w') \<longrightarrow> kept {#} d' w' \<and> da_busy d' = da_busy d"
    and f: "\<And>r d1. \<forall>w d' w'. kept {#} d1 w \<longrightarrow> run_state (f (r, d1)) w = (d', w') \<longrightarrow> kept {#} d' w' \<and> da_busy d' = da_busy d1"
    and k: "kept {#} d w" and r: "run_state (State_Monad.bind m f) w = (d', w')"
  obtain a d1 w1 where 1: "run_state m w = ((a, d1), w1)" by (metis surj_pair)
  with m k have 2: "kept {#} d1 w1" "da_busy d1 = da_busy d" by blast+
  from r 1 have "run_state (f (a, d1)) w1 = (d', w')" by simp
  with f 2 show "kept {#} d' w' \<and> da_busy d' = da_busy d" by metis
qed

lemma keeps_on_bind: "keeps_on d m \<Longrightarrow> (\<And>d1. keeps_on d1 (f d1)) \<Longrightarrow> keeps_on d (State_Monad.bind m f)"
  unfolding keeps_on_def
proof (intro allI impI)
  fix w d' w' assume m: "\<forall>w d' w'. kept {#} d w \<longrightarrow> run_state m w = (d', w') \<longrightarrow> kept {#} d' w' \<and> da_busy d' = da_busy d"
    and f: "\<And>d1. \<forall>w d' w'. kept {#} d1 w \<longrightarrow> run_state (f d1) w = (d', w') \<longrightarrow> kept {#} d' w' \<and> da_busy d' = da_busy d1"
    and k: "kept {#} d w" and r: "run_state (State_Monad.bind m f) w = (d', w')"
  obtain d1 w1 where 1: "run_state m w = (d1, w1)" by (metis surj_pair)
  with m k have 2: "kept {#} d1 w1" "da_busy d1 = da_busy d" by blast+
  from r 1 have "run_state (f d1) w1 = (d', w')" by simp
  with f 2 show "kept {#} d' w' \<and> da_busy d' = da_busy d" by metis
qed

lemma keeps_on_return: "same_runs d d' \<Longrightarrow> keeps_on d (State_Monad.return d')"
  by (auto simp: keeps_on_def same_runs_def intro: kept_same [where d = d])

lemma keeps_on_ask: "silent q \<Longrightarrow> (\<And>r. keeps_on d (f r)) \<Longrightarrow> keeps_on d (State_Monad.bind (ask_as as1 q) f)"
  unfolding keeps_on_def
proof (intro allI impI)
  fix w d' w' assume q: "silent q"
    and f: "\<And>r. \<forall>w d' w'. kept {#} d w \<longrightarrow> run_state (f r) w = (d', w') \<longrightarrow> kept {#} d' w' \<and> da_busy d' = da_busy d"
    and k: "kept {#} d w" and r: "run_state (State_Monad.bind (ask_as as1 q) f) w = (d', w')"
  obtain a w1 where 1: "run_state (ask_as as1 q) w = (a, w1)" by (metis surj_pair)
  then have "live_agents (trace w1) = live_agents (trace w)" by (auto simp: ask_as_def ask_def Let_def silent_beat [OF q] split: prod.splits)
  with k have 2: "kept {#} d w1" by (simp add: kept_def)
  from r 1 have "run_state (f a) w1 = (d', w')" by simp
  with f 2 show "kept {#} d' w' \<and> da_busy d' = da_busy d" by metis
qed

lemma keeps_on_now: "(\<And>t. keeps_on d (f t)) \<Longrightarrow> keeps_on d (State_Monad.bind now f)"
  by (auto simp: keeps_on_def)

lemma keeps_on_same: "keeps_on d' m \<Longrightarrow> same_runs d d' \<Longrightarrow> keeps_on d m"
  unfolding keeps_on_def by (metis kept_same same_runs_def)

lemma stop_each_keeps: "keeps_on d (stop_each libs tuns d)"
  by (induction tuns arbitrary: d) (auto intro: keeps_on_return keeps_then stop_keeps)

lemma sweep_keeps: "keeps_on d (sweep_round libs d)"
  unfolding sweep_round_def by (intro keeps_on_now stop_each_keeps)

lemma stop_older_keeps: "keeps_on d (stop_older libs ts d)"
  by (induction ts arbitrary: d) (auto intro: keeps_on_return keeps_then stop_keeps)

lemma resume_keeps: "keeps_on d (resume_if libs t d)"
  unfolding resume_if_def by (auto intro!: keeps_on_return keeps_then [OF start_keeps])

lemma reconcile_at_keeps: "keeps_on d (reconcile_at libs t target d)"
  unfolding reconcile_at_def
proof (rule keeps_then [OF calm_keeps [OF calm_spawn]])
  fix r :: "http_failure + inspector_handle" and d1
  have settle: "keeps_on d1 (resume_if libs t (install_inspector (ts_id t) (rt_normalized target) h d1))" for h
    by (rule keeps_on_same [OF resume_keeps]) simp
  have off: "keeps_on d1 (State_Monad.return d1)" by (simp add: keeps_on_return)
  show "keeps_on d1 (case (r, d1) of (spawned, d) \<Rightarrow> (case spawned of Inl _ \<Rightarrow> State_Monad.return d
      | Inr h \<Rightarrow> do {
          r \<leftarrow> (if ih_endpoint h = trim_end_char (CHR ''/'') (ts_target t) then State_Monad.return (Inr ())
               else do { x \<leftarrow> ask_as dr_summary (RetargetActive Control (ts_id t) (ih_endpoint h)); State_Monad.return (map_sum id (\<lambda>_. ()) x) });
          (case r of Inl _ \<Rightarrow> State_Monad.return d
           | Inr _ \<Rightarrow> resume_if libs t (install_inspector (ts_id t) (rt_normalized target) h d)) }))"
  proof (cases r)
    case (Inr h) show ?thesis
    proof (cases "ih_endpoint h = trim_end_char (CHR ''/'') (ts_target t)")
      case False
      have "keeps_on d1 (State_Monad.bind (ask_as dr_summary (RetargetActive Control (ts_id t) (ih_endpoint h))) (\<lambda>x. State_Monad.bind (State_Monad.return (map_sum id (\<lambda>_. ()) x)) (\<lambda>r. case r of Inl _ \<Rightarrow> State_Monad.return d1
           | Inr _ \<Rightarrow> resume_if libs t (install_inspector (ts_id t) (rt_normalized target) h d1))))"
        by (rule keeps_on_ask) (simp_all add: settle off split: sum.split)
      with False Inr show ?thesis by simp
    qed (simp add: Inr settle)
  qed (simp add: off)
qed

lemma reconcile_each_keeps: "keeps_on d (reconcile_each libs ts d)"
proof (induction ts arbitrary: d)
  case (Cons t ts)
  have "keeps_on d (reconcile_one libs t d)"
    unfolding reconcile_one_def by (auto split: option.split sum.split intro: keeps_on_return reconcile_at_keeps)
  with Cons show ?case by (simp add: keeps_on_bind)
qed (simp add: keeps_on_return)

lemma reconcile_keeps: "keeps_on d (reconcile libs d)"
  unfolding reconcile_def Let_def
  by (auto split: sum.split intro!: keeps_on_ask keeps_on_return keeps_on_bind stop_older_keeps reconcile_each_keeps)

section \<open>A run of the daemon\<close>

datatype daemon_op =
    OpCreate str str | OpDelete str str | OpNote str str | OpStart str actor str | OpStop str actor | OpList | OpProgress str
  | OpSweep | OpReconcile

definition perform :: "daemon_libs \<Rightarrow> daemon_op \<Rightarrow> daemon \<Rightarrow> daemon dio" where
  "perform libs op d = (case op of
     OpCreate label endpoint \<Rightarrow> do { (_, d') \<leftarrow> create_tunnel libs label endpoint d; State_Monad.return d' }
   | OpDelete tun who \<Rightarrow> do { (_, d') \<leftarrow> delete_tunnel_internal libs tun who d; State_Monad.return d' }
   | OpNote tun n \<Rightarrow> do { (_, d') \<leftarrow> set_tunnel_note libs tun n d; State_Monad.return d' }
   | OpStart tun who content \<Rightarrow> do { (_, d') \<leftarrow> start_tunnel_with_body libs tun who content d; State_Monad.return d' }
   | OpStop tun who \<Rightarrow> do { (_, d') \<leftarrow> stop_tunnel libs tun who d; State_Monad.return d' }
   | OpList \<Rightarrow> do { (_, d') \<leftarrow> list_tunnels libs d; State_Monad.return d' }
   | OpProgress tun \<Rightarrow> do { (_, d') \<leftarrow> get_progress tun d; State_Monad.return d' }
   | OpSweep \<Rightarrow> sweep_round libs d
   | OpReconcile \<Rightarrow> reconcile libs d)"

fun perform_all :: "daemon_libs \<Rightarrow> daemon_op list \<Rightarrow> daemon \<Rightarrow> daemon dio" where
  "perform_all libs [] d = State_Monad.return d"
| "perform_all libs (op # ops) d = do { d' \<leftarrow> perform libs op d; perform_all libs ops d' }"

lemma calm_list: "calm d (list_tunnels libs d)"
  unfolding list_tunnels_def by (intro calm_rules) auto

lemma calm_progress: "calm d (get_progress tun d)"
  unfolding get_progress_def by (intro calm_rules) auto

lemma keeps_drop: "keeps d m \<Longrightarrow> keeps_on d (do { (_, d') \<leftarrow> m; State_Monad.return d' })"
  by (rule keeps_then) (auto intro: keeps_on_return)

lemma perform_keeps: "keeps_on d (perform libs op d)"
  by (cases op) (simp_all add: perform_def stop_tunnel_def calm_keeps calm_create calm_note calm_list calm_progress
      delete_keeps start_body_keeps stop_keeps sweep_keeps reconcile_keeps keeps_drop)

lemma perform_all_keeps: "keeps_on d (perform_all libs ops d)"
  by (induction ops arbitrary: d) (auto intro: keeps_on_return keeps_on_bind perform_keeps)

lemma daemon_run_core:
  assumes "da_running d = []" "da_busy d = {}" "trace w = []" "run_state (perform_all libs ops d) w = (d', w')"
  shows "live_agents (trace w') = keys_of d' \<and> distinct (map fst (da_running d')) \<and> da_busy d' = {}"
proof -
  have "kept {#} d w" using assms by (simp add: kept_def keys_of_def one_run_each_def live_agents_def)
  with perform_all_keeps assms(4) have "kept {#} d' w' \<and> da_busy d' = da_busy d" unfolding keeps_on_def by metis
  with assms(2) show ?thesis by (simp add: kept_def one_run_each_def)
qed

text \<open>
  C2: whatever the tunnel service, the nodes and the inspectors answer, and in whatever order tunnels are created, started, retargeted, stopped, expired, deleted and reconciled: from the daemon's start on, the heartbeats that run are those of the running tunnels, one each, under the tunnel's own key; no tunnel stays claimed once its handler has ended.
\<close>

theorem agents_match_running_tunnels:
  assumes "trace w = []" "run_state (perform_all libs ops (start_daemon auth repo project hours label)) w = (d', w')"
  shows "live_agents (trace w') = keys_of d' \<and> distinct (map fst (da_running d')) \<and> da_busy d' = {}"
  by (rule daemon_run_core [OF _ _ assms]) (simp_all add: start_daemon_def)

section \<open>A daemon to evaluate\<close>

definition demo_tunnel :: "bool \<Rightarrow> tunnel_summary" where
  "demo_tunnel on = \<lparr>ts_id = ''t1'', ts_label = ''home'', ts_target = ''http://127.0.0.1:7000'', ts_hostnames = [''a.example''], ts_enabled = on,
     ts_accepted = True, ts_programmed = True, ts_metadata = True, ts_connector_ready = True, ts_connector = None, ts_device = None, ts_created = None\<rparr>"

text \<open>A service that answers every request well at once, with \<open>key\<close> for a new key.\<close>

fun demo_reply :: "daemon_request \<Rightarrow> daemon_reply" where
  "demo_reply ListActive = RSummaries (Inr [demo_tunnel False])"
| "demo_reply (GetActive _ _) = RFound (Inr (Some (demo_tunnel False)))"
| "demo_reply (ActiveProgress _) = RProgress (Inr None)"
| "demo_reply (CreateActive _ _) = RSummary (Inr (demo_tunnel False))"
| "demo_reply (DeleteActive _) = ROutcome (Inl ''offline'')"
| "demo_reply (UpdateActive _ _ _ _) = RSummary (Inr (demo_tunnel False))"
| "demo_reply (RetargetActive _ _ _) = RSummary (Inr (demo_tunnel False))"
| "demo_reply (SetEnabled _ _ on) = RSummary (Inr (demo_tunnel on))"
| "demo_reply (SpawnInspector _ _) = REndpoint (Inr ''127.0.0.1:7001'')"
| "demo_reply GenerateKey = RKey ''key''"
| "demo_reply (HasRelay _) = RYes True"
| "demo_reply _ = RUnit (Inr ())"

definition demo_world :: "(daemon_request, daemon_reply) world" where
  "demo_world = \<lparr>environment = (\<lambda>_ _ q. (demo_reply q, 5)), clock = 1000, trace = []\<rparr>"

definition demo_libs :: daemon_libs where
  "demo_libs = \<lparr>dl_codec = sample_codec, dl_uri = (\<lambda>s. Inr \<lparr>u_scheme = None, u_host = Some s, u_port = None, u_path = None\<rparr>),
     dl_json_error = (\<lambda>_. ''eof''), dl_io = (\<lambda>_. ''io''), dl_repo = (\<lambda>_. ''repo'')\<rparr>"

definition demo_daemon :: daemon where
  "demo_daemon = start_daemon sample_app ''/repo'' ''p1'' 8 None"

lemma demo_ask [simp]: "run_state (ask_as f q) \<lparr>environment = (\<lambda>_ _ q. (demo_reply q, 5)), clock = c, trace = es\<rparr> =
    (f (demo_reply q), \<lparr>environment = (\<lambda>_ _ q. (demo_reply q, 5)), clock = c + 5, trace = es @ [Event c q (Some (demo_reply q))]\<rparr>)"
  by (simp add: ask_as_def ask_def Let_def)

lemma demo_ask1 [simp]: "run_state (ask q) \<lparr>environment = (\<lambda>_ _ q. (demo_reply q, 5)), clock = c, trace = es\<rparr> =
    (demo_reply q, \<lparr>environment = (\<lambda>_ _ q. (demo_reply q, 5)), clock = c + 5, trace = es @ [Event c q (Some (demo_reply q))]\<rparr>)"
  by (simp add: ask_def Let_def)

lemma repeat_first: "0 < n \<Longrightarrow> repeat_io n body s = do { r \<leftarrow> body s; (case r of Inl s' \<Rightarrow> repeat_io (n - 1) body s' | Inr a \<Rightarrow> State_Monad.return (Some a)) }"
  by (cases n) auto

lemma demo_await [simp]: "run_state (await_relay key) \<lparr>environment = (\<lambda>_ _ q. (demo_reply q, 5)), clock = c, trace = es\<rparr> =
    ((), \<lparr>environment = (\<lambda>_ _ q. (demo_reply q, 5)), clock = c + 5, trace = es @ [Event c (HasRelay key) (Some (RYes True))]\<rparr>)"
  by (simp add: await_relay_def RELAY_LOOKS_def repeat_first)

lemma demo_start:
  "\<exists>t d w. run_state (start_tunnel_internal demo_libs ''t1'' ''setup'' None demo_daemon) demo_world = ((Inr t, d), w) \<and>
     map request (trace w) = [GetActive Control ''t1'', GenerateKey, NewNode ''key'', StartHeartbeat ''key'' ''p1'', HasRelay ''key'',
       UpdateActive (Own ''key'') ''t1'' ''home'' ''http://127.0.0.1:7000'', CleanupOrphaned (Own ''key''),
       SetEnabled (Own ''key'') ''t1'' True, GetActive (Own ''key'') ''t1''] \<and> keys_of d = {#''key''#}"
  by (simp add: start_tunnel_internal_def demo_daemon_def start_daemon_def repoint_for_def while_busy_def claim_busy_def start_claimed_def dtry_def
      call_def demo_world_def reply_def start_stopped_def new_inspector_def resolve_listen_key_def sample_app_def empty_disk_def listen_key_for_tunnel_def
      file_there_def read_file_def Let_def with_disk_def save_new_key_def save_listen_key_for_tunnel_def write_into_def create_dir_def put_file_def
      dropping_agent_def bring_up_def point_tunnel_def adopt_inspector_def audited_def found_or_404_def
      release_busy_def keys_of_def demo_tunnel_def)

theorem agents_match_running_tunnels_witness:
  "\<exists>d w. run_state (perform_all demo_libs [OpStart ''t1'' Setup [], OpDelete ''t1'' ''setup''] demo_daemon) demo_world = (d, w) \<and>
     live_agents (trace w) = keys_of d \<and> da_busy d = {}"
proof -
  obtain d w where r: "run_state (perform_all demo_libs [OpStart ''t1'' Setup [], OpDelete ''t1'' ''setup''] demo_daemon) demo_world = (d, w)"
    by (metis surj_pair)
  have "trace demo_world = []" by (simp add: demo_world_def)
  with agents_match_running_tunnels r show ?thesis unfolding demo_daemon_def by metis
qed

end
