(* ===== verification/Daemon_Requests.thy ===== *)
theory Daemon_Requests
  imports Daemon_Facts
begin

text \<open>
  What the daemon's handlers ask for, and in what order: a start, a start by another caller than the setup token, a deletion.
\<close>

section \<open>The order of a start\<close>

fun start_stage :: "daemon_request \<Rightarrow> nat" where
  "start_stage (GetActive Control _) = 0"
| "start_stage (SpawnInspector _ _) = 1"
| "start_stage GenerateKey = 2"
| "start_stage (NewNode _) = 3"
| "start_stage (StartHeartbeat _ _) = 4"
| "start_stage (HasRelay _) = 5"
| "start_stage (UpdateActive _ _ _ _) = 6"
| "start_stage (RetargetActive _ _ _) = 6"
| "start_stage (CleanupOrphaned _) = 7"
| "start_stage (SetEnabled _ _ _) = 8"
| "start_stage (GetActive (Own _) _) = 9"
| "start_stage (StopHeartbeat _ _) = 10"
| "start_stage _ = 11"

definition in_stages :: "nat \<Rightarrow> nat \<Rightarrow> (daemon_request, daemon_reply) event list \<Rightarrow> bool" where
  "in_stages lo hi es \<longleftrightarrow> sorted (map (start_stage \<circ> request) es) \<and> (\<forall>e \<in> set es. lo \<le> start_stage (request e) \<and> start_stage (request e) \<le> hi)"

lemma in_stages_Nil [simp]: "in_stages lo hi []"
  by (simp add: in_stages_def)

lemma in_stages_append: "in_stages lo mid es \<Longrightarrow> in_stages mid hi fs \<Longrightarrow> lo \<le> mid \<Longrightarrow> mid \<le> hi \<Longrightarrow> in_stages lo hi (es @ fs)"
  by (force simp: in_stages_def sorted_append)

definition staged :: "nat \<Rightarrow> nat \<Rightarrow> 'a dio \<Rightarrow> bool" where
  "staged lo hi m \<longleftrightarrow> lo \<le> hi \<and> leaves (in_stages lo hi) m"

lemma staged_bind:
  assumes "staged lo mid m" "\<And>a. staged mid hi (f a)" shows "staged lo hi (State_Monad.bind m f)"
proof -
  have "\<exists>gs. trace u = trace w @ gs \<and> in_stages lo hi gs" if "run_state (State_Monad.bind m f) w = (b, u)" for w b u
  proof -
    obtain a v where v: "run_state m w = (a, v)" by fastforce
    with that have u: "run_state (f a) v = (b, u)" by simp
    from assms have l: "leaves (in_stages lo mid) m" "leaves (in_stages mid hi) (f a)" and h: "lo \<le> mid" "mid \<le> hi" by (auto simp: staged_def)
    from leavesD [OF l(1) v] leavesD [OF l(2) u] in_stages_append [OF _ _ h] show ?thesis by force
  qed
  moreover have "lo \<le> hi" using assms by (force simp: staged_def)
  ultimately show ?thesis unfolding staged_def by (intro conjI leavesI) simp_all
qed

lemma staged_nothing: "lo \<le> hi \<Longrightarrow> leaves (\<lambda>es. es = []) m \<Longrightarrow> staged lo hi m"
  unfolding staged_def by (auto elim: leaves_weaken)

lemma staged_return: "lo \<le> hi \<Longrightarrow> staged lo hi (State_Monad.return a)"
  by (rule staged_nothing) (simp_all add: leaves_def)

lemma staged_reply: "lo \<le> hi \<Longrightarrow> staged lo hi (reply r d)"
  by (simp add: reply_def staged_return)

lemma staged_ask: "lo \<le> start_stage q \<Longrightarrow> start_stage q \<le> hi \<Longrightarrow> staged lo hi (ask q)"
  unfolding staged_def by (auto intro!: leavesI dest: run_ask simp: in_stages_def)

lemma staged_signal: "lo \<le> start_stage q \<Longrightarrow> start_stage q \<le> hi \<Longrightarrow> staged lo hi (signal q)"
  by (auto simp: staged_def leaves_def in_stages_def)

lemma staged_ask_as: "lo \<le> start_stage q \<Longrightarrow> start_stage q \<le> hi \<Longrightarrow> staged lo hi (ask_as f q)"
  unfolding ask_as_def by (rule staged_bind [of _ hi]) (auto intro: staged_ask staged_return)

lemma staged_dtry: "staged lo mid m \<Longrightarrow> mid \<le> hi \<Longrightarrow> (\<And>a d. staged mid hi (f a d)) \<Longrightarrow> staged lo hi (dtry m f)"
  unfolding dtry_def by (rule staged_bind) (auto split: sum.split intro: staged_reply)

lemma staged_call: "lo \<le> start_stage q \<Longrightarrow> start_stage q \<le> hi \<Longrightarrow> staged lo hi (call f q d)"
  unfolding call_def by (rule staged_bind [of _ hi]) (auto split: sum.split intro: staged_ask_as staged_reply)

lemma staged_now: "lo \<le> hi \<Longrightarrow> staged lo hi now"
  by (rule staged_nothing) (auto simp: leaves_def)

lemma staged_audited: "lo \<le> hi \<Longrightarrow> staged lo hi (audited libs ev tun who d)"
  by (rule staged_nothing) (auto simp: audited_def leaves_def)

lemma staged_adopt: "lo \<le> hi \<Longrightarrow> staged lo hi (adopt_inspector libs tun who i d)"
  unfolding adopt_inspector_def by (auto split: option.split intro: staged_return staged_audited)

lemma staged_save_key: "lo \<le> hi \<Longrightarrow> staged lo hi (save_new_key libs tun key rewire d)"
  unfolding save_new_key_def by (auto split: sum.split prod.split intro: staged_reply)

lemma staged_resolve: "staged 2 2 (resolve_listen_key libs tun d)"
  unfolding resolve_listen_key_def
  by (auto split: sum.split prod.split repo_error.split intro!: staged_reply staged_bind [of 2 2] staged_ask_as)

lemma staged_spawn: "staged 1 1 (spawn_inspector t p d)"
  unfolding spawn_inspector_def by (intro staged_dtry [of 1 1] staged_call staged_reply) simp_all

lemma staged_inspector: "staged 1 1 (new_inspector repoint d)"
  unfolding new_inspector_def by (cases repoint) (simp_all only: option.case staged_reply order_refl staged_dtry [OF staged_spawn order_refl])

lemma staged_await: "staged 5 5 (await_relay key)"
proof -
  have "asks_only (\<lambda>q. q = HasRelay key) (await_relay key)"
    unfolding await_relay_def by (intro asks_intros) auto
  then have "leaves (in_stages 5 5) (await_relay key)"
    by (auto simp: in_stages_def sorted_iff_nth_mono dest!: asks_leaves elim!: leaves_weaken)
  then show ?thesis by (simp add: staged_def)
qed

lemma staged_point: "staged 6 7 (point_tunnel key tun label endpoint rewire repointed d)"
  unfolding point_tunnel_def
  by (auto intro!: staged_reply staged_dtry [of 6 6] staged_call staged_bind [of 7 7] staged_bind [of 6 7] staged_ask)

lemma staged_bring_up: "staged 6 9 (bring_up libs tun who t i key rewire d)"
  unfolding bring_up_def Let_def
proof (intro staged_dtry [OF staged_point] staged_bind [OF staged_adopt [of 7 7]])
  show "staged 7 9 (dtry (call dr_summary (SetEnabled (Own key) tun True) d1) (\<lambda>_ d. dtry (call dr_found (GetActive (Own key) tun) d) (\<lambda>current d. do {
      t0 \<leftarrow> now;
      d' \<leftarrow> audited libs ''start'' tun who (d\<lparr>da_running := AList.update tun \<lparr>ru_key = key, ru_started_at = t0\<rparr> (da_running d)\<rparr>);
      reply (found_or_404 tun current) d' })))" for d1
    by (rule staged_dtry [OF staged_call, where mid = 8], simp_all, rule staged_dtry [OF staged_call, where mid = 9],
        auto intro!: staged_bind [OF staged_now [of 9 9]] staged_bind [OF staged_audited [of 9 9]] staged_reply)
qed simp_all

lemma staged_dropping: "staged lo 9 m \<Longrightarrow> staged lo 10 (dropping_agent tun key m)"
  unfolding dropping_agent_def
  by (rule staged_bind) (auto intro!: staged_bind [OF staged_signal, of 9 _ 10] staged_reply)

lemma staged_weaken: "staged lo hi m \<Longrightarrow> lo' \<le> lo \<Longrightarrow> hi \<le> hi' \<Longrightarrow> staged lo' hi' m"
  unfolding staged_def by (auto elim!: leaves_weaken simp: in_stages_def intro: order_trans dest!: bspec)

lemma staged_stopped: "staged 1 10 (start_stopped libs tun who t repoint d)"
proof -
  have up: "staged 3 10 (do { signal (StartHeartbeat key (da_project d1)); await_relay key; dropping_agent tun key (bring_up libs tun who t i key rewire d1) })" for key d1 i rewire
    by (intro staged_bind [OF staged_signal, of 3 _ 4] staged_bind [OF staged_weaken [OF staged_await], of 4 5] staged_dropping
        staged_weaken [OF staged_bring_up]) simp_all
  have new: "staged 2 10 (dtry (call dr_unit (NewNode key) d1) (\<lambda>_ d. dtry (save_new_key libs tun key rewire d) (\<lambda>_ d. do {
      signal (StartHeartbeat key (da_project d)); await_relay key; dropping_agent tun key (bring_up libs tun who t i key rewire d) })))" for key d1 i rewire
    by (intro staged_dtry [OF staged_call, of 2 _ 3] staged_dtry [OF staged_save_key, of 3 3] up) simp_all
  show ?thesis unfolding start_stopped_def
    by (rule staged_dtry [OF staged_inspector], simp, rule staged_dtry [OF staged_weaken [OF staged_resolve], of 1 2])
       (auto split: prod.split intro: new)
qed

lemma staged_claimed: "staged 0 10 (start_claimed libs tun who repoint d)"
proof -
  have "staged 1 10 (repoint_running libs tun who ru target d1)" for ru target d1
    unfolding repoint_running_def
    by (intro staged_dtry [OF staged_spawn] staged_dtry [OF staged_call, of 1 _ 6] staged_bind [OF staged_audited, of 6 6] staged_reply) simp_all
  then show ?thesis unfolding start_claimed_def
    by (intro staged_dtry [OF staged_call, of 0 _ 0])
       (auto split: option.split intro: staged_reply staged_weaken [OF staged_stopped] staged_weaken [of 1 10])
qed

lemma staged_busy: "(\<And>d1. staged lo hi (f d1)) \<Longrightarrow> lo \<le> hi \<Longrightarrow> staged lo hi (while_busy tun f d)"
  unfolding while_busy_def by (auto split: sum.split prod.split intro!: staged_reply staged_bind [of lo hi])

lemma staged_start: "staged 0 10 (start_tunnel_internal libs tun who target d)"
  unfolding start_tunnel_internal_def Let_def
  by (auto intro!: staged_busy staged_claimed staged_dtry [OF staged_call, of 0 _ 0] staged_reply)

section \<open>One key\<close>

definition names_only :: "str \<Rightarrow> daemon_request \<Rightarrow> bool" where
  "names_only key q = (case q of GetActive (Own k) _ \<Rightarrow> k = key | UpdateActive (Own k) _ _ _ \<Rightarrow> k = key | RetargetActive (Own k) _ _ \<Rightarrow> k = key
     | SetEnabled (Own k) _ _ \<Rightarrow> k = key | CleanupOrphaned (Own k) \<Rightarrow> k = key | NewNode k \<Rightarrow> k = key | StartHeartbeat k _ \<Rightarrow> k = key
     | StopHeartbeat k _ \<Rightarrow> k = key | HasRelay k \<Rightarrow> k = key | _ \<Rightarrow> True)"

definition one_key :: "(daemon_request, daemon_reply) event list \<Rightarrow> bool" where
  "one_key es \<longleftrightarrow> (\<exists>key. \<forall>e \<in> set es. names_only key (request e))"

definition nameless :: "daemon_request \<Rightarrow> bool" where
  "nameless q \<longleftrightarrow> (\<forall>k. names_only k q)"

lemma nameless_simps [simp]: "nameless (GetActive Control t)" "nameless (SpawnInspector u p)" "nameless GenerateKey" "nameless ListActive"
    "nameless (RetargetActive Control t e)" "nameless (SetEnabled Control t b)" "nameless (CreateActive l e)" "nameless (DeleteActive t)"
  by (simp_all add: nameless_def names_only_def)

lemma one_key_only: "asks_only (names_only key) m \<Longrightarrow> leaves one_key m"
  by (rule leaves_weaken [OF asks_leaves]) (auto simp: one_key_def)

lemma one_key_bind:
  assumes "asks_only nameless m" "\<And>a. leaves one_key (f a)" shows "leaves one_key (State_Monad.bind m f)"
proof (rule leavesI)
  fix w b u assume r: "run_state (State_Monad.bind m f) w = (b, u)"
  obtain a v where v: "run_state m w = (a, v)" by fastforce
  with r have u: "run_state (f a) v = (b, u)" by simp
  from asks_onlyD [OF assms(1) v] leavesD [OF assms(2) u] show "\<exists>es. trace u = trace w @ es \<and> one_key es"
    by (fastforce simp: one_key_def nameless_def)
qed

lemma asks_reply [asks_intros]: "asks_only P (reply r d)"
  by (simp add: reply_def asks_return)

lemma asks_dtry [asks_intros]: "asks_only P m \<Longrightarrow> (\<And>a d. asks_only P (f a d)) \<Longrightarrow> asks_only P (dtry m f)"
  unfolding dtry_def by (intro asks_intros)

lemma asks_daemon_call [asks_intros]: "P q \<Longrightarrow> asks_only P (call f q d)"
  unfolding call_def by (intro asks_intros)

lemma asks_audited [asks_intros]: "asks_only P (audited libs ev tun who d)"
  unfolding audited_def by (intro asks_intros)

lemma asks_adopt [asks_intros]: "asks_only P (adopt_inspector libs tun who i d)"
  unfolding adopt_inspector_def by (intro asks_intros)

lemma asks_save_key [asks_intros]: "asks_only P (save_new_key libs tun key rewire d)"
  unfolding save_new_key_def by (auto split: sum.split prod.split intro: asks_intros)

lemma asks_await [asks_intros]: "P (HasRelay key) \<Longrightarrow> asks_only P (await_relay key)"
  unfolding await_relay_def by (intro asks_intros)

lemma asks_bring_up:
  assumes "P (UpdateActive (Own key) tun (ts_label t) (case i of Some (_, h) \<Rightarrow> ih_endpoint h | None \<Rightarrow> ts_target t))" "P (CleanupOrphaned (Own key))"
    "i \<noteq> None \<Longrightarrow> P (RetargetActive (Own key) tun (case i of Some (_, h) \<Rightarrow> ih_endpoint h | None \<Rightarrow> ts_target t))" "P (SetEnabled (Own key) tun True)" "P (GetActive (Own key) tun)"
  shows "asks_only P (bring_up libs tun who t i key rewire d)"
proof -
  have "asks_only P (point_tunnel key tun (ts_label t) (case i of Some (_, h) \<Rightarrow> ih_endpoint h | None \<Rightarrow> ts_target t) rewire (i \<noteq> None) d)"
    unfolding point_tunnel_def by (cases rewire; cases "i \<noteq> None") (simp_all add: assms(1-2) assms(3) asks_intros)
  with assms(4-5) show ?thesis unfolding bring_up_def Let_def by (intro asks_intros)
qed

lemma asks_dropping: "asks_only P m \<Longrightarrow> (\<And>x. P (StopHeartbeat key x)) \<Longrightarrow> asks_only P (dropping_agent tun key m)"
  unfolding dropping_agent_def by (intro asks_intros) auto

lemma asks_busy [asks_intros]: "(\<And>d. asks_only P (f d)) \<Longrightarrow> asks_only P (while_busy tun f d)"
  unfolding while_busy_def by (intro asks_intros)

lemma asks_new_inspector [asks_intros]: "(\<And>t. repoint = Some t \<Longrightarrow> P (SpawnInspector (rt_uri t) None)) \<Longrightarrow> asks_only P (new_inspector repoint d)"
  unfolding new_inspector_def spawn_inspector_def by (cases repoint) (simp_all add: asks_intros)

lemma asks_resolve [asks_intros]: "P GenerateKey \<Longrightarrow> asks_only P (resolve_listen_key libs tun d)"
  unfolding resolve_listen_key_def by (auto split: sum.split prod.split repo_error.split intro!: asks_intros)

lemma one_key_reply: "leaves one_key (reply r d)"
  by (rule one_key_only [OF asks_reply])

lemma one_key_dtry: "asks_only nameless m \<Longrightarrow> (\<And>a d. leaves one_key (f a d)) \<Longrightarrow> leaves one_key (dtry m f)"
  unfolding dtry_def by (rule one_key_bind) (auto split: sum.split intro: one_key_reply)

text \<open>What follows the choice of the key.\<close>

lemma asks_keyed:
  assumes "asks_only P (bring_up libs tun who t i key rewire d1)" "P (NewNode key)" "P (HasRelay key)" "\<And>x. P (StartHeartbeat key x)" "\<And>x. P (StopHeartbeat key x)"
    and "\<And>d1. asks_only P (bring_up libs tun who t i key rewire d1)"
  shows "asks_only P (dtry (call dr_unit (NewNode key) d) (\<lambda>_ d. dtry (save_new_key libs tun key rewire d) (\<lambda>_ d. do {
      signal (StartHeartbeat key (da_project d)); await_relay key; dropping_agent tun key (bring_up libs tun who t i key rewire d) })))"
  using assms by (intro asks_intros asks_dropping)

lemma keyed_names: "asks_only (names_only key) (dtry (call dr_unit (NewNode key) d) (\<lambda>_ d. dtry (save_new_key libs tun key rewire d) (\<lambda>_ d. do {
      signal (StartHeartbeat key (da_project d)); await_relay key; dropping_agent tun key (bring_up libs tun who t i key rewire d) })))"
  by (intro asks_keyed asks_bring_up) (simp_all add: names_only_def)

lemma stopped_one_key: "leaves one_key (start_stopped libs tun who t repoint d)"
proof -
  have "asks_only nameless (new_inspector repoint d)" by (intro asks_intros) simp
  moreover have "asks_only nameless (resolve_listen_key libs tun d1)" for d1 by (intro asks_intros) simp
  ultimately show ?thesis unfolding start_stopped_def
    by (intro one_key_dtry) (auto split: prod.split intro: one_key_only [OF keyed_names])
qed

lemma repoint_one_key: "leaves one_key (repoint_running libs tun who ru target d)"
  unfolding repoint_running_def spawn_inspector_def
  by (rule one_key_only [of "ru_key ru"], intro asks_intros) (simp_all add: names_only_def)

lemma start_one_key: "leaves one_key (start_tunnel_internal libs tun who target d)"
proof -
  have c: "leaves one_key (start_claimed libs tun who repoint d1)" for repoint d1
    unfolding start_claimed_def
    by (intro one_key_dtry asks_daemon_call) (auto split: option.split intro: one_key_reply stopped_one_key repoint_one_key)
  have "leaves one_key (while_busy tun (start_claimed libs tun who repoint) d)" for repoint
    unfolding while_busy_def
  proof (cases "claim_busy tun d")
    case (Inr d1)
    have "\<exists>es. trace u = trace w @ es \<and> one_key es"
      if "run_state (do { (r, d2) \<leftarrow> start_claimed libs tun who repoint d1; reply r (release_busy tun d2) }) w = (b, u)" for w b u
    proof -
      obtain a v where v: "run_state (start_claimed libs tun who repoint d1) w = (a, v)" by fastforce
      with that have "u = v" by (auto simp: reply_def split: prod.splits)
      with leavesD [OF c v] show ?thesis by simp
    qed
    then show "leaves one_key (case claim_busy tun d of Inl e \<Rightarrow> reply (Inl e) d
       | Inr d1 \<Rightarrow> do { (r, d2) \<leftarrow> start_claimed libs tun who repoint d1; reply r (release_busy tun d2) })"
      using Inr by (simp only: sum.case) (rule leavesI)
  qed (simp add: one_key_reply)
  then show ?thesis unfolding start_tunnel_internal_def Let_def
    by (auto intro!: one_key_dtry asks_daemon_call one_key_reply)
qed


section \<open>What an operate token can do\<close>

definition keeps_aim :: "tunnel_summary \<Rightarrow> daemon_request \<Rightarrow> bool" where
  "keeps_aim t q = (case q of UpdateActive _ _ l e \<Rightarrow> l = ts_label t \<and> e = ts_target t
     | SpawnInspector _ _ \<Rightarrow> False | RetargetActive _ _ _ \<Rightarrow> False | CreateActive _ _ \<Rightarrow> False | DeleteActive _ \<Rightarrow> False | _ \<Rightarrow> True)"

lemma stopped_plain: "start_stopped libs tun who t None d = dtry (resolve_listen_key libs tun d) (\<lambda>(key, rewire) d. dtry (call dr_unit (NewNode key) d) (\<lambda>_ d.
      dtry (save_new_key libs tun key rewire d) (\<lambda>_ d. do {
      signal (StartHeartbeat key (da_project d)); await_relay key; dropping_agent tun key (bring_up libs tun who t None key rewire d) })))"
  by (simp add: start_stopped_def new_inspector_def dtry_def reply_def)

lemma stopped_keeps_aim: "asks_only (keeps_aim t) (start_stopped libs tun who t None d)"
  unfolding stopped_plain
proof (rule asks_dtry)
  show "asks_only (keeps_aim t) (resolve_listen_key libs tun d)" by (intro asks_intros) (simp add: keeps_aim_def)
  fix a d1
  have "asks_only (keeps_aim t) (dtry (call dr_unit (NewNode key) d1) (\<lambda>_ d. dtry (save_new_key libs tun key rewire d) (\<lambda>_ d. do {
      signal (StartHeartbeat key (da_project d)); await_relay key; dropping_agent tun key (bring_up libs tun who t None key rewire d) })))" for key rewire
    by (intro asks_keyed asks_bring_up) (simp_all add: keeps_aim_def)
  then show "asks_only (keeps_aim t) ((\<lambda>(key, rewire) d. dtry (call dr_unit (NewNode key) d) (\<lambda>_ d. dtry (save_new_key libs tun key rewire d) (\<lambda>_ d. do {
      signal (StartHeartbeat key (da_project d)); await_relay key; dropping_agent tun key (bring_up libs tun who t None key rewire d) }))) a d1)"
    by (cases a) simp
qed

text \<open>Daemons with the same inspectors.\<close>

definition inspects :: "(str \<times> inspector_handle) list \<Rightarrow> ('r \<times> daemon) dio \<Rightarrow> bool" where
  "inspects x m \<longleftrightarrow> (\<forall>w. da_inspectors (snd (fst (run_state m w))) = x)"

lemma inspects_bind: "(\<And>w a v. run_state m w = (a, v) \<Longrightarrow> inspects x (f a)) \<Longrightarrow> inspects x (State_Monad.bind m f)"
  unfolding inspects_def by (auto split: prod.split)

lemma inspects_reply: "da_inspectors d = x \<Longrightarrow> inspects x (reply r d)"
  by (simp add: inspects_def reply_def)

lemma inspects_then: "inspects x m \<Longrightarrow> (\<And>r d. da_inspectors d = x \<Longrightarrow> inspects x (f (r, d))) \<Longrightarrow> inspects x (State_Monad.bind m f)"
  by (rule inspects_bind) (metis fst_conv inspects_def snd_conv surj_pair)

lemma inspects_dtry: "inspects x m \<Longrightarrow> (\<And>a d. da_inspectors d = x \<Longrightarrow> inspects x (f a d)) \<Longrightarrow> inspects x (dtry m f)"
  unfolding dtry_def by (rule inspects_then) (auto split: sum.split intro: inspects_reply)

lemma inspects_call: "da_inspectors d = x \<Longrightarrow> inspects x (call f q d)"
  unfolding call_def by (rule inspects_bind) (auto split: sum.split intro: inspects_reply)

lemma inspects_resolve: "da_inspectors d = x \<Longrightarrow> inspects x (resolve_listen_key libs tun d)"
  unfolding resolve_listen_key_def
  by (auto split: sum.split prod.split repo_error.split intro!: inspects_reply inspects_bind simp: with_disk_def)

lemma inspects_save_key: "da_inspectors d = x \<Longrightarrow> inspects x (save_new_key libs tun key rewire d)"
  unfolding save_new_key_def by (auto split: sum.split prod.split intro!: inspects_reply simp: with_disk_def)

lemma inspects_audited: "da_inspectors d = x \<Longrightarrow> (\<And>d2. da_inspectors d2 = x \<Longrightarrow> inspects x (f d2)) \<Longrightarrow> inspects x (State_Monad.bind (audited libs ev tun who d) f)"
  by (rule inspects_bind) (auto simp: audited_def with_disk_def)

lemma inspects_point: "da_inspectors d = x \<Longrightarrow> inspects x (point_tunnel key tun label endpoint rewire repointed d)"
  unfolding point_tunnel_def by (auto intro!: inspects_dtry inspects_call inspects_reply inspects_bind)

lemma inspects_bring_up: "da_inspectors d = x \<Longrightarrow> inspects x (bring_up libs tun who t None key rewire d)"
  unfolding bring_up_def Let_def adopt_inspector_def
  by (auto intro!: inspects_dtry inspects_point inspects_call inspects_bind [of now] inspects_audited inspects_reply)

lemma inspects_dropping: "inspects x m \<Longrightarrow> inspects x (dropping_agent tun key m)"
  unfolding dropping_agent_def by (rule inspects_then) (auto intro!: inspects_bind [of "signal _"] inspects_reply)

lemma inspects_stopped: "da_inspectors d = x \<Longrightarrow> inspects x (start_stopped libs tun who t None d)"
  unfolding stopped_plain
  by (auto intro!: inspects_dtry inspects_call inspects_resolve inspects_save_key inspects_dropping inspects_bring_up
      inspects_bind [of "signal _"] inspects_bind [of "await_relay _"] split: prod.split)

lemma plain_inspects: "da_inspectors d = x \<Longrightarrow> inspects x (start_tunnel_internal libs tun who None d)"
proof -
  assume d: "da_inspectors d = x"
  have c: "da_inspectors d1 = x \<Longrightarrow> inspects x (start_claimed libs tun who None d1)" for d1
    unfolding start_claimed_def by (auto intro!: inspects_dtry inspects_call inspects_reply inspects_stopped split: option.split)
  have "inspects x (while_busy tun (start_claimed libs tun who None) d)"
    unfolding while_busy_def claim_busy_def using d c
    by (auto split: sum.split intro!: inspects_reply inspects_then simp: release_busy_def)
  with d show ?thesis unfolding start_tunnel_internal_def Let_def repoint_for_def
    by (auto intro!: inspects_dtry inspects_call inspects_reply)
qed

text \<open>No request aims the tunnel elsewhere than where a reading found it.\<close>

definition aims_as_read :: "(daemon_request, daemon_reply) event list \<Rightarrow> bool" where
  "aims_as_read es \<longleftrightarrow> (\<forall>e \<in> set es. \<exists>t. keeps_aim t (request e) \<and>
     ((\<exists>e' \<in> set es. event.reply e' = Some (RFound (Inr (Some t)))) \<or> (\<forall>t'. keeps_aim t' (request e))))"

lemma found_reply: "dr_found r = Inr x \<Longrightarrow> r = RFound (Inr x)"
  by (cases r) auto

lemma claimed_aims: "leaves aims_as_read (start_claimed libs tun who None d)"
proof (rule leavesI)
  fix w a w' assume run: "run_state (start_claimed libs tun who None d) w = (a, w')"
  obtain r v where v: "run_state (ask (GetActive Control tun)) w = (r, v)" by fastforce
  from run_ask [OF v] have tv: "trace v = trace w @ [Event (clock w) (GetActive Control tun) (Some r)]" by auto
  have plain: "keeps_aim t (GetActive Control tun)" for t by (simp add: keeps_aim_def)
  from run v have on: "run_state (case dr_found r of Inl e \<Rightarrow> reply (Inl (err_response e)) d
      | Inr found \<Rightarrow> (case found of None \<Rightarrow> reply (Inl (not_found tun)) d
         | Some t \<Rightarrow> (case map_of (da_running d) tun of Some ru \<Rightarrow> reply (Inr t) d | None \<Rightarrow> start_stopped libs tun who t None d))) v = (a, w')"
    by (simp add: start_claimed_def dtry_def call_def ask_as_def reply_def split: sum.splits option.splits)
  show "\<exists>es. trace w' = trace w @ es \<and> aims_as_read es"
  proof (cases "\<exists>t. dr_found r = Inr (Some t) \<and> map_of (da_running d) tun = None")
    case True
    then obtain t where t: "dr_found r = Inr (Some t)" "map_of (da_running d) tun = None" by blast
    with on have "run_state (start_stopped libs tun who t None d) v = (a, w')" by simp
    from asks_onlyD [OF stopped_keeps_aim this] obtain es where es: "trace w' = trace v @ es" "\<forall>e \<in> set es. keeps_aim t (request e)" by blast
    have "aims_as_read (Event (clock w) (GetActive Control tun) (Some r) # es)"
      unfolding aims_as_read_def using es(2) plain found_reply [OF t(1)] by (intro ballI exI [of _ t]) auto
    with es(1) tv show ?thesis by simp
  next
    case False
    with on have "w' = v" by (auto simp: reply_def split: sum.splits option.splits)
    with tv plain show ?thesis by (simp add: aims_as_read_def)
  qed
qed

lemma plain_aims: "leaves aims_as_read (start_tunnel_internal libs tun who None d)"
proof -
  have "leaves aims_as_read (dtry (call dr_found (GetActive Control tun) d) (\<lambda>t. reply (found_or_404 tun t)))"
  proof -
    have "asks_only (\<lambda>q. \<forall>t. keeps_aim t q) (dtry (call dr_found (GetActive Control tun) d) (\<lambda>t. reply (found_or_404 tun t)))"
      by (intro asks_intros) (simp add: keeps_aim_def)
    then show ?thesis by (rule leaves_weaken [OF asks_leaves]) (auto simp: aims_as_read_def)
  qed
  moreover have "leaves aims_as_read (while_busy tun (start_claimed libs tun who None) d)"
  proof (rule leavesI)
    fix w a w' assume run: "run_state (while_busy tun (start_claimed libs tun who None) d) w = (a, w')"
    show "\<exists>es. trace w' = trace w @ es \<and> aims_as_read es"
    proof (cases "claim_busy tun d")
      case (Inl e)
      with run show ?thesis by (simp add: while_busy_def reply_def aims_as_read_def)
    next
      case (Inr d1)
      obtain b v where v: "run_state (start_claimed libs tun who None d1) w = (b, v)" by fastforce
      with run Inr have "w' = v" by (auto simp: while_busy_def reply_def split: prod.splits)
      with leavesD [OF claimed_aims v] show ?thesis by simp
    qed
  qed
  ultimately show ?thesis unfolding start_tunnel_internal_def Let_def repoint_for_def by simp
qed

lemma only_setup_aims_core:
  assumes "who \<noteq> Setup" "run_state (start_tunnel_with_body libs tun who content d) w = ((r, d'), w')"
  shows "da_inspectors d' = da_inspectors d \<and> (\<exists>es. trace w' = trace w @ es \<and> aims_as_read es)"
proof (cases "parse_start_request libs content")
  case (Inr x)
  show ?thesis
  proof (cases x)
    case None
    with Inr assms have run: "run_state (start_tunnel_internal libs tun (audit_label who) None d) w = ((r, d'), w')" by (simp add: start_tunnel_with_body_def)
    have "inspects (da_inspectors d) (start_tunnel_internal libs tun (audit_label who) None d)" by (rule plain_inspects) simp
    with run have "da_inspectors d' = da_inspectors d" by (metis fst_conv inspects_def snd_conv)
    with leavesD [OF plain_aims run] show ?thesis by blast
  qed (use Inr assms in \<open>simp add: start_tunnel_with_body_def reply_def aims_as_read_def\<close>)
qed (use assms in \<open>simp add: start_tunnel_with_body_def reply_def aims_as_read_def\<close>)

text \<open>
  C8: only the setup token aims a tunnel. Any other caller of start, whatever the body: no inspector is started or replaced, no tunnel is made, deleted or retargeted, and a tunnel that moves to a new connector keeps the label and the endpoint that the same start read for it.
\<close>

theorem only_setup_aims:
  assumes "who \<noteq> Setup" "run_state (start_tunnel_with_body libs tun who content d) w = ((r, d'), w')"
  shows "da_inspectors d' = da_inspectors d \<and> (\<exists>es. trace w' = trace w @ es \<and> aims_as_read es)"
  by (rule only_setup_aims_core [OF assms])

theorem only_setup_aims_witness:
  "\<exists>r d w es. run_state (start_tunnel_with_body demo_libs ''t1'' (Operate ''o'') [] demo_daemon) demo_world = ((r, d), w) \<and>
     da_inspectors d = [] \<and> trace w = es \<and> aims_as_read es"
proof -
  obtain r d w where run: "run_state (start_tunnel_with_body demo_libs ''t1'' (Operate ''o'') [] demo_daemon) demo_world = ((r, d), w)"
    by (metis surj_pair)
  from only_setup_aims [OF _ this] show ?thesis using run by (simp add: demo_daemon_def start_daemon_def demo_world_def)
qed

section \<open>Deletion\<close>

lemma remove_file_denied [simp]: "denied (snd (remove_file p d)) = denied d"
  by (simp add: remove_file_def)

lemma remove_note_denied [simp]: "denied (snd (remove_note base1 tun d)) = denied d"
  unfolding remove_note_def by (cases "remove_file (note_path base1 tun) d") (auto split: sum.split io_error.split dest: arg_cong [where f = "denied \<circ> snd"]
      intro: remove_file_denied [of "note_path base1 tun" d, simplified])

lemma ends_with_last: "s \<noteq> [] \<Longrightarrow> ends_with [c] s \<longleftrightarrow> last s = c"
  by (cases s rule: rev_cases) (auto simp: ends_with_def strip_suffix_def)

lemma join_ends: "p \<noteq> [] \<Longrightarrow> join b p \<noteq> [] \<and> last (join b p) = last p"
  by (simp add: join_def)

lemma path_safe_last: "path_safe tun \<Longrightarrow> tun \<noteq> [] \<and> last tun \<noteq> CHR ''/''"
proof -
  assume p: "path_safe tun"
  then have "last tun \<in> set tun" by (simp add: path_safe_def)
  with p have "is_alnum (last tun) \<or> last tun = CHR ''-'' \<or> last tun = CHR ''.''" unfolding path_safe_def list_all_iff by blast
  with p show ?thesis by (auto simp: path_safe_def is_alnum_def is_digit_def is_upper_def is_lower_def)
qed

lemma token_in_dir:
  assumes "path_safe tun" "\<not> starts_with ''/'' tid"
  shows "starts_with (operate_tokens_dir b tun @ ''/'') (operate_token_path b tun tid)"
proof -
  have p: "operate_tokens_dir b tun \<noteq> []" "\<not> ends_with ''/'' (operate_tokens_dir b tun)"
    using path_safe_last [OF assms(1)] join_ends [of tun "join (auth_dir b) ''operate_tokens''"]
    by (simp_all add: operate_tokens_dir_def ends_with_last)
  have "\<not> starts_with ''/'' (tid @ ''.json'')" using assms(2) by (cases tid) (auto simp: starts_with_def)
  with p have "operate_token_path b tun tid = (operate_tokens_dir b tun @ ''/'') @ tid @ ''.json''"
    by (simp add: operate_token_path_def join_def)
  moreover have "starts_with a (a @ c)" for a c by (simp add: starts_with_def strip_prefix_Some)
  ultimately show ?thesis by metis
qed

lemma forgotten_denied [simp]: "denied (the_disk (forget_tunnel tun d)) = denied (the_disk d)"
  by (simp add: forget_tunnel_def with_disk_def delete_tokens_for_tunnel_def remove_inspector_target_def Let_def)

lemma deletion_core:
  assumes run: "run_state (delete_tunnel_internal libs tun who d) w = ((r, d'), w')"
  shows "case r of
      Inl e \<Rightarrow> d' = d \<and> map request (trace w') = map request (trace w) @ [DeleteActive tun]
    | Inr _ \<Rightarrow> map_of (da_running d') tun = None \<and> map_of (da_inspectors d') tun = None \<and>
        (\<forall>tid secret t. path_safe tun \<longrightarrow> \<not> starts_with ''/'' tid \<longrightarrow> \<not> denied (the_disk d) (operate_tokens_dir (the_dir d) tun) \<longrightarrow>
           \<not> validate_operate_secret (dl_codec libs) (the_dir d) tun tid secret t (the_disk d'))"
proof -
  obtain x v where v: "run_state (ask (DeleteActive tun)) w = (x, v)" by fastforce
  from run_ask [OF v] have tv: "map request (trace v) = map request (trace w) @ [DeleteActive tun]" by auto
  show ?thesis
  proof (cases "dr_outcome x")
    case (Inl e)
    with run v have "r = Inl (err_response e) \<and> d' = d \<and> w' = v"
      by (auto simp: delete_tunnel_internal_def dtry_def call_def ask_as_def reply_def)
    with tv show ?thesis by simp
  next
    case (Inr out)
    obtain ru d1 where t: "take_running tun d = (ru, d1)" by fastforce
    obtain u w2 where u: "run_state (stop_heartbeat ru d1) v = (u, w2)" by (metis surj_pair)
    from run v u t Inr have d': "r = Inr out" "d' = with_disk (forget_tunnel tun d1)
        (append_audit (dl_codec libs) (the_dir (forget_tunnel tun d1)) ''delete'' tun who (word_of_nat (clock w2)) (the_disk (forget_tunnel tun d1)))"
      by (auto simp: delete_tunnel_internal_def dtry_def call_def ask_as_def reply_def audited_def)
    have d1: "map_of (da_running d1) tun = None" "the_disk d1 = the_disk d" "the_dir d1 = the_dir d"
      using t by (auto simp: take_running_def delete_conv')
    have dir: "the_dir (forget_tunnel tun d1) = the_dir d" using d1 by (simp add: forget_tunnel_def with_disk_def Let_def)
    have "\<not> validate_operate_secret (dl_codec libs) (the_dir d) tun tid secret now1 (the_disk d')"
      if "path_safe tun" "\<not> starts_with ''/'' tid" "\<not> denied (the_disk d) (operate_tokens_dir (the_dir d) tun)" for tid secret now1
    proof -
      let ?p = "operate_token_path (the_dir d) tun tid"
      have "read_file (the_disk d') ?p = read_file (the_disk (forget_tunnel tun d1)) ?p"
        unfolding d'(2) dir by (simp add: with_disk_def append_audit_read)
      moreover have "\<exists>e. read_file (the_disk (forget_tunnel tun d1)) ?p = Inl e"
      proof -
        obtain dk where dk: "the_disk (forget_tunnel tun d1) = remove_dir (operate_tokens_dir (the_dir d) tun) dk" "denied dk = denied (the_disk d)"
          using d1 by (simp add: forget_tunnel_def with_disk_def Let_def delete_tokens_for_tunnel_def remove_inspector_target_def)
        with that token_in_dir [OF that(1,2)] show ?thesis by (auto simp: remove_dir_read) (auto simp: read_file_def)
      qed
      ultimately show ?thesis by (auto simp: validate_operate_secret_def)
    qed
    with d' d1 show ?thesis by (auto simp: with_disk_def forget_tunnel_def Let_def delete_conv')
  qed
qed

text \<open>
  C35: deleting a tunnel is all or nothing on this machine: when the tunnel service refuses, the daemon and its files are as they were and nothing else was asked; when it deletes, the tunnel no longer runs, has no inspector, and no operate token of it opens anything any more.
\<close>

theorem deletion_is_all_or_nothing:
  assumes "run_state (delete_tunnel_internal libs tun who d) w = ((r, d'), w')"
  shows "case r of
      Inl e \<Rightarrow> d' = d \<and> map request (trace w') = map request (trace w) @ [DeleteActive tun]
    | Inr _ \<Rightarrow> map_of (da_running d') tun = None \<and> map_of (da_inspectors d') tun = None \<and>
        (\<forall>tid secret t. path_safe tun \<longrightarrow> \<not> starts_with ''/'' tid \<longrightarrow> \<not> denied (the_disk d) (operate_tokens_dir (the_dir d) tun) \<longrightarrow>
           \<not> validate_operate_secret (dl_codec libs) (the_dir d) tun tid secret t (the_disk d'))"
  by (rule deletion_core [OF assms])

theorem deletion_is_all_or_nothing_witness:
  "\<exists>w. run_state (delete_tunnel_internal demo_libs ''t1'' ''setup'' demo_daemon) demo_world = ((Inl (err_response ''offline''), demo_daemon), w) \<and>
     map request (trace w) = [DeleteActive ''t1'']"
proof -
  obtain r d w where run: "run_state (delete_tunnel_internal demo_libs ''t1'' ''setup'' demo_daemon) demo_world = ((r, d), w)" by (metis surj_pair)
  moreover have "r = Inl (err_response ''offline'')" using run
    by (simp add: delete_tunnel_internal_def dtry_def call_def demo_world_def reply_def)
  moreover have "trace demo_world = []" by (simp add: demo_world_def)
  ultimately show ?thesis using deletion_is_all_or_nothing [OF run] by simp
qed

end
