(* ===== verification/Daemon_Rounds.thy ===== *)
theory Daemon_Rounds
  imports Daemon_Requests
begin

text \<open>
  The rounds that nobody asks for: the sweep of tunnels left on, and the reconciliation at the start.
\<close>

section \<open>The sweep\<close>

definition expires :: "nat \<Rightarrow> daemon \<Rightarrow> str \<times> running_tunnel \<Rightarrow> bool" where
  "expires t d x \<longleftrightarrow> t - ru_started_at (snd x) > da_max_runtime d \<and> fst x \<notin> da_busy d"

text \<open>What ending a tunnel asks.\<close>

definition ending :: "str \<Rightarrow> str \<times> running_tunnel \<Rightarrow> daemon_request list" where
  "ending project x = [SetEnabled (Own (ru_key (snd x))) (fst x) False, StopHeartbeat (ru_key (snd x)) project]"

lemma stop_busy: "tun \<in> da_busy d \<Longrightarrow> run_state (stop_tunnel_internal libs tun why who d) w = ((r, d'), w') \<Longrightarrow> d' = d \<and> w' = w"
  by (auto simp: stop_tunnel_internal_def while_busy_def claim_busy_def reply_def)

lemma stop_running:
  assumes "tun \<notin> da_busy d" "map_of (da_running d) tun = Some ru" "run_state (stop_tunnel_internal libs tun why who d) w = ((r, d'), w')"
  shows "da_running d' = AList.delete tun (da_running d) \<and> da_busy d' = da_busy d \<and> da_project d' = da_project d \<and>
    map request (trace w') = map request (trace w) @ ending (da_project d) (tun, ru)"
proof -
  obtain x v where v: "run_state (ask (SetEnabled (Own (ru_key ru)) tun False)) w = (x, v)" by fastforce
  from run_ask [OF v] have "map request (trace v) = map request (trace w) @ [SetEnabled (Own (ru_key ru)) tun False]" by auto
  with v assms show ?thesis
    by (auto simp: stop_tunnel_internal_def while_busy_def claim_busy_def stop_claimed_def take_running_def ask_as_def stop_heartbeat_def
        release_busy_def reply_def audited_def with_disk_def ending_def split: sum.splits)
qed

lemma delete_filter: "AList.delete k xs = filter (\<lambda>x. fst x \<noteq> k) xs"
  by (induction xs) auto

lemma stop_each_run:
  assumes "distinct (map fst ys)" "\<And>x. x \<in> set ys \<Longrightarrow> map_of (da_running d) (fst x) = Some (snd x)"
    "run_state (stop_each libs (map fst ys) d) w = (d', w')"
  shows "da_running d' = filter (\<lambda>x. fst x \<in> da_busy d \<or> fst x \<notin> fst ` set ys) (da_running d) \<and> da_project d' = da_project d \<and> da_busy d' = da_busy d \<and>
    map request (trace w') = map request (trace w) @ concat (map (ending (da_project d)) (filter (\<lambda>x. fst x \<notin> da_busy d) ys))"
  using assms
proof (induction ys arbitrary: d w)
  case (Cons y ys)
  obtain r d1 w1 where s: "run_state (stop_tunnel_internal libs (fst y) AutoExpired ''system'' d) w = ((r, d1), w1)" by (metis surj_pair)
  with Cons.prems(3) have rest: "run_state (stop_each libs (map fst ys) d1) w1 = (d', w')" by simp
  have y: "map_of (da_running d) (fst y) = Some (snd y)" using Cons.prems(2) by simp
  show ?case
  proof (cases "fst y \<in> da_busy d")
    case True
    with stop_busy [OF True s] Cons.IH [OF _ _ rest] Cons.prems show ?thesis by (auto intro: filter_cong)
  next
    case False
    note s1 = stop_running [OF False y s [unfolded prod.collapse]]
    have "map_of (da_running d1) (fst x) = Some (snd x)" if "x \<in> set ys" for x
    proof -
      have "fst x \<noteq> fst y" using Cons.prems(1) that by (metis distinct.simps(2) image_eqI list.set_map list.simps(9))
      with Cons.prems(2) that s1 show ?thesis by (simp add: delete_conv')
    qed
    from Cons.IH [OF _ this rest] Cons.prems(1) s1 have i: "da_running d' = filter (\<lambda>x. fst x \<in> da_busy d \<or> fst x \<notin> fst ` set ys) (da_running d1)"
        "da_project d' = da_project d" "da_busy d' = da_busy d"
        "map request (trace w') = map request (trace w1) @ concat (map (ending (da_project d)) (filter (\<lambda>x. fst x \<notin> da_busy d) ys))" by simp_all
    have "filter (\<lambda>x. fst x \<in> da_busy d \<or> fst x \<notin> fst ` set ys) (filter (\<lambda>x. fst x \<noteq> fst y) (da_running d)) =
        filter (\<lambda>x. fst x \<in> da_busy d \<or> fst x \<notin> fst ` set (y # ys)) (da_running d)"
      unfolding filter_filter using False by (intro filter_cong) auto
    with i s1 False show ?thesis by (simp add: delete_filter)
  qed
qed simp

lemma sweep_core:
  assumes "distinct (map fst (da_running d))" "run_state (sweep_round libs d) w = (d', w')"
  shows "da_running d' = filter (\<lambda>x. \<not> expires (clock w) d x) (da_running d) \<and>
    map request (trace w') = map request (trace w) @ concat (map (ending (da_project d)) (filter (expires (clock w) d) (da_running d)))"
proof -
  let ?old = "\<lambda>x :: str \<times> running_tunnel. clock w - ru_started_at (snd x) > da_max_runtime d"
  let ?ys = "filter ?old (da_running d)"
  have run: "run_state (stop_each libs (map fst ?ys) d) w = (d', w')"
    using assms(2) by (simp add: sweep_round_def expired_now_def case_prod_unfold)
  have d: "distinct (map fst ?ys)" using assms(1) by (rule distinct_map_filter)
  have m: "map_of (da_running d) (fst x) = Some (snd x)" if "x \<in> set ?ys" for x
    using that assms(1) map_of_is_SomeI [of "da_running d" "fst x" "snd x"] by simp
  have "fst x \<in> fst ` set ?ys \<longleftrightarrow> ?old x" if "x \<in> set (da_running d)" for x
  proof
    assume "fst x \<in> fst ` set ?ys"
    then obtain y where y: "y \<in> set (da_running d)" "?old y" "fst y = fst x" by auto
    then have "snd y = snd x" using that assms(1) eq_key_imp_eq_value [of "da_running d" "fst x" "snd x" "snd y"] by (metis prod.collapse)
    with y show "?old x" by simp
  qed (use that in auto)
  then have "filter (\<lambda>x. fst x \<in> da_busy d \<or> fst x \<notin> fst ` set ?ys) (da_running d) = filter (\<lambda>x. \<not> expires (clock w) d x) (da_running d)"
    by (intro filter_cong) (auto simp: expires_def)
  moreover have "filter (\<lambda>x. fst x \<notin> da_busy d) ?ys = filter (expires (clock w) d) (da_running d)"
    by (auto simp: expires_def [abs_def] conj_commute)
  ultimately show ?thesis using stop_each_run [OF d m run] by simp
qed

text \<open>
  C37: a round of the sweep ends exactly the tunnels that have run longer than allowed and are not being started or stopped, each with its own service and its own heartbeat, and keeps the others. It does so whatever the tunnel service answers: a tunnel that could not be disabled no longer counts as running either, and no later round tries it again.
\<close>

theorem sweep_ends_the_expired:
  assumes "distinct (map fst (da_running d))" "run_state (sweep_round libs d) w = (d', w')"
  shows "da_running d' = filter (\<lambda>x. \<not> expires (clock w) d x) (da_running d) \<and>
    map request (trace w') = map request (trace w) @ concat (map (ending (da_project d)) (filter (expires (clock w) d) (da_running d)))"
  by (rule sweep_core [OF assms])

theorem sweep_ends_the_expired_witness:
  "\<exists>d w. run_state (sweep_round demo_libs (demo_daemon\<lparr>da_running := [(''t1'', \<lparr>ru_key = ''k'', ru_started_at = 400\<rparr>), (''t2'', \<lparr>ru_key = ''l'', ru_started_at = 600\<rparr>)],
       da_max_runtime := 500\<rparr>)) (demo_world\<lparr>environment := (\<lambda>_ _ _. (RSummary (Inl ''offline''), 7))\<rparr>) = (d, w) \<and>
     map fst (da_running d) = [''t2''] \<and> map request (trace w) = [SetEnabled (Own ''k'') ''t1'' False, StopHeartbeat ''k'' ''p1'']"
proof -
  let ?d = "demo_daemon\<lparr>da_running := [(''t1'', \<lparr>ru_key = ''k'', ru_started_at = 400\<rparr>), (''t2'', \<lparr>ru_key = ''l'', ru_started_at = 600\<rparr>)], da_max_runtime := 500\<rparr>"
  let ?w = "demo_world\<lparr>environment := (\<lambda>_ _ _. (RSummary (Inl ''offline''), 7))\<rparr>"
  obtain d w where run: "run_state (sweep_round demo_libs ?d) ?w = (d, w)" by (metis surj_pair)
  have "distinct (map fst (da_running ?d))" by simp
  from sweep_ends_the_expired [OF this run] run show ?thesis
    by (simp add: expires_def ending_def demo_world_def demo_daemon_def start_daemon_def)
qed

section \<open>Which tunnels are stopped at the start\<close>

lemma partition_from:
  "fold (partition_step label f) ts \<lparr>pa_active = Some a, pa_older = os\<rparr> = \<lparr>pa_active = Some a, pa_older = os @ filter (\<lambda>t. f (ts_id t)) ts\<rparr>"
  by (induction ts arbitrary: os) (simp_all add: partition_step_def)

lemma partition_core:
  "fold (partition_step label f) ts \<lparr>pa_active = None, pa_older = os\<rparr> = (case find (\<lambda>t. ts_label t = label) ts of
     None \<Rightarrow> \<lparr>pa_active = None, pa_older = os @ filter (\<lambda>t. f (ts_id t)) ts\<rparr>
   | Some a \<Rightarrow> \<lparr>pa_active = Some a, pa_older = os @ filter (\<lambda>t. f (ts_id t)) (remove1 a ts)\<rparr>)"
proof (induction ts arbitrary: os)
  case (Cons t ts)
  show ?case
  proof (cases "ts_label t = label")
    case True
    then have "partition_step label f t \<lparr>pa_active = None, pa_older = os\<rparr> = \<lparr>pa_active = Some t, pa_older = os\<rparr>" by (simp add: partition_step_def)
    with True show ?thesis by (simp add: partition_from)
  next
    case False
    then have "partition_step label f t \<lparr>pa_active = None, pa_older = os\<rparr> = \<lparr>pa_active = None, pa_older = if f (ts_id t) then os @ [t] else os\<rparr>"
      by (simp add: partition_step_def)
    moreover have "find (\<lambda>t. ts_label t = label) ts = Some a \<Longrightarrow> a \<noteq> t" for a using False by (auto simp: find_Some_iff)
    ultimately show ?thesis using False Cons by (auto split: option.split)
  qed
qed simp

text \<open>
  with a label given, the add-on's tunnel is the first one that has it, and the older tunnels are all the others the daemon has local state for, in the order listed: one that another machine of the project made is neither.
\<close>

theorem partition_is_local:
  "partition_tunnels ts label f = (case find (\<lambda>t. ts_label t = label) ts of
     None \<Rightarrow> \<lparr>pa_active = None, pa_older = filter (\<lambda>t. f (ts_id t)) ts\<rparr>
   | Some a \<Rightarrow> \<lparr>pa_active = Some a, pa_older = filter (\<lambda>t. f (ts_id t)) (remove1 a ts)\<rparr>)"
  by (simp add: partition_tunnels_def partition_core split: option.split)

text \<open>No request but these disables a tunnel.\<close>

definition disables_only :: "(str \<Rightarrow> bool) \<Rightarrow> daemon_request \<Rightarrow> bool" where
  "disables_only ok q = (case q of SetEnabled _ tun False \<Rightarrow> ok tun | _ \<Rightarrow> True)"

lemma disables_simps [simp]: "disables_only ok (SetEnabled s tun b) \<longleftrightarrow> b \<or> ok tun" "disables_only ok ListActive" "disables_only ok (GetActive s t)"
    "disables_only ok (UpdateActive s t l e)" "disables_only ok (RetargetActive s t e)" "disables_only ok (CleanupOrphaned s)" "disables_only ok (SpawnInspector u p)"
    "disables_only ok GenerateKey" "disables_only ok (NewNode k)" "disables_only ok (StartHeartbeat k p')" "disables_only ok (StopHeartbeat k p')" "disables_only ok (HasRelay k)"
  by (cases b; simp add: disables_only_def)+

lemma asks_spawn [asks_intros]: "P (SpawnInspector (rt_uri t) p) \<Longrightarrow> asks_only P (spawn_inspector t p d)"
  unfolding spawn_inspector_def by (intro asks_intros)

lemma start_disables: "asks_only (disables_only ok) (start_tunnel_internal libs tun who target d)"
proof -
  have "asks_only (disables_only ok) (start_stopped libs tun who t repoint d)" for t repoint d
    unfolding start_stopped_def
    by (auto intro!: asks_dtry asks_new_inspector asks_resolve asks_daemon_call asks_save_key asks_bind asks_signal asks_await asks_dropping asks_bring_up split: prod.split)
  then have "asks_only (disables_only ok) (start_claimed libs tun who repoint d)" for repoint d
    unfolding start_claimed_def repoint_running_def by (auto intro!: asks_intros split: option.split)
  then show ?thesis unfolding start_tunnel_internal_def Let_def by (auto intro!: asks_intros)
qed

lemma stop_disables: "ok tun \<Longrightarrow> asks_only (disables_only ok) (stop_tunnel_internal libs tun why who d)"
  unfolding stop_tunnel_internal_def stop_claimed_def stop_heartbeat_def take_running_def by (auto intro!: asks_intros split: option.split)

lemma stop_older_disables: "\<forall>t \<in> set ts. ok (ts_id t) \<Longrightarrow> asks_only (disables_only ok) (stop_older libs ts d)"
  by (induction ts arbitrary: d) (auto intro!: asks_intros stop_disables)

lemma reconcile_each_disables: "asks_only (disables_only ok) (reconcile_each libs ts d)"
proof (induction ts arbitrary: d)
  case (Cons t ts)
  have "asks_only (disables_only ok) (reconcile_one libs t d)"
    unfolding reconcile_one_def reconcile_at_def resume_if_def by (auto intro!: asks_intros start_disables)
  with Cons show ?case by (auto intro!: asks_intros)
qed (simp add: asks_intros)

lemma older_local: "tun \<in> older_ids ts d \<Longrightarrow> da_exclusive d \<noteq> None \<and> is_locally_known (the_dir d) (da_project d) tun (the_disk d)"
  by (auto simp: older_ids_def partition_tunnels_def partition_core split: option.splits)

definition ours_to_stop :: "daemon \<Rightarrow> str \<Rightarrow> bool" where
  "ours_to_stop d tun \<longleftrightarrow> da_exclusive d \<noteq> None \<and> is_locally_known (the_dir d) (da_project d) tun (the_disk d)"


end
