(* ===== verification/Inspector.thy ===== *)
theory Inspector
  imports Daemon
begin

text \<open>
  The traffic inspector, \<open>daemon/src/inspector.rs\<close>, and the routes of \<open>main.rs\<close> that read and replay what it captured. A body is the list of what polling it gives; a request to the target is answered with how far its body was polled.
\<close>

section \<open>Text from bytes\<close>

text \<open>\<^verbatim>\<open>String::from_utf8_lossy\<close>: every longest start of a character that does not end as one becomes U+FFFD.\<close>

definition continues :: "char \<Rightarrow> bool" where
  "continues c \<longleftrightarrow> 0x80 \<le> code c \<and> code c \<le> 0xBF"

definition char_len :: "char \<Rightarrow> nat" where
  "char_len c = (if code c < 0x80 then 1 else if 0xC2 \<le> code c \<and> code c \<le> 0xDF then 2
     else if 0xE0 \<le> code c \<and> code c \<le> 0xEF then 3 else if 0xF0 \<le> code c \<and> code c \<le> 0xF4 then 4 else 0)"

definition second_ok :: "char \<Rightarrow> char \<Rightarrow> bool" where
  "second_ok a b \<longleftrightarrow> continues b \<and> (code a = 0xE0 \<longrightarrow> 0xA0 \<le> code b) \<and> (code a = 0xED \<longrightarrow> code b \<le> 0x9F) \<and>
     (code a = 0xF0 \<longrightarrow> 0x90 \<le> code b) \<and> (code a = 0xF4 \<longrightarrow> code b \<le> 0x8F)"

definition rest_len :: "char \<Rightarrow> str \<Rightarrow> nat" where
  "rest_len a s = (case s of [] \<Rightarrow> 0
     | b # s' \<Rightarrow> if second_ok a b then Suc (length (takeWhile continues (take (char_len a - 2) s'))) else 0)"

definition REPLACEMENT :: str where "REPLACEMENT = [CHR 0xEF, CHR 0xBF, CHR 0xBD]"

function utf8_lossy :: "str \<Rightarrow> str" where
  "utf8_lossy [] = []"
| "utf8_lossy (a # s) = (if char_len a = 0 then REPLACEMENT @ utf8_lossy s
     else if char_len a = 1 then a # utf8_lossy s
     else if rest_len a s = char_len a - 1 then a # take (char_len a - 1) s @ utf8_lossy (drop (char_len a - 1) s)
     else REPLACEMENT @ utf8_lossy (drop (rest_len a s) s))"
  by pat_completeness auto
termination by (relation "measure length") auto

section \<open>Captures\<close>

type_synonym headers = "(str \<times> str) list"

definition CAPTURE_CAP_BYTES :: nat where "CAPTURE_CAP_BYTES = 64 * 1024"
definition MAX_EXCHANGES_PER_TUNNEL :: nat where "MAX_EXCHANGES_PER_TUNNEL = 50"

record captured_message =
  cm_headers :: headers
  cm_body :: str
  cm_truncated :: bool

record captured_exchange =
  ce_id :: str
  ce_timestamp :: nat
  ce_method :: str
  ce_path :: str
  ce_request :: captured_message
  ce_status :: "nat option"
  ce_response :: "captured_message option"

record exchange_summary =
  es_id :: str
  es_timestamp :: nat
  es_method :: str
  es_path :: str
  es_status :: "nat option"

definition summary_of_exchange :: "captured_exchange \<Rightarrow> exchange_summary" where
  "summary_of_exchange e = \<lparr>es_id = ce_id e, es_timestamp = ce_timestamp e, es_method = ce_method e, es_path = ce_path e, es_status = ce_status e\<rparr>"

record capture_sink =
  cs_buf :: str
  cs_truncated :: bool

definition new_sink :: capture_sink where "new_sink = \<lparr>cs_buf = [], cs_truncated = False\<rparr>"

definition push_capture :: "str \<Rightarrow> capture_sink \<Rightarrow> capture_sink" where
  "push_capture data s = (if cs_truncated s then s
     else (let take_n = min (CAPTURE_CAP_BYTES - length (cs_buf s)) (length data)
       in \<lparr>cs_buf = cs_buf s @ take take_n data, cs_truncated = take_n < length data\<rparr>))"

definition into_message :: "headers \<Rightarrow> capture_sink \<Rightarrow> captured_message" where
  "into_message hs s = \<lparr>cm_headers = hs, cm_body = utf8_lossy (cs_buf s), cm_truncated = cs_truncated s\<rparr>"

text \<open>One poll of a body, and all of them; the flag says whether the end is still to be reported.\<close>

datatype body_frame = Data str | Trailers headers
datatype polled = PollPending | PollFrame body_frame | PollFailed str | PollEnd

record tee_body =
  tb_sink :: capture_sink
  tb_waiting :: bool

definition poll_frame :: "polled \<Rightarrow> tee_body \<Rightarrow> polled \<times> tee_body" where
  "poll_frame p t = (p, (case p of
     PollFrame (Data b) \<Rightarrow> t\<lparr>tb_sink := push_capture b (tb_sink t)\<rparr>
   | PollFrame (Trailers _) \<Rightarrow> t
   | PollEnd \<Rightarrow> t\<lparr>tb_waiting := False\<rparr>
   | PollFailed _ \<Rightarrow> t\<lparr>tb_waiting := False\<rparr>
   | PollPending \<Rightarrow> t))"

fun tee :: "polled list \<Rightarrow> tee_body \<Rightarrow> polled list \<times> tee_body" where
  "tee [] t = ([], t)"
| "tee (p # ps) t = (case poll_frame p t of (q, t') \<Rightarrow> (case tee ps t' of (qs, t'') \<Rightarrow> (q # qs, t'')))"

definition new_tee :: tee_body where "new_tee = \<lparr>tb_sink = new_sink, tb_waiting = True\<rparr>"

text \<open>The bytes of a body.\<close>

definition data_of_poll :: "polled \<Rightarrow> str" where
  "data_of_poll p = (case p of PollFrame (Data b) \<Rightarrow> b | _ \<Rightarrow> [])"

abbreviation body_bytes :: "polled list \<Rightarrow> str" where
  "body_bytes ps \<equiv> concat (map data_of_poll ps)"

section \<open>Headers\<close>

text \<open>
  A header map is the list of its pairs, names in lower case, values of one name in their order. \<open>to_str\<close> of a value is the http crate's: None when the value is not text.
\<close>

definition SENSITIVE_HEADERS :: "str list" where
  "SENSITIVE_HEADERS = [''authorization'', ''proxy-authorization'', ''cookie'', ''set-cookie'', ''x-api-key'', ''x-auth-token'']"

definition HOP_BY_HOP_HEADERS :: "str list" where
  "HOP_BY_HOP_HEADERS = [''connection'', ''content-length'', ''keep-alive'', ''proxy-authenticate'', ''proxy-authorization'', ''te'',
     ''trailer'', ''transfer-encoding'', ''upgrade'']"

definition REDACTED :: str where "REDACTED = ''[redacted]''"

definition header_pairs :: "(str \<Rightarrow> str option) \<Rightarrow> headers \<Rightarrow> headers" where
  "header_pairs to_str hs = map (\<lambda>(k, v). (k, if k \<in> set SENSITIVE_HEADERS then REDACTED
     else case to_str v of Some t \<Rightarrow> t | None \<Rightarrow> ''<binary>'')) hs"

definition copy_origin_headers :: "headers \<Rightarrow> headers \<Rightarrow> headers" where
  "copy_origin_headers dst src = dst @ filter (\<lambda>(k, v). k \<notin> set HOP_BY_HOP_HEADERS) src"

text \<open>Setting a header drops its other values.\<close>

definition hm_insert :: "str \<Rightarrow> str \<Rightarrow> headers \<Rightarrow> headers" where
  "hm_insert k v hs = filter (\<lambda>(k', v'). k' \<noteq> k) hs @ [(k, v)]"

definition set_host_header :: "(str \<Rightarrow> bool) \<Rightarrow> str \<Rightarrow> headers \<Rightarrow> headers" where
  "set_host_header valid authority hs = (if valid authority then hm_insert ''host'' authority hs else hs)"

definition is_upgrade_request :: "(str \<Rightarrow> str option) \<Rightarrow> headers \<Rightarrow> bool" where
  "is_upgrade_request to_str hs = (case Option.bind (map_of hs ''connection'') to_str of
     Some v \<Rightarrow> has_sub ''upgrade'' (lowercase v) | None \<Rightarrow> False)"

section \<open>The inspector\<close>

text \<open>The parts of a URI; \<open>from_parts\<close> refuses some combinations.\<close>

record uri_parts =
  up_scheme :: "str option"
  up_authority :: "str option"
  up_path :: "str option"

record inspector_libs =
  il_to_str :: "str \<Rightarrow> str option"
  il_header_ok :: "str \<Rightarrow> bool"
  il_from_parts :: "uri_parts \<Rightarrow> str option"
  il_path :: "str \<Rightarrow> str + str"
  il_builder :: "str \<Rightarrow> headers \<Rightarrow> str option"

record in_request =
  rq_method :: str
  rq_path :: "str option"
  rq_headers :: headers
  rq_body :: "polled list"

record out_request =
  or_method :: str
  or_uri :: uri_parts
  or_headers :: headers
  or_body :: "polled list"

record http_response =
  rs_status :: nat
  rs_headers :: headers
  rs_body :: "polled list"

text \<open>
  What an inspector asks: the target, with how many polls of the request's body were made before it was let go; a random number for an exchange's name.
\<close>

datatype inspector_request = Upstream out_request | UpstreamUpgrade out_request | RandomNumber
datatype inspector_reply = Answered nat "str + http_response" | Number nat

fun ir_answer :: "inspector_reply \<Rightarrow> nat \<times> (str + http_response)" where "ir_answer (Answered n r) = (n, r)" | "ir_answer _ = (0, Inl [])"
fun ir_number :: "inspector_reply \<Rightarrow> nat" where "ir_number (Number n) = n" | "ir_number _ = 0"

type_synonym 'a insp = "(inspector_request, inspector_reply, 'a) io"

record inspector =
  is_target :: uri_parts
  is_exchanges :: "captured_exchange list"
  is_relays :: nat

definition hex_char :: "nat \<Rightarrow> char" where
  "hex_char n = ''0123456789abcdef'' ! (n mod 16)"

definition new_exchange_id :: "nat \<Rightarrow> str" where
  "new_exchange_id n = ''ex-'' @ map (\<lambda>i. hex_char (n div 16 ^ (15 - i))) [0..<16]"

definition record_exchange :: "inspector \<Rightarrow> str \<Rightarrow> str \<Rightarrow> captured_message \<Rightarrow> nat option \<Rightarrow> captured_message option \<Rightarrow> inspector insp" where
  "record_exchange st method1 path1 rq status response = do {
     n \<leftarrow> ask_as ir_number RandomNumber;
     t \<leftarrow> now;
     State_Monad.return (st\<lparr>is_exchanges := take MAX_EXCHANGES_PER_TUNNEL (\<lparr>ce_id = new_exchange_id n, ce_timestamp = t, ce_method = method1,
       ce_path = path1, ce_request = rq, ce_status = status, ce_response = response\<rparr> # is_exchanges st)\<rparr>) }"

text \<open>The bytes of a body collected to its end: none when it failed.\<close>

definition collected :: "polled list \<Rightarrow> str + str" where
  "collected ps = (case find (\<lambda>p. case p of PollFailed _ \<Rightarrow> True | _ \<Rightarrow> False) ps of
     Some (PollFailed e) \<Rightarrow> Inl e | _ \<Rightarrow> Inr (body_bytes ps))"

definition SWITCHING_PROTOCOLS :: nat where "SWITCHING_PROTOCOLS = 101"

definition proxy_upgrade :: "inspector_libs \<Rightarrow> inspector \<Rightarrow> in_request \<Rightarrow> uri_parts \<Rightarrow> str \<Rightarrow> (((nat \<times> str) + http_response) \<times> inspector) insp" where
  "proxy_upgrade libs st req target authority = do {
     (_, r) \<leftarrow> ask_as ir_answer (UpstreamUpgrade \<lparr>or_method = rq_method req, or_uri = target,
       or_headers = set_host_header (il_header_ok libs) authority (rq_headers req), or_body = [PollEnd]\<rparr>);
     State_Monad.return (case r of
       Inl e \<Rightarrow> (Inl (502, ''upstream error: '' @ e), st)
     | Inr resp \<Rightarrow> if rs_status resp \<noteq> SWITCHING_PROTOCOLS
         then (Inr (resp\<lparr>rs_body := [PollFrame (Data (case collected (rs_body resp) of Inl _ \<Rightarrow> [] | Inr b \<Rightarrow> b)), PollEnd]\<rparr>), st)
         else (Inr (resp\<lparr>rs_body := [PollEnd]\<rparr>), st\<lparr>is_relays := Suc (is_relays st)\<rparr>)) }"

definition proxy_handler :: "inspector_libs \<Rightarrow> inspector \<Rightarrow> in_request \<Rightarrow> (((nat \<times> str) + http_response) \<times> inspector) insp" where
  "proxy_handler libs st req =
     (let path1 = (case rq_path req of Some p \<Rightarrow> p | None \<Rightarrow> ''/'');
          req_headers = header_pairs (il_to_str libs) (rq_headers req);
          target = (is_target st)\<lparr>up_path := rq_path req\<rparr>
      in case il_from_parts libs target of
        Some e \<Rightarrow> State_Monad.return (Inl (502, ''bad upstream uri: '' @ e), st)
      | None \<Rightarrow> (let authority = (case up_authority target of Some a \<Rightarrow> a | None \<Rightarrow> []) in
          if is_upgrade_request (il_to_str libs) (rq_headers req) then proxy_upgrade libs st req target authority
          else do {
            (n, r) \<leftarrow> ask_as ir_answer (Upstream \<lparr>or_method = rq_method req, or_uri = target,
              or_headers = set_host_header (il_header_ok libs) authority (rq_headers req), or_body = fst (tee (rq_body req) new_tee)\<rparr>);
            (let rq = into_message req_headers (tb_sink (snd (tee (take n (rq_body req)) new_tee))) in (case r of
              Inl e \<Rightarrow> do { st' \<leftarrow> record_exchange st (rq_method req) path1 rq None None;
                State_Monad.return (Inl (502, ''upstream error: '' @ e), st') }
            | Inr resp \<Rightarrow> (case tee (rs_body resp) new_tee of (passed, t) \<Rightarrow> do {
                st' \<leftarrow> record_exchange st (rq_method req) path1 rq (Some (rs_status resp))
                  (Some (into_message (header_pairs (il_to_str libs) (rs_headers resp)) (tb_sink t)));
                State_Monad.return (Inr \<lparr>rs_status = rs_status resp, rs_headers = copy_origin_headers [] (rs_headers resp), rs_body = passed\<rparr>, st') }))) }))"

definition list_exchanges :: "inspector \<Rightarrow> exchange_summary list" where
  "list_exchanges st = map summary_of_exchange (is_exchanges st)"

definition get_exchange :: "inspector \<Rightarrow> str \<Rightarrow> captured_exchange option" where
  "get_exchange st i = find (\<lambda>e. ce_id e = i) (is_exchanges st)"

section \<open>The routes over captures\<close>

definition list_traffic :: "(str \<times> inspector) list \<Rightarrow> str \<Rightarrow> http_failure + exchange_summary list" where
  "list_traffic inspectors tun = (case map_of inspectors tun of Some st \<Rightarrow> Inr (list_exchanges st) | None \<Rightarrow> Inl (not_found tun))"

definition get_traffic_exchange :: "(str \<times> inspector) list \<Rightarrow> str \<Rightarrow> str \<Rightarrow> http_failure + captured_exchange" where
  "get_traffic_exchange inspectors tun i = (case map_of inspectors tun of
     Some st \<Rightarrow> (case get_exchange st i of Some e \<Rightarrow> Inr e | None \<Rightarrow> Inl (not_found i))
   | None \<Rightarrow> Inl (not_found tun))"

record replay_result =
  rr_status :: nat
  rr_headers :: headers
  rr_body :: str

definition replay_headers :: "headers \<Rightarrow> headers" where
  "replay_headers hs = filter (\<lambda>(k, v). \<not> (eq_ignore_case k ''content-length'' \<or> eq_ignore_case k ''transfer-encoding'')) hs"

text \<open>The request a replay sends.\<close>

definition replay_request :: "inspector_libs \<Rightarrow> inspector \<Rightarrow> str \<Rightarrow> captured_exchange \<Rightarrow> http_failure + out_request" where
  "replay_request libs st i e =
     (if cm_truncated (ce_request e) then Inl (err_response (''cannot replay '' @ [CHR 0x27] @ i @ [CHR 0x27] @
        '': its captured request body was truncated at the '' @ show_nat (CAPTURE_CAP_BYTES div 1024) @
        ''KB capture cap, so replaying it would send an incomplete body under a mismatched or misleading length''))
      else (case il_path libs (ce_path e) of
        Inl x \<Rightarrow> Inl (err_response (''captured path '' @ [CHR 0x27] @ ce_path e @ [CHR 0x27] @ '' is not replayable: '' @ x))
      | Inr p \<Rightarrow> (let target = (is_target st)\<lparr>up_path := Some p\<rparr> in case il_from_parts libs target of
          Some x \<Rightarrow> Inl (err_response (''bad replay target: '' @ x))
        | None \<Rightarrow> (let hs = replay_headers (cm_headers (ce_request e)) in case il_builder libs (ce_method e) hs of
            Some x \<Rightarrow> Inl (err_response (''bad replay request: '' @ x))
          | None \<Rightarrow> Inr \<lparr>or_method = ce_method e, or_uri = target,
              or_headers = set_host_header (il_header_ok libs) (case up_authority target of Some a \<Rightarrow> a | None \<Rightarrow> []) hs,
              or_body = [PollFrame (Data (cm_body (ce_request e))), PollEnd]\<rparr>))))"

definition REPLAY_LIMIT_MS :: nat where "REPLAY_LIMIT_MS = 30 * 1000"

definition replay_traffic_exchange :: "inspector_libs \<Rightarrow> (str \<times> inspector) list \<Rightarrow> str \<Rightarrow> str \<Rightarrow> (http_failure + replay_result) insp" where
  "replay_traffic_exchange libs inspectors tun i = (case map_of inspectors tun of None \<Rightarrow> State_Monad.return (Inl (not_found tun))
     | Some st \<Rightarrow> (case get_exchange st i of None \<Rightarrow> State_Monad.return (Inl (not_found i))
     | Some e \<Rightarrow> (case replay_request libs st i e of Inl x \<Rightarrow> State_Monad.return (Inl x)
     | Inr out \<Rightarrow> do {
         r \<leftarrow> ask_within_as ir_answer REPLAY_LIMIT_MS (Upstream out);
         State_Monad.return (case r of
           None \<Rightarrow> Inl (err_response (''replay timed out after 30s '' @ [CHR 0xE2, CHR 0x80, CHR 0x94] @ '' the real target may be unresponsive''))
         | Some (_, Inl x) \<Rightarrow> Inl (err_response (''replay failed: '' @ x))
         | Some (_, Inr resp) \<Rightarrow> (case collected (rs_body resp) of
             Inl x \<Rightarrow> Inl (err_response (''failed reading replay response: '' @ x))
           | Inr b \<Rightarrow> Inr \<lparr>rr_status = rs_status resp,
               rr_headers = map (\<lambda>(k, v). (k, case il_to_str libs v of Some t \<Rightarrow> t | None \<Rightarrow> ''<binary>'')) (rs_headers resp),
               rr_body = utf8_lossy b\<rparr>)) })))"

section \<open>Starting and dropping\<close>

text \<open>The port asked for when it can be had, else any: \<open>bind\<close> says what binding a port of the loopback gives, 0 for any.\<close>

definition start_at :: "(nat \<Rightarrow> str + nat) \<Rightarrow> uri_parts \<Rightarrow> nat option \<Rightarrow> str + (nat \<times> inspector)" where
  "start_at bind1 target preferred = (case (case preferred of Some p \<Rightarrow> (case bind1 p of Inr b \<Rightarrow> Some b | Inl _ \<Rightarrow> None) | None \<Rightarrow> None) of
     Some b \<Rightarrow> Inr (b, \<lparr>is_target = target, is_exchanges = [], is_relays = 0\<rparr>)
   | None \<Rightarrow> (case bind1 0 of Inl e \<Rightarrow> Inl (''inspector: failed to bind local port: '' @ e)
       | Inr b \<Rightarrow> Inr (b, \<lparr>is_target = target, is_exchanges = [], is_relays = 0\<rparr>)))"

end
