(* ===== verification/Inspector_Facts.thy ===== *)
theory Inspector_Facts
  imports Inspector
begin

text \<open>
  The inspector changes nothing of what it carries, keeps the last exchanges without their credentials, and replays a request as it was.
\<close>

section \<open>Captures take nothing from the transfer\<close>

definition is_end :: "polled \<Rightarrow> bool" where
  "is_end p \<longleftrightarrow> (case p of PollEnd \<Rightarrow> True | PollFailed _ \<Rightarrow> True | _ \<Rightarrow> False)"

text \<open>The sink that has seen these bytes.\<close>

definition sink_of :: "str \<Rightarrow> capture_sink" where
  "sink_of b = \<lparr>cs_buf = take CAPTURE_CAP_BYTES b, cs_truncated = CAPTURE_CAP_BYTES < length b\<rparr>"

lemma sink_of_Nil: "new_sink = sink_of []"
  by (simp add: new_sink_def sink_of_def)

lemma push_sink: "push_capture b (sink_of a) = sink_of (a @ b)"
  by (auto simp: push_capture_def sink_of_def Let_def min_def)

lemma tee_from:
  "tb_sink t = sink_of a \<Longrightarrow> tee ps t = (ps, \<lparr>tb_sink = sink_of (a @ body_bytes ps), tb_waiting = (tb_waiting t \<and> \<not> list_ex is_end ps)\<rparr>)"
proof (induction ps arbitrary: a t)
  case (Cons p ps)
  have "poll_frame p t = (p, \<lparr>tb_sink = sink_of (a @ data_of_poll p), tb_waiting = (tb_waiting t \<and> \<not> is_end p)\<rparr>)"
    using Cons.prems by (cases t) (auto simp: poll_frame_def push_sink data_of_poll_def is_end_def split: polled.split body_frame.split)
  with Cons.IH [of "\<lparr>tb_sink = sink_of (a @ data_of_poll p), tb_waiting = (tb_waiting t \<and> \<not> is_end p)\<rparr>" "a @ data_of_poll p"]
  show ?case by simp
qed (cases t; simp)

lemma tee_core: "tee ps new_tee = (ps, \<lparr>tb_sink = sink_of (body_bytes ps), tb_waiting = (\<not> list_ex is_end ps)\<rparr>)"
  using tee_from [of new_tee "[]" ps] by (simp add: new_tee_def sink_of_Nil)

lemmas tee_facts [simp] = tee_core

text \<open>The message captured from headers and a body.\<close>

definition message_of :: "inspector_libs \<Rightarrow> headers \<Rightarrow> polled list \<Rightarrow> captured_message" where
  "message_of libs hs ps = into_message (header_pairs (il_to_str libs) hs) (sink_of (body_bytes ps))"

section \<open>One exchange\<close>

definition captures :: "inspector_libs \<Rightarrow> inspector \<Rightarrow> in_request \<Rightarrow> bool" where
  "captures libs st req \<longleftrightarrow> il_from_parts libs ((is_target st)\<lparr>up_path := rq_path req\<rparr>) = None \<and> \<not> is_upgrade_request (il_to_str libs) (rq_headers req)"

definition forwarded :: "inspector_libs \<Rightarrow> inspector \<Rightarrow> in_request \<Rightarrow> out_request" where
  "forwarded libs st req = \<lparr>or_method = rq_method req, or_uri = (is_target st)\<lparr>up_path := rq_path req\<rparr>,
     or_headers = set_host_header (il_header_ok libs) (case up_authority (is_target st) of Some a \<Rightarrow> a | None \<Rightarrow> []) (rq_headers req), or_body = rq_body req\<rparr>"

definition exchange_of :: "inspector_libs \<Rightarrow> in_request \<Rightarrow> nat \<Rightarrow> str + http_response \<Rightarrow> str \<Rightarrow> nat \<Rightarrow> captured_exchange" where
  "exchange_of libs req n answer i t = \<lparr>ce_id = i, ce_timestamp = t, ce_method = rq_method req,
     ce_path = (case rq_path req of Some p \<Rightarrow> p | None \<Rightarrow> ''/''), ce_request = message_of libs (rq_headers req) (take n (rq_body req)),
     ce_status = (case answer of Inl _ \<Rightarrow> None | Inr resp \<Rightarrow> Some (rs_status resp)),
     ce_response = (case answer of Inl _ \<Rightarrow> None | Inr resp \<Rightarrow> Some (message_of libs (rs_headers resp) (rs_body resp)))\<rparr>"

definition relayed :: "str + http_response \<Rightarrow> (nat \<times> str) + http_response" where
  "relayed answer = (case answer of Inl e \<Rightarrow> Inl (502, ''upstream error: '' @ e)
     | Inr resp \<Rightarrow> Inr \<lparr>rs_status = rs_status resp, rs_headers = copy_origin_headers [] (rs_headers resp), rs_body = rs_body resp\<rparr>)"

lemma record_run: "run_state (record_exchange st m p rq s resp) w = (st', w') \<Longrightarrow>
    \<exists>i t. st' = st\<lparr>is_exchanges := take MAX_EXCHANGES_PER_TUNNEL (\<lparr>ce_id = i, ce_timestamp = t, ce_method = m, ce_path = p, ce_request = rq, ce_status = s, ce_response = resp\<rparr> # is_exchanges st)\<rparr> \<and>
      (\<exists>x c. trace w' = trace w @ [Event c RandomNumber (Some x)])"
  by (auto simp: record_exchange_def ask_as_def ask_def Let_def split: prod.splits)

lemma captured_run:
  assumes "captures libs st req" "run_state (proxy_handler libs st req) w = ((r, st'), w')"
  shows "\<exists>x n answer i t c. ir_answer x = (n, answer) \<and> r = relayed answer \<and>
    st' = st\<lparr>is_exchanges := take MAX_EXCHANGES_PER_TUNNEL (exchange_of libs req n answer i t # is_exchanges st)\<rparr> \<and>
    (\<exists>y c'. trace w' = trace w @ [Event c (Upstream (forwarded libs st req)) (Some x), Event c' RandomNumber (Some y)])"
proof -
  obtain x v where v: "run_state (ask (Upstream (forwarded libs st req))) w = (x, v)" by fastforce
  from run_ask [OF v] obtain c where c: "trace v = trace w @ [Event c (Upstream (forwarded libs st req)) (Some x)]" by auto
  obtain n answer where a: "ir_answer x = (n, answer)" by fastforce
  let ?path = "case rq_path req of Some p \<Rightarrow> p | None \<Rightarrow> ''/''"
  let ?rec = "record_exchange st (rq_method req) ?path (message_of libs (rq_headers req) (take n (rq_body req)))
      (case answer of Inl _ \<Rightarrow> None | Inr resp \<Rightarrow> Some (rs_status resp))
      (case answer of Inl _ \<Rightarrow> None | Inr resp \<Rightarrow> Some (message_of libs (rs_headers resp) (rs_body resp)))"
  obtain s u where s: "run_state ?rec v = (s, u)" by fastforce
  have "proxy_handler libs st req = do {
      (n, r) \<leftarrow> ask_as ir_answer (Upstream (forwarded libs st req));
      (case r of Inl e \<Rightarrow> do { st' \<leftarrow> record_exchange st (rq_method req) ?path (message_of libs (rq_headers req) (take n (rq_body req))) None None;
          State_Monad.return (Inl (502, ''upstream error: '' @ e), st') }
       | Inr resp \<Rightarrow> do { st' \<leftarrow> record_exchange st (rq_method req) ?path (message_of libs (rq_headers req) (take n (rq_body req))) (Some (rs_status resp))
            (Some (message_of libs (rs_headers resp) (rs_body resp)));
          State_Monad.return (Inr \<lparr>rs_status = rs_status resp, rs_headers = copy_origin_headers [] (rs_headers resp), rs_body = rs_body resp\<rparr>, st') }) }"
    using assms(1) unfolding message_of_def by (simp add: proxy_handler_def captures_def Let_def forwarded_def cong: sum.case_cong)
  with assms(2) v a s have "r = relayed answer \<and> st' = s \<and> w' = u"
    by (cases answer) (auto simp: ask_as_def relayed_def)
  with record_run [OF s] a c show ?thesis unfolding exchange_of_def by fastforce
qed

text \<open>The values of one header, in their order.\<close>

definition values_of :: "str \<Rightarrow> headers \<Rightarrow> str list" where
  "values_of k hs = map snd (filter (\<lambda>x. fst x = k) hs)"

lemma values_host: "k \<noteq> ''host'' \<Longrightarrow> values_of k (set_host_header valid a hs) = values_of k hs"
proof -
  assume "k \<noteq> ''host''"
  then have "filter (\<lambda>x. fst x = k) (filter (\<lambda>(k', v'). k' \<noteq> ''host'') hs) = filter (\<lambda>x. fst x = k) hs"
    unfolding filter_filter by (intro filter_cong) auto
  with \<open>k \<noteq> ''host''\<close> show ?thesis by (simp add: set_host_header_def hm_insert_def values_of_def)
qed

lemma values_copied: "k \<notin> set HOP_BY_HOP_HEADERS \<Longrightarrow> values_of k (copy_origin_headers [] hs) = values_of k hs"
proof -
  assume "k \<notin> set HOP_BY_HOP_HEADERS"
  then have "filter (\<lambda>x. fst x = k) (filter (\<lambda>(k', v'). k' \<notin> set HOP_BY_HOP_HEADERS) hs) = filter (\<lambda>x. fst x = k) hs"
    unfolding filter_filter by (intro filter_cong) auto
  then show ?thesis by (simp add: copy_origin_headers_def values_of_def)
qed


section \<open>What is kept\<close>


text \<open>No value of a header that is a credential.\<close>

definition redacted_in :: "captured_message \<Rightarrow> bool" where
  "redacted_in m \<longleftrightarrow> (\<forall>(k, v) \<in> set (cm_headers m). k \<in> set SENSITIVE_HEADERS \<longrightarrow> v = REDACTED)"

definition redacted_exchange :: "captured_exchange \<Rightarrow> bool" where
  "redacted_exchange e \<longleftrightarrow> redacted_in (ce_request e) \<and> (case ce_response e of Some m \<Rightarrow> redacted_in m | None \<Rightarrow> True)"

lemma message_redacted: "redacted_in (message_of libs hs ps)"
  by (auto simp: redacted_in_def message_of_def into_message_def header_pairs_def)

lemma upgrade_keeps: "run_state (proxy_upgrade libs st req target a) w = ((r, st'), w') \<Longrightarrow> is_exchanges st' = is_exchanges st \<and> is_target st' = is_target st"
  by (auto simp: proxy_upgrade_def ask_as_def split: prod.splits sum.splits if_splits)

lemma handler_keeps:
  assumes "run_state (proxy_handler libs st req) w = ((r, st'), w')" "list_all redacted_exchange (is_exchanges st)"
  shows "list_all redacted_exchange (is_exchanges st')"
proof (cases "captures libs st req")
  case True
  from captured_run [OF True assms(1)] obtain n answer i t where
    "is_exchanges st' = take MAX_EXCHANGES_PER_TUNNEL (exchange_of libs req n answer i t # is_exchanges st)" by auto
  moreover have "redacted_exchange (exchange_of libs req n answer i t)"
    by (simp add: redacted_exchange_def exchange_of_def message_redacted split: sum.split)
  ultimately show ?thesis using assms(2) by (auto simp: list_all_iff dest!: in_set_takeD)
next
  case False
  with assms show ?thesis
    by (auto simp: proxy_handler_def captures_def Let_def dest: upgrade_keeps split: option.splits if_splits)
qed

fun serve_all :: "inspector_libs \<Rightarrow> in_request list \<Rightarrow> inspector \<Rightarrow> inspector insp" where
  "serve_all libs [] st = State_Monad.return st"
| "serve_all libs (req # reqs) st = do { (_, st') \<leftarrow> proxy_handler libs st req; serve_all libs reqs st' }"

lemma serve_all_keeps:
  "run_state (serve_all libs reqs st) w = (st', w') \<Longrightarrow> list_all redacted_exchange (is_exchanges st) \<Longrightarrow> list_all redacted_exchange (is_exchanges st')"
proof (induction reqs arbitrary: st w)
  case (Cons req reqs)
  obtain r s v where v: "run_state (proxy_handler libs st req) w = ((r, s), v)" by (metis surj_pair)
  with Cons handler_keeps [OF v] show ?case by auto
qed simp


section \<open>Replay\<close>

lemma values_replayed: "lowercase k \<notin> {''content-length'', ''transfer-encoding''} \<Longrightarrow> values_of k (replay_headers hs) = values_of k hs"
proof -
  assume k: "lowercase k \<notin> {''content-length'', ''transfer-encoding''}"
  moreover have "lowercase ''content-length'' = ''content-length''" "lowercase ''transfer-encoding'' = ''transfer-encoding''"
    by (simp_all add: lowercase_def lower_char_def is_upper_def)
  ultimately have "filter (\<lambda>x. fst x = k) (replay_headers hs) = filter (\<lambda>x. fst x = k) hs"
    unfolding replay_headers_def filter_filter by (intro filter_cong) (auto simp: eq_ignore_case_def)
  then show ?thesis by (simp add: values_of_def)
qed

lemma values_captured: "k \<notin> set SENSITIVE_HEADERS \<Longrightarrow> \<forall>v \<in> set (values_of k hs). to_str v = Some v \<Longrightarrow> values_of k (header_pairs to_str hs) = values_of k hs"
  by (induction hs) (auto simp: values_of_def header_pairs_def split: if_splits)


section \<open>Upgrades\<close>

text \<open>A request that asks for an upgrade goes without its body and is not captured, whether or not the target takes the upgrade.\<close>

theorem upgrade_drops_the_body:
  assumes "il_from_parts libs ((is_target st)\<lparr>up_path := rq_path req\<rparr>) = None" "is_upgrade_request (il_to_str libs) (rq_headers req)"
    "run_state (proxy_handler libs st req) w = ((r, st'), w')"
  shows "is_exchanges st' = is_exchanges st \<and> (\<exists>out e. trace w' = trace w @ [e] \<and> request e = UpstreamUpgrade out \<and> body_bytes (or_body out) = [])"
proof -
  define out where "out = \<lparr>or_method = rq_method req, or_uri = (is_target st)\<lparr>up_path := rq_path req\<rparr>,
     or_headers = set_host_header (il_header_ok libs) (case up_authority (is_target st) of Some a \<Rightarrow> a | None \<Rightarrow> []) (rq_headers req), or_body = [PollEnd]\<rparr>"
  obtain x v where v: "run_state (ask (UpstreamUpgrade out)) w = (x, v)" by fastforce
  have up: "run_state (proxy_upgrade libs st req ((is_target st)\<lparr>up_path := rq_path req\<rparr>) (case up_authority (is_target st) of Some a \<Rightarrow> a | None \<Rightarrow> [])) w = ((r, st'), w')"
    using assms by (simp add: proxy_handler_def Let_def)
  with v have "w' = v" unfolding proxy_upgrade_def ask_as_def out_def by (simp split: prod.splits)
  with run_ask [OF v] have "\<exists>e. trace w' = trace w @ [e] \<and> request e = UpstreamUpgrade out" by auto
  moreover have "body_bytes (or_body out) = []" by (simp add: out_def data_of_poll_def)
  ultimately show ?thesis using upgrade_keeps [OF up] by blast
qed

section \<open>An inspector to evaluate\<close>

definition plain_http :: inspector_libs where
  "plain_http = \<lparr>il_to_str = Some, il_header_ok = (\<lambda>_. True), il_from_parts = (\<lambda>_. None), il_path = Inr, il_builder = (\<lambda>_ _. None)\<rparr>"

definition plain_inspector :: inspector where
  "plain_inspector = \<lparr>is_target = \<lparr>up_scheme = Some ''http'', up_authority = Some ''127.0.0.1:80'', up_path = None\<rparr>, is_exchanges = [], is_relays = 0\<rparr>"

definition plain_request :: in_request where
  "plain_request = \<lparr>rq_method = ''POST'', rq_path = Some ''/a'', rq_headers = [(''host'', ''a.example''), (''cookie'', ''s''), (''accept'', ''text'')],
     rq_body = [PollFrame (Data ''hi''), PollEnd]\<rparr>"

definition plain_answer :: http_response where
  "plain_answer = \<lparr>rs_status = 200, rs_headers = [(''set-cookie'', ''s''), (''te'', ''x'')], rs_body = [PollFrame (Data ''ok''), PollEnd]\<rparr>"

fun plain_target :: "inspector_request \<Rightarrow> inspector_reply" where
  "plain_target RandomNumber = Number 7" | "plain_target _ = Answered 2 (Inr plain_answer)"

definition plain_world :: "(inspector_request, inspector_reply) world" where
  "plain_world = \<lparr>environment = (\<lambda>_ _ q. (plain_target q, 3)), clock = 0, trace = []\<rparr>"

lemma plain_captures: "captures plain_http plain_inspector plain_request"
  by (simp add: captures_def plain_http_def plain_request_def is_upgrade_request_def)

lemma plain_run:
  "\<exists>st w. run_state (proxy_handler plain_http plain_inspector plain_request) plain_world = ((relayed (Inr plain_answer), st), w)"
proof -
  obtain r st w where run: "run_state (proxy_handler plain_http plain_inspector plain_request) plain_world = ((r, st), w)" by (metis surj_pair)
  then have "r = relayed (Inr plain_answer)"
    by (simp add: proxy_handler_def plain_http_def plain_request_def is_upgrade_request_def plain_inspector_def plain_world_def Let_def ask_as_def ask_def
        record_exchange_def plain_answer_def relayed_def)
  with run show ?thesis by blast
qed




lemma plain_text: "utf8_lossy ''hi'' = ''hi''"
  by (simp add: char_len_def)

lemma plain_replay: "\<exists>out. replay_request plain_http plain_inspector ''ex-1'' (exchange_of plain_http plain_request 2 (Inr plain_answer) ''ex-1'' 0) = Inr out"
  by (simp add: replay_request_def exchange_of_def plain_request_def message_of_def into_message_def sink_of_def data_of_poll_def CAPTURE_CAP_BYTES_def plain_http_def Let_def)


end
