(* ===== verification/Routes.thy ===== *)
theory Routes
  imports Auth_Facts
begin

text \<open>
  The table of routes of \<open>daemon/src/main.rs\<close> with the gate of each tier, and who reaches what. Matching a path is the router's; the theorem is about the table.
\<close>

section \<open>The routes\<close>

text \<open>What serves a request; the routes of \<open>auth.rs\<close>, \<open>peer.rs\<close> and \<open>logs.rs\<close> are only named here.\<close>

datatype endpoint =
    Dashboard | Info
  | CreateTunnel | DeleteTunnel | SetNote | ListTokens | CreateToken | RevokeToken
  | ViewerTokenStatus | CreateViewerToken | RevokeViewerToken | GetAudit
  | PeerAdvertise | PeerRevoke | PeerConnect | PeerDisconnect | LogRegister | LogRemove
  | StartTunnel | StopTunnel | GetProgress | GetMetrics
  | ListTunnels | GetTunnel | ListTraffic | GetExchange | ReplayExchange | PeerList | LogList | LogTail

datatype tier = Public | SetupOnly | SetupOrOperate | SetupOrOperateOrViewer | SetupOrViewer

datatype segment = Lit str | Par

type_synonym route = "str \<times> segment list \<times> endpoint"

definition setup_only :: "route list" where
  "setup_only = [
     (''POST'', [Lit ''v1'', Lit ''tunnels''], CreateTunnel),
     (''DELETE'', [Lit ''v1'', Lit ''tunnels'', Par], DeleteTunnel),
     (''POST'', [Lit ''v1'', Lit ''tunnels'', Par, Lit ''note''], SetNote),
     (''GET'', [Lit ''v1'', Lit ''tunnels'', Par, Lit ''tokens''], ListTokens),
     (''POST'', [Lit ''v1'', Lit ''tunnels'', Par, Lit ''tokens''], CreateToken),
     (''DELETE'', [Lit ''v1'', Lit ''tunnels'', Par, Lit ''tokens'', Par], RevokeToken),
     (''GET'', [Lit ''v1'', Lit ''viewer-token''], ViewerTokenStatus),
     (''POST'', [Lit ''v1'', Lit ''viewer-token''], CreateViewerToken),
     (''DELETE'', [Lit ''v1'', Lit ''viewer-token''], RevokeViewerToken),
     (''GET'', [Lit ''v1'', Lit ''audit''], GetAudit),
     (''POST'', [Lit ''v1'', Lit ''peers'', Lit ''advertise''], PeerAdvertise),
     (''DELETE'', [Lit ''v1'', Lit ''peers'', Lit ''advertise'', Par], PeerRevoke),
     (''POST'', [Lit ''v1'', Lit ''peers'', Lit ''connect''], PeerConnect),
     (''DELETE'', [Lit ''v1'', Lit ''peers'', Lit ''connections'', Par], PeerDisconnect),
     (''POST'', [Lit ''v1'', Lit ''logs''], LogRegister),
     (''DELETE'', [Lit ''v1'', Lit ''logs'', Par], LogRemove)]"

definition setup_or_operate :: "route list" where
  "setup_or_operate = [
     (''POST'', [Lit ''v1'', Lit ''tunnels'', Par, Lit ''start''], StartTunnel),
     (''POST'', [Lit ''v1'', Lit ''tunnels'', Par, Lit ''stop''], StopTunnel)]"

definition setup_or_operate_or_viewer :: "route list" where
  "setup_or_operate_or_viewer = [
     (''GET'', [Lit ''v1'', Lit ''tunnels'', Par, Lit ''progress''], GetProgress),
     (''GET'', [Lit ''v1'', Lit ''tunnels'', Par, Lit ''metrics''], GetMetrics)]"

definition setup_or_viewer :: "route list" where
  "setup_or_viewer = [
     (''GET'', [Lit ''v1'', Lit ''tunnels''], ListTunnels),
     (''GET'', [Lit ''v1'', Lit ''tunnels'', Par], GetTunnel),
     (''GET'', [Lit ''v1'', Lit ''tunnels'', Par, Lit ''traffic''], ListTraffic),
     (''GET'', [Lit ''v1'', Lit ''tunnels'', Par, Lit ''traffic'', Par], GetExchange),
     (''POST'', [Lit ''v1'', Lit ''tunnels'', Par, Lit ''traffic'', Par, Lit ''replay''], ReplayExchange),
     (''GET'', [Lit ''v1'', Lit ''peers''], PeerList),
     (''GET'', [Lit ''v1'', Lit ''logs''], LogList),
     (''GET'', [Lit ''v1'', Lit ''logs'', Par, Lit ''tail''], LogTail)]"

definition public_routes :: "route list" where
  "public_routes = [(''GET'', [], Dashboard), (''GET'', [Lit ''v1'', Lit ''info''], Info)]"

definition app_routes :: "(tier \<times> route) list" where
  "app_routes = map (Pair Public) public_routes @ map (Pair SetupOnly) setup_only @ map (Pair SetupOrOperate) setup_or_operate @
     map (Pair SetupOrOperateOrViewer) setup_or_operate_or_viewer @ map (Pair SetupOrViewer) setup_or_viewer"

text \<open>The parameters of a path that a pattern matches; a parameter takes one segment that is not empty.\<close>

fun match_path :: "segment list \<Rightarrow> str list \<Rightarrow> str list option" where
  "match_path [] [] = Some []"
| "match_path (Lit l # ps) (s # ss) = (if l = s then match_path ps ss else None)"
| "match_path (Par # ps) (s # ss) = (if s = [] then None else map_option (Cons s) (match_path ps ss))"
| "match_path _ _ = None"

definition find_route :: "str \<Rightarrow> str list \<Rightarrow> (tier \<times> endpoint \<times> str list) option" where
  "find_route verb segs = (case List.map_filter (\<lambda>(tier1, m, pat, h). if m = verb then map_option (\<lambda>ps. (tier1, h, ps)) (match_path pat segs) else None) app_routes of
     [] \<Rightarrow> None | r # _ \<Rightarrow> Some r)"

text \<open>The gate of a tier; the tunnel it is about is the route's first parameter.\<close>

definition gate :: "codec \<Rightarrow> app_state \<Rightarrow> tier \<Rightarrow> str \<Rightarrow> 64 word \<Rightarrow> str option \<Rightarrow> refusal + actor option" where
  "gate k app tier1 tun t authorization = (case tier1 of
     Public \<Rightarrow> Inr None
   | SetupOnly \<Rightarrow> map_sum id Some (require_setup app authorization)
   | SetupOrOperate \<Rightarrow> map_sum id Some (require_operate_or_setup k app tun t authorization)
   | SetupOrOperateOrViewer \<Rightarrow> map_sum id Some (require_setup_or_operate_or_viewer k app tun t authorization)
   | SetupOrViewer \<Rightarrow> map_sum id Some (require_setup_or_viewer app authorization))"

text \<open>What a request comes to: no such route, a refusal, or what serves it, for whom, with the path's parameters.\<close>

definition dispatch :: "codec \<Rightarrow> app_state \<Rightarrow> str \<Rightarrow> str list \<Rightarrow> 64 word \<Rightarrow> str option \<Rightarrow> (refusal + (actor option \<times> endpoint \<times> str list)) option" where
  "dispatch k app verb segs t authorization = (case find_route verb segs of None \<Rightarrow> None
   | Some (tier1, h, ps) \<Rightarrow> Some (map_sum id (\<lambda>who. (who, h, ps)) (gate k app tier1 (case ps of p # _ \<Rightarrow> p | [] \<Rightarrow> []) t authorization)))"

section \<open>Who reaches what\<close>

lemma found_in_table: "find_route verb segs = Some (tier1, h, ps) \<Longrightarrow> \<exists>pat. (tier1, verb, pat, h) \<in> set app_routes \<and> match_path pat segs = Some ps"
proof -
  assume "find_route verb segs = Some (tier1, h, ps)"
  then have "(tier1, h, ps) \<in> set (List.map_filter (\<lambda>(tier1, m, pat, h). if m = verb then map_option (\<lambda>ps. (tier1, h, ps)) (match_path pat segs) else None) app_routes)"
    by (auto simp: find_route_def split: list.splits)
  then show ?thesis by (auto simp: List.map_filter_def split: if_splits)
qed

lemma tiers:
  "(Public, m, pat, h) \<in> set app_routes \<Longrightarrow> h \<in> {Dashboard, Info}"
  "(SetupOrOperate, m, pat, h) \<in> set app_routes \<Longrightarrow> h \<in> {StartTunnel, StopTunnel} \<and> (\<exists>x. pat = [Lit ''v1'', Lit ''tunnels'', Par, Lit x])"
  "(SetupOrOperateOrViewer, m, pat, h) \<in> set app_routes \<Longrightarrow> h \<in> {GetProgress, GetMetrics} \<and> m = ''GET'' \<and> (\<exists>x. pat = [Lit ''v1'', Lit ''tunnels'', Par, Lit x])"
  "(SetupOrViewer, m, pat, h) \<in> set app_routes \<Longrightarrow> m = ''GET'' \<or> h = ReplayExchange"
  by (auto simp: app_routes_def public_routes_def setup_only_def setup_or_operate_def setup_or_operate_or_viewer_def setup_or_viewer_def)

lemma match_Nil: "match_path [] segs = Some r \<Longrightarrow> segs = [] \<and> r = []"
  by (cases segs) auto

lemma match_Lit: "match_path (Lit l # ps) segs = Some r \<Longrightarrow> \<exists>ss. segs = l # ss \<and> match_path ps ss = Some r"
  by (cases segs) (auto split: if_splits)

lemma match_Par: "match_path (Par # ps) segs = Some r \<Longrightarrow> \<exists>x ss rs. segs = x # ss \<and> r = x # rs \<and> match_path ps ss = Some rs"
  by (cases segs) (auto split: if_splits)

lemma match_one:
  assumes "match_path [Lit a, Lit b, Par, Lit c] segs = Some ps" shows "\<exists>tun. ps = [tun] \<and> segs = [a, b, tun, c]"
proof -
  from match_Lit [OF assms] obtain s1 where 1: "segs = a # s1" "match_path [Lit b, Par, Lit c] s1 = Some ps" by blast
  from match_Lit [OF 1(2)] obtain s2 where 2: "s1 = b # s2" "match_path [Par, Lit c] s2 = Some ps" by blast
  from match_Par [OF 2(2)] obtain x s3 rs where 3: "s2 = x # s3" "ps = x # rs" "match_path [Lit c] s3 = Some rs" by blast
  from match_Lit [OF 3(3)] obtain s4 where 4: "s3 = c # s4" "match_path [] s4 = Some rs" by blast
  with match_Nil [OF 4(2)] 1 2 3 show ?thesis by simp
qed

lemma operate_actor: "operate_or_refuse k app tun t b = Inr who \<Longrightarrow>
    \<exists>tid secret. who = Operate tid \<and> validate_operate_secret k (connect_dir app) tun tid secret t (app_disk app)"
  unfolding operate_or_refuse_def by (auto split: option.splits if_splits prod.splits)

lemma map_sum_Inr: "map_sum id f x = Inr y \<longleftrightarrow> (\<exists>a. x = Inr a \<and> y = f a)"
  by (cases x) auto

lemma setup_actor: "require_setup app a = Inr who \<Longrightarrow> who = Setup"
  by (cases "extract_bearer a") (simp_all add: require_setup_def split: if_split_asm)

lemma viewer_actor: "require_setup_or_viewer app a = Inr who \<Longrightarrow> who \<in> {Setup, Viewer}"
  by (cases "extract_bearer a") (simp_all add: require_setup_or_viewer_def split: if_split_asm)

lemma operate_setup_actor: "require_operate_or_setup k app tun t a = Inr who \<Longrightarrow>
    who = Setup \<or> (\<exists>tid secret. who = Operate tid \<and> validate_operate_secret k (connect_dir app) tun tid secret t (app_disk app))"
  by (cases "extract_bearer a") (simp_all add: require_operate_or_setup_def split: if_split_asm, blast dest: operate_actor)

lemma any_actor: "require_setup_or_operate_or_viewer k app tun t a = Inr who \<Longrightarrow>
    who \<in> {Setup, Viewer} \<or> (\<exists>tid secret. who = Operate tid \<and> validate_operate_secret k (connect_dir app) tun tid secret t (app_disk app))"
  by (cases "extract_bearer a") (simp_all add: require_setup_or_operate_or_viewer_def split: if_split_asm, blast dest: operate_actor)

lemmas gate_actors = setup_actor viewer_actor operate_setup_actor any_actor

definition may_reach :: "codec \<Rightarrow> app_state \<Rightarrow> 64 word \<Rightarrow> str \<Rightarrow> str list \<Rightarrow> actor option \<Rightarrow> endpoint \<Rightarrow> bool" where
  "may_reach k app t verb segs who h \<longleftrightarrow> (case who of
     None \<Rightarrow> h \<in> {Dashboard, Info}
   | Some Setup \<Rightarrow> True
   | Some Viewer \<Rightarrow> verb = ''GET'' \<or> h = ReplayExchange
   | Some (Operate tid) \<Rightarrow> h \<in> {StartTunnel, StopTunnel, GetProgress, GetMetrics} \<and>
       (\<exists>tun act secret. segs = [''v1'', ''tunnels'', tun, act] \<and> validate_operate_secret k (connect_dir app) tun tid secret t (app_disk app)))"



end
