(* ===== verification/Ingress.thy ===== *)
theory Ingress
  imports Inspector Supervisor Setup
begin

text \<open>
  The add-on's page as a server, \<open>daemon/src/ingress.rs\<close>: where it listens, the checks before every handler, and the handlers, over the setup controller or the paired side. The paired side (\<open>addon_page.rs\<close>) is asked through requests.
\<close>

section \<open>Where the page is served\<close>

text \<open>The words of an address and of a text in quotes are only used in messages.\<close>

record address_words =
  aw_ip :: "ip_addr \<Rightarrow> str"
  aw_debug :: "str \<Rightarrow> str"

definition LOOPBACK :: ip_addr where "LOOPBACK = V4 0x7F000001"

definition parse_allowed :: "address_words \<Rightarrow> str \<Rightarrow> str + ip_addr list" where
  "parse_allowed aw list1 = (let parts = split_on (CHR '','') list1 in
     case find (\<lambda>ip. parse_ip (trim ip) = None) parts of
       Some ip \<Rightarrow> Inl (''--ingress-allow '' @ aw_debug aw ip @ '' is not an IP address'')
     | None \<Rightarrow> Inr (List.map_filter (parse_ip \<circ> trim) parts))"

definition resolve_with :: "address_words \<Rightarrow> str \<Rightarrow> str \<Rightarrow> ingress_addresses option \<Rightarrow> str + (ip_addr \<times> ip_addr list)" where
  "resolve_with aw bind1 allow auto1 =
     (case (if trim bind1 = ''auto'' then Inr (case auto1 of Some a \<Rightarrow> ia_bind a | None \<Rightarrow> LOOPBACK)
        else (case parse_ip (trim bind1) of Some ip \<Rightarrow> Inr ip
          | None \<Rightarrow> Inl (''--ingress-bind '' @ aw_debug aw (trim bind1) @ '' is not an IP address or auto''))) of
       Inl e \<Rightarrow> Inl e
     | Inr bind_ip \<Rightarrow> (case (if trim allow = ''auto'' then Inr [case auto1 of Some a \<Rightarrow> ia_proxy a | None \<Rightarrow> LOOPBACK] else parse_allowed aw (trim allow)) of
         Inl e \<Rightarrow> Inl e
       | Inr allowed \<Rightarrow> if is_unspecified bind_ip
           then Inl (''--ingress-bind '' @ aw_ip aw bind_ip @ '' would put the page on every address, the LAN included; use the address the Supervisor connects to, or auto'')
           else Inr (bind_ip, allowed)))"

definition resolve_addresses :: "address_words \<Rightarrow> str \<Rightarrow> str \<Rightarrow> supervisor option \<Rightarrow> (str + (ip_addr \<times> ip_addr list)) sup" where
  "resolve_addresses aw bind1 allow su = do {
     auto1 \<leftarrow> (case su of
        Some s \<Rightarrow> if trim bind1 = ''auto'' \<or> trim allow = ''auto'' then do { a \<leftarrow> ask_ingress_addresses s; State_Monad.return (Some a) } else State_Monad.return None
      | None \<Rightarrow> State_Monad.return None);
     State_Monad.return (resolve_with aw bind1 allow auto1) }"

text \<open>Binding: \<open>tcp_bind\<close> is the system's.\<close>

definition bind_page :: "address_words \<Rightarrow> (ip_addr \<Rightarrow> nat \<Rightarrow> str + unit) \<Rightarrow> ip_addr \<Rightarrow> nat \<Rightarrow> str + unit" where
  "bind_page aw tcp_bind ip port = (if is_unspecified ip
     then Inl (''refusing to serve the page on '' @ aw_ip aw ip @ '', which with host networking is every address, the LAN included'')
     else tcp_bind ip port)"

section \<open>What the page shows\<close>

record 'edge tunnel_view =
  tv_id :: str
  tv_label :: str
  tv_address :: "str option"
  tv_state :: str
  tv_edge :: "'edge option"
  tv_portal :: "str option"
  tv_new_address :: bool

record proxy_step_view =
  py_state :: str
  py_message :: "str option"
  py_setup :: bool

record 'edge paired_status =
  pd_project :: str
  pd_account :: "str option"
  pd_key_source :: str
  pd_tunnels :: "'edge tunnel_view list"
  pd_older :: "'edge tunnel_view list"
  pd_proxies :: "proxy_step_view option"
  pd_can_forget :: bool
  pd_why_not :: "str option"
  pd_error :: "str option"

record remove_outcome =
  ro_id :: str
  ro_label :: str

record forget_outcome =
  fo_restarting :: bool
  fo_account :: "str option"

record action_error =
  ae_status :: nat
  ae_message :: str

record ha_links =
  hl_info :: str
  hl_documentation :: str
  hl_config :: str
  hl_logs :: str
  hl_app :: str

definition links_for_slug :: "str \<Rightarrow> ha_links option" where
  "links_for_slug raw = (case valid_slug raw of None \<Rightarrow> None
   | Some slug \<Rightarrow> (let tab = (\<lambda>t. ''/config/app/'' @ slug @ ''/'' @ t) in
       map_option (\<lambda>app. \<lparr>hl_info = tab ''info'', hl_documentation = tab ''documentation'', hl_config = tab ''config'', hl_logs = tab ''logs'', hl_app = app\<rparr>)
         (panel_path slug)))"

text \<open>
  The paired side is asked through requests; the setup side is the controller. A request's body is read by the framework:
  \<open>pl_field\<close> is the text of a field, or the framework's own refusal.
\<close>

datatype backend = SetupBackend controller | PairedBackend

fun backend_mode :: "backend \<Rightarrow> str" where
  "backend_mode (SetupBackend _) = ''setup''" | "backend_mode PairedBackend = ''paired''"

record ingress =
  ig_backend :: backend
  ig_csrf :: str
  ig_allowed :: "ip_addr list"
  ig_ha :: "ha_links option"

record page_libs =
  pl_to_str :: "str \<Rightarrow> str option"
  pl_field :: "str \<Rightarrow> headers \<Rightarrow> str \<Rightarrow> (nat \<times> str) + str"
  pl_html :: str
  pl_js :: str
  pl_css :: str

record page_request =
  pq_method :: str
  pq_path :: str
  pq_headers :: headers
  pq_peer :: "ip_addr option"
  pq_body :: str

record 'edge state_body =
  sb_mode :: str
  sb_setup :: "setup_status option"
  sb_paired :: "'edge paired_status option"
  sb_ha :: "ha_links option"

datatype 'edge page_body =
    Plain str | StateJson "'edge state_body" | ErrorJson str str | ForgetJson forget_outcome | RemoveJson remove_outcome

record 'edge page_response =
  ps_status :: nat
  ps_headers :: headers
  ps_body :: "'edge page_body"

datatype view_request = AskStatus | Forget bool | Remove str | AllowProxies | SkipProxies
datatype 'edge view_reply = StatusIs "'edge paired_status" | Forgotten "action_error + forget_outcome" | Removed "action_error + remove_outcome" | Acted "action_error + unit"

definition no_status :: "'edge paired_status" where
  "no_status = \<lparr>pd_project = [], pd_account = None, pd_key_source = [], pd_tunnels = [], pd_older = [], pd_proxies = None, pd_can_forget = False, pd_why_not = None, pd_error = None\<rparr>"
definition no_action :: action_error where "no_action = \<lparr>ae_status = 500, ae_message = []\<rparr>"

fun vr_status :: "'edge view_reply \<Rightarrow> 'edge paired_status" where "vr_status (StatusIs s) = s" | "vr_status _ = no_status"
fun vr_forgot :: "'edge view_reply \<Rightarrow> action_error + forget_outcome" where "vr_forgot (Forgotten r) = r" | "vr_forgot _ = Inl no_action"
fun vr_removed :: "'edge view_reply \<Rightarrow> action_error + remove_outcome" where "vr_removed (Removed r) = r" | "vr_removed _ = Inl no_action"
fun vr_acted :: "'edge view_reply \<Rightarrow> action_error + unit" where "vr_acted (Acted r) = r" | "vr_acted _ = Inl no_action"

type_synonym ('edge, 'a) page = "(view_request, 'edge view_reply, 'a) io"
type_synonym 'edge served = "('edge, 'edge page_response \<times> ingress) page"

definition new_ingress :: "backend \<Rightarrow> ip_addr list \<Rightarrow> str option \<Rightarrow> str \<Rightarrow> ingress" where
  "new_ingress be allowed slug random = \<lparr>ig_backend = be, ig_csrf = random, ig_allowed = map to_canonical allowed, ig_ha = Option.bind slug links_for_slug\<rparr>"

text \<open>The token: the bytes drawn, in hexadecimal.\<close>

definition new_csrf_token :: "nat list \<Rightarrow> str" where
  "new_csrf_token bytes = concat (map (\<lambda>b. [hex_char (b div 16), hex_char b]) bytes)"

section \<open>The checks\<close>

definition CSRF_HEADER :: str where "CSRF_HEADER = ''x-datum-connect-csrf''"
definition INGRESS_PATH_HEADER :: str where "INGRESS_PATH_HEADER = ''x-ingress-path''"

definition error_response :: "nat \<Rightarrow> str \<Rightarrow> str \<Rightarrow> 'edge page_response" where
  "error_response status e message = \<lparr>ps_status = status, ps_headers = [(''content-type'', ''application/json'')], ps_body = ErrorJson e message\<rparr>"

definition peer_allowed :: "ingress \<Rightarrow> page_request \<Rightarrow> bool" where
  "peer_allowed ig req \<longleftrightarrow> (case map_option to_canonical (pq_peer req) of Some ip \<Rightarrow> ip \<in> set (ig_allowed ig) | None \<Rightarrow> False)"

definition peer_check :: "ingress \<Rightarrow> page_request \<Rightarrow> 'edge served \<Rightarrow> 'edge served" where
  "peer_check ig req next1 = (if peer_allowed ig req then next1 else State_Monad.return (error_response 403 ''forbidden'' ''Not allowed.'', ig))"

text \<open>A header's text, if it has one.\<close>

definition header_text :: "page_libs \<Rightarrow> str \<Rightarrow> headers \<Rightarrow> str option" where
  "header_text pl k hs = Option.bind (map_of hs k) (pl_to_str pl)"

definition same_origin :: "page_libs \<Rightarrow> headers \<Rightarrow> bool" where
  "same_origin pl hs =
     (if (case header_text pl ''sec-fetch-site'' hs of Some site \<Rightarrow> site \<noteq> ''same-origin'' | None \<Rightarrow> False) then False
      else (case map_of hs ''origin'' of None \<Rightarrow> True
       | Some origin \<Rightarrow> (case Option.bind (pl_to_str pl origin) (split_once ''://'') of None \<Rightarrow> False
         | Some (_, rest) \<Rightarrow> (let origin_host = lowercase (trim_end_char (CHR ''/'') rest);
             host = Option.bind (case map_of hs ''x-forwarded-host'' of Some h \<Rightarrow> Some h | None \<Rightarrow> map_of hs ''host'') (pl_to_str pl)
           in (case host of Some h \<Rightarrow> lowercase (trim (hd (split_on (CHR '','') h))) = origin_host | None \<Rightarrow> False)))))"

definition csrf_passed :: "page_libs \<Rightarrow> ingress \<Rightarrow> headers \<Rightarrow> bool" where
  "csrf_passed pl ig hs \<longleftrightarrow> (case header_text pl CSRF_HEADER hs of
     Some t \<Rightarrow> constant_time_eq (as_bytes t) (as_bytes (ig_csrf ig)) | None \<Rightarrow> False)"

definition csrf_check :: "page_libs \<Rightarrow> ingress \<Rightarrow> page_request \<Rightarrow> 'edge served \<Rightarrow> 'edge served" where
  "csrf_check pl ig req next1 = (if pq_method req \<noteq> ''POST'' then next1
     else if \<not> csrf_passed pl ig (pq_headers req) \<or> \<not> same_origin pl (pq_headers req)
     then State_Monad.return (error_response 403 ''csrf'' ''This page is out of date. Reload it and try again.'', ig)
     else next1)"

definition CONTENT_SECURITY_POLICY :: str where
  "CONTENT_SECURITY_POLICY = ''default-src '' @ [CHR 0x27] @ ''none'' @ [CHR 0x27] @ ''; script-src '' @ [CHR 0x27] @ ''self'' @ [CHR 0x27] @
     ''; style-src '' @ [CHR 0x27] @ ''self'' @ [CHR 0x27] @ ''; connect-src '' @ [CHR 0x27] @ ''self'' @ [CHR 0x27] @
     ''; img-src '' @ [CHR 0x27] @ ''self'' @ [CHR 0x27] @ ''; base-uri '' @ [CHR 0x27] @ ''self'' @ [CHR 0x27] @
     ''; form-action '' @ [CHR 0x27] @ ''none'' @ [CHR 0x27] @ ''; frame-ancestors '' @ [CHR 0x27] @ ''self'' @ [CHR 0x27]"

definition harden :: "'edge page_response \<Rightarrow> 'edge page_response" where
  "harden r = r\<lparr>ps_headers := hm_insert ''content-security-policy'' CONTENT_SECURITY_POLICY
     (hm_insert ''referrer-policy'' ''no-referrer'' (hm_insert ''x-content-type-options'' ''nosniff''
     (hm_insert ''cache-control'' ''no-store'' (ps_headers r))))\<rparr>"

section \<open>The handlers\<close>

definition valid_ingress_path :: "str \<Rightarrow> str option" where
  "valid_ingress_path p = (case strip_prefix ''/api/hassio_ingress/'' p of None \<Rightarrow> None
   | Some token \<Rightarrow> if token \<noteq> [] \<and> list_all (\<lambda>c. is_alnum c \<or> c \<in> {CHR ''-'', CHR ''_''}) token then Some p else None)"

definition base_tag :: "page_libs \<Rightarrow> headers \<Rightarrow> str" where
  "base_tag pl hs = (case Option.bind (header_text pl INGRESS_PATH_HEADER hs) valid_ingress_path of
     Some p \<Rightarrow> ''<base href='' @ [CHR 0x22] @ p @ ''/'' @ [CHR 0x22] @ ''>'' @ [CHR 0x0A] | None \<Rightarrow> [])"

definition index_page :: "page_libs \<Rightarrow> ingress \<Rightarrow> headers \<Rightarrow> 'edge page_response" where
  "index_page pl ig hs = \<lparr>ps_status = 200, ps_headers = [(''content-type'', ''text/html; charset=utf-8'')],
     ps_body = Plain (replace_all ''{{BASE}}'' (base_tag pl hs) (replace_all ''{{MODE}}'' (backend_mode (ig_backend ig)) (replace_all ''{{CSRF}}'' (ig_csrf ig) (pl_html pl))))\<rparr>"

definition asset :: "str \<Rightarrow> str \<Rightarrow> 'edge page_response" where
  "asset kind content = \<lparr>ps_status = 200, ps_headers = [(''content-type'', kind)], ps_body = Plain content\<rparr>"

definition json_ok :: "'edge page_body \<Rightarrow> 'edge page_response" where
  "json_ok b = \<lparr>ps_status = 200, ps_headers = [(''content-type'', ''application/json'')], ps_body = b\<rparr>"

definition state_body_of :: "ingress \<Rightarrow> ('edge, 'edge state_body) page" where
  "state_body_of ig = (case ig_backend ig of
     SetupBackend ctl \<Rightarrow> do { t \<leftarrow> now; State_Monad.return \<lparr>sb_mode = ''setup'', sb_setup = Some (status_view t ctl), sb_paired = None, sb_ha = ig_ha ig\<rparr> }
   | PairedBackend \<Rightarrow> do { s \<leftarrow> ask_as vr_status AskStatus; State_Monad.return \<lparr>sb_mode = ''paired'', sb_setup = None, sb_paired = Some s, sb_ha = ig_ha ig\<rparr> })"

definition state_response :: "ingress \<Rightarrow> 'edge served" where
  "state_response ig = do { b \<leftarrow> state_body_of ig; State_Monad.return (json_ok (StateJson b), ig) }"

definition wrong_mode :: "ingress \<Rightarrow> 'edge page_response" where
  "wrong_mode ig = error_response 409 ''mode'' (''Not available while the add-on is in '' @ backend_mode (ig_backend ig) @ '' mode. Reload the page.'')"

definition with_controller :: "ingress \<Rightarrow> controller \<Rightarrow> ingress" where
  "with_controller ig ctl = ig\<lparr>ig_backend := SetupBackend ctl\<rparr>"

definition connect_page :: "ingress \<Rightarrow> 'edge served" where
  "connect_page ig = (case ig_backend ig of PairedBackend \<Rightarrow> State_Monad.return (wrong_mode ig, ig)
   | SetupBackend ctl \<Rightarrow> state_response (with_controller ig (start ctl)))"

fun restart_words :: "restart_error \<Rightarrow> str" where
  "restart_words AlreadyApproved = ''The code was already approved, so there is no code to replace. Carry on below.''"
| "restart_words AlreadyDone = ''Already connected to Datum.''"

definition new_code_page :: "ingress \<Rightarrow> 'edge served" where
  "new_code_page ig = (case ig_backend ig of PairedBackend \<Rightarrow> State_Monad.return (wrong_mode ig, ig)
   | SetupBackend ctl \<Rightarrow> (case restart ctl of
       Inr ctl' \<Rightarrow> state_response (with_controller ig ctl')
     | Inl e \<Rightarrow> State_Monad.return (error_response 409 ''new_code'' (restart_words e), ig)))"

fun choose_words :: "choose_error \<Rightarrow> str" where
  "choose_words NotChoosing = ''Not waiting for a project right now.''"
| "choose_words Unknown = ''That project isn'' @ [CHR 0x27] @ ''t one of the projects listed.''"

fun choose_status :: "choose_error \<Rightarrow> nat" where
  "choose_status NotChoosing = 409" | "choose_status Unknown = 400"

definition choose_page :: "page_libs \<Rightarrow> ingress \<Rightarrow> page_request \<Rightarrow> 'edge served" where
  "choose_page pl ig req = (case pl_field pl ''project'' (pq_headers req) (pq_body req) of
     Inl (status, e) \<Rightarrow> State_Monad.return (\<lparr>ps_status = status, ps_headers = [], ps_body = Plain e\<rparr>, ig)
   | Inr project \<Rightarrow> (case ig_backend ig of PairedBackend \<Rightarrow> State_Monad.return (wrong_mode ig, ig)
     | SetupBackend ctl \<Rightarrow> (case choose_listed project ctl of
         Inr ctl' \<Rightarrow> state_response (with_controller ig ctl')
       | Inl e \<Rightarrow> State_Monad.return (error_response (choose_status e) ''project'' (choose_words e), ig))))"

definition action_response :: "action_error \<Rightarrow> 'edge page_response" where
  "action_response e = error_response (ae_status e) ''action'' (ae_message e)"

definition forget_page :: "ingress \<Rightarrow> bool \<Rightarrow> 'edge served" where
  "forget_page ig unpair = (case ig_backend ig of SetupBackend _ \<Rightarrow> State_Monad.return (wrong_mode ig, ig)
   | PairedBackend \<Rightarrow> do { r \<leftarrow> ask_as vr_forgot (Forget unpair);
       State_Monad.return (case r of Inr b \<Rightarrow> json_ok (ForgetJson b) | Inl e \<Rightarrow> action_response e, ig) })"

definition remove_page :: "page_libs \<Rightarrow> ingress \<Rightarrow> page_request \<Rightarrow> 'edge served" where
  "remove_page pl ig req = (case pl_field pl ''id'' (pq_headers req) (pq_body req) of
     Inl (status, e) \<Rightarrow> State_Monad.return (\<lparr>ps_status = status, ps_headers = [], ps_body = Plain e\<rparr>, ig)
   | Inr tun \<Rightarrow> (case ig_backend ig of SetupBackend _ \<Rightarrow> State_Monad.return (wrong_mode ig, ig)
     | PairedBackend \<Rightarrow> do { r \<leftarrow> ask_as vr_removed (Remove tun);
         State_Monad.return (case r of Inr b \<Rightarrow> json_ok (RemoveJson b) | Inl e \<Rightarrow> action_response e, ig) }))"

definition act_page :: "ingress \<Rightarrow> view_request \<Rightarrow> 'edge served" where
  "act_page ig q = (case ig_backend ig of SetupBackend _ \<Rightarrow> State_Monad.return (wrong_mode ig, ig)
   | PairedBackend \<Rightarrow> do { r \<leftarrow> ask_as vr_acted q;
       (case r of Inr _ \<Rightarrow> state_response ig | Inl e \<Rightarrow> State_Monad.return (action_response e, ig)) })"

section \<open>Serving\<close>

datatype page_handler = Index | AppJs | AppCss | GetState | Connect | NewCode | ChooseProject | Repair | Unpair | RemoveTunnel | AllowProxy | SkipProxy

definition page_routes :: "(str \<times> bool \<times> page_handler) list" where
  "page_routes = [(''/'', False, Index), (''/app.js'', False, AppJs), (''/app.css'', False, AppCss), (''/api/state'', False, GetState),
     (''/api/connect'', True, Connect), (''/api/new-code'', True, NewCode), (''/api/project'', True, ChooseProject), (''/api/repair'', True, Repair),
     (''/api/unpair'', True, Unpair), (''/api/remove-tunnel'', True, RemoveTunnel), (''/api/allow-proxies'', True, AllowProxy), (''/api/skip-proxies'', True, SkipProxy)]"

fun run_handler :: "page_libs \<Rightarrow> ingress \<Rightarrow> page_request \<Rightarrow> page_handler \<Rightarrow> 'edge served" where
  "run_handler pl ig req Index = State_Monad.return (index_page pl ig (pq_headers req), ig)"
| "run_handler pl ig req AppJs = State_Monad.return (asset ''text/javascript; charset=utf-8'' (pl_js pl), ig)"
| "run_handler pl ig req AppCss = State_Monad.return (asset ''text/css; charset=utf-8'' (pl_css pl), ig)"
| "run_handler pl ig req GetState = state_response ig"
| "run_handler pl ig req Connect = connect_page ig"
| "run_handler pl ig req NewCode = new_code_page ig"
| "run_handler pl ig req ChooseProject = choose_page pl ig req"
| "run_handler pl ig req Repair = forget_page ig False"
| "run_handler pl ig req Unpair = forget_page ig True"
| "run_handler pl ig req RemoveTunnel = remove_page pl ig req"
| "run_handler pl ig req AllowProxy = act_page ig AllowProxies"
| "run_handler pl ig req SkipProxy = act_page ig SkipProxies"

text \<open>A route for reading also answers HEAD.\<close>

definition route_page :: "page_libs \<Rightarrow> ingress \<Rightarrow> page_request \<Rightarrow> 'edge served" where
  "route_page pl ig req = (case map_of page_routes (pq_path req) of
     None \<Rightarrow> State_Monad.return (\<lparr>ps_status = 404, ps_headers = [], ps_body = Plain []\<rparr>, ig)
   | Some (posts, h) \<Rightarrow> if (if posts then pq_method req = ''POST'' else pq_method req \<in> {''GET'', ''HEAD''})
       then run_handler pl ig req h
       else State_Monad.return (\<lparr>ps_status = 405, ps_headers = [], ps_body = Plain []\<rparr>, ig))"

definition serve_page :: "page_libs \<Rightarrow> ingress \<Rightarrow> page_request \<Rightarrow> 'edge served" where
  "serve_page pl ig req = do {
     (r, ig') \<leftarrow> peer_check ig req (csrf_check pl ig req (route_page pl ig req));
     State_Monad.return (harden r, ig') }"

end
