(* ===== verification/Ingress_Facts.thy ===== *)
theory Ingress_Facts
  imports Ingress Auth_Facts
begin

text \<open>
  Nothing changes but by the page itself, and an address that means every address is taken.
\<close>

section \<open>Only the page acts\<close>

definition only_looks :: "view_request \<Rightarrow> bool" where
  "only_looks q \<longleftrightarrow> q = AskStatus"

lemma state_looks: "asks_only only_looks (state_response ig)"
  unfolding state_response_def state_body_of_def by (cases "ig_backend ig") (auto intro!: asks_intros simp: only_looks_def)

lemma state_same: "run_state (state_response ig) w = ((r, ig'), w') \<Longrightarrow> ig' = ig"
  unfolding state_response_def by (auto split: prod.splits)

definition vouched_post :: "page_libs \<Rightarrow> ingress \<Rightarrow> page_request \<Rightarrow> bool" where
  "vouched_post pl ig req \<longleftrightarrow> pq_method req = ''POST'' \<and> header_text pl CSRF_HEADER (pq_headers req) = Some (ig_csrf ig) \<and> same_origin pl (pq_headers req)"

lemma reading_handlers:
  assumes "h \<in> {Index, AppJs, AppCss, GetState}" "run_state (run_handler pl ig req h) w = ((r, ig'), w')"
  shows "ig' = ig \<and> (\<exists>es. trace w' = trace w @ es \<and> (\<forall>e \<in> set es. request e = AskStatus))"
proof (cases "h = GetState")
  case True
  with assms have s: "run_state (state_response ig) w = ((r, ig'), w')" by simp
  from state_same [OF s] asks_onlyD [OF state_looks s] show ?thesis by (auto simp: only_looks_def)
qed (use assms in auto)

lemma reading_routes: "map_of page_routes p = Some (False, h) \<Longrightarrow> h \<in> {Index, AppJs, AppCss, GetState}"
  by (auto simp: page_routes_def split: if_splits)

lemma routed_reading:
  assumes "pq_method req \<noteq> ''POST''" "run_state (route_page pl ig req) w = ((r, ig'), w')"
  shows "ig' = ig \<and> (\<exists>es. trace w' = trace w @ es \<and> (\<forall>e \<in> set es. request e = AskStatus))"
proof (cases "\<exists>h. map_of page_routes (pq_path req) = Some (False, h) \<and> pq_method req \<in> {''GET'', ''HEAD''}")
  case True
  then obtain h where h: "map_of page_routes (pq_path req) = Some (False, h)" "pq_method req \<in> {''GET'', ''HEAD''}" by blast
  with assms(2) have "run_state (run_handler pl ig req h) w = ((r, ig'), w')" by (simp add: route_page_def)
  from reading_handlers [OF reading_routes [OF h(1)] this] show ?thesis .
next
  case False
  with assms show ?thesis by (auto simp: route_page_def split: option.splits if_splits)
qed

lemma page_core:
  assumes "run_state (serve_page pl ig req) w = ((r, ig'), w')"
  shows "(peer_allowed ig req \<and> vouched_post pl ig req) \<or>
     (ig' = ig \<and> (\<exists>es. trace w' = trace w @ es \<and> (\<forall>e \<in> set es. request e = AskStatus \<and> peer_allowed ig req)))"
proof (cases "peer_allowed ig req")
  case False
  with assms show ?thesis by (auto simp: serve_page_def peer_check_def)
next
  case peer: True
  obtain r0 where run: "run_state (csrf_check pl ig req (route_page pl ig req)) w = ((r0, ig'), w')"
    using assms peer by (auto simp: serve_page_def peer_check_def split: prod.splits)
  show ?thesis
  proof (cases "pq_method req = ''POST''")
    case True
    have passed: "csrf_passed pl ig (pq_headers req) \<Longrightarrow> header_text pl CSRF_HEADER (pq_headers req) = Some (ig_csrf ig)"
      by (simp add: csrf_passed_def split: option.splits)
    with run True peer show ?thesis by (auto simp: csrf_check_def vouched_post_def split: if_splits)
  next
    case False
    with run have "run_state (route_page pl ig req) w = ((r0, ig'), w')" by (simp add: csrf_check_def)
    from routed_reading [OF False this] peer show ?thesis by auto
  qed
qed


definition demo_page :: ingress where
  "demo_page = \<lparr>ig_backend = PairedBackend, ig_csrf = ''t'', ig_allowed = [V4 1], ig_ha = None\<rparr>"

definition demo_post :: page_request where
  "demo_post = \<lparr>pq_method = ''POST'', pq_path = ''/api/unpair'', pq_headers = [(''x-datum-connect-csrf'', ''u'')], pq_peer = Some (V4 1), pq_body = []\<rparr>"

definition demo_texts :: page_libs where
  "demo_texts = \<lparr>pl_to_str = Some, pl_field = (\<lambda>_ _ b. Inr b), pl_html = [], pl_js = [], pl_css = []\<rparr>"


section \<open>Where it listens\<close>

lemma resolved_specified: "resolve_with aw b a auto1 = Inr (ip, allowed) \<Longrightarrow> \<not> is_unspecified ip"
  by (auto simp: resolve_with_def split: sum.splits if_splits)

lemma mapped_pieces:
  "read_octet 0 ''::ffff:0.0.0.0'' = None" "read_octet 0 ''ffff:0.0.0.0'' = None" "read_octet 0 ''0.0.0.0'' = Some (0, ''.0.0.0'')"
  "read_octet (Suc 0) ''.0.0.0'' = Some (0, ''.0.0'')" "read_octet 2 ''.0.0'' = Some (0, ''.0'')" "read_octet 3 ''.0'' = Some (0, [])"
  "read_number 16 4 True 65535 ''::ffff:0.0.0.0'' = None" "read_number 16 4 True 65535 ''ffff:0.0.0.0'' = Some (65535, '':0.0.0.0'')"
  by (simp_all add: ip_eval)

lemma mapped_groups:
  "read_groups 8 0 ''::ffff:0.0.0.0'' = ([], False, ''::ffff:0.0.0.0'')"
  "read_groups 7 0 ''ffff:0.0.0.0'' = ([65535, 0, 0], True, [])"
proof -
  have "read_groups (Suc 7) 0 ''::ffff:0.0.0.0'' = ([], False, ''::ffff:0.0.0.0'')"
    by (subst read_groups.simps(2)) (simp add: read_sep_def read_ipv4_def mapped_pieces)
  moreover have "Suc 7 = (8 :: nat)" by simp
  ultimately show "read_groups 8 0 ''::ffff:0.0.0.0'' = ([], False, ''::ffff:0.0.0.0'')" by (simp only:)
  have "read_groups (Suc 5) (Suc 0) '':0.0.0.0'' = ([0, 0], True, [])"
    by (subst read_groups.simps(2)) (simp add: read_sep_def read_ipv4_def mapped_pieces)
  then have "read_groups (Suc (Suc 5)) 0 ''ffff:0.0.0.0'' = ([65535, 0, 0], True, [])"
    by (subst read_groups.simps(2)) (simp add: read_sep_def read_ipv4_def mapped_pieces)
  moreover have "Suc (Suc 5) = (7 :: nat)" by simp
  ultimately show "read_groups 7 0 ''ffff:0.0.0.0'' = ([65535, 0, 0], True, [])" by (simp only:)
qed

lemma mapped_any: "parse_ip ''::ffff:0.0.0.0'' = Some (V6 0xFFFF00000000)"
  by (simp add: parse_ip_def read_ipv6_def read_ipv4_def mapped_pieces mapped_groups word_of_groups_def zero_groups)

text \<open>
  the guard against serving the page on every address knows 0.0.0.0 and the IPv6 form of it, but not 0.0.0.0 written as an IPv6 address: that one is taken, and it means every IPv4 address all the same.
\<close>

theorem mapped_any_address_is_taken:
  "\<exists>ip. resolve_with aw ''::ffff:0.0.0.0'' ''auto'' None = Inr (ip, [LOOPBACK]) \<and> bind_page aw tcp_bind ip port = tcp_bind ip port \<and>
     is_unspecified (to_canonical ip)"
proof -
  have t: "trim ''::ffff:0.0.0.0'' = ''::ffff:0.0.0.0''" "trim ''auto'' = ''auto''" by (simp_all add: trim_trimmed trimmed_def is_whitespace_def)
  have "\<not> is_unspecified (V6 0xFFFF00000000)" "to_canonical (V6 0xFFFF00000000) = V4 0"
    by (simp_all add: is_unspecified_def to_canonical_def)
  with mapped_any t show ?thesis by (simp add: resolve_with_def bind_page_def is_unspecified_def)
qed

end
