(* ===== verification/Log_Sources.thy ===== *)
theory Log_Sources
  imports Inspector
begin

text \<open>
  Log files shown on the dashboard, \<open>daemon/src/logs.rs\<close>: the registry of named files with its own file, its routes, and reading the last lines of a file from its end.
\<close>

section \<open>The registry\<close>

definition sources_path :: "path \<Rightarrow> path" where
  "sources_path base1 = join (join base1 ''daemon_logs'') ''sources.json''"

definition source_not_found :: "str \<Rightarrow> http_failure" where
  "source_not_found name = Failure 404 (''log source '' @ [CHR 0x27] @ name @ [CHR 0x27] @ '' not found'')"

type_synonym log_map = "(str \<times> path) list"

text \<open>The map as JSON: an object of texts.\<close>

definition map_json :: "log_map \<Rightarrow> json" where
  "map_json m = JObj (map (\<lambda>(k, v). (k, JStr v)) m)"

definition map_of_json :: "json \<Rightarrow> log_map option" where
  "map_of_json j = Option.bind (as_object j) (\<lambda>kvs. those (map (\<lambda>(k, v). map_option (Pair k) (as_str v)) kvs))"

text \<open>The registry of a running daemon, with the part of its state that it touches.\<close>

record log_sources =
  lo_sources :: log_map
  lo_base :: path
  lo_disk :: disk
  lo_max_lines :: nat

record log_libs =
  ll_codec :: codec
  ll_io :: "io_error \<Rightarrow> str"
  ll_canonicalize :: "disk \<Rightarrow> path \<Rightarrow> io_error + path"

definition load_sources :: "log_libs \<Rightarrow> path \<Rightarrow> disk \<Rightarrow> io_error + log_map" where
  "load_sources ll base1 d = (case read_file d (sources_path base1) of
     Inr content \<Rightarrow> Inr (case Option.bind (json_parse (ll_codec ll) content) map_of_json of Some m \<Rightarrow> m | None \<Rightarrow> [])
   | Inl NotFound \<Rightarrow> Inr []
   | Inl e \<Rightarrow> Inl e)"

definition save_sources :: "log_libs \<Rightarrow> log_sources \<Rightarrow> (io_error + unit) \<times> log_sources" where
  "save_sources ll s = (case create_dir (join (lo_base s) ''daemon_logs'') (lo_disk s) of
     Inl e \<Rightarrow> (Inl e, s)
   | Inr _ \<Rightarrow> (case write_atomic (sources_path (lo_base s)) (json_text (ll_codec ll) (map_json (lo_sources s))) (lo_disk s) of
       (r, d') \<Rightarrow> (r, s\<lparr>lo_disk := d'\<rparr>)))"

definition put_source :: "str \<Rightarrow> path option \<Rightarrow> log_sources \<Rightarrow> log_sources" where
  "put_source name p s = s\<lparr>lo_sources := (case p of Some p \<Rightarrow> AList.update name p (lo_sources s) | None \<Rightarrow> AList.delete name (lo_sources s))\<rparr>"

text \<open>Registering and removing a source; a change that cannot be written is taken back.\<close>

definition register_source :: "log_libs \<Rightarrow> str \<Rightarrow> path \<Rightarrow> log_sources \<Rightarrow> (io_error + unit) \<times> log_sources" where
  "register_source ll name p s = (let previous = map_of (lo_sources s) name
     in case save_sources ll (put_source name (Some p) s) of
          (Inl e, s') \<Rightarrow> (Inl e, put_source name previous s')
        | (Inr _, s') \<Rightarrow> (Inr (), s'))"

definition unregister_source :: "log_libs \<Rightarrow> str \<Rightarrow> log_sources \<Rightarrow> (io_error + bool) \<times> log_sources" where
  "unregister_source ll name s = (let removed = map_of (lo_sources s) name
     in case save_sources ll (put_source name None s) of
          (Inl e, s') \<Rightarrow> (Inl e, case removed of Some p \<Rightarrow> put_source name (Some p) s' | None \<Rightarrow> s')
        | (Inr _, s') \<Rightarrow> (Inr (removed \<noteq> None), s'))"

section \<open>The routes\<close>

record log_source_summary =
  lss_name :: str
  lss_path :: path
  lss_exists :: bool
  lss_size :: "nat option"

definition summarize :: "disk \<Rightarrow> str \<times> path \<Rightarrow> log_source_summary" where
  "summarize d np = (let meta = (case read_file d (snd np) of Inr content \<Rightarrow> Some (length content) | Inl _ \<Rightarrow> None)
     in \<lparr>lss_name = fst np, lss_path = snd np, lss_exists = (meta \<noteq> None), lss_size = meta\<rparr>)"

definition valid_name :: "str \<Rightarrow> bool" where
  "valid_name name \<longleftrightarrow> name \<noteq> [] \<and> list_all (\<lambda>c. is_alnum c \<or> c = CHR ''-'' \<or> c = CHR ''_'') name"

definition log_audited :: "log_libs \<Rightarrow> str \<Rightarrow> str \<Rightarrow> nat \<Rightarrow> log_sources \<Rightarrow> log_sources" where
  "log_audited ll event1 name now_ms s =
     s\<lparr>lo_disk := append_audit (ll_codec ll) (lo_base s) event1 name ''setup'' (word_of_nat now_ms) (lo_disk s)\<rparr>"

definition register_log :: "log_libs \<Rightarrow> str \<Rightarrow> path \<Rightarrow> nat \<Rightarrow> log_sources \<Rightarrow> (http_failure + log_source_summary) \<times> log_sources" where
  "register_log ll name requested now_ms s = (if \<not> valid_name name
     then (Inl (err_response (''name must be non-empty and contain only letters, digits, '' @ [CHR 0x27] @ ''-'' @ [CHR 0x27] @ '', '' @
       [CHR 0x27] @ ''_'' @ [CHR 0x27] @ '' (it appears in the URL path)'')), s)
     else (let resolved = (case ll_canonicalize ll (lo_disk s) requested of Inr p \<Rightarrow> p | Inl _ \<Rightarrow> requested)
       in case register_source ll name resolved s of
            (Inl e, s') \<Rightarrow> (Inl (err_response (ll_io ll e)), s')
          | (Inr _, s') \<Rightarrow> (let s2 = log_audited ll ''log_source_added'' name now_ms s'
              in (Inr (summarize (lo_disk s2) (name, resolved)), s2))))"

definition list_logs :: "log_sources \<Rightarrow> log_source_summary list" where
  "list_logs s = map (summarize (lo_disk s)) (sort_key fst (lo_sources s))"

definition remove_log :: "log_libs \<Rightarrow> str \<Rightarrow> nat \<Rightarrow> log_sources \<Rightarrow> (http_failure + str) \<times> log_sources" where
  "remove_log ll name now_ms s = (case unregister_source ll name s of
     (Inl e, s') \<Rightarrow> (Inl (err_response (ll_io ll e)), s')
   | (Inr False, s') \<Rightarrow> (Inl (source_not_found name), s')
   | (Inr True, s') \<Rightarrow> (Inr name, log_audited ll ''log_source_removed'' name now_ms s'))"

section \<open>The tail of a file\<close>

definition READ_CHUNK_SIZE :: nat where "READ_CHUNK_SIZE = 64 * 1024"
definition MAX_TAIL_READ_BYTES :: nat where "MAX_TAIL_READ_BYTES = 8 * 1024 * 1024"

text \<open>What follows the final byte of a control sequence.\<close>

definition after_csi :: "str \<Rightarrow> str" where
  "after_csi s = tl (dropWhile (\<lambda>c. \<not> (0x40 \<le> code c \<and> code c \<le> 0x7E)) s)"

lemma after_csi_shorter [termination_simp]: "length (after_csi s) \<le> length s"
  by (simp add: after_csi_def) (meson diff_le_self le_trans length_dropWhile_le)

fun strip_ansi :: "str \<Rightarrow> str" where
  "strip_ansi [] = []"
| "strip_ansi [c] = [c]"
| "strip_ansi (c # c2 # s) = (if c = CHR 0x1B \<and> c2 = CHR ''['' then strip_ansi (after_csi s) else c # strip_ansi (c2 # s))"

text \<open>
  A file under the reader's hands: what reading a number of bytes at a position gives, \<open>None\<close> when the file has become too short.
  No position is read twice, so any change of the file meanwhile is such a function.
\<close>

type_synonym reader = "nat \<Rightarrow> nat \<Rightarrow> str option"

record tail_scan =
  tn_pos :: nat
  tn_newlines :: nat
  tn_buf :: str
  tn_read :: nat

definition count_newlines :: "str \<Rightarrow> nat" where
  "count_newlines s = length (filter (\<lambda>c. c = CHR 0x0A) s)"

function scan_back :: "reader \<Rightarrow> nat \<Rightarrow> tail_scan \<Rightarrow> tail_scan" where
  "scan_back rd n t = (if 0 < tn_pos t \<and> tn_newlines t \<le> n \<and> tn_read t < MAX_TAIL_READ_BYTES
     then (let chunk_len = min READ_CHUNK_SIZE (tn_pos t); chunk_start = tn_pos t - chunk_len
       in case rd chunk_start chunk_len of None \<Rightarrow> t
          | Some chunk \<Rightarrow> scan_back rd n \<lparr>tn_pos = chunk_start, tn_newlines = tn_newlines t + count_newlines chunk,
              tn_buf = chunk @ tn_buf t, tn_read = tn_read t + chunk_len\<rparr>)
     else t)"
  by pat_completeness auto
termination by (relation "measure (\<lambda>(rd, n, t). tn_pos t)") (auto simp: READ_CHUNK_SIZE_def)

declare scan_back.simps [simp del]

definition tail_file :: "reader \<Rightarrow> nat \<Rightarrow> nat \<Rightarrow> str list" where
  "tail_file rd file_len n = (let t = scan_back rd n \<lparr>tn_pos = file_len, tn_newlines = 0, tn_buf = [], tn_read = 0\<rparr>;
     ls = lines (utf8_lossy (tn_buf t)); ls = (if 0 < tn_pos t then tl ls else ls)
     in map strip_ansi (drop (length ls - n) ls))"

text \<open>A file that stays as it is.\<close>

definition unchanging :: "str \<Rightarrow> reader" where
  "unchanging f start len = (if start + len \<le> length f then Some (take len (drop start f)) else None)"

definition tail_log :: "log_libs \<Rightarrow> str \<Rightarrow> nat option \<Rightarrow> log_sources \<Rightarrow> http_failure + str list" where
  "tail_log ll name asked s = (case map_of (lo_sources s) name of None \<Rightarrow> Inl (source_not_found name)
   | Some p \<Rightarrow> (let cap = max 1 (lo_max_lines s);
         requested = (case asked of None \<Rightarrow> cap | Some n \<Rightarrow> max 1 (min n cap))
       in case read_file (lo_disk s) p of
            Inr content \<Rightarrow> Inr (tail_file (unchanging content) (length content) requested)
          | Inl NotFound \<Rightarrow> Inr []
          | Inl e \<Rightarrow> Inl (err_response (''failed to read '' @ [CHR 0x27] @ p @ [CHR 0x27] @ '': '' @ ll_io ll e))))"

end
