(* ===== verification/Log_Facts.thy ===== *)
theory Log_Facts
  imports Log_Sources Auth_Facts
begin

text \<open>
  The tail of a registered file is its last lines, and the registry agrees with its file.
\<close>

section \<open>Lines\<close>

lemma split_never_empty [simp]: "split_on c s \<noteq> []"
  by (induction s) (auto split: list.split)

lemma split_at_end: "split_on c (a @ c # b) = split_on c a @ split_on c b"
proof (induction a)
  case (Cons x a)
  then show ?case by (cases "split_on c a") (auto split: list.split)
qed simp

lemma lines_append: "lines (a @ CHR 0x0A # b) = map strip_cr (split_on (CHR 0x0A) a) @ lines b"
  by (simp add: lines_def split_at_end Let_def butlast_append)

lemma length_split_on: "length (split_on (CHR 0x0A) s) = Suc (count_newlines s)"
  by (induction s) (auto simp: count_newlines_def split: list.split)

lemma lines_at_least: "count_newlines s \<le> length (lines s)"
  by (simp add: lines_def Let_def length_split_on)

lemma count_newlines_append [simp]: "count_newlines (a @ b) = count_newlines a + count_newlines b"
  by (simp add: count_newlines_def)

lemma count_newlines_none: "CHR 0x0A \<notin> set s \<Longrightarrow> count_newlines s = 0"
  by (auto simp: count_newlines_def filter_empty_conv)

section \<open>Text from bytes, across a line end\<close>

lemma newline_alone [simp]: "\<not> continues (CHR 0x0A)" "char_len (CHR 0x0A) = 1"
  by (simp_all add: continues_def char_len_def)

lemma second_newline [simp]: "\<not> second_ok a (CHR 0x0A)"
  by (simp add: second_ok_def)

lemma rest_len_append: "rest_len a (s @ CHR 0x0A # t) = rest_len a s"
proof (cases s)
  case (Cons b s')
  have "takeWhile continues (take m (s' @ CHR 0x0A # t)) = takeWhile continues (take m s')" for m
  proof (induction s' arbitrary: m)
    case Nil show ?case by (cases m) simp_all
  next
    case (Cons x s') then show ?case by (cases m) simp_all
  qed
  then show ?thesis using Cons by (simp add: rest_len_def del: take_append)
qed (simp add: rest_len_def)

lemma rest_len_bound: "rest_len a s \<le> length s"
proof -
  have "length (takeWhile continues (take m xs)) \<le> length xs" for m xs by (metis length_take length_takeWhile_le min.bounded_iff)
  then show ?thesis by (auto simp: rest_len_def split: list.split)
qed

lemma lossy_append: "utf8_lossy (s @ CHR 0x0A # t) = utf8_lossy s @ CHR 0x0A # utf8_lossy t"
proof (induction s rule: utf8_lossy.induct)
  case (2 a s)
  have r: "rest_len a (s @ CHR 0x0A # t) = rest_len a s" by (rule rest_len_append)
  note b = rest_len_bound [of a s]
  show ?case
  proof (cases "char_len a = 0 \<or> char_len a = 1")
    case True then show ?thesis using 2 by auto
  next
    case False
    show ?thesis
    proof (cases "rest_len a s = char_len a - 1")
      case True with False b 2(3) show ?thesis by (simp add: r)
    next
      case False' : False
      with False b 2(4) show ?thesis by (simp add: r)
    qed
  qed
qed simp

lemma newlines_of_take: "CHR 0x0A \<notin> set s \<Longrightarrow> CHR 0x0A \<notin> set (utf8_lossy s)"
proof (induction s rule: utf8_lossy.induct)
  case (2 a s)
  have "CHR 0x0A \<notin> set (drop k s)" "CHR 0x0A \<notin> set (take k s)" for k using 2(5) by (auto dest: in_set_dropD in_set_takeD)
  with 2 show ?case by (auto simp: REPLACEMENT_def)
qed simp

lemma lossy_newlines: "count_newlines (utf8_lossy s) = count_newlines s"
proof (induction "length s" arbitrary: s rule: less_induct)
  case less
  show ?case
  proof (cases "CHR 0x0A \<in> set s")
    case True
    then obtain a b where s: "s = a @ CHR 0x0A # b" "CHR 0x0A \<notin> set a" by (metis split_list_first)
    then have "count_newlines (utf8_lossy b) = count_newlines b" using less by simp
    with s show ?thesis by (simp add: lossy_append count_newlines_none newlines_of_take) (simp add: count_newlines_def)
  qed (simp add: count_newlines_none newlines_of_take)
qed

section \<open>Reading backwards\<close>

definition scanned :: "str \<Rightarrow> tail_scan \<Rightarrow> bool" where
  "scanned f t \<longleftrightarrow> tn_pos t \<le> length f \<and> tn_buf t = drop (tn_pos t) f \<and> tn_newlines t = count_newlines (tn_buf t) \<and>
     tn_read t = length (tn_buf t) \<and> (tn_pos t = 0 \<or> READ_CHUNK_SIZE dvd tn_read t) \<and> tn_read t \<le> MAX_TAIL_READ_BYTES"

lemma scan_back_scanned:
  assumes "scanned f t"
  shows "scanned f (scan_back (unchanging f) n t) \<and>
    (let t' = scan_back (unchanging f) n t in tn_pos t' = 0 \<or> n < tn_newlines t' \<or> tn_read t' = MAX_TAIL_READ_BYTES)"
  using assms
proof (induction "unchanging f" n t rule: scan_back.induct)
  case (1 n t)
  show ?case
  proof (cases "0 < tn_pos t \<and> tn_newlines t \<le> n \<and> tn_read t < MAX_TAIL_READ_BYTES")
    case True
    let ?len = "min READ_CHUNK_SIZE (tn_pos t)" let ?start = "tn_pos t - ?len"
    let ?chunk = "take ?len (drop ?start f)"
    have p: "tn_pos t \<le> length f" using 1(2) by (simp add: scanned_def)
    then have rd: "unchanging f ?start ?len = Some ?chunk" by (simp add: unchanging_def)
    have len: "length ?chunk = ?len" using p by simp
    have "?chunk @ drop (tn_pos t) f = drop ?start f"
    proof -
      have "drop ?len (drop ?start f) = drop (tn_pos t) f" by (simp add: add.commute)
      then show ?thesis by (metis append_take_drop_id)
    qed
    moreover from arg_cong [OF this, of count_newlines] have "count_newlines (drop (tn_pos t) f) + count_newlines ?chunk = count_newlines (drop ?start f)"
      by (simp only: count_newlines_append add.commute)
    moreover have "?start \<le> length f" using p by linarith
    moreover have dv: "READ_CHUNK_SIZE dvd tn_read t" using 1(2) True unfolding scanned_def by (metis neq0_conv)
    moreover have "tn_read t + ?len \<le> MAX_TAIL_READ_BYTES"
    proof -
      from dv obtain k where k: "tn_read t = READ_CHUNK_SIZE * k" by (rule dvdE)
      with True have "k < 128" by (simp add: READ_CHUNK_SIZE_def MAX_TAIL_READ_BYTES_def)
      then have "READ_CHUNK_SIZE * k + READ_CHUNK_SIZE \<le> MAX_TAIL_READ_BYTES" by (simp add: READ_CHUNK_SIZE_def MAX_TAIL_READ_BYTES_def)
      with k show ?thesis by simp
    qed
    moreover have "?start = 0 \<or> READ_CHUNK_SIZE dvd tn_read t + ?len" using dv by (simp add: min_def)
    ultimately have s: "scanned f \<lparr>tn_pos = ?start, tn_newlines = tn_newlines t + count_newlines ?chunk,
          tn_buf = ?chunk @ tn_buf t, tn_read = tn_read t + ?len\<rparr>"
      using 1(2) len p by (simp add: scanned_def)
    have e: "scan_back (unchanging f) n t = scan_back (unchanging f) n \<lparr>tn_pos = ?start, tn_newlines = tn_newlines t + count_newlines ?chunk,
          tn_buf = ?chunk @ tn_buf t, tn_read = tn_read t + ?len\<rparr>"
      using True rd by (subst scan_back.simps) (simp add: Let_def)
    show ?thesis unfolding e using 1(1) [OF True refl refl rd s] by simp
  next
    case False
    then have "scan_back (unchanging f) n t = t" by (subst scan_back.simps) auto
    with False 1(2) show ?thesis by (auto simp: scanned_def Let_def)
  qed
qed

text \<open>What a text that starts in the middle of a line shares with the whole.\<close>

lemma cut_lines:
  assumes "n < count_newlines buf"
  shows "let ls = tl (lines (utf8_lossy buf)); all1 = lines (utf8_lossy (p @ buf)) in
    drop (length ls - n) ls = drop (length all1 - n) all1"
proof -
  have "CHR 0x0A \<in> set buf" using assms by (metis count_newlines_none not_less_zero)
  then obtain x y where buf: "buf = x @ CHR 0x0A # y" "CHR 0x0A \<notin> set x" by (metis split_list_first)
  have "n \<le> count_newlines y" using assms buf by (simp add: count_newlines_none) (simp add: count_newlines_def)
  then have n: "n \<le> length (lines (utf8_lossy y))" using lines_at_least [of "utf8_lossy y"] lossy_newlines [of y] by simp
  have "split_on (CHR 0x0A) (utf8_lossy x) = [utf8_lossy x]"
  proof -
    have "split_on c s = [s]" if "c \<notin> set s" for c s using that by (induction s) auto
    then show ?thesis using newlines_of_take [OF buf(2)] by blast
  qed
  then have "tl (lines (utf8_lossy buf)) = lines (utf8_lossy y)" by (simp add: buf lossy_append lines_append)
  moreover have "lines (utf8_lossy (p @ buf)) = map strip_cr (split_on (CHR 0x0A) (utf8_lossy (p @ x))) @ lines (utf8_lossy y)"
    using lossy_append [of "p @ x" y] by (simp add: buf lines_append)
  ultimately show ?thesis using n by (simp add: Let_def)
qed

definition last_lines :: "nat \<Rightarrow> str \<Rightarrow> str list" where
  "last_lines n f = (let ls = lines (utf8_lossy f) in drop (length ls - n) ls)"

lemma tail_is_last_core:
  assumes "length f \<le> MAX_TAIL_READ_BYTES \<or> n < count_newlines (drop (length f - MAX_TAIL_READ_BYTES) f)"
  shows "tail_file (unchanging f) (length f) n = map strip_ansi (last_lines n f)"
proof -
  let ?t = "scan_back (unchanging f) n \<lparr>tn_pos = length f, tn_newlines = 0, tn_buf = [], tn_read = 0\<rparr>"
  have "scanned f \<lparr>tn_pos = length f, tn_newlines = 0, tn_buf = [], tn_read = 0\<rparr>" by (simp add: scanned_def count_newlines_def)
  from scan_back_scanned [OF this, of n] have s: "scanned f ?t" and ends: "tn_pos ?t = 0 \<or> n < tn_newlines ?t \<or> tn_read ?t = MAX_TAIL_READ_BYTES" by (simp_all add: Let_def)
  show ?thesis
  proof (cases "tn_pos ?t = 0")
    case True
    with s have "tn_buf ?t = f" by (simp add: scanned_def)
    with True show ?thesis by (simp add: tail_file_def last_lines_def Let_def)
  next
    case False
    have buf: "tn_buf ?t = drop (tn_pos ?t) f" "tn_pos ?t \<le> length f" "tn_newlines ?t = count_newlines (tn_buf ?t)" "tn_read ?t = length (tn_buf ?t)"
      using s by (simp_all add: scanned_def)
    have "n < count_newlines (tn_buf ?t)"
    proof (cases "tn_read ?t = MAX_TAIL_READ_BYTES")
      case True
      with buf have "tn_pos ?t = length f - MAX_TAIL_READ_BYTES" "length f > MAX_TAIL_READ_BYTES" using False by auto
      with assms buf show ?thesis by simp
    qed (use ends False buf in auto)
    from cut_lines [OF this, of "take (tn_pos ?t) f"] have "let ls = tl (lines (utf8_lossy (tn_buf ?t))) in drop (length ls - n) ls = last_lines n f"
      using buf(1) by (simp add: last_lines_def Let_def)
    with False show ?thesis by (simp add: tail_file_def Let_def)
  qed
qed

section \<open>The tail\<close>


text \<open>
  C19: the tail of a registered source is what it says: for a file that does not change meanwhile, the last lines of its text, as many as were asked for and
  the operator allows, without control sequences, though only its end is read. It is so for every file of at most 8 MiB, and for a larger one whose last
  8 MiB hold more line ends than lines were asked for.
\<close>

theorem tail_is_last_lines:
  assumes "map_of (lo_sources s) name = Some p" "read_file (lo_disk s) p = Inr f"
    "n = (case asked of None \<Rightarrow> max 1 (lo_max_lines s) | Some k \<Rightarrow> max 1 (min k (max 1 (lo_max_lines s))))"
    "length f \<le> MAX_TAIL_READ_BYTES \<or> n < count_newlines (drop (length f - MAX_TAIL_READ_BYTES) f)"
  shows "tail_log ll name asked s = Inr (map strip_ansi (last_lines n f)) \<and> length (last_lines n f) \<le> max 1 (lo_max_lines s)"
proof -
  have "n \<le> max 1 (lo_max_lines s)" using assms(3) by (auto split: option.splits)
  then show ?thesis using tail_is_last_core [OF assms(4)] assms(1-3)
    by (simp add: tail_log_def Let_def last_lines_def split: option.splits)
qed

theorem tail_is_last_lines_witness:
  "tail_log \<lparr>ll_codec = undefined, ll_io = \<lambda>_. [], ll_canonicalize = \<lambda>_ p. Inr p\<rparr> ''app'' (Some 2)
     \<lparr>lo_sources = [(''app'', ''/log'')], lo_base = ''/d'', lo_disk = \<lparr>files = [(''/log'', ''a'' @ [CHR 0x0A] @ ''b'' @ [CHR 0x0A] @ [CHR 0x1B] @ ''[31mc'')], denied = \<lambda>_. False\<rparr>,
       lo_max_lines = 500\<rparr> = Inr [''b'', ''c'']"
  (is "tail_log ?ll _ _ ?s = _")
proof -
  let ?f = "''a'' @ [CHR 0x0A] @ ''b'' @ [CHR 0x0A] @ [CHR 0x1B] @ ''[31mc''"
  have "length ?f \<le> MAX_TAIL_READ_BYTES" by (simp add: MAX_TAIL_READ_BYTES_def)
  then have "tail_log ?ll ''app'' (Some 2) ?s = Inr (map strip_ansi (last_lines 2 ?f))"
    using tail_is_last_lines [of ?s "''app''" "''/log''" ?f 2 "Some 2" ?ll] by (simp add: read_file_def)
  moreover have "utf8_lossy ?f = ?f" by (simp add: char_len_def)
  then have "last_lines 2 ?f = [''b'', [CHR 0x1B] @ ''[31mc'']" by (simp add: last_lines_def lines_def strip_cr_def Let_def)
  moreover have "strip_ansi ''b'' = ''b''" "strip_ansi ([CHR 0x1B] @ ''[31mc'') = ''c''" by (simp_all add: after_csi_def)
  ultimately show ?thesis by simp
qed

section \<open>The registry and its file\<close>

datatype log_op = RegisterLog str path nat | RemoveLog str nat | Elsewhere "disk \<Rightarrow> disk"

fun log_step :: "log_libs \<Rightarrow> log_op \<Rightarrow> log_sources \<Rightarrow> log_sources" where
  "log_step ll (RegisterLog name p t) s = snd (register_log ll name p t s)"
| "log_step ll (RemoveLog name t) s = snd (remove_log ll name t s)"
| "log_step ll (Elsewhere f) s = s\<lparr>lo_disk := f (lo_disk s)\<rparr>"

text \<open>What else happens on the disk, permissions and space included, leaves the registry's file alone.\<close>

definition leaves_registry :: "path \<Rightarrow> log_op \<Rightarrow> bool" where
  "leaves_registry p op \<longleftrightarrow> (case op of Elsewhere f \<Rightarrow> (\<forall>d. map_of (files (f d)) p = map_of (files d) p) | _ \<Rightarrow> True)"

definition stored_sources :: "log_libs \<Rightarrow> path \<Rightarrow> disk \<Rightarrow> log_map" where
  "stored_sources ll base1 d = (case map_of (files d) (sources_path base1) of None \<Rightarrow> []
     | Some content \<Rightarrow> (case Option.bind (json_parse (ll_codec ll) content) map_of_json of Some m \<Rightarrow> m | None \<Rightarrow> []))"

definition in_step :: "log_libs \<Rightarrow> log_sources \<Rightarrow> bool" where
  "in_step ll s \<longleftrightarrow> map_of (stored_sources ll (lo_base s) (lo_disk s)) = map_of (lo_sources s)"

lemma load_is_stored: "load_sources ll base1 d = Inr m \<longleftrightarrow> \<not> denied d (sources_path base1) \<and> m = stored_sources ll base1 d"
  by (auto simp: load_sources_def stored_sources_def read_file_def split: option.splits)

lemma map_json_round [simp]: "map_of_json (map_json m) = Some m"
  by (induction m) (auto simp: map_json_def map_of_json_def)

lemma join_last: "p \<noteq> [] \<Longrightarrow> hd p \<noteq> CHR ''/'' \<Longrightarrow> last (join b p) = last p"
  by (cases p) (auto simp: join_def starts_with_def)

lemma audit_elsewhere: "sources_path base1 \<noteq> audit_log_path base1"
proof
  assume "sources_path base1 = audit_log_path base1"
  then have "last (sources_path base1) = last (audit_log_path base1)" by simp
  then show False by (simp add: sources_path_def audit_log_path_def join_last)
qed

lemma append_file_map:
  assumes "q \<noteq> p"
  shows "map_of (files (snd (append_file p c d))) q = map_of (files d) q"
proof -
  have p: "map_of (files (snd (put_file p c d))) q = map_of (files d) q" for c using assms by (simp add: put_file_def)
  show ?thesis
  proof (cases "read_file d p")
    case (Inl e)
    then show ?thesis by (cases e) (simp_all add: append_file_def p)
  next
    case (Inr old)
    then show ?thesis by (simp add: append_file_def p)
  qed
qed

lemma append_audit_map: "q \<noteq> audit_log_path b \<Longrightarrow> map_of (files (append_audit k b ev tun who t d)) q = map_of (files d) q"
  by (simp add: append_audit_def append_file_map split: sum.split)

lemma audited_stored [simp]: "stored_sources ll (lo_base s) (lo_disk (log_audited ll ev name t s)) = stored_sources ll (lo_base s) (lo_disk s)"
  by (simp add: log_audited_def stored_sources_def append_audit_map audit_elsewhere)

lemma audited_same [simp]: "lo_base (log_audited ll ev name t s) = lo_base s" "lo_sources (log_audited ll ev name t s) = lo_sources s"
  by (simp_all add: log_audited_def)

lemma save_keeps:
  assumes "save_sources ll s = (r, s')"
  shows "lo_base s' = lo_base s \<and> lo_sources s' = lo_sources s"
  using assms by (auto simp: save_sources_def split: sum.splits prod.splits)

lemma save_stores:
  assumes "good_codec (ll_codec ll)" "save_sources ll s = (r, s')"
  shows "stored_sources ll (lo_base s) (lo_disk s') = (case r of Inr _ \<Rightarrow> lo_sources s | Inl _ \<Rightarrow> stored_sources ll (lo_base s) (lo_disk s))"
proof -
  have j: "json_parse (ll_codec ll) (json_text (ll_codec ll) j) = Some j" for j using assms(1) by (simp add: good_codec_def)
  from assms(2) show ?thesis
    by (auto simp: save_sources_def write_atomic_def put_file_def rename_file_def stored_sources_def create_dir_def Let_def j split: if_splits option.splits)
qed

lemma put_some [simp]: "map_of (lo_sources (put_source name (Some p) s)) = (map_of (lo_sources s))(name \<mapsto> p)"
  by (simp add: put_source_def update_conv')

lemma put_none [simp]: "map_of (lo_sources (put_source name None s)) = (map_of (lo_sources s))(name := None)"
  by (simp add: put_source_def delete_conv')

lemma source_put_back [simp]: "lo_base (put_source name p s) = lo_base s" "lo_disk (put_source name p s) = lo_disk s"
  by (simp_all add: put_source_def)

lemma in_step_register:
  assumes "good_codec (ll_codec ll)" "in_step ll s" "register_source ll name p s = (r, s')"
  shows "in_step ll s' \<and> lo_base s' = lo_base s"
proof -
  obtain q v where q: "save_sources ll (put_source name (Some p) s) = (q, v)" by fastforce
  note k = save_keeps [OF q] save_stores [OF assms(1) q]
  have "(map_of (lo_sources s))(name := map_of (lo_sources s) name) = map_of (lo_sources s)" by simp
  with assms(2,3) q k show ?thesis
    by (cases "map_of (lo_sources s) name") (auto simp: register_source_def in_step_def Let_def split: sum.splits)
qed

lemma in_step_unregister:
  assumes "good_codec (ll_codec ll)" "in_step ll s" "unregister_source ll name s = (r, s')"
  shows "in_step ll s' \<and> lo_base s' = lo_base s"
proof -
  obtain q v where q: "save_sources ll (put_source name None s) = (q, v)" by fastforce
  note k = save_keeps [OF q] save_stores [OF assms(1) q]
  have "map_of (lo_sources s) name = None \<Longrightarrow> (map_of (lo_sources s))(name := None) = map_of (lo_sources s)" by (metis fun_upd_triv)
  with assms(2,3) q k show ?thesis
    by (cases "map_of (lo_sources s) name") (auto simp: unregister_source_def in_step_def Let_def split: sum.splits)
qed

lemma in_step_audited [simp]: "in_step ll (log_audited ll ev name t s) \<longleftrightarrow> in_step ll s"
  by (simp add: in_step_def)

lemma in_step_step:
  assumes "good_codec (ll_codec ll)" "in_step ll s" "leaves_registry (sources_path (lo_base s)) op"
  shows "in_step ll (log_step ll op s) \<and> lo_base (log_step ll op s) = lo_base s"
proof (cases op)
  case (RegisterLog name p t)
  then show ?thesis using assms(2) in_step_register [OF assms(1,2)]
    by (auto simp: register_log_def Let_def split: sum.splits prod.splits)
next
  case (RemoveLog name t)
  then show ?thesis using assms(2) in_step_unregister [OF assms(1,2)]
    by (auto simp: remove_log_def Let_def split: sum.splits prod.splits bool.splits)
next
  case (Elsewhere f)
  then show ?thesis using assms(2,3) by (simp add: in_step_def leaves_registry_def stored_sources_def)
qed

lemma in_step_run:
  "good_codec (ll_codec ll) \<Longrightarrow> in_step ll s \<Longrightarrow> list_all (leaves_registry (sources_path (lo_base s))) ops \<Longrightarrow>
   in_step ll (fold (log_step ll) ops s) \<and> lo_base (fold (log_step ll) ops s) = lo_base s"
proof (induction ops arbitrary: s)
  case (Cons op ops)
  from Cons.prems have "leaves_registry (sources_path (lo_base s)) op" by simp
  from in_step_step [OF Cons.prems(1,2) this] Cons show ?case by simp
qed simp

text \<open>
  C31: the registry of log files and its file agree. Whatever is registered and removed, and whatever else happens on the disk, writes that fail included:
  a daemon that starts again reads exactly the sources that the one before it had.
\<close>

theorem registry_matches_its_file:
  assumes "good_codec (ll_codec ll)" "load_sources ll (lo_base s) (lo_disk s) = Inr (lo_sources s)"
    "list_all (leaves_registry (sources_path (lo_base s))) ops"
    "\<not> denied (lo_disk (fold (log_step ll) ops s)) (sources_path (lo_base s))"
  shows "\<exists>m. load_sources ll (lo_base s) (lo_disk (fold (log_step ll) ops s)) = Inr m \<and> map_of m = map_of (lo_sources (fold (log_step ll) ops s))"
proof -
  have "in_step ll s" using assms(2) by (simp add: load_is_stored in_step_def)
  from in_step_run [OF assms(1) this assms(3)] assms(4) show ?thesis by (auto simp: load_is_stored in_step_def)
qed


definition demo_log_libs :: log_libs where
  "demo_log_libs = \<lparr>ll_codec = sample_codec, ll_io = \<lambda>_. ''no'', ll_canonicalize = \<lambda>_ p. Inr p\<rparr>"

definition demo_logs :: log_sources where
  "demo_logs = \<lparr>lo_sources = [], lo_base = ''/d'', lo_disk = \<lparr>files = [], denied = \<lambda>_. False\<rparr>, lo_max_lines = 500\<rparr>"

text \<open>A source is registered; then its removal fails, because the disk refuses every write for a while.\<close>

definition demo_log_ops :: "log_op list" where
  "demo_log_ops = [RegisterLog ''app'' ''/log'' 5, Elsewhere (\<lambda>d. d\<lparr>denied := \<lambda>_. True\<rparr>), RemoveLog ''app'' 6, Elsewhere (\<lambda>d. d\<lparr>denied := \<lambda>_. False\<rparr>)]"

theorem registry_matches_its_file_witness:
  "\<exists>m. load_sources demo_log_libs ''/d'' (lo_disk (fold (log_step demo_log_libs) demo_log_ops demo_logs)) = Inr m \<and> map_of m ''app'' = Some ''/log''"
proof -
  let ?s = "fold (log_step demo_log_libs) demo_log_ops demo_logs"
  have "map_of (lo_sources ?s) ''app'' = Some ''/log''"
    by (simp add: demo_log_ops_def demo_logs_def demo_log_libs_def register_log_def valid_name_def is_alnum_def is_lower_def is_upper_def is_digit_def
        register_source_def save_sources_def create_dir_def write_atomic_def put_file_def rename_file_def put_source_def log_audited_def remove_log_def unregister_source_def Let_def)
  moreover have "\<exists>m. load_sources demo_log_libs (lo_base demo_logs) (lo_disk ?s) = Inr m \<and> map_of m = map_of (lo_sources ?s)"
  proof (rule registry_matches_its_file)
    show "good_codec (ll_codec demo_log_libs)" by (simp add: demo_log_libs_def good_sample_codec)
    show "load_sources demo_log_libs (lo_base demo_logs) (lo_disk demo_logs) = Inr (lo_sources demo_logs)"
      by (simp add: demo_logs_def load_sources_def read_file_def)
    show "list_all (leaves_registry (sources_path (lo_base demo_logs))) demo_log_ops" by (simp add: demo_log_ops_def leaves_registry_def)
    show "\<not> denied (lo_disk ?s) (sources_path (lo_base demo_logs))" by (simp add: demo_log_ops_def)
  qed
  ultimately show ?thesis by (auto simp: demo_logs_def)
qed

end
