(* ===== verification/Addon_Page.thy ===== *)
theory Addon_Page
  imports Ingress Ha_Allow
begin

text \<open>
  What the add-on's page shows once paired, and what it does: \<open>daemon/src/addon_page.rs\<close>. It runs in the daemon, over the same tunnels; one
  operation runs at a time. Allow runs in the background: what it does to the page's state are operations of their own, \<open>allow_stepped\<close> and
  \<open>allow_ended\<close>, and its conversation with Home Assistant is \<open>Ha_Allow\<close>.
\<close>

section \<open>State\<close>

definition STATUS_TTL :: nat where "STATUS_TTL = 5000"
definition EDGE_TTL :: nat where "EDGE_TTL = 60000"
definition PROXY_TTL :: nat where "PROXY_TTL = 30000"
definition PROXY_STEP_MARKER :: str where "PROXY_STEP_MARKER = ''addon_proxy_step_finished''"
definition NEW_ADDRESS_WINDOW :: nat where "NEW_ADDRESS_WINDOW = 10 * 60 * 1000"
definition PORTAL :: str where "PORTAL = ''https://cloud.datum.net''"
definition LEFTOVER_TRIAL_WATCH :: nat where "LEFTOVER_TRIAL_WATCH = 5 * 60 * 1000"

definition ALLOWED_MESSAGE :: str where "ALLOWED_MESSAGE = ''Home Assistant now accepts connections through Datum.''"

definition ARROW :: str where "ARROW = [CHR 0xE2, CHR 0x86, CHR 0x92]"

definition PENDING_MESSAGE :: str where
  "PENDING_MESSAGE = ''Home Assistant has a network settings change waiting for confirmation. Finish it in Settings '' @ ARROW @ '' System '' @ ARROW @
     '' Network (confirm or discard it), then come back here.''"

record proxy_job =
  pj_running :: "allow_step option"
  pj_last :: "(bool \<times> str) option"
  pj_finished :: "bool option"
  pj_cached :: "(nat \<times> proxy_setup option) option"
  pj_version :: nat
  pj_auto_tried :: bool

type_synonym page_status = "edge_policy_status paired_status"

record cached_status =
  cs_at :: nat
  cs_version :: nat
  cs_running :: "str list"
  cs_status :: page_status

definition serves :: "nat \<Rightarrow> cached_status \<Rightarrow> nat \<Rightarrow> str list \<Rightarrow> bool" where
  "serves t c version up1 \<longleftrightarrow> t - cs_at c < STATUS_TTL \<and> cs_version c = version \<and> cs_running c = up1"

record addon =
  ad_daemon :: daemon
  ad_edge_policies :: bool
  ad_key_file :: "path option"
  ad_paired_key_file :: "path option"
  ad_supervisor :: bool
  ad_cache :: "cached_status option"
  ad_edge :: "(str \<times> nat \<times> edge_policy_status) list"
  ad_job :: proxy_job

definition new_addon :: "daemon \<Rightarrow> bool \<Rightarrow> path option \<Rightarrow> path option \<Rightarrow> bool \<Rightarrow> addon" where
  "new_addon d edge_policies key_file paired_key_file sup1 = \<lparr>ad_daemon = d, ad_edge_policies = edge_policies, ad_key_file = key_file,
     ad_paired_key_file = paired_key_file, ad_supervisor = sup1, ad_cache = None, ad_edge = [],
     ad_job = \<lparr>pj_running = None, pj_last = None, pj_finished = None, pj_cached = None, pj_version = 0, pj_auto_tried = False\<rparr>\<rparr>"

record addon_libs =
  al_daemon :: daemon_libs
  al_rfc3339 :: "str \<Rightarrow> int option"
  al_words :: "allow_failure \<Rightarrow> str"
  al_uri :: "uri \<Rightarrow> str"

type_synonym 'a paged = "('a \<times> addon) dio"

abbreviation gives_back :: "'a \<Rightarrow> addon \<Rightarrow> 'a paged" where "gives_back r a \<equiv> State_Monad.return (r, a)"

fun rn_edge :: "daemon_reply \<Rightarrow> edge_policy_status option" where "rn_edge (RNews (EdgeIs x)) = x" | "rn_edge _ = None"
fun rn_config :: "daemon_reply \<Rightarrow> str + json" where "rn_config (RNews (ConfigIs x)) = x" | "rn_config _ = Inl []"
fun rn_info :: "daemon_reply \<Rightarrow> str + unit" where "rn_info (RNews (InfoIs x)) = x" | "rn_info _ = Inl []"

definition on_job :: "(proxy_job \<Rightarrow> proxy_job) \<Rightarrow> addon \<Rightarrow> addon" where
  "on_job f a = a\<lparr>ad_job := f (ad_job a)\<rparr>"

definition bump :: "proxy_job \<Rightarrow> proxy_job" where
  "bump j = j\<lparr>pj_version := Suc (pj_version j)\<rparr>"

definition as_action_error :: "nat \<Rightarrow> str \<Rightarrow> action_error" where
  "as_action_error status message = \<lparr>ae_status = status, ae_message = message\<rparr>"

section \<open>Reading the key\<close>

record key_facts =
  kf_email :: "str option"
  kf_source :: str
  kf_why_not :: "str option"

definition key_facts_of :: "codec \<Rightarrow> disk \<Rightarrow> path option \<Rightarrow> path option \<Rightarrow> bool \<Rightarrow> key_facts" where
  "key_facts_of k d key_file paired_key_file has_supervisor =
     (let email = Option.bind key_file (\<lambda>p. case read_file d p of Inl _ \<Rightarrow> None
        | Inr raw \<Rightarrow> Option.bind (json_parse k raw) (\<lambda>v. Option.bind (get v ''client_email'') as_str));
      paired = (case (key_file, paired_key_file) of (Some p, Some q) \<Rightarrow> p = q | _ \<Rightarrow> False)
      in \<lparr>kf_email = email, kf_source = (if paired then ''paired'' else ''provided''),
          kf_why_not = (if \<not> paired then Some ''This add-on runs on a key you provided, not one made by connecting to Datum. To connect from this page instead, clear service_account_key on the Configuration tab (and remove any key file in /share), then restart.''
            else if \<not> has_supervisor then Some ''Re-pair and Unpair restart the add-on through the Home Assistant Supervisor, which is not available here.''
            else None)\<rparr>)"

definition the_key :: "addon_libs \<Rightarrow> addon \<Rightarrow> key_facts" where
  "the_key al a = key_facts_of (dl_codec (al_daemon al)) (the_disk (ad_daemon a)) (ad_key_file a) (ad_paired_key_file a) (ad_supervisor a)"

section \<open>The tunnels\<close>

definition tunnel_state :: "tunnel_summary \<Rightarrow> bool \<Rightarrow> str" where
  "tunnel_state t up1 = (if up1 then (if ts_connector_ready t \<and> ts_programmed t then ''online'' else ''starting'')
     else if \<not> ts_enabled t then ''off''
     else if ts_connector_ready t \<and> ts_programmed t then ''online'' else ''offline'')"

definition view_tunnel :: "addon_libs \<Rightarrow> tunnel_summary \<Rightarrow> bool \<Rightarrow> edge_policy_status option \<Rightarrow> str \<Rightarrow> nat \<Rightarrow> edge_policy_status tunnel_view" where
  "view_tunnel al t up1 edge project now_ms = \<lparr>tv_id = ts_id t, tv_label = ts_label t,
     tv_address = (case ts_hostnames t of [] \<Rightarrow> None | h # _ \<Rightarrow> Some (''https://'' @ h)), tv_state = tunnel_state t up1, tv_edge = edge,
     tv_portal = Some (PORTAL @ ''/project/'' @ project @ ''/edge/'' @ ts_id t @ ''/overview''),
     tv_new_address = created_within (al_rfc3339 al) t NEW_ADDRESS_WINDOW (int now_ms)\<rparr>"

definition split_tunnels :: "addon \<Rightarrow> tunnel_summary list \<Rightarrow> tunnel_summary list \<times> tunnel_summary list" where
  "split_tunnels a ts = (case da_exclusive (ad_daemon a) of
     Some label \<Rightarrow> (let part = partition_tunnels ts label (\<lambda>tun. is_locally_known (the_dir (ad_daemon a)) (da_project (ad_daemon a)) tun (the_disk (ad_daemon a)))
       in (case pa_active part of Some t \<Rightarrow> [t] | None \<Rightarrow> [], pa_older part))
   | None \<Rightarrow> (ts, []))"

definition running_ids :: "addon \<Rightarrow> str list" where
  "running_ids a = sort (map fst (da_running (ad_daemon a)))"

definition ask_edge :: "str \<Rightarrow> addon \<Rightarrow> edge_policy_status option paged" where
  "ask_edge tun a = do { r \<leftarrow> ask_as rn_edge (Errand (EdgeStatusOf tun));
     (case r of None \<Rightarrow> gives_back None a
      | Some s \<Rightarrow> do { t \<leftarrow> now; gives_back (Some s) (a\<lparr>ad_edge := AList.update tun (t, s) (ad_edge a)\<rparr>) }) }"

definition edge_status :: "str \<Rightarrow> addon \<Rightarrow> edge_policy_status option paged" where
  "edge_status tun a = (if \<not> ad_edge_policies a then gives_back None a
     else do { t \<leftarrow> now;
       (case map_of (ad_edge a) tun of
          Some (t0, s) \<Rightarrow> if t - t0 < EDGE_TTL then gives_back (Some s) a else ask_edge tun a
        | None \<Rightarrow> ask_edge tun a) })"

text \<open>The add-on's own tunnels, each with its policies at the edge.\<close>

fun view_each :: "addon_libs \<Rightarrow> nat \<Rightarrow> str list \<Rightarrow> tunnel_summary list \<Rightarrow> addon \<Rightarrow> edge_policy_status tunnel_view list paged" where
  "view_each al now_ms up1 [] a = gives_back [] a"
| "view_each al now_ms up1 (t # ts) a = do {
     (edge, a) \<leftarrow> edge_status (ts_id t) a;
     (vs, a) \<leftarrow> view_each al now_ms up1 ts a;
     gives_back (view_tunnel al t (ts_id t \<in> set up1) edge (da_project (ad_daemon a)) now_ms # vs) a }"

section \<open>The step of Home Assistant's trusted proxies\<close>

definition ELLIPSIS :: str where "ELLIPSIS = [CHR 0xE2, CHR 0x80, CHR 0xA6]"

fun describe_step :: "allow_step \<Rightarrow> str" where
  "describe_step Saving = ''Saving the setting in Home Assistant'' @ ELLIPSIS"
| "describe_step Restarting = ''Home Assistant is restarting with the new setting'' @ ELLIPSIS @ '' This can take several minutes (on a Home Assistant Green, up to about 10).''"
| "describe_step Verifying = ''Checking a request the way Datum sends it'' @ ELLIPSIS"
| "describe_step Confirming = ''Confirming the setting'' @ ELLIPSIS"

definition marker :: "addon \<Rightarrow> path" where
  "marker a = join (the_dir (ad_daemon a)) PROXY_STEP_MARKER"

definition step_finished :: "addon \<Rightarrow> bool \<times> addon" where
  "step_finished a = (let f = (case pj_finished (ad_job a) of Some f \<Rightarrow> f | None \<Rightarrow> file_there (the_disk (ad_daemon a)) (marker a))
     in (f, on_job (\<lambda>j. j\<lparr>pj_finished := Some f\<rparr>) a))"

definition finish_step :: "addon \<Rightarrow> addon" where
  "finish_step a = on_job (\<lambda>j. bump (j\<lparr>pj_finished := Some True\<rparr>))
     (a\<lparr>ad_daemon := with_disk (ad_daemon a) (snd (put_file (marker a) [] (the_disk (ad_daemon a))))\<rparr>)"

definition proxy_step_view_of :: "proxy_setup option \<Rightarrow> (bool \<times> str) option \<Rightarrow> bool \<Rightarrow> proxy_step_view" where
  "proxy_step_view_of setup1 last1 finished =
     (let just_allowed = (case last1 of Some (True, _) \<Rightarrow> True | _ \<Rightarrow> False);
          view = (\<lambda>state message. \<lparr>py_state = state, py_message = message, py_setup = (\<not> finished \<or> just_allowed)\<rparr>)
      in case (setup1, last1) of
           (Some Ready, _) \<Rightarrow> view ''ok'' None
         | (_, Some (False, why)) \<Rightarrow> view ''failed'' (Some why)
         | (Some Pending, _) \<Rightarrow> view ''pending'' (Some PENDING_MESSAGE)
         | (Some (Ours _), _) \<Rightarrow> view ''needed'' None
         | (Some (Needed _), _) \<Rightarrow> view ''needed'' None
         | (None, _) \<Rightarrow> view ''unknown'' (Some ''Could not ask Home Assistant about its network settings.''))"

definition settled_view :: "proxy_setup option \<Rightarrow> (bool \<times> str) option \<Rightarrow> addon \<Rightarrow> proxy_step_view \<times> addon" where
  "settled_view setup1 last1 a = (case step_finished a of (finished, a) \<Rightarrow>
     if \<not> finished \<and> setup1 = Some Ready then (proxy_step_view_of setup1 last1 True, finish_step a)
     else (proxy_step_view_of setup1 last1 finished, a))"

definition auto_confirm_due :: "proxy_setup option \<Rightarrow> proxy_job \<Rightarrow> bool" where
  "auto_confirm_due setup1 j \<longleftrightarrow> setup1 = Some (Ours True) \<and> pj_running j = None \<and> \<not> pj_auto_tried j"

section \<open>Allow\<close>

text \<open>The numeric address of a target.\<close>

definition target_addr :: "uri \<Rightarrow> (ip_addr \<times> nat) option" where
  "target_addr u = Option.bind (u_host u) (\<lambda>h. Option.bind (parse_ip (trim_end_char (CHR '']'') (trim_start_char (CHR ''['') h))) (\<lambda>ip.
     Some (ip, case u_port u of Some p \<Rightarrow> p | None \<Rightarrow> 80)))"

definition active_target :: "addon_libs \<Rightarrow> addon \<Rightarrow> (action_error + ip_addr \<times> nat) dio" where
  "active_target al a = do { r \<leftarrow> ask_as dr_summaries ListActive;
     State_Monad.return (case r of
       Inl e \<Rightarrow> Inl (as_action_error 503 (''Could not ask Datum about the tunnel, so nothing was changed: '' @ e))
     | Inr ts \<Rightarrow> (case List.map_filter (\<lambda>t. map_option ih_target (map_of (da_inspectors (ad_daemon a)) (ts_id t))) (fst (split_tunnels a ts)) of
         [] \<Rightarrow> Inl (as_action_error 409 (''The tunnel isn'' @ [CHR 0x27] @ ''t running yet, so a request through it can'' @ [CHR 0x27] @ ''t be checked. Try again in a moment.''))
       | target # _ \<Rightarrow> (case target_addr target of Some addr \<Rightarrow> Inr addr
           | None \<Rightarrow> Inl (as_action_error 409 (''The tunnel forwards to '' @ al_uri al target @ '', which is not an address a request can be checked against.''))))) }"

definition begin_allow :: "bool \<Rightarrow> proxy_job \<Rightarrow> proxy_job" where
  "begin_allow auto1 j = bump (if auto1 then j\<lparr>pj_running := Some Verifying, pj_auto_tried := True\<rparr> else j\<lparr>pj_running := Some Saving, pj_last := None\<rparr>)"

definition allow_inner :: "addon_libs \<Rightarrow> bool \<Rightarrow> addon \<Rightarrow> (action_error + unit) paged" where
  "allow_inner al auto1 a = (if \<not> ad_supervisor a
     then gives_back (Inl (as_action_error 409 ''This needs the Home Assistant Supervisor, which is not available here.'')) a
     else do { target \<leftarrow> active_target al a;
       (case target of Inl e \<Rightarrow> gives_back (Inl e) a
        | Inr addr \<Rightarrow> if pj_running (ad_job a) \<noteq> None then gives_back (Inl (as_action_error 409 ''Already in progress.'')) a
            else do { signal (Errand (SpawnAllow auto1 addr)); gives_back (Inr ()) (on_job (begin_allow auto1) a) }) })"

text \<open>What the background task does to the page: a step of Allow, and its end. \<open>None\<close>: there was nothing of ours to confirm.\<close>

definition allow_stepped :: "allow_step \<Rightarrow> addon \<Rightarrow> addon" where
  "allow_stepped s = on_job (\<lambda>j. bump (j\<lparr>pj_running := Some s\<rparr>))"

fun outcome_message :: "addon_libs \<Rightarrow> allow_outcome \<Rightarrow> bool \<times> str" where
  "outcome_message al Allowed = (True, ALLOWED_MESSAGE)"
| "outcome_message al AlreadyAllowed = (True, ALLOWED_MESSAGE)"
| "outcome_message al PendingByOther = (False, PENDING_MESSAGE)"
| "outcome_message al (Failed why) = (False, al_words al why)"

definition allow_ended :: "addon_libs \<Rightarrow> allow_outcome option \<Rightarrow> addon \<Rightarrow> addon" where
  "allow_ended al out a = (case out of
     None \<Rightarrow> on_job (\<lambda>j. bump (j\<lparr>pj_running := None, pj_cached := None\<rparr>)) a
   | Some o1 \<Rightarrow> (let m = outcome_message al o1
       in on_job (\<lambda>j. bump (j\<lparr>pj_running := None, pj_last := Some m, pj_cached := None\<rparr>)) (if fst m then finish_step a else a)))"

section \<open>The page's view of the step\<close>

definition working_view :: "allow_step \<Rightarrow> bool \<Rightarrow> proxy_step_view" where
  "working_view s finished = \<lparr>py_state = ''working'', py_message = Some (describe_step s), py_setup = \<not> finished\<rparr>"

definition ask_setup :: "addon \<Rightarrow> proxy_setup option paged" where
  "ask_setup a = do { r \<leftarrow> ask_as rn_config (Errand HttpConfig);
     t \<leftarrow> now;
     (let setup1 = (case r of Inl _ \<Rightarrow> None | Inr c \<Rightarrow> (case assess c of Inr s \<Rightarrow> Some s | Inl _ \<Rightarrow> None))
      in gives_back setup1 (on_job (\<lambda>j. j\<lparr>pj_cached := Some (t, setup1)\<rparr>) a)) }"

definition known_setup :: "addon \<Rightarrow> proxy_setup option paged" where
  "known_setup a = do { t \<leftarrow> now;
     (case pj_cached (ad_job a) of
        Some (t0, s) \<Rightarrow> if t - t0 < PROXY_TTL then gives_back s a else ask_setup a
      | None \<Rightarrow> ask_setup a) }"

definition proxy_step :: "addon_libs \<Rightarrow> addon \<Rightarrow> proxy_step_view option paged" where
  "proxy_step al a = (if \<not> ad_supervisor a then gives_back None a
     else (let last1 = pj_last (ad_job a) in case step_finished a of (finished, a) \<Rightarrow>
       (case pj_running (ad_job a) of
          Some s \<Rightarrow> gives_back (Some (working_view s finished)) a
        | None \<Rightarrow> do { (setup1, a) \<leftarrow> known_setup a;
            (began, a) \<leftarrow> (if auto_confirm_due setup1 (ad_job a) then allow_inner al True a else gives_back (Inl (as_action_error 0 [])) a);
            (case began of
               Inr _ \<Rightarrow> gives_back (Some (working_view (case pj_running (ad_job a) of Some s \<Rightarrow> s | None \<Rightarrow> Verifying) finished)) a
             | Inl _ \<Rightarrow> (case settled_view setup1 last1 a of (v, a) \<Rightarrow> gives_back (Some v) a)) })))"

section \<open>The status\<close>

definition fresh_status :: "addon_libs \<Rightarrow> str list \<Rightarrow> addon \<Rightarrow> page_status paged" where
  "fresh_status al up1 a = (let key = the_key al a;
       status0 = \<lparr>pd_project = da_project (ad_daemon a), pd_account = kf_email key, pd_key_source = kf_source key, pd_tunnels = [], pd_older = [],
         pd_proxies = None, pd_can_forget = (kf_why_not key = None), pd_why_not = kf_why_not key, pd_error = None\<rparr>
     in do { r \<leftarrow> ask_as dr_summaries ListActive;
       (status1, a) \<leftarrow> (case r of
          Inl e \<Rightarrow> gives_back (status0\<lparr>pd_error := Some (''Could not ask Datum about the tunnel: '' @ e)\<rparr>) a
        | Inr ts \<Rightarrow> do { t \<leftarrow> now;
            (vs, a) \<leftarrow> view_each al t up1 (fst (split_tunnels a ts)) a;
            gives_back (status0\<lparr>pd_tunnels := vs, pd_older := map (\<lambda>tn. view_tunnel al tn (ts_id tn \<in> set up1) None (da_project (ad_daemon a)) t) (snd (split_tunnels a ts))\<rparr>) a });
       (step1, a) \<leftarrow> proxy_step al a;
       gives_back (status1\<lparr>pd_proxies := step1\<rparr>) a })"

definition build_status :: "addon_libs \<Rightarrow> addon \<Rightarrow> page_status paged" where
  "build_status al a = do { (s, a') \<leftarrow> fresh_status al (running_ids a) a;
     t \<leftarrow> now;
     gives_back s (a'\<lparr>ad_cache := Some \<lparr>cs_at = t, cs_version = pj_version (ad_job a'), cs_running = running_ids a, cs_status = s\<rparr>\<rparr>) }"

definition page_state :: "addon_libs \<Rightarrow> addon \<Rightarrow> page_status paged" where
  "page_state al a = do { t \<leftarrow> now;
     (case ad_cache a of
        Some c \<Rightarrow> if serves t c (pj_version (ad_job a)) (running_ids a) then gives_back (cs_status c) a else build_status al a
      | None \<Rightarrow> build_status al a) }"

text \<open>An action of the page leaves no cached status behind.\<close>

definition then_uncached :: "'a paged \<Rightarrow> 'a paged" where
  "then_uncached m = do { (r, a) \<leftarrow> m; gives_back r (a\<lparr>ad_cache := None\<rparr>) }"

definition page_allow :: "addon_libs \<Rightarrow> addon \<Rightarrow> (action_error + unit) paged" where
  "page_allow al a = then_uncached (allow_inner al False a)"

definition skip_step :: "addon \<Rightarrow> (action_error + unit) \<times> addon" where
  "skip_step a = (if pj_running (ad_job a) \<noteq> None
     then (Inl (as_action_error 409 ''Allow is in progress; wait for it to finish.''), a)
     else (Inr (), finish_step (on_job (\<lambda>j. j\<lparr>pj_last := None\<rparr>) a)))"

definition skip_inner :: "addon \<Rightarrow> (action_error + unit) \<times> addon" where
  "skip_inner a = (if \<not> ad_supervisor a
     then (Inl (as_action_error 409 ''This needs the Home Assistant Supervisor, which is not available here.''), a) else skip_step a)"

definition page_skip :: "addon \<Rightarrow> (action_error + unit) paged" where
  "page_skip a = then_uncached (State_Monad.return (skip_inner a))"

section \<open>Confirming a trial at the start\<close>

definition confirm_round :: "addon_libs \<Rightarrow> nat \<Rightarrow> addon \<Rightarrow> (addon + addon) dio" where
  "confirm_round al deadline a = do { t \<leftarrow> now;
     if deadline \<le> t then State_Monad.return (Inr a)
     else do { r \<leftarrow> ask_as rn_config (Errand HttpConfig);
       (case r of
          Inl _ \<Rightarrow> do { sleep 5000; State_Monad.return (Inl a) }
        | Inr c \<Rightarrow> (case assess c of
            Inl _ \<Rightarrow> do { sleep 5000; State_Monad.return (Inl a) }
          | Inr setup1 \<Rightarrow> if \<not> auto_confirm_due (Some setup1) (ad_job a) then State_Monad.return (Inr a)
              else do { (began, a) \<leftarrow> allow_inner al True a;
                (case began of Inr _ \<Rightarrow> State_Monad.return (Inr a) | Inl _ \<Rightarrow> do { sleep 5000; State_Monad.return (Inl a) }) })) } }"

definition confirm_ours :: "nat \<Rightarrow> addon_libs \<Rightarrow> addon \<Rightarrow> addon option dio" where
  "confirm_ours rounds al a = (if \<not> ad_supervisor a then State_Monad.return (Some a)
     else do { t \<leftarrow> now; repeat_io rounds (confirm_round al (t + LEFTOVER_TRIAL_WATCH)) a })"

section \<open>Removing an older tunnel\<close>

definition on_daemon :: "(daemon \<Rightarrow> 'a handled) \<Rightarrow> addon \<Rightarrow> (http_failure + 'a) paged" where
  "on_daemon f a = do { (r, d) \<leftarrow> f (ad_daemon a); gives_back r (a\<lparr>ad_daemon := d\<rparr>) }"

definition removable :: "tunnel_summary list \<Rightarrow> str \<Rightarrow> tunnel_summary option" where
  "removable older tun = find (\<lambda>t. ts_id t = tun) older"

definition stop_if_running :: "addon_libs \<Rightarrow> str \<Rightarrow> addon \<Rightarrow> unit paged" where
  "stop_if_running al tun a = (if map_of (da_running (ad_daemon a)) tun = None then gives_back () a
     else do { (_, a) \<leftarrow> on_daemon (stop_tunnel_internal (al_daemon al) tun Manual ''addon-page'') a; gives_back () a })"

definition remove_inner :: "addon_libs \<Rightarrow> str \<Rightarrow> addon \<Rightarrow> (action_error + remove_outcome) paged" where
  "remove_inner al tun a = (if da_exclusive (ad_daemon a) = None
     then gives_back (Inl (as_action_error 409 ''Removing older tunnels is only available in the Home Assistant add-on.'')) a
     else do { r \<leftarrow> ask_as dr_summaries ListActive;
       (case r of
          Inl e \<Rightarrow> gives_back (Inl (as_action_error 503 (''Could not ask Datum about the tunnels, so nothing was removed: '' @ e))) a
        | Inr ts \<Rightarrow> (case removable (snd (split_tunnels a ts)) tun of
            None \<Rightarrow> gives_back (Inl (as_action_error 409 (''That isn'' @ [CHR 0x27] @ ''t an older tunnel from this Home Assistant, so it was not removed.''))) a
          | Some t \<Rightarrow> do { (_, a) \<leftarrow> stop_if_running al (ts_id t) a;
              (out, a) \<leftarrow> on_daemon (delete_tunnel_internal (al_daemon al) (ts_id t) ''addon-page'') a;
              gives_back (case out of
                 Inl e \<Rightarrow> Inl (as_action_error 502 (''Could not remove the tunnel: '' @ failure_error e @ ''. Nothing more was changed here; try again.''))
               | Inr _ \<Rightarrow> Inr \<lparr>ro_id = ts_id t, ro_label = ts_label t\<rparr>) a })) })"

definition page_remove :: "addon_libs \<Rightarrow> str \<Rightarrow> addon \<Rightarrow> (action_error + remove_outcome) paged" where
  "page_remove al tun a = then_uncached (remove_inner al tun a)"

section \<open>Forgetting the key\<close>

fun stop_all :: "addon_libs \<Rightarrow> str list \<Rightarrow> addon \<Rightarrow> unit paged" where
  "stop_all al [] a = gives_back () a"
| "stop_all al (tun # tuns) a = do { (_, a) \<leftarrow> on_daemon (stop_tunnel_internal (al_daemon al) tun Manual ''addon-page'') a; stop_all al tuns a }"

definition with_page_disk :: "addon \<Rightarrow> disk \<Rightarrow> addon" where
  "with_page_disk a dk = a\<lparr>ad_daemon := with_disk (ad_daemon a) dk\<rparr>"

definition delete_key :: "addon_libs \<Rightarrow> path \<Rightarrow> str option \<Rightarrow> addon \<Rightarrow> (action_error + forget_outcome) paged" where
  "delete_key al paired email a = (case remove_file paired (the_disk (ad_daemon a)) of (r, dk) \<Rightarrow>
     if r = Inr () \<or> r = Inl NotFound
     then do { signal (Errand RestartAddOn);
       gives_back (Inr \<lparr>fo_restarting = True, fo_account = email\<rparr>) (with_page_disk a (snd (remove_file (pending_path paired) dk))) }
     else gives_back (Inl (as_action_error 500 (''Could not delete the paired key: '' @ (case r of Inl e \<Rightarrow> dl_io (al_daemon al) e | Inr _ \<Rightarrow> [])))) (with_page_disk a dk))"

definition forget_inner :: "addon_libs \<Rightarrow> bool \<Rightarrow> addon \<Rightarrow> (action_error + forget_outcome) paged" where
  "forget_inner al unpair a = (let key = the_key al a in case kf_why_not key of
     Some why \<Rightarrow> gives_back (Inl (as_action_error 409 why)) a
   | None \<Rightarrow> (case ad_paired_key_file a of
       Some paired \<Rightarrow> if \<not> ad_supervisor a then gives_back (Inl (as_action_error 409 ''Re-pair and Unpair are not available here.'')) a
         else do { info \<leftarrow> ask_as rn_info (Errand SelfInfo);
           (case info of
              Inl e \<Rightarrow> gives_back (Inl (as_action_error 503 (''Could not reach the Home Assistant Supervisor, so nothing was changed: '' @ e))) a
            | Inr _ \<Rightarrow> do { (_, a) \<leftarrow> (if unpair then stop_all al (map fst (da_running (ad_daemon a))) a else gives_back () a);
                delete_key al paired (kf_email key) a }) }
     | None \<Rightarrow> gives_back (Inl (as_action_error 409 ''Re-pair and Unpair are not available here.'')) a))"

definition page_forget :: "addon_libs \<Rightarrow> bool \<Rightarrow> addon \<Rightarrow> (action_error + forget_outcome) paged" where
  "page_forget al unpair a = then_uncached (forget_inner al unpair a)"

end
