(* ===== verification/Addon_Facts.thy ===== *)
theory Addon_Facts
  imports Addon_Page Daemon_Rounds Ha_Allow_Facts
begin

text \<open>
  The page, its background tasks and the daemon as a step relation: at most one Allow runs at a time.
\<close>

section \<open>One Allow at a time\<close>

text \<open>How often Allow was started, and how often by itself.\<close>

definition begun :: "bool \<Rightarrow> (daemon_request, daemon_reply) event list \<Rightarrow> nat" where
  "begun auto1 es = length (filter (\<lambda>e. case request e of Errand (SpawnAllow b _) \<Rightarrow> auto1 \<longrightarrow> b | _ \<Rightarrow> False) es)"

lemma begun_Nil [simp]: "begun b [] = 0" by (simp add: begun_def)
lemma begun_append [simp]: "begun b (es @ fs) = begun b es + begun b fs" by (simp add: begun_def)

definition no_spawn :: "daemon_request \<Rightarrow> bool" where
  "no_spawn q \<longleftrightarrow> (case q of Errand (SpawnAllow _ _) \<Rightarrow> False | _ \<Rightarrow> True)"

lemma begun_none: "\<forall>e \<in> set es. no_spawn (request e) \<Longrightarrow> begun b es = 0"
  by (fastforce simp: begun_def no_spawn_def filter_empty_conv split: daemon_request.splits page_errand.splits)

lemma no_spawn_simps [simp]: "no_spawn ListActive" "no_spawn (SetEnabled s t b)" "no_spawn (StopHeartbeat k p)" "no_spawn (DeleteActive t)"
    "no_spawn (Errand (EdgeStatusOf t))" "no_spawn (Errand HttpConfig)" "no_spawn (Errand SelfInfo)" "no_spawn (Errand RestartAddOn)"
  by (simp_all add: no_spawn_def)

text \<open>With \<open>n\<close> runs of Allow over: one more was begun exactly when one runs, and by itself only if that was tried.\<close>

definition one_allow :: "nat \<Rightarrow> addon \<Rightarrow> (daemon_request, daemon_reply) event list \<Rightarrow> bool" where
  "one_allow n a es \<longleftrightarrow> begun False es = n + (if pj_running (ad_job a) = None then 0 else 1) \<and>
     begun True es = (if pj_auto_tried (ad_job a) then 1 else 0)"

definition keeps_one :: "addon \<Rightarrow> 'a paged \<Rightarrow> bool" where
  "keeps_one a m \<longleftrightarrow> (\<forall>n w r a' w'. run_state m w = ((r, a'), w') \<longrightarrow> one_allow n a (trace w) \<longrightarrow> one_allow n a' (trace w'))"

named_theorems keeps_intros

definition same_job :: "addon \<Rightarrow> addon \<Rightarrow> bool" where
  "same_job a a' \<longleftrightarrow> pj_running (ad_job a') = pj_running (ad_job a) \<and> pj_auto_tried (ad_job a') = pj_auto_tried (ad_job a)"

lemma same_job_one: "same_job a a' \<Longrightarrow> one_allow n a es \<Longrightarrow> one_allow n a' es"
  by (simp add: same_job_def one_allow_def)

lemma keeps_return [keeps_intros]: "same_job a a' \<Longrightarrow> keeps_one a (gives_back r a')"
  by (auto simp: keeps_one_def dest: same_job_one)

lemma keeps_first:
  assumes "asks_only no_spawn m" "\<And>x. keeps_one a (f x)"
  shows "keeps_one a (State_Monad.bind m f)"
  unfolding keeps_one_def
proof (intro allI impI)
  fix n w r a' w'
  assume r: "run_state (State_Monad.bind m f) w = ((r, a'), w')" and i: "one_allow n a (trace w)"
  obtain x v where v: "run_state m w = (x, v)" by fastforce
  obtain es where "trace v = trace w @ es" "\<forall>e \<in> set es. no_spawn (request e)" using asks_onlyD [OF assms(1) v] by blast
  with i have "one_allow n a (trace v)" by (simp add: one_allow_def begun_none)
  with r v assms(2) [of x] show "one_allow n a' (trace w')" by (auto simp: keeps_one_def)
qed

lemma job_kept_then [keeps_intros]:
  assumes "keeps_one a m" "\<And>r a'. keeps_one a' (f (r, a'))"
  shows "keeps_one a (State_Monad.bind m f)"
  unfolding keeps_one_def
proof (intro allI impI)
  fix n w r a' w'
  assume r: "run_state (State_Monad.bind m f) w = ((r, a'), w')" and i: "one_allow n a (trace w)"
  obtain x b v where v: "run_state m w = ((x, b), v)" by (metis surj_pair)
  with assms(1) i have "one_allow n b (trace v)" by (auto simp: keeps_one_def)
  with r v assms(2) [of b x] show "one_allow n a' (trace w')" by (auto simp: keeps_one_def)
qed

lemma same_job_refl [simp]: "same_job a a" by (simp add: same_job_def)

lemma same_job_trans: "same_job a b \<Longrightarrow> same_job b c \<Longrightarrow> same_job a c" by (simp add: same_job_def)

lemma same_job_simps [simp]: "same_job a (a\<lparr>ad_cache := c\<rparr>)" "same_job a (a\<lparr>ad_edge := e\<rparr>)" "same_job a (a\<lparr>ad_daemon := d\<rparr>)"
    "same_job a (with_page_disk a dk)" "same_job a (finish_step a)" "same_job a (snd (step_finished a))"
  by (simp_all add: same_job_def with_page_disk_def finish_step_def on_job_def bump_def step_finished_def Let_def)

lemma finished_same: "step_finished a = (f, b) \<Longrightarrow> same_job a b"
  by (metis same_job_simps(6) snd_conv)

lemma same_job_cached [simp]: "same_job a (on_job (\<lambda>j. j\<lparr>pj_cached := c\<rparr>) a)"
  by (simp add: same_job_def on_job_def)

lemma keeps_on_daemon [keeps_intros]: "(\<And>d. asks_only no_spawn (f d)) \<Longrightarrow> keeps_one a (on_daemon f a)"
  unfolding on_daemon_def by (rule keeps_first) (auto intro: keeps_return)

lemma stop_asks: "asks_only no_spawn (stop_tunnel_internal dl tun why by1 d)"
  unfolding stop_tunnel_internal_def stop_claimed_def stop_heartbeat_def take_running_def by (auto intro!: asks_intros split: option.split)

lemma delete_asks: "asks_only no_spawn (delete_tunnel_internal dl tun by1 d)"
  unfolding delete_tunnel_internal_def stop_heartbeat_def take_running_def by (auto intro!: asks_intros split: option.split)

lemma keeps_edge [keeps_intros]: "keeps_one a (edge_status tun a)"
proof -
  have "keeps_one a (ask_edge tun a)" unfolding ask_edge_def
    by (rule keeps_first) (auto intro!: asks_intros keeps_return keeps_first split: option.split)
  then show ?thesis unfolding edge_status_def by (auto intro!: keeps_first asks_intros keeps_return split: option.split)
qed

lemma keeps_views [keeps_intros]: "keeps_one a (view_each al t up1 ts a)"
  by (induction ts arbitrary: a) (auto intro!: keeps_intros)

lemma active_asks: "asks_only no_spawn (active_target al a)"
  unfolding active_target_def by (intro asks_intros) simp

lemma keeps_signal_spawn:
  assumes "pj_running (ad_job a) = None" "auto1 \<Longrightarrow> \<not> pj_auto_tried (ad_job a)"
  shows "keeps_one a (do { signal (Errand (SpawnAllow auto1 addr)); gives_back r (on_job (begin_allow auto1) a) })"
  using assms by (auto simp: keeps_one_def one_allow_def begun_def begin_allow_def on_job_def bump_def)

lemma keeps_allow: "(auto1 \<Longrightarrow> \<not> pj_auto_tried (ad_job a)) \<Longrightarrow> keeps_one a (allow_inner al auto1 a)"
  unfolding allow_inner_def by (auto intro!: keeps_return keeps_first [OF active_asks] keeps_signal_spawn split: sum.split)

lemma keeps_ask_setup: "keeps_one a (ask_setup a)"
  unfolding ask_setup_def Let_def by (auto intro!: keeps_first asks_intros keeps_return)

lemma keeps_known [keeps_intros]: "keeps_one a (known_setup a)"
  unfolding known_setup_def by (auto intro!: keeps_first asks_intros keeps_return keeps_ask_setup split: option.split)

lemma keeps_settled: "keeps_one a (case settled_view s l a of (v, a) \<Rightarrow> gives_back (Some v) a)"
proof -
  have "same_job a (snd (settled_view s l a))"
    by (simp add: settled_view_def step_finished_def Let_def same_job_def finish_step_def on_job_def bump_def)
  then show ?thesis by (auto simp: case_prod_unfold intro: keeps_return)
qed

lemma keeps_weaken: "same_job a b \<Longrightarrow> keeps_one b m \<Longrightarrow> keeps_one a m"
  unfolding keeps_one_def by (meson same_job_one)

lemma keeps_proxy_step [keeps_intros]: "keeps_one a (proxy_step al a)"
proof -
  have rest: "keeps_one b (do { (setup1, a) \<leftarrow> known_setup b;
            (began, a) \<leftarrow> (if auto_confirm_due setup1 (ad_job a) then allow_inner al True a else gives_back (Inl (as_action_error 0 [])) a);
            (case began of
               Inr _ \<Rightarrow> gives_back (Some (working_view (case pj_running (ad_job a) of Some s \<Rightarrow> s | None \<Rightarrow> Verifying) f)) a
             | Inl _ \<Rightarrow> (case settled_view setup1 l a of (v, a) \<Rightarrow> gives_back (Some v) a)) })" for b f l
    by (auto intro!: keeps_intros keeps_allow keeps_settled simp: auto_confirm_due_def split: sum.split)
  show ?thesis
    unfolding proxy_step_def Let_def
    by (auto intro!: keeps_return keeps_weaken [OF _ rest] split: prod.split option.split intro: finished_same)
qed


lemma keeps_build: "keeps_one a (build_status al a)"
proof -
  have "keeps_one a (fresh_status al up1 a)" for up1
    unfolding fresh_status_def Let_def by (auto intro!: keeps_first asks_intros keeps_intros split: sum.split)
  then show ?thesis unfolding build_status_def
    by (rule job_kept_then) (auto intro!: keeps_first asks_now keeps_return simp: same_job_def)
qed

lemma keeps_uncached: "keeps_one a m \<Longrightarrow> keeps_one a (then_uncached m)"
  unfolding then_uncached_def by (auto intro!: keeps_intros)

lemma keeps_stop_all [keeps_intros]: "keeps_one a (stop_all al tuns a)"
  by (induction tuns arbitrary: a) (auto intro!: keeps_intros stop_asks)

lemma keeps_delete_key: "keeps_one a (delete_key al p e a)"
  unfolding delete_key_def by (auto intro!: keeps_first asks_intros keeps_return split: prod.split)

lemma keeps_forget: "keeps_one a (forget_inner al unpair a)"
  unfolding forget_inner_def Let_def by (auto intro!: keeps_first asks_intros keeps_intros keeps_delete_key split: option.split sum.split)

lemma keeps_remove: "keeps_one a (remove_inner al tun a)"
  unfolding remove_inner_def stop_if_running_def
  by (auto intro!: keeps_first asks_intros keeps_intros stop_asks delete_asks split: option.split sum.split)

section \<open>The page's runs\<close>

datatype page_op = PageState | PageForget bool | PageRemove str | PageAllow | PageSkip | PageConfirm

text \<open>What the operations give back is told to whoever asked; here only the state goes on.\<close>

definition silently :: "'a paged \<Rightarrow> addon dio" where
  "silently m = do { (_, a) \<leftarrow> m; State_Monad.return a }"

definition CONFIRM_ROUNDS :: nat where "CONFIRM_ROUNDS = 62"

definition page_do :: "addon_libs \<Rightarrow> page_op \<Rightarrow> addon \<Rightarrow> addon dio" where
  "page_do al op a = (case op of
     PageState \<Rightarrow> silently (page_state al a)
   | PageForget unpair \<Rightarrow> silently (page_forget al unpair a)
   | PageRemove tun \<Rightarrow> silently (page_remove al tun a)
   | PageAllow \<Rightarrow> silently (page_allow al a)
   | PageSkip \<Rightarrow> silently (page_skip a)
   | PageConfirm \<Rightarrow> do { r \<leftarrow> confirm_ours CONFIRM_ROUNDS al a; State_Monad.return (case r of Some a \<Rightarrow> a | None \<Rightarrow> a) })"

text \<open>
  The page, its background tasks and the rest of the daemon: \<open>n\<close> counts the runs of Allow that are over. A task acts only while one is there; what else the
  daemon does changes the daemon and starts no Allow.
\<close>

type_synonym page_config = "addon \<times> nat \<times> (daemon_request, daemon_reply) world"

inductive page_moves :: "addon_libs \<Rightarrow> page_config \<Rightarrow> page_config \<Rightarrow> bool" for al where
  page_acts: "run_state (page_do al op a) w = (a', w') \<Longrightarrow> page_moves al (a, n, w) (a', n, w')"
| task_steps: "n < begun False (trace w) \<Longrightarrow> page_moves al (a, n, w) (allow_stepped s a, n, w)"
| task_ends: "n < begun False (trace w) \<Longrightarrow> page_moves al (a, n, w) (allow_ended al out a, Suc n, w)"
| daemon_acts: "trace w' = trace w @ es \<Longrightarrow> \<forall>e \<in> set es. no_spawn (request e) \<Longrightarrow> page_moves al (a, n, w) (a\<lparr>ad_daemon := d\<rparr>, n, w')"

inductive_cases page_moves_cases: "page_moves al c c'"

definition keeps_config :: "page_config \<Rightarrow> bool" where
  "keeps_config c = (case c of (a, n, w) \<Rightarrow> one_allow n a (trace w))"

lemma keeps_silently: "keeps_one a m \<Longrightarrow> run_state (silently m) w = (a', w') \<Longrightarrow> one_allow n a (trace w) \<Longrightarrow> one_allow n a' (trace w')"
  by (auto simp: silently_def keeps_one_def split: prod.splits)

lemma keeps_outside: "asks_only no_spawn m \<Longrightarrow> run_state m w = (x, v) \<Longrightarrow> one_allow n a (trace w) \<Longrightarrow> one_allow n a (trace v)"
  by (drule (1) asks_onlyD) (auto simp: one_allow_def begun_none)

lemma confirm_round_keeps:
  assumes "run_state (confirm_round al deadline a) w = (r, w')" "one_allow n a (trace w)"
  shows "one_allow n (case r of Inl a \<Rightarrow> a | Inr a \<Rightarrow> a) (trace w')"
proof (cases "deadline \<le> clock w")
  case True
  with assms show ?thesis by (auto simp: confirm_round_def)
next
  case False
  obtain x v where v: "run_state (ask_as rn_config (Errand HttpConfig)) w = (x, v)" by fastforce
  have i: "one_allow n a (trace v)" by (rule keeps_outside [OF _ v assms(2)]) (auto intro: asks_intros)
  show ?thesis
  proof (cases "\<exists>c setup1. x = Inr c \<and> assess c = Inr setup1 \<and> auto_confirm_due (Some setup1) (ad_job a)")
    case True
    then obtain c setup1 where c: "x = Inr c" "assess c = Inr setup1" "auto_confirm_due (Some setup1) (ad_job a)" by blast
    obtain q b u where u: "run_state (allow_inner al True a) v = ((q, b), u)" by (metis surj_pair)
    have "keeps_one a (allow_inner al True a)" using c(3) by (intro keeps_allow) (simp add: auto_confirm_due_def)
    with u i have "one_allow n b (trace u)" by (auto simp: keeps_one_def)
    with assms(1) v u c False show ?thesis by (auto simp: confirm_round_def split: sum.splits)
  next
    case no: False
    with assms(1) v i False show ?thesis by (auto simp: confirm_round_def split: sum.splits if_splits)
  qed
qed

lemma confirm_keeps:
  assumes "run_state (repeat_io rounds (confirm_round al deadline) a) w = (Some a', w')" "one_allow n a (trace w)"
  shows "one_allow n a' (trace w')"
  using assms
proof (induction rounds arbitrary: a w)
  case (Suc rounds)
  obtain x v where v: "run_state (confirm_round al deadline a) w = (x, v)" by fastforce
  from confirm_round_keeps [OF v Suc.prems(2)] Suc v show ?case by (cases x) auto
qed simp

text \<open>The watch at the start ends: it looks every five seconds for five minutes.\<close>

lemma forward_allow: "forward (allow_inner al auto1 a)"
  unfolding allow_inner_def active_target_def by (intro forward_intros)

lemma confirm_round_progress:
  assumes "run_state (confirm_round al deadline a) w = (Inl a', w')"
  shows "clock w + 5000 \<le> clock w'"
proof -
  obtain x v where v: "run_state (ask_as rn_config (Errand HttpConfig)) w = (x, v)" by fastforce
  have c: "clock w \<le> clock v" by (rule forward_clock [OF _ v]) (intro forward_intros)
  have "\<And>b q u. run_state (allow_inner al True b) v = (q, u) \<Longrightarrow> clock v \<le> clock u" by (rule forward_clock [OF forward_allow])
  with assms v c show ?thesis by (fastforce simp: confirm_round_def split: if_splits sum.splits prod.splits)
qed

interpretation leftover: polling "confirm_round al deadline" deadline 5000 for al deadline
proof unfold_locales
  show "deadline \<le> clock w \<Longrightarrow> \<exists>b w'. run_state (confirm_round al deadline a) w = (Inr b, w')" for a w
    by (simp add: confirm_round_def)
qed (auto dest: confirm_round_progress)

lemma confirm_ends: "\<exists>a' w'. run_state (confirm_ours CONFIRM_ROUNDS al a) w = (Some a', w')"
proof -
  have "\<exists>a' w'. run_state (repeat_io (Suc 61) (confirm_round al (clock w + LEFTOVER_TRIAL_WATCH)) a) w = (Some a', w')"
    by (rule leftover.ends) (simp add: LEFTOVER_TRIAL_WATCH_def)
  then show ?thesis by (simp add: confirm_ours_def CONFIRM_ROUNDS_def del: repeat_io.simps)
qed

lemma page_do_keeps:
  assumes "run_state (page_do al op a) w = (a', w')" "one_allow n a (trace w)"
  shows "one_allow n a' (trace w')"
proof (cases op)
  case PageState
  have "keeps_one a (page_state al a)"
    unfolding page_state_def by (auto intro!: keeps_first asks_intros keeps_return keeps_build split: option.split)
  with PageState assms show ?thesis by (auto simp: page_do_def dest: keeps_silently)
next
  case PageForget
  with assms show ?thesis by (auto simp: page_do_def page_forget_def dest!: keeps_silently [OF keeps_uncached [OF keeps_forget]])
next
  case PageRemove
  with assms show ?thesis by (auto simp: page_do_def page_remove_def dest!: keeps_silently [OF keeps_uncached [OF keeps_remove]])
next
  case PageAllow
  have "keeps_one a (allow_inner al False a)" by (rule keeps_allow) simp
  with PageAllow assms show ?thesis by (auto simp: page_do_def page_allow_def dest!: keeps_silently [OF keeps_uncached])
next
  case PageSkip
  have "same_job a (snd (skip_inner a))"
    by (simp add: skip_inner_def skip_step_def same_job_def finish_step_def on_job_def bump_def)
  then have "keeps_one a (State_Monad.return (skip_inner a))" by (metis keeps_return prod.collapse)
  with PageSkip assms show ?thesis by (auto simp: page_do_def page_skip_def dest!: keeps_silently [OF keeps_uncached])
next
  case PageConfirm
  from confirm_ends obtain b u where "run_state (confirm_ours CONFIRM_ROUNDS al a) w = (Some b, u)" by blast
  with PageConfirm assms show ?thesis
    by (auto simp: page_do_def confirm_ours_def dest: confirm_keeps split: if_splits)
qed

lemma moves_keep: "page_moves al c c' \<Longrightarrow> keeps_config c \<Longrightarrow> keeps_config c'"
proof (induction rule: page_moves.induct)
  case (page_acts op a w a' w' n)
  then show ?case using page_do_keeps by (simp add: keeps_config_def)
next
  case (task_steps n w a s)
  then show ?case by (auto simp: keeps_config_def one_allow_def allow_stepped_def on_job_def bump_def split: if_splits)
next
  case (task_ends n w a out)
  have "pj_running (ad_job (allow_ended al out a)) = None \<and> pj_auto_tried (ad_job (allow_ended al out a)) = pj_auto_tried (ad_job a)"
    by (auto simp: allow_ended_def finish_step_def on_job_def bump_def Let_def split: option.split)
  with task_ends show ?case by (auto simp: keeps_config_def one_allow_def split: if_splits)
next
  case (daemon_acts w' w es a n d)
  then show ?case by (auto simp: keeps_config_def one_allow_def begun_none)
qed

lemma moves_keep_all: "(page_moves al)\<^sup>*\<^sup>* c c' \<Longrightarrow> keeps_config c \<Longrightarrow> keeps_config c'"
  by (induction rule: rtranclp_induct) (auto dest: moves_keep)


end
