(* ===== verification/Addon_Actions.thy ===== *)
theory Addon_Actions
  imports Addon_Facts
begin

text \<open>
  Removing an older tunnel and forgetting the key, the two actions of the page that cannot be taken back.
\<close>

section \<open>Removing\<close>

text \<open>What removing a tunnel may ask once it was found.\<close>

definition about_only :: "str \<Rightarrow> daemon_request \<Rightarrow> bool" where
  "about_only tun q \<longleftrightarrow> (case q of SetEnabled _ t b \<Rightarrow> t = tun \<and> \<not> b | DeleteActive t \<Rightarrow> t = tun | StopHeartbeat _ _ \<Rightarrow> True | _ \<Rightarrow> False)"

lemma about_simps [simp]: "about_only tun (SetEnabled s t b) \<longleftrightarrow> t = tun \<and> \<not> b" "about_only tun (DeleteActive t) \<longleftrightarrow> t = tun" "about_only tun (StopHeartbeat k p)"
  by (simp_all add: about_only_def)

lemma stop_about: "asks_only (about_only tun) (stop_tunnel_internal dl tun why by1 d)"
  unfolding stop_tunnel_internal_def stop_claimed_def stop_heartbeat_def take_running_def by (auto intro!: asks_intros split: option.split)

lemma delete_about: "asks_only (about_only tun) (delete_tunnel_internal dl tun by1 d)"
  unfolding delete_tunnel_internal_def stop_heartbeat_def take_running_def by (auto intro!: asks_intros split: option.split)

lemma asks_on_daemon [asks_intros]: "asks_only P (f (ad_daemon a)) \<Longrightarrow> asks_only P (on_daemon f a)"
  unfolding on_daemon_def by (intro asks_intros)

definition removal :: "addon_libs \<Rightarrow> tunnel_summary \<Rightarrow> addon \<Rightarrow> (action_error + remove_outcome) paged" where
  "removal al t a = do { (_, a) \<leftarrow> stop_if_running al (ts_id t) a;
     (out, a) \<leftarrow> on_daemon (delete_tunnel_internal (al_daemon al) (ts_id t) ''addon-page'') a;
     gives_back (case out of
        Inl e \<Rightarrow> Inl (as_action_error 502 (''Could not remove the tunnel: '' @ failure_error e @ ''. Nothing more was changed here; try again.''))
      | Inr _ \<Rightarrow> Inr \<lparr>ro_id = ts_id t, ro_label = ts_label t\<rparr>) a }"

lemma removal_about: "asks_only (about_only (ts_id t)) (removal al t a)"
  unfolding removal_def stop_if_running_def by (auto intro!: asks_intros stop_about delete_about)

text \<open>The older tunnels are local and not the add-on's own, which is the first one with its label.\<close>

lemma older_tunnels:
  assumes "t \<in> set (snd (split_tunnels a ts))" "da_exclusive (ad_daemon a) = Some label"
  shows "t \<in> set ts \<and> is_locally_known (the_dir (ad_daemon a)) (da_project (ad_daemon a)) (ts_id t) (the_disk (ad_daemon a)) \<and>
    (distinct ts \<longrightarrow> find (\<lambda>t. ts_label t = label) ts \<noteq> Some t)"
  using assms unfolding split_tunnels_def partition_tunnels_def partition_core
  by (auto split: option.splits dest: subsetD [OF set_remove1_subset])

lemma remove_core:
  assumes "run_state (page_remove al tun a) w = ((r, a'), w')"
  shows "\<exists>es. trace w' = trace w @ es \<and>
    ((\<forall>e \<in> set es. request e = ListActive) \<and> (\<exists>e. r = Inl e) \<and> ad_daemon a' = ad_daemon a \<or>
     (\<exists>c ts es' t label. es = Event c ListActive (Some (RSummaries (Inr ts))) # es' \<and> list_all (about_only tun \<circ> request) es' \<and> ts_id t = tun \<and>
        da_exclusive (ad_daemon a) = Some label \<and> t \<in> set (snd (split_tunnels a ts))))"
proof -
  from assms obtain b where b: "run_state (remove_inner al tun a) w = ((r, b), w')" "a' = b\<lparr>ad_cache := None\<rparr>"
    by (auto simp: page_remove_def then_uncached_def split: prod.splits)
  show ?thesis
  proof (cases "da_exclusive (ad_daemon a)")
    case None
    with b show ?thesis by (auto simp: remove_inner_def)
  next
    case (Some label)
    obtain x v where v: "run_state (ask ListActive) w = (x, v)" by fastforce
    from run_ask [OF v] have tv: "\<exists>c. trace v = trace w @ [Event c ListActive (Some x)]" by auto
    define after where "after = (\<lambda>r. case r of
          Inl e \<Rightarrow> gives_back (Inl (as_action_error 503 (''Could not ask Datum about the tunnels, so nothing was removed: '' @ e))) a
        | Inr ts \<Rightarrow> (case removable (snd (split_tunnels a ts)) tun of
            None \<Rightarrow> gives_back (Inl (as_action_error 409 (''That isn'' @ [CHR 0x27] @ ''t an older tunnel from this Home Assistant, so it was not removed.''))) a
          | Some t \<Rightarrow> removal al t a))"
    have "remove_inner al tun a = do { r \<leftarrow> ask_as dr_summaries ListActive; after r }"
      using Some by (simp only: remove_inner_def removal_def after_def option.simps if_False)
    with v have whole: "run_state (remove_inner al tun a) w = run_state (after (dr_summaries x)) v" by (simp add: ask_as_def)
    show ?thesis
    proof (cases "\<exists>ts t. dr_summaries x = Inr ts \<and> removable (snd (split_tunnels a ts)) tun = Some t")
      case True
      then obtain ts t where t: "dr_summaries x = Inr ts" "removable (snd (split_tunnels a ts)) tun = Some t" by blast
      then have x: "x = RSummaries (Inr ts)" by (cases x) auto
      from t(2) have m: "t \<in> set (snd (split_tunnels a ts))" "ts_id t = tun" by (auto simp: removable_def find_Some_iff)
      from whole t b(1) have "run_state (removal al t a) v = ((r, b), w')" by (simp add: after_def)
      from asks_onlyD [OF removal_about this] tv m Some x show ?thesis by (fastforce simp: list_all_iff)
    next
      case False
      with whole b tv show ?thesis by (auto simp: after_def split: sum.splits option.splits)
    qed
  qed
qed

text \<open>
  C17: only an older tunnel can be removed from the page. Removing first asks Datum for the tunnels; unless the one named is, right then, one this device has
  state for and not the add-on's own (the first with its label), nothing is asked but that, nothing changes, and the answer is an error. Otherwise nothing is
  asked that is about another tunnel.
\<close>

theorem only_older_tunnels_are_removed:
  assumes "run_state (page_remove al tun a) w = ((r, a'), w')"
  shows "\<exists>es. trace w' = trace w @ es \<and>
    (list_all (\<lambda>e. request e = ListActive) es \<and> (\<exists>e. r = Inl e) \<and> ad_daemon a' = ad_daemon a \<or>
     (\<exists>c ts es' t label. es = Event c ListActive (Some (RSummaries (Inr ts))) # es' \<and> list_all (about_only tun \<circ> request) es' \<and> ts_id t = tun \<and>
        da_exclusive (ad_daemon a) = Some label \<and> t \<in> set ts \<and> (distinct ts \<longrightarrow> find (\<lambda>t. ts_label t = label) ts \<noteq> Some t) \<and>
        is_locally_known (the_dir (ad_daemon a)) (da_project (ad_daemon a)) tun (the_disk (ad_daemon a))))"
proof -
  from remove_core [OF assms] obtain es where es: "trace w' = trace w @ es"
    "(\<forall>e \<in> set es. request e = ListActive) \<and> (\<exists>e. r = Inl e) \<and> ad_daemon a' = ad_daemon a \<or>
     (\<exists>c ts es' t label. es = Event c ListActive (Some (RSummaries (Inr ts))) # es' \<and> list_all (about_only tun \<circ> request) es' \<and> ts_id t = tun \<and>
        da_exclusive (ad_daemon a) = Some label \<and> t \<in> set (snd (split_tunnels a ts)))" by blast
  show ?thesis
  proof (intro exI [of _ es] conjI es(1))
    from es(2) show "list_all (\<lambda>e. request e = ListActive) es \<and> (\<exists>e. r = Inl e) \<and> ad_daemon a' = ad_daemon a \<or>
     (\<exists>c ts es' t label. es = Event c ListActive (Some (RSummaries (Inr ts))) # es' \<and> list_all (about_only tun \<circ> request) es' \<and> ts_id t = tun \<and>
        da_exclusive (ad_daemon a) = Some label \<and> t \<in> set ts \<and> (distinct ts \<longrightarrow> find (\<lambda>t. ts_label t = label) ts \<noteq> Some t) \<and>
        is_locally_known (the_dir (ad_daemon a)) (da_project (ad_daemon a)) tun (the_disk (ad_daemon a)))"
      by (elim disjE exE conjE) (use older_tunnels in \<open>fastforce simp: list_all_iff\<close>)+
  qed
qed

section \<open>Forgetting\<close>

text \<open>Whether the paired key may be forgotten.\<close>

lemma may_forget: "kf_why_not (the_key al a) = None \<longleftrightarrow> ad_supervisor a \<and> (\<exists>p. ad_key_file a = Some p \<and> ad_paired_key_file a = Some p)"
  by (auto simp: the_key_def key_facts_of_def Let_def split: option.splits)

lemma stop_no_restart: "asks_only (\<lambda>q. q \<noteq> Errand RestartAddOn) (stop_all al tuns a)"
proof (induction tuns arbitrary: a)
  case (Cons tun tuns)
  have "asks_only (\<lambda>q. q \<noteq> Errand RestartAddOn) (stop_tunnel_internal dl tun why by1 d)" for dl why by1 d
    by (rule asks_weaken [OF stop_about]) (auto simp: about_only_def)
  with Cons show ?case by (auto intro!: asks_intros)
qed (auto intro: asks_intros)

lemma delete_key_run:
  assumes "run_state (delete_key al p e a) w = ((r, a'), w')" "p \<noteq> pending_path p"
  shows "(\<exists>out. r = Inr out \<and> map_of (files (the_disk (ad_daemon a'))) p = None \<and> trace w' = trace w @ [Event (clock w) (Errand RestartAddOn) None]) \<or>
     (\<exists>e. r = Inl e \<and> ad_daemon a' = ad_daemon a \<and> trace w' = trace w)"
proof -
  obtain q dk where q: "remove_file p (the_disk (ad_daemon a)) = (q, dk)" by fastforce
  show ?thesis
  proof (cases "q = Inr () \<or> q = Inl NotFound")
    case True
    then have "map_of (files dk) p = None" using q by (auto simp: remove_file_def split: if_splits)
    then have "map_of (files (snd (remove_file (pending_path p) dk))) p = None"
      using assms(2) by (auto simp: remove_file_def)
    with True assms(1) q show ?thesis by (auto simp: delete_key_def with_page_disk_def with_disk_def)
  next
    case False
    then have "dk = the_disk (ad_daemon a)" using q by (auto simp: remove_file_def split: if_splits)
    with False assms(1) q show ?thesis by (auto simp: delete_key_def with_page_disk_def with_disk_def)
  qed
qed





section \<open>A page at work\<close>

definition demo_addon_libs :: addon_libs where
  "demo_addon_libs = \<lparr>al_daemon = demo_libs, al_rfc3339 = \<lambda>_. None, al_words = \<lambda>_. ''why'', al_uri = \<lambda>_. ''uri''\<rparr>"

definition demo_target :: uri where
  "demo_target = \<lparr>u_scheme = Some ''http'', u_host = Some ''127.0.0.1'', u_port = Some 8123, u_path = None\<rparr>"

definition demo_serving :: daemon where
  "demo_serving = demo_daemon\<lparr>da_inspectors := [(''t1'', \<lparr>ih_target = demo_target, ih_endpoint = ''http://127.0.0.1:7001''\<rparr>)]\<rparr>"

definition demo_page :: addon where
  "demo_page = new_addon demo_serving False (Some ''/key'') (Some ''/key'') True"

lemma demo_addr: "target_addr demo_target = Some (V4 0x7F000001, 8123)"
proof -
  have "parse_ip ''127.0.0.1'' = Some (V4 0x7F000001)" by (simp add: parse_loopback_v4 loopback_v4_def)
  moreover have "trim_end_char (CHR '']'') (trim_start_char (CHR ''['') ''127.0.0.1'') = ''127.0.0.1''"
    by (simp add: trim_start_char_def trim_end_char_def trim_end_with_def)
  ultimately show ?thesis by (simp add: target_addr_def demo_target_def)
qed

lemma demo_active: "run_state (active_target demo_addon_libs demo_page) demo_world =
   (Inr (V4 0x7F000001, 8123), \<lparr>environment = (\<lambda>_ _ q. (demo_reply q, 5)), clock = 1005, trace = [Event 1000 ListActive (Some (demo_reply ListActive))]\<rparr>)"
  by (simp add: active_target_def demo_world_def demo_addr demo_page_def new_addon_def demo_serving_def split_tunnels_def demo_daemon_def start_daemon_def exclusive_label_def
      List.map_filter_def demo_tunnel_def)


text \<open>Outside the add-on, nothing is removed.\<close>

theorem only_older_tunnels_are_removed_witness:
  "\<exists>e a w. run_state (page_remove demo_addon_libs ''t1'' demo_page) demo_world = ((Inl e, a), w) \<and> list_all (\<lambda>e. request e = ListActive) (trace w) \<and>
     ad_daemon a = demo_serving"
proof -
  obtain r a w where run: "run_state (page_remove demo_addon_libs ''t1'' demo_page) demo_world = ((r, a), w)" by (metis surj_pair)
  have "da_exclusive (ad_daemon demo_page) = None" by (simp add: demo_page_def new_addon_def demo_serving_def demo_daemon_def start_daemon_def exclusive_label_def)
  moreover have "trace demo_world = []" "ad_daemon demo_page = demo_serving" by (simp_all add: demo_world_def demo_page_def new_addon_def)
  ultimately show ?thesis using only_older_tunnels_are_removed [OF run] run by auto
qed

text \<open>A Supervisor that answers.\<close>

fun supervised_reply :: "daemon_request \<Rightarrow> daemon_reply" where
  "supervised_reply (Errand SelfInfo) = RNews (InfoIs (Inr ()))"
| "supervised_reply q = demo_reply q"

definition supervised :: "(daemon_request, daemon_reply) world" where
  "supervised = \<lparr>environment = (\<lambda>_ _ q. (supervised_reply q, 5)), clock = 1000, trace = []\<rparr>"


end
