(* ===== verification/Peer.thy ===== *)
theory Peer
  imports Log_Facts Listen_Node_Facts
begin

text \<open>
  Tunnels between two daemons without Datum, \<open>daemon/src/peer.rs\<close>: the targets a daemon advertises, kept beside the node that serves them, and the
  connections it holds to targets of others. What the network says of a connection, the tickets' text and random ids are parameters.
\<close>

section \<open>State\<close>

text \<open>What is known of the way to a peer: a direct address, a relay, both, or nothing. Addresses and URLs in words.\<close>

datatype connection_type = Direct str | Relay str | Mixed str str | NoConnection

text \<open>An outbound connection: its handle (where it listens, whom it forwards to, which target), and how often its type has changed.\<close>

record connection =
  cn_bound :: str
  cn_remote :: str
  cn_target :: tcp_proxy_data
  cn_transitions :: "32 word"

text \<open>
  The state of the feature, with the disk. \<open>pe_dial\<close> is the key and the plan of the node that dials; what is advertised is a set, its order in the
  file is of no account.
\<close>

record peer_state =
  pe_repo :: path
  pe_listen :: "listen_node option"
  pe_dial :: "relay_mode endpoint_plan option"
  pe_connections :: "(str \<times> connection) list"
  pe_advertised :: "str list"
  pe_dir :: path
  pe_disk :: disk

text \<open>
  The other packages: YAML and JSON, errors in words, the public id of a key, the text of a ticket and back, whether the
  secret of the metrics service in the environment could be parsed.
\<close>

record peer_libs =
  pl_yaml :: yaml_libs
  pl_codec :: codec
  pl_io :: "io_error \<Rightarrow> str"
  pl_node :: "node_error \<Rightarrow> str"
  pl_repo :: "repo_error \<Rightarrow> str"
  pl_target :: "target_error \<Rightarrow> str"
  pl_secret_ok :: bool
  pl_public :: "str \<Rightarrow> str"
  pl_ticket :: "str \<Rightarrow> proxy_state \<Rightarrow> str"
  pl_read_ticket :: "str \<Rightarrow> str + str \<times> tcp_proxy_data"

section \<open>What is advertised, on disk\<close>

definition advertised_dir :: "path \<Rightarrow> path" where "advertised_dir base1 = join base1 ''daemon_peers''"
definition advertised_path :: "path \<Rightarrow> path" where "advertised_path base1 = join (advertised_dir base1) ''advertised.json''"

definition ids_json :: "str list \<Rightarrow> json" where "ids_json ids = JArr (map JStr ids)"

definition ids_of_json :: "json \<Rightarrow> str list option" where
  "ids_of_json j = Option.bind (as_array j) (\<lambda>vs. those (map as_str vs))"

definition load_advertised :: "codec \<Rightarrow> path \<Rightarrow> disk \<Rightarrow> io_error + str list" where
  "load_advertised k base1 d = (case read_file d (advertised_path base1) of
     Inr bytes \<Rightarrow> Inr (case Option.bind (json_parse k bytes) ids_of_json of Some ids \<Rightarrow> remdups ids | None \<Rightarrow> [])
   | Inl NotFound \<Rightarrow> Inr []
   | Inl e \<Rightarrow> Inl e)"

definition save_advertised :: "peer_libs \<Rightarrow> peer_state \<Rightarrow> (io_error + unit) \<times> peer_state" where
  "save_advertised pl s = (case create_dir (advertised_dir (pe_dir s)) (pe_disk s) of
     Inl e \<Rightarrow> (Inl e, s)
   | Inr _ \<Rightarrow> (case write_atomic (advertised_path (pe_dir s)) (json_text (pl_codec pl) (ids_json (pe_advertised s))) (pe_disk s) of
       (r, d) \<Rightarrow> (r, s\<lparr>pe_disk := d\<rparr>)))"

text \<open>Changing the set and writing it; a change that cannot be written is taken back.\<close>

definition mark_advertised :: "peer_libs \<Rightarrow> str \<Rightarrow> peer_state \<Rightarrow> (io_error + unit) \<times> peer_state" where
  "mark_advertised pl rid s = (case save_advertised pl (s\<lparr>pe_advertised := List.insert rid (pe_advertised s)\<rparr>) of
     (Inl e, s') \<Rightarrow> (Inl e, s'\<lparr>pe_advertised := removeAll rid (pe_advertised s')\<rparr>)
   | (Inr _, s') \<Rightarrow> (Inr (), s'))"

definition unmark_advertised :: "peer_libs \<Rightarrow> str \<Rightarrow> peer_state \<Rightarrow> (io_error + unit) \<times> peer_state" where
  "unmark_advertised pl rid s = (let was_present = rid \<in> set (pe_advertised s)
     in case save_advertised pl (s\<lparr>pe_advertised := removeAll rid (pe_advertised s)\<rparr>) of
          (Inl e, s') \<Rightarrow> (Inl e, if was_present then s'\<lparr>pe_advertised := List.insert rid (pe_advertised s')\<rparr> else s')
        | (Inr _, s') \<Rightarrow> (Inr (), s'))"

section \<open>The two nodes\<close>

text \<open>The node that serves is made when it is first needed, with a key of its own and the public relays; \<open>fresh\<close> is the key a generator gives.\<close>

definition peer_node :: "peer_libs \<Rightarrow> str \<Rightarrow> peer_state \<Rightarrow> (node_error + listen_node) \<times> peer_state" where
  "peer_node pl fresh s = (case pe_listen s of Some n \<Rightarrow> (Inr n, s)
   | None \<Rightarrow> (case peer_listen_key (pe_repo s) fresh (pe_disk s) of
       (Inl e, d) \<Rightarrow> (Inl (NodeRepo e), s\<lparr>pe_disk := d\<rparr>)
     | (Inr key, d) \<Rightarrow> (case build_node (pl_yaml pl) (pe_repo s) (pl_secret_ok pl) (GivenKey key) PublicRelays d of
         (Inl e, d') \<Rightarrow> (Inl e, s\<lparr>pe_disk := d'\<rparr>)
       | (Inr n, d') \<Rightarrow> (Inr n, s\<lparr>pe_listen := Some n, pe_disk := d'\<rparr>))))"

definition dial_node :: "peer_libs \<Rightarrow> str \<Rightarrow> peer_state \<Rightarrow> (node_error + relay_mode endpoint_plan) \<times> peer_state" where
  "dial_node pl fresh s = (case pe_dial s of Some p \<Rightarrow> (Inr p, s)
   | None \<Rightarrow> if \<not> pl_secret_ok pl then (Inl BadApiSecret, s)
     else (case repo_config (pl_yaml pl) (pe_repo s) (pe_disk s) of
       (Inl e, d) \<Rightarrow> (Inl (NodeRepo e), s\<lparr>pe_disk := d\<rparr>)
     | (Inr cfg, d) \<Rightarrow> (case connect_key (pe_repo s) fresh d of
         (Inl e, d') \<Rightarrow> (Inl (NodeRepo e), s\<lparr>pe_disk := d'\<rparr>)
       | (Inr key, d') \<Rightarrow> (case build_endpoint_with_relay_mode key cfg PublicRelays of
           None \<Rightarrow> (Inl NoDnsOrigin, s\<lparr>pe_disk := d'\<rparr>)
         | Some p \<Rightarrow> (Inr p, s\<lparr>pe_dial := Some p, pe_disk := d'\<rparr>)))))"

text \<open>At the start: what was advertised before is served again; that it cannot be is only logged.\<close>

definition new_peer_state :: "peer_libs \<Rightarrow> path \<Rightarrow> path \<Rightarrow> str \<Rightarrow> disk \<Rightarrow> io_error + peer_state" where
  "new_peer_state pl repo connect_dir1 fresh d = (case load_advertised (pl_codec pl) connect_dir1 d of Inl e \<Rightarrow> Inl e
   | Inr ids \<Rightarrow> (let s = \<lparr>pe_repo = repo, pe_listen = None, pe_dial = None, pe_connections = [], pe_advertised = ids, pe_dir = connect_dir1, pe_disk = d\<rparr>
       in Inr (if ids \<noteq> [] then snd (peer_node pl fresh s) else s)))"

definition set_listen :: "listen_node \<Rightarrow> disk \<Rightarrow> peer_state \<Rightarrow> peer_state" where
  "set_listen n d s = s\<lparr>pe_listen := Some n, pe_disk := d\<rparr>"

section \<open>Advertising and revoking\<close>

definition quoted :: "str \<Rightarrow> str" where "quoted s = [CHR 0x27] @ s @ [CHR 0x27]"

record advertise_response =
  av_resource_id :: str
  av_label :: str
  av_endpoint_id :: str
  av_ticket :: str

definition advertise :: "peer_libs \<Rightarrow> str \<Rightarrow> str option \<Rightarrow> str \<Rightarrow> str \<Rightarrow> peer_state \<Rightarrow> (http_failure + advertise_response) \<times> peer_state" where
  "advertise pl endpoint label drawn fresh s = (case from_host_port_str endpoint of
     Inl e \<Rightarrow> (Inl (err_response (''invalid endpoint '' @ quoted endpoint @ '': '' @ pl_target pl e)), s)
   | Inr d \<Rightarrow> (let ad = fresh_advertisement drawn d label in case peer_node pl fresh s of
       (Inl e, s1) \<Rightarrow> (Inl (err_response (pl_node pl e)), s1)
     | (Inr n, s1) \<Rightarrow> (case node_set_proxy (pl_yaml pl) ad n (pe_disk s1) of
         (Inl e, n', d') \<Rightarrow> (Inl (err_response (pl_repo pl e)), set_listen n' d' s1)
       | (Inr _, n', d') \<Rightarrow> (case mark_advertised pl (px_tunnel ad) (set_listen n' d' s1) of
           (Inl e, s2) \<Rightarrow> (Inl (err_response (pl_io pl e)), s2)
         | (Inr _, s2) \<Rightarrow> (let me = pl_public pl (ep_key (ln_plan n))
             in (Inr \<lparr>av_resource_id = px_tunnel ad, av_label = proxy_label ad, av_endpoint_id = me, av_ticket = pl_ticket pl me ad\<rparr>, s2))))))"

definition revoke :: "peer_libs \<Rightarrow> str \<Rightarrow> peer_state \<Rightarrow> (http_failure + str) \<times> peer_state" where
  "revoke pl rid s = (if rid \<notin> set (pe_advertised s) then (Inl (not_found rid), s)
   else (case pe_listen s of None \<Rightarrow> (Inl (not_found rid), s)
   | Some n \<Rightarrow> (case node_remove_proxy (pl_yaml pl) rid n (pe_disk s) of
       (Inl e, n', d') \<Rightarrow> (Inl (err_response (pl_repo pl e)), set_listen n' d' s)
     | (Inr None, n', d') \<Rightarrow> (Inl (not_found rid), set_listen n' d' s)
     | (Inr (Some _), n', d') \<Rightarrow> (case unmark_advertised pl rid (set_listen n' d' s) of
         (Inl e, s') \<Rightarrow> (Inl (err_response (pl_io pl e)), s')
       | (Inr _, s') \<Rightarrow> (Inr rid, s')))))"

section \<open>Connecting\<close>

text \<open>\<open>SocketAddr::from_str\<close>: an address, the scope of an IPv6 one, and a port.\<close>

definition read_port :: "nat Ip_Net.reader" where
  "read_port s = (case s of c # r \<Rightarrow> if c = CHR '':'' then read_number 10 (length r) True 65535 r else None | [] \<Rightarrow> None)"

definition read_scope :: "nat Ip_Net.reader" where
  "read_scope s = (case s of c # r \<Rightarrow> if c = CHR ''%'' then read_number 10 (length r) True (2 ^ 32 - 1) r else None | [] \<Rightarrow> None)"

definition read_socket_v4 :: "(ip_addr \<times> nat \<times> nat) Ip_Net.reader" where
  "read_socket_v4 s = (case read_ipv4 s of None \<Rightarrow> None
   | Some (o4, r) \<Rightarrow> (case read_port r of None \<Rightarrow> None | Some (port, r') \<Rightarrow> Some ((V4 (word_of_octets o4), 0, port), r')))"

definition read_socket_v6 :: "(ip_addr \<times> nat \<times> nat) Ip_Net.reader" where
  "read_socket_v6 s = (case strip_prefix ''['' s of None \<Rightarrow> None | Some s1 \<Rightarrow> (case read_ipv6 s1 of None \<Rightarrow> None
   | Some (gs, r) \<Rightarrow> (let (scope, r1) = (case read_scope r of Some (n, r1) \<Rightarrow> (n, r1) | None \<Rightarrow> (0, r))
       in case strip_prefix '']'' r1 of None \<Rightarrow> None
          | Some r2 \<Rightarrow> (case read_port r2 of None \<Rightarrow> None | Some (port, r') \<Rightarrow> Some ((V6 (word_of_groups gs), scope, port), r')))))"

definition parse_socket_addr :: "str \<Rightarrow> (ip_addr \<times> nat \<times> nat) option" where
  "parse_socket_addr s = (case (case read_socket_v4 s of Some x \<Rightarrow> Some x | None \<Rightarrow> read_socket_v6 s) of
     Some (a, []) \<Rightarrow> Some a | _ \<Rightarrow> None)"

record connect_response =
  co_id :: str
  co_bound :: str
  co_remote :: str
  co_target :: str

text \<open>\<open>bind1\<close>: what the system answers to a listener on an address, the address it got in words; \<open>cid\<close> is a random id.\<close>

definition connect_and_bind_local :: "(ip_addr \<times> nat \<times> nat \<Rightarrow> str + str) \<Rightarrow> str \<Rightarrow> tcp_proxy_data \<Rightarrow> ip_addr \<times> nat \<times> nat \<Rightarrow> str + connection" where
  "connect_and_bind_local bind1 remote target addr = (case bind1 addr of Inl e \<Rightarrow> Inl e
     | Inr bound \<Rightarrow> Inr \<lparr>cn_bound = bound, cn_remote = remote, cn_target = target, cn_transitions = 0\<rparr>)"

definition connect :: "peer_libs \<Rightarrow> (ip_addr \<times> nat \<times> nat \<Rightarrow> str + str) \<Rightarrow> str \<Rightarrow> str \<Rightarrow> str \<Rightarrow> str \<Rightarrow> peer_state \<Rightarrow> (http_failure + connect_response) \<times> peer_state" where
  "connect pl bind1 ticket requested cid fresh s = (case pl_read_ticket pl ticket of
     Inl e \<Rightarrow> (Inl (err_response (''invalid ticket: '' @ e)), s)
   | Inr (remote, target) \<Rightarrow> (case parse_socket_addr requested of
       None \<Rightarrow> (Inl (err_response (''invalid bind address '' @ quoted requested @ '': invalid socket address syntax'')), s)
     | Some addr \<Rightarrow> (case dial_node pl fresh s of
         (Inl e, s1) \<Rightarrow> (Inl (err_response (pl_node pl e)), s1)
       | (Inr _, s1) \<Rightarrow> (case connect_and_bind_local bind1 remote target addr of
           Inl e \<Rightarrow> (Inl (err_response e), s1)
         | Inr c \<Rightarrow> (Inr \<lparr>co_id = cid, co_bound = cn_bound c, co_remote = cn_remote c, co_target = data_address (cn_target c)\<rparr>,
             s1\<lparr>pe_connections := AList.update cid c (pe_connections s1)\<rparr>)))))"

definition disconnect :: "str \<Rightarrow> peer_state \<Rightarrow> (http_failure + str) \<times> peer_state" where
  "disconnect cid s = (case map_of (pe_connections s) cid of None \<Rightarrow> (Inl (not_found cid), s)
     | Some _ \<Rightarrow> (Inr cid, s\<lparr>pe_connections := AList.delete cid (pe_connections s)\<rparr>))"

section \<open>Watching a connection\<close>

fun describe_conn_type :: "connection_type \<Rightarrow> str \<times> str option" where
  "describe_conn_type (Direct addr) = (''direct'', Some addr)"
| "describe_conn_type (Relay url) = (''relay'', Some url)"
| "describe_conn_type (Mixed addr url) = (''mixed'', Some (addr @ '' via '' @ url))"
| "describe_conn_type NoConnection = (''unknown'', None)"

text \<open>
  One look at a connection, every two seconds: \<open>seen\<close> is what the node's endpoint knows of the peer. The result is what was last seen,
  or \<open>None\<close> when the connection is gone and the watch is over. The counter belongs to the handle that was watched from the start.
\<close>

definition count_transition :: "str \<Rightarrow> peer_state \<Rightarrow> peer_state" where
  "count_transition cid s = s\<lparr>pe_connections := AList.map_entry cid (\<lambda>c. c\<lparr>cn_transitions := cn_transitions c + 1\<rparr>) (pe_connections s)\<rparr>"

definition watch_tick :: "peer_libs \<Rightarrow> str \<Rightarrow> connection_type option \<Rightarrow> nat \<Rightarrow> connection_type option \<Rightarrow> peer_state \<Rightarrow> connection_type option option \<times> peer_state" where
  "watch_tick pl cid seen now_ms last1 s = (if map_of (pe_connections s) cid = None then (None, s)
   else if pe_dial s = None then (Some last1, s)
   else (case seen of None \<Rightarrow> (Some last1, s)
   | Some current \<Rightarrow> (Some (Some current),
       if last1 = None \<or> last1 = Some current then s
       else (let s1 = count_transition cid s
         in s1\<lparr>pe_disk := append_audit (pl_codec pl) (pe_dir s1) (''peer_connection_'' @ fst (describe_conn_type current)) cid ''system'' (word_of_nat now_ms) (pe_disk s1)\<rparr>))))"

section \<open>Listing\<close>

record advertisement_summary =
  as_resource_id :: str
  as_label :: str
  as_endpoint :: str
  as_enabled :: bool
  as_bytes_to :: "64 word"
  as_bytes_from :: "64 word"

record connection_summary =
  cy_id :: str
  cy_bound :: str
  cy_remote :: str
  cy_target :: str
  cy_type :: str
  cy_detail :: "str option"
  cy_latency :: "64 word option"
  cy_transitions :: "32 word"

text \<open>What the endpoints and the metrics know: bytes of a target, the type of a connection to a peer and its latency in nanoseconds, the totals of the dialling side.\<close>

record 'm network_facts =
  nf_bytes :: "tcp_proxy_data \<Rightarrow> (64 word \<times> 64 word) option"
  nf_type :: "str \<Rightarrow> connection_type option"
  nf_latency :: "str \<Rightarrow> nat option"
  nf_totals :: 'm

record 'm peer_list =
  ps_endpoint_id :: "str option"
  ps_advertisements :: "advertisement_summary list"
  ps_connections :: "connection_summary list"
  ps_totals :: "'m option"

definition summarize_ad :: "'m network_facts \<Rightarrow> proxy_state \<Rightarrow> advertisement_summary" where
  "summarize_ad nf p = (let b = (case nf_bytes nf (px_data p) of Some b \<Rightarrow> b | None \<Rightarrow> (0, 0))
     in \<lparr>as_resource_id = px_tunnel p, as_label = proxy_label p, as_endpoint = data_address (px_data p), as_enabled = px_enabled p,
         as_bytes_to = fst b, as_bytes_from = snd b\<rparr>)"

definition summarize_connection :: "'m network_facts \<Rightarrow> bool \<Rightarrow> str \<times> connection \<Rightarrow> connection_summary" where
  "summarize_connection nf dialling ic = (let c = snd ic;
     kind = (case (if dialling then nf_type nf (cn_remote c) else None) of Some t \<Rightarrow> describe_conn_type t | None \<Rightarrow> (''unknown'', None))
     in \<lparr>cy_id = fst ic, cy_bound = cn_bound c, cy_remote = cn_remote c, cy_target = data_address (cn_target c), cy_type = fst kind, cy_detail = snd kind,
         cy_latency = (if dialling then map_option (\<lambda>ns. word_of_nat (ns div 1000000)) (nf_latency nf (cn_remote c)) else None), cy_transitions = cn_transitions c\<rparr>)"

definition list_peers :: "peer_libs \<Rightarrow> 'm network_facts \<Rightarrow> peer_state \<Rightarrow> 'm peer_list" where
  "list_peers pl nf s = \<lparr>
     ps_endpoint_id = map_option (\<lambda>n. pl_public pl (ep_key (ln_plan n))) (pe_listen s),
     ps_advertisements = (case pe_listen s of None \<Rightarrow> []
       | Some n \<Rightarrow> map (summarize_ad nf) (filter (\<lambda>p. px_tunnel p \<in> set (pe_advertised s)) (ln_state n))),
     ps_connections = map (summarize_connection nf (pe_dial s \<noteq> None)) (pe_connections s),
     ps_totals = (if pe_dial s = None then None else Some (nf_totals nf))\<rparr>"

end
