(* ===== verification/Peer_Facts.thy ===== *)
theory Peer_Facts
  imports Peer
begin

text \<open>
  What peer tunnels promise: revoking is final and touches nothing else, the set of what is advertised and its file agree, and the changes of a
  connection's type are counted. And what a ticket really opens.
\<close>

section \<open>Operations\<close>

text \<open>The operations of the feature, with what they draw and what they are told, and anything else that happens on the disk.\<close>

datatype peer_op = Advertise str "str option" str str | Revoke str | Connect "ip_addr \<times> nat \<times> nat \<Rightarrow> str + str" str str str str | Disconnect str
  | Watch str "connection_type option" nat "connection_type option" | OnDisk "disk \<Rightarrow> disk"

fun peer_step :: "peer_libs \<Rightarrow> peer_op \<Rightarrow> peer_state \<Rightarrow> peer_state" where
  "peer_step pl (Advertise endpoint label drawn fresh) s = snd (advertise pl endpoint label drawn fresh s)"
| "peer_step pl (Revoke rid) s = snd (revoke pl rid s)"
| "peer_step pl (Connect bind1 ticket requested cid fresh) s = snd (connect pl bind1 ticket requested cid fresh s)"
| "peer_step pl (Disconnect cid) s = snd (disconnect cid s)"
| "peer_step pl (Watch cid seen now_ms last1) s = snd (watch_tick pl cid seen now_ms last1 s)"
| "peer_step pl (OnDisk f) s = s\<lparr>pe_disk := f (pe_disk s)\<rparr>"

text \<open>The id an operation makes.\<close>

definition new_id :: "str \<Rightarrow> str" where "new_id drawn = ''proxy-'' @ random_id drawn"

definition makes :: "peer_op \<Rightarrow> str set" where
  "makes op = (case op of Advertise _ _ drawn _ \<Rightarrow> {new_id drawn} | _ \<Rightarrow> {})"

lemma made_id [simp]: "px_tunnel (fresh_advertisement drawn d l) = new_id drawn" "px_data (fresh_advertisement drawn d l) = d"
    "px_enabled (fresh_advertisement drawn d l)"
  by (simp_all add: fresh_advertisement_def new_proxy_state_def new_id_def)

lemma saved_same:
  "save_advertised pl s = (r, s') \<Longrightarrow> pe_listen s' = pe_listen s \<and> pe_advertised s' = pe_advertised s \<and> pe_dir s' = pe_dir s \<and> pe_repo s' = pe_repo s"
  by (auto simp: save_advertised_def split: sum.splits prod.splits)

lemma marked:
  assumes "mark_advertised pl rid s = (r, s')"
  shows "pe_listen s' = pe_listen s \<and> pe_dir s' = pe_dir s \<and> pe_repo s' = pe_repo s \<and>
    set (pe_advertised s') = (case r of Inr _ \<Rightarrow> insert rid (set (pe_advertised s)) | Inl _ \<Rightarrow> set (pe_advertised s) - {rid})"
proof -
  obtain q v where q: "save_advertised pl (s\<lparr>pe_advertised := List.insert rid (pe_advertised s)\<rparr>) = (q, v)" by fastforce
  from saved_same [OF q] q assms show ?thesis by (auto simp: mark_advertised_def split: sum.splits)
qed

lemma unmarked:
  assumes "unmark_advertised pl rid s = (r, s')"
  shows "pe_listen s' = pe_listen s \<and> pe_dir s' = pe_dir s \<and> pe_repo s' = pe_repo s \<and>
    set (pe_advertised s') = (case r of Inr _ \<Rightarrow> set (pe_advertised s) - {rid} | Inl _ \<Rightarrow> set (pe_advertised s))"
proof -
  obtain q v where q: "save_advertised pl (s\<lparr>pe_advertised := removeAll rid (pe_advertised s)\<rparr>) = (q, v)" by fastforce
  from saved_same [OF q] q assms show ?thesis by (auto simp: unmark_advertised_def Let_def split: sum.splits if_splits)
qed

lemma node_put: "node_set_proxy y p n d = (r, n', d') \<Longrightarrow> n' = n\<lparr>ln_state := set_proxy p (ln_state n)\<rparr>"
  by (auto simp: node_set_proxy_def update_state_def split: prod.splits sum.splits)

lemma node_cut: "node_remove_proxy y rid n d = (r, n', d') \<Longrightarrow>
    n' = n\<lparr>ln_state := snd (drop_proxy rid (ln_state n))\<rparr> \<and> (\<forall>x. r = Inr x \<longrightarrow> x = by_id (ln_state n) rid)"
  using drop_proxy_found [of rid "ln_state n"] by (auto simp: node_remove_proxy_def update_state_def split: prod.splits sum.splits)

section \<open>Revoking\<close>

text \<open>The targets on the node that are under other ids than these.\<close>

definition others :: "str set \<Rightarrow> listen_node \<Rightarrow> proxies" where
  "others ids n = filter (\<lambda>p. px_tunnel p \<notin> ids) (ln_state n)"

lemma others_put: "px_tunnel p \<in> ids \<Longrightarrow> filter (\<lambda>q. px_tunnel q \<notin> ids) (set_proxy p ps) = filter (\<lambda>q. px_tunnel q \<notin> ids) ps"
  by (induction ps) (auto simp: set_proxy_Cons set_proxy_Nil)

lemma others_cut: "rid \<in> ids \<Longrightarrow> filter (\<lambda>q. px_tunnel q \<notin> ids) (snd (drop_proxy rid ps)) = filter (\<lambda>q. px_tunnel q \<notin> ids) ps"
  by (induction ps) (auto simp: drop_proxy_Cons drop_proxy_Nil split: prod.splits)

lemma cut_others: "one_each ps \<Longrightarrow> snd (drop_proxy rid ps) = filter (\<lambda>q. px_tunnel q \<noteq> rid) ps"
proof (induction ps)
  case (Cons p ps)
  then show ?case by (cases "px_tunnel p = rid") (auto simp: drop_proxy_Cons image_iff intro!: filter_True [symmetric] split: prod.splits)
qed (simp add: drop_proxy_Nil)

lemma dialled: "dial_node pl fresh s = (r, s') \<Longrightarrow> pe_listen s' = pe_listen s \<and> pe_advertised s' = pe_advertised s"
  by (auto simp: dial_node_def split: option.splits if_splits sum.splits prod.splits)

lemma connected:
  assumes "connect pl bind1 ticket requested cid fresh s = (r, s')"
  shows "pe_listen s' = pe_listen s \<and> pe_advertised s' = pe_advertised s"
proof -
  obtain q s1 where q: "dial_node pl fresh s = (q, s1)" by fastforce
  have "s' = s \<or> s' = s1 \<or> (\<exists>c. s' = s1\<lparr>pe_connections := c\<rparr>)"
    using assms unfolding connect_def q by (auto split: sum.splits option.splits prod.splits)
  with dialled [OF q] show ?thesis by auto
qed

lemma watch_tick_same: "pe_listen (snd (watch_tick pl cid seen now_ms last1 s)) = pe_listen s" "pe_advertised (snd (watch_tick pl cid seen now_ms last1 s)) = pe_advertised s"
  by (simp_all add: watch_tick_def count_transition_def Let_def split: option.split)

lemma advertised_node:
  assumes "pe_listen s = Some n" "advertise pl endpoint label drawn fresh s = (r, s')"
  shows "\<exists>n'. pe_listen s' = Some n' \<and> set (pe_advertised s') \<subseteq> insert (new_id drawn) (set (pe_advertised s)) \<and>
    (n' = n \<or> (\<exists>p. px_tunnel p = new_id drawn \<and> n' = n\<lparr>ln_state := set_proxy p (ln_state n)\<rparr>))"
proof (cases "from_host_port_str endpoint")
  case (Inl e)
  with assms show ?thesis by (auto simp: advertise_def)
next
  case (Inr d)
  let ?ad = "fresh_advertisement drawn d label"
  obtain q n' d' where q: "node_set_proxy (pl_yaml pl) ?ad n (pe_disk s) = (q, n', d')" by (metis surj_pair)
  obtain m v where m: "mark_advertised pl (new_id drawn) (set_listen n' d' s) = (m, v)" by fastforce
  have "s' = (case q of Inl _ \<Rightarrow> set_listen n' d' s | Inr _ \<Rightarrow> v)"
    using assms Inr q m by (auto simp: advertise_def peer_node_def Let_def split: sum.splits)
  moreover from node_put [OF q] have "n' = n\<lparr>ln_state := set_proxy ?ad (ln_state n)\<rparr>" .
  moreover note marked [OF m]
  moreover have "pe_listen (set_listen n' d' s) = Some n'" "pe_advertised (set_listen n' d' s) = pe_advertised s" by (simp_all add: set_listen_def)
  ultimately show ?thesis by (cases q; cases m) (auto intro: exI [of _ ?ad])
qed

lemma revoked_node:
  assumes "pe_listen s = Some n" "revoke pl rid s = (r, s')"
  shows "\<exists>n'. pe_listen s' = Some n' \<and> set (pe_advertised s') \<subseteq> set (pe_advertised s) \<and>
    (n' = n \<and> (\<exists>e. r = Inl e) \<or> rid \<in> set (pe_advertised s) \<and> n' = n\<lparr>ln_state := snd (drop_proxy rid (ln_state n))\<rparr> \<and>
       (\<forall>u. r = Inr u \<longrightarrow> rid \<notin> set (pe_advertised s') \<and> by_id (ln_state n) rid \<noteq> None))"
proof (cases "rid \<in> set (pe_advertised s)")
  case False
  with assms show ?thesis by (auto simp: revoke_def)
next
  case True
  obtain q n' d' where q: "node_remove_proxy (pl_yaml pl) rid n (pe_disk s) = (q, n', d')" by (metis surj_pair)
  obtain m v where m: "unmark_advertised pl rid (set_listen n' d' s) = (m, v)" by fastforce
  note facts = node_cut [OF q] unmarked [OF m]
  have l: "pe_listen (set_listen n' d' s) = Some n'" "pe_advertised (set_listen n' d' s) = pe_advertised s" by (simp_all add: set_listen_def)
  have r: "(r, s') = (case q of Inl e \<Rightarrow> (Inl (err_response (pl_repo pl e)), set_listen n' d' s)
     | Inr None \<Rightarrow> (Inl (not_found rid), set_listen n' d' s)
     | Inr (Some _) \<Rightarrow> (case m of Inl e \<Rightarrow> (Inl (err_response (pl_io pl e)), v) | Inr _ \<Rightarrow> (Inr rid, v)))"
    using assms True q m by (auto simp: revoke_def split: sum.splits option.splits)
  show ?thesis
  proof (cases q)
    case (Inl e)
    with r l facts True show ?thesis by auto
  next
    case (Inr x)
    show ?thesis
    proof (cases x)
      case None
      with Inr r l facts True show ?thesis by auto
    next
      case (Some p)
      with Inr r l facts True show ?thesis by (cases m) auto
    qed
  qed
qed

lemma step_node:
  assumes "pe_listen s = Some n" "set (pe_advertised s) \<subseteq> ids" "makes op \<subseteq> ids"
  shows "\<exists>n'. pe_listen (peer_step pl op s) = Some n' \<and> others ids n' = others ids n \<and> set (pe_advertised (peer_step pl op s)) \<subseteq> ids"
proof (cases op)
  case (Advertise endpoint label drawn fresh)
  obtain r s' where a: "advertise pl endpoint label drawn fresh s = (r, s')" by fastforce
  from advertised_node [OF assms(1) a] obtain n' where n': "pe_listen s' = Some n'" "set (pe_advertised s') \<subseteq> insert (new_id drawn) (set (pe_advertised s))"
    "n' = n \<or> (\<exists>p. px_tunnel p = new_id drawn \<and> n' = n\<lparr>ln_state := set_proxy p (ln_state n)\<rparr>)" by blast
  moreover have "new_id drawn \<in> ids" using Advertise assms(3) by (simp add: makes_def)
  ultimately show ?thesis using Advertise assms(2) a by (auto simp: others_def others_put subset_iff)
next
  case (Revoke rid)
  obtain r s' where a: "revoke pl rid s = (r, s')" by fastforce
  from revoked_node [OF assms(1) a] obtain n' where "pe_listen s' = Some n'" "set (pe_advertised s') \<subseteq> set (pe_advertised s)"
    "n' = n \<or> rid \<in> set (pe_advertised s) \<and> n' = n\<lparr>ln_state := snd (drop_proxy rid (ln_state n))\<rparr>" by blast
  with Revoke assms(2) a show ?thesis by (auto simp: others_def others_cut subset_iff)
next
  case (Connect bind1 ticket requested cid fresh)
  with assms connected [of pl bind1 ticket requested cid fresh s] show ?thesis by (metis peer_step.simps(3) prod.collapse)
next
  case (Disconnect cid)
  with assms show ?thesis by (simp add: disconnect_def split: option.split)
next
  case (Watch cid seen now_ms last1)
  with assms show ?thesis by (simp add: watch_tick_same)
next
  case (OnDisk f)
  with assms show ?thesis by simp
qed

lemma steps_node:
  "pe_listen s = Some n \<Longrightarrow> set (pe_advertised s) \<subseteq> ids \<Longrightarrow> list_all (\<lambda>op. makes op \<subseteq> ids) ops \<Longrightarrow>
   \<exists>n'. pe_listen (fold (peer_step pl) ops s) = Some n' \<and> others ids n' = others ids n \<and> set (pe_advertised (fold (peer_step pl) ops s)) \<subseteq> ids"
proof (induction ops arbitrary: s n)
  case (Cons op ops)
  then obtain n1 where n1: "pe_listen (peer_step pl op s) = Some n1" "others ids n1 = others ids n" "set (pe_advertised (peer_step pl op s)) \<subseteq> ids"
    using step_node [of s n ids op pl] by auto
  from Cons.IH [OF n1(1,3)] Cons.prems(3) n1(2) show ?case by simp
qed simp

lemma node_exists: "pe_listen s = Some n \<Longrightarrow> revoke pl rid s = (Inr u, s1) \<Longrightarrow>
    \<exists>n1. pe_listen s1 = Some n1 \<and> n1 = n\<lparr>ln_state := snd (drop_proxy rid (ln_state n))\<rparr> \<and> set (pe_advertised s1) \<subseteq> set (pe_advertised s) - {rid}"
  using revoked_node [of s n pl rid "Inr u" s1] by auto


section \<open>What a ticket opens\<close>

lemma state_file_apart: "join r STATE_FILE \<noteq> join r PEER_LISTEN_KEY_FILE" "join r STATE_FILE \<noteq> join r CONFIG_FILE" "join r PEER_LISTEN_KEY_FILE \<noteq> join r CONFIG_FILE"
  by (auto simp: join_def STATE_FILE_def PEER_LISTEN_KEY_FILE_def CONFIG_FILE_def starts_with_def)

lemma load_same:
  assumes "map_of (files d') (join repo STATE_FILE) = map_of (files d) (join repo STATE_FILE)" "denied d' = denied d"
    "file_there d (join repo STATE_FILE)" "load_state y repo d = (Inr ps, d0)"
  shows "load_state y repo d' = (Inr ps, d')"
  using assms by (auto simp: load_state_def file_there_def state_from_file_def read_file_def Let_def)

lemma config_same:
  assumes "repo_config y repo d = (r, d')"
  shows "map_of (files d') (join repo STATE_FILE) = map_of (files d) (join repo STATE_FILE) \<and> denied d' = denied d"
  using assms state_file_apart [of repo] by (auto simp: repo_config_def write_config_def put_file_def Let_def split: if_splits)

lemma key_same:
  assumes "peer_listen_key repo fresh d = (r, d')"
  shows "map_of (files d') (join repo STATE_FILE) = map_of (files d) (join repo STATE_FILE) \<and> denied d' = denied d"
  using assms secret_key_other [where q = "join repo STATE_FILE" and p = "join repo PEER_LISTEN_KEY_FILE" and dir = repo and fresh = fresh and d = d]
    secret_key_denied [where dir = repo and p = "join repo PEER_LISTEN_KEY_FILE" and fresh = fresh and d = d]
  by (simp add: peer_listen_key_def state_file_apart)

text \<open>The node that serves peers starts with all the repository's targets.\<close>

lemma node_with_all:
  assumes "pe_listen s = None" "peer_node pl fresh s = (Inr n, s')"
    "file_there (pe_disk s) (join (pe_repo s) STATE_FILE)" "load_state (pl_yaml pl) (pe_repo s) (pe_disk s) = (Inr ps, d0)"
  shows "ln_state n = ps \<and> pe_listen s' = Some n \<and> pe_advertised s' = pe_advertised s"
proof -
  obtain q d where q: "peer_listen_key (pe_repo s) fresh (pe_disk s) = (q, d)" by fastforce
  with assms(1,2) obtain key where key: "q = Inr key" by (cases q) (auto simp: peer_node_def)
  obtain c d1 where c: "repo_config (pl_yaml pl) (pe_repo s) d = (c, d1)" by fastforce
  from key_same [OF q] config_same [OF c] have "load_state (pl_yaml pl) (pe_repo s) d1 = (Inr ps, d1)"
    by (intro load_same [OF _ _ assms(3,4)]) auto
  with assms(1,2) q key c show ?thesis
    by (auto simp: peer_node_def build_node_def choose_key_def split: if_splits sum.splits option.splits prod.splits)
qed

lemma advertise_from_node:
  assumes "peer_node pl fresh s = (Inr n, s0)" "from_host_port_str endpoint = Inr d"
  shows "advertise pl endpoint label drawn fresh s = advertise pl endpoint label drawn fresh s0"
proof -
  from assms(1) have "pe_listen s0 = Some n" by (auto simp: peer_node_def split: option.splits sum.splits prod.splits)
  then have "peer_node pl fresh s0 = (Inr n, s0)" by (simp add: peer_node_def)
  with assms show ?thesis by (simp add: advertise_def)
qed

lemma advertise_made_node:
  assumes "advertise pl endpoint label drawn fresh s = (Inr resp, s1)"
  shows "\<exists>n s0 d. peer_node pl fresh s = (Inr n, s0) \<and> from_host_port_str endpoint = Inr d"
proof (cases "from_host_port_str endpoint")
  case (Inr d)
  obtain q s0 where q: "peer_node pl fresh s = (q, s0)" by fastforce
  with assms Inr show ?thesis by (cases q) (auto simp: advertise_def Let_def)
qed (use assms in \<open>auto simp: advertise_def\<close>)

lemma reaches:
  assumes "p \<in> set ps" "px_enabled p"
  shows "authorize f ps (Tunnel (''http://'' @ td_host (px_data p)) (td_port (px_data p)))"
  using assms by (auto simp: authorize_def tcp_proxy_exists_def strip_host_scheme_def list_ex_iff Let_def)

text \<open>
  a ticket for one target opens every target of the repository. The node made for the first advertised target serves all that the state file holds, and lets a
  request through by its host and port alone: as long as it lives, each target there that is on and is not a peer target, such as the one behind a
  tunnel of Datum's, is within reach of anyone who knows the node's id, whatever is advertised and revoked.
\<close>

theorem every_ticket_opens_every_target:
  assumes "pe_listen s = None" "file_there (pe_disk s) (join (pe_repo s) STATE_FILE)" "load_state (pl_yaml pl) (pe_repo s) (pe_disk s) = (Inr ps, d0)"
    "advertise pl endpoint label drawn fresh s = (Inr resp, s1)" "new_id drawn \<in> ids" "set (pe_advertised s) \<subseteq> ids" "list_all (\<lambda>op. makes op \<subseteq> ids) ops"
  shows "\<exists>n. pe_listen (fold (peer_step pl) ops s1) = Some n \<and>
    list_all (\<lambda>p. px_enabled p \<and> px_tunnel p \<notin> ids \<longrightarrow> authorize f (ln_state n) (Tunnel (''http://'' @ td_host (px_data p)) (td_port (px_data p)))) ps"
proof -
  obtain n0 s0 d where made: "peer_node pl fresh s = (Inr n0, s0)" "from_host_port_str endpoint = Inr d" using advertise_made_node [OF assms(4)] by blast
  note all = node_with_all [OF assms(1) made(1) assms(2,3)]
  have step: "peer_step pl (Advertise endpoint label drawn fresh) s0 = s1" using advertise_from_node [OF made] assms(4) by simp
  obtain n where n: "pe_listen (fold (peer_step pl) (Advertise endpoint label drawn fresh # ops) s0) = Some n" "others ids n = others ids n0"
    using steps_node [of s0 n0 ids "Advertise endpoint label drawn fresh # ops" pl] all assms(5-7) by (auto simp: makes_def)
  have "authorize f (ln_state n) (Tunnel (''http://'' @ td_host (px_data p)) (td_port (px_data p)))"
    if "p \<in> set ps" "px_enabled p" "px_tunnel p \<notin> ids" for p
  proof (rule reaches)
    from that all have "p \<in> set (others ids n0)" by (simp add: others_def)
    then show "p \<in> set (ln_state n)" using n(2) by (metis filter_is_subset others_def subsetD)
  qed (rule that(2))
  with n(1) step show ?thesis by (auto simp: list_all_iff)
qed

section \<open>Changes of type\<close>

text \<open>The watch over a connection: its looks, one after the other, each with the time, until the connection is gone.\<close>

fun watch_connection :: "peer_libs \<Rightarrow> str \<Rightarrow> (connection_type option \<times> nat) list \<Rightarrow> connection_type option \<Rightarrow> peer_state \<Rightarrow> peer_state" where
  "watch_connection pl cid [] last1 s = s"
| "watch_connection pl cid ((seen, t) # looks) last1 s = (case watch_tick pl cid seen t last1 s of
     (None, s') \<Rightarrow> s'
   | (Some last2, s') \<Rightarrow> watch_connection pl cid looks last2 s')"

fun changes :: "'a list \<Rightarrow> nat" where
  "changes (x # y # ys) = (if x = y then 0 else 1) + changes (y # ys)"
| "changes _ = 0"

lemma counted: "map_of (pe_connections (count_transition cid s)) k = (if k = cid then map_option (\<lambda>c. c\<lparr>cn_transitions := cn_transitions c + 1\<rparr>) (map_of (pe_connections s) cid) else map_of (pe_connections s) k)"
  by (simp add: count_transition_def AList.map_of_map_entry fun_upd_apply split: option.split)

lemma watch_counts:
  assumes "map_of (pe_connections s) cid = Some c" "pe_dial s \<noteq> None"
  shows "map_of (pe_connections (watch_connection pl cid looks last1 s)) cid =
    Some (c\<lparr>cn_transitions := cn_transitions c + of_nat (changes ((case last1 of Some t \<Rightarrow> [t] | None \<Rightarrow> []) @ List.map_filter fst looks))\<rparr>)"
  using assms
proof (induction looks arbitrary: last1 s c)
  case Nil
  then show ?case by (cases last1) simp_all
next
  case (Cons look looks)
  obtain seen t where look: "look = (seen, t)" by fastforce
  show ?case
  proof (cases seen)
    case None
    with Cons.prems have "watch_tick pl cid seen t last1 s = (Some last1, s)" by (simp add: watch_tick_def)
    with Cons.IH [OF Cons.prems] look None show ?thesis by (simp add: List.map_filter_def)
  next
    case (Some current)
    show ?thesis
    proof (cases "last1 = None \<or> last1 = Some current")
      case True
      with Cons Some look show ?thesis by (auto simp: watch_tick_def List.map_filter_def)
    next
      case False
      then obtain prev where prev: "last1 = Some prev" "prev \<noteq> current" by auto
      obtain s' where tick: "watch_tick pl cid seen t last1 s = (Some (Some current), s')" "pe_connections s' = pe_connections (count_transition cid s)" "pe_dial s' = pe_dial s"
        using Cons.prems False Some by (auto simp: watch_tick_def Let_def count_transition_def)
      from Cons.IH [of s' "c\<lparr>cn_transitions := cn_transitions c + 1\<rparr>" "Some current"] tick Cons.prems look Some prev
      show ?thesis by (simp add: counted List.map_filter_def algebra_simps)
    qed
  qed
qed

text \<open>
  the counter of a connection is the number of times its type changed from one look to the next that knew it, modulo \<open>2 ^ 32\<close>; looks that know nothing do
  not count, the first one that does only sets the type.
\<close>

theorem type_changes_are_counted:
  assumes "map_of (pe_connections s) cid = Some c" "pe_dial s \<noteq> None" "cn_transitions c = 0"
  shows "map_option (unat \<circ> cn_transitions) (map_of (pe_connections (watch_connection pl cid looks None s)) cid) =
    Some ((length (remdups_adj (List.map_filter fst looks)) - 1) mod 2 ^ 32)"
proof -
  have "changes ts = length (remdups_adj ts) - 1" for ts :: "connection_type list"
  proof (induction ts rule: changes.induct)
    case (1 x y ys)
    have "0 < length (remdups_adj (y # ys))" by simp
    with 1 show ?case by (cases "x = y") (simp_all del: length_greater_0_conv)
  qed auto
  with watch_counts [OF assms(1,2), of pl looks None] assms(3) show ?thesis by (simp add: unat_of_nat)
qed

section \<open>Examples\<close>

definition demo_peers :: peer_libs where
  "demo_peers = \<lparr>pl_yaml = sample_yaml, pl_codec = sample_codec, pl_io = \<lambda>_. ''io'', pl_node = \<lambda>_. ''node'', pl_repo = \<lambda>_. ''repo'', pl_target = \<lambda>_. ''target'',
     pl_secret_ok = True, pl_public = rev, pl_ticket = \<lambda>me p. me @ px_tunnel p, pl_read_ticket = \<lambda>_. Inl ''no''\<rparr>"

definition demo_peer_state :: "listen_node option \<Rightarrow> str list \<Rightarrow> disk \<Rightarrow> peer_state" where
  "demo_peer_state n ids d = \<lparr>pe_repo = ''/r'', pe_listen = n, pe_dial = None, pe_connections = [], pe_advertised = ids, pe_dir = ''/r'', pe_disk = d\<rparr>"

lemma saves_on_good_disk: "(\<And>p. \<not> denied (pe_disk s) p) \<Longrightarrow> \<exists>s'. save_advertised pl s = (Inr (), s') \<and> pe_listen s' = pe_listen s"
  by (auto simp: save_advertised_def create_dir_def write_atomic_def put_file_def rename_file_def Let_def)


text \<open>A target of a tunnel, then one advertised to a peer: the first is within reach through the peers' node.\<close>

theorem every_ticket_opens_every_target_witness:
  "\<exists>d1 resp s1 n. write_state sample_yaml ''/r'' [sample_target ''web'' 80] blank_disk = (Inr (), d1) \<and>
     advertise demo_peers ''localhost:81'' None ''abcdefghijkl'' ''key'' (demo_peer_state None [] d1) = (Inr resp, s1) \<and> pe_listen s1 = Some n \<and>
     authorize (\<lambda>_. None) (ln_state n) (Tunnel ''http://localhost'' 80)"
proof -
  let ?t = "sample_target ''web'' 80"
  have t: "state_typed [?t]" "px_enabled ?t" "px_tunnel ?t = ''web''" "td_host (px_data ?t) = ''localhost''" "td_port (px_data ?t) = 80"
    by (simp_all add: state_typed_def data_typed_def sample_target_def new_proxy_state_def)
  let ?d = "\<lparr>files = [(join ''/r'' STATE_FILE, yl_text sample_yaml (state_json [?t]))], denied = \<lambda>_. False\<rparr>"
  have "write_state sample_yaml ''/r'' [?t] blank_disk = (Inr (), ?d)" by (simp add: write_state_def put_file_def blank_disk_def)
  then obtain d1 where w: "write_state sample_yaml ''/r'' [?t] blank_disk = (Inr (), d1)" "denied d1 = (\<lambda>_. False)" "files d1 = [(join ''/r'' STATE_FILE, yl_text sample_yaml (state_json [?t]))]"
    by (metis disk.select_convs(1,2))
  let ?s = "demo_peer_state None [] d1"
  have l: "load_state sample_yaml ''/r'' d1 = (Inr [?t], d1)" by (rule written_state [OF w(1) good_sample_yaml t(1)])
  have e: "from_host_port_str ''localhost:81'' = Inr \<lparr>td_host = ''localhost'', td_port = 81\<rparr>"
    by (simp add: from_host_port_str_def rsplit_once_def parse_uint_def digits_value_def digit_value_def is_digit_def)
  have there: "file_there d1 (join ''/r'' STATE_FILE)" by (simp add: file_there_def w(3))
  let ?d2 = "d1\<lparr>files := AList.update (join ''/r'' PEER_LISTEN_KEY_FILE) ''key'' (files d1)\<rparr>"
  have k: "peer_listen_key ''/r'' ''key'' d1 = (Inr ''key'', ?d2)" "denied ?d2 = (\<lambda>_. False)" "\<not> file_there ?d2 (join ''/r'' CONFIG_FILE)"
    using state_file_apart [of "''/r''"] by (simp_all add: peer_listen_key_def secret_key_def file_there_def w(2,3) write_into_def create_dir_def put_file_def)
  obtain d3 where c: "repo_config sample_yaml ''/r'' ?d2 = (Inr default_config, d3)" using k(2,3) by (simp add: repo_config_def write_config_def put_file_def Let_def)
  have d3: "denied d3 = (\<lambda>_. False)" using config_same [OF c] k(2) by simp
  have "load_state sample_yaml ''/r'' d3 = (Inr [?t], d3)"
    using key_same [OF k(1)] config_same [OF c] by (intro load_same [OF _ _ there l]) auto
  with k(1) c obtain n0 where p: "peer_node demo_peers ''key'' ?s = (Inr n0, ?s\<lparr>pe_listen := Some n0, pe_disk := d3\<rparr>)"
    by (simp add: peer_node_def demo_peer_state_def demo_peers_def build_node_def choose_key_def build_endpoint_with_relay_mode_def default_config_def)
  let ?ad = "fresh_advertisement ''abcdefghijkl'' \<lparr>td_host = ''localhost'', td_port = 81\<rparr> None"
  obtain n1 d4 where m: "node_set_proxy sample_yaml ?ad n0 d3 = (Inr (), n1, d4)" "denied d4 = (\<lambda>_. False)"
    using d3 by (simp add: node_set_proxy_def update_state_def write_state_def put_file_def)
  obtain s1 where "mark_advertised demo_peers (px_tunnel ?ad) (set_listen n1 d4 (?s\<lparr>pe_listen := Some n0, pe_disk := d3\<rparr>)) = (Inr (), s1)"
    using m(2) saves_on_good_disk [of "(set_listen n1 d4 ?s)\<lparr>pe_advertised := [px_tunnel ?ad]\<rparr>" demo_peers]
    by (auto simp: mark_advertised_def set_listen_def demo_peer_state_def)
  with e p m(1) obtain resp where a: "advertise demo_peers ''localhost:81'' None ''abcdefghijkl'' ''key'' ?s = (Inr resp, s1)"
    by (auto simp: advertise_def Let_def demo_peers_def)
  have "new_id ''abcdefghijkl'' \<noteq> ''web''" by (simp add: new_id_def)
  moreover have "\<exists>n. pe_listen (fold (peer_step demo_peers) [] s1) = Some n \<and>
    list_all (\<lambda>p. px_enabled p \<and> px_tunnel p \<notin> {new_id ''abcdefghijkl''} \<longrightarrow> authorize (\<lambda>_. None) (ln_state n) (Tunnel (''http://'' @ td_host (px_data p)) (td_port (px_data p)))) [?t]"
    by (rule every_ticket_opens_every_target [OF _ _ _ a, where ?d0.0 = d1])
      (use l there in \<open>simp_all add: demo_peer_state_def demo_peers_def\<close>)
  ultimately show ?thesis using w(1) a by (auto simp: t)
qed

text \<open>A relay, then a direct way, then nothing known, then the relay again.\<close>

theorem type_changes_are_counted_witness:
  "map_option (unat \<circ> cn_transitions) (map_of (pe_connections (watch_connection demo_peers ''c''
     [(Some (Relay ''r''), 1), (Some (Direct ''a''), 2), (None, 3), (Some (Relay ''r''), 4)] None
     \<lparr>pe_repo = ''/r'', pe_listen = None, pe_dial = Some (ln_plan (sample_node [])), pe_connections = [(''c'', \<lparr>cn_bound = ''b'', cn_remote = ''m'',
        cn_target = \<lparr>td_host = ''h'', td_port = 80\<rparr>, cn_transitions = 0\<rparr>)], pe_advertised = [], pe_dir = ''/r'', pe_disk = blank_disk\<rparr>)) ''c'') = Some 2"
  by (subst type_changes_are_counted [where c = "\<lparr>cn_bound = ''b'', cn_remote = ''m'', cn_target = \<lparr>td_host = ''h'', td_port = 80\<rparr>, cn_transitions = 0\<rparr>"])
    (simp_all add: List.map_filter_def)

end
