(* ===== verification/Cli_Progress.thy ===== *)
theory Cli_Progress
  imports Tunnels Listen_Node Heartbeat Ip_Net
begin

text \<open>
  What the command line client shows while a tunnel comes up, \<open>bin/src/progress.rs\<close>: the steps as they change, the name servers that know the new name,
  and the probes of the target and of the tunnel. Everything outside is asked through the environment; lines are kept without their line end.
\<close>

section \<open>What the client asks and writes\<close>

text \<open>The calls of the tunnel service that has the node with a key.\<close>

datatype service_call = ListTunnels | Lookup str | LookupTarget str | ProgressOf str | Create str str | Update str str str | Switch str bool | Delete str | CleanUp | RefreshDetails

text \<open>
  Besides those: a fresh key with the local time, the heartbeat of a project, whether a node has a relay, a choice among lines, the next thing that
  happens while the tunnel is up, an HTTP GET with or without a host header, lookups at name servers; and what is written to the error output, to the
  output, and there as JSON.
\<close>

datatype cli_request =
    Service str service_call | Draw | Beat str str | RelayKnown str | Pick "str list" | NextEvent
  | HttpGet str "str option" | ResolvConf | NsRecords "ip_addr list" str | Addresses "ip_addr list" str | V4Records "ip_addr list" str | V6Records "ip_addr list" str
  | Say str | Print str | Out json

datatype runtime_event = CtrlC | LoginIs login_state | LoginGone | PollDue

text \<open>An HTTP error is the chain of its causes in words, from the outermost.\<close>

datatype cli_reply =
    RTunnels "str + tunnel_summary list \<times> orphaned_connector list" | RTunnel "str + tunnel_summary option" | RSummary "str + tunnel_summary"
  | RProgress "str + tunnel_progress option" | RUnit "str + unit" | ROutcome "str + delete_outcome" | RDrawn str str | RYes bool | RPicked "str + nat"
  | REvent runtime_event | RHttp "str list + nat" | RText str | RNames "str + str list" | RAddresses "str + ip_addr list"

type_synonym 'a cli = "(cli_request, cli_reply, 'a) io"

fun cr_tunnels :: "cli_reply \<Rightarrow> str + tunnel_summary list \<times> orphaned_connector list" where "cr_tunnels (RTunnels x) = x" | "cr_tunnels _ = Inl []"
fun cr_tunnel :: "cli_reply \<Rightarrow> str + tunnel_summary option" where "cr_tunnel (RTunnel x) = x" | "cr_tunnel _ = Inl []"
fun cr_summary :: "cli_reply \<Rightarrow> str + tunnel_summary" where "cr_summary (RSummary x) = x" | "cr_summary _ = Inl []"
fun cr_progress :: "cli_reply \<Rightarrow> str + tunnel_progress option" where "cr_progress (RProgress x) = x" | "cr_progress _ = Inl []"
fun cr_unit :: "cli_reply \<Rightarrow> str + unit" where "cr_unit (RUnit x) = x" | "cr_unit _ = Inl []"
fun cr_outcome :: "cli_reply \<Rightarrow> str + delete_outcome" where "cr_outcome (ROutcome x) = x" | "cr_outcome _ = Inl []"
fun cr_drawn :: "cli_reply \<Rightarrow> str \<times> str" where "cr_drawn (RDrawn t k) = (t, k)" | "cr_drawn _ = ([], [])"
fun cr_yes :: "cli_reply \<Rightarrow> bool" where "cr_yes (RYes x) = x" | "cr_yes _ = False"
fun cr_picked :: "cli_reply \<Rightarrow> str + nat" where "cr_picked (RPicked x) = x" | "cr_picked _ = Inl []"
fun cr_event :: "cli_reply \<Rightarrow> runtime_event" where "cr_event (REvent x) = x" | "cr_event _ = PollDue"
fun cr_http :: "cli_reply \<Rightarrow> str list + nat" where "cr_http (RHttp x) = x" | "cr_http _ = Inl []"
fun cr_text :: "cli_reply \<Rightarrow> str" where "cr_text (RText x) = x" | "cr_text _ = []"
fun cr_names :: "cli_reply \<Rightarrow> str + str list" where "cr_names (RNames x) = x" | "cr_names _ = Inl []"
fun cr_addresses :: "cli_reply \<Rightarrow> str + ip_addr list" where "cr_addresses (RAddresses x) = x" | "cr_addresses _ = Inl []"

text \<open>
  The other packages and what only writes: seconds with one decimal and with none, addresses in words, a URL's scheme, host and port, and the error of a
  request that took too long.
\<close>

record cli_libs =
  cl_tenths :: "nat \<Rightarrow> str"
  cl_whole :: "nat \<Rightarrow> str"
  cl_ip :: "ip_addr \<Rightarrow> str"
  cl_url :: "str \<Rightarrow> (str \<times> str option \<times> nat option) option"
  cl_timed_out :: "str list"
  cl_yaml :: yaml_libs
  cl_node :: "node_error \<Rightarrow> str"
  cl_repo :: "repo_error \<Rightarrow> str"
  cl_io :: "io_error \<Rightarrow> str"
  cl_public :: "str \<Rightarrow> str"
  cl_secret_ok :: bool
  cl_relays :: relay_mode

definition TICK :: str where "TICK = '' '' @ '' '' @ [CHR 0xE2, CHR 0x9C, CHR 0x93] @ '' ''"
definition CROSS :: str where "CROSS = '' '' @ '' '' @ [CHR 0xE2, CHR 0x9C, CHR 0x97] @ '' ''"
definition CIRCLE :: str where "CIRCLE = '' '' @ '' '' @ [CHR 0xE2, CHR 0x97, CHR 0x8B] @ '' ''"
definition WARNING :: str where "WARNING = '' '' @ '' '' @ [CHR 0xE2, CHR 0x9A, CHR 0xA0] @ '' ''"
definition LINE_END :: str where "LINE_END = [CHR 0x0A]"

definition bracketed :: "str \<Rightarrow> str" where "bracketed s = '' ['' @ s @ '']''"
definition in_parens :: "str \<Rightarrow> str" where "in_parens s = '' ('' @ s @ ''s)''"
definition or_empty :: "str option \<Rightarrow> str" where "or_empty x = (case x of Some s \<Rightarrow> s | None \<Rightarrow> [])"

section \<open>Steps\<close>

definition format_terminal_failure :: "progress_step \<Rightarrow> str" where
  "format_terminal_failure s = ''Tunnel setup failed at step: '' @ step_label (st_kind s) @ '' ('' @ resource_kind (st_kind s) @ '')'' @ LINE_END @
     ''  resource: '' @ (case st_resource s of Some r \<Rightarrow> r | None \<Rightarrow> ''(none)'') @ LINE_END @
     (case st_reason s of Some r \<Rightarrow> ''  reason: '' @ r @ LINE_END | None \<Rightarrow> []) @
     (case st_message s of Some m \<Rightarrow> ''  message: '' @ m @ LINE_END | None \<Rightarrow> []) @
     (if st_kind s = IrohDnsPublished \<and> st_status s = StepPending \<and> st_reason s = Some ''DeferredToOwner''
      then LINE_END @ ''Another connector with the same iroh key owns the DNS record for this tunnel. Most likely this means you are running two connectors against the same listen_key store. Stop the other connector or use a different repo directory.'' @ LINE_END
      else [])"

fun step_kind_to_str :: "step_kind \<Rightarrow> str" where
  "step_kind_to_str ProxyAccepted = ''proxy_accepted''"
| "step_kind_to_str CertificatesReady = ''certificates_ready''"
| "step_kind_to_str ConnectorReady = ''connector_ready''"
| "step_kind_to_str IrohDnsPublished = ''iroh_dns_published''"
| "step_kind_to_str ProxyProgrammed = ''proxy_programmed''"
| "step_kind_to_str ConnectorMetadataProgrammed = ''connector_metadata_programmed''"

fun status_to_str :: "step_status \<Rightarrow> str" where
  "status_to_str StepUnknown = ''unknown''"
| "status_to_str StepPending = ''pending''"
| "status_to_str StepReady = ''ready''"

definition or_null_str :: "str option \<Rightarrow> json" where
  "or_null_str x = (case x of Some s \<Rightarrow> JStr s | None \<Rightarrow> JNull)"

definition out_if :: "bool \<Rightarrow> (str \<times> json) list \<Rightarrow> unit cli" where
  "out_if json kvs = (if json then signal (Out (JObj (obj_of kvs))) else skip)"

definition render_progress_step :: "cli_libs \<Rightarrow> bool \<Rightarrow> progress_step \<Rightarrow> nat \<Rightarrow> unit cli" where
  "render_progress_step cl json s elapsed = do {
     (if st_status s = StepReady
      then signal (Say (TICK @ step_label (st_kind s) @ in_parens (cl_tenths cl elapsed) @ bracketed (or_empty (st_resource s)))) else skip);
     out_if json [(''type'', JStr ''tunnel_progress''), (''step'', JStr (step_kind_to_str (st_kind s))), (''status'', JStr (status_to_str (st_status s))),
       (''resource'', or_null_str (st_resource s))] }"

definition render_verify :: "cli_libs \<Rightarrow> bool \<Rightarrow> str \<Rightarrow> str \<Rightarrow> nat \<Rightarrow> nat option \<Rightarrow> unit cli" where
  "render_verify cl json label url elapsed status = do {
     signal (Say (TICK @ label @ in_parens (cl_tenths cl elapsed) @ bracketed url @ (case status of Some s \<Rightarrow> '': HTTP '' @ show_nat s | None \<Rightarrow> [])));
     out_if json [(''type'', JStr (case status of Some _ \<Rightarrow> ''tunnel_verified'' | None \<Rightarrow> ''tunnel_verifying'')), (''url'', JStr url)] }"

definition build_probe_urls :: "str \<Rightarrow> str \<Rightarrow> str \<times> str" where
  "build_probe_urls target hostname = (normalize_endpoint target, ''https://'' @ hostname)"

section \<open>Waiting for the steps\<close>

text \<open>What the loop remembers: the last status of each step, since when it is pending, when that was last written, and the state of the caller's callback.\<close>

record 'c watching =
  wt_last :: "(step_kind \<times> step_status) list"
  wt_pending :: "(step_kind \<times> nat) list"
  wt_printed :: "(step_kind \<times> nat) list"
  wt_caller :: 'c

definition status_before :: "'c watching \<Rightarrow> step_kind \<Rightarrow> step_status" where
  "status_before wt k = (case map_of (wt_last wt) k of Some s \<Rightarrow> s | None \<Rightarrow> StepUnknown)"

definition tell_change :: "(progress_step \<Rightarrow> step_status \<Rightarrow> 'c \<Rightarrow> 'c cli) \<Rightarrow> progress_step \<Rightarrow> 'c watching \<Rightarrow> 'c watching cli" where
  "tell_change cb s wt = (let before = status_before wt (st_kind s)
     in if before = st_status s then State_Monad.return wt
        else do { c \<leftarrow> cb s before (wt_caller wt); State_Monad.return (wt\<lparr>wt_last := AList.update (st_kind s) (st_status s) (wt_last wt), wt_caller := c\<rparr>) })"

definition tell_waiting :: "cli_libs \<Rightarrow> progress_step \<Rightarrow> 'c watching \<Rightarrow> 'c watching cli" where
  "tell_waiting cl s wt = (let k = st_kind s in if st_status s = StepPending
     then do { t \<leftarrow> now;
       let since = (case map_of (wt_pending wt) k of Some t0 \<Rightarrow> t0 | None \<Rightarrow> t);
           wt = wt\<lparr>wt_pending := AList.update k since (wt_pending wt)\<rparr>;
           secs = (t - since) div 1000;
           printed = (case map_of (wt_printed wt) k of Some n \<Rightarrow> n | None \<Rightarrow> 0)
       in if 10 \<le> secs \<and> 10 \<le> secs - printed
          then do { signal (Say (CIRCLE @ ''waiting for '' @ step_label k @ in_parens (cl_whole cl (t - since)) @ bracketed (or_empty (st_resource s))));
                    State_Monad.return (wt\<lparr>wt_printed := AList.update k secs (wt_printed wt)\<rparr>) }
          else State_Monad.return wt }
     else State_Monad.return (wt\<lparr>wt_pending := AList.delete k (wt_pending wt), wt_printed := AList.delete k (wt_printed wt)\<rparr>))"

fun tell_steps :: "cli_libs \<Rightarrow> (progress_step \<Rightarrow> step_status \<Rightarrow> 'c \<Rightarrow> 'c cli) \<Rightarrow> progress_step list \<Rightarrow> 'c watching \<Rightarrow> 'c watching cli" where
  "tell_steps cl cb [] wt = State_Monad.return wt"
| "tell_steps cl cb (s # ss) wt = do { wt \<leftarrow> tell_change cb s wt; wt \<leftarrow> tell_waiting cl s wt; tell_steps cl cb ss wt }"

text \<open>One round of the loop, and the loop: it has no limit, \<open>None\<close> means that it is still waiting.\<close>

definition progress_round :: "cli_libs \<Rightarrow> (progress_step \<Rightarrow> step_status \<Rightarrow> 'c \<Rightarrow> 'c cli) \<Rightarrow> str \<Rightarrow> str \<Rightarrow> 'c watching \<Rightarrow> ('c watching + (str + tunnel_progress)) cli" where
  "progress_round cl cb key tun wt = do { r \<leftarrow> ask_as cr_progress (Service key (ProgressOf tun));
     (case r of
        Inl e \<Rightarrow> State_Monad.return (Inr (Inl (''polling tunnel '' @ tun @ '' progress: '' @ e)))
      | Inr None \<Rightarrow> State_Monad.return (Inr (Inl (''Tunnel '' @ tun @ '' disappeared during setup'')))
      | Inr (Some p) \<Rightarrow> do { wt \<leftarrow> tell_steps cl cb (tp_steps p) wt;
          (case terminal_failure p of Some s \<Rightarrow> State_Monad.return (Inr (Inl (format_terminal_failure s)))
           | None \<Rightarrow> if all_ready p then State_Monad.return (Inr (Inr p)) else do { sleep 250; State_Monad.return (Inl wt) }) }) }"

definition await_tunnel_progress :: "nat \<Rightarrow> cli_libs \<Rightarrow> (progress_step \<Rightarrow> step_status \<Rightarrow> 'c \<Rightarrow> 'c cli) \<Rightarrow> 'c \<Rightarrow> str \<Rightarrow> str \<Rightarrow> (str + tunnel_progress) option cli" where
  "await_tunnel_progress rounds cl cb c key tun =
     repeat_io rounds (progress_round cl cb key tun) \<lparr>wt_last = [], wt_pending = [], wt_printed = [], wt_caller = c\<rparr>"

section \<open>Name servers\<close>

definition system_nameservers :: "str \<Rightarrow> ip_addr list" where
  "system_nameservers content = List.map_filter (\<lambda>l. case strip_prefix ''nameserver '' (trim l) of Some rest \<Rightarrow> parse_ip (trim rest) | None \<Rightarrow> None) (lines content)"

definition GOOGLE_DNS :: "ip_addr list" where "GOOGLE_DNS = [V4 0x08080808, V4 0x08080404]"

definition system_resolver_config :: "str \<Rightarrow> ip_addr list" where
  "system_resolver_config content = (let ips = system_nameservers content in if ips = [] then GOOGLE_DNS else ips)"

text \<open>The order of addresses: IPv4 before IPv6.\<close>

fun ip_rank :: "ip_addr \<Rightarrow> nat" where "ip_rank (V4 a) = unat a" | "ip_rank (V6 a) = 2 ^ 32 + unat a"

fun addresses_of :: "ip_addr list \<Rightarrow> str list \<Rightarrow> ip_addr list cli" where
  "addresses_of servers [] = State_Monad.return []"
| "addresses_of servers (n # ns) = do { r \<leftarrow> ask_as cr_addresses (Addresses servers n); rest \<leftarrow> addresses_of servers ns;
     State_Monad.return ((case r of Inr ips \<Rightarrow> ips | Inl _ \<Rightarrow> []) @ rest) }"

definition resolve_ns_ips :: "ip_addr list \<Rightarrow> str \<Rightarrow> ip_addr list cli" where
  "resolve_ns_ips servers domain = do { r \<leftarrow> ask_as cr_names (NsRecords servers domain);
     (case r of Inl _ \<Rightarrow> State_Monad.return []
      | Inr names \<Rightarrow> do { ips \<leftarrow> addresses_of servers (map (trim_end_char (CHR ''.'')) names); State_Monad.return (sort_key ip_rank (remdups ips)) }) }"

fun join_labels :: "str list \<Rightarrow> str" where
  "join_labels [] = []"
| "join_labels [l] = l"
| "join_labels (l # ls) = l @ ''.'' @ join_labels ls"

definition authority_domains :: "str \<Rightarrow> str list" where
  "authority_domains hostname = (let labels = split_on (CHR ''.'') hostname in map (\<lambda>n. join_labels (drop (n - 1) labels)) (rev [1..<length labels]))"

fun first_authority :: "ip_addr list \<Rightarrow> str list \<Rightarrow> (ip_addr list \<times> str) cli" where
  "first_authority servers [] = State_Monad.return ([], [])"
| "first_authority servers (d # ds) = do { ips \<leftarrow> resolve_ns_ips servers d;
     if ips \<noteq> [] then State_Monad.return (ips, d) else first_authority servers ds }"

definition discover_ns_authority :: "ip_addr list \<Rightarrow> str \<Rightarrow> (ip_addr list \<times> str) cli" where
  "discover_ns_authority servers hostname = first_authority servers (authority_domains hostname)"

definition found_ips :: "str + ip_addr list \<Rightarrow> ip_addr list" where
  "found_ips r = (case r of Inr ips \<Rightarrow> ips | Inl _ \<Rightarrow> [])"

definition lookup_both :: "ip_addr list \<Rightarrow> str \<Rightarrow> ip_addr list cli" where
  "lookup_both servers hostname = do { a \<leftarrow> ask_as cr_addresses (V4Records servers hostname);
     if found_ips a \<noteq> [] then State_Monad.return (found_ips a)
     else do { b \<leftarrow> ask_as cr_addresses (V6Records servers hostname); State_Monad.return (found_ips b) } }"

fun join_commas :: "str list \<Rightarrow> str" where
  "join_commas [] = []"
| "join_commas [l] = l"
| "join_commas (l # ls) = l @ '', '' @ join_commas ls"

definition MAX_DNS_WAIT :: nat where "MAX_DNS_WAIT = 120000"

definition dns_round :: "cli_libs \<Rightarrow> str \<Rightarrow> ip_addr list \<Rightarrow> nat \<Rightarrow> nat \<Rightarrow> (nat + (str + ip_addr list)) cli" where
  "dns_round cl hostname servers start last_print = do { ips \<leftarrow> lookup_both servers hostname; t \<leftarrow> now;
     if ips \<noteq> [] then do {
       signal (Say (TICK @ ''DNS provisioned'' @ in_parens (cl_tenths cl (t - start)) @ bracketed hostname @ '': '' @ join_commas (map (cl_ip cl) ips)));
       State_Monad.return (Inr (Inr ips)) }
     else if MAX_DNS_WAIT \<le> t - start then do {
       signal (Say (CROSS @ ''DNS provisioned'' @ in_parens (cl_tenths cl (t - start)) @ bracketed hostname @ '': resolution failed''));
       State_Monad.return (Inr (Inl (''could not resolve '' @ hostname @ '' via authoritative DNS after '' @ show_nat (MAX_DNS_WAIT div 1000) @ ''s''))) }
     else if 5000 \<le> t - last_print then do {
       signal (Say (CIRCLE @ ''waiting for A record'' @ in_parens (cl_whole cl (t - start)) @ bracketed hostname));
       sleep 5000; State_Monad.return (Inl t) }
     else do { sleep 5000; State_Monad.return (Inl last_print) } }"

definition resolve_hostname_dns :: "nat \<Rightarrow> cli_libs \<Rightarrow> str \<Rightarrow> (str + ip_addr list) option cli" where
  "resolve_hostname_dns rounds cl hostname = do { start \<leftarrow> now; conf \<leftarrow> ask_as cr_text ResolvConf;
     (servers, domain) \<leftarrow> discover_ns_authority (system_resolver_config conf) hostname; t \<leftarrow> now;
     if servers = [] then do {
       signal (Say (CROSS @ ''checking for NS'' @ in_parens (cl_tenths cl (t - start)) @ bracketed hostname @ '': no authoritative server found''));
       State_Monad.return (Some (Inl (''no authoritative NS found for '' @ hostname))) }
     else do {
       signal (Say (TICK @ ''checking for NS'' @ in_parens (cl_tenths cl (t - start)) @ bracketed domain @ '': '' @ join_commas (map (cl_ip cl) servers)));
       repeat_io rounds (dns_round cl hostname servers start) t } }"

section \<open>Probes\<close>

definition PROBE_TIMEOUT :: nat where "PROBE_TIMEOUT = 5000"

definition get_status :: "cli_libs \<Rightarrow> str \<Rightarrow> str option \<Rightarrow> (str list + nat) cli" where
  "get_status cl url host = do { r \<leftarrow> ask_within_as cr_http PROBE_TIMEOUT (HttpGet url host);
     State_Monad.return (case r of Some x \<Rightarrow> x | None \<Rightarrow> Inl (cl_timed_out cl)) }"

definition is_dns_error :: "str list \<Rightarrow> bool" where
  "is_dns_error chain \<longleftrightarrow> list_ex (\<lambda>m. list_ex (\<lambda>p. has_sub p (lowercase m)) [''dns'', ''name or service not known'', ''nodomain'', ''failed to lookup'', ''no such host'']) chain"

text \<open>An attempt for each address; the request's own limit is the same as the outer one.\<close>

fun probe_addresses :: "cli_libs \<Rightarrow> str \<Rightarrow> str \<Rightarrow> str \<Rightarrow> nat \<Rightarrow> ip_addr list \<Rightarrow> (str list + nat) cli" where
  "probe_addresses cl url scheme host port [] = get_status cl url None"
| "probe_addresses cl url scheme host port (ip # ips) = do {
     r \<leftarrow> ask_within_as cr_http PROBE_TIMEOUT (HttpGet (scheme @ ''://'' @ cl_ip cl ip @ '':'' @ show_nat port @ ''/'') (Some host));
     (case r of
        Some (Inr status) \<Rightarrow> State_Monad.return (Inr status)
      | Some (Inl e) \<Rightarrow> do { signal (Say (WARNING @ ''auth NS connect to '' @ cl_ip cl ip @ '' failed: '' @ (case e of m # _ \<Rightarrow> m | [] \<Rightarrow> [])));
          probe_addresses cl url scheme host port ips }
      | None \<Rightarrow> probe_addresses cl url scheme host port ips) }"

definition lookup_or_warn :: "str \<Rightarrow> cli_request \<Rightarrow> ip_addr list cli" where
  "lookup_or_warn kind q = do { r \<leftarrow> ask_as cr_addresses q;
     (case r of Inr ips \<Rightarrow> State_Monad.return ips
      | Inl e \<Rightarrow> do { signal (Say (WARNING @ ''auth NS '' @ kind @ '' lookup failed: '' @ e)); State_Monad.return [] }) }"

definition probe_by_authority :: "cli_libs \<Rightarrow> str \<Rightarrow> str \<Rightarrow> str \<Rightarrow> nat \<Rightarrow> (str list + nat) cli" where
  "probe_by_authority cl url scheme host port = do { conf \<leftarrow> ask_as cr_text ResolvConf;
     (servers, domain) \<leftarrow> discover_ns_authority (system_resolver_config conf) host;
     if servers = [] then do {
       signal (Say (WARNING @ ''no NS records found for '' @ host @ '', falling back to system DNS'')); get_status cl url None }
     else do { v4 \<leftarrow> lookup_or_warn ''A'' (V4Records servers host);
       ips \<leftarrow> (if v4 \<noteq> [] then State_Monad.return v4 else lookup_or_warn ''AAAA'' (V6Records servers host));
       if ips = [] then do { signal (Say (WARNING @ ''auth NS returned no IPs for '' @ host)); get_status cl url None }
       else probe_addresses cl url scheme host port ips } }"

definition probe_url_with_dns_fallback :: "cli_libs \<Rightarrow> str \<Rightarrow> (str list + nat) cli" where
  "probe_url_with_dns_fallback cl url = do { r \<leftarrow> get_status cl url None;
     (case r of Inr status \<Rightarrow> State_Monad.return (Inr status)
      | Inl e \<Rightarrow> if \<not> is_dns_error e then State_Monad.return (Inl e)
          else do { signal (Say (WARNING @ ''system DNS failed ('' @ (case e of m # _ \<Rightarrow> m | [] \<Rightarrow> []) @ ''), querying authoritative NS...''));
            (case cl_url cl url of
               Some (scheme, Some host, port) \<Rightarrow> probe_by_authority cl url scheme host (case port of Some p \<Rightarrow> p | None \<Rightarrow> 443)
             | _ \<Rightarrow> get_status cl url None) }) }"

definition probe_round :: "cli_libs \<Rightarrow> str \<Rightarrow> nat \<Rightarrow> nat \<Rightarrow> nat \<Rightarrow> (nat + (nat \<times> nat) option) cli" where
  "probe_round cl url start budget backoff = do { t \<leftarrow> now;
     if budget \<le> t - start then State_Monad.return (Inr None)
     else do { r \<leftarrow> get_status cl url None; t2 \<leftarrow> now;
       (case (case r of Inr status \<Rightarrow> if status < 500 then Some status else None | Inl _ \<Rightarrow> None) of
          Some status \<Rightarrow> State_Monad.return (Inr (Some (t2 - start, status)))
        | None \<Rightarrow> (let remaining = budget - (t2 - start) in if remaining = 0 then State_Monad.return (Inr None)
            else do { sleep (min backoff remaining); State_Monad.return (Inl (min (backoff * 2) 2000)) })) } }"

text \<open>\<open>None\<close> inside: the budget is used up.\<close>

definition probe_until_reachable :: "nat \<Rightarrow> cli_libs \<Rightarrow> str \<Rightarrow> nat \<Rightarrow> (nat \<times> nat) option option cli" where
  "probe_until_reachable rounds cl url budget = do { start \<leftarrow> now; repeat_io rounds (probe_round cl url start budget) 250 }"

definition verify_round :: "cli_libs \<Rightarrow> bool \<Rightarrow> str \<Rightarrow> str \<Rightarrow> nat \<Rightarrow> unit \<Rightarrow> (unit + unit) cli" where
  "verify_round cl json key url start u = do { r \<leftarrow> probe_url_with_dns_fallback cl url; t \<leftarrow> now;
     (if (case r of Inr status \<Rightarrow> status < 500 | Inl _ \<Rightarrow> False)
      then do { render_verify cl json ''proxy responding'' url (t - start) (case r of Inr status \<Rightarrow> Some status | Inl _ \<Rightarrow> None); State_Monad.return (Inr ()) }
      else do {
        signal (Say (CIRCLE @ ''waiting for tunnel'' @ bracketed url @ in_parens (cl_whole cl (t - start)) @ '' ... '' @
          (case r of Inr status \<Rightarrow> ''HTTP '' @ show_nat status | Inl e \<Rightarrow> (if e = [] then [] else last e))));
        sleep 10000; signal (Service key RefreshDetails); State_Monad.return (Inl ()) }) }"

text \<open>The callback that refreshes the connection details starts a task and does not wait for it. \<open>None\<close>: still waiting for the tunnel.\<close>

definition verify_endpoints :: "nat \<Rightarrow> cli_libs \<Rightarrow> bool \<Rightarrow> str \<Rightarrow> str \<Rightarrow> str \<Rightarrow> nat \<Rightarrow> unit option cli" where
  "verify_endpoints rounds cl json key target hostname budget = (case build_probe_urls target hostname of (origin_url, proxy_url) \<Rightarrow> do {
     r \<leftarrow> probe_until_reachable rounds cl origin_url (budget div 2);
     (case r of
        Some (Some (elapsed, status)) \<Rightarrow> render_verify cl json ''origin reachable'' origin_url elapsed (Some status)
      | _ \<Rightarrow> signal (Say (''warning: origin '' @ origin_url @ '' did not respond within budget '' @ [CHR 0xE2, CHR 0x80, CHR 0x94] @ '' continuing'')));
     start \<leftarrow> now;
     repeat_io rounds (verify_round cl json key proxy_url start) () })"

end
