(* ===== verification/Cli.thy ===== *)
theory Cli
  imports Cli_Progress
begin

text \<open>
  The command line client, \<open>bin/src/main.rs\<close>: its four commands over the tunnel service, and \<open>listen\<close> from choosing the tunnel and its key to the cleanup
  at the end. Nodes, keys and files are those of the repository; the disk is passed along.
\<close>

section \<open>What it runs with\<close>

record cli_config =
  cc_repo :: path
  cc_project :: str
  cc_json :: bool
  cc_here :: str

definition debug_enabled :: "str option \<Rightarrow> bool" where
  "debug_enabled v = (case v of Some v \<Rightarrow> v = ''1'' \<or> eq_ignore_case v ''true'' | None \<Rightarrow> False)"

definition resolve_project :: "str \<Rightarrow> selected_context" where
  "resolve_project project_id = \<lparr>sc_org_id = [], sc_org_name = [], sc_project_id = project_id, sc_project_name = project_id, sc_org_type = []\<rparr>"

definition plugin_mode_only :: "str option \<Rightarrow> str option \<Rightarrow> str + unit" where
  "plugin_mode_only session plugin_mode = (if session = None \<and> plugin_mode \<noteq> Some ''1''
     then Inl (''neither DATUM_SESSION nor DATUM_PLUGIN_MODE=1 set '' @ [CHR 0xE2, CHR 0x80, CHR 0x94] @ '' this binary runs in plugin mode only'') else Inr ())"

definition project_of_args :: "str option \<Rightarrow> str option \<Rightarrow> str + str" where
  "project_of_args project session = (case project of Some pid \<Rightarrow> Inr pid
   | None \<Rightarrow> (case session of Some s \<Rightarrow> if s \<noteq> [] then Inr s else Inl (''no project set '' @ [CHR 0xE2, CHR 0x80, CHR 0x94] @ '' pass --project or run '' @ [CHR 0x27] @ ''datumctl config set project <name>'' @ [CHR 0x27])
     | None \<Rightarrow> Inl (''no project set '' @ [CHR 0xE2, CHR 0x80, CHR 0x94] @ '' pass --project or run '' @ [CHR 0x27] @ ''datumctl config set project <name>'' @ [CHR 0x27])))"

text \<open>A step that may fail, and what follows, with the disk.\<close>

type_synonym 'a on_disk = "((str + 'a) \<times> disk) cli"

definition cgive :: "(str + 'a) \<Rightarrow> disk \<Rightarrow> 'a on_disk" where "cgive r d = State_Monad.return (r, d)"

definition ctry :: "'a on_disk \<Rightarrow> ('a \<Rightarrow> disk \<Rightarrow> 'b on_disk) \<Rightarrow> 'b on_disk" where
  "ctry m f = do { (r, d) \<leftarrow> m; (case r of Inl e \<Rightarrow> cgive (Inl e) d | Inr a \<Rightarrow> f a d) }"

definition ccall :: "(cli_reply \<Rightarrow> str + 'a) \<Rightarrow> str \<Rightarrow> service_call \<Rightarrow> disk \<Rightarrow> 'a on_disk" where
  "ccall f key c d = do { r \<leftarrow> ask_as f (Service key c); cgive r d }"

definition quote1 :: "str \<Rightarrow> str" where "quote1 s = [CHR 0x27] @ s @ [CHR 0x27]"

section \<open>Choosing the tunnel and its key\<close>

definition built :: "cli_libs \<Rightarrow> (node_error + listen_node) \<times> disk \<Rightarrow> (str + str) \<times> disk" where
  "built cl x = (case x of (Inl e, d) \<Rightarrow> (Inl (cl_node cl e), d) | (Inr n, d) \<Rightarrow> (Inr (ep_key (ln_plan n)), d))"

text \<open>A node with a throwaway key, and one with a given key; what counts of a node here is its key.\<close>

definition new_node :: "cli_libs \<Rightarrow> path \<Rightarrow> disk \<Rightarrow> str on_disk" where
  "new_node cl repo d = do { (stamp, fresh) \<leftarrow> ask_as cr_drawn Draw;
     State_Monad.return (built cl (build_node (cl_yaml cl) repo (cl_secret_ok cl) (Throwaway stamp fresh) (cl_relays cl) d)) }"

definition node_with_key :: "cli_libs \<Rightarrow> path \<Rightarrow> str \<Rightarrow> disk \<Rightarrow> str on_disk" where
  "node_with_key cl repo key d = State_Monad.return (built cl (build_node (cl_yaml cl) repo (cl_secret_ok cl) (GivenKey key) (cl_relays cl) d))"

definition cli_listen_key :: "cli_libs \<Rightarrow> cli_config \<Rightarrow> str \<Rightarrow> disk \<Rightarrow> (str \<times> bool) on_disk" where
  "cli_listen_key cl cc tun d = (case listen_key_for_tunnel (cc_repo cc) (cc_project cc) tun d of
     (Inr k, d) \<Rightarrow> cgive (Inr (k, False)) d
   | (Inl KeyNotFound, d) \<Rightarrow> do {
       signal (Say (WARNING @ ''No listen key for tunnel '' @ tun @ '' '' @ [CHR 0xE2, CHR 0x80, CHR 0x94] @
         '' generating new key. The hostname will stay the same but the old connector will be replaced.''));
       (stamp, fresh) \<leftarrow> ask_as cr_drawn Draw; cgive (Inr (fresh, True)) d }
   | (Inl e, d) \<Rightarrow> cgive (Inl (cl_repo cl e)) d)"

text \<open>
  What to listen on: the key of the node, the tunnel if there is one, its target, the key to save for it, and whether the tunnel has to be moved to a new connector.
\<close>

record resolved =
  re_key :: str
  re_existing :: "tunnel_summary option"
  re_target :: str
  re_kept :: "str option"
  re_rewire :: bool

text \<open>With a target alone: a tunnel of this device with that target, or none yet.\<close>

definition of_this_device :: "cli_config \<Rightarrow> tunnel_summary option \<Rightarrow> tunnel_summary option" where
  "of_this_device cc t = (case t of Some t \<Rightarrow> if ts_device t = Some (cc_here cc) then Some t else None | None \<Rightarrow> None)"

definition by_target :: "cli_libs \<Rightarrow> cli_config \<Rightarrow> str \<Rightarrow> disk \<Rightarrow> resolved on_disk" where
  "by_target cl cc target d = do { (stamp, generated) \<leftarrow> ask_as cr_drawn Draw;
     ctry (node_with_key cl (cc_repo cc) generated d) (\<lambda>_ d.
     ctry (new_node cl (cc_repo cc) d) (\<lambda>key d.
     ctry (ccall cr_tunnel key (LookupTarget target) d) (\<lambda>t d.
     cgive (Inr \<lparr>re_key = key, re_existing = of_this_device cc t, re_target = target, re_kept = Some generated, re_rewire = False\<rparr>) d))) }"

text \<open>By id, with or without a target, which then has to be the tunnel's.\<close>

definition with_own_key :: "cli_libs \<Rightarrow> cli_config \<Rightarrow> tunnel_summary \<Rightarrow> str \<Rightarrow> disk \<Rightarrow> resolved on_disk" where
  "with_own_key cl cc t target d = ctry (cli_listen_key cl cc (ts_id t) d) (\<lambda>(key, rewire) d.
     ctry (node_with_key cl (cc_repo cc) key d) (\<lambda>key' d.
     cgive (Inr \<lparr>re_key = key', re_existing = (if ts_id t = [] then None else Some t), re_target = target,
       re_kept = (if rewire then Some key else None), re_rewire = rewire\<rparr>) d))"

definition by_id1 :: "cli_libs \<Rightarrow> cli_config \<Rightarrow> str \<Rightarrow> str option \<Rightarrow> disk \<Rightarrow> resolved on_disk" where
  "by_id1 cl cc tun target d = ctry (new_node cl (cc_repo cc) d) (\<lambda>key d.
     ctry (ccall cr_tunnel key (Lookup tun) d) (\<lambda>t d. (case t of
       None \<Rightarrow> cgive (Inl (''Tunnel '' @ quote1 tun @ '' not found in project '' @ cc_project cc)) d
     | Some t \<Rightarrow> (case target of
         None \<Rightarrow> with_own_key cl cc t (ts_target t) d
       | Some wanted \<Rightarrow> if ts_target t \<noteq> wanted
           then cgive (Inl (''--id '' @ quote1 tun @ '' references endpoint '' @ quote1 (ts_target t) @ '' but --endpoint was '' @ quote1 wanted @ '' '' @
             [CHR 0xE2, CHR 0x80, CHR 0x94] @ '' they must agree (or omit --endpoint to inherit from the tunnel)'')) d
           else with_own_key cl cc t wanted d))))"

text \<open>With neither: the only tunnel, or one picked.\<close>

definition pick_line :: "tunnel_summary \<Rightarrow> str" where
  "pick_line t = ts_label t @ ''  ('' @ ts_id t @ '')  '' @ [CHR 0xE2, CHR 0x86, CHR 0x92] @ '' '' @ ts_target t"

definition pick_tunnel :: "tunnel_summary list \<Rightarrow> disk \<Rightarrow> tunnel_summary on_disk" where
  "pick_tunnel ts d = (case ts of [t] \<Rightarrow> cgive (Inr t) d
   | _ \<Rightarrow> do { r \<leftarrow> ask_as cr_picked (Pick (map pick_line ts));
       (case r of Inl e \<Rightarrow> cgive (Inl (''picker error: '' @ e)) d
        | Inr i \<Rightarrow> cgive (if i < length ts then Inr (ts ! i) else Inl ''called Option::unwrap() on a None value'') d) })"

definition by_picking :: "cli_libs \<Rightarrow> cli_config \<Rightarrow> disk \<Rightarrow> resolved on_disk" where
  "by_picking cl cc d = ctry (new_node cl (cc_repo cc) d) (\<lambda>key d.
     ctry (ccall cr_tunnels key ListTunnels d) (\<lambda>(ts, _) d.
       if ts = [] then cgive (Inl (''No tunnels exist in project '' @ cc_project cc @ ''. Pass --endpoint to create one.'')) d
       else ctry (pick_tunnel ts d) (\<lambda>t d. (case listen_key_for_tunnel (cc_repo cc) (cc_project cc) (ts_id t) d of
         (Inl e, d) \<Rightarrow> cgive (Inl (cl_repo cl e)) d
       | (Inr k, d) \<Rightarrow> ctry (node_with_key cl (cc_repo cc) k d) (\<lambda>key' d.
           cgive (Inr \<lparr>re_key = key', re_existing = (if ts_id t = [] then None else Some t), re_target = ts_target t, re_kept = None, re_rewire = False\<rparr>) d)))))"

definition resolve_listen :: "cli_libs \<Rightarrow> cli_config \<Rightarrow> str option \<Rightarrow> str option \<Rightarrow> disk \<Rightarrow> resolved on_disk" where
  "resolve_listen cl cc target tun d = (case (target, tun) of
     (Some ep, None) \<Rightarrow> by_target cl cc ep d
   | (None, Some i) \<Rightarrow> by_id1 cl cc i None d
   | (Some ep, Some i) \<Rightarrow> by_id1 cl cc i (Some ep) d
   | (None, None) \<Rightarrow> by_picking cl cc d)"

section \<open>Bringing the tunnel up\<close>

fun await_relay_of :: "nat \<Rightarrow> str \<Rightarrow> unit cli" where
  "await_relay_of 0 key = skip"
| "await_relay_of (Suc n) key = do { up1 \<leftarrow> ask_as cr_yes (RelayKnown key); if up1 then skip else do { sleep 250; await_relay_of n key } }"

definition save_kept :: "cli_libs \<Rightarrow> cli_config \<Rightarrow> str option \<Rightarrow> str \<Rightarrow> disk \<Rightarrow> unit on_disk" where
  "save_kept cl cc kept tun d = (case kept of None \<Rightarrow> cgive (Inr ()) d
   | Some k \<Rightarrow> (case save_listen_key_for_tunnel (cc_repo cc) (cc_project cc) tun k d of
       (Inl e, d) \<Rightarrow> cgive (Inl (cl_repo cl e)) d | (Inr _, d) \<Rightarrow> cgive (Inr ()) d))"

definition adopt_tunnel :: "cli_libs \<Rightarrow> cli_config \<Rightarrow> resolved \<Rightarrow> str option \<Rightarrow> tunnel_summary \<Rightarrow> disk \<Rightarrow> str on_disk" where
  "adopt_tunnel cl cc re label t d = (if re_rewire re \<or> (case label of Some l \<Rightarrow> l \<noteq> ts_label t | None \<Rightarrow> False)
     then ctry (ccall cr_summary (re_key re) (Update (ts_id t) (case label of Some l \<Rightarrow> l | None \<Rightarrow> ts_label t) (re_target re)) d) (\<lambda>updated d.
       ctry (save_kept cl cc (re_kept re) (ts_id t) d) (\<lambda>_ d.
       ctry (ccall cr_unit (re_key re) CleanUp d) (\<lambda>_ d. do {
         out_if (cc_json cc) [(''type'', JStr ''tunnel_updated''), (''id'', JStr (ts_id updated))];
         cgive (Inr (ts_id updated)) d })))
     else cgive (Inr (ts_id t)) d)"

definition create_anew :: "cli_libs \<Rightarrow> cli_config \<Rightarrow> resolved \<Rightarrow> str option \<Rightarrow> disk \<Rightarrow> str on_disk" where
  "create_anew cl cc re label d = ctry (ccall cr_summary (re_key re) (Create (case label of Some l \<Rightarrow> l | None \<Rightarrow> re_target re) (re_target re)) d) (\<lambda>t d.
     ctry (save_kept cl cc (re_kept re) (ts_id t) d) (\<lambda>_ d. do {
       out_if (cc_json cc) [(''type'', JStr ''tunnel_created''), (''id'', JStr (ts_id t))];
       cgive (Inr (ts_id t)) d }))"

definition ensure_tunnel :: "cli_libs \<Rightarrow> cli_config \<Rightarrow> resolved \<Rightarrow> str option \<Rightarrow> disk \<Rightarrow> str on_disk" where
  "ensure_tunnel cl cc re label d = do {
     signal (Say (CIRCLE @ ''Your endpoint ID: '' @ cl_public cl (re_key re)));
     signal (Say (CIRCLE @ ''Setting up tunnel...''));
     signal (Beat (re_key re) (cc_project cc));
     await_relay_of 40 (re_key re);
     (case re_existing re of Some t \<Rightarrow> adopt_tunnel cl cc re label t d | None \<Rightarrow> create_anew cl cc re label d) }"

text \<open>The callback for the steps times each from its first change.\<close>

definition show_step :: "cli_libs \<Rightarrow> bool \<Rightarrow> progress_step \<Rightarrow> step_status \<Rightarrow> (step_kind \<times> nat) list \<Rightarrow> (step_kind \<times> nat) list cli" where
  "show_step cl json s before started = do { t \<leftarrow> now;
     let t0 = (case map_of started (st_kind s) of Some t0 \<Rightarrow> t0 | None \<Rightarrow> t)
     in do { render_progress_step cl json s (t - t0); State_Monad.return (AList.update (st_kind s) t0 started) } }"

fun await_hostname :: "nat \<Rightarrow> str \<Rightarrow> str \<Rightarrow> tunnel_progress \<Rightarrow> tunnel_progress cli" where
  "await_hostname 0 key tun p = State_Monad.return p"
| "await_hostname (Suc n) key tun p = do { sleep 500; r \<leftarrow> ask_as cr_progress (Service key (ProgressOf tun));
     (case r of Inr (Some p') \<Rightarrow> if tp_hostnames p' \<noteq> [] then State_Monad.return p' else await_hostname n key tun p
      | _ \<Rightarrow> await_hostname n key tun p) }"

definition announce_ready :: "cli_libs \<Rightarrow> cli_config \<Rightarrow> str \<Rightarrow> tunnel_summary \<Rightarrow> nat \<Rightarrow> unit cli" where
  "announce_ready cl cc key t elapsed = (if cc_json cc
     then signal (Out (JObj (obj_of [(''type'', JStr ''tunnel_ready''), (''id'', JStr (ts_id t)), (''label'', JStr (ts_label t)), (''endpoint'', JStr (ts_target t)),
       (''hostnames'', JArr (map JStr (ts_hostnames t))), (''endpoint_id'', JStr (cl_public cl key)), (''status'', JStr ''ready''), (''elapsed_secs'', JNum (int (elapsed div 1000)))])))
     else fold (\<lambda>h m. do { m; signal (Print (''Tunnel ready: https://'' @ h)) }) (ts_hostnames t) skip)"

text \<open>From the tunnel to its announcement; \<open>None\<close> while it still waits.\<close>

definition after_verified :: "cli_libs \<Rightarrow> cli_config \<Rightarrow> str \<Rightarrow> str \<Rightarrow> nat \<Rightarrow> (str + unit) option cli" where
  "after_verified cl cc key tun started = do { r \<leftarrow> ask_as cr_tunnel (Service key (Lookup tun));
     (case r of Inl e \<Rightarrow> State_Monad.return (Some (Inl e))
      | Inr None \<Rightarrow> State_Monad.return (Some (Inl (''Tunnel '' @ tun @ '' not found after setup'')))
      | Inr (Some t) \<Rightarrow> do { t1 \<leftarrow> now; announce_ready cl cc key t (t1 - started); State_Monad.return (Some (Inr ())) }) }"

definition after_named :: "nat \<Rightarrow> cli_libs \<Rightarrow> cli_config \<Rightarrow> str \<Rightarrow> str \<Rightarrow> str \<Rightarrow> str \<Rightarrow> nat \<Rightarrow> (str + unit) option cli" where
  "after_named rounds cl cc key target tun hostname started = do { r \<leftarrow> resolve_hostname_dns rounds cl hostname;
     (case r of None \<Rightarrow> State_Monad.return None
      | Some (Inl e) \<Rightarrow> State_Monad.return (Some (Inl e))
      | Some (Inr _) \<Rightarrow> do { v \<leftarrow> verify_endpoints rounds cl (cc_json cc) key target hostname 10000;
          (case v of None \<Rightarrow> State_Monad.return None | Some _ \<Rightarrow> after_verified cl cc key tun started) }) }"

definition after_progress :: "nat \<Rightarrow> cli_libs \<Rightarrow> cli_config \<Rightarrow> str \<Rightarrow> str \<Rightarrow> str \<Rightarrow> tunnel_progress \<Rightarrow> nat \<Rightarrow> (str + unit) option cli" where
  "after_progress rounds cl cc key target tun p started = do {
     _ \<leftarrow> ask_as cr_unit (Service key RefreshDetails);
     p \<leftarrow> (if tp_hostnames p = [] then await_hostname 20 key tun p else State_Monad.return p);
     (case tp_hostnames p of [] \<Rightarrow> State_Monad.return (Some (Inl (''Tunnel '' @ tun @ '' has no hostname after Ready'')))
      | hostname # _ \<Rightarrow> after_named rounds cl cc key target tun hostname started) }"

definition bring_ready :: "nat \<Rightarrow> cli_libs \<Rightarrow> cli_config \<Rightarrow> str \<Rightarrow> str \<Rightarrow> str \<Rightarrow> nat \<Rightarrow> (str + unit) option cli" where
  "bring_ready rounds cl cc key target tun started = do {
     _ \<leftarrow> ask_as cr_unit (Service key (Switch tun True));
     r \<leftarrow> await_tunnel_progress rounds cl (show_step cl (cc_json cc)) [] key tun;
     (case r of None \<Rightarrow> State_Monad.return None
      | Some (Inl e) \<Rightarrow> State_Monad.return (Some (Inl e))
      | Some (Inr p) \<Rightarrow> after_progress rounds cl cc key target tun p started) }"

section \<open>While it is up\<close>

datatype exit_reason = Interrupted | TerminalFailure | DeletedUpstream

definition LOGIN_LOST :: str where
  "LOGIN_LOST = ''Datum login has expired or been revoked. Stop this command and run `datum login` to refresh credentials. The tunnel will continue running on cached credentials until they expire.''"

text \<open>An event as JSON, or its message on the error output.\<close>

definition tell_event :: "cli_config \<Rightarrow> str \<Rightarrow> str \<Rightarrow> str \<Rightarrow> unit cli" where
  "tell_event cc kind tun message = (if cc_json cc
     then signal (Out (JObj (obj_of [(''type'', JStr kind), (''id'', JStr tun), (''message'', JStr message)]))) else signal (Say message))"

definition poll_runtime :: "cli_config \<Rightarrow> str \<Rightarrow> str \<Rightarrow> (unit + exit_reason) cli" where
  "poll_runtime cc key tun = do { r \<leftarrow> ask_as cr_progress (Service key (ProgressOf tun));
     (case r of Inl e \<Rightarrow> State_Monad.return (Inl ())
      | Inr None \<Rightarrow> do { tell_event cc ''tunnel_deleted_upstream'' tun (''Tunnel '' @ tun @ '' no longer exists on the server''); State_Monad.return (Inr DeletedUpstream) }
      | Inr (Some p) \<Rightarrow> (case terminal_failure p of
          Some s \<Rightarrow> do { tell_event cc ''tunnel_terminal_failure'' tun (format_terminal_failure s); State_Monad.return (Inr TerminalFailure) }
        | None \<Rightarrow> State_Monad.return (Inl ()))) }"

definition runtime_round :: "cli_config \<Rightarrow> str \<Rightarrow> str \<Rightarrow> unit \<Rightarrow> (unit + exit_reason) cli" where
  "runtime_round cc key tun u = do { e \<leftarrow> ask_as cr_event NextEvent;
     (case e of CtrlC \<Rightarrow> State_Monad.return (Inr Interrupted)
      | LoginGone \<Rightarrow> State_Monad.return (Inl ())
      | LoginIs s \<Rightarrow> do { (if s = LoginMissing then tell_event cc ''tunnel_login_lost'' tun LOGIN_LOST else skip); State_Monad.return (Inl ()) }
      | PollDue \<Rightarrow> poll_runtime cc key tun) }"

definition outcome_resources :: "delete_outcome \<Rightarrow> (str \<times> str) list" where
  "outcome_resources x = List.map_filter (\<lambda>(kind, name). map_option (Pair kind) name)
     [(''HTTPProxy'', do_proxy x), (''ConnectorAdvertisement'', do_ad x), (''TrafficProtectionPolicy'', do_tpp x), (''Connector'', do_connector x)]"

definition report_deleted :: "cli_config \<Rightarrow> str \<Rightarrow> delete_outcome \<Rightarrow> unit cli" where
  "report_deleted cc tun x = (if cc_json cc
     then signal (Out (JObj (obj_of [(''type'', JStr ''tunnel_deleted''), (''id'', JStr tun), (''deleted'', JBool True),
       (''resources'', JArr (map (\<lambda>(kind, name). JObj (obj_of [(''type'', JStr kind), (''name'', JStr name)])) (outcome_resources x)))])))
     else fold (\<lambda>(kind, name) m. do { m; signal (Print (''  '' @ kind @ '' '' @ name)) }) (outcome_resources x) (signal (Print (''Deleted tunnel '' @ tun))))"

definition clean_up :: "cli_config \<Rightarrow> str \<Rightarrow> str \<Rightarrow> unit cli" where
  "clean_up cc key tun = do { r \<leftarrow> ask_as cr_outcome (Service key (Delete tun));
     (case r of Inr x \<Rightarrow> report_deleted cc tun x
      | Inl e \<Rightarrow> out_if (cc_json cc) [(''type'', JStr ''tunnel_deleted''), (''id'', JStr tun)]) }"

fun exit_result :: "exit_reason \<Rightarrow> str + unit" where
  "exit_result Interrupted = Inr ()"
| "exit_result TerminalFailure = Inl ''tunnel exited with terminal failure''"
| "exit_result DeletedUpstream = Inl ''tunnel deleted upstream''"

definition run_until_exit :: "nat \<Rightarrow> cli_config \<Rightarrow> str \<Rightarrow> str \<Rightarrow> (str + unit) option cli" where
  "run_until_exit rounds cc key tun = do { r \<leftarrow> repeat_io rounds (runtime_round cc key tun) ();
     (case r of None \<Rightarrow> State_Monad.return None
      | Some reason \<Rightarrow> do { clean_up cc key tun; State_Monad.return (Some (exit_result reason)) }) }"

section \<open>The commands\<close>

definition serve_tunnel :: "nat \<Rightarrow> cli_libs \<Rightarrow> cli_config \<Rightarrow> resolved \<Rightarrow> str option \<Rightarrow> disk \<Rightarrow> ((str + unit) option \<times> disk) cli" where
  "serve_tunnel rounds cl cc re label d = do { started \<leftarrow> now; (x, d) \<leftarrow> ensure_tunnel cl cc re label d;
     (case x of Inl e \<Rightarrow> State_Monad.return (Some (Inl e), d)
      | Inr tun \<Rightarrow> do { r \<leftarrow> bring_ready rounds cl cc (re_key re) (re_target re) tun started;
          (case r of Some (Inr _) \<Rightarrow> do { z \<leftarrow> run_until_exit rounds cc (re_key re) tun; State_Monad.return (z, d) }
           | _ \<Rightarrow> State_Monad.return (r, d)) }) }"

definition listen :: "nat \<Rightarrow> cli_libs \<Rightarrow> cli_config \<Rightarrow> str option \<Rightarrow> str option \<Rightarrow> str option \<Rightarrow> disk \<Rightarrow> ((str + unit) option \<times> disk) cli" where
  "listen rounds cl cc label target tun d = do { (r, d) \<leftarrow> resolve_listen cl cc target tun d;
     (case r of Inl e \<Rightarrow> State_Monad.return (Some (Inl e), d) | Inr re \<Rightarrow> serve_tunnel rounds cl cc re label d) }"

definition tunnel_line :: "tunnel_summary \<Rightarrow> json" where
  "tunnel_line t = JObj (obj_of [(''type'', JStr ''tunnel''), (''id'', JStr (ts_id t)), (''label'', JStr (ts_label t)), (''endpoint'', JStr (ts_target t)),
     (''status'', JStr (if ts_accepted t \<and> ts_programmed t \<and> ts_metadata t then ''ready'' else if ts_accepted t then ''accepted'' else ''pending'')),
     (''enabled'', JBool (ts_enabled t)), (''hostnames'', JArr (map JStr (ts_hostnames t))), (''connector'', JStr (if ts_connector_ready t then ''ok'' else ''stale'')),
     (''connector_name'', or_null_str (ts_connector t)), (''connector_device'', or_null_str (ts_device t))])"

definition orphan_line :: "orphaned_connector \<Rightarrow> json" where
  "orphan_line x = JObj (obj_of [(''type'', JStr ''orphaned_connector''), (''id'', JStr (oc_name x)), (''label'', JStr []), (''endpoint'', JStr []),
     (''status'', JStr ''orphaned''), (''enabled'', JBool False), (''hostnames'', JArr []), (''connector'', JStr (if oc_ready x then ''ok'' else ''stale'')),
     (''connector_name'', JStr (oc_name x)), (''connector_device'', or_null_str (oc_device x))])"

definition list_command :: "cli_libs \<Rightarrow> cli_config \<Rightarrow> disk \<Rightarrow> unit on_disk" where
  "list_command cl cc d = ctry (new_node cl (cc_repo cc) d) (\<lambda>key d. ctry (ccall cr_tunnels key ListTunnels d) (\<lambda>(ts, orphans) d.
     let output = map tunnel_line ts @ map orphan_line orphans in do {
       (if cc_json cc then signal (Out (JArr output))
        else if output = [] then signal (Print ''No tunnels found.'')
        else fold (\<lambda>j m. do { m; signal (Out j) }) output skip);
       cgive (Inr ()) d }))"

definition update_command :: "cli_libs \<Rightarrow> cli_config \<Rightarrow> str \<Rightarrow> str option \<Rightarrow> str option \<Rightarrow> disk \<Rightarrow> unit on_disk" where
  "update_command cl cc tun label target d = ctry (new_node cl (cc_repo cc) d) (\<lambda>key d. ctry (ccall cr_tunnel key (Lookup tun) d) (\<lambda>t d. (case t of
     None \<Rightarrow> cgive (Inl (''Tunnel '' @ tun @ '' not found'')) d
   | Some current \<Rightarrow> ctry (ccall cr_summary key (Update tun (case label of Some l \<Rightarrow> l | None \<Rightarrow> ts_label current)
        (case target of Some ep \<Rightarrow> ep | None \<Rightarrow> ts_target current)) d) (\<lambda>u d. do {
       (if cc_json cc then signal (Out (JObj (obj_of [(''type'', JStr ''tunnel_updated''), (''id'', JStr (ts_id u)), (''label'', JStr (ts_label u)),
           (''endpoint'', JStr (ts_target u)), (''hostnames'', JArr (map JStr (ts_hostnames u)))])))
        else do { signal (Print (''Updated tunnel '' @ ts_id u @ '':'')); signal (Print (''  label: '' @ ts_label u)); signal (Print (''  endpoint: '' @ ts_target u)) });
       cgive (Inr ()) d }))))"

definition delete_command :: "cli_libs \<Rightarrow> cli_config \<Rightarrow> str \<Rightarrow> disk \<Rightarrow> unit on_disk" where
  "delete_command cl cc tun d = ctry (new_node cl (cc_repo cc) d) (\<lambda>key d. ctry (ccall cr_outcome key (Delete tun) d) (\<lambda>x d. do {
     report_deleted cc tun x; cgive (Inr ()) d }))"

end
