(* ===== verification/Cli_Facts.thy ===== *)
theory Cli_Facts
  imports Cli
begin

text \<open>Which requests the client makes while it waits for a tunnel: it looks, and changes nothing.\<close>

section \<open>Which requests each part makes\<close>

definition event_type :: "json \<Rightarrow> str" where
  "event_type j = (case get j ''type'' of Some (JStr t) \<Rightarrow> t | _ \<Rightarrow> [])"

lemma event_type_obj [simp]: "event_type (JObj o1) = (case obj_get o1 ''type'' of Some (JStr t) \<Rightarrow> t | _ \<Rightarrow> [])"
  by (simp add: event_type_def)

text \<open>While the tunnel comes up: looking, not touching.\<close>

fun looks :: "str \<Rightarrow> str \<Rightarrow> cli_request \<Rightarrow> bool" where
  "looks key tun (Service k c) \<longleftrightarrow> k = key \<and> (c = ProgressOf tun \<or> c = RefreshDetails)"
| "looks key tun (Out j) \<longleftrightarrow> event_type j \<in> {''tunnel_progress'', ''tunnel_verified'', ''tunnel_verifying''}"
| "looks key tun q \<longleftrightarrow> (case q of Draw \<Rightarrow> False | Beat _ _ \<Rightarrow> False | RelayKnown _ \<Rightarrow> False | Pick _ \<Rightarrow> False | NextEvent \<Rightarrow> False | Print _ \<Rightarrow> False | _ \<Rightarrow> True)"

named_theorems looks_intros \<open>computations that only look\<close>

lemma looks_out_if [looks_intros]: "event_type (JObj (obj_of kvs)) \<in> {''tunnel_progress'', ''tunnel_verified'', ''tunnel_verifying''} \<Longrightarrow>
    asks_only (looks key tun) (out_if json kvs)"
  unfolding out_if_def by (intro asks_intros) (simp del: event_type_obj)

lemma looks_render [looks_intros]: "asks_only (looks key tun) (render_progress_step cl json s t)"
  unfolding render_progress_step_def by (intro asks_intros looks_intros) (simp_all add: obj_of_def)

lemma looks_verify [looks_intros]: "asks_only (looks key tun) (render_verify cl json l u t st)"
  unfolding render_verify_def by (intro asks_intros looks_intros) (auto simp: obj_of_def split: option.splits)

lemma looks_status [looks_intros]: "asks_only (looks key tun) (get_status cl url host)"
  unfolding get_status_def by (intro asks_intros) simp

lemma looks_warn [looks_intros]: "looks key tun q \<Longrightarrow> asks_only (looks key tun) (lookup_or_warn kind q)"
  unfolding lookup_or_warn_def by (intro asks_intros) simp_all

lemma looks_addresses_of [looks_intros]: "asks_only (looks key tun) (addresses_of servers ns)"
  by (induction ns) (auto intro!: asks_intros)

lemma looks_ns [looks_intros]: "asks_only (looks key tun) (resolve_ns_ips servers domain)"
  unfolding resolve_ns_ips_def by (intro asks_intros looks_intros) simp_all

lemma looks_first [looks_intros]: "asks_only (looks key tun) (first_authority servers ds)"
  by (induction ds) (auto intro!: asks_intros looks_intros)

lemma looks_discover [looks_intros]: "asks_only (looks key tun) (discover_ns_authority servers h)"
  unfolding discover_ns_authority_def by (intro looks_intros)

lemma looks_probe_addresses [looks_intros]: "asks_only (looks key tun) (probe_addresses cl url scheme host port ips)"
  by (induction ips) (auto intro!: asks_intros looks_intros)

lemma looks_authority [looks_intros]: "asks_only (looks key tun) (probe_by_authority cl url scheme host port)"
  unfolding probe_by_authority_def by (intro asks_intros looks_intros) simp_all

lemma looks_fallback [looks_intros]: "asks_only (looks key tun) (probe_url_with_dns_fallback cl url)"
  unfolding probe_url_with_dns_fallback_def by (intro asks_intros looks_intros) simp_all

lemma looks_both [looks_intros]: "asks_only (looks key tun) (lookup_both servers h)"
  unfolding lookup_both_def by (intro asks_intros) simp_all

lemma looks_dns_round [looks_intros]: "asks_only (looks key tun) (dns_round cl h servers start l)"
  unfolding dns_round_def by (intro asks_intros looks_intros) simp_all

lemma looks_dns [looks_intros]: "asks_only (looks key tun) (resolve_hostname_dns rounds cl h)"
  unfolding resolve_hostname_dns_def by (intro asks_intros looks_intros) simp_all

lemma looks_probe_round [looks_intros]: "asks_only (looks key tun) (probe_round cl url start budget b)"
  unfolding probe_round_def Let_def by (intro asks_intros looks_intros)

lemma looks_probe_until [looks_intros]: "asks_only (looks key tun) (probe_until_reachable rounds cl url budget)"
  unfolding probe_until_reachable_def by (intro asks_intros looks_intros)

lemma looks_verify_round [looks_intros]: "asks_only (looks key tun) (verify_round cl json key url start u)"
  unfolding verify_round_def by (intro asks_intros looks_intros) simp_all

lemma looks_verify_endpoints [looks_intros]: "asks_only (looks key tun) (verify_endpoints rounds cl json key target h b)"
  unfolding verify_endpoints_def by (intro asks_intros looks_intros) simp_all

lemma looks_change: "(\<And>s b c. asks_only (looks key tun) (cb s b c)) \<Longrightarrow> asks_only (looks key tun) (tell_change cb s wt)"
  unfolding tell_change_def Let_def by (intro asks_intros) simp_all

lemma looks_waiting [looks_intros]: "asks_only (looks key tun) (tell_waiting cl s wt)"
  unfolding tell_waiting_def Let_def by (intro asks_intros) simp_all

lemma looks_steps: "(\<And>s b c. asks_only (looks key tun) (cb s b c)) \<Longrightarrow> asks_only (looks key tun) (tell_steps cl cb ss wt)"
  by (induction ss arbitrary: wt) (auto intro!: asks_intros looks_change looks_waiting)

lemma looks_show [looks_intros]: "asks_only (looks key tun) (show_step cl json s b c)"
  unfolding show_step_def Let_def by (intro asks_intros looks_intros)

lemma looks_progress_round [looks_intros]: "asks_only (looks key tun) (progress_round cl (show_step cl json) key tun wt)"
  unfolding progress_round_def by (intro asks_intros looks_intros looks_steps) simp_all

lemma looks_await [looks_intros]: "asks_only (looks key tun) (await_tunnel_progress rounds cl (show_step cl json) c key tun)"
  unfolding await_tunnel_progress_def by (intro asks_intros looks_intros)

lemma looks_hostname [looks_intros]: "asks_only (looks key tun) (await_hostname n key tun p)"
  by (induction n arbitrary: p) (auto intro!: asks_intros split: sum.split option.split)

end
