(* ===== verification/Cli_Parts.thy ===== *)
theory Cli_Parts
  imports Cli_Facts
begin

text \<open>Which requests the parts of \<open>listen\<close> make, and what a successful wait has found.\<close>

section \<open>Choosing, setting up, running\<close>

fun finds :: "cli_request \<Rightarrow> bool" where
  "finds (Service k c) \<longleftrightarrow> (case c of Lookup _ \<Rightarrow> True | LookupTarget _ \<Rightarrow> True | ListTunnels \<Rightarrow> True | _ \<Rightarrow> False)"
| "finds q \<longleftrightarrow> (case q of Draw \<Rightarrow> True | Pick _ \<Rightarrow> True | Say _ \<Rightarrow> True | _ \<Rightarrow> False)"

fun sets_up :: "str \<Rightarrow> cli_request \<Rightarrow> bool" where
  "sets_up key (Service k c) \<longleftrightarrow> k = key \<and> (case c of Update _ _ _ \<Rightarrow> True | Create _ _ \<Rightarrow> True | CleanUp \<Rightarrow> True | _ \<Rightarrow> False)"
| "sets_up key (Out j) \<longleftrightarrow> event_type j \<in> {''tunnel_updated'', ''tunnel_created''}"
| "sets_up key q \<longleftrightarrow> (case q of Beat _ _ \<Rightarrow> True | RelayKnown _ \<Rightarrow> True | Say _ \<Rightarrow> True | _ \<Rightarrow> False)"

fun runs :: "str \<Rightarrow> str \<Rightarrow> cli_request \<Rightarrow> bool" where
  "runs key tun (Service k c) \<longleftrightarrow> k = key \<and> c = ProgressOf tun"
| "runs key tun (Out j) \<longleftrightarrow> event_type j \<in> {''tunnel_login_lost'', ''tunnel_terminal_failure'', ''tunnel_deleted_upstream''}"
| "runs key tun q \<longleftrightarrow> (case q of NextEvent \<Rightarrow> True | Say _ \<Rightarrow> True | _ \<Rightarrow> False)"

lemma asks_cgive [asks_intros]: "asks_only P (cgive r d)"
  unfolding cgive_def by (intro asks_intros)

lemma asks_ctry [asks_intros]: "asks_only P m \<Longrightarrow> (\<And>a d. asks_only P (f a d)) \<Longrightarrow> asks_only P (ctry m f)"
  unfolding ctry_def by (intro asks_intros)

lemma asks_ccall [asks_intros]: "P (Service key c) \<Longrightarrow> asks_only P (ccall f key c d)"
  unfolding ccall_def by (intro asks_intros)

lemma asks_new_node [asks_intros]: "P Draw \<Longrightarrow> asks_only P (new_node cl repo d)"
  unfolding new_node_def by (intro asks_intros)

lemma asks_with_key [asks_intros]: "asks_only P (node_with_key cl repo key d)"
  unfolding node_with_key_def by (intro asks_intros)

lemma asks_case_pair [asks_intros]: "(\<And>a b. asks_only P (f a b d)) \<Longrightarrow> asks_only P ((case x of (a, b) \<Rightarrow> f a b) d)"
  by (cases x) auto

lemma finds_key [asks_intros]: "asks_only finds (cli_listen_key cl cc tun d)"
  unfolding cli_listen_key_def by (auto intro!: asks_intros split: prod.split sum.split repo_error.split)

lemma finds_own [asks_intros]: "asks_only finds (with_own_key cl cc t target d)"
  unfolding with_own_key_def by (intro asks_intros)

lemma finds_target [asks_intros]: "asks_only finds (by_target cl cc target d)"
  unfolding by_target_def by (intro asks_intros) simp_all

lemma finds_id [asks_intros]: "asks_only finds (by_id1 cl cc tun target d)"
  unfolding by_id1_def by (intro asks_intros) simp_all

lemma finds_pick [asks_intros]: "asks_only finds (pick_tunnel ts d)"
  unfolding pick_tunnel_def by (auto intro!: asks_intros split: list.split)

lemma finds_picking [asks_intros]: "asks_only finds (by_picking cl cc d)"
  unfolding by_picking_def by (auto intro!: asks_intros split: prod.split sum.split)

lemma finds_listen: "asks_only finds (resolve_listen cl cc target tun d)"
  unfolding resolve_listen_def by (auto intro!: asks_intros split: option.split)

lemma sets_out [asks_intros]: "event_type (JObj (obj_of kvs)) \<in> {''tunnel_updated'', ''tunnel_created''} \<Longrightarrow> asks_only (sets_up key) (out_if json kvs)"
  unfolding out_if_def by (intro asks_intros) (simp del: event_type_obj)

lemma sets_relay [asks_intros]: "asks_only (sets_up key) (await_relay_of n k)"
  by (induction n) (auto intro!: asks_intros)

lemma asks_save [asks_intros]: "asks_only P (save_kept cl cc kept tun d)"
  unfolding save_kept_def by (auto intro!: asks_intros split: option.split prod.split sum.split)

lemma sets_adopt [asks_intros]: "asks_only (sets_up (re_key re)) (adopt_tunnel cl cc re label t d)"
  unfolding adopt_tunnel_def by (intro asks_intros) (simp_all add: obj_of_def)

lemma sets_create [asks_intros]: "asks_only (sets_up (re_key re)) (create_anew cl cc re label d)"
  unfolding create_anew_def by (intro asks_intros) (simp_all add: obj_of_def)

lemma sets_ensure: "asks_only (sets_up (re_key re)) (ensure_tunnel cl cc re label d)"
  unfolding ensure_tunnel_def by (intro asks_intros) simp_all

lemma runs_tell [asks_intros]: "kind \<in> {''tunnel_login_lost'', ''tunnel_terminal_failure'', ''tunnel_deleted_upstream''} \<Longrightarrow> asks_only (runs key tun) (tell_event cc kind tun m)"
  unfolding tell_event_def by (intro asks_intros) (simp_all add: obj_of_def)

lemma runs_poll [asks_intros]: "asks_only (runs key tun) (poll_runtime cc key tun)"
  unfolding poll_runtime_def by (intro asks_intros) simp_all

lemma runs_round: "asks_only (runs key tun) (runtime_round cc key tun u)"
  unfolding runtime_round_def by (auto intro!: asks_intros split: runtime_event.split)

section \<open>Loops that found something\<close>

lemma round_found:
  assumes "\<And>s w r v. run_state (body s) w = (r, v) \<Longrightarrow> \<exists>es. trace v = trace w @ es \<and> list_all P es \<and> (\<forall>a. r = Inr a \<longrightarrow> ok a \<longrightarrow> list_ex (good a) es)"
  shows "run_state (repeat_io n body s) w = (x, v) \<Longrightarrow> \<exists>es. trace v = trace w @ es \<and> list_all P es \<and> (\<forall>a. x = Some a \<longrightarrow> ok a \<longrightarrow> list_ex (good a) es)"
proof (induction n arbitrary: s w)
  case (Suc n)
  obtain r w1 where r: "run_state (body s) w = (r, w1)" by fastforce
  from assms [OF r] obtain es where es: "trace w1 = trace w @ es" "list_all P es" "\<forall>a. r = Inr a \<longrightarrow> ok a \<longrightarrow> list_ex (good a) es" by blast
  show ?case
  proof (cases r)
    case (Inl s')
    with Suc.prems r have "run_state (repeat_io n body s') w1 = (x, v)" by simp
    from Suc.IH [OF this] obtain fs where "trace v = trace w1 @ fs" "list_all P fs" "\<forall>a. x = Some a \<longrightarrow> ok a \<longrightarrow> list_ex (good a) fs" by blast
    with es show ?thesis by auto
  next
    case (Inr a)
    with Suc.prems r es show ?thesis by auto
  qed
qed simp

text \<open>What is asked first.\<close>

text \<open>The tunnel's progress was complete.\<close>

definition complete :: "str \<Rightarrow> str \<Rightarrow> (cli_request, cli_reply) event \<Rightarrow> bool" where
  "complete key tun e \<longleftrightarrow> request e = Service key (ProgressOf tun) \<and>
     (case reply e of Some (RProgress (Inr (Some p))) \<Rightarrow> all_ready p \<and> terminal_failure p = None | _ \<Rightarrow> False)"

lemma cr_progress_Some: "cr_progress x = Inr y \<Longrightarrow> x = RProgress (Inr y)"
  by (cases x) auto

lemma progress_found:
  assumes "run_state (progress_round cl (show_step cl json) key tun wt) w = (r, v)"
  shows "\<exists>es. trace v = trace w @ es \<and> list_all (looks key tun \<circ> request) es \<and> (\<forall>a. r = Inr a \<longrightarrow> (\<exists>p. a = Inr p) \<longrightarrow> list_ex (complete key tun) es)"
proof -
  from asks_onlyD [OF looks_progress_round assms] obtain es where es: "trace v = trace w @ es" "\<forall>e \<in> set es. looks key tun (request e)" by blast
  from ask_as_run [OF assms [unfolded progress_round_def]] obtain x w1 where x: "trace w1 = trace w @ [Event (clock w) (Service key (ProgressOf tun)) (Some x)]"
    "run_state (case cr_progress x of
        Inl e \<Rightarrow> State_Monad.return (Inr (Inl (''polling tunnel '' @ tun @ '' progress: '' @ e)))
      | Inr None \<Rightarrow> State_Monad.return (Inr (Inl (''Tunnel '' @ tun @ '' disappeared during setup'')))
      | Inr (Some p) \<Rightarrow> do { wt \<leftarrow> tell_steps cl (show_step cl json) (tp_steps p) wt;
          (case terminal_failure p of Some s \<Rightarrow> State_Monad.return (Inr (Inl (format_terminal_failure s)))
           | None \<Rightarrow> if all_ready p then State_Monad.return (Inr (Inr p)) else do { sleep 250; State_Monad.return (Inl wt) }) }) w1 = (r, v)" by blast
  show ?thesis
  proof (cases "cr_progress x")
    case (Inl e)
    with x es show ?thesis by (auto simp: list_all_iff)
  next
    case (Inr y)
    show ?thesis
    proof (cases y)
      case None
      with Inr x es show ?thesis by (auto simp: list_all_iff)
    next
      case (Some p)
      obtain wt2 w2 where t: "run_state (tell_steps cl (show_step cl json) (tp_steps p) wt) w1 = (wt2, w2)" by fastforce
      from asks_onlyD [OF looks_steps [OF looks_show] t] obtain fs where fs: "trace w2 = trace w1 @ fs" by blast
      have r: "r = (case terminal_failure p of Some s \<Rightarrow> Inr (Inl (format_terminal_failure s)) | None \<Rightarrow> if all_ready p then Inr (Inr p) else Inl wt2)" "trace v = trace w2"
        using x(2) Inr Some t by (auto split: option.splits if_splits)
      with es x(1) fs have "es = Event (clock w) (Service key (ProgressOf tun)) (Some x) # fs" by simp
      moreover have "x = RProgress (Inr (Some p))" using cr_progress_Some Inr Some by simp
      ultimately show ?thesis using es r(1) by (auto simp: list_all_iff complete_def split: option.splits if_splits)
    qed
  qed
qed

text \<open>The tunnel's address answered: a request to it, or to an address of its host, got a status below 500.\<close>

definition answered :: "cli_libs \<Rightarrow> str \<Rightarrow> (cli_request, cli_reply) event \<Rightarrow> bool" where
  "answered cl url e \<longleftrightarrow> (case request e of
     HttpGet u None \<Rightarrow> u = url
   | HttpGet u (Some h) \<Rightarrow> (case cl_url cl url of Some (_, Some host, _) \<Rightarrow> h = host | _ \<Rightarrow> False)
   | _ \<Rightarrow> False) \<and> (case reply e of Some (RHttp (Inr status)) \<Rightarrow> status < 500 | _ \<Rightarrow> False)"

lemma cr_http_Inr: "cr_http x = Inr s \<Longrightarrow> x = RHttp (Inr s)"
  by (cases x) auto

text \<open>A probe that gives a status got it from an answer.\<close>

definition sound_probe :: "cli_libs \<Rightarrow> str \<Rightarrow> (str list + nat) cli \<Rightarrow> bool" where
  "sound_probe cl url m \<longleftrightarrow> (\<forall>w r v. run_state m w = (r, v) \<longrightarrow>
     (\<exists>es. trace v = trace w @ es \<and> (\<forall>s. r = Inr s \<longrightarrow> s < 500 \<longrightarrow> list_ex (answered cl url) es)))"

lemma sound_probeD: "sound_probe cl url m \<Longrightarrow> run_state m w = (r, v) \<Longrightarrow>
    \<exists>es. trace v = trace w @ es \<and> (\<forall>s. r = Inr s \<longrightarrow> s < 500 \<longrightarrow> list_ex (answered cl url) es)"
  by (simp add: sound_probe_def)

lemma sound_return: "(\<And>s. r = Inr s \<Longrightarrow> \<not> s < 500) \<Longrightarrow> sound_probe cl url (State_Monad.return r)"
  by (simp add: sound_probe_def)

lemma sound_after:
  assumes "\<And>a. sound_probe cl url (f a)" "asks_only (\<lambda>_. True) m"
  shows "sound_probe cl url (State_Monad.bind m f)"
  unfolding sound_probe_def
proof (intro allI impI)
  fix w r v assume run: "run_state (State_Monad.bind m f) w = (r, v)"
  obtain a w1 where a: "run_state m w = (a, w1)" by fastforce
  with run have "run_state (f a) w1 = (r, v)" by simp
  from sound_probeD [OF assms(1) this] obtain fs where fs: "trace v = trace w1 @ fs" "\<forall>s. r = Inr s \<longrightarrow> s < 500 \<longrightarrow> list_ex (answered cl url) fs" by blast
  from asks_onlyD [OF assms(2) a] obtain es where "trace w1 = trace w @ es" by blast
  with fs show "\<exists>es. trace v = trace w @ es \<and> (\<forall>s. r = Inr s \<longrightarrow> s < 500 \<longrightarrow> list_ex (answered cl url) es)" by auto
qed

lemma sound_if: "sound_probe cl url m \<Longrightarrow> sound_probe cl url n \<Longrightarrow> sound_probe cl url (if b then m else n)"
  by simp

lemma anything: "asks_only P m \<Longrightarrow> asks_only (\<lambda>_. True) m"
  by (rule asks_weaken) auto

lemma within_run: "run_state (State_Monad.bind (ask_within_as f l q) g) w = (r, v) \<Longrightarrow>
    \<exists>x w1. trace w1 = trace w @ [Event (clock w) q x] \<and> run_state (g (map_option f x)) w1 = (r, v)"
  by (auto simp: ask_within_as_def ask_within_def Let_def split: prod.splits if_splits)
    (metis option.simps(8,9) world.select_convs(3) world.surjective world.update_convs(3))+

lemma sound_status: "sound_probe cl url (get_status cl url None)"
  unfolding sound_probe_def
proof (intro allI impI)
  fix w r v assume "run_state (get_status cl url None) w = (r, v)"
  from within_run [OF this [unfolded get_status_def]] obtain x where "trace v = trace w @ [Event (clock w) (HttpGet url None) x]"
      "r = (case map_option cr_http x of Some x \<Rightarrow> x | None \<Rightarrow> Inl (cl_timed_out cl))" by auto
  then show "\<exists>es. trace v = trace w @ es \<and> (\<forall>s. r = Inr s \<longrightarrow> s < 500 \<longrightarrow> list_ex (answered cl url) es)"
    by (auto simp: answered_def dest!: cr_http_Inr split: option.splits)
qed

lemma sound_addresses:
  assumes "cl_url cl url = Some (scheme1, Some host, port1)"
  shows "sound_probe cl url (probe_addresses cl url scheme host port ips)"
proof (induction ips)
  case Nil
  show ?case by (simp add: sound_status)
next
  case (Cons ip ips)
  show ?case unfolding sound_probe_def
  proof (intro allI impI)
    fix w r v assume run: "run_state (probe_addresses cl url scheme host port (ip # ips)) w = (r, v)"
    let ?u = "scheme @ ''://'' @ cl_ip cl ip @ '':'' @ show_nat port @ ''/''"
    from within_run [OF run [unfolded probe_addresses.simps]] obtain x w1 where x: "trace w1 = trace w @ [Event (clock w) (HttpGet ?u (Some host)) x]"
      and rest: "run_state (case map_option cr_http x of
        Some (Inr status) \<Rightarrow> State_Monad.return (Inr status)
      | Some (Inl e) \<Rightarrow> do { signal (Say (WARNING @ ''auth NS connect to '' @ cl_ip cl ip @ '' failed: '' @ (case e of m # _ \<Rightarrow> m | [] \<Rightarrow> [])));
          probe_addresses cl url scheme host port ips }
      | None \<Rightarrow> probe_addresses cl url scheme host port ips) w1 = (r, v)" by blast
    show "\<exists>es. trace v = trace w @ es \<and> (\<forall>s. r = Inr s \<longrightarrow> s < 500 \<longrightarrow> list_ex (answered cl url) es)"
    proof (cases "\<exists>s. map_option cr_http x = Some (Inr s)")
      case True
      with rest x assms show ?thesis by (auto simp: answered_def dest!: cr_http_Inr)
    next
      case False
      then obtain w2 ds where "run_state (probe_addresses cl url scheme host port ips) w2 = (r, v)" "trace w2 = trace w1 @ ds"
        using rest by (auto split: option.splits sum.splits)
      with sound_probeD [OF Cons.IH this(1)] x show ?thesis by auto
    qed
  qed
qed

lemma sound_fallback: "sound_probe cl url (probe_url_with_dns_fallback cl url)"
proof -
  have auth: "sound_probe cl url (probe_by_authority cl url scheme host port)" if "cl_url cl url = Some (scheme1, Some host, port1)" for scheme host port scheme1 port1
    unfolding probe_by_authority_def
    by (auto intro!: sound_after sound_if sound_status sound_addresses [OF that] asks_intros anything [OF looks_discover] anything [OF looks_warn] split: prod.split)
  show ?thesis unfolding sound_probe_def
  proof (intro allI impI)
    fix w r v assume run: "run_state (probe_url_with_dns_fallback cl url) w = (r, v)"
    obtain r1 w1 where s: "run_state (get_status cl url None) w = (r1, w1)" by fastforce
    from sound_probeD [OF sound_status s] obtain es where es: "trace w1 = trace w @ es" "\<forall>s. r1 = Inr s \<longrightarrow> s < 500 \<longrightarrow> list_ex (answered cl url) es" by blast
    show "\<exists>es. trace v = trace w @ es \<and> (\<forall>s. r = Inr s \<longrightarrow> s < 500 \<longrightarrow> list_ex (answered cl url) es)"
    proof (cases r1)
      case (Inr status)
      with run s es show ?thesis by (auto simp: probe_url_with_dns_fallback_def)
    next
      case (Inl e)
      show ?thesis
      proof (cases "is_dns_error e")
        case False
        with Inl run s es show ?thesis by (auto simp: probe_url_with_dns_fallback_def)
      next
        case True
        have "sound_probe cl url (case cl_url cl url of
               Some (scheme, Some host, port) \<Rightarrow> probe_by_authority cl url scheme host (case port of Some p \<Rightarrow> p | None \<Rightarrow> 443)
             | _ \<Rightarrow> get_status cl url None)"
          by (auto intro: auth sound_status split: option.splits)
        moreover obtain w2 ds where "run_state (case cl_url cl url of
               Some (scheme, Some host, port) \<Rightarrow> probe_by_authority cl url scheme host (case port of Some p \<Rightarrow> p | None \<Rightarrow> 443)
             | _ \<Rightarrow> get_status cl url None) w2 = (r, v)" "trace w2 = trace w1 @ ds"
          using True Inl run s by (simp add: probe_url_with_dns_fallback_def)
        ultimately show ?thesis using sound_probeD es(1) by fastforce
      qed
    qed
  qed
qed

lemma verify_found:
  assumes "run_state (verify_endpoints rounds cl json key target hostname b) w = (x, v)"
  shows "\<exists>es. trace v = trace w @ es \<and> list_all (looks key tun \<circ> request) es \<and> (x \<noteq> None \<longrightarrow> list_ex (answered cl (''https://'' @ hostname)) es)"
proof -
  let ?url = "''https://'' @ hostname"
  have round: "\<exists>es. trace v = trace w @ es \<and> list_all (looks key tun \<circ> request) es \<and> (\<forall>a. r = Inr a \<longrightarrow> True \<longrightarrow> list_ex (answered cl ?url) es)"
    if run: "run_state (verify_round cl json key ?url start u) w = (r, v)" for w r v start u
  proof -
    from asks_onlyD [OF looks_verify_round run] obtain es where es: "trace v = trace w @ es" "\<forall>e \<in> set es. looks key tun (request e)" by blast
    obtain q w1 where q: "run_state (probe_url_with_dns_fallback cl ?url) w = (q, w1)" by fastforce
    from sound_probeD [OF sound_fallback q] obtain fs where fs: "trace w1 = trace w @ fs" "\<forall>s. q = Inr s \<longrightarrow> s < 500 \<longrightarrow> list_ex (answered cl ?url) fs" by blast
    have "list_ex (answered cl ?url) es" if "r = Inr a" for a
    proof -
      from run q that have s: "\<exists>s. q = Inr s \<and> s < 500" by (auto simp: verify_round_def split: sum.splits if_splits)
      obtain gs where "trace v = trace w1 @ gs"
        using run q by (auto simp: verify_round_def render_verify_def out_if_def split: if_splits)
      with fs es s show ?thesis by auto
    qed
    with es show ?thesis by (auto simp: list_all_iff)
  qed
  obtain r1 w1 where r1: "run_state (probe_until_reachable rounds cl (normalize_endpoint target) (b div 2)) w = (r1, w1)" by fastforce
  let ?origin = "normalize_endpoint target"
  let ?mid = "\<lambda>r. case r of Some (Some (elapsed, status)) \<Rightarrow> render_verify cl json ''origin reachable'' ?origin elapsed (Some status)
      | _ \<Rightarrow> signal (Say (''warning: origin '' @ ?origin @ '' did not respond within budget '' @ [CHR 0xE2, CHR 0x80, CHR 0x94] @ '' continuing''))"
  have whole: "run_state (do { r \<leftarrow> probe_until_reachable rounds cl ?origin (b div 2); ?mid r; start \<leftarrow> now; repeat_io rounds (verify_round cl json key ?url start) () }) w = (x, v)"
    using assms unfolding verify_endpoints_def build_probe_urls_def prod.case .
  obtain w2 where w2: "run_state (?mid r1) w1 = ((), w2)" by (cases "run_state (?mid r1) w1") simp
  have "asks_only (looks key tun) (?mid r1)" by (intro asks_intros looks_intros) simp_all
  with asks_onlyD [OF _ w2] obtain ms where ms: "trace w2 = trace w1 @ ms" by blast
  from asks_onlyD [OF looks_probe_until r1, of key tun] obtain ps where ps: "trace w1 = trace w @ ps" by blast
  have rest: "run_state (repeat_io rounds (verify_round cl json key ?url (clock w2)) ()) w2 = (x, v)" "\<exists>es. trace w2 = trace w @ es"
    using whole r1 w2 ms ps by (simp_all only: run_state_bind prod.case run_now) simp_all
  have looked: "\<exists>es. trace v = trace w @ es \<and> (\<forall>e \<in> set es. looks key tun (request e))" using asks_onlyD [OF looks_verify_endpoints assms, of tun] .
  have "\<exists>es. trace v = trace w2 @ es \<and> list_all (looks key tun \<circ> request) es \<and> (\<forall>a. x = Some a \<longrightarrow> True \<longrightarrow> list_ex (answered cl ?url) es)"
    by (rule round_found [OF _ rest(1)]) (rule round)
  then obtain fs where fs: "trace v = trace w2 @ fs" "x \<noteq> None \<longrightarrow> list_ex (answered cl ?url) fs" by auto
  from rest(2) obtain es where "trace w2 = trace w @ es" by blast
  with fs looked show ?thesis by (auto simp: list_all_iff)
qed

lemma await_found:
  assumes "run_state (await_tunnel_progress rounds cl (show_step cl json) c key tun) w = (x, v)"
  shows "\<exists>es. trace v = trace w @ es \<and> list_all (looks key tun \<circ> request) es \<and> (\<forall>p. x = Some (Inr p) \<longrightarrow> list_ex (complete key tun) es)"
proof -
  have round: "\<exists>es. trace v = trace w @ es \<and> list_all (looks key tun \<circ> request) es \<and> (\<forall>a. r = Inr a \<longrightarrow> (\<exists>p. a = Inr p) \<longrightarrow> list_ex (complete key tun) es)"
    if "run_state (progress_round cl (show_step cl json) key tun s) w = (r, v)" for s w r v
    using progress_found [OF that] .
  have "\<exists>es. trace v = trace w @ es \<and> list_all (looks key tun \<circ> request) es \<and> (\<forall>a. x = Some a \<longrightarrow> (\<exists>p. a = Inr p) \<longrightarrow> list_ex (complete key tun) es)"
    by (rule round_found [OF _ assms [unfolded await_tunnel_progress_def]]) (rule round)
  then show ?thesis by auto
qed

section \<open>Announcing\<close>

definition is_ready :: "(cli_request, cli_reply) event \<Rightarrow> bool" where
  "is_ready e \<longleftrightarrow> (case request e of Out j \<Rightarrow> event_type j = ''tunnel_ready'' | _ \<Rightarrow> False)"

text \<open>What is in order: an announcement only after the steps were complete and an address of the tunnel answered.\<close>

definition in_order :: "cli_libs \<Rightarrow> str \<Rightarrow> str \<Rightarrow> (cli_request, cli_reply) event list \<Rightarrow> bool" where
  "in_order cl key tun es \<longleftrightarrow> preceded is_ready (\<lambda>d e. complete key tun d) es \<and> preceded is_ready (\<lambda>d e. \<exists>hostname. answered cl (''https://'' @ hostname) d) es"

lemma in_order_quiet: "list_all (\<lambda>e. \<not> is_ready e) es \<Longrightarrow> in_order cl key tun es"
  by (simp add: in_order_def preceded_none list_all_iff)

lemma in_order_late: "list_all (\<lambda>e. \<not> is_ready e) es \<Longrightarrow> list_ex (complete key tun) es \<Longrightarrow> list_ex (answered cl (''https://'' @ hostname)) es \<Longrightarrow> in_order cl key tun (es @ fs)"
  unfolding in_order_def by (intro conjI preceded_lead) (auto simp: list_all_iff list_ex_iff)

lemma in_order_append: "in_order cl key tun es \<Longrightarrow> in_order cl key tun fs \<Longrightarrow> in_order cl key tun (es @ fs)"
  unfolding in_order_def by (simp add: before.join)

lemma looks_quiet: "looks key tun (request e) \<Longrightarrow> \<not> is_ready e"
  by (cases "request e") (auto simp: is_ready_def)

lemma looked_quiet: "list_all (looks key tun \<circ> request) es \<Longrightarrow> list_all (\<lambda>e. \<not> is_ready e) es"
  by (auto simp: list_all_iff dest: looks_quiet)

text \<open>Requests while a tunnel is brought up, and all that follow.\<close>

definition brings :: "str \<Rightarrow> str \<Rightarrow> cli_request \<Rightarrow> bool" where
  "brings key tun q \<longleftrightarrow> looks key tun q \<or> q = Service key (Switch tun True) \<or> q = Service key (Lookup tun) \<or> (\<exists>l. q = Print l) \<or> (\<exists>j. q = Out j)"

lemma looks_brings: "looks key tun q \<Longrightarrow> brings key tun q"
  by (simp add: brings_def)

lemma brings_looks: "asks_only (looks key tun) m \<Longrightarrow> asks_only (brings key tun) m"
  by (erule asks_weaken) (rule looks_brings)

lemma asks_lines: "(\<And>x. P (f x)) \<Longrightarrow> asks_only P m \<Longrightarrow> asks_only P (fold (\<lambda>x m. do { m; signal (f x) }) xs m)"
proof (induction xs arbitrary: m)
  case (Cons x xs)
  have "asks_only P (do { m; signal (f x) })" by (intro asks_intros Cons.prems)
  with Cons show ?case by simp
qed simp

lemma brings_announce [asks_intros]: "asks_only (brings key tun) (announce_ready cl cc key t n)"
  unfolding announce_ready_def by (intro asks_intros asks_lines) (simp_all add: brings_def)

lemma brings_verified: "asks_only (brings key tun) (after_verified cl cc key tun started)"
  unfolding after_verified_def by (intro asks_intros) (simp_all add: brings_def)

lemma brings_named: "asks_only (brings key tun) (after_named rounds cl cc key target tun h started)"
  unfolding after_named_def by (intro asks_intros brings_verified brings_looks [OF looks_dns] brings_looks [OF looks_verify_endpoints])

lemma brings_progress: "asks_only (brings key tun) (after_progress rounds cl cc key target tun p started)"
proof -
  have "asks_only (brings key tun) (case hs of [] \<Rightarrow> State_Monad.return (Some (Inl (''Tunnel '' @ tun @ '' has no hostname after Ready'')))
      | hostname # _ \<Rightarrow> after_named rounds cl cc key target tun hostname started)" for hs
    by (cases hs) (auto intro!: brings_named asks_return)
  then show ?thesis unfolding after_progress_def by (intro asks_intros brings_looks [OF looks_hostname]) (simp_all add: brings_def)
qed

lemma brings_ready: "asks_only (brings key tun) (bring_ready rounds cl cc key target tun started)"
  unfolding bring_ready_def by (intro asks_intros brings_progress brings_looks [OF looks_await]) (simp add: brings_def)

text \<open>The announcement is the end of it.\<close>

lemma named_in_order:
  assumes "run_state (after_named rounds cl cc key target tun hostname started) w = (x, v)"
  shows "\<exists>es fs. trace v = trace w @ es @ fs \<and> list_all (\<lambda>e. \<not> is_ready e) es \<and> (fs \<noteq> [] \<longrightarrow> list_ex (answered cl (''https://'' @ hostname)) es)"
proof -
  obtain r w1 where r: "run_state (resolve_hostname_dns rounds cl hostname) w = (r, w1)" by fastforce
  from asks_onlyD [OF looks_dns r, of key tun] obtain es where es: "trace w1 = trace w @ es" "list_all (\<lambda>e. \<not> is_ready e) es"
    using looks_quiet unfolding list_all_iff by blast
  show ?thesis
  proof (cases "\<exists>ips. r = Some (Inr ips)")
    case False
    with assms r have "v = w1" by (auto simp: after_named_def split: option.splits sum.splits)
    with es show ?thesis by auto
  next
    case True
    obtain z w2 where z: "run_state (verify_endpoints rounds cl (cc_json cc) key target hostname 10000) w1 = (z, w2)" by fastforce
    from verify_found [OF z, of tun] obtain fs where fs: "trace w2 = trace w1 @ fs" "list_all (\<lambda>e. \<not> is_ready e) fs" "z \<noteq> None \<longrightarrow> list_ex (answered cl (''https://'' @ hostname)) fs"
      using looked_quiet by blast
    have "run_state (case z of None \<Rightarrow> State_Monad.return None | Some _ \<Rightarrow> after_verified cl cc key tun started) w2 = (x, v)"
      using assms r True z by (auto simp: after_named_def)
    then obtain gs where "trace v = trace w2 @ gs" "gs \<noteq> [] \<longrightarrow> z \<noteq> None"
      using asks_onlyD [OF brings_verified [of key tun cl cc started]] by (cases z) force+
    with es fs show ?thesis by (intro exI [of _ "es @ fs"] exI [of _ gs]) auto
  qed
qed

lemma bring_in_order:
  assumes "run_state (bring_ready rounds cl cc key target tun started) w = (x, v)"
  shows "\<exists>es. trace v = trace w @ es \<and> in_order cl key tun es"
proof -
  from ask_as_run [OF assms [unfolded bring_ready_def]] obtain y w1 where y: "trace w1 = trace w @ [Event (clock w) (Service key (Switch tun True)) (Some y)]"
    and rest: "run_state (do { r \<leftarrow> await_tunnel_progress rounds cl (show_step cl (cc_json cc)) [] key tun;
     (case r of None \<Rightarrow> State_Monad.return None | Some (Inl e) \<Rightarrow> State_Monad.return (Some (Inl e))
      | Some (Inr p) \<Rightarrow> after_progress rounds cl cc key target tun p started) }) w1 = (x, v)" by blast
  obtain r w2 where r: "run_state (await_tunnel_progress rounds cl (show_step cl (cc_json cc)) [] key tun) w1 = (r, w2)" by fastforce
  from await_found [OF r] obtain es where es: "trace w2 = trace w1 @ es" "list_all (\<lambda>e. \<not> is_ready e) es" "\<forall>p. r = Some (Inr p) \<longrightarrow> list_ex (complete key tun) es"
    using looked_quiet by blast
  have q: "\<not> is_ready (Event (clock w) (Service key (Switch tun True)) (Some y))" by (simp add: is_ready_def)
  show ?thesis
  proof (cases "\<exists>p. r = Some (Inr p)")
    case False
    with rest r have "v = w2" by (auto split: option.splits sum.splits)
    with es y q show ?thesis by (auto intro!: in_order_quiet)
  next
    case True
    then obtain p where p: "r = Some (Inr p)" by blast
    with rest r have ap: "run_state (after_progress rounds cl cc key target tun p started) w2 = (x, v)" by simp
    from ask_as_run [OF ap [unfolded after_progress_def]] obtain z w3 where z: "trace w3 = trace w2 @ [Event (clock w2) (Service key RefreshDetails) (Some z)]"
      and rest2: "run_state (do { p \<leftarrow> (if tp_hostnames p = [] then await_hostname 20 key tun p else State_Monad.return p);
        (case tp_hostnames p of [] \<Rightarrow> State_Monad.return (Some (Inl (''Tunnel '' @ tun @ '' has no hostname after Ready'')))
         | hostname # _ \<Rightarrow> after_named rounds cl cc key target tun hostname started) }) w3 = (x, v)" by blast
    obtain p' w4 where p': "run_state (if tp_hostnames p = [] then await_hostname 20 key tun p else State_Monad.return p) w3 = (p', w4)" by fastforce
    have "asks_only (looks key tun) (if tp_hostnames p = [] then await_hostname 20 key tun p else State_Monad.return p)" by (intro asks_intros looks_intros)
    from asks_onlyD [OF this p'] obtain gs where gs: "trace w4 = trace w3 @ gs" "list_all (\<lambda>e. \<not> is_ready e) gs"
      using looks_quiet unfolding list_all_iff by blast
    have q2: "\<not> is_ready (Event (clock w2) (Service key RefreshDetails) (Some z))" by (simp add: is_ready_def)
    let ?pre = "Event (clock w) (Service key (Switch tun True)) (Some y) # es @ Event (clock w2) (Service key RefreshDetails) (Some z) # gs"
    have pre: "list_all (\<lambda>e. \<not> is_ready e) ?pre" "list_ex (complete key tun) ?pre" using es p q q2 gs by (auto simp: list_ex_iff)
    have t4: "trace w4 = trace w @ ?pre" using y es z gs by simp
    show ?thesis
    proof (cases "tp_hostnames p'")
      case Nil
      with rest2 p' have "v = w4" by simp
      with t4 pre show ?thesis by (auto intro!: in_order_quiet)
    next
      case (Cons hostname hs)
      with rest2 p' have "run_state (after_named rounds cl cc key target tun hostname started) w4 = (x, v)" by simp
      from named_in_order [OF this] obtain ks fs where k: "trace v = trace w4 @ ks @ fs" "list_all (\<lambda>e. \<not> is_ready e) ks"
        "fs \<noteq> [] \<longrightarrow> list_ex (answered cl (''https://'' @ hostname)) ks" by blast
      have "in_order cl key tun ((?pre @ ks) @ fs)"
      proof (cases "fs = []")
        case True
        with pre k show ?thesis by (intro in_order_quiet) simp
      next
        case False
        with pre k show ?thesis by (intro in_order_late [where hostname = hostname]) (auto simp: list_ex_iff)
      qed
      with t4 k show ?thesis by (intro exI [of _ "(?pre @ ks) @ fs"]) simp
    qed
  qed
qed

end
