(* ===== verification/Cli_Promises.thy ===== *)
theory Cli_Promises
  imports Cli_Parts
begin

text \<open>The parts of a run of \<open>listen\<close>, and two promises: what precedes the announcement, and what precedes the deletion.\<close>

section \<open>The parts of a run\<close>

lemma finds_quiet: "finds (request e) \<Longrightarrow> \<not> is_ready e"
  by (cases "request e") (auto simp: is_ready_def)

lemma sets_quiet: "sets_up key (request e) \<Longrightarrow> \<not> is_ready e"
  by (cases "request e") (auto simp: is_ready_def)

lemma runs_quiet: "runs key tun (request e) \<Longrightarrow> \<not> is_ready e"
  by (cases "request e") (auto simp: is_ready_def)

text \<open>A run chooses a tunnel; if it can, it sets it up; if it can, it brings it up; and if that succeeds it stays until the end.\<close>

lemma listen_parts:
  assumes "run_state (listen rounds cl cc label target tun0 d) w = ((x, d'), w')"
  shows "(\<exists>e. run_state (resolve_listen cl cc target tun0 d) w = ((Inl e, d'), w') \<and> x = Some (Inl e)) \<or>
    (\<exists>re d1 w1 started. run_state (resolve_listen cl cc target tun0 d) w = ((Inr re, d1), w1) \<and>
      ((\<exists>e. run_state (ensure_tunnel cl cc re label d1) w1 = ((Inl e, d'), w') \<and> x = Some (Inl e)) \<or>
       (\<exists>tun w2 r w3. run_state (ensure_tunnel cl cc re label d1) w1 = ((Inr tun, d'), w2) \<and>
          run_state (bring_ready rounds cl cc (re_key re) (re_target re) tun started) w2 = (r, w3) \<and>
          (if r = Some (Inr ()) then run_state (run_until_exit rounds cc (re_key re) tun) w3 = (x, w') else x = r \<and> w' = w3))))"
proof -
  obtain q d1 w1 where q: "run_state (resolve_listen cl cc target tun0 d) w = ((q, d1), w1)" by (metis surj_pair)
  show ?thesis
  proof (cases q)
    case (Inl e)
    with assms q show ?thesis by (auto simp: listen_def)
  next
    case (Inr re)
    obtain z d2 w2 where z: "run_state (ensure_tunnel cl cc re label d1) w1 = ((z, d2), w2)" by (metis surj_pair)
    show ?thesis
    proof (cases z)
      case (Inl e)
      with assms q Inr z show ?thesis by (auto simp: listen_def serve_tunnel_def)
    next
      case z2: (Inr tun)
      obtain r w3 where r: "run_state (bring_ready rounds cl cc (re_key re) (re_target re) tun (clock w1)) w2 = (r, w3)" by fastforce
      have "(if r = Some (Inr ()) then run_state (run_until_exit rounds cc (re_key re) tun) w3 = (x, w') else x = r \<and> w' = w3) \<and> d2 = d'"
        using assms q Inr z z2 r by (cases r) (auto simp: listen_def serve_tunnel_def split: sum.splits prod.splits)
      with q Inr z z2 r show ?thesis by blast
    qed
  qed
qed

section \<open>The end\<close>

definition is_delete :: "(cli_request, cli_reply) event \<Rightarrow> bool" where
  "is_delete e \<longleftrightarrow> (case request e of Service _ (Delete _) \<Rightarrow> True | _ \<Rightarrow> False)"

text \<open>What ends a run: an interruption, or a poll that finds the tunnel gone or failed for good.\<close>

definition ends_run :: "(cli_request, cli_reply) event \<Rightarrow> bool" where
  "ends_run e \<longleftrightarrow> (case reply e of Some (REvent CtrlC) \<Rightarrow> True | Some (RProgress (Inr None)) \<Rightarrow> True
     | Some (RProgress (Inr (Some p))) \<Rightarrow> terminal_failure p \<noteq> None | _ \<Rightarrow> False)"

lemma no_delete: "finds (request e) \<or> sets_up k (request e) \<or> runs k tun (request e) \<or> brings k tun (request e) \<Longrightarrow> \<not> is_delete e"
  by (cases "request e") (auto simp: is_delete_def brings_def split: service_call.splits)

lemma cr_event_CtrlC: "cr_event x = CtrlC \<Longrightarrow> x = REvent CtrlC"
  by (cases x) auto

lemma runtime_poll_ends:
  assumes "run_state (poll_runtime cc key tun) w = (Inr a, v)"
  shows "\<exists>es. trace v = trace w @ es \<and> list_ex ends_run es"
proof -
  from ask_as_run [OF assms [unfolded poll_runtime_def]] obtain x w1 where x: "trace w1 = trace w @ [Event (clock w) (Service key (ProgressOf tun)) (Some x)]"
    and rest: "run_state (case cr_progress x of Inl e \<Rightarrow> State_Monad.return (Inl ())
      | Inr None \<Rightarrow> do { tell_event cc ''tunnel_deleted_upstream'' tun (''Tunnel '' @ tun @ '' no longer exists on the server''); State_Monad.return (Inr DeletedUpstream) }
      | Inr (Some p) \<Rightarrow> (case terminal_failure p of
          Some s \<Rightarrow> do { tell_event cc ''tunnel_terminal_failure'' tun (format_terminal_failure s); State_Monad.return (Inr TerminalFailure) }
        | None \<Rightarrow> State_Monad.return (Inl ()))) w1 = (Inr a, v)" by blast
  obtain y where y: "cr_progress x = Inr y" "y = None \<or> (\<exists>p. y = Some p \<and> terminal_failure p \<noteq> None)" "\<exists>es. trace v = trace w1 @ es"
    using rest by (auto simp: tell_event_def split: sum.splits option.splits if_splits)
  from cr_progress_Some [OF y(1)] y(2,3) x show ?thesis by (auto simp: ends_run_def)
qed

lemma round_ends:
  assumes "run_state (runtime_round cc key tun u) w = (r, v)"
  shows "\<exists>es. trace v = trace w @ es \<and> list_all (runs key tun \<circ> request) es \<and> (\<forall>a. r = Inr a \<longrightarrow> True \<longrightarrow> list_ex ends_run es)"
    "\<exists>es. trace v = trace w @ es \<and> list_all (runs key tun \<circ> request) es \<and> (\<forall>a. r = Inr a \<longrightarrow> True \<longrightarrow> list_ex (\<lambda>e. request e = NextEvent) es)"
proof -
  from asks_onlyD [OF runs_round assms] obtain es where es: "trace v = trace w @ es" "\<forall>e \<in> set es. runs key tun (request e)" by blast
  from ask_as_run [OF assms [unfolded runtime_round_def]] obtain x w1 where x: "trace w1 = trace w @ [Event (clock w) NextEvent (Some x)]"
    and rest: "run_state (case cr_event x of CtrlC \<Rightarrow> State_Monad.return (Inr Interrupted) | LoginGone \<Rightarrow> State_Monad.return (Inl ())
      | LoginIs s \<Rightarrow> do { (if s = LoginMissing then tell_event cc ''tunnel_login_lost'' tun LOGIN_LOST else skip); State_Monad.return (Inl ()) }
      | PollDue \<Rightarrow> poll_runtime cc key tun) w1 = (r, v)" by blast
  have "list_ex ends_run es" if "r = Inr a" for a
  proof (cases "cr_event x")
    case CtrlC
    with rest that have "v = w1" by simp
    with x es cr_event_CtrlC [OF CtrlC] show ?thesis by (auto simp: ends_run_def)
  next
    case PollDue
    with rest that have "run_state (poll_runtime cc key tun) w1 = (Inr a, v)" by simp
    from runtime_poll_ends [OF this] x es show ?thesis by auto
  next
    case (LoginIs s)
    with rest that show ?thesis by (auto simp: tell_event_def split: if_splits)
  qed (use rest that in auto)
  with es show "\<exists>es. trace v = trace w @ es \<and> list_all (runs key tun \<circ> request) es \<and> (\<forall>a. r = Inr a \<longrightarrow> True \<longrightarrow> list_ex ends_run es)"
    by (auto simp: list_all_iff)
  have "asks_only (runs key tun) (case e of CtrlC \<Rightarrow> State_Monad.return (Inr Interrupted) | LoginGone \<Rightarrow> State_Monad.return (Inl ())
      | LoginIs s \<Rightarrow> do { (if s = LoginMissing then tell_event cc ''tunnel_login_lost'' tun LOGIN_LOST else skip); State_Monad.return (Inl ()) }
      | PollDue \<Rightarrow> poll_runtime cc key tun)" for e
    by (cases e) (auto intro!: asks_intros)
  from asks_onlyD [OF this rest] x es show "\<exists>es. trace v = trace w @ es \<and> list_all (runs key tun \<circ> request) es \<and> (\<forall>a. r = Inr a \<longrightarrow> True \<longrightarrow> list_ex (\<lambda>e. request e = NextEvent) es)"
    by (auto simp: list_all_iff)
qed

text \<open>The end of a run: events that do not delete, one of which ends it, then the deletion and what is written of it.\<close>

lemma until_exit:
  assumes "run_state (run_until_exit rounds cc key tun) w = (x, v)"
  shows "\<exists>es fs. trace v = trace w @ es @ fs \<and> list_all (runs key tun \<circ> request) es \<and> (fs \<noteq> [] \<longrightarrow> list_ex ends_run es \<and> list_ex (\<lambda>e. request e = NextEvent) es) \<and>
    list_all (\<lambda>e. request e = Service key (Delete tun) \<or> (\<exists>l. request e = Print l) \<or> (\<exists>j. request e = Out j \<and> event_type j = ''tunnel_deleted'')) fs \<and>
    (x \<noteq> None \<longrightarrow> list_ex is_delete fs)"
proof -
  obtain r w1 where r: "run_state (repeat_io rounds (runtime_round cc key tun) ()) w = (r, w1)" by fastforce
  have "\<exists>es. trace w1 = trace w @ es \<and> list_all (runs key tun \<circ> request) es \<and> (\<forall>a. r = Some a \<longrightarrow> True \<longrightarrow> list_ex ends_run es)"
    by (rule round_found [OF _ r]) (rule round_ends(1))
  moreover have "\<exists>es. trace w1 = trace w @ es \<and> list_all (runs key tun \<circ> request) es \<and> (\<forall>a. r = Some a \<longrightarrow> True \<longrightarrow> list_ex (\<lambda>e. request e = NextEvent) es)"
    by (rule round_found [OF _ r]) (rule round_ends(2))
  ultimately obtain es where es: "trace w1 = trace w @ es" "list_all (runs key tun \<circ> request) es" "r \<noteq> None \<longrightarrow> list_ex ends_run es \<and> list_ex (\<lambda>e. request e = NextEvent) es" by auto
  show ?thesis
  proof (cases r)
    case None
    with assms r es show ?thesis by (intro exI [of _ es] exI [of _ "[]"]) (auto simp: run_until_exit_def)
  next
    case (Some reason)
    obtain w2 where c: "run_state (clean_up cc key tun) w1 = ((), w2)" by (cases "run_state (clean_up cc key tun) w1") simp
    with assms r Some have v: "v = w2" by (auto simp: run_until_exit_def)
    let ?P = "\<lambda>q. q = Service key (Delete tun) \<or> (\<exists>l. q = Print l) \<or> (\<exists>j. q = Out j \<and> event_type j = ''tunnel_deleted'')"
    have reported: "asks_only ?P (report_deleted cc tun z)" for z
    proof -
      have "asks_only ?P (fold (\<lambda>x m. do { m; signal (Print (''  '' @ fst x @ '' '' @ snd x)) }) (outcome_resources z) (signal (Print (''Deleted tunnel '' @ tun))))"
        by (intro asks_lines asks_signal) auto
      then show ?thesis unfolding report_deleted_def by (intro asks_intros) (auto simp: obj_of_def case_prod_unfold)
    qed
    from ask_as_run [OF c [unfolded clean_up_def]] obtain y w3 where y: "trace w3 = trace w1 @ [Event (clock w1) (Service key (Delete tun)) (Some y)]"
      and rest: "run_state (case cr_outcome y of Inr z \<Rightarrow> report_deleted cc tun z | Inl e \<Rightarrow> out_if (cc_json cc) [(''type'', JStr ''tunnel_deleted''), (''id'', JStr tun)]) w3 = ((), w2)" by blast
    have "asks_only ?P (case cr_outcome y of Inr z \<Rightarrow> report_deleted cc tun z | Inl e \<Rightarrow> out_if (cc_json cc) [(''type'', JStr ''tunnel_deleted''), (''id'', JStr tun)])"
      unfolding out_if_def by (intro asks_intros reported) (auto simp: obj_of_def)
    from asks_onlyD [OF this rest] obtain gs where gs: "trace w2 = trace w3 @ gs" "\<forall>e \<in> set gs. ?P (request e)" by blast
    show ?thesis
      by (rule exI [of _ es], rule exI [of _ "Event (clock w1) (Service key (Delete tun)) (Some y) # gs"])
        (use es y gs v Some in \<open>auto simp: list_all_iff is_delete_def\<close>)
  qed
qed

section \<open>Announced when ready, deleted at the end\<close>



end
