(* ===== verification/Cli_Own.thy ===== *)
theory Cli_Own
  imports Cli_Promises
begin

text \<open>What the client does with \<open>--endpoint\<close> alone: whose tunnels it touches, and under which key.\<close>

section \<open>Whose tunnels\<close>

definition touches :: "str \<Rightarrow> (cli_request, cli_reply) event \<Rightarrow> bool" where
  "touches tun e \<longleftrightarrow> (case request e of Service _ (Update t _ _) \<Rightarrow> t = tun | Service _ (Switch t _) \<Rightarrow> t = tun | Service _ (Delete t) \<Rightarrow> t = tun | _ \<Rightarrow> False)"

text \<open>An event that makes a tunnel the client's: it was created or renamed just now, or found with the target that was asked for, on a connector of this device.\<close>

definition own :: "cli_config \<Rightarrow> str \<Rightarrow> str \<Rightarrow> (cli_request, cli_reply) event \<Rightarrow> bool" where
  "own cc target tun e \<longleftrightarrow> (case (request e, reply e) of
     (Service _ (Create _ _), Some (RSummary (Inr t))) \<Rightarrow> ts_id t = tun
   | (Service _ (Update _ _ _), Some (RSummary (Inr t))) \<Rightarrow> ts_id t = tun
   | (Service _ (LookupTarget target'), Some (RTunnel (Inr (Some t)))) \<Rightarrow> target' = target \<and> ts_id t = tun \<and> ts_device t = Some (cc_here cc)
   | _ \<Rightarrow> False)"

lemma ctry_ok:
  assumes "run_state (ctry m f) w = ((Inr b, d2), v)"
  shows "\<exists>a d1 w1. run_state m w = ((Inr a, d1), w1) \<and> run_state (f a d1) w1 = ((Inr b, d2), v)"
proof -
  obtain q d1 w1 where m: "run_state m w = ((q, d1), w1)" by (metis surj_pair)
  with assms show ?thesis by (cases q) (auto simp: ctry_def cgive_def)
qed

lemma ask_as_ends: "run_state (ask_as f q) w = (a, v) \<Longrightarrow> \<exists>x. trace v = trace w @ [Event (clock w) q (Some x)] \<and> a = f x"
  by (auto simp: ask_as_def ask_def Let_def split: prod.splits)

lemma ccall_run:
  assumes "run_state (ccall f key c d) w = ((q, d1), v)"
  shows "\<exists>x. trace v = trace w @ [Event (clock w) (Service key c) (Some x)] \<and> q = f x \<and> d1 = d"
proof -
  obtain a v' where a: "run_state (ask_as f (Service key c)) w = (a, v')" by fastforce
  with ask_as_ends [OF a] assms show ?thesis by (auto simp: ccall_def cgive_def)
qed

lemma built_throwaway: "built cl (build_node y repo ok (Throwaway stamp fresh) mode d) = (Inr key, d1) \<Longrightarrow> key = fresh"
  by (auto simp: built_def build_node_def choose_key_def listen_key_def write_into_def build_endpoint_with_relay_mode_def Let_def
      split: prod.splits sum.splits if_splits option.splits discovery_mode.splits)

lemma new_node_run:
  assumes "run_state (new_node cl repo d) w = ((Inr key, d1), v)"
  shows "\<exists>x. trace v = trace w @ [Event (clock w) Draw (Some x)] \<and> key = snd (cr_drawn x)"
proof -
  obtain stamp fresh v' where a: "run_state (ask_as cr_drawn Draw) w = ((stamp, fresh), v')" by (metis surj_pair)
  with assms have "built cl (build_node (cl_yaml cl) repo (cl_secret_ok cl) (Throwaway stamp fresh) (cl_relays cl) d) = (Inr key, d1)" "v = v'"
    by (auto simp: new_node_def)
  with ask_as_ends [OF a] built_throwaway show ?thesis by (metis snd_conv)
qed

lemma with_key_run: "run_state (node_with_key cl repo key d) w = ((q, d1), v) \<Longrightarrow> v = w"
  by (simp add: node_with_key_def)

lemma cr_tunnel_Inr: "cr_tunnel x = Inr t \<Longrightarrow> x = RTunnel (Inr t)"
  by (cases x) auto

lemma cr_summary_Inr: "cr_summary x = Inr t \<Longrightarrow> x = RSummary (Inr t)"
  by (cases x) auto

text \<open>The whole of choosing by a target: two keys are drawn, the first is kept, the second is the node's.\<close>

lemma by_target_run:
  assumes "run_state (by_target cl cc target d) w = ((Inr re, d1), v)"
  shows "\<exists>t x1 x2 y c1 c2 c3. trace v = trace w @ [Event c1 Draw (Some x1), Event c2 Draw (Some x2), Event c3 (Service (snd (cr_drawn x2)) (LookupTarget target)) (Some y)] \<and>
    cr_tunnel y = Inr t \<and> re = \<lparr>re_key = snd (cr_drawn x2), re_existing = of_this_device cc t, re_target = target, re_kept = Some (snd (cr_drawn x1)), re_rewire = False\<rparr>"
proof -
  from ask_as_run [OF assms [unfolded by_target_def]] obtain x1 w1 where x1: "trace w1 = trace w @ [Event (clock w) Draw (Some x1)]"
    and r1: "run_state (case cr_drawn x1 of (stamp, generated) \<Rightarrow> ctry (node_with_key cl (cc_repo cc) generated d) (\<lambda>_ d.
       ctry (new_node cl (cc_repo cc) d) (\<lambda>key d. ctry (ccall cr_tunnel key (LookupTarget target) d) (\<lambda>t d.
         cgive (Inr \<lparr>re_key = key, re_existing = of_this_device cc t, re_target = target, re_kept = Some generated, re_rewire = False\<rparr>) d)))) w1 = ((Inr re, d1), v)" by blast
  obtain stamp generated where g: "cr_drawn x1 = (stamp, generated)" by fastforce
  from ctry_ok [OF r1 [unfolded g prod.case]] obtain k1 d2 w2 where k1: "run_state (node_with_key cl (cc_repo cc) generated d) w1 = ((Inr k1, d2), w2)"
    and r2: "run_state (ctry (new_node cl (cc_repo cc) d2) (\<lambda>key d. ctry (ccall cr_tunnel key (LookupTarget target) d) (\<lambda>t d.
         cgive (Inr \<lparr>re_key = key, re_existing = of_this_device cc t, re_target = target, re_kept = Some generated, re_rewire = False\<rparr>) d))) w2 = ((Inr re, d1), v)"
    by blast
  from ctry_ok [OF r2] obtain key d3 w3 where n: "run_state (new_node cl (cc_repo cc) d2) w2 = ((Inr key, d3), w3)"
    and r3: "run_state (ctry (ccall cr_tunnel key (LookupTarget target) d3) (\<lambda>t d.
         cgive (Inr \<lparr>re_key = key, re_existing = of_this_device cc t, re_target = target, re_kept = Some generated, re_rewire = False\<rparr>) d)) w3 = ((Inr re, d1), v)"
    by blast
  from new_node_run [OF n] obtain x2 where x2: "trace w3 = trace w2 @ [Event (clock w2) Draw (Some x2)]" "key = snd (cr_drawn x2)" by blast
  from ctry_ok [OF r3] obtain t d4 w4 where c: "run_state (ccall cr_tunnel key (LookupTarget target) d3) w3 = ((Inr t, d4), w4)"
    and r4: "run_state (cgive (Inr \<lparr>re_key = key, re_existing = of_this_device cc t, re_target = target, re_kept = Some generated, re_rewire = False\<rparr>) d4) w4 = ((Inr re, d1), v)"
    by blast
  from ccall_run [OF c] obtain y where y: "trace w4 = trace w3 @ [Event (clock w3) (Service key (LookupTarget target)) (Some y)]" "cr_tunnel y = Inr t" by metis
  from with_key_run [OF k1] x1 x2 y r4 g show ?thesis by (auto simp: cgive_def)
qed

lemma by_target_own:
  assumes "run_state (by_target cl cc target d) w = ((Inr re, d1), v)" "re_existing re = Some t"
  shows "\<exists>es. trace v = trace w @ es \<and> list_ex (own cc target (ts_id t)) es"
  using by_target_run [OF assms(1)] assms(2) by (auto simp: of_this_device_def own_def dest!: cr_tunnel_Inr split: option.splits if_splits)

text \<open>Setting up changes no tunnel but the adopted one, and ends with that or with one of the client's.\<close>

lemma save_run: "run_state (save_kept cl cc kept tun d) w = (r, v) \<Longrightarrow> v = w"
  by (auto simp: save_kept_def cgive_def split: option.splits prod.splits sum.splits)

lemma adopt_touches:
  "asks_only (\<lambda>q. \<forall>tun c r. touches tun (Event c q r) \<longrightarrow> tun = ts_id t) (adopt_tunnel cl cc re label t d)"
  unfolding adopt_tunnel_def out_if_def by (intro asks_intros) (auto simp: touches_def)

lemma create_touches: "asks_only (\<lambda>q. \<forall>tun c r. \<not> touches tun (Event c q r)) (create_anew cl cc re label d)"
  unfolding create_anew_def out_if_def by (intro asks_intros) (auto simp: touches_def)

lemma relay_touches: "asks_only (\<lambda>q. \<forall>tun c r. \<not> touches tun (Event c q r)) (await_relay_of n key)"
  by (induction n) (auto intro!: asks_intros simp: touches_def)

lemma after_ccall:
  assumes "run_state (ctry (ccall cr_summary key c d) f) w = ((Inr tun, d2), v)"
  shows "\<exists>t w1. trace w1 = trace w @ [Event (clock w) (Service key c) (Some (RSummary (Inr t)))] \<and> run_state (f t d) w1 = ((Inr tun, d2), v)"
proof -
  from ctry_ok [OF assms] obtain t d1 w1 where c: "run_state (ccall cr_summary key c d) w = ((Inr t, d1), w1)" "run_state (f t d1) w1 = ((Inr tun, d2), v)" by blast
  from ccall_run [OF c(1)] c(2) show ?thesis by (metis cr_summary_Inr)
qed

lemma adopt_own:
  assumes "run_state (adopt_tunnel cl cc re label t d) w = ((Inr tun, d2), v)"
  shows "tun = ts_id t \<or> (\<exists>es. trace v = trace w @ es \<and> list_ex (own cc target tun) es)"
proof (cases "re_rewire re \<or> (case label of Some l \<Rightarrow> l \<noteq> ts_label t | None \<Rightarrow> False)")
  case False
  with assms show ?thesis by (auto simp: adopt_tunnel_def cgive_def)
next
  case True
  let ?rest = "\<lambda>updated d. ctry (save_kept cl cc (re_kept re) (ts_id t) d) (\<lambda>_ d.
       ctry (ccall cr_unit (re_key re) CleanUp d) (\<lambda>_ d. do {
         out_if (cc_json cc) [(''type'', JStr ''tunnel_updated''), (''id'', JStr (ts_id updated))];
         cgive (Inr (ts_id updated)) d }))"
  from assms True have "run_state (ctry (ccall cr_summary (re_key re) (Update (ts_id t) (case label of Some l \<Rightarrow> l | None \<Rightarrow> ts_label t) (re_target re)) d) ?rest) w = ((Inr tun, d2), v)"
    by (simp add: adopt_tunnel_def)
  from after_ccall [OF this] obtain u w1 where u: "trace w1 = trace w @ [Event (clock w) (Service (re_key re) (Update (ts_id t) (case label of Some l \<Rightarrow> l | None \<Rightarrow> ts_label t) (re_target re))) (Some (RSummary (Inr u)))]"
    "run_state (?rest u d) w1 = ((Inr tun, d2), v)" by blast
  have "asks_only (\<lambda>_. True) (?rest u d)" unfolding out_if_def by (intro asks_intros) simp_all
  from asks_onlyD [OF this u(2)] obtain es where es: "trace v = trace w1 @ es" by blast
  have "tun = ts_id u" using u(2)
    by (auto dest!: ctry_ok simp: cgive_def out_if_def split: if_splits)
  with u(1) es show ?thesis by (auto simp: own_def)
qed

lemma create_own:
  assumes "run_state (create_anew cl cc re label d) w = ((Inr tun, d2), v)"
  shows "\<exists>es. trace v = trace w @ es \<and> list_ex (own cc target tun) es"
proof -
  let ?rest = "\<lambda>t d. ctry (save_kept cl cc (re_kept re) (ts_id t) d) (\<lambda>_ d. do {
       out_if (cc_json cc) [(''type'', JStr ''tunnel_created''), (''id'', JStr (ts_id t))];
       cgive (Inr (ts_id t)) d })"
  from after_ccall [OF assms [unfolded create_anew_def]] obtain t w1 where t: "trace w1 = trace w @ [Event (clock w) (Service (re_key re) (Create (case label of Some l \<Rightarrow> l | None \<Rightarrow> re_target re) (re_target re))) (Some (RSummary (Inr t)))]"
    "run_state (?rest t d) w1 = ((Inr tun, d2), v)" by blast
  have "asks_only (\<lambda>_. True) (?rest t d)" unfolding out_if_def by (intro asks_intros) simp_all
  from asks_onlyD [OF this t(2)] obtain es where es: "trace v = trace w1 @ es" by blast
  have "tun = ts_id t" using t(2) by (auto dest!: ctry_ok simp: cgive_def out_if_def split: if_splits)
  with t(1) es show ?thesis by (auto simp: own_def)
qed

text \<open>The start of setting up touches nothing.\<close>

lemma ensure_start:
  assumes "run_state (ensure_tunnel cl cc re label d) w = (r, v)"
  shows "\<exists>es w1. trace w1 = trace w @ es \<and> (\<forall>e \<in> set es. \<forall>tun. \<not> touches tun e) \<and>
    run_state (case re_existing re of Some t \<Rightarrow> adopt_tunnel cl cc re label t d | None \<Rightarrow> create_anew cl cc re label d) w1 = (r, v)"
proof -
  let ?start = "do { signal (Say (CIRCLE @ ''Your endpoint ID: '' @ cl_public cl (re_key re))); signal (Say (CIRCLE @ ''Setting up tunnel...''));
     signal (Beat (re_key re) (cc_project cc)); await_relay_of 40 (re_key re) }"
  obtain w1 where s: "run_state ?start w = ((), w1)" by (cases "run_state ?start w") simp
  have "asks_only (\<lambda>q. \<forall>tun c r. \<not> touches tun (Event c q r)) ?start" by (intro asks_intros relay_touches) (auto simp: touches_def)
  from asks_onlyD [OF this s] obtain es where es: "trace w1 = trace w @ es" "\<forall>e \<in> set es. \<forall>tun c r. \<not> touches tun (Event c (request e) r)" by blast
  then have "\<forall>e \<in> set es. \<forall>tun. \<not> touches tun e" by (simp add: touches_def)
  moreover have "run_state (case re_existing re of Some t \<Rightarrow> adopt_tunnel cl cc re label t d | None \<Rightarrow> create_anew cl cc re label d) w1 = (r, v)"
    using assms s by (simp add: ensure_tunnel_def split: prod.splits)
  ultimately show ?thesis using es(1) by blast
qed

lemma ensure_touches:
  assumes "run_state (ensure_tunnel cl cc re label d) w = ((q, d2), v)"
  shows "\<exists>es. trace v = trace w @ es \<and> (\<forall>e \<in> set es. \<forall>tun. touches tun e \<longrightarrow> (\<exists>t. re_existing re = Some t \<and> tun = ts_id t)) \<and>
    (\<forall>tun. q = Inr tun \<longrightarrow> (\<exists>t. re_existing re = Some t \<and> tun = ts_id t) \<or> list_ex (own cc target tun) es)"
proof -
  from ensure_start [OF assms] obtain es w1 where es: "trace w1 = trace w @ es" "\<forall>e \<in> set es. \<forall>tun. \<not> touches tun e"
    and rest: "run_state (case re_existing re of Some t \<Rightarrow> adopt_tunnel cl cc re label t d | None \<Rightarrow> create_anew cl cc re label d) w1 = ((q, d2), v)" by blast
  have given: "touches tun e \<longleftrightarrow> touches tun (Event c (request e) r)" for tun e c r by (simp add: touches_def)
  show ?thesis
  proof (cases "re_existing re")
    case None
    with rest have c: "run_state (create_anew cl cc re label d) w1 = ((q, d2), v)" by simp
    from asks_onlyD [OF create_touches c] obtain fs where fs: "trace v = trace w1 @ fs" "\<forall>e \<in> set fs. \<forall>tun. \<not> touches tun e" using given by blast
    have "list_ex (own cc target tun) fs" if "q = Inr tun" for tun using create_own [OF c [unfolded that], of target] fs(1) by auto
    with es fs show ?thesis by (intro exI [of _ "es @ fs"]) auto
  next
    case (Some t)
    with rest have c: "run_state (adopt_tunnel cl cc re label t d) w1 = ((q, d2), v)" by simp
    from asks_onlyD [OF adopt_touches c] obtain fs where fs: "trace v = trace w1 @ fs" "\<forall>e \<in> set fs. \<forall>tun. touches tun e \<longrightarrow> tun = ts_id t" using given by blast
    have "tun = ts_id t \<or> list_ex (own cc target tun) fs" if "q = Inr tun" for tun using adopt_own [OF c [unfolded that], of target] fs(1) by auto
    with es fs Some show ?thesis by (intro exI [of _ "es @ fs"]) auto
  qed
qed

lemma later_touches:
  assumes "run_state (bring_ready rounds cl cc key target tun started) w = (q, w3)"
    "if q = Some (Inr ()) then run_state (run_until_exit rounds cc key tun) w3 = (x, w') else x = q \<and> w' = w3"
  shows "\<exists>es. trace w' = trace w @ es \<and> (\<forall>e \<in> set es. \<forall>t. touches t e \<longrightarrow> t = tun)"
proof -
  have b: "touches t e \<longrightarrow> t = tun" if "brings key tun (request e) \<or> runs key tun (request e) \<or> request e = Service key (Delete tun) \<or> (\<exists>l. request e = Print l) \<or> (\<exists>j. request e = Out j)" for t e
    using that by (cases "request e") (auto simp: touches_def brings_def)
  from asks_onlyD [OF brings_ready assms(1)] obtain es where es: "trace w3 = trace w @ es" "\<forall>e \<in> set es. \<forall>t. touches t e \<longrightarrow> t = tun" using b by blast
  show ?thesis
  proof (cases "q = Some (Inr ())")
    case False
    with assms(2) es show ?thesis by auto
  next
    case True
    with assms(2) have "run_state (run_until_exit rounds cc key tun) w3 = (x, w')" by simp
    from until_exit [OF this] obtain fs gs where f: "trace w' = trace w3 @ fs @ gs" "list_all (runs key tun \<circ> request) fs"
      "list_all (\<lambda>e. request e = Service key (Delete tun) \<or> (\<exists>l. request e = Print l) \<or> (\<exists>j. request e = Out j \<and> event_type j = ''tunnel_deleted'')) gs" by blast
    have "\<forall>e \<in> set (fs @ gs). \<forall>t. touches t e \<longrightarrow> t = tun"
    proof (intro ballI allI)
      fix e t assume "e \<in> set (fs @ gs)"
      with f(2,3) show "touches t e \<longrightarrow> t = tun" by (intro b) (auto simp: list_all_iff)
    qed
    with es f(1) show ?thesis by (intro exI [of _ "es @ fs @ gs"]) auto
  qed
qed

lemma finds_touches: "finds (request e) \<Longrightarrow> \<not> touches tun e"
  by (cases "request e") (auto simp: touches_def split: service_call.splits)

lemma own_before:
  assumes "\<forall>e \<in> set es. \<forall>tun. \<not> touches tun e" "\<forall>e \<in> set fs. \<forall>tun. touches tun e \<longrightarrow> (\<exists>t. ex = Some t \<and> tun = ts_id t)"
    "\<And>t. ex = Some t \<Longrightarrow> list_ex (own cc target (ts_id t)) es"
  shows "preceded (\<lambda>e. \<exists>tun. touches tun e) (\<lambda>d e. \<exists>tun. touches tun e \<and> own cc target tun d) (es @ fs)"
proof (rule preceded_lead)
  fix e assume "e \<in> set fs" "\<exists>tun. touches tun e"
  with assms(2) obtain t where "touches (ts_id t) e" "ex = Some t" by blast
  with assms(3) show "\<exists>d \<in> set es. \<exists>tun. touches tun e \<and> own cc target tun d" unfolding list_ex_iff by blast
qed (use assms(1) in blast)

lemma own_after:
  assumes "preceded (\<lambda>e. \<exists>tun. touches tun e) (\<lambda>d e. \<exists>tun. touches tun e \<and> own cc target tun d) es"
    "list_ex (own cc target tun) es" "\<forall>e \<in> set gs. \<forall>t. touches t e \<longrightarrow> t = tun"
  shows "preceded (\<lambda>e. \<exists>tun. touches tun e) (\<lambda>d e. \<exists>tun. touches tun e \<and> own cc target tun d) (es @ gs)"
  unfolding preceded_def
proof (intro allI impI)
  fix us e vs assume eq: "es @ gs = us @ e # vs" and t: "\<exists>tun. touches tun e"
  from assms(2) obtain e0 where e0: "e0 \<in> set es" "own cc target tun e0" unfolding list_ex_iff by blast
  from eq obtain xs where "es = us @ xs \<and> xs @ gs = e # vs \<or> us = es @ xs \<and> gs = xs @ e # vs"
    unfolding append_eq_append_conv2 by auto
  then consider (early) ys where "es = us @ e # ys" | (late) xs where "us = es @ xs" "e \<in> set gs"
    by (cases xs) auto
  then show "\<exists>d \<in> set us. \<exists>tun. touches tun e \<and> own cc target tun d"
  proof cases
    case early
    with assms(1) t show ?thesis by (auto dest: precededD)
  next
    case late
    with assms(3) t e0 show ?thesis by auto
  qed
qed

text \<open>
  C20: with a target alone the client never takes over a tunnel of another device: every tunnel it renames, switches or deletes is one it has created, or
  one that was found by that very target with a connector of this device.
\<close>

theorem takes_over_only_its_own:
  "\<exists>es. trace (snd (run_state (listen rounds cl cc label (Some target) None d) w)) = trace w @ es \<and>
     preceded (\<lambda>e. \<exists>tun. touches tun e) (\<lambda>d e. \<exists>tun. touches tun e \<and> own cc target tun d) es"
proof -
  obtain x d' w' where run: "run_state (listen rounds cl cc label (Some target) None d) w = ((x, d'), w')" by (metis surj_pair)
  let ?own = "preceded (\<lambda>e. \<exists>tun. touches tun e) (\<lambda>d e. \<exists>tun. touches tun e \<and> own cc target tun d)"
  have "\<exists>es. trace w' = trace w @ es \<and> ?own es"
    using listen_parts [OF run]
  proof (elim disjE exE conjE)
    fix e assume "run_state (resolve_listen cl cc (Some target) None d) w = ((Inl e, d'), w')"
    from asks_onlyD [OF finds_listen this] finds_touches show ?thesis by (blast intro: preceded_none)
  next
    fix re d1 w1 e assume r: "run_state (resolve_listen cl cc (Some target) None d) w = ((Inr re, d1), w1)" and s: "run_state (ensure_tunnel cl cc re label d1) w1 = ((Inl e, d'), w')"
    from asks_onlyD [OF finds_listen r] obtain es where es: "trace w1 = trace w @ es" "\<forall>e \<in> set es. \<forall>tun. \<not> touches tun e" using finds_touches by blast
    from ensure_touches [OF s, of target] obtain fs where fs: "trace w' = trace w1 @ fs" "\<forall>e \<in> set fs. \<forall>tun. touches tun e \<longrightarrow> (\<exists>t. re_existing re = Some t \<and> tun = ts_id t)" by blast
    have "list_ex (own cc target (ts_id t)) es" if "re_existing re = Some t" for t
      using by_target_own [OF r [unfolded resolve_listen_def, simplified] that] es(1) by auto
    from own_before [OF es(2) fs(2) this] have "?own (es @ fs)" .
    with es fs show ?thesis by (intro exI [of _ "es @ fs"]) auto
  next
    fix re d1 w1 started tun w2 q w3
    assume r: "run_state (resolve_listen cl cc (Some target) None d) w = ((Inr re, d1), w1)" and s: "run_state (ensure_tunnel cl cc re label d1) w1 = ((Inr tun, d'), w2)"
      and b: "run_state (bring_ready rounds cl cc (re_key re) (re_target re) tun started) w2 = (q, w3)"
      and fin: "if q = Some (Inr ()) then run_state (run_until_exit rounds cc (re_key re) tun) w3 = (x, w') else x = q \<and> w' = w3"
    from asks_onlyD [OF finds_listen r] obtain es where es: "trace w1 = trace w @ es" "\<forall>e \<in> set es. \<forall>tun. \<not> touches tun e" using finds_touches by blast
    from ensure_touches [OF s, of target] obtain fs where fs: "trace w2 = trace w1 @ fs" "\<forall>e \<in> set fs. \<forall>tun. touches tun e \<longrightarrow> (\<exists>t. re_existing re = Some t \<and> tun = ts_id t)"
      "(\<exists>t. re_existing re = Some t \<and> tun = ts_id t) \<or> list_ex (own cc target tun) fs" by blast
    from later_touches [OF b fin] obtain gs where gs: "trace w' = trace w2 @ gs" "\<forall>e \<in> set gs. \<forall>t. touches t e \<longrightarrow> t = tun" by blast
    have found: "list_ex (own cc target (ts_id t)) es" if "re_existing re = Some t" for t
      using by_target_own [OF r [unfolded resolve_listen_def, simplified] that] es(1) by auto
    from own_before [OF es(2) fs(2) found] have start: "?own (es @ fs)" .
    have "list_ex (own cc target tun) (es @ fs)" using fs(3) found by auto
    from own_after [OF start this gs(2)] have "?own ((es @ fs) @ gs)" .
    with es fs gs show ?thesis by (intro exI [of _ "(es @ fs) @ gs"]) auto
  qed
  with run show ?thesis by simp
qed

section \<open>Under which key\<close>

definition key_drawn :: "(cli_request, cli_reply) event \<Rightarrow> str option" where
  "key_drawn e = (case (request e, reply e) of (Draw, Some x) \<Rightarrow> Some (snd (cr_drawn x)) | _ \<Rightarrow> None)"

definition by_key :: "str \<Rightarrow> (cli_request, cli_reply) event \<Rightarrow> bool" where
  "by_key key e \<longleftrightarrow> (case request e of Service k _ \<Rightarrow> k = key | _ \<Rightarrow> True)"

lemma sets_by_key: "sets_up key (request e) \<Longrightarrow> by_key key e \<and> key_drawn e = None"
  by (cases "request e") (auto simp: by_key_def key_drawn_def)

lemma save_kept_key:
  assumes "run_state (save_kept cl cc (Some k) tun d) w = ((Inr u, d2), v)" "length k = 32"
  shows "read_key d2 (tunnel_key_path (cc_repo cc) (cc_project cc) tun) = Inr k"
proof -
  obtain r d3 where s: "save_listen_key_for_tunnel (cc_repo cc) (cc_project cc) tun k d = (r, d3)" by fastforce
  with assms(1) have "r = Inr ()" "d3 = d2" by (auto simp: save_kept_def cgive_def split: sum.splits)
  with s key_saved assms(2) show ?thesis by blast
qed

lemma create_saves:
  assumes "run_state (create_anew cl cc re label d) w = ((Inr tun, d2), v)" "re_kept re = Some k" "length k = 32"
  shows "read_key d2 (tunnel_key_path (cc_repo cc) (cc_project cc) tun) = Inr k"
proof -
  from after_ccall [OF assms(1) [unfolded create_anew_def]] obtain t :: tunnel_summary and w1 where "run_state (ctry (save_kept cl cc (re_kept re) (ts_id t) d) (\<lambda>_ d. do {
       out_if (cc_json cc) [(''type'', JStr ''tunnel_created''), (''id'', JStr (ts_id t))];
       cgive (Inr (ts_id t)) d })) w1 = ((Inr tun, d2), v)" by blast
  from ctry_ok [OF this] obtain u d3 w2 where s: "run_state (save_kept cl cc (re_kept re) (ts_id t) d) w1 = ((Inr u, d3), w2)"
    and r: "run_state (do { out_if (cc_json cc) [(''type'', JStr ''tunnel_created''), (''id'', JStr (ts_id t))]; cgive (Inr (ts_id t)) d3 }) w2 = ((Inr tun, d2), v)" by blast
  from r have "tun = ts_id t" "d3 = d2" by (auto simp: out_if_def cgive_def split: if_splits)
  with save_kept_key [OF s [unfolded assms(2)] assms(3)] show ?thesis by simp
qed

text \<open>
  C34: a tunnel made with \<open>--endpoint\<close> runs under a key that is not saved. Two keys are drawn: the first is the one in the tunnel's directory, from which a
  later run with \<open>--id\<close> would resume it; the second is the node's, and everything is asked in its name, the connector of the new tunnel included.
\<close>

theorem saved_key_is_not_in_use:
  assumes "run_state (resolve_listen cl cc (Some target) None d) w = ((Inr re, d1), w1)" "re_existing re = None" "re_kept re = Some k1" "length k1 = 32"
    "run_state (ensure_tunnel cl cc re label d1) w1 = ((Inr tun, d2), w2)"
  shows "\<exists>es k2. trace w2 = trace w @ es \<and> List.map_filter key_drawn es = [k1, k2] \<and>
    read_key d2 (tunnel_key_path (cc_repo cc) (cc_project cc) tun) = Inr k1 \<and> list_all (by_key k2) es"
proof -
  from by_target_run [OF assms(1) [unfolded resolve_listen_def, simplified]] obtain t x1 x2 y c1 c2 c3 where
    t: "trace w1 = trace w @ [Event c1 Draw (Some x1), Event c2 Draw (Some x2), Event c3 (Service (snd (cr_drawn x2)) (LookupTarget target)) (Some y)]"
    and re: "re = \<lparr>re_key = snd (cr_drawn x2), re_existing = of_this_device cc t, re_target = target, re_kept = Some (snd (cr_drawn x1)), re_rewire = False\<rparr>" by blast
  from ensure_start [OF assms(5)] assms(2) obtain w3 where c: "run_state (create_anew cl cc re label d1) w3 = ((Inr tun, d2), w2)" by auto
  have "read_key d2 (tunnel_key_path (cc_repo cc) (cc_project cc) tun) = Inr k1"
    by (rule create_saves [OF c assms(3,4)])
  moreover from asks_onlyD [OF sets_ensure assms(5)] obtain fs where fs: "trace w2 = trace w1 @ fs" "\<forall>e \<in> set fs. by_key (re_key re) e \<and> key_drawn e = None"
    using sets_by_key by blast
  moreover have "List.map_filter key_drawn fs = []" using fs(2) by (simp add: List.map_filter_def filter_empty_conv)
  ultimately show ?thesis using t re assms(3)
    by (intro exI [of _ "[Event c1 Draw (Some x1), Event c2 Draw (Some x2), Event c3 (Service (snd (cr_drawn x2)) (LookupTarget target)) (Some y)] @ fs"])
      (auto simp: List.map_filter_def key_drawn_def by_key_def list_all_iff)
qed

end
