(* ===== verification/Cli_Demo.thy ===== *)
theory Cli_Demo
  imports Cli_Own Listen_Node_Facts
begin

text \<open>A whole run of the client: it makes a tunnel, announces it, is interrupted and deletes it.\<close>

definition demo_cli_tunnel :: tunnel_summary where
  "demo_cli_tunnel = \<lparr>ts_id = ''t'', ts_label = ''l'', ts_target = ''localhost:80'', ts_hostnames = [''h.d''], ts_enabled = True, ts_accepted = True, ts_programmed = True,
     ts_metadata = True, ts_connector_ready = True, ts_connector = None, ts_device = None, ts_created = None\<rparr>"

definition demo_key :: str where "demo_key = replicate 32 (CHR ''k'')"
definition other_key :: str where "other_key = replicate 32 (CHR ''o'')"

fun demo_cli_reply :: "cli_request \<Rightarrow> cli_reply" where
  "demo_cli_reply (Service k (LookupTarget a)) = RTunnel (Inr None)"
| "demo_cli_reply (Service k (Lookup a)) = RTunnel (Inr (Some demo_cli_tunnel))"
| "demo_cli_reply (Service k (Create l a)) = RSummary (Inr demo_cli_tunnel)"
| "demo_cli_reply (Service k (ProgressOf a)) = RProgress (Inr (Some \<lparr>tp_hostnames = [''h.d''], tp_steps = []\<rparr>))"
| "demo_cli_reply (Service k (Delete a)) = ROutcome (Inl ''no'')"
| "demo_cli_reply (Service k c) = RUnit (Inr ())"
| "demo_cli_reply ResolvConf = RText []"
| "demo_cli_reply (NsRecords s n) = RNames (Inr [''n''])"
| "demo_cli_reply (Addresses s n) = RAddresses (Inr [V4 1])"
| "demo_cli_reply (V4Records s n) = RAddresses (Inr [V4 2])"
| "demo_cli_reply (HttpGet u h) = RHttp (Inr 200)"
| "demo_cli_reply NextEvent = REvent CtrlC"
| "demo_cli_reply q = RYes True"

text \<open>The first key drawn is one, every later one the other.\<close>

definition demo_reply :: "(cli_request, cli_reply) event list \<Rightarrow> cli_request \<Rightarrow> cli_reply" where
  "demo_reply es q = (if q = Draw then RDrawn ''now'' (if es = [] then demo_key else other_key) else demo_cli_reply q)"

definition demo_cli_world :: "(cli_request, cli_reply) world" where
  "demo_cli_world = \<lparr>environment = (\<lambda>_ es q. (demo_reply es q, 0)), clock = 1000, trace = []\<rparr>"

definition demo_yaml :: yaml_libs where
  "demo_yaml = \<lparr>yl_text = \<lambda>_. [], yl_value = \<lambda>_. Some (state_json []), yl_config_text = \<lambda>_. [], yl_config = \<lambda>_. Some default_config\<rparr>"

definition demo_cli_libs :: cli_libs where
  "demo_cli_libs = \<lparr>cl_tenths = \<lambda>_. [], cl_whole = \<lambda>_. [], cl_ip = \<lambda>_. [], cl_url = \<lambda>_. None, cl_timed_out = [], cl_yaml = demo_yaml, cl_node = \<lambda>_. ''node'',
     cl_repo = \<lambda>_. ''repo'', cl_io = \<lambda>_. ''io'', cl_public = rev, cl_secret_ok = True, cl_relays = PublicRelays\<rparr>"

definition demo_cli_config :: cli_config where
  "demo_cli_config = \<lparr>cc_repo = ''/r'', cc_project = ''p'', cc_json = True, cc_here = ''here''\<rparr>"

definition demo_env :: "(cli_request, cli_reply) world \<Rightarrow> bool" where
  "demo_env w \<longleftrightarrow> environment w = (\<lambda>_ es q. (demo_reply es q, 0))"

lemma demo_asks:
  "demo_env w \<Longrightarrow> q \<noteq> Draw \<Longrightarrow> run_state (ask_as f q) w = (f (demo_cli_reply q), w\<lparr>trace := trace w @ [Event (clock w) q (Some (demo_cli_reply q))]\<rparr>)"
  "demo_env w \<Longrightarrow> q \<noteq> Draw \<Longrightarrow> run_state (ask_within_as f l q) w = (Some (f (demo_cli_reply q)), w\<lparr>trace := trace w @ [Event (clock w) q (Some (demo_cli_reply q))]\<rparr>)"
  "demo_env w \<Longrightarrow> run_state (ask_as f Draw) w = (f (demo_reply (trace w) Draw), w\<lparr>trace := trace w @ [Event (clock w) Draw (Some (demo_reply (trace w) Draw))]\<rparr>)"
  by (simp_all add: demo_env_def demo_reply_def ask_as_def ask_def ask_within_as_def ask_within_def)

lemma demo_env_keeps [simp]: "demo_env (w\<lparr>trace := t\<rparr>) = demo_env w" "demo_env (w\<lparr>clock := c\<rparr>) = demo_env w"
  by (simp_all add: demo_env_def)

lemma demo_env_after: "demo_env w \<Longrightarrow> forward m \<Longrightarrow> run_state m w = (a, v) \<Longrightarrow> demo_env v"
  by (drule (1) forwardD) (simp add: extends_def demo_env_def)

lemma demo_config:
  assumes "denied d = (\<lambda>_. False)"
  obtains d' where "repo_config demo_yaml repo d = (Inr default_config, d')" "denied d' = (\<lambda>_. False)"
proof (cases "map_of (files d) (join repo CONFIG_FILE)")
  case None
  show thesis
    by (rule that [of "d\<lparr>files := AList.update (join repo CONFIG_FILE) [] (files d)\<rparr>"])
      (simp_all add: repo_config_def write_config_def put_file_def file_there_def demo_yaml_def None assms)
next
  case (Some c)
  show thesis by (rule that [of d]) (simp_all add: repo_config_def config_from_file_def read_file_def file_there_def demo_yaml_def Some assms)
qed

lemma demo_state: "state_of_json (state_json []) = Some []"
  by (simp add: state_of_json_def state_json_def obj_of_def)

lemma demo_load:
  assumes "denied d = (\<lambda>_. False)"
  obtains d' where "load_state demo_yaml repo d = (Inr [], d')" "denied d' = (\<lambda>_. False)"
proof (cases "map_of (files d) (join repo STATE_FILE)")
  case None
  show thesis
    by (rule that [of "d\<lparr>files := AList.update (join repo STATE_FILE) [] (files d)\<rparr>"])
      (simp_all add: load_state_def write_state_def put_file_def file_there_def demo_yaml_def None assms)
next
  case (Some c)
  show thesis by (rule that [of d]) (simp_all add: load_state_def state_from_file_def read_file_def file_there_def demo_yaml_def demo_state Some assms)
qed

lemma demo_build:
  assumes "denied d = (\<lambda>_. False)" "key_given = GivenKey k \<or> key_given = Throwaway stamp k"
  obtains d' where "built demo_cli_libs (build_node demo_yaml repo True key_given PublicRelays d) = (Inr k, d')" "denied d' = (\<lambda>_. False)"
proof -
  from demo_config [OF assms(1)] obtain d1 where c: "repo_config demo_yaml repo d = (Inr default_config, d1)" "denied d1 = (\<lambda>_. False)" by blast
  obtain d2 where k: "choose_key repo key_given d1 = (Inr k, d2)" "denied d2 = (\<lambda>_. False)"
    using assms(2) c(2) by (auto simp: choose_key_def listen_key_def write_into_def create_dir_def put_file_def Let_def)
  from demo_load [OF k(2)] obtain d3 where l: "load_state demo_yaml repo d2 = (Inr [], d3)" "denied d3 = (\<lambda>_. False)" by blast
  show ?thesis
    by (rule that [of d3]) (use c k l in \<open>simp_all add: built_def build_node_def build_endpoint_with_relay_mode_def default_config_def\<close>)
qed

lemma demo_resolves:
  obtains d1 w1 where "run_state (resolve_listen demo_cli_libs demo_cli_config (Some ''localhost:80'') None blank_disk) demo_cli_world =
     ((Inr \<lparr>re_key = other_key, re_existing = None, re_target = ''localhost:80'', re_kept = Some demo_key, re_rewire = False\<rparr>, d1), w1)" "denied d1 = (\<lambda>_. False)" "demo_env w1"
proof -
  have "denied blank_disk = (\<lambda>_. False)" by (simp add: blank_disk_def)
  from demo_build [OF this disjI1 [OF refl]] obtain d1 where d1: "built demo_cli_libs (build_node demo_yaml ''/r'' True (GivenKey demo_key) PublicRelays blank_disk) = (Inr demo_key, d1)" "denied d1 = (\<lambda>_. False)" .
  from demo_build [OF d1(2) disjI2 [OF refl]] obtain d2 where d2: "built demo_cli_libs (build_node demo_yaml ''/r'' True (Throwaway ''now'' other_key) PublicRelays d1) = (Inr other_key, d2)" "denied d2 = (\<lambda>_. False)" .
  have e: "demo_env demo_cli_world" by (simp add: demo_env_def demo_cli_world_def)
  have t0: "trace demo_cli_world = []" by (simp add: demo_cli_world_def)
  have l: "cl_yaml demo_cli_libs = demo_yaml" "cl_secret_ok demo_cli_libs = True" "cl_relays demo_cli_libs = PublicRelays" "cc_repo demo_cli_config = ''/r''" by (simp_all add: demo_cli_libs_def demo_cli_config_def)
  obtain w1 where "run_state (resolve_listen demo_cli_libs demo_cli_config (Some ''localhost:80'') None blank_disk) demo_cli_world =
     ((Inr \<lparr>re_key = other_key, re_existing = None, re_target = ''localhost:80'', re_kept = Some demo_key, re_rewire = False\<rparr>, d2), w1)" "demo_env w1"
    using e t0 by (simp add: resolve_listen_def demo_reply_def by_target_def demo_asks ctry_def node_with_key_def new_node_def ccall_def cgive_def d1(1) d2(1) l of_this_device_def)
  with d2(2) that show ?thesis by blast
qed

lemma demo_ensures:
  assumes "denied d1 = (\<lambda>_. False)" "demo_env w1"
  obtains d2 w2 where "run_state (ensure_tunnel demo_cli_libs demo_cli_config \<lparr>re_key = other_key, re_existing = None, re_target = ''localhost:80'', re_kept = Some demo_key, re_rewire = False\<rparr> None d1) w1 =
     ((Inr ''t'', d2), w2)" "demo_env w2"
proof -
  obtain d2 where s: "save_listen_key_for_tunnel (cc_repo demo_cli_config) (cc_project demo_cli_config) ''t'' demo_key d1 = (Inr (), d2)"
    using assms(1) by (auto simp: save_listen_key_for_tunnel_def write_into_def create_dir_def put_file_def)
  have up: "demo_env w \<Longrightarrow> \<exists>v. run_state (await_relay_of 40 k) w = ((), v) \<and> demo_env v" for k w
    by (simp add: numeral_eq_Suc demo_asks)
  let ?w = "w1\<lparr>trace := trace w1 @ [Event (clock w1) (Say (CIRCLE @ ''Your endpoint ID: '' @ cl_public demo_cli_libs other_key)) None,
     Event (clock w1) (Say (CIRCLE @ ''Setting up tunnel...'')) None, Event (clock w1) (Beat other_key ''p'') None]\<rparr>"
  from assms(2) have "demo_env ?w" by simp
  from up [OF this] obtain v where v: "run_state (await_relay_of 40 other_key) ?w = ((), v)" "demo_env v" by blast
  have t: "ts_id demo_cli_tunnel = ''t''" "cc_project demo_cli_config = ''p''" by (simp_all add: demo_cli_tunnel_def demo_cli_config_def)
  have "\<exists>w2. run_state (ensure_tunnel demo_cli_libs demo_cli_config \<lparr>re_key = other_key, re_existing = None, re_target = ''localhost:80'', re_kept = Some demo_key, re_rewire = False\<rparr> None d1) w1 =
     ((Inr ''t'', d2), w2) \<and> demo_env w2"
    using v s by (simp add: ensure_tunnel_def create_anew_def t ctry_def ccall_def cgive_def demo_asks save_kept_def out_if_def)
  with that show ?thesis by blast
qed

text \<open>The key in the tunnel's directory is the first that was drawn; the node runs with the other.\<close>

theorem saved_key_is_not_in_use_witness:
  "\<exists>re d1 w1 d2 w2. run_state (resolve_listen demo_cli_libs demo_cli_config (Some ''localhost:80'') None blank_disk) demo_cli_world = ((Inr re, d1), w1) \<and> re_key re = other_key \<and>
     run_state (ensure_tunnel demo_cli_libs demo_cli_config re None d1) w1 = ((Inr ''t'', d2), w2) \<and>
     (\<exists>k2. List.map_filter key_drawn (trace w2) = [demo_key, k2] \<and> list_all (by_key k2) (trace w2)) \<and> read_key d2 (tunnel_key_path ''/r'' ''p'' ''t'') = Inr demo_key \<and> demo_key \<noteq> other_key"
proof -
  from demo_resolves obtain d1 w1 where r: "run_state (resolve_listen demo_cli_libs demo_cli_config (Some ''localhost:80'') None blank_disk) demo_cli_world =
     ((Inr \<lparr>re_key = other_key, re_existing = None, re_target = ''localhost:80'', re_kept = Some demo_key, re_rewire = False\<rparr>, d1), w1)" "denied d1 = (\<lambda>_. False)" "demo_env w1" .
  from demo_ensures [OF r(2,3)] obtain d2 w2 where s: "run_state (ensure_tunnel demo_cli_libs demo_cli_config \<lparr>re_key = other_key, re_existing = None, re_target = ''localhost:80'', re_kept = Some demo_key, re_rewire = False\<rparr> None d1) w1 =
     ((Inr ''t'', d2), w2)" "demo_env w2" .
  have "length demo_key = 32" "demo_key \<noteq> other_key" by (simp_all add: demo_key_def other_key_def)
  with saved_key_is_not_in_use [OF r(1) _ _ _ s(1), of demo_key] obtain es k2 where "trace w2 = trace demo_cli_world @ es" "List.map_filter key_drawn es = [demo_key, k2]"
    "read_key d2 (tunnel_key_path (cc_repo demo_cli_config) (cc_project demo_cli_config) ''t'') = Inr demo_key" "list_all (by_key k2) es" "demo_key \<noteq> other_key" by auto
  moreover have "trace demo_cli_world = []" "cc_repo demo_cli_config = ''/r''" "cc_project demo_cli_config = ''p''" by (simp_all add: demo_cli_world_def demo_cli_config_def)
  ultimately show ?thesis using r(1) s(1) by (intro exI conjI) (simp_all; blast)+
qed

section \<open>To the end\<close>

lemma demo_within: "demo_env w \<Longrightarrow> run_state (get_status cl u h) w = (Inr 200, w\<lparr>trace := trace w @ [Event (clock w) (HttpGet u h) (Some (RHttp (Inr 200)))]\<rparr>)"
  by (simp add: get_status_def demo_asks)

lemma demo_progress:
  assumes "demo_env w"
  obtains v where "run_state (await_tunnel_progress 1 cl cb c key tun) w = (Some (Inr \<lparr>tp_hostnames = [''h.d''], tp_steps = []\<rparr>), v)" "demo_env v"
  using assms by (simp add: await_tunnel_progress_def progress_round_def demo_asks terminal_failure_def all_ready_def)

lemma demo_dns:
  assumes "demo_env w"
  obtains v where "run_state (resolve_hostname_dns 1 cl ''h.d'') w = (Some (Inr [V4 2]), v)" "demo_env v"
proof -
  have d: "authority_domains ''h.d'' = [''h.d'']" by (simp add: authority_domains_def)
  have "system_resolver_config [] = GOOGLE_DNS" by (simp add: system_resolver_config_def system_nameservers_def lines_def)
  with assms that show ?thesis
    by (simp add: resolve_hostname_dns_def discover_ns_authority_def d resolve_ns_ips_def demo_asks dns_round_def lookup_both_def found_ips_def)
qed

lemma demo_verify:
  assumes "demo_env w"
  obtains v where "run_state (verify_endpoints 1 cl True key target h 10000) w = (Some (), v)" "demo_env v"
  using assms by (simp add: verify_endpoints_def build_probe_urls_def probe_until_reachable_def probe_round_def verify_round_def probe_url_with_dns_fallback_def
    demo_within render_verify_def out_if_def)

lemma demo_ready:
  assumes "demo_env w"
  obtains v where "run_state (bring_ready 1 demo_cli_libs demo_cli_config key target ''t'' started) w = (Some (Inr ()), v)" "demo_env v"
proof -
  have j: "cc_json demo_cli_config = True" by (simp add: demo_cli_config_def)
  let ?a = "w\<lparr>trace := trace w @ [Event (clock w) (Service key (Switch ''t'' True)) (Some (RUnit (Inr ())))]\<rparr>"
  from assms have "demo_env ?a" by simp
  from demo_progress [OF this] obtain b where b: "run_state (await_tunnel_progress 1 demo_cli_libs (show_step demo_cli_libs True) [] key ''t'') ?a = (Some (Inr \<lparr>tp_hostnames = [''h.d''], tp_steps = []\<rparr>), b)" "demo_env b" .
  let ?c = "b\<lparr>trace := trace b @ [Event (clock b) (Service key RefreshDetails) (Some (RUnit (Inr ())))]\<rparr>"
  from b(2) have "demo_env ?c" by simp
  from demo_dns [OF this] obtain e where e: "run_state (resolve_hostname_dns 1 demo_cli_libs ''h.d'') ?c = (Some (Inr [V4 2]), e)" "demo_env e" .
  from demo_verify [OF e(2)] obtain f where f: "run_state (verify_endpoints 1 demo_cli_libs True key target ''h.d'' 10000) e = (Some (), f)" "demo_env f" .
  have "\<exists>v. run_state (after_verified demo_cli_libs demo_cli_config key ''t'' started) f = (Some (Inr ()), v) \<and> demo_env v"
    using f(2) by (simp add: after_verified_def demo_asks announce_ready_def j)
  then show ?thesis using assms b e f that
    by (auto simp: bring_ready_def after_progress_def after_named_def demo_asks j)
qed

lemma demo_exit: "demo_env w \<Longrightarrow> \<exists>v. run_state (run_until_exit 1 demo_cli_config key ''t'') w = (Some (Inr ()), v)"
  by (simp add: run_until_exit_def runtime_round_def demo_asks clean_up_def out_if_def demo_cli_config_def)


end
