(* ===== verification/Pair_Command.thy ===== *)
theory Pair_Command
  imports Supervisor Setup Ha_Core
begin

text \<open>
  The commands of the daemon that pair, \<open>pair\<close> and \<open>setup\<close> of \<open>daemon/src/main.rs\<close>: what they say for what happens, the notification in Home Assistant, the port they
  hold for the watchdog, and how they end. The run itself is that of the pairing and setup components; here it is asked what happens next.
\<close>

section \<open>Where else a project may come from\<close>

datatype options_source = AutoSource | SupervisorSource | FileSource path | NoSource

definition parse_options_source :: "(str \<Rightarrow> str) \<Rightarrow> str \<Rightarrow> str + options_source" where
  "parse_options_source debug s = (if s = ''auto'' then Inr AutoSource else if s = ''supervisor'' then Inr SupervisorSource else if s = ''none'' then Inr NoSource
     else (case strip_prefix ''file:'' s of
         Some p \<Rightarrow> if p \<noteq> [] then Inr (FileSource p) else Inl (''expected auto, supervisor, none or file:<path>, not '' @ debug s)
       | None \<Rightarrow> Inl (''expected auto, supervisor, none or file:<path>, not '' @ debug s)))"

datatype project_source = TheSupervisor | OptionsFile path

definition source_of :: "bool \<Rightarrow> options_source \<Rightarrow> project_source option" where
  "source_of supervised s = (case s of
     AutoSource \<Rightarrow> if supervised then Some TheSupervisor else None
   | SupervisorSource \<Rightarrow> if supervised then Some TheSupervisor else None
   | FileSource p \<Rightarrow> Some (OptionsFile p)
   | NoSource \<Rightarrow> None)"

section \<open>Lines of the log\<close>

definition q1 :: str where "q1 = [CHR 0x27]"

definition listed_project :: "project_choice \<Rightarrow> str" where
  "listed_project p = newline @ ''  '' @ choice_id p @ '' ('' @ choice_display p @ '', organization '' @ choice_org p @ '')''"

definition choose_project_line :: "project_choice list \<Rightarrow> str option \<Rightarrow> nat \<Rightarrow> str" where
  "choose_project_line projects rejected wait = (case rejected of Some r \<Rightarrow> q1 @ r @ q1 @ '' isn'' @ q1 @ ''t one of your projects. '' | None \<Rightarrow> []) @
     ''Your Datum login can see '' @ show_nat (length projects) @ '' projects. Set '' @ q1 @ ''project'' @ q1 @ '' on the add-on'' @ q1 @
     ''s Configuration tab to one of these ids and click Save. Home Assistant offers to restart the add-on when you save; either way, pairing continues without a new login (waiting up to '' @
     duration_words wait @ ''):'' @ concat (map listed_project projects)"

definition pairing_line :: "pairing_event \<Rightarrow> str" where
  "pairing_line e = (case e of
     Code url the_code prefilled expiry \<Rightarrow> ''To connect this Home Assistant to Datum, open '' @ url @
       (if prefilled then '' and check that it shows code '' @ the_code @ '', then approve (expires in '' else '' and enter code '' @ the_code @ '' (expires in '') @ duration_words expiry @ '')''
   | CodeExpired \<Rightarrow> ''That code expired before it was approved. Here is a new one.''
   | Approved email \<Rightarrow> ''Approved as '' @ email
   | Resumed email \<Rightarrow> ''Continuing pairing as '' @ email @ '' (no new login needed)''
   | SessionDropped reason \<Rightarrow> ''Could not continue the earlier pairing: '' @ reason @ ''. Starting a new login.''
   | ChooseProject projects rejected wait \<Rightarrow> choose_project_line projects rejected wait
   | ProjectSelected project org \<Rightarrow> ''Using project '' @ project @ '' (organization '' @ org @ '')''
   | ServiceAccountCreated email project \<Rightarrow> ''Created service account '' @ email @ '' in project '' @ project
   | ServiceAccountReused email project \<Rightarrow> ''Using service account '' @ email @ '' in project '' @ project @ '', created by the previous attempt''
   | AccessGranted \<Rightarrow> ''Granted access''
   | AccessNotConfirmed email project \<Rightarrow> ''Could not grant access again; carrying on in case an owner has granted it. If tunnel calls are refused, ask an organization owner or editor to grant role '' @
       q1 @ ''editor'' @ q1 @ '' to service account '' @ email @ '' on project '' @ project @ ''.''
   | KeySaved p \<Rightarrow> ''Saved key'')"

definition paired_line :: "paired_key \<Rightarrow> str" where
  "paired_line k = ''Paired: this device now uses service account '' @ pk_email k @ '' in project '' @ pk_project k @
     ''. To revoke it, delete that service account in the Datum portal under the project'' @ q1 @ ''s Service accounts.''"

definition PAUSED_LINE :: str where "PAUSED_LINE = ''Pairing paused; it continues after the restart without a new login.''"
definition STOPPED_LINE :: str where "STOPPED_LINE = ''Stopped before connecting to Datum; the page offers it again on the next start.''"
definition NOT_CONNECTED_LINE :: str where
  "NOT_CONNECTED_LINE = ''This Home Assistant isn'' @ q1 @ ''t connected to Datum yet. Open Datum Connect (in the sidebar, or Settings > Apps > Datum Connect > Open Web UI) and click Connect to Datum.''"
definition STOPPED_ERROR :: str where "STOPPED_ERROR = ''Pairing with Datum stopped before it finished.''"

text \<open>The hint at the start of the daemon.\<close>

definition proxy_hint :: "proxy_setup option \<Rightarrow> str option" where
  "proxy_hint x = (case x of
     None \<Rightarrow> None
   | Some Ready \<Rightarrow> None
   | Some (Needed j) \<Rightarrow> Some ''Home Assistant does not accept connections through Datum yet, so its public address answers 400: Bad Request. Open Datum Connect in the sidebar and click Allow, or see the Documentation tab.''
   | Some Pending \<Rightarrow> Some ''Home Assistant has a network settings change waiting for confirmation. Finish it in Settings > System > Network, then check the Datum Connect page.''
   | Some (Ours on_trial) \<Rightarrow> if on_trial then None
       else Some (''Datum Connect'' @ q1 @ ''s change to Home Assistant'' @ q1 @ ''s proxy settings is saved but not in use yet. Open Datum Connect in the sidebar and click Allow to finish it.''))"

section \<open>What the commands ask\<close>

text \<open>
  What happens next while a command waits: a pairing event, the end of a run, on the page also a restart; a key, once a run of the page has one; or the signal to stop.
\<close>

datatype happening = Heard pairing_event | Ended "pairing_error + paired_key" | Restarted | KeyReady paired_key | StopSignal

datatype command_request =
    HoldPort nat | ReleasePort | SessionThere path | NextHappening | PageAddresses | BindPage nat | AskSlug | RunPage nat "project_source option" | StartRun | StopRun | ClosePage
  | SayLine str | PostNote pair_note | FlushNotes

datatype command_reply = RDone "str + unit" | RThere bool | RHappens happening | RSlug "str + str"

type_synonym 'a command = "(command_request, command_reply, 'a) io"

fun co_done :: "command_reply \<Rightarrow> str + unit" where "co_done (RDone x) = x" | "co_done _ = Inl []"
fun co_there :: "command_reply \<Rightarrow> bool" where "co_there (RThere x) = x" | "co_there _ = False"
fun co_happens :: "command_reply \<Rightarrow> happening" where "co_happens (RHappens x) = x" | "co_happens _ = Restarted"
fun co_slug :: "command_reply \<Rightarrow> str + str" where "co_slug (RSlug x) = x" | "co_slug _ = Inl []"

text \<open>Whether there is a Supervisor, the project given, the port to hold, where a project may come from, the file of the login, and the words of an error.\<close>

record command_config =
  co_supervised :: bool
  co_hold :: "nat option"
  co_options :: options_source
  co_session :: "path option"
  co_error :: "pairing_error \<Rightarrow> str"

datatype command_end = Success | Failure str | ExitWith int

definition PAIR_PAUSED_EXIT :: int where "PAIR_PAUSED_EXIT = 75"
definition SETUP_MAX_WAIT :: nat where "SETUP_MAX_WAIT = 20 * 60 * 1000"
definition SETUP_HANDOVER :: nat where "SETUP_HANDOVER = 3000"

definition say_line :: "str \<Rightarrow> unit command" where "say_line l = signal (SayLine l)"

definition post_note :: "command_config \<Rightarrow> pair_note \<Rightarrow> unit command" where
  "post_note co n = (if co_supervised co then signal (PostNote n) else skip)"

definition flush_all :: "command_config \<Rightarrow> unit command" where
  "flush_all co = (if co_supervised co then ask_as (\<lambda>_. ()) FlushNotes else skip)"

text \<open>A port that cannot be held is no failure.\<close>

definition hold_port :: "command_config \<Rightarrow> bool command" where
  "hold_port co = (case co_hold co of None \<Rightarrow> State_Monad.return False
   | Some p \<Rightarrow> do { r \<leftarrow> ask_as co_done (HoldPort p); State_Monad.return (case r of Inr _ \<Rightarrow> True | Inl _ \<Rightarrow> False) })"

definition release_port :: "bool \<Rightarrow> unit command" where
  "release_port held = (if held then ask_as (\<lambda>_. ()) ReleasePort else skip)"

definition session_there :: "command_config \<Rightarrow> bool command" where
  "session_there co = (case co_session co of None \<Rightarrow> State_Monad.return False | Some p \<Rightarrow> ask_as co_there (SessionThere p))"

section \<open>From the log\<close>

definition tell_pairing :: "command_config \<Rightarrow> pairing_event \<Rightarrow> unit command" where
  "tell_pairing co e = do { (case event_note e of Some n \<Rightarrow> post_note co n | None \<Rightarrow> skip); say_line (pairing_line e) }"

definition pair_round :: "command_config \<Rightarrow> unit \<Rightarrow> (unit + (pairing_error + paired_key) option) command" where
  "pair_round co u = do { h \<leftarrow> ask_as co_happens NextHappening;
     (case h of
        Heard e \<Rightarrow> do { tell_pairing co e; State_Monad.return (Inl ()) }
      | Ended r \<Rightarrow> State_Monad.return (Inr (Some r))
      | StopSignal \<Rightarrow> State_Monad.return (Inr None)
      | _ \<Rightarrow> State_Monad.return (Inl ())) }"

definition pair_note_of :: "command_config \<Rightarrow> (pairing_error + paired_key) option \<Rightarrow> bool \<Rightarrow> pair_note" where
  "pair_note_of co r paused = (case r of
     Some (Inl e) \<Rightarrow> failed_note (co_error co e)
   | Some (Inr k) \<Rightarrow> Dismiss
   | None \<Rightarrow> if paused then paused_note else Dismiss)"

definition pair_exit :: "command_config \<Rightarrow> (pairing_error + paired_key) option \<Rightarrow> bool \<Rightarrow> command_end command" where
  "pair_exit co r paused = (case r of
     Some (Inr k) \<Rightarrow> do { say_line (paired_line k); State_Monad.return Success }
   | Some (Inl e) \<Rightarrow> State_Monad.return (Failure (''Pairing with Datum failed: '' @ co_error co e))
   | None \<Rightarrow> if paused then do { say_line PAUSED_LINE; State_Monad.return (ExitWith PAIR_PAUSED_EXIT) } else State_Monad.return (Failure STOPPED_ERROR))"

definition pair_finish :: "command_config \<Rightarrow> bool \<Rightarrow> (pairing_error + paired_key) option \<Rightarrow> command_end command" where
  "pair_finish co held r = do {
     paused \<leftarrow> (if r = None then session_there co else State_Monad.return False);
     post_note co (pair_note_of co r paused); flush_all co; release_port held; pair_exit co r paused }"

definition pair_command :: "nat \<Rightarrow> command_config \<Rightarrow> command_end option command" where
  "pair_command rounds co = do { held \<leftarrow> hold_port co;
     x \<leftarrow> repeat_io rounds (pair_round co) ();
     (case x of None \<Rightarrow> State_Monad.return None | Some r \<Rightarrow> do { e \<leftarrow> pair_finish co held r; State_Monad.return (Some e) }) }"

section \<open>From the page\<close>

text \<open>\<open>SetupLog\<close>: what is said of what happens on the page.\<close>

definition setup_tells :: "command_config \<Rightarrow> str option \<Rightarrow> pairing_event \<Rightarrow> unit command" where
  "setup_tells co panel e = (case e of
     ChooseProject projects rejected wait \<Rightarrow> do {
       say_line (''Signed in. Choose the project on the Datum Connect page, or set '' @ q1 @ ''project'' @ q1 @ '' on the add-on'' @ q1 @ ''s Configuration tab to one of these '' @
         show_nat (length projects) @ '' ids and click Save:'' @ concat (map listed_project projects));
       post_note co (Show (setup_choose_message panel (length projects))) }
   | Code url the_code prefilled expiry \<Rightarrow> do { say_line (pairing_line e); post_note co (Show (setup_code_message panel url the_code prefilled expiry)) }
   | _ \<Rightarrow> say_line (pairing_line e))"

definition setup_outcome :: "command_config \<Rightarrow> str option \<Rightarrow> pairing_error + paired_key \<Rightarrow> unit command" where
  "setup_outcome co panel r = (case r of
     Inr k \<Rightarrow> post_note co Dismiss
   | Inl e \<Rightarrow> (let message = ev_message (error_view_of (co_error co) e) in do {
       say_line (''Pairing with Datum did not finish: '' @ message @ '' Open the Datum Connect page to try again.'');
       post_note co (Show (setup_failure_message panel message)) }))"

definition setup_round :: "command_config \<Rightarrow> str option \<Rightarrow> unit \<Rightarrow> (unit + paired_key option) command" where
  "setup_round co panel u = do { h \<leftarrow> ask_as co_happens NextHappening;
     (case h of
        Heard e \<Rightarrow> do { setup_tells co panel e; State_Monad.return (Inl ()) }
      | Ended r \<Rightarrow> do { setup_outcome co panel r; State_Monad.return (Inl ()) }
      | Restarted \<Rightarrow> do { say_line ''New code requested from the Datum Connect page.''; State_Monad.return (Inl ()) }
      | KeyReady k \<Rightarrow> State_Monad.return (Inr (Some k))
      | StopSignal \<Rightarrow> State_Monad.return (Inr None)) }"

definition setup_ended :: "command_config \<Rightarrow> paired_key option \<Rightarrow> bool command" where
  "setup_ended co r = (case r of
     Some k \<Rightarrow> do { say_line (paired_line k); post_note co Dismiss; sleep SETUP_HANDOVER; State_Monad.return False }
   | None \<Rightarrow> do { _ \<leftarrow> ask_as (\<lambda>_. ()) StopRun; paused \<leftarrow> session_there co; post_note co (if paused then paused_note else Dismiss); State_Monad.return paused })"

definition setup_finish :: "command_config \<Rightarrow> bool \<Rightarrow> paired_key option \<Rightarrow> command_end command" where
  "setup_finish co held r = do { paused \<leftarrow> setup_ended co r;
     _ \<leftarrow> ask_as (\<lambda>_. ()) ClosePage; flush_all co; release_port held;
     (case r of Some k \<Rightarrow> State_Monad.return Success
      | None \<Rightarrow> do { say_line (if paused then PAUSED_LINE else STOPPED_LINE); State_Monad.return (ExitWith PAIR_PAUSED_EXIT) }) }"

definition panel_of :: "command_config \<Rightarrow> str option command" where
  "panel_of co = (if co_supervised co then do { r \<leftarrow> ask_as co_slug AskSlug; State_Monad.return (case r of Inr slug \<Rightarrow> panel_path slug | Inl _ \<Rightarrow> None) } else State_Monad.return None)"

definition page_command :: "nat \<Rightarrow> command_config \<Rightarrow> command_end option command" where
  "page_command rounds co = do { panel \<leftarrow> panel_of co;
     signal (RunPage SETUP_MAX_WAIT (source_of (co_supervised co) (co_options co)));
     held \<leftarrow> hold_port co;
     say_line NOT_CONNECTED_LINE;
     post_note co (Show (setup_waiting_message panel));
     saved \<leftarrow> session_there co;
     (if saved then signal StartRun else skip);
     x \<leftarrow> repeat_io rounds (setup_round co panel) ();
     (case x of None \<Rightarrow> State_Monad.return None | Some r \<Rightarrow> do { e \<leftarrow> setup_finish co held r; State_Monad.return (Some e) }) }"

text \<open>Without a page, pairing from the log is still pairing.\<close>

definition setup_command :: "nat \<Rightarrow> command_config \<Rightarrow> nat option \<Rightarrow> command_end option command" where
  "setup_command rounds co port = (case port of None \<Rightarrow> pair_command rounds co
   | Some p \<Rightarrow> do { a \<leftarrow> ask_as co_done PageAddresses;
       (case a of Inl _ \<Rightarrow> pair_command rounds co
        | Inr _ \<Rightarrow> do { b \<leftarrow> ask_as co_done (BindPage p);
            (case b of Inl _ \<Rightarrow> pair_command rounds co | Inr _ \<Rightarrow> page_command rounds co) }) })"

end
