(* ===== verification/Pair_Command_Facts.thy ===== *)
theory Pair_Command_Facts
  imports Pair_Command
begin

text \<open>How the pairing commands end: the port is given back, and the notification that stays is the one for the end.\<close>

section \<open>What to look at\<close>

type_synonym command_event = "(command_request, command_reply) event"

definition took_port :: "command_event \<Rightarrow> bool" where
  "took_port e \<longleftrightarrow> (case (request e, reply e) of (HoldPort p, Some r) \<Rightarrow> co_done r = Inr () | _ \<Rightarrow> False)"

definition gave_port :: "command_event \<Rightarrow> bool" where "gave_port e \<longleftrightarrow> request e = ReleasePort"

definition note_posted :: "command_event \<Rightarrow> pair_note option" where
  "note_posted e = (case request e of PostNote n \<Rightarrow> Some n | _ \<Rightarrow> None)"

definition notes_of :: "command_event list \<Rightarrow> pair_note list" where "notes_of es = List.map_filter note_posted es"

definition session_look :: "command_event \<Rightarrow> bool option" where
  "session_look e = (case (request e, reply e) of (SessionThere p, Some r) \<Rightarrow> Some (co_there r) | _ \<Rightarrow> None)"

definition looks_of :: "command_event list \<Rightarrow> bool list" where "looks_of es = List.map_filter session_look es"

text \<open>Whether the login was saved when it was last looked for.\<close>

definition login_kept :: "command_event list \<Rightarrow> bool" where
  "login_kept es \<longleftrightarrow> looks_of es \<noteq> [] \<and> last (looks_of es)"

fun right_note :: "command_config \<Rightarrow> command_event list \<Rightarrow> command_end \<Rightarrow> pair_note \<Rightarrow> bool" where
  "right_note co es Success n \<longleftrightarrow> n = Dismiss"
| "right_note co es (ExitWith c) n \<longleftrightarrow> c = PAIR_PAUSED_EXIT \<and> n = (if login_kept es then paused_note else Dismiss)"
| "right_note co es (Failure m) n \<longleftrightarrow> (m = STOPPED_ERROR \<and> n = Dismiss) \<or> (\<exists>e. m = ''Pairing with Datum failed: '' @ co_error co e \<and> n = failed_note (co_error co e))"

lemma parts_append: "notes_of (es @ fs) = notes_of es @ notes_of fs" "looks_of (es @ fs) = looks_of es @ looks_of fs"
  by (simp_all add: notes_of_def looks_of_def map_filter_append)

lemma parts_simps [simp]: "notes_of [] = []" "looks_of [] = []"
  "notes_of (e # es) = (case note_posted e of Some n \<Rightarrow> n # notes_of es | None \<Rightarrow> notes_of es)"
  "looks_of (e # es) = (case session_look e of Some b \<Rightarrow> b # looks_of es | None \<Rightarrow> looks_of es)"
  by (simp_all add: notes_of_def looks_of_def List.map_filter_def split: option.splits)

lemmas look_defs = took_port_def gave_port_def note_posted_def session_look_def

section \<open>Before the end\<close>

text \<open>Requests that neither take nor give back the port.\<close>

definition calm :: "command_config \<Rightarrow> command_request \<Rightarrow> bool" where
  "calm co q \<longleftrightarrow> (case q of ReleasePort \<Rightarrow> False | HoldPort p \<Rightarrow> False | PostNote n \<Rightarrow> co_supervised co | SessionThere p \<Rightarrow> co_session co \<noteq> None | _ \<Rightarrow> True)"

definition quietly :: "command_config \<Rightarrow> bool \<Rightarrow> command_event list \<Rightarrow> bool" where
  "quietly co held es \<longleftrightarrow> list_ex took_port es = held \<and> \<not> list_ex gave_port es \<and> (co_supervised co \<or> notes_of es = []) \<and> (co_session co \<noteq> None \<or> looks_of es = [])"

lemma calm_one:
  assumes "calm co (request e)"
  shows "\<not> took_port e" "\<not> gave_port e" "co_supervised co \<or> note_posted e = None" "co_session co \<noteq> None \<or> session_look e = None"
  using assms by (cases "request e"; simp add: calm_def look_defs)+

lemma calm_quietly: "\<forall>e \<in> set es. calm co (request e) \<Longrightarrow> quietly co False es"
  by (induction es) (auto simp: quietly_def dest: calm_one)

lemma quietly_append: "quietly co a es \<Longrightarrow> quietly co b fs \<Longrightarrow> quietly co (a \<or> b) (es @ fs)"
  by (auto simp: quietly_def parts_append)

lemma hold_run:
  assumes "run_state (hold_port co) w = (held, v)"
  shows "\<exists>es. trace v = trace w @ es \<and> quietly co held es"
proof (cases "co_hold co")
  case None
  with assms show ?thesis by (auto simp: hold_port_def quietly_def)
next
  case (Some p)
  with assms show ?thesis
    by (auto simp: hold_port_def quietly_def look_defs ask_as_def ask_def split: prod.splits sum.splits)
qed

lemma calm_say [asks_intros]: "asks_only (calm co) (say_line l)"
  unfolding say_line_def by (intro asks_intros) (simp add: calm_def)

lemma calm_post [asks_intros]: "asks_only (calm co) (post_note co n)"
  by (cases "co_supervised co") (auto simp: post_note_def calm_def intro!: asks_intros)

lemma calm_there [asks_intros]: "asks_only (calm co) (session_there co)"
  by (cases "co_session co") (auto simp: session_there_def calm_def intro!: asks_intros)

lemma calm_tells: "asks_only (calm co) (tell_pairing co e)"
  unfolding tell_pairing_def by (intro asks_intros)

lemma calm_pair_round: "asks_only (calm co) (pair_round co u)"
proof -
  have "asks_only (calm co) (case h of
        Heard e \<Rightarrow> do { tell_pairing co e; State_Monad.return (Inl ()) }
      | Ended r \<Rightarrow> State_Monad.return (Inr (Some r))
      | StopSignal \<Rightarrow> State_Monad.return (Inr None)
      | _ \<Rightarrow> State_Monad.return (Inl ()))" for h
    by (cases h) (auto intro!: asks_intros calm_tells)
  then show ?thesis unfolding pair_round_def by (intro asks_intros) (simp add: calm_def)
qed

lemma calm_setup_tells: "asks_only (calm co) (setup_tells co panel e)"
  by (cases e) (auto simp: setup_tells_def intro!: asks_intros)

lemma calm_outcome: "asks_only (calm co) (setup_outcome co panel r)"
  by (cases r) (auto simp: setup_outcome_def Let_def intro!: asks_intros)

lemma calm_setup_round: "asks_only (calm co) (setup_round co panel u)"
proof -
  have "asks_only (calm co) (case h of
        Heard e \<Rightarrow> do { setup_tells co panel e; State_Monad.return (Inl ()) }
      | Ended r \<Rightarrow> do { setup_outcome co panel r; State_Monad.return (Inl ()) }
      | Restarted \<Rightarrow> do { say_line ''New code requested from the Datum Connect page.''; State_Monad.return (Inl ()) }
      | KeyReady k \<Rightarrow> State_Monad.return (Inr (Some k))
      | StopSignal \<Rightarrow> State_Monad.return (Inr None))" for h
    by (cases h) (auto intro!: asks_intros calm_setup_tells calm_outcome)
  then show ?thesis unfolding setup_round_def by (intro asks_intros) (simp add: calm_def)
qed

section \<open>The end\<close>

text \<open>What an end adds to what went before.\<close>

definition tidy :: "command_config \<Rightarrow> command_end \<Rightarrow> command_event list \<Rightarrow> bool" where
  "tidy co e es \<longleftrightarrow> list_ex took_port es = list_ex gave_port es \<and>
     (if co_supervised co then notes_of es \<noteq> [] \<and> right_note co es e (last (notes_of es)) else notes_of es = [])"

lemma tidy_end:
  assumes "quietly co held es" "\<not> list_ex took_port fs" "list_ex gave_port fs = held" "notes_of fs = (if co_supervised co then [n] else [])"
    "right_note co (es @ fs) e n"
  shows "tidy co e (es @ fs)"
  using assms by (auto simp: tidy_def quietly_def parts_append)

lemma there_run:
  assumes "run_state (session_there co) w = (b, v)"
  obtains es where "trace v = trace w @ es" "looks_of es = (if co_session co = None then [] else [b])" "\<forall>e \<in> set es. calm co (request e)" "\<not> (co_session co = None \<and> b)"
proof (cases "co_session co")
  case None
  with assms that [of "[]"] show ?thesis by (auto simp: session_there_def)
next
  case (Some p)
  with assms that show ?thesis
    by (auto simp: session_there_def look_defs calm_def ask_as_def ask_def split: prod.splits)
qed

lemma kept_after: "looks_of fs = [b] \<Longrightarrow> login_kept (es @ fs) = b"
  by (simp add: login_kept_def parts_append)

lemma kept_none: "looks_of (es @ fs) = [] \<Longrightarrow> \<not> login_kept (es @ fs)"
  by (simp add: login_kept_def)

lemma post_state: "run_state (post_note co n) w = ((), w\<lparr>trace := trace w @ (if co_supervised co then [Event (clock w) (PostNote n) None] else [])\<rparr>)"
  by (simp add: post_note_def)

lemma flush_state: "\<exists>u. run_state (flush_all co) w = ((), u) \<and> trace u = trace w @ (if co_supervised co then [Event (clock w) FlushNotes (Some (fst (environment w (clock w) (trace w) FlushNotes)))] else [])"
  by (simp add: flush_all_def ask_as_def ask_def split: prod.splits)

lemma release_state: "\<exists>u. run_state (release_port held) w = ((), u) \<and> trace u = trace w @ (if held then [Event (clock w) ReleasePort (Some (fst (environment w (clock w) (trace w) ReleasePort)))] else [])"
  by (simp add: release_port_def ask_as_def ask_def split: prod.splits)

lemma close_run:
  assumes "run_state (do { flush_all co; release_port held; m }) w = (x, v)"
  obtains es u where "run_state m u = (x, v)" "trace u = trace w @ es" "\<not> list_ex took_port es" "list_ex gave_port es = held" "notes_of es = []" "looks_of es = []"
proof -
  from flush_state obtain u1 where f: "run_state (flush_all co) w = ((), u1)"
    "trace u1 = trace w @ (if co_supervised co then [Event (clock w) FlushNotes (Some (fst (environment w (clock w) (trace w) FlushNotes)))] else [])" by blast
  from release_state obtain u2 where r: "run_state (release_port held) u1 = ((), u2)"
    "trace u2 = trace u1 @ (if held then [Event (clock u1) ReleasePort (Some (fst (environment u1 (clock u1) (trace u1) ReleasePort)))] else [])" by blast
  from assms f(1) r(1) have "run_state m u2 = (x, v)" by simp
  then show ?thesis
    by (rule that [where es = "(if co_supervised co then [Event (clock w) FlushNotes (Some (fst (environment w (clock w) (trace w) FlushNotes)))] else []) @
      (if held then [Event (clock u1) ReleasePort (Some (fst (environment u1 (clock u1) (trace u1) ReleasePort)))] else [])"])
      (use f(2) r(2) in \<open>simp_all add: look_defs\<close>)
qed

lemma post_run:
  assumes "run_state (do { post_note co n; flush_all co; release_port held; m }) w = (x, v)"
  obtains es u where "run_state m u = (x, v)" "trace u = trace w @ es" "\<not> list_ex took_port es" "list_ex gave_port es = held" "notes_of es = (if co_supervised co then [n] else [])" "looks_of es = []"
proof -
  let ?e = "if co_supervised co then [Event (clock w) (PostNote n) None] else []"
  from assms have "run_state (do { flush_all co; release_port held; m }) (w\<lparr>trace := trace w @ ?e\<rparr>) = (x, v)" by (simp add: post_state)
  from close_run [OF this] obtain es u where u: "run_state m u = (x, v)" "trace u = trace (w\<lparr>trace := trace w @ ?e\<rparr>) @ es" "\<not> list_ex took_port es" "list_ex gave_port es = held" "notes_of es = []" "looks_of es = []" .
  show ?thesis by (rule that [of u "?e @ es"]) (use u in \<open>simp_all add: look_defs parts_append\<close>)
qed

lemma pair_ends:
  assumes "run_state (pair_finish co held r) w = (e, v)" "trace w = trace w0 @ es" "quietly co held es"
  shows "\<exists>fs. trace v = trace w0 @ fs \<and> tidy co e fs"
proof -
  obtain paused w1 gs where p: "run_state (if r = None then session_there co else State_Monad.return False) w = (paused, w1)" and g: "trace w1 = trace w @ gs" "\<forall>e \<in> set gs. calm co (request e)"
    "r = None \<Longrightarrow> looks_of gs = (if co_session co = None then [] else [paused])" "r = None \<Longrightarrow> co_session co = None \<Longrightarrow> \<not> paused"
  proof (cases r)
    case None
    obtain b u where b: "run_state (session_there co) w = (b, u)" by fastforce
    from there_run [OF b] obtain ks where "trace u = trace w @ ks" "looks_of ks = (if co_session co = None then [] else [b])" "\<forall>e \<in> set ks. calm co (request e)" "\<not> (co_session co = None \<and> b)" .
    with None b show thesis by (intro that [of b u ks]) simp_all
  qed (use that [of False w "[]"] in simp)
  have q: "quietly co held (es @ gs)" using quietly_append [OF assms(3) calm_quietly [OF g(2)]] by simp
  from assms(1) p have rest: "run_state (do { post_note co (pair_note_of co r paused); flush_all co; release_port held; pair_exit co r paused }) w1 = (e, v)"
    by (simp add: pair_finish_def)
  from post_run [OF rest] obtain hs u where u: "run_state (pair_exit co r paused) u = (e, v)" "trace u = trace w1 @ hs" "\<not> list_ex took_port hs" "list_ex gave_port hs = held"
    "notes_of hs = (if co_supervised co then [pair_note_of co r paused] else [])" "looks_of hs = []" .
  have "asks_only (\<lambda>q. \<exists>l. q = SayLine l) (pair_exit co r paused)"
    unfolding pair_exit_def say_line_def by (intro asks_intros) auto
  from asks_onlyD [OF this u(1)] obtain ks where k: "trace v = trace u @ ks" "\<forall>e \<in> set ks. \<exists>l. request e = SayLine l" by blast
  from k(2) have kq: "\<not> list_ex took_port ks" "\<not> list_ex gave_port ks" "notes_of ks = []" "looks_of ks = []"
    by (induction ks) (auto simp: look_defs)
  have n: "right_note co ((es @ gs) @ hs @ ks) e (pair_note_of co r paused)"
  proof (cases r)
    case None
    with g(3,4) q have "login_kept ((es @ gs) @ hs @ ks) = paused"
      by (cases "co_session co") (auto simp: login_kept_def parts_append u(6) kq(4) quietly_def)
    with None u(1) show ?thesis by (auto simp: pair_exit_def pair_note_of_def say_line_def split: if_splits)
  next
    case (Some x)
    with u(1) show ?thesis by (cases x) (auto simp: pair_exit_def pair_note_of_def say_line_def)
  qed
  have "tidy co e ((es @ gs) @ hs @ ks)"
    by (rule tidy_end [OF q _ _ _ n]) (use u(3-5) kq in \<open>auto simp: parts_append\<close>)
  with assms(2) g(1) u(2) k(1) show ?thesis by (intro exI [of _ "(es @ gs) @ hs @ ks"]) simp
qed

lemma setup_ends:
  assumes "run_state (setup_finish co held r) w = (e, v)" "trace w = trace w0 @ es" "quietly co held es"
  shows "\<exists>fs. trace v = trace w0 @ fs \<and> tidy co e fs"
proof -
  let ?n = "\<lambda>paused. if r = None \<and> paused then paused_note else Dismiss"
  obtain paused w1 where p: "run_state (setup_ended co r) w = (paused, w1)" by fastforce
  obtain gs hs where g: "trace w1 = trace w @ gs @ hs" "\<forall>e \<in> set gs. calm co (request e)" "notes_of hs = (if co_supervised co then [?n paused] else [])" "\<not> list_ex took_port hs" "\<not> list_ex gave_port hs"
    "looks_of hs = []" "r = None \<Longrightarrow> login_kept (es @ gs) = paused"
  proof (cases r)
    case None
    have "run_state (do { _ \<leftarrow> ask_as (\<lambda>_. ()) StopRun; paused \<leftarrow> session_there co; post_note co (if paused then paused_note else Dismiss); State_Monad.return paused }) w = (paused, w1)"
      using p None by (simp add: setup_ended_def)
    from ask_as_run [OF this] obtain x u1 where x: "trace u1 = trace w @ [Event (clock w) StopRun (Some x)]"
      and rest: "run_state (do { paused \<leftarrow> session_there co; post_note co (if paused then paused_note else Dismiss); State_Monad.return paused }) u1 = (paused, w1)" by blast
    obtain b u2 where b: "run_state (session_there co) u1 = (b, u2)" by fastforce
    from there_run [OF b] obtain ks where k: "trace u2 = trace u1 @ ks" "looks_of ks = (if co_session co = None then [] else [b])" "\<forall>e \<in> set ks. calm co (request e)" "\<not> (co_session co = None \<and> b)" .
    have "run_state (do { post_note co (if b then paused_note else Dismiss); State_Monad.return b }) u2 = (paused, w1)" using rest b by simp
    then have pb: "paused = b" and w1: "trace w1 = trace u2 @ (if co_supervised co then [Event (clock u2) (PostNote (if b then paused_note else Dismiss)) None] else [])"
      by (auto simp: post_note_def split: if_splits)
    show thesis
    proof (rule that [of "Event (clock w) StopRun (Some x) # ks" "if co_supervised co then [Event (clock u2) (PostNote (if b then paused_note else Dismiss)) None] else []"])
      show "login_kept (es @ Event (clock w) StopRun (Some x) # ks) = paused"
        using k(2,4) pb assms(3) by (cases "co_session co") (auto simp: login_kept_def parts_append quietly_def look_defs)
    qed (use x k w1 pb None in \<open>auto simp: look_defs calm_def\<close>)
  next
    case (Some key)
    with p have "paused = False" "trace w1 = trace w @ [Event (clock w) (SayLine (paired_line key)) None] @ (if co_supervised co then [Event (clock w) (PostNote Dismiss) None] else [])"
      by (auto simp: setup_ended_def say_line_def post_note_def split: if_splits)
    with Some that [of "[Event (clock w) (SayLine (paired_line key)) None]" "if co_supervised co then [Event (clock w) (PostNote Dismiss) None] else []"]
    show thesis by (auto simp: look_defs calm_def)
  qed
  have q: "quietly co held (es @ gs)" using quietly_append [OF assms(3) calm_quietly [OF g(2)]] by simp
  let ?last = "case r of Some k \<Rightarrow> State_Monad.return Success | None \<Rightarrow> do { say_line (if paused then PAUSED_LINE else STOPPED_LINE); State_Monad.return (ExitWith PAIR_PAUSED_EXIT) }"
  have "run_state (do { _ \<leftarrow> ask_as (\<lambda>_. ()) ClosePage; flush_all co; release_port held; ?last }) w1 = (e, v)"
    using assms(1) p by (simp add: setup_finish_def)
  from ask_as_run [OF this] obtain y u1 where y: "trace u1 = trace w1 @ [Event (clock w1) ClosePage (Some y)]" and rest: "run_state (do { flush_all co; release_port held; ?last }) u1 = (e, v)" by blast
  from close_run [OF rest] obtain js u2 where j: "run_state ?last u2 = (e, v)" "trace u2 = trace u1 @ js" "\<not> list_ex took_port js" "list_ex gave_port js = held" "notes_of js = []" "looks_of js = []" .
  let ?said = "if r = None then [Event (clock u2) (SayLine (if paused then PAUSED_LINE else STOPPED_LINE)) None] else []"
  have l: "trace v = trace u2 @ ?said" "e = (if r = None then ExitWith PAIR_PAUSED_EXIT else Success)"
    using j(1) by (cases r; auto simp: say_line_def)+
  obtain ks where k: "trace v = trace w1 @ ks" "\<not> list_ex took_port ks" "list_ex gave_port ks = held" "notes_of ks = []" "looks_of ks = []" "e = (if r = None then ExitWith PAIR_PAUSED_EXIT else Success)"
  proof (rule that [OF _ _ _ _ _ l(2)])
    show "trace v = trace w1 @ Event (clock w1) ClosePage (Some y) # js @ ?said" using y j(2) l(1) by simp
  qed (use j(3-) in \<open>simp_all add: look_defs parts_append\<close>)
  have "login_kept ((es @ gs) @ hs @ ks) = login_kept (es @ gs)" by (simp add: login_kept_def parts_append g(6) k(5))
  with g(7) k(6) have n: "right_note co ((es @ gs) @ hs @ ks) e (?n paused)" by (cases r) auto
  have "tidy co e ((es @ gs) @ hs @ ks)"
    by (rule tidy_end [OF q _ _ _ n]) (use g k in \<open>auto simp: parts_append\<close>)
  with assms(2) g(1) k(1) show ?thesis by (intro exI [of _ "(es @ gs) @ hs @ ks"]) simp
qed

lemma after_rounds:
  assumes run: "run_state (do { x \<leftarrow> repeat_io rounds (body :: unit \<Rightarrow> (unit + 'a) command) ();
      (case x of None \<Rightarrow> State_Monad.return None | Some r \<Rightarrow> do { e \<leftarrow> fin r; State_Monad.return (Some e) }) }) w = (y, v)"
    and w: "trace w = trace w0 @ es" "quietly co held es" and body: "\<And>u. asks_only (calm co) (body u)"
    and fin: "\<And>r w es e v. run_state (fin r) w = (e, v) \<Longrightarrow> trace w = trace w0 @ es \<Longrightarrow> quietly co held es \<Longrightarrow> \<exists>fs. trace v = trace w0 @ fs \<and> tidy co e fs"
  shows "\<exists>fs. trace v = trace w0 @ fs \<and> (case y of None \<Rightarrow> True | Some e \<Rightarrow> tidy co e fs)"
proof -
  obtain x u where x: "run_state (repeat_io rounds body ()) w = (x, u)" by fastforce
  from asks_onlyD [OF asks_repeat [OF body] x] obtain gs where g: "trace u = trace w @ gs" "\<forall>e \<in> set gs. calm co (request e)" by blast
  have q: "trace u = trace w0 @ (es @ gs)" "quietly co held (es @ gs)" using w g quietly_append [OF w(2) calm_quietly [OF g(2)]] by simp_all
  show ?thesis
  proof (cases x)
    case None
    with run x q show ?thesis by auto
  next
    case (Some r)
    obtain e u' where "run_state (fin r) u = (e, u')" by fastforce
    with run x Some fin [OF this q] show ?thesis by auto
  qed
qed

lemma pair_tidy:
  assumes "run_state (pair_command rounds co) w = (y, v)" "trace w = trace w0 @ es" "quietly co False es"
  shows "\<exists>fs. trace v = trace w0 @ fs \<and> (case y of None \<Rightarrow> True | Some e \<Rightarrow> tidy co e fs)"
proof -
  obtain held u where h: "run_state (hold_port co) w = (held, u)" by fastforce
  from hold_run [OF h] obtain gs where g: "trace u = trace w @ gs" "quietly co held gs" by blast
  have "run_state (do { x \<leftarrow> repeat_io rounds (pair_round co) ();
      (case x of None \<Rightarrow> State_Monad.return None | Some r \<Rightarrow> do { e \<leftarrow> pair_finish co held r; State_Monad.return (Some e) }) }) u = (y, v)"
    using assms(1) h by (simp add: pair_command_def)
  from after_rounds [OF this _ _ calm_pair_round pair_ends, of w0 "es @ gs"] g assms(2) quietly_append [OF assms(3) g(2)] show ?thesis by simp
qed

lemma page_tidy:
  assumes "run_state (page_command rounds co) w = (y, v)" "trace w = trace w0 @ es" "quietly co False es"
  shows "\<exists>fs. trace v = trace w0 @ fs \<and> (case y of None \<Rightarrow> True | Some e \<Rightarrow> tidy co e fs)"
proof -
  let ?first = "do { panel \<leftarrow> panel_of co; signal (RunPage SETUP_MAX_WAIT (source_of (co_supervised co) (co_options co))); State_Monad.return panel }"
  let ?next = "\<lambda>panel. do { say_line NOT_CONNECTED_LINE; post_note co (Show (setup_waiting_message panel)); saved \<leftarrow> session_there co; (if saved then signal StartRun else skip) }"
  obtain panel w1 where p: "run_state ?first w = (panel, w1)" by (metis surj_pair)
  have "asks_only (calm co) ?first" unfolding panel_of_def by (intro asks_intros) (simp_all add: calm_def)
  from asks_onlyD [OF this p] obtain gs where g: "trace w1 = trace w @ gs" "\<forall>e \<in> set gs. calm co (request e)" by blast
  obtain held w2 where h: "run_state (hold_port co) w1 = (held, w2)" by fastforce
  from hold_run [OF h] obtain hs where hs: "trace w2 = trace w1 @ hs" "quietly co held hs" by blast
  obtain w3 where n: "run_state (?next panel) w2 = ((), w3)" by (cases "run_state (?next panel) w2") simp
  have "asks_only (calm co) (?next panel)" by (intro asks_intros) (simp_all add: calm_def)
  from asks_onlyD [OF this n] obtain ks where k: "trace w3 = trace w2 @ ks" "\<forall>e \<in> set ks. calm co (request e)" by blast
  have run: "run_state (do { x \<leftarrow> repeat_io rounds (setup_round co panel) ();
      (case x of None \<Rightarrow> State_Monad.return None | Some r \<Rightarrow> do { e \<leftarrow> setup_finish co held r; State_Monad.return (Some e) }) }) w3 = (y, v)"
    using assms(1) p h n by (auto simp: page_command_def split: prod.splits)
  have q: "quietly co held (es @ gs @ hs @ ks)"
    using quietly_append [OF assms(3) quietly_append [OF calm_quietly [OF g(2)] quietly_append [OF hs(2) calm_quietly [OF k(2)]]]] by simp
  have "trace w3 = trace w0 @ (es @ gs @ hs @ ks)" using g(1) hs(1) k(1) assms(2) by simp
  from after_rounds [OF run this q calm_setup_round] setup_ends show ?thesis by blast
qed


end
