(* ===== verification/Daemon_Start.thy ===== *)
theory Daemon_Start
  imports Log_Sources
begin

text \<open>What \<open>run\<close> of \<open>daemon/src/main.rs\<close> decides before the daemon serves: its arguments, and the registration of its own log.\<close>

section \<open>At the start of the daemon\<close>

definition DAEMON_ONLY :: str where
  "DAEMON_ONLY = ''neither DATUM_SESSION nor DATUM_PLUGIN_MODE=1 set '' @ [CHR 0xE2, CHR 0x80, CHR 0x94] @ '' this daemon runs in plugin mode only''"

definition daemon_plugin_only :: "str option \<Rightarrow> str option \<Rightarrow> str + unit" where
  "daemon_plugin_only session plugin_mode = (if session = None \<and> plugin_mode \<noteq> Some ''1'' then Inl DAEMON_ONLY else Inr ())"

definition project_given :: "str option \<Rightarrow> str + str" where
  "project_given project = (case project of Some p \<Rightarrow> Inr p
   | None \<Rightarrow> Inl (''no project set '' @ [CHR 0xE2, CHR 0x80, CHR 0x94] @ '' pass --project or set DATUM_PROJECT''))"

definition max_runtime_of :: "nat \<Rightarrow> nat" where "max_runtime_of hours = min (hours * 3600) (2 ^ 64 - 1)"

definition exclusive_label_of :: "str option \<Rightarrow> str option" where
  "exclusive_label_of l = (case l of Some l \<Rightarrow> if trim l \<noteq> [] then Some l else None | None \<Rightarrow> None)"

text \<open>The daemon's own log is registered unless it already is under that name and path; a failure is only logged.\<close>

definition register_own_log :: "log_libs \<Rightarrow> path \<Rightarrow> nat \<Rightarrow> log_sources \<Rightarrow> log_sources" where
  "register_own_log ll own now_ms s = (let canonical = (case ll_canonicalize ll (lo_disk s) own of Inr p \<Rightarrow> p | Inl _ \<Rightarrow> own)
     in if map_of (lo_sources s) ''daemon'' = Some canonical then s else snd (register_log ll ''daemon'' own now_ms s))"

end
