(* ===== verification/Datum_Client.thy ===== *)
theory Datum_Client
  imports Heartbeat Repository
begin

text \<open>
  Where Datum is and what a client of it remembers: \<open>datum_cloud/env.rs\<close>, the client of \<open>datum_cloud/mod.rs\<close>, and the client of one project in \<open>project_control_plane.rs\<close> with the
  task that follows the token. Making a client of the kube crate from a URL and a token is a parameter.
\<close>

section \<open>Where Datum is\<close>

definition STAGING_API_URL :: str where "STAGING_API_URL = ''https://api.staging.env.datum.net''"
definition PROD_API_URL :: str where "PROD_API_URL = ''https://api.datum.net''"
definition STAGING_WEB_URL :: str where "STAGING_WEB_URL = ''https://cloud.staging.env.datum.net''"
definition PROD_WEB_URL :: str where "PROD_WEB_URL = ''https://cloud.datum.net''"

datatype api_env = Staging | Production | CustomHost str

definition api_from_env :: "str option \<Rightarrow> api_env" where
  "api_from_env v = (if v = Some ''staging'' then Staging else Production)"

definition from_env_with_host_override :: "str option \<Rightarrow> str option \<Rightarrow> api_env" where
  "from_env_with_host_override host v = (case host of
     Some h \<Rightarrow> if h \<noteq> [] then CustomHost (if starts_with ''http://'' h \<or> starts_with ''https://'' h then h else ''https://'' @ h) else api_from_env v
   | None \<Rightarrow> api_from_env v)"

definition api_url :: "api_env \<Rightarrow> str" where
  "api_url e = (case e of Staging \<Rightarrow> STAGING_API_URL | Production \<Rightarrow> PROD_API_URL | CustomHost u \<Rightarrow> u)"

definition web_url :: "api_env \<Rightarrow> str" where
  "web_url e = (case e of Staging \<Rightarrow> STAGING_WEB_URL | Production \<Rightarrow> PROD_WEB_URL
   | CustomHost u \<Rightarrow> replace_all ''//api.'' ''//app.'' (replace_all ''api.'' ''app.'' u))"

definition project_control_plane_url :: "api_env \<Rightarrow> str \<Rightarrow> str" where
  "project_control_plane_url e project_id = api_url e @ ''/apis/resourcemanager.miloapis.com/v1alpha1/projects/'' @ project_id @ ''/control-plane''"

section \<open>The selected context\<close>

text \<open>
  What is selected, the value in the channel that tells of it, and how many listen there: a message to a channel nobody listens to is lost. The client has no
  repository to write to.
\<close>

record session_state =
  ss_selected :: "selected_context option"
  ss_told :: "selected_context option"
  ss_listeners :: nat

definition empty_session :: session_state where
  "empty_session = \<lparr>ss_selected = None, ss_told = None, ss_listeners = 0\<rparr>"

definition set_selected_context :: "selected_context option \<Rightarrow> session_state \<Rightarrow> session_state" where
  "set_selected_context c s = (let s = (if ss_selected s \<noteq> c then s\<lparr>ss_selected := c\<rparr> else s)
     in if ss_listeners s > 0 then s\<lparr>ss_told := c\<rparr> else s)"

definition selected_context_watch :: "session_state \<Rightarrow> selected_context option \<times> session_state" where
  "selected_context_watch s = (ss_told s, s\<lparr>ss_listeners := ss_listeners s + 1\<rparr>)"

section \<open>A client of a project\<close>

record 'client project_client =
  pc_project :: str
  pc_url :: str
  pc_token :: str
  pc_client :: 'client

type_synonym 'client kube_make = "str \<Rightarrow> str \<Rightarrow> str + 'client"

definition new_project_client :: "'client kube_make \<Rightarrow> str \<Rightarrow> str \<Rightarrow> str \<Rightarrow> str + 'client project_client" where
  "new_project_client mk project url token = (case mk url token of
     Inl e \<Rightarrow> Inl e | Inr c \<Rightarrow> Inr \<lparr>pc_project = project, pc_url = url, pc_token = token, pc_client = c\<rparr>)"

definition rebuild_if_changed :: "'client kube_make \<Rightarrow> str \<Rightarrow> 'client project_client \<Rightarrow> (str + unit) \<times> 'client project_client" where
  "rebuild_if_changed mk token p = (if pc_token p = token then (Inr (), p)
     else (case mk (pc_url p) token of Inl e \<Rightarrow> (Inl e, p) | Inr c \<Rightarrow> (Inr (), p\<lparr>pc_client := c, pc_token := token\<rparr>)))"

text \<open>\<open>client_refreshed\<close>, with the token the source has now.\<close>

definition client_refreshed :: "'client kube_make \<Rightarrow> str \<Rightarrow> 'client project_client \<Rightarrow> (str + 'client) \<times> 'client project_client" where
  "client_refreshed mk now_token p = (case rebuild_if_changed mk now_token p of
     (Inl e, p') \<Rightarrow> (Inl e, p') | (Inr _, p') \<Rightarrow> (Inr (pc_client p'), p'))"

definition project_control_plane_client :: "'client kube_make \<Rightarrow> api_env \<Rightarrow> str \<Rightarrow> str \<Rightarrow> str + 'client project_client" where
  "project_control_plane_client mk e now_token project = new_project_client mk project (project_control_plane_url e project) now_token"

definition project_control_plane_client_active :: "'client kube_make \<Rightarrow> api_env \<Rightarrow> str \<Rightarrow> session_state \<Rightarrow> str + 'client project_client option" where
  "project_control_plane_client_active mk e now_token s = (case ss_selected s of
     None \<Rightarrow> Inr None
   | Some c \<Rightarrow> (case project_control_plane_client mk e now_token (sc_project_id c) of Inl x \<Rightarrow> Inl x | Inr p \<Rightarrow> Inr (Some p)))"

text \<open>
  The task that follows the token. With a channel of tokens it takes each one it is told. Without, it watches two channels, the state of the login and the updates of it, and takes
  the token the source has then; the second channel is closed when the task starts, since \<open>auth_update_watch\<close> keeps no sender. A closed channel ends the task.
\<close>

datatype watch_news = TokenTold str | LoginTold login_state str | ChannelClosed

definition take_token :: "'client kube_make \<Rightarrow> str \<Rightarrow> 'client project_client \<Rightarrow> 'client project_client" where
  "take_token mk token p = snd (rebuild_if_changed mk token p)"

fun follow_token :: "'client kube_make \<Rightarrow> watch_news list \<Rightarrow> 'client project_client \<Rightarrow> 'client project_client" where
  "follow_token mk [] p = p"
| "follow_token mk (TokenTold t # es) p = follow_token mk es (take_token mk t p)"
| "follow_token mk (LoginTold s t # es) p = follow_token mk es (if s \<noteq> LoginMissing then take_token mk t p else p)"
| "follow_token mk (ChannelClosed # es) p = p"

text \<open>What the channels of a client say: with a source's channel, its tokens; without, what comes of the two channels, of which one is closed.\<close>

definition auth_news :: "bool \<Rightarrow> str list \<Rightarrow> watch_news list" where
  "auth_news has_channel tokens = (if has_channel then map TokenTold tokens else [ChannelClosed])"

definition auth_watch :: "'client kube_make \<Rightarrow> bool \<Rightarrow> str \<Rightarrow> str list \<Rightarrow> 'client project_client \<Rightarrow> 'client project_client" where
  "auth_watch mk has_channel now_token tokens p = follow_token mk (auth_news has_channel tokens) (take_token mk now_token p)"

section \<open>What holds\<close>

definition built_for_token :: "'client kube_make \<Rightarrow> 'client project_client \<Rightarrow> bool" where
  "built_for_token mk p \<longleftrightarrow> mk (pc_url p) (pc_token p) = Inr (pc_client p)"

lemma take_built: "built_for_token mk p \<Longrightarrow> built_for_token mk (take_token mk t p) \<and> pc_project (take_token mk t p) = pc_project p \<and> pc_url (take_token mk t p) = pc_url p"
  by (auto simp: take_token_def rebuild_if_changed_def built_for_token_def split: sum.splits)

lemma follow_built: "built_for_token mk p \<Longrightarrow> built_for_token mk (follow_token mk es p) \<and> pc_project (follow_token mk es p) = pc_project p \<and> pc_url (follow_token mk es p) = pc_url p"
  by (induction mk es p rule: follow_token.induct) (auto simp: take_built)

lemma takes_good_token: "mk (pc_url p) t = Inr c \<Longrightarrow> pc_token (take_token mk t p) = t"
  by (simp add: take_token_def rebuild_if_changed_def)

lemma follows_last: "built_for_token mk p \<Longrightarrow> \<forall>t. \<exists>c. mk (pc_url p) t = Inr c \<Longrightarrow> pc_token (follow_token mk (map TokenTold ts) p) = last (pc_token p # ts)"
proof (induction ts arbitrary: p)
  case (Cons t ts)
  let ?p = "take_token mk t p"
  from take_built [OF Cons.prems(1), of t] have b: "built_for_token mk ?p" "pc_url ?p = pc_url p" by auto
  obtain c where "mk (pc_url p) t = Inr c" using Cons.prems(2) by blast
  then have "pc_token ?p = t" by (rule takes_good_token)
  with Cons.IH [OF b(1)] b(2) Cons.prems(2) show ?case by simp
qed simp

text \<open>
  a client of a project keeps its project, its address and a kube client made for the very token it records; one that listens to a token source follows it to the last
  token, and one made by the cloud client, as all of the daemon's are, keeps the token it was made with, however often the source renews it.
\<close>

theorem clients_do_not_follow_the_source:
  assumes "project_control_plane_client mk e t0 project = Inr p" "\<forall>t. \<exists>c. mk (pc_url p) t = Inr c"
  shows "built_for_token mk (auth_watch mk has_channel t0 tokens p) \<and> pc_project (auth_watch mk has_channel t0 tokens p) = project \<and>
    pc_url (auth_watch mk has_channel t0 tokens p) = project_control_plane_url e project \<and>
    pc_token (auth_watch mk has_channel t0 tokens p) = (if has_channel then last (t0 # tokens) else t0)"
proof -
  have b: "built_for_token mk p" and p: "pc_token p = t0" "pc_project p = project" "pc_url p = project_control_plane_url e project"
    using assms(1) by (auto simp: project_control_plane_client_def new_project_client_def built_for_token_def split: sum.splits)
  have t: "take_token mk t0 p = p" using p by (simp add: take_token_def rebuild_if_changed_def)
  from follow_built [OF b, of "auth_news has_channel tokens"] follows_last [OF b assms(2), of tokens] p t show ?thesis
    by (simp add: auth_watch_def auth_news_def)
qed

theorem clients_do_not_follow_the_source_witness:
  "\<exists>p. project_control_plane_client (\<lambda>u t. Inr (u, t)) Production ''t0'' ''p1'' = Inr p \<and> pc_token (auth_watch (\<lambda>u t. Inr (u, t)) False ''t0'' [''t1''] p) = ''t0'' \<and>
     pc_token (auth_watch (\<lambda>u t. Inr (u, t)) True ''t0'' [''t1''] p) = ''t1''"
proof -
  obtain p where p: "project_control_plane_client (\<lambda>u t. Inr (u, t)) Production ''t0'' ''p1'' = Inr p" by (simp add: project_control_plane_client_def new_project_client_def)
  from clients_do_not_follow_the_source [OF p, of False "[''t1'']"] clients_do_not_follow_the_source [OF p, of True "[''t1'']"] p show ?thesis by auto
qed

end
