(* ===== verification/Spec2Isabelle.thy ===== *)
theory Spec2Isabelle
  imports Ha_Allow_Facts Auth_Facts Setup_Facts Reference_Api Heartbeat_Renewal Heartbeat_Agent Token_Facts Supervisor_Facts Listen_Node_Facts Daemon_Rounds Inspector_Facts Routes Ingress_Facts Log_Facts Addon_Actions Peer_Facts Cli_Demo Pair_Command_Facts Daemon_Start Datum_Client
begin

text \<open>
  The Datum Connect daemon, \<^verbatim>\<open>src/connect/connect-lib\<close>: a process that publishes services of the machine it runs on
  through Datum, most often as a Home Assistant add-on. This library models the parts of its Rust code that decide
  something and proves what they promise.

  \<^bold>\<open>The program and its parts.\<close> The daemon serves a local HTTP API (\<^verbatim>\<open>daemon/src\<close>) whose routes are guarded by tokens
  (\<^verbatim>\<open>auth.rs\<close>). A tunnel is three objects of Datum's Kubernetes style API, an HTTPProxy, a Connector and an
  advertisement, which the tunnel service makes and changes (\<^verbatim>\<open>lib/src/tunnels.rs\<close>, with the policies at the edge in
  \<^verbatim>\<open>edge_policies.rs\<close> and the objects in \<^verbatim>\<open>datum_apis/\<close>). It calls the API with tokens minted from a service account key
  (\<^verbatim>\<open>service_account.rs\<close>), which pairing obtains by a device login (\<^verbatim>\<open>pairing.rs\<close>), driven by a page
  (\<^verbatim>\<open>pairing_setup.rs\<close>). Home Assistant refuses forwarded requests until its HTTP settings trust the daemon; Allow makes
  that change over Home Assistant's websocket (\<^verbatim>\<open>ha_core.rs\<close>).

  \<^bold>\<open>How it is modelled.\<close> What computes is a HOL function on the source's data: structs are records, enums datatypes,
  \<^verbatim>\<open>Result\<close> a sum, \<^verbatim>\<open>Option\<close> an option, text a list of characters (theory \<open>Text\<close>), JSON a datatype (\<open>Json\<close>), addresses
  words (\<open>Ip_Net\<close>), files a map from paths (\<open>Disk\<close>). What talks to a service, reads the clock or sleeps is a computation
  over a world (\<open>Prelude\<close>): an arbitrary environment decides every reply and how long it takes, and the trace records
  every request. A theorem about such a computation holds whatever the service answers. Where the code relies on what a
  service promises, the promises are the assumptions of a locale (\<open>Api_Server\<close>), discharged for a server that keeps them.

  \<^bold>\<open>Home Assistant.\<close> \<open>Ha_Core\<close>: the two slots of the HTTP settings, judging them (\<^verbatim>\<open>assess\<close>), the configuration to save
  (\<^verbatim>\<open>merged\<close>), its validation, and what covers what. \<open>Ha_Websocket\<close>: frames, the handshake, commands and their results.
  \<open>Ha_Allow\<close>: the conversation of Allow, the wait for the restart with its deadline, and the confirmation at start;
  \<open>Ha_Allow_Facts\<close>: nothing is confirmed that was not checked, nothing saved that was not needed, other settings are only
  read, and Allow ends. The wait is bounded by its deadline; 302 rounds of fuel are enough because every round sleeps a
  second or is over, which the locale \<open>polling\<close> of the prelude shows of every such loop.

  \<^bold>\<open>Tokens of the local API.\<close> \<open>Auth\<close>: setup, operate and viewer tokens on disk, the gates of the routes, the audit log, and
  the handlers; integers are \<^verbatim>\<open>u64\<close> words. \<open>Auth_Facts\<close>: who passes which gate, a revoked token stays refused whatever
  happens after (an instance of \<open>guarded_machine\<close>), and the two places where the checks give way. SHA-256, base64 and the
  JSON text form are parameters, with what the code relies on as hypotheses; \<open>Sample_Codec\<close> shows that they can hold.

  \<^bold>\<open>Pairing.\<close> \<open>Service_Account\<close>: the key file, the assertion, the form, the exchange. \<open>Pairing_Text\<close>, \<open>Pairing_Files\<close>: names,
  replies, the pause of polling, and the files that let a run continue. \<open>Pairing\<close>: the device login, the choice of the
  project, the service account, its access, its key. \<open>Pairing_Facts\<close>, \<open>Event_Order\<close>: what is asked before what, what the
  key file can hold, that pairing ends once a project is chosen in finitely many rounds, and the order of the events it
  reports. \<open>Setup\<close>, \<open>Setup_Facts\<close>: the controller behind the page, as a step relation with its invariant: what the page
  shows is the run's doing, and a run thrown away is silent.

  \<^bold>\<open>Tunnels.\<close> \<open>Kube_Objects\<close>: the objects. \<open>Tunnel_Rules\<close>: endpoints, routing rules, advertisements, classes, quota texts.
  \<open>Tunnel_Progress\<close>: the steps a tunnel goes through until it is ready. \<open>Edge_Policies\<close>: the policies as JSON.
  \<open>Kube_Calls\<close>: requests and replies, the retries of a quota check (five attempts, pauses of 1, 2, 4 and 8 seconds), the
  policy pass, each call of which gives up after 30 seconds. \<open>Tunnels\<close>: every operation of \<^verbatim>\<open>TunnelService\<close>.
  \<open>Tunnels_Facts\<close>: what is never asked. \<open>Api_Server\<close>, \<open>Tunnel_Table\<close>, \<open>Reference_Api\<close>: an abstract table with a row for
  each tunnel, and the proof that against any server that keeps the API's promises every operation does to the table
  exactly what it says; a reference server that keeps them.

  \<^bold>\<open>Keeping a tunnel alive.\<close> \<open>Heartbeat\<close> (\<^verbatim>\<open>heartbeat.rs\<close>): the loop that renews the lease of a node's connector and writes its
  connection details. \<open>Heartbeat_Facts\<close>: it stays with the connector listed under the node's own key; \<open>Heartbeat_Renewal\<close>: against
  an API that works the lease is renewed in every round; \<open>Heartbeat_Agent\<close>: one loop for a project, with stale ends ignored.
  \<open>Token_Source\<close>, \<open>Token_Facts\<close> (\<^verbatim>\<open>external_token_source.rs\<close>): where the token comes from, when it is fetched again, and how
  a forced refresh that changes nothing is recognised. \<open>Datum_Client\<close> (\<^verbatim>\<open>datum_cloud/mod.rs\<close>, \<^verbatim>\<open>env.rs\<close>,
  \<^verbatim>\<open>project_control_plane.rs\<close>): which token a client of the API carries, and that the task meant to renew it does not.

  \<^bold>\<open>The machine.\<close> \<open>Repository\<close>, \<open>Repository_Facts\<close> (\<^verbatim>\<open>repo.rs\<close>, \<^verbatim>\<open>state.rs\<close>, \<^verbatim>\<open>config.rs\<close>): keys, configuration and the shared list of
  targets on disk; YAML is a parameter. \<open>Listen_Node\<close>, \<open>Listen_Node_Facts\<close> (\<^verbatim>\<open>node.rs\<close>): the choice of relays, the making of a node, and which
  request reaches which target. \<open>Supervisor\<close>, \<open>Supervisor_Facts\<close> (\<^verbatim>\<open>ha_supervisor.rs\<close>): the calls to Home Assistant's Supervisor, the texts of
  notifications with their escaping, and the queue that shows them in order.

  \<^bold>\<open>The daemon.\<close> \<open>Daemon\<close> (\<^verbatim>\<open>daemon/src/main.rs\<close>, \<^verbatim>\<open>exclusive.rs\<close>): its state, the running tunnels, their inspectors and which tunnel is claimed by an
  operation, and every handler over it. \<open>Daemon_Facts\<close>: the heartbeats are those of the running tunnels. \<open>Daemon_Requests\<close>: the order of a
  start, who may aim a tunnel, and what a deletion leaves. \<open>Daemon_Rounds\<close>: the sweep and the reconciliation at start. \<open>Routes\<close>: the table of
  routes with their gates. \<open>Daemon_Start\<close>: what is decided before it serves. \<open>Inspector\<close>, \<open>Inspector_Facts\<close> (\<^verbatim>\<open>inspector.rs\<close>): a request through the inspector as the frames
  that pass, and what is captured of it. \<open>Log_Sources\<close>, \<open>Log_Facts\<close> (\<^verbatim>\<open>logs.rs\<close>): the registry of log files and reading the last lines of one from
  its end. \<open>Ingress\<close>, \<open>Ingress_Facts\<close> (\<^verbatim>\<open>ingress.rs\<close>): the page's server with its checks; \<open>Addon_Page\<close>, \<open>Addon_Facts\<close>, \<open>Addon_Actions\<close>
  (\<^verbatim>\<open>addon_page.rs\<close>): what the page shows and does once paired, with the one Allow that may run. \<open>Peer\<close>, \<open>Peer_Facts\<close> (\<^verbatim>\<open>peer.rs\<close>): targets offered to peers by
  ticket, the connections to them, and the watch over a connection. \<open>Pair_Command\<close>, \<open>Pair_Command_Facts\<close>: the commands \<^verbatim>\<open>pair\<close> and \<^verbatim>\<open>setup\<close> around a
  run of pairing, and how they end.

  \<^bold>\<open>The command line client.\<close> \<open>Cli_Progress\<close> (\<^verbatim>\<open>bin/src/progress.rs\<close>): the steps as they change, the search for the name servers of a new name,
  and the probes. \<open>Cli\<close> (\<^verbatim>\<open>bin/src/main.rs\<close>): the four commands, and \<^verbatim>\<open>listen\<close> from the choice of tunnel and key to the cleanup. \<open>Cli_Facts\<close>, \<open>Cli_Parts\<close>:
  which requests each part makes; \<open>Cli_Promises\<close>, \<open>Cli_Own\<close>: announced only when reachable, deleted only at its end, never another device's
  tunnel, and a saved key that is not the one in use; \<open>Cli_Demo\<close>: a whole run.

  \<^bold>\<open>Bounds and fuel.\<close> A loop of the source without a limit is \<open>repeat_io\<close> with a number of rounds, and \<open>None\<close> says that it still runs; theorems about such a
  computation hold for every number. Where a loop ends by itself the number that is enough is proved: Allow, the page's confirmation, pairing, and the
  retries. Integers are words or carry the source's bound where it matters: \<^verbatim>\<open>u64\<close> times of tokens, 32-bit counters, 16-bit ports; times are
  milliseconds without the upper bound of the clock, except where the code adds to one it was given.

  \<^bold>\<open>Interleaving.\<close> An operation of the daemon is one computation, and operations run one after another; what the code guards by a claim or a lock is
  modelled as that claim. Tasks that run beside them are operations of their own, in any order: the rounds of the heartbeat, of the
  sweep, of Allow, of the watch over a connection, the ends of runs of pairing.

  \<^bold>\<open>Not modelled.\<close> The iroh endpoint, its proxy protocol and relays, kube, hyper, axum, reqwest, the resolver, serde and clap are other packages: they are parameters,
  or the environment answers for them. Of the listen node, what only passes calls on to iroh; of the daemon, the parsing of its
  arguments, the set-up of logging and the wiring of axum, and the numbers of its metrics; of the API clients, the fixed profile and the
  empty list of organizations. The texts of log lines are left out unless a person is meant to act on them. Files in other languages are
  not part of this library: the Go plugin that starts the client, the dashboard and the page's own script, which display what
  the routes return, and the add-on's packaging, containers, demos and scripts. \<^verbatim>\<open>test_util.rs\<close> is used by tests only.
\<close>

end
